(* ===== verification/Prelude.thy ===== *)
theory Prelude
  imports Main "HOL-Library.Word" "HOL-Library.Signed_Division"
begin

text \<open>
  Shared vocabulary of the development: the machine integer types of the C code, the
  result type of C expressions that can be undefined, the checked 32-bit signed
  arithmetic, bit masks, and the window of a ring of slots that both queue
  implementations (\<^verbatim>\<open>uni_circular_buffer.c\<close>, \<^verbatim>\<open>btstack_ring_buffer.c\<close>) keep.

  \<^verbatim>\<open>int32_t\<close> and \<^verbatim>\<open>int\<close> values are HOL integers together with explicit range checks:
  signed overflow is undefined in C, so an operation that leaves the range is the value
  \<open>Inl Signed_overflow\<close> and never a wrapped number. Unsigned types are words and wrap.
\<close>

unbundle bit_operations_syntax

section \<open>Fact collections\<close>

named_theorems c_arith "unfolding rules of the checked C operations"
named_theorems keeps "what the operations of the usage parsers keep"
named_theorems dev_simps "projections of device-table updates"

section \<open>Machine integers\<close>

type_synonym u8 = "8 word"
type_synonym u16 = "16 word"
type_synonym u32 = "32 word"
type_synonym bytes = "u8 list"

definition in_i32 :: "int \<Rightarrow> bool" where
  "in_i32 x \<longleftrightarrow> - (2 ^ 31) \<le> x \<and> x < 2 ^ 31"

definition u32_of_i32 :: "int \<Rightarrow> u32" where
  "u32_of_i32 x = word_of_int x"

definition i32_of_u32 :: "u32 \<Rightarrow> int" where
  "i32_of_u32 w = sint w"

lemma i32_of_u32_range [simp]: "in_i32 (i32_of_u32 w)"
  using sint_greater_eq [of w] sint_less [of w]
  by (simp add: in_i32_def i32_of_u32_def)

lemma i32_of_u32_of_i32: "in_i32 x \<Longrightarrow> i32_of_u32 (u32_of_i32 x) = x"
  by (simp add: in_i32_def i32_of_u32_def u32_of_i32_def sint_sbintrunc'
      signed_take_bit_int_eq_self)

section \<open>Results of C expressions\<close>

datatype c_error =
    Signed_overflow
  | Division_by_zero
  | Shift_out_of_range
  | Out_of_bounds
  | Null_dereference
  | Assertion_failed
  | Registered_timer_cleared
  | Unbounded_recursion
  | Uninitialised_read
  | Never_returns

type_synonym 'a cres = "c_error + 'a"

definition bindR :: "'a cres \<Rightarrow> ('a \<Rightarrow> 'b cres) \<Rightarrow> 'b cres" where
  "bindR r f = (case r of Inl e \<Rightarrow> Inl e | Inr x \<Rightarrow> f x)"

definition mapR :: "('a \<Rightarrow> 'b) \<Rightarrow> 'a cres \<Rightarrow> 'b cres" where
  "mapR f r = (case r of Inl e \<Rightarrow> Inl e | Inr x \<Rightarrow> Inr (f x))"

lemma bindR_simps [simp]:
  "bindR (Inl e) f = Inl e"
  "bindR (Inr x) f = f x"
  by (simp_all add: bindR_def)

lemma mapR_simps [simp]:
  "mapR g (Inl e) = Inl e"
  "mapR g (Inr x) = Inr (g x)"
  by (simp_all add: mapR_def)

lemma bindR_Inr_iff: "bindR r f = Inr y \<longleftrightarrow> (\<exists>x. r = Inr x \<and> f x = Inr y)"
  by (cases r) auto

lemma mapR_Inr_iff: "mapR g r = Inr y \<longleftrightarrow> (\<exists>x. r = Inr x \<and> y = g x)"
  by (cases r) auto

definition i32 :: "int \<Rightarrow> int cres" where
  "i32 x = (if in_i32 x then Inr x else Inl Signed_overflow)"

definition i32_div :: "int \<Rightarrow> int \<Rightarrow> int cres" where
  "i32_div a b = (if b = 0 then Inl Division_by_zero else i32 (a sdiv b))"

definition i32_shl_1 :: "nat \<Rightarrow> int cres" where
  "i32_shl_1 n = (if 32 \<le> n then Inl Shift_out_of_range else i32 (2 ^ n))"

lemma i32_ok [c_arith]: "in_i32 x \<Longrightarrow> i32 x = Inr x"
  by (simp add: i32_def)

lemma i32_Inr_iff: "i32 x = Inr y \<longleftrightarrow> in_i32 x \<and> y = x"
  by (auto simp: i32_def)

section \<open>Bit masks\<close>

definition BIT :: "nat \<Rightarrow> 'a::len word" where
  "BIT n = push_bit n 1"

lemma bit_BIT: "bit (BIT n :: 'a::len word) k \<longleftrightarrow> k = n \<and> n < LENGTH('a)"
  by (auto simp: BIT_def bit_simps)

lemma and_BIT_ne_0: "w AND BIT n \<noteq> 0 \<longleftrightarrow> bit (w :: 'a::len word) n"
proof -
  have "w AND BIT n \<noteq> 0 \<longleftrightarrow> (\<exists>k. bit (w AND BIT n) k)"
    by (simp add: bit_eq_iff) (blast dest: bit_imp_le_length)
  also have "\<dots> \<longleftrightarrow> bit w n"
    by (auto simp: bit_simps bit_BIT dest: bit_imp_le_length)
  finally show ?thesis .
qed

lemma word_disjoint_OR_AND:
  "m AND k = (0 :: 'a::len word) \<Longrightarrow> (b OR k) AND m = b AND m"
  by (simp add: bit_eq_iff bit_simps) blast

lemma word_xor_cancel [simp]:
  "v XOR u = w XOR u \<longleftrightarrow> v = (w :: 'a::len word)"
  "u XOR v = u XOR w \<longleftrightarrow> v = (w :: 'a::len word)"
  by (auto simp: bit_eq_iff bit_xor_iff)

section \<open>Rings of slots\<close>

text \<open>
  \<open>ring_window n xs h c\<close> lists the \<open>c\<close> slots that start at index \<open>h\<close>, wrapping at \<open>n\<close>.
\<close>

definition ring_window :: "nat \<Rightarrow> 'a list \<Rightarrow> nat \<Rightarrow> nat \<Rightarrow> 'a list" where
  "ring_window n xs h c = map (\<lambda>i. xs ! ((h + i) mod n)) [0..<c]"

lemma length_ring_window [simp]: "length (ring_window n xs h c) = c"
  by (simp add: ring_window_def)

lemma ring_window_0 [simp]: "ring_window n xs h 0 = []"
  by (simp add: ring_window_def)

lemma ring_window_pop:
  assumes "0 < n"
  shows "ring_window n xs h (Suc c) = xs ! (h mod n) # ring_window n xs (Suc h mod n) c"
proof -
  have "ring_window n xs h (Suc c) = map (\<lambda>i. xs ! ((h + i) mod n)) (0 # map Suc [0..<c])"
    by (simp only: ring_window_def upt_conv_Cons [OF zero_less_Suc] map_Suc_upt)
  also have "\<dots> = xs ! (h mod n) # map (\<lambda>i. xs ! ((Suc h mod n + i) mod n)) [0..<c]"
    by (simp add: o_def mod_add_left_eq)
  finally show ?thesis by (simp only: ring_window_def)
qed

lemma ring_index_neq:
  fixes h i c n :: nat
  assumes "i < c" and "c < n"
  shows "(h + i) mod n \<noteq> (h + c) mod n"
proof
  assume "(h + i) mod n = (h + c) mod n"
  then have "(h + c) mod n = (h + i) mod n" by simp
  then have "n dvd (h + c) - (h + i)"
    by (subst (asm) mod_eq_dvd_iff_nat) (use assms in auto)
  then have "n dvd c - i" by simp
  then have "n \<le> c - i" using assms by (intro dvd_imp_le) auto
  with assms show False by simp
qed

lemma ring_window_push:
  assumes "c < n" and "length xs = n"
  shows "ring_window n (xs[(h + c) mod n := x]) h (Suc c) = ring_window n xs h c @ [x]"
proof -
  have "(h + c) mod n < length xs" using assms by simp
  moreover have "xs[(h + c) mod n := x] ! ((h + i) mod n) = xs ! ((h + i) mod n)" if "i < c" for i
    using ring_index_neq [OF that assms(1), of h] by (intro nth_list_update_neq) simp
  ultimately show ?thesis by (simp add: ring_window_def)
qed

section \<open>Machines driven by events\<close>

text \<open>
  A component that reacts to events: \<open>run_steps\<close> feeds it a sequence of them and stops at
  the first failed assertion or undefined operation. The contract \<open>safe_machine\<close> is that
  an invariant rules those out.
\<close>

primrec run_steps :: "('ev \<Rightarrow> 's \<Rightarrow> 's cres) \<Rightarrow> 'ev list \<Rightarrow> 's \<Rightarrow> 's cres" where
  "run_steps step [] s = Inr s"
| "run_steps step (ev # evs) s = bindR (step ev s) (run_steps step evs)"

lemma run_steps_append:
  "run_steps step (evs @ evs') s = bindR (run_steps step evs s) (run_steps step evs')"
proof (induction evs arbitrary: s)
  case Nil
  then show ?case by simp
next
  case (Cons ev evs)
  then show ?case by (cases "step ev s") simp_all
qed

locale safe_machine =
  fixes step :: "'ev \<Rightarrow> 's \<Rightarrow> 's cres"
    and inv :: "'s \<Rightarrow> bool"
  assumes step_safe: "inv s \<Longrightarrow> \<exists>s'. step ev s = Inr s' \<and> inv s'"
begin

lemma run_safe:
  assumes "inv s"
  shows "\<exists>s'. run_steps step evs s = Inr s' \<and> inv s'"
  using assms
proof (induction evs arbitrary: s)
  case Nil
  then show ?case by simp
next
  case (Cons ev evs)
  from step_safe [OF Cons.prems, of ev] obtain s1 where "step ev s = Inr s1" "inv s1" by blast
  with Cons.IH [of s1] show ?case by simp
qed

text \<open>A condition that holds after a step from any invariant state holds after every non-empty run.\<close>

lemma run_ends:
  assumes "inv s" and "run_steps step (evs @ [ev]) s = Inr s'"
  shows "\<exists>s1. inv s1 \<and> step ev s1 = Inr s'"
proof -
  obtain s1 where s1: "run_steps step evs s = Inr s1" "inv s1" using run_safe [OF assms(1)] by blast
  have "run_steps step (evs @ [ev]) s = bindR (step ev s1) Inr"
    by (simp add: run_steps_append s1) (cases "step ev s1"; simp)
  with assms(2) s1(2) show ?thesis by (cases "step ev s1") auto
qed

end

text \<open>
  The contract of a machine that fails in known situations: \<open>fails s ev e\<close> says when the event
  \<open>ev\<close> in the state \<open>s\<close> is allowed to fail with \<open>e\<close>.
\<close>

locale fallible_machine =
  fixes step :: "'ev \<Rightarrow> 's \<Rightarrow> 's cres"
    and inv :: "'s \<Rightarrow> bool"
    and fails :: "'s \<Rightarrow> 'ev \<Rightarrow> c_error \<Rightarrow> bool"
  assumes step_result: "inv s \<Longrightarrow> case step ev s of Inl e \<Rightarrow> fails s ev e | Inr s' \<Rightarrow> inv s'"
begin

lemma run_result:
  assumes "inv s"
  shows "case run_steps step evs s of
      Inl e \<Rightarrow> \<exists>before ev after s1. evs = before @ ev # after \<and> run_steps step before s = Inr s1
                 \<and> inv s1 \<and> step ev s1 = Inl e \<and> fails s1 ev e
    | Inr s' \<Rightarrow> inv s'"
  using assms
proof (induction evs arbitrary: s)
  case Nil
  then show ?case by simp
next
  case (Cons ev evs)
  show ?case
  proof (cases "step ev s")
    case (Inl e)
    with step_result [OF Cons.prems, of ev] Cons.prems
    have "ev # evs = [] @ ev # evs \<and> run_steps step [] s = Inr s \<and> inv s \<and> step ev s = Inl e \<and> fails s ev e"
      by simp
    with Inl show ?thesis by (auto intro!: exI [of _ "[]"])
  next
    case (Inr s')
    with step_result [OF Cons.prems, of ev] have "inv s'" by simp
    from Cons.IH [OF this] show ?thesis
    proof (cases "run_steps step evs s'")
      case (Inl e)
      with Cons.IH [OF \<open>inv s'\<close>] obtain before ev' after s1 where
        split: "evs = before @ ev' # after" "run_steps step before s' = Inr s1" "inv s1"
          "step ev' s1 = Inl e" "fails s1 ev' e" by auto
      then have "ev # evs = (ev # before) @ ev' # after \<and> run_steps step (ev # before) s = Inr s1"
        using Inr by simp
      then have "\<exists>pre ev'' post s1. ev # evs = pre @ ev'' # post \<and> run_steps step pre s = Inr s1
          \<and> inv s1 \<and> step ev'' s1 = Inl e \<and> fails s1 ev'' e"
        using split by blast
      with Inl Inr show ?thesis by simp
    qed (use Inr in auto)
  qed
qed

end

end
