(* ===== verification/Circular_Buffer.thy ===== *)
theory Circular_Buffer
  imports Prelude
begin

text \<open>
  \<^verbatim>\<open>components/bluepad32/uni_circular_buffer.c\<close>: the queue of outgoing reports every
  device keeps. The slots are a list of \<open>UNI_CIRCULAR_BUFFER_SIZE\<close> records; the data
  array of a slot has 128 bytes, of which \<^verbatim>\<open>data_len\<close> are the packet. The locale
  \<open>bounded_fifo\<close> is the contract of a bounded queue, and the theory interprets it on
  the operations of the C file.
\<close>

section \<open>The interface: a bounded queue\<close>

primrec put_all :: "('a \<Rightarrow> 'q \<Rightarrow> 'e + 'q) \<Rightarrow> 'a list \<Rightarrow> 'q \<Rightarrow> 'e + 'q" where
  "put_all put [] q = Inr q"
| "put_all put (x # xs) q = (case put x q of Inl e \<Rightarrow> Inl e | Inr q' \<Rightarrow> put_all put xs q')"

primrec get_many :: "('q \<Rightarrow> 'e + ('a \<times> 'q)) \<Rightarrow> nat \<Rightarrow> 'q \<Rightarrow> 'e + ('a list \<times> 'q)" where
  "get_many get 0 q = Inr ([], q)"
| "get_many get (Suc n) q =
     (case get q of Inl e \<Rightarrow> Inl e
      | Inr (x, q') \<Rightarrow> (case get_many get n q' of Inl e \<Rightarrow> Inl e
                      | Inr (xs, q'') \<Rightarrow> Inr (x # xs, q'')))"

locale bounded_fifo =
  fixes qinv :: "'q \<Rightarrow> bool"
    and contents :: "'q \<Rightarrow> 'a list"
    and capacity :: nat
    and admissible :: "'a \<Rightarrow> bool"
    and put :: "'a \<Rightarrow> 'q \<Rightarrow> 'e + 'q"
    and get :: "'q \<Rightarrow> 'e + ('a \<times> 'q)"
  assumes contents_bound: "qinv q \<Longrightarrow> length (contents q) \<le> capacity"
    and put_accepts: "\<lbrakk>qinv q; admissible x; length (contents q) < capacity\<rbrakk> \<Longrightarrow>
          \<exists>q'. put x q = Inr q' \<and> qinv q' \<and> contents q' = contents q @ [x]"
    and put_rejects: "\<lbrakk>qinv q; \<not> (admissible x \<and> length (contents q) < capacity)\<rbrakk> \<Longrightarrow>
          \<exists>e. put x q = Inl e"
    and get_first: "\<lbrakk>qinv q; contents q = x # xs\<rbrakk> \<Longrightarrow>
          \<exists>q'. get q = Inr (x, q') \<and> qinv q' \<and> contents q' = xs"
    and get_empty: "\<lbrakk>qinv q; contents q = []\<rbrakk> \<Longrightarrow> \<exists>e. get q = Inl e"
begin

lemma put_Inr_iff:
  assumes "qinv q"
  shows "(\<exists>q'. put x q = Inr q') \<longleftrightarrow> admissible x \<and> length (contents q) < capacity"
  using put_accepts [OF assms] put_rejects [OF assms] by (metis sum.distinct(1))

lemma put_InrD:
  assumes "qinv q" and "put x q = Inr q'"
  shows "qinv q' \<and> contents q' = contents q @ [x]"
  using put_accepts [of q x] put_Inr_iff [of q x] assms by auto

lemma get_InrD:
  assumes "qinv q" and "get q = Inr (x, q')"
  shows "qinv q' \<and> contents q = x # contents q'"
proof (cases "contents q")
  case Nil
  with assms get_empty [of q] show ?thesis by auto
next
  case (Cons y ys)
  with assms get_first [of q y ys] show ?thesis by auto
qed

lemma put_all_contents:
  assumes "qinv q" and "\<forall>x \<in> set xs. admissible x"
    and "length (contents q) + length xs \<le> capacity"
  shows "\<exists>q'. put_all put xs q = Inr q' \<and> qinv q' \<and> contents q' = contents q @ xs"
  using assms
proof (induction xs arbitrary: q)
  case Nil
  then show ?case by simp
next
  case (Cons x xs)
  then obtain q' where q': "put x q = Inr q'" "qinv q'" "contents q' = contents q @ [x]"
    using put_accepts [of q x] by auto
  with Cons.prems Cons.IH [of q'] show ?case by simp
qed

lemma get_many_contents:
  assumes "qinv q" and "contents q = xs @ ys"
  shows "\<exists>q'. get_many get (length xs) q = Inr (xs, q') \<and> qinv q' \<and> contents q' = ys"
  using assms
proof (induction xs arbitrary: q)
  case Nil
  then show ?case by simp
next
  case (Cons x xs)
  then obtain q' where "get q = Inr (x, q')" "qinv q'" "contents q' = xs @ ys"
    using get_first [of q x "xs @ ys"] by auto
  with Cons.IH [of q'] show ?case by auto
qed

lemma put_all_get_many:
  assumes "qinv q" and "contents q = []" and "\<forall>x \<in> set xs. admissible x"
    and "length xs \<le> capacity"
  shows "\<exists>q' q''. put_all put xs q = Inr q' \<and> get_many get (length xs) q' = Inr (xs, q'')
           \<and> qinv q'' \<and> contents q'' = []"
proof -
  obtain q' where q': "put_all put xs q = Inr q'" "qinv q'" "contents q' = xs @ []"
    using put_all_contents [of q xs] assms by auto
  with get_many_contents [of q' xs "[]"] show ?thesis by auto
qed

end

section \<open>The C data structure\<close>

definition UNI_CIRCULAR_BUFFER_SIZE :: nat where
  "UNI_CIRCULAR_BUFFER_SIZE = 32"

definition UNI_CIRCULAR_BUFFER_DATA_SIZE :: nat where
  "UNI_CIRCULAR_BUFFER_DATA_SIZE = 128"

datatype cb_error = BUFFER_FULL | BUFFER_EMPTY | BUFFER_TOO_BIG

record uni_circular_buffer_data =
  cbd_cid :: u16
  cbd_data :: bytes
  cbd_data_len :: nat

record uni_circular_buffer =
  cb_buffer :: "uni_circular_buffer_data list"
  cb_head_idx :: nat
  cb_tail_idx :: nat

definition uni_circular_buffer_is_empty :: "uni_circular_buffer \<Rightarrow> bool" where
  "uni_circular_buffer_is_empty b \<longleftrightarrow> cb_head_idx b = cb_tail_idx b"

definition uni_circular_buffer_is_full :: "uni_circular_buffer \<Rightarrow> bool" where
  "uni_circular_buffer_is_full b \<longleftrightarrow>
     cb_tail_idx b + 1 = cb_head_idx b
     \<or> (cb_head_idx b = 0 \<and> cb_tail_idx b = UNI_CIRCULAR_BUFFER_SIZE - 1)"

definition uni_circular_buffer_put ::
    "uni_circular_buffer \<Rightarrow> u16 \<Rightarrow> bytes \<Rightarrow> cb_error + uni_circular_buffer" where
  "uni_circular_buffer_put b cid data =
     (if uni_circular_buffer_is_full b then Inl BUFFER_FULL
      else if UNI_CIRCULAR_BUFFER_DATA_SIZE \<le> length data then Inl BUFFER_TOO_BIG
      else
        let slot = cb_buffer b ! cb_tail_idx b;
            slot' = slot\<lparr>cbd_data := data @ drop (length data) (cbd_data slot),
                         cbd_data_len := length data,
                         cbd_cid := cid\<rparr>;
            t = cb_tail_idx b + 1
        in Inr (b\<lparr>cb_buffer := (cb_buffer b)[cb_tail_idx b := slot'],
                  cb_tail_idx := (if t = UNI_CIRCULAR_BUFFER_SIZE then 0 else t)\<rparr>))"

text \<open>
  The C function hands out a pointer into the slot and the length: the model returns the
  index of that slot, the whole data array and the length.
\<close>

definition uni_circular_buffer_get ::
    "uni_circular_buffer \<Rightarrow> cb_error + (u16 \<times> nat \<times> bytes \<times> nat \<times> uni_circular_buffer)" where
  "uni_circular_buffer_get b =
     (if uni_circular_buffer_is_empty b then Inl BUFFER_EMPTY
      else
        let slot = cb_buffer b ! cb_head_idx b;
            h = cb_head_idx b + 1
        in Inr (cbd_cid slot, cb_head_idx b, cbd_data slot, cbd_data_len slot,
                b\<lparr>cb_head_idx := (if h = UNI_CIRCULAR_BUFFER_SIZE then 0 else h)\<rparr>))"

definition uni_circular_buffer_reset :: "uni_circular_buffer \<Rightarrow> uni_circular_buffer" where
  "uni_circular_buffer_reset b = b\<lparr>cb_head_idx := 0, cb_tail_idx := 0\<rparr>"

text \<open>A buffer that \<^verbatim>\<open>memset\<close> has zeroed, as \<^verbatim>\<open>uni_hid_device_init\<close> leaves it.\<close>

definition zero_circular_buffer :: uni_circular_buffer where
  "zero_circular_buffer =
     \<lparr>cb_buffer = replicate UNI_CIRCULAR_BUFFER_SIZE
        \<lparr>cbd_cid = 0, cbd_data = replicate UNI_CIRCULAR_BUFFER_DATA_SIZE 0, cbd_data_len = 0\<rparr>,
      cb_head_idx = 0, cb_tail_idx = 0\<rparr>"

section \<open>Abstraction and invariant\<close>

definition cb_slot_packet :: "uni_circular_buffer_data \<Rightarrow> u16 \<times> bytes" where
  "cb_slot_packet s = (cbd_cid s, take (cbd_data_len s) (cbd_data s))"

definition cb_count :: "uni_circular_buffer \<Rightarrow> nat" where
  "cb_count b = (cb_tail_idx b + 32 - cb_head_idx b) mod 32"

definition cb_contents :: "uni_circular_buffer \<Rightarrow> (u16 \<times> bytes) list" where
  "cb_contents b = map cb_slot_packet (ring_window 32 (cb_buffer b) (cb_head_idx b) (cb_count b))"

definition cb_inv :: "uni_circular_buffer \<Rightarrow> bool" where
  "cb_inv b \<longleftrightarrow> length (cb_buffer b) = 32 \<and> cb_head_idx b < 32 \<and> cb_tail_idx b < 32
     \<and> (\<forall>s \<in> set (cb_buffer b). length (cbd_data s) = 128 \<and> cbd_data_len s < 128)"

definition cb_admissible :: "u16 \<times> bytes \<Rightarrow> bool" where
  "cb_admissible p \<longleftrightarrow> length (snd p) < 128"

definition cb_put :: "u16 \<times> bytes \<Rightarrow> uni_circular_buffer \<Rightarrow> cb_error + uni_circular_buffer" where
  "cb_put p b = uni_circular_buffer_put b (fst p) (snd p)"

definition cb_get :: "uni_circular_buffer \<Rightarrow> cb_error + ((u16 \<times> bytes) \<times> uni_circular_buffer)" where
  "cb_get b = (case uni_circular_buffer_get b of Inl e \<Rightarrow> Inl e
     | Inr (cid, i, data, len, b') \<Rightarrow> Inr ((cid, take len data), b'))"

lemmas cb_consts = UNI_CIRCULAR_BUFFER_SIZE_def UNI_CIRCULAR_BUFFER_DATA_SIZE_def

lemma length_cb_contents [simp]: "length (cb_contents b) = cb_count b"
  by (simp add: cb_contents_def)

lemma cb_count_le: "cb_count b \<le> 31"
proof -
  have "cb_count b < 32" by (simp add: cb_count_def)
  then show ?thesis by simp
qed

lemma cb_invD:
  "cb_inv b \<Longrightarrow> length (cb_buffer b) = 32"
  "cb_inv b \<Longrightarrow> cb_head_idx b < 32"
  "cb_inv b \<Longrightarrow> cb_tail_idx b < 32"
  "\<lbrakk>cb_inv b; s \<in> set (cb_buffer b)\<rbrakk> \<Longrightarrow> length (cbd_data s) = 128 \<and> cbd_data_len s < 128"
  by (simp_all add: cb_inv_def)

lemma cb_tail_position:
  assumes "cb_inv b"
  shows "(cb_head_idx b + cb_count b) mod 32 = cb_tail_idx b"
proof -
  have "(cb_head_idx b + cb_count b) mod 32
      = (cb_head_idx b + (cb_tail_idx b + 32 - cb_head_idx b)) mod 32"
    by (simp add: cb_count_def mod_add_right_eq)
  also have "\<dots> = (cb_tail_idx b + 32) mod 32"
    using assms by (simp add: cb_inv_def)
  finally show ?thesis using assms by (simp add: cb_inv_def)
qed

lemma cb_count_cases:
  assumes "cb_inv b"
  shows "cb_count b = (if cb_head_idx b \<le> cb_tail_idx b then cb_tail_idx b - cb_head_idx b
           else cb_tail_idx b + 32 - cb_head_idx b)"
proof (cases "cb_head_idx b \<le> cb_tail_idx b")
  case True
  then have "cb_tail_idx b + 32 - cb_head_idx b = (cb_tail_idx b - cb_head_idx b) + 32" by simp
  then have "cb_count b = (cb_tail_idx b - cb_head_idx b) mod 32"
    by (simp only: cb_count_def mod_add_self2)
  also have "\<dots> = cb_tail_idx b - cb_head_idx b"
    using cb_invD(3) [OF assms] by (intro mod_less) linarith
  finally show ?thesis using True by simp
next
  case False
  with assms show ?thesis by (simp add: cb_count_def cb_inv_def)
qed

lemma cb_is_empty_iff: "cb_inv b \<Longrightarrow> uni_circular_buffer_is_empty b \<longleftrightarrow> cb_count b = 0"
  using cb_invD(2,3) [of b]
  by (auto simp: uni_circular_buffer_is_empty_def cb_count_cases)

lemma cb_is_full_iff: "cb_inv b \<Longrightarrow> uni_circular_buffer_is_full b \<longleftrightarrow> cb_count b = 31"
  using cb_invD(2,3) [of b]
  by (auto simp: uni_circular_buffer_is_full_def cb_count_cases cb_consts)

lemma cb_next_index: "i < 32 \<Longrightarrow> (if i = 31 then 0 else Suc i) = Suc i mod 32"
  by (simp add: mod_Suc)

lemma cb_count_put:
  assumes "cb_inv b" and "cb_count b < 31"
  shows "(Suc (cb_tail_idx b) mod 32 + 32 - cb_head_idx b) mod 32 = Suc (cb_count b)"
proof -
  have "Suc (cb_tail_idx b) mod 32 + 32 - cb_head_idx b
      = Suc (cb_tail_idx b) mod 32 + (32 - cb_head_idx b)"
    using cb_invD(2) [OF assms(1)] by linarith
  also have "(Suc (cb_tail_idx b) mod 32 + (32 - cb_head_idx b)) mod 32
      = (Suc (cb_tail_idx b) + (32 - cb_head_idx b)) mod 32"
    by (rule mod_add_left_eq)
  also have "Suc (cb_tail_idx b) + (32 - cb_head_idx b) = Suc (cb_tail_idx b + 32 - cb_head_idx b)"
    using cb_invD(2) [OF assms(1)] by linarith
  also have "Suc (cb_tail_idx b + 32 - cb_head_idx b) mod 32 = Suc (cb_count b) mod 32"
    unfolding cb_count_def by (rule mod_Suc_eq [symmetric])
  finally show ?thesis using assms(2) by simp
qed

lemma cb_count_get:
  assumes "cb_inv b" and "cb_count b = Suc n"
  shows "(cb_tail_idx b + 32 - Suc (cb_head_idx b) mod 32) mod 32 = n"
proof (cases "cb_head_idx b = 31")
  case True
  with assms cb_count_cases [OF assms(1)] cb_invD(3) [OF assms(1)] show ?thesis
    by (auto split: if_splits)
next
  case False
  then have "Suc (cb_head_idx b) mod 32 = Suc (cb_head_idx b)"
    using cb_invD(2) [OF assms(1)] by simp
  moreover have "cb_tail_idx b + 32 - Suc (cb_head_idx b) = (cb_tail_idx b + 32 - cb_head_idx b) - 1"
    by simp
  moreover have "(cb_tail_idx b + 32 - cb_head_idx b - 1) mod 32 = n"
    using assms(2) cb_invD(2,3) [OF assms(1)] cb_count_cases [OF assms(1)]
    by (auto simp: mod_if split: if_splits)
  ultimately show ?thesis by simp
qed

section \<open>The operations keep the invariant and implement the queue\<close>

lemma zero_circular_buffer_inv: "cb_inv zero_circular_buffer"
  by (simp add: cb_inv_def zero_circular_buffer_def cb_consts)

lemma zero_circular_buffer_contents: "cb_contents zero_circular_buffer = []"
  by (simp add: cb_contents_def cb_count_def zero_circular_buffer_def)

lemma reset_inv: "cb_inv b \<Longrightarrow> cb_inv (uni_circular_buffer_reset b)"
  by (simp add: cb_inv_def uni_circular_buffer_reset_def)

lemma reset_contents: "cb_contents (uni_circular_buffer_reset b) = []"
  by (simp add: cb_contents_def cb_count_def uni_circular_buffer_reset_def)

lemma put_contents:
  assumes inv: "cb_inv b" and room: "cb_count b < 31" and small: "length data < 128"
  shows "\<exists>b'. uni_circular_buffer_put b cid data = Inr b' \<and> cb_inv b'
           \<and> cb_contents b' = cb_contents b @ [(cid, data)]"
proof -
  define slot where "slot = (cb_buffer b ! cb_tail_idx b)
    \<lparr>cbd_data := data @ drop (length data) (cbd_data (cb_buffer b ! cb_tail_idx b)),
     cbd_data_len := length data, cbd_cid := cid\<rparr>"
  define b' where "b' = b\<lparr>cb_buffer := (cb_buffer b)[cb_tail_idx b := slot],
    cb_tail_idx := Suc (cb_tail_idx b) mod 32\<rparr>"
  have put: "uni_circular_buffer_put b cid data = Inr b'"
    using room small cb_is_full_iff [OF inv] cb_invD(3) [OF inv]
    by (simp add: uni_circular_buffer_put_def b'_def slot_def Let_def cb_consts cb_next_index)
  have old: "length (cbd_data (cb_buffer b ! cb_tail_idx b)) = 128"
    using cb_invD [OF inv] by (metis nth_mem)
  have inv': "cb_inv b'"
    using inv small old set_update_subset_insert [of "cb_buffer b" "cb_tail_idx b" slot]
    by (auto simp: cb_inv_def b'_def slot_def)
  have count': "cb_count b' = Suc (cb_count b)"
    using cb_count_put [OF inv room] by (simp add: cb_count_def b'_def)
  have "ring_window 32 (cb_buffer b') (cb_head_idx b) (Suc (cb_count b))
      = ring_window 32 (cb_buffer b) (cb_head_idx b) (cb_count b) @ [slot]"
    using ring_window_push [of "cb_count b" 32 "cb_buffer b" "cb_head_idx b" slot]
      room cb_invD(1) [OF inv] cb_tail_position [OF inv] by (simp add: b'_def)
  moreover have "cb_slot_packet slot = (cid, data)"
    by (simp add: cb_slot_packet_def slot_def)
  ultimately have "cb_contents b' = cb_contents b @ [(cid, data)]"
    using count' by (simp add: cb_contents_def b'_def)
  with put inv' show ?thesis by blast
qed

lemma get_contents:
  assumes inv: "cb_inv b" and ne: "cb_contents b = p # ps"
  shows "\<exists>data len b'. uni_circular_buffer_get b = Inr (fst p, cb_head_idx b, data, len, b')
           \<and> take len data = snd p \<and> cb_inv b' \<and> cb_contents b' = ps
           \<and> cb_buffer b' = cb_buffer b \<and> cb_tail_idx b' = cb_tail_idx b
           \<and> data = cbd_data (cb_buffer b ! cb_head_idx b)"
proof -
  from ne obtain n where n: "cb_count b = Suc n"
    by (metis length_cb_contents length_Cons)
  define slot where "slot = cb_buffer b ! cb_head_idx b"
  define b' where "b' = b\<lparr>cb_head_idx := Suc (cb_head_idx b) mod 32\<rparr>"
  have get: "uni_circular_buffer_get b
      = Inr (cbd_cid slot, cb_head_idx b, cbd_data slot, cbd_data_len slot, b')"
    using n cb_is_empty_iff [OF inv] cb_invD(2) [OF inv]
    by (simp add: uni_circular_buffer_get_def b'_def slot_def Let_def cb_consts cb_next_index)
  have inv': "cb_inv b'" using inv by (simp add: cb_inv_def b'_def)
  have count': "cb_count b' = n"
    using cb_count_get [OF inv n] by (simp add: cb_count_def b'_def)
  have "cb_contents b = cb_slot_packet slot # cb_contents b'"
    using ring_window_pop [of 32 "cb_buffer b" "cb_head_idx b" n] n count' cb_invD(2) [OF inv]
    by (simp add: cb_contents_def b'_def slot_def)
  with ne have "p = cb_slot_packet slot" and "ps = cb_contents b'" by simp_all
  then show ?thesis using get inv'
    by (auto simp: cb_slot_packet_def b'_def slot_def)
qed

interpretation cb: bounded_fifo cb_inv cb_contents 31 cb_admissible cb_put cb_get
proof unfold_locales
  fix b assume "cb_inv b"
  then show "length (cb_contents b) \<le> 31" using cb_count_le by simp
next
  fix b p assume "cb_inv b" "cb_admissible p" "length (cb_contents b) < 31"
  then show "\<exists>b'. cb_put p b = Inr b' \<and> cb_inv b' \<and> cb_contents b' = cb_contents b @ [p]"
    using put_contents [of b "snd p" "fst p"] by (simp add: cb_put_def cb_admissible_def)
next
  fix b p assume "cb_inv b" "\<not> (cb_admissible p \<and> length (cb_contents b) < 31)"
  then show "\<exists>e. cb_put p b = Inl e"
    using cb_is_full_iff [of b] cb_count_le [of b]
    by (auto simp: cb_put_def uni_circular_buffer_put_def cb_admissible_def cb_consts)
next
  fix b p ps assume "cb_inv b" "cb_contents b = p # ps"
  then show "\<exists>b'. cb_get b = Inr (p, b') \<and> cb_inv b' \<and> cb_contents b' = ps"
    using get_contents [of b p ps] by (auto simp: cb_get_def)
next
  fix b assume "cb_inv b" "cb_contents b = []"
  then show "\<exists>e. cb_get b = Inl e"
    using cb_is_empty_iff [of b] length_cb_contents [of b]
    by (simp add: cb_get_def uni_circular_buffer_get_def del: length_cb_contents)
qed

text \<open>
  A packet that was just taken out is never overwritten by the next \<^verbatim>\<open>put\<close>: the slot
  behind the pointer \<^verbatim>\<open>uni_circular_buffer_get\<close> returned is not the slot the tail
  points at, which is what lets a caller queue that very packet again from the pointer.
\<close>

lemma get_slot_not_tail:
  assumes "cb_inv b" and "uni_circular_buffer_get b = Inr (cid, i, data, len, b')"
  shows "i \<noteq> cb_tail_idx b'"
  using assms by (auto simp: uni_circular_buffer_get_def uni_circular_buffer_is_empty_def Let_def
      split: if_splits)

lemma get_then_room:
  assumes "cb_inv b" and "cb_contents b = p # ps" and "cb_get b = Inr (q, b')"
  shows "length (cb_contents b') < 31"
  using cb.get_InrD [OF assms(1,3)] cb.contents_bound [OF assms(1)] by simp

section \<open>Runs of operations\<close>

text \<open>
  Any sequence of calls, with what the caller sees of each: the C buffer against a list
  with at most 31 packets.
\<close>

datatype cb_op = Put u16 bytes | Get | Reset

datatype cb_out = Accepted | Packet u16 bytes | Refused cb_error | Done

definition cb_step :: "cb_op \<Rightarrow> uni_circular_buffer \<Rightarrow> cb_out \<times> uni_circular_buffer" where
  "cb_step op b = (case op of
     Put cid data \<Rightarrow> (case uni_circular_buffer_put b cid data of
        Inl e \<Rightarrow> (Refused e, b) | Inr b' \<Rightarrow> (Accepted, b'))
   | Get \<Rightarrow> (case uni_circular_buffer_get b of
        Inl e \<Rightarrow> (Refused e, b)
      | Inr (cid, i, data, len, b') \<Rightarrow> (Packet cid (take len data), b'))
   | Reset \<Rightarrow> (Done, uni_circular_buffer_reset b))"

definition queue_step :: "cb_op \<Rightarrow> (u16 \<times> bytes) list \<Rightarrow> cb_out \<times> (u16 \<times> bytes) list" where
  "queue_step op q = (case op of
     Put cid data \<Rightarrow>
       if length q = 31 then (Refused BUFFER_FULL, q)
       else if 128 \<le> length data then (Refused BUFFER_TOO_BIG, q)
       else (Accepted, q @ [(cid, data)])
   | Get \<Rightarrow> (case q of [] \<Rightarrow> (Refused BUFFER_EMPTY, q) | p # q' \<Rightarrow> (Packet (fst p) (snd p), q'))
   | Reset \<Rightarrow> (Done, []))"

primrec outputs :: "('op \<Rightarrow> 's \<Rightarrow> 'out \<times> 's) \<Rightarrow> 'op list \<Rightarrow> 's \<Rightarrow> 'out list" where
  "outputs step [] s = []"
| "outputs step (op # ops) s = (let (out, s') = step op s in out # outputs step ops s')"

lemma put_branches:
  assumes "cb_inv b"
  shows "uni_circular_buffer_put b cid data = Inl BUFFER_FULL \<longleftrightarrow> length (cb_contents b) = 31"
    and "uni_circular_buffer_put b cid data = Inl BUFFER_TOO_BIG
      \<longleftrightarrow> length (cb_contents b) \<noteq> 31 \<and> 128 \<le> length data"
    and "uni_circular_buffer_put b cid data \<noteq> Inl BUFFER_EMPTY"
  using cb_is_full_iff [OF assms]
  by (simp_all add: uni_circular_buffer_put_def cb_consts Let_def)

lemma get_empty_branch:
  assumes "cb_inv b" and "cb_contents b = []"
  shows "uni_circular_buffer_get b = Inl BUFFER_EMPTY"
  using assms cb_is_empty_iff [of b] length_cb_contents [of b]
  by (simp add: uni_circular_buffer_get_def del: length_cb_contents)

lemma cb_step_refines:
  assumes inv: "cb_inv b"
  shows "\<exists>b'. cb_step op b = (fst (queue_step op (cb_contents b)), b') \<and> cb_inv b'
    \<and> cb_contents b' = snd (queue_step op (cb_contents b))"
proof (cases op)
  case (Put cid data)
  show ?thesis
  proof (cases "length (cb_contents b) = 31 \<or> 128 \<le> length data")
    case True
    then show ?thesis using inv put_branches [OF inv, of cid data] Put
      by (auto simp: cb_step_def queue_step_def)
  next
    case False
    then have "cb_count b < 31" "length data < 128" using cb_count_le [of b] by auto
    with put_contents [OF inv this, of cid] obtain b' where
      "uni_circular_buffer_put b cid data = Inr b'" "cb_inv b'"
      "cb_contents b' = cb_contents b @ [(cid, data)]" by blast
    with False Put show ?thesis
      by (auto simp: cb_step_def queue_step_def)
  qed
next
  case Get
  show ?thesis
  proof (cases "cb_contents b")
    case Nil
    with inv get_empty_branch [OF inv] Get show ?thesis by (simp add: cb_step_def queue_step_def)
  next
    case (Cons p ps)
    with get_contents [OF inv Cons] Get show ?thesis by (auto simp: cb_step_def queue_step_def)
  qed
next
  case Reset
  with inv show ?thesis by (simp add: cb_step_def queue_step_def reset_inv reset_contents)
qed

lemma cb_run_refines:
  assumes "cb_inv b"
  shows "outputs cb_step ops b = outputs queue_step ops (cb_contents b)"
  using assms
proof (induction ops arbitrary: b)
  case Nil
  then show ?case by simp
next
  case (Cons op ops)
  from cb_step_refines [OF Cons.prems, of op] obtain b' where
    b': "cb_step op b = (fst (queue_step op (cb_contents b)), b')" "cb_inv b'"
      "cb_contents b' = snd (queue_step op (cb_contents b))" by blast
  from Cons.IH [OF b'(2)] b' show ?case by (simp add: split_beta Let_def)
qed

text \<open>C35: Refinement of the outgoing queue. Starting from the zeroed buffer of a new device,
  every sequence of put, get and reset calls produces exactly the outputs of a
  first-in-first-out list that holds at most 31 packets and refuses packets of 128 bytes
  or more, whatever the indices have wrapped to.\<close>

theorem circular_buffer_refines_queue:
  "outputs cb_step ops zero_circular_buffer = outputs queue_step ops []"
  using cb_run_refines [OF zero_circular_buffer_inv] by (simp add: zero_circular_buffer_contents)

text \<open>A burst of packets that fits is delivered completely and in order: from any
  reachable empty state, putting the packets and getting as many returns them unchanged and
  leaves the buffer empty.\<close>

theorem burst_delivered_in_order:
  assumes "cb_inv b" and "cb_contents b = []" and "\<forall>p \<in> set ps. length (snd p) < 128"
    and "length ps \<le> 31"
  shows "\<exists>b' b''. put_all cb_put ps b = Inr b' \<and> get_many cb_get (length ps) b' = Inr (ps, b'')
    \<and> cb_inv b'' \<and> cb_contents b'' = []"
  using cb.put_all_get_many [of b ps] assms by (simp add: cb_admissible_def)

theorem burst_delivered_in_order_witness:
  "\<exists>b' b''. put_all cb_put [(1, [7, 8]), (2, [9])] zero_circular_buffer = Inr b'
    \<and> get_many cb_get 2 b' = Inr ([(1, [7, 8]), (2, [9])], b'')"
  using burst_delivered_in_order [OF zero_circular_buffer_inv zero_circular_buffer_contents,
      of "[(1, [7, 8]), (2, [9])]"]
  by (simp del: put_all.simps get_many.simps add: numeral_2_eq_2) blast

end
