(* ===== verification/Crc32.thy ===== *)
theory Crc32
  imports Prelude
begin

text \<open>
  \<^verbatim>\<open>components/bluepad32/uni_utils.c\<close>: the reflected CRC-32 that signs the reports
  exchanged with the PlayStation controllers. \<open>crc_bit\<close> is the body of the inner loop,
  \<open>crc_byte\<close> the eight rounds of it, and \<open>uni_crc32_le\<close> the outer loop. The lemmas
  show that the register update is linear and injective, and what errors it detects.
\<close>

definition CRCPOLY :: u32 where
  "CRCPOLY = 0xedb88320"

definition crc_bit :: "u32 \<Rightarrow> u32" where
  "crc_bit crc = (let mult = (if crc AND 1 \<noteq> 0 then CRCPOLY else 0) in drop_bit 1 crc XOR mult)"

primrec crc_rounds :: "nat \<Rightarrow> u32 \<Rightarrow> u32" where
  "crc_rounds 0 crc = crc"
| "crc_rounds (Suc i) crc = crc_rounds i (crc_bit crc)"

primrec uni_crc32_le :: "u32 \<Rightarrow> bytes \<Rightarrow> u32" where
  "uni_crc32_le crc [] = crc"
| "uni_crc32_le crc (b # bs) = uni_crc32_le (crc_rounds 8 (crc XOR ucast b)) bs"

section \<open>Linearity and injectivity\<close>

lemma and_1_ne_0_iff: "(w :: u32) AND 1 \<noteq> 0 \<longleftrightarrow> bit w 0"
  by (simp add: and_one_eq odd_iff_mod_2_eq_one bit_0)

lemma bit_crc_bit: "bit (crc_bit w) n \<longleftrightarrow> bit w (Suc n) \<noteq> (bit w 0 \<and> bit CRCPOLY n)"
  unfolding crc_bit_def Let_def and_1_ne_0_iff
  by (auto simp: bit_simps)

lemma crc_bit_xor: "crc_bit (v XOR w) = crc_bit v XOR crc_bit w"
  by (rule bit_eqI) (auto simp: bit_crc_bit bit_simps)

lemma crc_bit_0 [simp]: "crc_bit 0 = 0"
  by (simp add: crc_bit_def)

lemma CRCPOLY_top: "bit CRCPOLY 31"
  by (simp add: CRCPOLY_def)

lemma bit_31_crc_bit: "bit (crc_bit w) 31 \<longleftrightarrow> bit w 0"
  using CRCPOLY_top bit_imp_le_length [of w 32] by (auto simp: bit_crc_bit)

lemma crc_bit_inj: "crc_bit v = crc_bit w \<longleftrightarrow> v = w"
proof
  assume eq: "crc_bit v = crc_bit w"
  then have low: "bit v 0 = bit w 0" by (simp flip: bit_31_crc_bit)
  show "v = w"
  proof (rule bit_eqI)
    fix n
    show "bit v n = bit w n"
    proof (cases n)
      case 0
      then show ?thesis using low by simp
    next
      case (Suc m)
      have "bit (crc_bit v) m = bit (crc_bit w) m" using eq by simp
      then show ?thesis using low Suc by (auto simp: bit_crc_bit)
    qed
  qed
qed simp

lemma crc_rounds_xor: "crc_rounds n (v XOR w) = crc_rounds n v XOR crc_rounds n w"
  by (induction n arbitrary: v w) (simp_all add: crc_bit_xor)

lemma crc_rounds_0 [simp]: "crc_rounds n 0 = 0"
  by (induction n) simp_all

lemma crc_rounds_inj: "crc_rounds n v = crc_rounds n w \<longleftrightarrow> v = w"
  by (induction n arbitrary: v w) (simp_all add: crc_bit_inj)

lemma crc_rounds_add: "crc_rounds (m + n) w = crc_rounds n (crc_rounds m w)"
  by (induction m arbitrary: w) simp_all

lemma uni_crc32_le_append: "uni_crc32_le crc (xs @ ys) = uni_crc32_le (uni_crc32_le crc xs) ys"
  by (induction xs arbitrary: crc) simp_all

lemma uni_crc32_le_inj: "uni_crc32_le v xs = uni_crc32_le w xs \<longleftrightarrow> v = w"
  by (induction xs arbitrary: v w) (simp_all only: uni_crc32_le.simps crc_rounds_inj word_xor_cancel)

section \<open>Bursts of four bytes\<close>

text \<open>
  Bits above the ones being shifted out do not take part in a round: shifting them in
  first and running the rounds later is the same as adding them afterwards.
\<close>

lemma crc_bit_push_bit:
  assumes "\<And>k. bit d k \<Longrightarrow> k + Suc n < 32"
  shows "crc_bit (push_bit (Suc n) d) = push_bit n d"
proof (rule bit_eqI)
  fix k
  have "\<not> bit (push_bit (Suc n) d) 0" by (simp only: bit_push_bit_iff) simp
  moreover have "bit (push_bit (Suc n) d) (Suc k) \<longleftrightarrow> n \<le> k \<and> Suc k < 32 \<and> bit d (k - n)"
    by (simp only: bit_push_bit_iff) simp
  moreover have "bit (push_bit n d) k \<longleftrightarrow> n \<le> k \<and> k < 32 \<and> bit d (k - n)"
    by (simp only: bit_push_bit_iff) simp
  moreover have "Suc k < 32" if "n \<le> k" "bit d (k - n)"
    using assms [OF that(2)] that(1) by simp
  ultimately show "bit (crc_bit (push_bit (Suc n) d)) k = bit (push_bit n d) k"
    by (auto simp: bit_crc_bit)
qed

lemma crc_rounds_push_bit:
  assumes "\<And>k. bit d k \<Longrightarrow> k + n < 32"
  shows "crc_rounds n (push_bit n d) = d"
  using assms
proof (induction n)
  case 0
  then show ?case by simp
next
  case (Suc n)
  from Suc.prems have "crc_bit (push_bit (Suc n) d) = push_bit n d"
    by (intro crc_bit_push_bit) simp
  moreover have "crc_rounds n (push_bit n d) = d"
  proof (rule Suc.IH)
    fix k assume "bit d k"
    from Suc.prems [OF this] show "k + n < 32" by simp
  qed
  ultimately show ?case by simp
qed

lemma bit_ucast_u8: "bit (ucast (b :: u8) :: u32) k \<Longrightarrow> k < 8"
  using bit_imp_le_length [of b k] by (auto simp: bit_simps)

lemma crc_rounds_defer_byte:
  assumes "\<And>k. bit d k \<Longrightarrow> k < 24"
  shows "crc_rounds 8 v XOR d = crc_rounds 8 (v XOR push_bit 8 d)"
proof -
  have "crc_rounds 8 (push_bit 8 d) = d"
    by (rule crc_rounds_push_bit) (use assms in fastforce)
  then show ?thesis by (simp add: crc_rounds_xor)
qed

definition le_word :: "u8 \<Rightarrow> u8 \<Rightarrow> u8 \<Rightarrow> u8 \<Rightarrow> u32" where
  "le_word a b c d = ucast a XOR push_bit 8 (ucast b) XOR push_bit 16 (ucast c) XOR push_bit 24 (ucast d)"

lemma le_word_bits:
  "k < 8 \<Longrightarrow> bit (le_word a b c d) k = bit a k"
  "k < 8 \<Longrightarrow> bit (le_word a b c d) (8 + k) = bit b k"
  "k < 8 \<Longrightarrow> bit (le_word a b c d) (16 + k) = bit c k"
  "k < 8 \<Longrightarrow> bit (le_word a b c d) (24 + k) = bit d k"
  by (auto simp: le_word_def bit_simps dest: bit_imp_le_length)

lemma le_word_inj:
  assumes "le_word a b c d = le_word a' b' c' d'"
  shows "a = a' \<and> b = b' \<and> c = c' \<and> d = d'"
proof -
  have "\<And>k. k < 8 \<Longrightarrow> bit a k = bit a' k" "\<And>k. k < 8 \<Longrightarrow> bit b k = bit b' k"
    "\<And>k. k < 8 \<Longrightarrow> bit c k = bit c' k" "\<And>k. k < 8 \<Longrightarrow> bit d k = bit d' k"
    using assms le_word_bits by metis+
  then show ?thesis by (auto intro!: bit_word_eqI)
qed

lemma uni_crc32_le_word:
  "uni_crc32_le v [a, b, c, d] = crc_rounds 32 (v XOR le_word a b c d)"
proof -
  define B :: u32 where "B = ucast b"
  define C :: u32 where "C = ucast c"
  define D :: u32 where "D = ucast d"
  have B: "\<And>k. bit B k \<Longrightarrow> k < 8" and C: "\<And>k. bit C k \<Longrightarrow> k < 8" and D: "\<And>k. bit D k \<Longrightarrow> k < 8"
    by (auto simp: B_def C_def D_def dest: bit_ucast_u8)
  define x where "x = v XOR ucast a"
  have s1: "crc_rounds 8 x XOR B = crc_rounds 8 (x XOR push_bit 8 B)" for x
    by (rule crc_rounds_defer_byte) (use B in fastforce)
  have s2: "crc_rounds 8 x XOR C = crc_rounds 8 (x XOR push_bit 8 C)" for x
    by (rule crc_rounds_defer_byte) (use C in fastforce)
  have s2': "crc_rounds 8 x XOR push_bit 8 C = crc_rounds 8 (x XOR push_bit 8 (push_bit 8 C))" for x
    by (rule crc_rounds_defer_byte) (use C in \<open>fastforce simp: bit_simps\<close>)
  have s3: "crc_rounds 8 x XOR D = crc_rounds 8 (x XOR push_bit 8 D)" for x
    by (rule crc_rounds_defer_byte) (use D in fastforce)
  have s3': "crc_rounds 8 x XOR push_bit 8 D = crc_rounds 8 (x XOR push_bit 8 (push_bit 8 D))" for x
    by (rule crc_rounds_defer_byte) (use D in \<open>fastforce simp: bit_simps\<close>)
  have s3'': "crc_rounds 8 x XOR push_bit 8 (push_bit 8 D)
      = crc_rounds 8 (x XOR push_bit 8 (push_bit 8 (push_bit 8 D)))" for x
    by (rule crc_rounds_defer_byte) (use D in \<open>fastforce simp: bit_simps\<close>)
  have split32: "crc_rounds 32 y = crc_rounds 8 (crc_rounds 8 (crc_rounds 8 (crc_rounds 8 y)))" for y
    using crc_rounds_add [of 8 24 y] crc_rounds_add [of 8 16] crc_rounds_add [of 8 8] by simp
  have "uni_crc32_le v [a, b, c, d]
      = crc_rounds 8 (crc_rounds 8 (crc_rounds 8 (crc_rounds 8 x XOR B) XOR C) XOR D)"
    by (simp only: uni_crc32_le.simps x_def B_def C_def D_def)
  also have "\<dots> = crc_rounds 32 (((x XOR push_bit 8 B) XOR push_bit 8 (push_bit 8 C))
      XOR push_bit 8 (push_bit 8 (push_bit 8 D)))"
    by (simp only: s1 s2 s2' s3 s3' s3'' split32)
  also have "((x XOR push_bit 8 B) XOR push_bit 8 (push_bit 8 C))
      XOR push_bit 8 (push_bit 8 (push_bit 8 D)) = v XOR le_word a b c d"
    by (simp add: x_def le_word_def B_def C_def D_def push_bit_push_bit xor.assoc)
  finally show ?thesis .
qed

lemma crc_detects_word_change:
  assumes "uni_crc32_le v (pre @ [a, b, c, d] @ post) = uni_crc32_le v (pre @ [a', b', c', d'] @ post)"
  shows "[a, b, c, d] = [a', b', c', d']"
proof -
  let ?w = "uni_crc32_le v pre"
  have "uni_crc32_le ?w [a, b, c, d] = uni_crc32_le ?w [a', b', c', d']"
    using assms by (simp only: uni_crc32_le_append uni_crc32_le_inj)
  then have "?w XOR le_word a b c d = ?w XOR le_word a' b' c' d'"
    by (simp only: uni_crc32_le_word crc_rounds_inj)
  then have "le_word a b c d = le_word a' b' c' d'"
    by (simp only: word_xor_cancel)
  then show ?thesis using le_word_inj by blast
qed

text \<open>C39: The checksum that signs PlayStation reports distinguishes any two reports that
  differ inside one window of four consecutive bytes, whatever surrounds the window.\<close>

theorem crc32_distinguishes_word_changes:
  "uni_crc32_le v (pre @ [a, b, c, d] @ post) = uni_crc32_le v (pre @ [a', b', c', d'] @ post)
    \<longleftrightarrow> [a, b, c, d] = [a', b', c', d']"
  using crc_detects_word_change by metis

end
