(* ===== verification/Gamepad.thy ===== *)
theory Gamepad
  imports Prelude
begin

text \<open>
  \<^verbatim>\<open>components/bluepad32/controller/uni_gamepad.c\<close> and the structs of
  \<^verbatim>\<open>include/controller/\<close>: the virtual gamepad every parser fills, the controller that
  holds it, and the button mappings applied before a report reaches the platform.

  The C controller is a union of the gamepad, mouse, keyboard and balance board structs,
  tagged by \<^verbatim>\<open>klass\<close>. Here the members are fields of one record: every
  \<^verbatim>\<open>init_report\<close> zeroes the whole union and writes the member its class names, and the
  only cross-member read (\<^verbatim>\<open>gamepad.misc_buttons\<close>, byte 30) lies behind the end of the
  other members.
\<close>

section \<open>Button masks\<close>

definition BUTTON_A :: u16 where "BUTTON_A = BIT 0"
definition BUTTON_B :: u16 where "BUTTON_B = BIT 1"
definition BUTTON_X :: u16 where "BUTTON_X = BIT 2"
definition BUTTON_Y :: u16 where "BUTTON_Y = BIT 3"
definition BUTTON_SHOULDER_L :: u16 where "BUTTON_SHOULDER_L = BIT 4"
definition BUTTON_SHOULDER_R :: u16 where "BUTTON_SHOULDER_R = BIT 5"
definition BUTTON_TRIGGER_L :: u16 where "BUTTON_TRIGGER_L = BIT 6"
definition BUTTON_TRIGGER_R :: u16 where "BUTTON_TRIGGER_R = BIT 7"
definition BUTTON_THUMB_L :: u16 where "BUTTON_THUMB_L = BIT 8"
definition BUTTON_THUMB_R :: u16 where "BUTTON_THUMB_R = BIT 9"
definition DPAD_UP :: u8 where "DPAD_UP = BIT 0"
definition DPAD_DOWN :: u8 where "DPAD_DOWN = BIT 1"
definition DPAD_RIGHT :: u8 where "DPAD_RIGHT = BIT 2"
definition DPAD_LEFT :: u8 where "DPAD_LEFT = BIT 3"
definition MISC_BUTTON_SYSTEM :: u8 where "MISC_BUTTON_SYSTEM = BIT 0"
definition MISC_BUTTON_SELECT :: u8 where "MISC_BUTTON_SELECT = BIT 1"
definition MISC_BUTTON_START :: u8 where "MISC_BUTTON_START = BIT 2"
definition MISC_BUTTON_CAPTURE :: u8 where "MISC_BUTTON_CAPTURE = BIT 3"

lemmas button_masks = BUTTON_A_def
  BUTTON_B_def
  BUTTON_X_def
  BUTTON_Y_def
  BUTTON_SHOULDER_L_def
  BUTTON_SHOULDER_R_def
  BUTTON_TRIGGER_L_def
  BUTTON_TRIGGER_R_def
  BUTTON_THUMB_L_def
  BUTTON_THUMB_R_def
  DPAD_UP_def
  DPAD_DOWN_def
  DPAD_RIGHT_def
  DPAD_LEFT_def
  MISC_BUTTON_SYSTEM_def
  MISC_BUTTON_SELECT_def
  MISC_BUTTON_START_def
  MISC_BUTTON_CAPTURE_def

definition AXIS_NORMALIZE_RANGE :: int where "AXIS_NORMALIZE_RANGE = 1024"
definition AXIS_THRESHOLD :: int where "AXIS_THRESHOLD = 1024 div 8"

section \<open>The controller\<close>

record uni_gamepad =
  gp_dpad :: u8
  gp_axis_x :: int
  gp_axis_y :: int
  gp_axis_rx :: int
  gp_axis_ry :: int
  gp_brake :: int
  gp_throttle :: int
  gp_buttons :: u16
  gp_misc_buttons :: u8
  gp_gyro :: "int \<times> int \<times> int"
  gp_accel :: "int \<times> int \<times> int"

record uni_mouse =
  ms_delta_x :: int
  ms_delta_y :: int
  ms_buttons :: u16
  ms_scroll_wheel :: int
  ms_misc_buttons :: u8

record uni_keyboard =
  kb_modifiers :: u8
  kb_pressed_keys :: bytes

record uni_balance_board =
  bb_tr :: u16
  bb_br :: u16
  bb_tl :: u16
  bb_bl :: u16
  bb_temperature :: int

datatype uni_controller_class =
    UNI_CONTROLLER_CLASS_NONE
  | UNI_CONTROLLER_CLASS_GAMEPAD
  | UNI_CONTROLLER_CLASS_MOUSE
  | UNI_CONTROLLER_CLASS_KEYBOARD
  | UNI_CONTROLLER_CLASS_BALANCE_BOARD

record uni_controller =
  ctl_klass :: uni_controller_class
  ctl_gamepad :: uni_gamepad
  ctl_mouse :: uni_mouse
  ctl_balance_board :: uni_balance_board
  ctl_keyboard :: uni_keyboard
  ctl_battery :: u8

definition UNI_KEYBOARD_PRESSED_KEYS_MAX :: nat where
  "UNI_KEYBOARD_PRESSED_KEYS_MAX = 10"

definition zero_gamepad :: uni_gamepad where
  "zero_gamepad = \<lparr>gp_dpad = 0, gp_axis_x = 0, gp_axis_y = 0, gp_axis_rx = 0, gp_axis_ry = 0,
     gp_brake = 0, gp_throttle = 0, gp_buttons = 0, gp_misc_buttons = 0,
     gp_gyro = (0, 0, 0), gp_accel = (0, 0, 0)\<rparr>"

text \<open>The controller after \<^verbatim>\<open>memset(ctl, 0, sizeof(*ctl))\<close>.\<close>

definition zero_controller :: uni_controller where
  "zero_controller = \<lparr>ctl_klass = UNI_CONTROLLER_CLASS_NONE,
     ctl_gamepad = zero_gamepad,
     ctl_mouse = \<lparr>ms_delta_x = 0, ms_delta_y = 0, ms_buttons = 0, ms_scroll_wheel = 0, ms_misc_buttons = 0\<rparr>,
     ctl_balance_board = \<lparr>bb_tr = 0, bb_br = 0, bb_tl = 0, bb_bl = 0, bb_temperature = 0\<rparr>,
     ctl_keyboard = \<lparr>kb_modifiers = 0, kb_pressed_keys = replicate UNI_KEYBOARD_PRESSED_KEYS_MAX 0\<rparr>,
     ctl_battery = 0\<rparr>"

section \<open>Mappings\<close>

datatype uni_gamepad_mappings_type =
    UNI_GAMEPAD_MAPPINGS_TYPE_XBOX
  | UNI_GAMEPAD_MAPPINGS_TYPE_SWITCH
  | UNI_GAMEPAD_MAPPINGS_TYPE_CUSTOM
  | UNI_GAMEPAD_MAPPINGS_TYPE_COUNT

record uni_gamepad_mappings =
  map_dpad_up :: u8
  map_dpad_down :: u8
  map_dpad_left :: u8
  map_dpad_right :: u8
  map_button_a :: u8
  map_button_b :: u8
  map_button_x :: u8
  map_button_y :: u8
  map_button_shoulder_l :: u8
  map_button_shoulder_r :: u8
  map_button_trigger_l :: u8
  map_button_trigger_r :: u8
  map_button_thumb_l :: u8
  map_button_thumb_r :: u8
  map_misc_button_select :: u8
  map_misc_button_start :: u8
  map_misc_button_system :: u8
  map_misc_button_capture :: u8
  map_axis_x :: u8
  map_axis_y :: u8
  map_axis_rx :: u8
  map_axis_ry :: u8
  map_axis_x_inverted :: u8
  map_axis_y_inverted :: u8
  map_axis_rx_inverted :: u8
  map_axis_ry_inverted :: u8
  map_brake :: u8
  map_throttle :: u8

definition GAMEPAD_DEFAULT_MAPPINGS :: uni_gamepad_mappings where
  "GAMEPAD_DEFAULT_MAPPINGS = \<lparr>map_dpad_up = 0, map_dpad_down = 1, map_dpad_left = 3,
     map_dpad_right = 2, map_button_a = 0, map_button_b = 1,
     map_button_x = 2, map_button_y = 3, map_button_shoulder_l = 4,
     map_button_shoulder_r = 5, map_button_trigger_l = 6, map_button_trigger_r = 7,
     map_button_thumb_l = 8, map_button_thumb_r = 9, map_misc_button_select = 1,
     map_misc_button_start = 2, map_misc_button_system = 0, map_misc_button_capture = 3,
     map_axis_x = 0, map_axis_y = 1, map_axis_rx = 2,
     map_axis_ry = 3, map_axis_x_inverted = 0, map_axis_y_inverted = 0,
     map_axis_rx_inverted = 0, map_axis_ry_inverted = 0, map_brake = 0,
     map_throttle = 1\<rparr>"

definition get_mappings_value_for_axis :: "u8 \<Rightarrow> uni_gamepad \<Rightarrow> int" where
  "get_mappings_value_for_axis axis_type gp =
     (if axis_type = 0 then gp_axis_x gp
      else if axis_type = 1 then gp_axis_y gp
      else if axis_type = 2 then gp_axis_rx gp
      else if axis_type = 3 then gp_axis_ry gp
      else -1)"

definition get_mappings_value_for_pedal :: "u8 \<Rightarrow> uni_gamepad \<Rightarrow> int" where
  "get_mappings_value_for_pedal pedal_type gp =
     (if pedal_type = 1 then gp_throttle gp
      else if pedal_type = 0 then gp_brake gp
      else -1)"

text \<open>
  \<open>c_BIT\<close> is \<^verbatim>\<open>BIT(nr)\<close>, that is \<^verbatim>\<open>1UL << nr\<close>, on the 32-bit targets: a shift by 32 or
  more is undefined. \<open>remap_bits\<close> is the sequence of
  \<^verbatim>\<open>if (src & MASK) dst |= BIT(map.field)\<close> statements, one per pair.
\<close>

definition c_BIT :: "u8 \<Rightarrow> u32 cres" where
  "c_BIT nr = (if 32 \<le> unat nr then Inl Shift_out_of_range else Inr (BIT (unat nr)))"

primrec remap_bits :: "'a::len word \<Rightarrow> ('a word \<times> u8) list \<Rightarrow> 'a word \<Rightarrow> 'a word cres" where
  "remap_bits src [] dst = Inr dst"
| "remap_bits src (p # ps) dst =
     (if src AND fst p \<noteq> 0
      then bindR (c_BIT (snd p)) (\<lambda>b. remap_bits src ps (dst OR ucast b))
      else remap_bits src ps dst)"

definition maybe_invert :: "u8 \<Rightarrow> int \<Rightarrow> int cres" where
  "maybe_invert inverted v = (if inverted \<noteq> 0 then i32 (- v) else Inr v)"

definition button_pairs :: "uni_gamepad_mappings \<Rightarrow> (u16 \<times> u8) list" where
  "button_pairs m =
     [(BUTTON_A, map_button_a m), (BUTTON_B, map_button_b m),
      (BUTTON_X, map_button_x m), (BUTTON_Y, map_button_y m),
      (BUTTON_SHOULDER_L, map_button_shoulder_l m), (BUTTON_SHOULDER_R, map_button_shoulder_r m),
      (BUTTON_TRIGGER_L, map_button_trigger_l m), (BUTTON_TRIGGER_R, map_button_trigger_r m),
      (BUTTON_THUMB_L, map_button_thumb_l m), (BUTTON_THUMB_R, map_button_thumb_r m)]"

definition dpad_pairs :: "uni_gamepad_mappings \<Rightarrow> (u8 \<times> u8) list" where
  "dpad_pairs m =
     [(DPAD_UP, map_dpad_up m), (DPAD_DOWN, map_dpad_down m),
      (DPAD_LEFT, map_dpad_left m), (DPAD_RIGHT, map_dpad_right m)]"

definition misc_pairs :: "uni_gamepad_mappings \<Rightarrow> (u8 \<times> u8) list" where
  "misc_pairs m =
     [(MISC_BUTTON_SYSTEM, map_misc_button_system m), (MISC_BUTTON_SELECT, map_misc_button_select m),
      (MISC_BUTTON_START, map_misc_button_start m), (MISC_BUTTON_CAPTURE, map_misc_button_capture m)]"

definition remap_custom :: "uni_gamepad_mappings \<Rightarrow> uni_gamepad \<Rightarrow> uni_gamepad cres" where
  "remap_custom m gp =
     bindR (remap_bits (gp_buttons gp) (button_pairs m) 0) (\<lambda>buttons.
     bindR (remap_bits (gp_dpad gp) (dpad_pairs m) 0) (\<lambda>dpad.
     bindR (remap_bits (gp_misc_buttons gp) (misc_pairs m) 0) (\<lambda>misc.
     bindR (maybe_invert (map_axis_x_inverted m) (get_mappings_value_for_axis (map_axis_x m) gp)) (\<lambda>x.
     bindR (maybe_invert (map_axis_y_inverted m) (get_mappings_value_for_axis (map_axis_y m) gp)) (\<lambda>y.
     bindR (maybe_invert (map_axis_rx_inverted m) (get_mappings_value_for_axis (map_axis_rx m) gp)) (\<lambda>rx.
     bindR (maybe_invert (map_axis_ry_inverted m) (get_mappings_value_for_axis (map_axis_ry m) gp)) (\<lambda>ry.
     Inr (zero_gamepad\<lparr>gp_buttons := buttons, gp_dpad := dpad, gp_misc_buttons := misc,
            gp_axis_x := x, gp_axis_y := y, gp_axis_rx := rx, gp_axis_ry := ry,
            gp_brake := get_mappings_value_for_pedal (map_brake m) gp,
            gp_throttle := get_mappings_value_for_pedal (map_throttle m) gp\<rparr>))))))))"

definition remap_switch :: "uni_gamepad \<Rightarrow> uni_gamepad" where
  "remap_switch gp =
     (let old = gp_buttons gp;
          b = old AND NOT (BUTTON_A OR BUTTON_B OR BUTTON_X OR BUTTON_Y);
          b = (if old AND BUTTON_A \<noteq> 0 then b OR BUTTON_B else b);
          b = (if old AND BUTTON_B \<noteq> 0 then b OR BUTTON_A else b);
          b = (if old AND BUTTON_X \<noteq> 0 then b OR BUTTON_Y else b);
          b = (if old AND BUTTON_Y \<noteq> 0 then b OR BUTTON_X else b)
      in gp\<lparr>gp_buttons := b\<rparr>)"

text \<open>The statics \<^verbatim>\<open>map\<close> and \<^verbatim>\<open>mappings_type\<close> of the file.\<close>

record mappings_state =
  mst_map :: uni_gamepad_mappings
  mst_type :: uni_gamepad_mappings_type

definition uni_gamepad_remap :: "mappings_state \<Rightarrow> uni_gamepad \<Rightarrow> uni_gamepad cres" where
  "uni_gamepad_remap st gp =
     (if mst_type st = UNI_GAMEPAD_MAPPINGS_TYPE_XBOX then Inr gp
      else if mst_type st = UNI_GAMEPAD_MAPPINGS_TYPE_SWITCH then Inr (remap_switch gp)
      else remap_custom (mst_map st) gp)"

definition uni_gamepad_set_mappings :: "mappings_state \<Rightarrow> uni_gamepad_mappings \<Rightarrow> mappings_state" where
  "uni_gamepad_set_mappings st mappings =
     st\<lparr>mst_type := UNI_GAMEPAD_MAPPINGS_TYPE_CUSTOM, mst_map := mappings\<rparr>"

definition uni_gamepad_set_mappings_type ::
    "mappings_state \<Rightarrow> uni_gamepad_mappings_type \<Rightarrow> mappings_state" where
  "uni_gamepad_set_mappings_type st type = st\<lparr>mst_type := type\<rparr>"

definition uni_gamepad_get_mappings_type :: "mappings_state \<Rightarrow> uni_gamepad_mappings_type" where
  "uni_gamepad_get_mappings_type st = mst_type st"

section \<open>Properties of the mappings\<close>

lemma bit_remap_bits:
  fixes src dst r :: "'a::len word"
  assumes "remap_bits src ps dst = Inr r"
  shows "bit r k \<longleftrightarrow> bit dst k
    \<or> (k < LENGTH('a) \<and> (\<exists>p \<in> set ps. src AND fst p \<noteq> 0 \<and> unat (snd p) = k))"
  using assms
proof (induction ps arbitrary: dst)
  case Nil
  then show ?case by simp
next
  case (Cons p ps)
  show ?case
  proof (cases "src AND fst p = 0")
    case True
    with Cons show ?thesis by simp
  next
    case False
    then have n: "unat (snd p) < 32"
      and rec: "remap_bits src ps (dst OR ucast (BIT (unat (snd p)) :: u32)) = Inr r"
      using Cons.prems by (auto simp: bindR_Inr_iff c_BIT_def split: if_splits)
    have "bit (ucast (BIT (unat (snd p)) :: u32) :: 'a word) k \<longleftrightarrow> k = unat (snd p) \<and> k < LENGTH('a)"
      using n by (auto simp: bit_simps bit_BIT)
    then show ?thesis using Cons.IH [OF rec] False by (auto simp: bit_simps)
  qed
qed

lemma remap_bits_total:
  assumes "\<forall>p \<in> set ps. unat (snd p) < 32"
  shows "\<exists>r. remap_bits src ps dst = Inr r"
  using assms by (induction ps arbitrary: dst) (simp_all add: c_BIT_def)

lemma bit_remap_switch:
  "bit (gp_buttons (remap_switch gp)) k \<longleftrightarrow>
     (if k = 0 then bit (gp_buttons gp) 1 else if k = 1 then bit (gp_buttons gp) 0
      else if k = 2 then bit (gp_buttons gp) 3 else if k = 3 then bit (gp_buttons gp) 2
      else bit (gp_buttons gp) k)"
  unfolding remap_switch_def Let_def button_masks and_BIT_ne_0
  by (auto simp: bit_simps bit_BIT dest: bit_imp_le_length)

lemma remap_switch_frame [simp]:
  "gp_dpad (remap_switch gp) = gp_dpad gp"
  "gp_misc_buttons (remap_switch gp) = gp_misc_buttons gp"
  "gp_axis_x (remap_switch gp) = gp_axis_x gp"
  "gp_axis_y (remap_switch gp) = gp_axis_y gp"
  "gp_axis_rx (remap_switch gp) = gp_axis_rx gp"
  "gp_axis_ry (remap_switch gp) = gp_axis_ry gp"
  "gp_brake (remap_switch gp) = gp_brake gp"
  "gp_throttle (remap_switch gp) = gp_throttle gp"
  "gp_gyro (remap_switch gp) = gp_gyro gp"
  "gp_accel (remap_switch gp) = gp_accel gp"
  by (simp_all add: remap_switch_def Let_def)

lemma remap_switch_involution: "remap_switch (remap_switch gp) = gp"
proof -
  have "gp_buttons (remap_switch (remap_switch gp)) = gp_buttons gp"
    by (rule bit_word_eqI) (auto simp: bit_remap_switch)
  then show ?thesis by (intro uni_gamepad.equality) simp_all
qed

text \<open>The bits of a gamepad that carry a button, d-pad direction or misc button.\<close>

definition gamepad_bits_ok :: "uni_gamepad \<Rightarrow> bool" where
  "gamepad_bits_ok gp \<longleftrightarrow> (\<forall>k. bit (gp_buttons gp) k \<longrightarrow> k < 10)
     \<and> (\<forall>k. bit (gp_dpad gp) k \<longrightarrow> k < 4) \<and> (\<forall>k. bit (gp_misc_buttons gp) k \<longrightarrow> k < 4)"

lemma less_10_cases: "(k::nat) < 10 \<longleftrightarrow> k \<in> {0, 1, 2, 3, 4, 5, 6, 7, 8, 9}"
  by auto

lemma less_4_cases: "(k::nat) < 4 \<longleftrightarrow> k \<in> {0, 1, 2, 3}"
  by auto

lemma remap_default_buttons:
  assumes "remap_bits src (button_pairs GAMEPAD_DEFAULT_MAPPINGS) 0 = Inr r"
  shows "bit r k \<longleftrightarrow> k < 10 \<and> bit src k"
  unfolding bit_remap_bits [OF assms]
  by (auto simp: button_pairs_def GAMEPAD_DEFAULT_MAPPINGS_def button_masks and_BIT_ne_0 less_10_cases)

lemma remap_default_dpad:
  assumes "remap_bits src (dpad_pairs GAMEPAD_DEFAULT_MAPPINGS) 0 = Inr r"
  shows "bit r k \<longleftrightarrow> k < 4 \<and> bit src k"
  unfolding bit_remap_bits [OF assms]
  by (auto simp: dpad_pairs_def GAMEPAD_DEFAULT_MAPPINGS_def button_masks and_BIT_ne_0 less_4_cases)

lemma remap_default_misc:
  assumes "remap_bits src (misc_pairs GAMEPAD_DEFAULT_MAPPINGS) 0 = Inr r"
  shows "bit r k \<longleftrightarrow> k < 4 \<and> bit src k"
  unfolding bit_remap_bits [OF assms]
  by (auto simp: misc_pairs_def GAMEPAD_DEFAULT_MAPPINGS_def button_masks and_BIT_ne_0 less_4_cases)

lemma maybe_invert_0 [simp]: "maybe_invert 0 v = Inr v"
  by (simp add: maybe_invert_def)

lemma unat_small_map_total:
  "\<exists>r. remap_bits src (button_pairs GAMEPAD_DEFAULT_MAPPINGS) 0 = Inr r"
  "\<exists>r. remap_bits src8 (dpad_pairs GAMEPAD_DEFAULT_MAPPINGS) 0 = Inr r"
  "\<exists>r. remap_bits src8 (misc_pairs GAMEPAD_DEFAULT_MAPPINGS) 0 = Inr r"
  by (rule remap_bits_total;
      simp add: button_pairs_def dpad_pairs_def misc_pairs_def GAMEPAD_DEFAULT_MAPPINGS_def)+

lemma remap_default_words:
  assumes "gamepad_bits_ok gp"
  shows "remap_bits (gp_buttons gp) (button_pairs GAMEPAD_DEFAULT_MAPPINGS) 0 = Inr (gp_buttons gp)"
    and "remap_bits (gp_dpad gp) (dpad_pairs GAMEPAD_DEFAULT_MAPPINGS) 0 = Inr (gp_dpad gp)"
    and "remap_bits (gp_misc_buttons gp) (misc_pairs GAMEPAD_DEFAULT_MAPPINGS) 0
      = Inr (gp_misc_buttons gp)"
proof -
  obtain b where b: "remap_bits (gp_buttons gp) (button_pairs GAMEPAD_DEFAULT_MAPPINGS) 0 = Inr b"
    using unat_small_map_total(1) by blast
  then have "b = gp_buttons gp"
    using assms by (intro bit_word_eqI) (auto simp: remap_default_buttons [OF b] gamepad_bits_ok_def)
  with b show "remap_bits (gp_buttons gp) (button_pairs GAMEPAD_DEFAULT_MAPPINGS) 0
      = Inr (gp_buttons gp)" by simp
  obtain d where d: "remap_bits (gp_dpad gp) (dpad_pairs GAMEPAD_DEFAULT_MAPPINGS) 0 = Inr d"
    using unat_small_map_total(2) by blast
  then have "d = gp_dpad gp"
    using assms by (intro bit_word_eqI) (auto simp: remap_default_dpad [OF d] gamepad_bits_ok_def)
  with d show "remap_bits (gp_dpad gp) (dpad_pairs GAMEPAD_DEFAULT_MAPPINGS) 0
      = Inr (gp_dpad gp)" by simp
  obtain m where m: "remap_bits (gp_misc_buttons gp) (misc_pairs GAMEPAD_DEFAULT_MAPPINGS) 0 = Inr m"
    using unat_small_map_total(3) by blast
  then have "m = gp_misc_buttons gp"
    using assms by (intro bit_word_eqI) (auto simp: remap_default_misc [OF m] gamepad_bits_ok_def)
  with m show "remap_bits (gp_misc_buttons gp) (misc_pairs GAMEPAD_DEFAULT_MAPPINGS) 0
      = Inr (gp_misc_buttons gp)" by simp
qed

lemma default_axes [simp]:
  "get_mappings_value_for_axis 0 gp = gp_axis_x gp" "get_mappings_value_for_axis 1 gp = gp_axis_y gp"
  "get_mappings_value_for_axis 2 gp = gp_axis_rx gp" "get_mappings_value_for_axis 3 gp = gp_axis_ry gp"
  "get_mappings_value_for_pedal 0 gp = gp_brake gp" "get_mappings_value_for_pedal 1 gp = gp_throttle gp"
  by (simp_all add: get_mappings_value_for_axis_def get_mappings_value_for_pedal_def)

text \<open>A custom mapping set to the default table leaves every button, direction, stick
  and pedal of a gamepad where it was. The one thing it changes are the motion sensors: the
  custom path rebuilds the gamepad from zero and never copies gyroscope and accelerometer.\<close>

theorem default_custom_mapping_identity:
  assumes "gamepad_bits_ok gp"
  shows "uni_gamepad_remap (uni_gamepad_set_mappings st GAMEPAD_DEFAULT_MAPPINGS) gp
    = Inr (gp\<lparr>gp_gyro := (0, 0, 0), gp_accel := (0, 0, 0)\<rparr>)"
  by (simp add: uni_gamepad_remap_def uni_gamepad_set_mappings_def remap_custom_def
      remap_default_words [OF assms])
    (simp add: GAMEPAD_DEFAULT_MAPPINGS_def zero_gamepad_def)

theorem default_custom_mapping_identity_witness:
  "uni_gamepad_remap (uni_gamepad_set_mappings
      \<lparr>mst_map = GAMEPAD_DEFAULT_MAPPINGS, mst_type = UNI_GAMEPAD_MAPPINGS_TYPE_XBOX\<rparr>
      GAMEPAD_DEFAULT_MAPPINGS) (zero_gamepad\<lparr>gp_axis_x := 77, gp_gyro := (1, 2, 3)\<rparr>)
    = Inr (zero_gamepad\<lparr>gp_axis_x := 77\<rparr>)"
  by (subst default_custom_mapping_identity) (simp_all add: gamepad_bits_ok_def zero_gamepad_def)

text \<open>The Switch layout exchanges A with B and X with Y and nothing else, so applying it
  twice returns the original gamepad.\<close>

theorem switch_mapping_involution:
  "bindR (uni_gamepad_remap (uni_gamepad_set_mappings_type st UNI_GAMEPAD_MAPPINGS_TYPE_SWITCH) gp)
     (uni_gamepad_remap (uni_gamepad_set_mappings_type st UNI_GAMEPAD_MAPPINGS_TYPE_SWITCH)) = Inr gp"
  by (simp add: uni_gamepad_remap_def uni_gamepad_set_mappings_type_def remap_switch_involution)

text \<open>Under a custom mapping, a button of the result is pressed exactly when some pressed
  source button is mapped to its number; several source buttons may share one.\<close>

theorem custom_mapping_buttons:
  assumes "uni_gamepad_remap (uni_gamepad_set_mappings st m) gp = Inr gp'"
  shows "bit (gp_buttons gp') k
    \<longleftrightarrow> k < 16 \<and> (\<exists>p \<in> set (button_pairs m). gp_buttons gp AND fst p \<noteq> 0 \<and> unat (snd p) = k)"
proof -
  from assms have "remap_bits (gp_buttons gp) (button_pairs m) 0 = Inr (gp_buttons gp')"
    by (auto simp: uni_gamepad_remap_def uni_gamepad_set_mappings_def remap_custom_def bindR_Inr_iff)
  then show ?thesis by (simp add: bit_remap_bits)
qed

theorem custom_mapping_buttons_witness:
  "\<exists>gp'. uni_gamepad_remap (uni_gamepad_set_mappings
       \<lparr>mst_map = GAMEPAD_DEFAULT_MAPPINGS, mst_type = UNI_GAMEPAD_MAPPINGS_TYPE_XBOX\<rparr>
       (GAMEPAD_DEFAULT_MAPPINGS\<lparr>map_button_a := 5\<rparr>)) (zero_gamepad\<lparr>gp_buttons := 1\<rparr>) = Inr gp'
     \<and> bit (gp_buttons gp') 5 \<and> \<not> bit (gp_buttons gp') 0"
proof -
  let ?st = "\<lparr>mst_map = GAMEPAD_DEFAULT_MAPPINGS, mst_type = UNI_GAMEPAD_MAPPINGS_TYPE_XBOX\<rparr>"
  let ?m = "GAMEPAD_DEFAULT_MAPPINGS\<lparr>map_button_a := 5\<rparr>"
  let ?gp = "zero_gamepad\<lparr>gp_buttons := 1\<rparr>"
  have run: "\<exists>gp'. uni_gamepad_remap (uni_gamepad_set_mappings ?st ?m) ?gp = Inr gp'"
    by (simp add: uni_gamepad_remap_def uni_gamepad_set_mappings_def remap_custom_def
        button_pairs_def dpad_pairs_def misc_pairs_def GAMEPAD_DEFAULT_MAPPINGS_def button_masks
        BIT_def c_BIT_def zero_gamepad_def)
  then obtain gp' where gp': "uni_gamepad_remap (uni_gamepad_set_mappings ?st ?m) ?gp = Inr gp'" ..
  show ?thesis
    using gp' custom_mapping_buttons [OF gp', of 5] custom_mapping_buttons [OF gp', of 0]
    by (simp add: button_pairs_def GAMEPAD_DEFAULT_MAPPINGS_def button_masks BIT_def)
qed

end
