(* ===== verification/Hid_Values.thy ===== *)
theory Hid_Values
  imports Gamepad
begin

text \<open>
  The value conversions of \<^verbatim>\<open>components/bluepad32/parser/uni_hid_parser.c\<close> that all
  HID parsers share: axis, pedal, hat and d-pad. Every intermediate \<^verbatim>\<open>int32_t\<close> result is
  checked, so the model says for which report descriptors the C expressions are defined.
\<close>

record hid_globals =
  hg_logical_minimum :: int
  hg_logical_maximum :: int
  hg_usage_page :: u16
  hg_report_size :: u8
  hg_report_count :: u8
  hg_report_id :: u8

definition effective_maximum :: "hid_globals \<Rightarrow> int cres" where
  "effective_maximum g =
     (if hg_logical_maximum g = -1
      then bindR (i32_shl_1 (unat (hg_report_size g))) (\<lambda>p. i32 (p - 1))
      else Inr (hg_logical_maximum g))"

definition value_range :: "hid_globals \<Rightarrow> int cres" where
  "value_range g =
     bindR (effective_maximum g) (\<lambda>max.
     bindR (i32 (max - hg_logical_minimum g)) (\<lambda>d.
     i32 (d + 1)))"

definition uni_hid_parser_process_axis :: "hid_globals \<Rightarrow> u32 \<Rightarrow> int cres" where
  "uni_hid_parser_process_axis g val =
     bindR (value_range g) (\<lambda>rng.
       let centered = i32_of_u32 (val - u32_of_i32 (rng sdiv 2) - u32_of_i32 (hg_logical_minimum g))
       in bindR (i32 (centered * AXIS_NORMALIZE_RANGE)) (\<lambda>p. i32_div p rng))"

definition uni_hid_parser_process_pedal :: "hid_globals \<Rightarrow> u32 \<Rightarrow> int cres" where
  "uni_hid_parser_process_pedal g val =
     bindR (value_range g) (\<lambda>rng.
       if rng = 0 then Inl Division_by_zero
       else Inr (i32_of_u32 ((val * u32_of_i32 AXIS_NORMALIZE_RANGE) div u32_of_i32 rng)))"

definition uni_hid_parser_process_hat :: "hid_globals \<Rightarrow> u32 \<Rightarrow> u8 cres" where
  "uni_hid_parser_process_hat g val =
     (let v = i32_of_u32 val in
      if v < hg_logical_minimum g \<or> v > hg_logical_maximum g then Inr 0xff
      else bindR (i32 (v - hg_logical_minimum g)) (\<lambda>d. Inr (word_of_int d)))"

definition HID_USAGE_DPAD_UP :: u16 where "HID_USAGE_DPAD_UP = 0x90"
definition HID_USAGE_DPAD_DOWN :: u16 where "HID_USAGE_DPAD_DOWN = 0x91"
definition HID_USAGE_DPAD_RIGHT :: u16 where "HID_USAGE_DPAD_RIGHT = 0x92"
definition HID_USAGE_DPAD_LEFT :: u16 where "HID_USAGE_DPAD_LEFT = 0x93"

definition set_or_clear :: "u32 \<Rightarrow> u8 \<Rightarrow> u8 \<Rightarrow> u8" where
  "set_or_clear val m dpad = (if val \<noteq> 0 then dpad OR m else dpad AND NOT m)"

definition uni_hid_parser_process_dpad :: "u16 \<Rightarrow> u32 \<Rightarrow> u8 \<Rightarrow> u8" where
  "uni_hid_parser_process_dpad usage val dpad =
     (if usage = HID_USAGE_DPAD_UP then set_or_clear val DPAD_UP dpad
      else if usage = HID_USAGE_DPAD_DOWN then set_or_clear val DPAD_DOWN dpad
      else if usage = HID_USAGE_DPAD_RIGHT then set_or_clear val DPAD_RIGHT dpad
      else if usage = HID_USAGE_DPAD_LEFT then set_or_clear val DPAD_LEFT dpad
      else dpad)"

definition uni_hid_parser_hat_to_dpad :: "u8 \<Rightarrow> u8" where
  "uni_hid_parser_hat_to_dpad hat =
     (if hat = 0xff \<or> hat = 0x08 then 0
      else if hat = 0 then DPAD_UP
      else if hat = 1 then DPAD_UP OR DPAD_RIGHT
      else if hat = 2 then DPAD_RIGHT
      else if hat = 3 then DPAD_RIGHT OR DPAD_DOWN
      else if hat = 4 then DPAD_DOWN
      else if hat = 5 then DPAD_DOWN OR DPAD_LEFT
      else if hat = 6 then DPAD_LEFT
      else if hat = 7 then DPAD_LEFT OR DPAD_UP
      else 0)"

lemma int_div_less:
  fixes a b n :: int
  assumes "0 < n" and "a < b * n"
  shows "a div n < b"
proof -
  have "n * (a div n) \<le> a"
    using assms(1) pos_mod_sign [of n a] minus_mod_eq_mult_div [of a n] by linarith
  then have "n * (a div n) < n * b" using assms(2) by (simp add: mult.commute)
  then show ?thesis using assms(1) by simp
qed

section \<open>Descriptors whose values fit\<close>

text \<open>
  \<open>sane_globals\<close> is what the parsers rely on: the logical range is non-empty, starts at a
  representable value and has at most \<open>2 ^ 22\<close> values, the largest range for which
  scaling by 1024 stays inside \<^verbatim>\<open>int32_t\<close>.
\<close>

definition sane_globals :: "hid_globals \<Rightarrow> bool" where
  "sane_globals g \<longleftrightarrow> in_i32 (hg_logical_minimum g) \<and> in_i32 (hg_logical_maximum g)
     \<and> hg_logical_maximum g \<noteq> -1
     \<and> hg_logical_minimum g \<le> hg_logical_maximum g
     \<and> hg_logical_maximum g - hg_logical_minimum g < 2 ^ 22"

definition in_logical_range :: "hid_globals \<Rightarrow> int \<Rightarrow> bool" where
  "in_logical_range g v \<longleftrightarrow> hg_logical_minimum g \<le> v \<and> v \<le> hg_logical_maximum g"

definition range_of :: "hid_globals \<Rightarrow> int" where
  "range_of g = hg_logical_maximum g - hg_logical_minimum g + 1"

lemma sane_globalsD:
  assumes "sane_globals g"
  shows "in_i32 (hg_logical_minimum g)" "in_i32 (hg_logical_maximum g)"
    "hg_logical_maximum g \<noteq> -1" "0 < range_of g" "range_of g \<le> 2 ^ 22"
  using assms by (simp_all add: sane_globals_def range_of_def)

lemma value_range_sane: "sane_globals g \<Longrightarrow> value_range g = Inr (range_of g)"
  by (simp add: value_range_def effective_maximum_def sane_globals_def range_of_def i32_def in_i32_def)

definition scale_trunc :: "int \<Rightarrow> int \<Rightarrow> int" where
  "scale_trunc c n = (c * 1024) sdiv n"

lemma scale_trunc_cases:
  assumes "0 < n"
  shows "scale_trunc c n = (if 0 \<le> c then c * 1024 div n else - ((- c) * 1024 div n))"
  using assms by (auto simp: scale_trunc_def signed_divide_int_def sgn_if abs_if zero_less_mult_iff
      mult_less_0_iff not_less)

lemma scale_trunc_mono:
  assumes "0 < n" and "c \<le> c'"
  shows "scale_trunc c n \<le> scale_trunc c' n"
proof -
  have pos: "0 \<le> a * 1024 div n" if "0 \<le> a" for a
    using that assms(1) by (simp add: pos_imp_zdiv_nonneg_iff)
  have mono: "a * 1024 div n \<le> b * 1024 div n" if "a \<le> b" for a b
    using that assms(1) by (intro zdiv_mono1) simp_all
  show ?thesis
  proof (cases "0 \<le> c")
    case True
    then show ?thesis using assms mono [of c c'] by (simp add: scale_trunc_cases)
  next
    case False
    show ?thesis
    proof (cases "0 \<le> c'")
      case True
      then have "0 \<le> c' * 1024 div n" "0 \<le> (- c) * 1024 div n"
        using False pos [of "- c"] pos [of c'] by simp_all
      then show ?thesis using True False assms(1)
        by (simp only: scale_trunc_cases if_True if_False)
    next
      case neg: False
      then show ?thesis using False assms mono [of "- c'" "- c"]
        by (simp only: scale_trunc_cases if_False) linarith
    qed
  qed
qed

lemma scale_trunc_bounds:
  assumes "0 < n" and "- (n div 2) \<le> c" and "2 * c < n"
  shows "-512 \<le> scale_trunc c n" and "scale_trunc c n \<le> 511"
proof -
  have "scale_trunc c n \<le> 511"
  proof (cases "0 \<le> c")
    case True
    have "c * 1024 < 512 * n" using assms(3) by simp
    then have "c * 1024 div n < 512" using assms(1) by (intro int_div_less) simp_all
    then show ?thesis using True assms(1) by (simp add: scale_trunc_cases)
  next
    case False
    then have "0 \<le> (- c) * 1024 div n" using assms(1) by (intro pos_imp_zdiv_nonneg_iff [THEN iffD2]) auto
    then show ?thesis using False assms(1) by (simp add: scale_trunc_cases)
  qed
  moreover have "-512 \<le> scale_trunc c n"
  proof (cases "0 \<le> c")
    case True
    then have "0 \<le> c * 1024 div n" using assms(1) by (intro pos_imp_zdiv_nonneg_iff [THEN iffD2]) auto
    then show ?thesis using True assms(1) by (simp add: scale_trunc_cases)
  next
    case False
    have "(- c) * 1024 \<le> 512 * n" using assms(1,2) by linarith
    then have "(- c) * 1024 div n \<le> 512 * n div n" using assms(1) by (intro zdiv_mono1)
    also have "\<dots> = 512" using assms(1) by simp
    finally show ?thesis using False assms(1) by (simp add: scale_trunc_cases)
  qed
  ultimately show "-512 \<le> scale_trunc c n" and "scale_trunc c n \<le> 511" by simp_all
qed

lemma sdiv_2_pos: "0 \<le> (n::int) \<Longrightarrow> n sdiv 2 = n div 2"
  by (simp add: signed_divide_int_def sgn_if)

lemma centred_bounds:
  assumes "in_logical_range g v"
  shows "- (range_of g div 2) \<le> v - hg_logical_minimum g - range_of g div 2"
    and "2 * (v - hg_logical_minimum g - range_of g div 2) < range_of g"
proof -
  have v: "hg_logical_minimum g \<le> v" "v - hg_logical_minimum g < range_of g"
    using assms by (simp_all add: in_logical_range_def range_of_def)
  then show "- (range_of g div 2) \<le> v - hg_logical_minimum g - range_of g div 2" by simp
  have half: "2 * (x - n div 2) < n" if "x < n" for x n :: int
    using that by presburger
  show "2 * (v - hg_logical_minimum g - range_of g div 2) < range_of g"
    using half [OF v(2)] .
qed

text \<open>On a sane descriptor the axis conversion is centring followed by truncating scaling.\<close>

lemma process_axis_formula:
  assumes "sane_globals g" and "in_logical_range g v"
  shows "uni_hid_parser_process_axis g (u32_of_i32 v)
    = Inr (scale_trunc (v - hg_logical_minimum g - range_of g div 2) (range_of g))"
proof -
  let ?n = "range_of g" and ?min = "hg_logical_minimum g"
  let ?c = "v - ?min - ?n div 2"
  note sane = sane_globalsD [OF assms(1)]
  note c = centred_bounds [OF assms(2)]
  then have small: "- (2 ^ 21) \<le> ?c" "?c < 2 ^ 21" using sane(5) by simp_all
  have "u32_of_i32 v - u32_of_i32 (?n sdiv 2) - u32_of_i32 ?min = u32_of_i32 ?c"
    using sane(4) by (simp add: u32_of_i32_def sdiv_2_pos algebra_simps flip: wi_hom_sub wi_hom_add)
  then have centered: "i32_of_u32 (u32_of_i32 v - u32_of_i32 (?n sdiv 2) - u32_of_i32 ?min) = ?c"
    using small by (simp add: i32_of_u32_of_i32 in_i32_def)
  have scaled: "i32 (?c * 1024) = Inr (?c * 1024)"
    using small by (simp add: i32_def in_i32_def)
  have "in_i32 (scale_trunc ?c ?n)"
    using scale_trunc_bounds [OF sane(4) c] by (simp add: in_i32_def)
  then have "i32_div (?c * 1024) ?n = Inr (scale_trunc ?c ?n)"
    using sane(4) by (simp add: i32_div_def scale_trunc_def i32_def)
  then show ?thesis
    unfolding uni_hid_parser_process_axis_def value_range_sane [OF assms(1)] bindR_simps Let_def
      centered AXIS_NORMALIZE_RANGE_def scaled by simp
qed

lemma process_axis_bounds:
  assumes "sane_globals g" and "in_logical_range g v"
  shows "\<exists>r. uni_hid_parser_process_axis g (u32_of_i32 v) = Inr r \<and> -512 \<le> r \<and> r \<le> 511"
proof -
  let ?n = "range_of g"
  let ?c = "v - hg_logical_minimum g - ?n div 2"
  show ?thesis
    using process_axis_formula [OF assms] centred_bounds [OF assms(2)]
      scale_trunc_bounds [OF sane_globalsD(4) [OF assms(1)]] by blast
qed

lemma process_pedal_formula:
  assumes "sane_globals g" and "hg_logical_minimum g = 0" and "in_logical_range g v"
  shows "uni_hid_parser_process_pedal g (u32_of_i32 v) = Inr (v * 1024 div range_of g)"
    and "0 \<le> v * 1024 div range_of g" and "v * 1024 div range_of g \<le> 1023"
proof -
  note sane = sane_globalsD [OF assms(1)]
  have v: "0 \<le> v" "v < range_of g"
    using assms(2,3) by (simp_all add: in_logical_range_def range_of_def)
  show lo: "0 \<le> v * 1024 div range_of g"
    using v sane(4) by (intro pos_imp_zdiv_nonneg_iff [THEN iffD2]) auto
  have "v * 1024 < 1024 * range_of g" using v by simp
  then have "v * 1024 div range_of g < 1024" using sane(4) by (intro int_div_less) simp_all
  then show hi: "v * 1024 div range_of g \<le> 1023" by simp
  have "v * 1024 < 2 ^ 32" using v sane(5) by simp
  moreover have "u32_of_i32 v * u32_of_i32 1024 = word_of_int (v * 1024)"
    by (simp only: u32_of_i32_def wi_hom_mult)
  ultimately have uv: "uint (u32_of_i32 v * u32_of_i32 1024) = v * 1024"
    using v by (simp only: uint_word_of_int) simp
  have un: "uint (u32_of_i32 (range_of g)) = range_of g"
    using sane(4,5) by (simp add: u32_of_i32_def uint_word_of_int)
  have "uint ((u32_of_i32 v * u32_of_i32 1024) div u32_of_i32 (range_of g)) = v * 1024 div range_of g"
    by (simp add: uint_div uv un)
  then have "(u32_of_i32 v * u32_of_i32 1024) div u32_of_i32 (range_of g)
      = u32_of_i32 (v * 1024 div range_of g)"
    by (metis u32_of_i32_def word_of_int_uint)
  then have "i32_of_u32 ((u32_of_i32 v * u32_of_i32 1024) div u32_of_i32 (range_of g))
      = v * 1024 div range_of g"
    using lo hi by (simp add: i32_of_u32_of_i32 in_i32_def)
  then show "uni_hid_parser_process_pedal g (u32_of_i32 v) = Inr (v * 1024 div range_of g)"
    unfolding uni_hid_parser_process_pedal_def value_range_sane [OF assms(1)]
    using sane(4) by (simp add: AXIS_NORMALIZE_RANGE_def)
qed

section \<open>Hats and d-pads\<close>

lemma hat_to_dpad_bits:
  "bit (uni_hid_parser_hat_to_dpad hat) k \<Longrightarrow> k < 4"
  by (auto simp: uni_hid_parser_hat_to_dpad_def button_masks bit_simps bit_BIT split: if_splits)

lemma hat_to_dpad_no_opposites:
  "\<not> (bit (uni_hid_parser_hat_to_dpad hat) 0 \<and> bit (uni_hid_parser_hat_to_dpad hat) 1)"
  "\<not> (bit (uni_hid_parser_hat_to_dpad hat) 2 \<and> bit (uni_hid_parser_hat_to_dpad hat) 3)"
  by (auto simp: uni_hid_parser_hat_to_dpad_def button_masks bit_simps bit_BIT split: if_splits)

lemma process_dpad_bits:
  assumes "\<forall>k. bit dpad k \<longrightarrow> k < 4"
  shows "bit (uni_hid_parser_process_dpad usage val dpad) k \<Longrightarrow> k < 4"
  using assms
  by (auto simp: uni_hid_parser_process_dpad_def set_or_clear_def button_masks bit_simps bit_BIT
      split: if_splits)

section \<open>Properties of the conversions\<close>

text \<open>C40: For every descriptor whose logical range is sane and every value inside it, the axis
  conversion is defined, lands in the normalised range -512..511, and larger raw values never
  give smaller axis positions.\<close>

theorem axis_bounded_and_monotone:
  assumes "sane_globals g" and "in_logical_range g v" and "in_logical_range g w" and "v \<le> w"
  shows "\<exists>x y. uni_hid_parser_process_axis g (u32_of_i32 v) = Inr x
    \<and> uni_hid_parser_process_axis g (u32_of_i32 w) = Inr y
    \<and> -512 \<le> x \<and> x \<le> y \<and> y \<le> 511"
  using process_axis_bounds [OF assms(1,2)] process_axis_bounds [OF assms(1,3)]
    process_axis_formula [OF assms(1,2)] process_axis_formula [OF assms(1,3)]
    scale_trunc_mono [OF sane_globalsD(4) [OF assms(1)],
      of "v - hg_logical_minimum g - range_of g div 2" "w - hg_logical_minimum g - range_of g div 2"]
    assms(4) by auto

theorem axis_bounded_and_monotone_witness:
  "\<exists>x y. uni_hid_parser_process_axis \<lparr>hg_logical_minimum = 0, hg_logical_maximum = 65535,
       hg_usage_page = 1, hg_report_size = 16, hg_report_count = 1, hg_report_id = 1\<rparr> (u32_of_i32 0) = Inr x
    \<and> uni_hid_parser_process_axis \<lparr>hg_logical_minimum = 0, hg_logical_maximum = 65535,
       hg_usage_page = 1, hg_report_size = 16, hg_report_count = 1, hg_report_id = 1\<rparr> (u32_of_i32 65535) = Inr y
    \<and> -512 \<le> x \<and> x \<le> y \<and> y \<le> 511"
  by (rule axis_bounded_and_monotone) (simp_all add: sane_globals_def in_logical_range_def in_i32_def)

text \<open>Calibration of the axis: for a range with an even number of values the minimum maps to
  exactly -512 and the value in the middle, the resting position, to exactly 0.\<close>

theorem axis_calibration:
  assumes "sane_globals g" and "even (range_of g)"
  shows "uni_hid_parser_process_axis g (u32_of_i32 (hg_logical_minimum g)) = Inr (- 512)
    \<and> uni_hid_parser_process_axis g (u32_of_i32 (hg_logical_minimum g + range_of g div 2)) = Inr 0"
proof -
  let ?n = "range_of g"
  note n = sane_globalsD(4) [OF assms(1)]
  have range: "in_logical_range g (hg_logical_minimum g)"
    "in_logical_range g (hg_logical_minimum g + ?n div 2)"
    using n by (auto simp: in_logical_range_def range_of_def)
  have "?n div 2 * 1024 = 512 * ?n" using assms(2) by auto
  then have "?n div 2 * 1024 div ?n = 512"
    using n by (simp only: nonzero_mult_div_cancel_right)
  moreover have "0 < ?n div 2" using n assms(2) by auto
  ultimately have "scale_trunc (- (?n div 2)) ?n = - 512"
    using n by (simp add: scale_trunc_cases)
  then show ?thesis
    using process_axis_formula [OF assms(1) range(1)] process_axis_formula [OF assms(1) range(2)] n
    by (simp add: scale_trunc_cases)
qed

theorem axis_calibration_witness:
  "uni_hid_parser_process_axis \<lparr>hg_logical_minimum = -128, hg_logical_maximum = 127,
       hg_usage_page = 1, hg_report_size = 8, hg_report_count = 1, hg_report_id = 1\<rparr> (u32_of_i32 (-128)) = Inr (-512)
    \<and> uni_hid_parser_process_axis \<lparr>hg_logical_minimum = -128, hg_logical_maximum = 127,
       hg_usage_page = 1, hg_report_size = 8, hg_report_count = 1, hg_report_id = 1\<rparr> (u32_of_i32 0) = Inr 0"
  using axis_calibration [of "\<lparr>hg_logical_minimum = -128, hg_logical_maximum = 127,
       hg_usage_page = 1, hg_report_size = 8, hg_report_count = 1, hg_report_id = 1\<rparr>"]
  by (simp add: sane_globals_def in_i32_def range_of_def)

text \<open>For a pedal whose logical minimum is 0, as the conversion assumes, the result is the
  floor of the value scaled by 1024 over the range and lies in 0..1023.\<close>

theorem pedal_scaled_and_bounded:
  assumes "sane_globals g" and "hg_logical_minimum g = 0" and "in_logical_range g v"
  shows "uni_hid_parser_process_pedal g (u32_of_i32 v) = Inr (v * 1024 div range_of g)
    \<and> 0 \<le> v * 1024 div range_of g \<and> v * 1024 div range_of g \<le> 1023"
  using process_pedal_formula [OF assms] by simp

theorem pedal_scaled_and_bounded_witness:
  "uni_hid_parser_process_pedal \<lparr>hg_logical_minimum = 0, hg_logical_maximum = 1023,
       hg_usage_page = 2, hg_report_size = 10, hg_report_count = 1, hg_report_id = 1\<rparr> (u32_of_i32 700) = Inr 700"
  using pedal_scaled_and_bounded [of "\<lparr>hg_logical_minimum = 0, hg_logical_maximum = 1023,
       hg_usage_page = 2, hg_report_size = 10, hg_report_count = 1, hg_report_id = 1\<rparr>" 700]
  by (simp add: sane_globals_def in_i32_def range_of_def in_logical_range_def)

text \<open>Whatever byte a controller sends as its hat, the d-pad never shows two opposite
  directions and never sets a bit above the four directions.\<close>

theorem hat_never_opposite:
  "uni_hid_parser_hat_to_dpad hat AND 0xf0 = 0
   \<and> uni_hid_parser_hat_to_dpad hat AND (DPAD_UP OR DPAD_DOWN) \<noteq> DPAD_UP OR DPAD_DOWN
   \<and> uni_hid_parser_hat_to_dpad hat AND (DPAD_LEFT OR DPAD_RIGHT) \<noteq> DPAD_LEFT OR DPAD_RIGHT"
  by (simp add: uni_hid_parser_hat_to_dpad_def button_masks BIT_def)

end
