(* ===== verification/Hid_Descriptor.thy ===== *)
theory Hid_Descriptor
  imports Prelude
begin

text \<open>
  \<^verbatim>\<open>components/btstack/src/btstack_hid_parser.c\<close>, first half: items of a HID report
  descriptor, the iterator over them, and the three queries that walk a whole
  descriptor. A \<^verbatim>\<open>while\<close> loop over the iterator is \<open>iterate_items\<close>, a partial function
  whose \<open>None\<close> is a loop that does not end; \<open>iterate_items_run\<close> shows that it always
  ends and equals a fold over the list \<open>descriptor_items\<close> of the items.

  Where the C expression is undefined (a shift by the full width) the result is an error
  value. Shifting a data byte into the sign bit of an \<^verbatim>\<open>int\<close> gives the two's complement
  value, as every compiler of the supported targets does.
\<close>

section \<open>Items\<close>

abbreviation (input) Tag_Main :: nat where "Tag_Main \<equiv> 0"
abbreviation (input) Tag_Global :: nat where "Tag_Global \<equiv> 1"
abbreviation (input) Tag_Local :: nat where "Tag_Local \<equiv> 2"
abbreviation (input) Tag_Reserved :: nat where "Tag_Reserved \<equiv> 3"

abbreviation (input) Main_Input :: nat where "Main_Input \<equiv> 8"
abbreviation (input) Main_Output :: nat where "Main_Output \<equiv> 9"
abbreviation (input) Main_Feature :: nat where "Main_Feature \<equiv> 11"

abbreviation (input) Global_UsagePage :: nat where "Global_UsagePage \<equiv> 0"
abbreviation (input) Global_LogicalMinimum :: nat where "Global_LogicalMinimum \<equiv> 1"
abbreviation (input) Global_LogicalMaximum :: nat where "Global_LogicalMaximum \<equiv> 2"
abbreviation (input) Global_ReportSize :: nat where "Global_ReportSize \<equiv> 7"
abbreviation (input) Global_ReportID :: nat where "Global_ReportID \<equiv> 8"
abbreviation (input) Global_ReportCount :: nat where "Global_ReportCount \<equiv> 9"
abbreviation (input) Global_Pop :: nat where "Global_Pop \<equiv> 11"

abbreviation (input) Local_Usage :: nat where "Local_Usage \<equiv> 0"
abbreviation (input) Local_UsageMinimum :: nat where "Local_UsageMinimum \<equiv> 1"
abbreviation (input) Local_UsageMaximum :: nat where "Local_UsageMaximum \<equiv> 2"

record hid_descriptor_item =
  item_value :: int
  item_size :: nat
  item_type :: nat
  item_tag :: nat
  data_size :: nat

definition zero_item :: hid_descriptor_item where
  "zero_item = \<lparr>item_value = 0, item_size = 0, item_type = 0, item_tag = 0, data_size = 0\<rparr>"

definition hid_item_sizes :: "nat list" where
  "hid_item_sizes = [0, 1, 2, 4]"

text \<open>The \<^verbatim>\<open>for\<close> loop that assembles the data bytes; byte \<open>i\<close> is the least significant one.\<close>

primrec le_value :: "nat \<Rightarrow> bytes \<Rightarrow> u32" where
  "le_value i [] = 0"
| "le_value i (b # bs) = push_bit (8 * i) (ucast b) OR le_value (Suc i) bs"

definition parse_value :: "bool \<Rightarrow> bytes \<Rightarrow> int cres" where
  "parse_value sgnd data =
     (let value = le_value 0 data in
      if sgnd \<and> data \<noteq> [] \<and> last data AND 0x80 \<noteq> 0
      then if 32 \<le> length data * 8 then Inl Shift_out_of_range
           else Inr (i32_of_u32 (value - push_bit (length data * 8) 1))
      else Inr (i32_of_u32 value))"

text \<open>The item at the start of the remaining bytes; \<open>None\<close> is the return value \<^verbatim>\<open>false\<close>.\<close>

definition btstack_hid_descriptor_parse_item :: "bytes \<Rightarrow> hid_descriptor_item option cres" where
  "btstack_hid_descriptor_parse_item ds =
     (case ds of [] \<Rightarrow> Inr None
      | item_header # _ \<Rightarrow>
        (let short_size = hid_item_sizes ! unat (item_header AND 0x03);
             type = unat (drop_bit 2 (item_header AND 0x0c));
             short_tag = unat (drop_bit 4 (item_header AND 0xf0));
             long = (short_size = 2 \<and> short_tag = 0x0f \<and> type = 3)
         in if long \<and> length ds < 3 then Inr None
            else
              let size = (if long then unat (ds ! 1) else short_size);
                  tag = (if long then unat (ds ! 2) else short_tag);
                  pos = (if long then 3 else 1)
              in if length ds < pos + size then Inr None
                 else if 4 < size then Inr None
                 else mapR (\<lambda>v. Some \<lparr>item_value = v, item_size = pos + size, item_type = type,
                                  item_tag = tag, data_size = size\<rparr>)
                        (parse_value (type = Tag_Global \<and> 0 < tag \<and> tag < 5)
                           (take size (drop pos ds)))))"

section \<open>The iterator\<close>

record descriptor_iterator =
  di_descriptor :: bytes
  di_pos :: nat
  di_item_ready :: bool
  di_valid :: bool
  di_item :: hid_descriptor_item

definition btstack_hid_descriptor_iterator_init :: "bytes \<Rightarrow> descriptor_iterator" where
  "btstack_hid_descriptor_iterator_init ds =
     \<lparr>di_descriptor = ds, di_pos = 0, di_item_ready = False, di_valid = True, di_item = zero_item\<rparr>"

definition btstack_hid_descriptor_iterator_has_more ::
    "descriptor_iterator \<Rightarrow> (bool \<times> descriptor_iterator) cres" where
  "btstack_hid_descriptor_iterator_has_more it =
     (if \<not> di_item_ready it \<and> di_pos it < length (di_descriptor it)
      then bindR (btstack_hid_descriptor_parse_item (drop (di_pos it) (di_descriptor it))) (\<lambda>r.
             case r of
               Some item \<Rightarrow> Inr (True, it\<lparr>di_item := item, di_item_ready := True\<rparr>)
             | None \<Rightarrow> Inr (False, it\<lparr>di_valid := False\<rparr>))
      else Inr (di_item_ready it, it))"

definition btstack_hid_descriptor_iterator_get_item ::
    "descriptor_iterator \<Rightarrow> hid_descriptor_item \<times> descriptor_iterator" where
  "btstack_hid_descriptor_iterator_get_item it =
     (di_item it, it\<lparr>di_pos := di_pos it + item_size (di_item it), di_item_ready := False\<rparr>)"

definition btstack_hid_descriptor_iterator_valid :: "descriptor_iterator \<Rightarrow> bool" where
  "btstack_hid_descriptor_iterator_valid it = di_valid it"

text \<open>
  \<^verbatim>\<open>while (continue(s) && has_more(&it)) { item = get_item(&it); s = body(item, s); }\<close>
\<close>

partial_function (option) iterate_items ::
    "('s \<Rightarrow> bool) \<Rightarrow> (hid_descriptor_item \<Rightarrow> 's \<Rightarrow> 's cres) \<Rightarrow> descriptor_iterator \<Rightarrow> 's
      \<Rightarrow> ('s \<times> descriptor_iterator) cres option" where
  "iterate_items continue body it s =
     (if \<not> continue s then Some (Inr (s, it))
      else (case btstack_hid_descriptor_iterator_has_more it of
              Inl e \<Rightarrow> Some (Inl e)
            | Inr (ready, it1) \<Rightarrow>
                if \<not> ready then Some (Inr (s, it1))
                else (case btstack_hid_descriptor_iterator_get_item it1 of
                        (item, it2) \<Rightarrow>
                          (case body item s of
                             Inl e \<Rightarrow> Some (Inl e)
                           | Inr s' \<Rightarrow> iterate_items continue body it2 s'))))"

declare iterate_items.simps [code]

section \<open>Whole-descriptor queries\<close>

datatype hid_report_type =
    HID_REPORT_TYPE_RESERVED
  | HID_REPORT_TYPE_INPUT
  | HID_REPORT_TYPE_OUTPUT
  | HID_REPORT_TYPE_FEATURE

definition main_item_tag_matches_report_type :: "nat \<Rightarrow> hid_report_type \<Rightarrow> bool" where
  "main_item_tag_matches_report_type tag report_type =
     (if tag = Main_Input then report_type = HID_REPORT_TYPE_INPUT
      else if tag = Main_Output then report_type = HID_REPORT_TYPE_OUTPUT
      else if tag = Main_Feature then report_type = HID_REPORT_TYPE_FEATURE
      else False)"

definition HID_REPORT_ID_UNDEFINED :: u16 where
  "HID_REPORT_ID_UNDEFINED = 0xffff"

record size_query =
  sq_total :: int
  sq_size :: int
  sq_count :: int
  sq_id :: int

definition size_query_body ::
    "int \<Rightarrow> hid_report_type \<Rightarrow> hid_descriptor_item \<Rightarrow> size_query \<Rightarrow> size_query cres" where
  "size_query_body report_id report_type item q =
     (if item_type item = Tag_Global then
        (if item_tag item = Global_ReportID then Inr (q\<lparr>sq_id := item_value item\<rparr>)
         else if item_tag item = Global_ReportCount then Inr (q\<lparr>sq_count := item_value item\<rparr>)
         else if item_tag item = Global_ReportSize then Inr (q\<lparr>sq_size := item_value item\<rparr>)
         else Inr q)
      else if item_type item = Tag_Main then
        (if sq_id q \<noteq> report_id then Inr q
         else if main_item_tag_matches_report_type (item_tag item) report_type
         then bindR (i32 (sq_count q * sq_size q)) (\<lambda>p.
              mapR (\<lambda>t. q\<lparr>sq_total := t\<rparr>) (i32 (sq_total q + p)))
         else Inr q)
      else Inr q)"

definition btstack_hid_get_report_size_for_id ::
    "u16 \<Rightarrow> hid_report_type \<Rightarrow> bytes \<Rightarrow> int cres option" where
  "btstack_hid_get_report_size_for_id report_id report_type ds =
     map_option (\<lambda>r. bindR r (\<lambda>(q, it).
         if btstack_hid_descriptor_iterator_valid it
         then mapR (\<lambda>n. n sdiv 8) (i32 (sq_total q + 7)) else Inr 0))
       (iterate_items (\<lambda>q. \<not> (0 < sq_total q \<and> sq_id q \<noteq> uint report_id))
          (size_query_body (uint report_id) report_type)
          (btstack_hid_descriptor_iterator_init ds)
          \<lparr>sq_total = 0, sq_size = 0, sq_count = 0, sq_id = uint HID_REPORT_ID_UNDEFINED\<rparr>)"

datatype hid_report_id_status =
    HID_REPORT_ID_UNDECLARED
  | HID_REPORT_ID_VALID
  | HID_REPORT_ID_INVALID

definition report_id_item :: "hid_descriptor_item \<Rightarrow> bool" where
  "report_id_item item \<longleftrightarrow> item_type item = Tag_Global \<and> item_tag item = Global_ReportID"

definition id_query_body ::
    "u16 \<Rightarrow> hid_descriptor_item \<Rightarrow> u16 \<times> bool \<Rightarrow> (u16 \<times> bool) cres" where
  "id_query_body report_id item q =
     Inr (if report_id_item item
          then let current = word_of_int (item_value item)
               in (current, if current = report_id then True else snd q)
          else q)"

definition btstack_hid_report_id_valid :: "u16 \<Rightarrow> bytes \<Rightarrow> hid_report_id_status cres option" where
  "btstack_hid_report_id_valid report_id ds =
     map_option (mapR (\<lambda>((current, found), it).
         if btstack_hid_descriptor_iterator_valid it then
           (if found then HID_REPORT_ID_VALID
            else if report_id = HID_REPORT_ID_UNDEFINED \<and> current = HID_REPORT_ID_UNDEFINED
            then HID_REPORT_ID_VALID
            else HID_REPORT_ID_UNDECLARED)
         else HID_REPORT_ID_INVALID))
       (iterate_items (\<lambda>_. True) (id_query_body report_id)
          (btstack_hid_descriptor_iterator_init ds) (HID_REPORT_ID_UNDEFINED, False))"

definition btstack_hid_report_id_declared :: "bytes \<Rightarrow> bool cres option" where
  "btstack_hid_report_id_declared ds =
     map_option (mapR fst)
       (iterate_items (\<lambda>found. \<not> found) (\<lambda>item found. Inr (report_id_item item))
          (btstack_hid_descriptor_iterator_init ds) False)"

section \<open>The items of a descriptor\<close>

text \<open>What follows the last item: the end, bytes that are no item, or an undefined value.\<close>

datatype descriptor_end = Complete | Malformed | Undefined c_error

lemma parse_item_size:
  assumes "btstack_hid_descriptor_parse_item ds = Inr (Some item)"
  shows "0 < item_size item" and "item_size item \<le> length ds"
  using assms by (auto simp: btstack_hid_descriptor_parse_item_def Let_def mapR_Inr_iff
      split: list.splits if_splits)

function descriptor_items :: "bytes \<Rightarrow> hid_descriptor_item list \<times> descriptor_end" where
  "descriptor_items ds =
     (if ds = [] then ([], Complete)
      else case btstack_hid_descriptor_parse_item ds of
             Inl e \<Rightarrow> ([], Undefined e)
           | Inr None \<Rightarrow> ([], Malformed)
           | Inr (Some item) \<Rightarrow>
               (case descriptor_items (drop (item_size item) ds) of (items, stop) \<Rightarrow>
                  (item # items, stop)))"
  by pat_completeness auto
termination
proof (relation "measure length")
  fix ds :: bytes and item :: hid_descriptor_item and v :: "hid_descriptor_item option"
  assume "ds \<noteq> []" "btstack_hid_descriptor_parse_item ds = Inr v" "v = Some item"
  then show "(drop (item_size item) ds, ds) \<in> measure length"
    using parse_item_size [of ds item] by simp
qed simp

declare descriptor_items.simps [simp del]

text \<open>The fold a loop over the items computes.\<close>

primrec run_items ::
    "('s \<Rightarrow> bool) \<Rightarrow> (hid_descriptor_item \<Rightarrow> 's \<Rightarrow> 's cres) \<Rightarrow> descriptor_end
      \<Rightarrow> hid_descriptor_item list \<Rightarrow> 's \<Rightarrow> ('s \<times> bool) cres" where
  "run_items continue body stop [] s =
     (if \<not> continue s then Inr (s, True)
      else case stop of Complete \<Rightarrow> Inr (s, True) | Malformed \<Rightarrow> Inr (s, False) | Undefined e \<Rightarrow> Inl e)"
| "run_items continue body stop (x # xs) s =
     (if \<not> continue s then Inr (s, True)
      else bindR (body x s) (run_items continue body stop xs))"

definition iterator_inv :: "descriptor_iterator \<Rightarrow> bool" where
  "iterator_inv it \<longleftrightarrow> di_pos it \<le> length (di_descriptor it)
     \<and> (di_item_ready it \<longrightarrow> btstack_hid_descriptor_parse_item (drop (di_pos it) (di_descriptor it))
          = Inr (Some (di_item it)))"

definition iterator_rest :: "descriptor_iterator \<Rightarrow> nat" where
  "iterator_rest it = length (di_descriptor it) - di_pos it"

lemma iterator_init_inv [simp]: "iterator_inv (btstack_hid_descriptor_iterator_init ds)"
  by (simp add: iterator_inv_def btstack_hid_descriptor_iterator_init_def)

lemma has_more_inv:
  assumes "iterator_inv it" and "btstack_hid_descriptor_iterator_has_more it = Inr (ready, it')"
  shows "iterator_inv it'" and "di_pos it' = di_pos it" and "di_descriptor it' = di_descriptor it"
    and "di_item_ready it' = ready" and "di_valid it' \<Longrightarrow> di_valid it"
  using assms by (auto simp: btstack_hid_descriptor_iterator_has_more_def bindR_Inr_iff iterator_inv_def
      split: if_splits option.splits)

lemma get_item_inv:
  assumes "iterator_inv it" and "di_item_ready it"
    and "btstack_hid_descriptor_iterator_get_item it = (item, it')"
  shows "iterator_inv it'" and "di_pos it < di_pos it'" and "di_descriptor it' = di_descriptor it"
    and "di_valid it' = di_valid it" and "\<not> di_item_ready it'" and "iterator_rest it' < iterator_rest it"
    and "item = di_item it"
proof -
  have p: "btstack_hid_descriptor_parse_item (drop (di_pos it) (di_descriptor it)) = Inr (Some (di_item it))"
    using assms(1,2) by (simp add: iterator_inv_def)
  have pos: "di_pos it \<le> length (di_descriptor it)" using assms(1) by (simp add: iterator_inv_def)
  note size = parse_item_size [OF p]
  show "iterator_inv it'" "di_pos it < di_pos it'" "di_descriptor it' = di_descriptor it"
    "di_valid it' = di_valid it" "\<not> di_item_ready it'" "iterator_rest it' < iterator_rest it"
    "item = di_item it"
    using assms(3) size pos
    by (auto simp: btstack_hid_descriptor_iterator_get_item_def iterator_inv_def iterator_rest_def)
qed

text \<open>
  One turn of a loop: the item \<open>has_more\<close> then \<open>get_item\<close> delivers is the first item of what remains.
\<close>

lemma has_more_items:
  assumes "iterator_inv it" and "\<not> di_item_ready it"
  shows "btstack_hid_descriptor_iterator_has_more it =
    (case descriptor_items (drop (di_pos it) (di_descriptor it)) of
       ([], Complete) \<Rightarrow> Inr (False, it)
     | ([], Malformed) \<Rightarrow> Inr (False, it\<lparr>di_valid := False\<rparr>)
     | ([], Undefined e) \<Rightarrow> Inl e
     | (x # xs, stop) \<Rightarrow> Inr (True, it\<lparr>di_item := x, di_item_ready := True\<rparr>))"
proof (cases "di_pos it < length (di_descriptor it)")
  case True
  then show ?thesis
    using assms(2) descriptor_items.simps [of "drop (di_pos it) (di_descriptor it)"]
    by (auto simp: btstack_hid_descriptor_iterator_has_more_def
        split: sum.splits option.splits prod.splits)
next
  case False
  then show ?thesis
    using assms(2) descriptor_items.simps [of "drop (di_pos it) (di_descriptor it)"]
    by (simp add: btstack_hid_descriptor_iterator_has_more_def)
qed

text \<open>Every loop over the iterator ends, whatever the bytes of the descriptor are.\<close>

lemma iterate_items_total:
  assumes "iterator_inv it" and "P s"
    and "\<forall>item s s'. P s \<longrightarrow> body item s = Inr s' \<longrightarrow> P s'"
  shows "\<exists>r. iterate_items continue body it s = Some r
    \<and> (\<forall>s' it'. r = Inr (s', it') \<longrightarrow> iterator_inv it' \<and> di_descriptor it' = di_descriptor it
         \<and> di_pos it \<le> di_pos it' \<and> (di_pos it' = di_pos it \<longrightarrow> s' = s) \<and> P s')"
  using assms(1,2)
proof (induction "iterator_rest it" arbitrary: it s rule: less_induct)
  case less
  note inv = less.prems(1)
  consider "\<not> continue s" | e where "continue s" "btstack_hid_descriptor_iterator_has_more it = Inl e"
    | it1 where "continue s" "btstack_hid_descriptor_iterator_has_more it = Inr (False, it1)"
    | it1 where "continue s" "btstack_hid_descriptor_iterator_has_more it = Inr (True, it1)"
    by (metis (full_types) prod.exhaust sum.exhaust)
  then show ?case
  proof cases
    case 1
    then have "iterate_items continue body it s = Some (Inr (s, it))"
      by (subst iterate_items.simps) simp
    then show ?thesis using less.prems by simp
  next
    case 2
    then have "iterate_items continue body it s = Some (Inl e)"
      by (subst iterate_items.simps) simp
    then show ?thesis by simp
  next
    case 3
    then have "iterate_items continue body it s = Some (Inr (s, it1))"
      by (subst iterate_items.simps) simp
    then show ?thesis using less.prems(2) has_more_inv [OF inv 3(2)] by simp
  next
    case 4
    note it1 = 4(2)
    obtain item it2 where it2: "btstack_hid_descriptor_iterator_get_item it1 = (item, it2)"
      by fastforce
    note inv1 = has_more_inv [OF inv it1]
    then have "di_item_ready it1" by simp
    note inv2 = get_item_inv [OF inv1(1) this it2]
    have pos: "di_pos it < di_pos it2" and rest: "iterator_rest it2 < iterator_rest it"
      and desc: "di_descriptor it2 = di_descriptor it"
      using inv1 inv2 by (simp_all add: iterator_rest_def)
    have unfold: "iterate_items continue body it s
        = (case body item s of Inl e \<Rightarrow> Some (Inl e) | Inr s' \<Rightarrow> iterate_items continue body it2 s')"
      using 4 it2 by (subst iterate_items.simps) simp
    show ?thesis
    proof (cases "body item s")
      case (Inl e)
      then show ?thesis using unfold by simp
    next
      case (Inr s')
      obtain r where r: "iterate_items continue body it2 s' = Some r"
        "\<And>s' it'. r = Inr (s', it') \<Longrightarrow> iterator_inv it' \<and> di_descriptor it' = di_descriptor it2
           \<and> di_pos it2 \<le> di_pos it' \<and> P s'"
        using less.hyps [OF rest inv2(1), of s'] assms(3) less.prems(2) Inr by blast
      have "iterate_items continue body it s = Some r" by (simp only: unfold Inr sum.case r(1))
      moreover have "iterator_inv it' \<and> di_descriptor it' = di_descriptor it
         \<and> di_pos it \<le> di_pos it' \<and> (di_pos it' = di_pos it \<longrightarrow> s'' = s) \<and> P s''" if "r = Inr (s'', it')" for s'' it'
        using r(2) [OF that] pos desc by simp
      ultimately show ?thesis by blast
    qed
  qed
qed

lemma iterate_items_cases:
  assumes "iterator_inv it" and "P s"
    and "\<forall>item s s'. P s \<longrightarrow> body item s = Inr s' \<longrightarrow> P s'"
  obtains (error) e where "iterate_items continue body it s = Some (Inl e)"
  | (result) s' it' where "iterate_items continue body it s = Some (Inr (s', it'))"
      "iterator_inv it'" "di_descriptor it' = di_descriptor it" "di_pos it \<le> di_pos it'"
      "di_pos it' = di_pos it \<longrightarrow> s' = s" "P s'"
proof -
  from iterate_items_total [where P = P and s = s and continue = continue and body = body, OF assms]
  obtain r where r: "iterate_items continue body it s = Some r"
    "\<forall>s' it'. r = Inr (s', it') \<longrightarrow> iterator_inv it' \<and> di_descriptor it' = di_descriptor it
         \<and> di_pos it \<le> di_pos it' \<and> (di_pos it' = di_pos it \<longrightarrow> s' = s) \<and> P s'" by blast
  show thesis
  proof (cases r)
    case (Inl e)
    with r error show thesis by simp
  next
    case (Inr p)
    then obtain s' it' where "r = Inr (s', it')" by (cases p) simp
    with r result show thesis by blast
  qed
qed

text \<open>The loop computes the fold over the items that the descriptor holds.\<close>

lemma iterate_items_run:
  assumes "iterator_inv it" and "\<not> di_item_ready it" and "di_valid it"
    and "descriptor_items (drop (di_pos it) (di_descriptor it)) = (items, stop)"
  shows "\<exists>r. iterate_items continue body it s = Some r
    \<and> mapR (\<lambda>(s', it'). (s', di_valid it')) r = run_items continue body stop items s"
  using assms
proof (induction items arbitrary: it s)
  case Nil
  then show ?case
    using has_more_items [OF Nil.prems(1,2)]
    by (subst iterate_items.simps) (cases stop; simp)
next
  case (Cons x xs)
  let ?it1 = "it\<lparr>di_item := x, di_item_ready := True\<rparr>"
  have more: "btstack_hid_descriptor_iterator_has_more it = Inr (True, ?it1)"
    using has_more_items [OF Cons.prems(1,2)] Cons.prems(4) by simp
  define it2 where "it2 = snd (btstack_hid_descriptor_iterator_get_item ?it1)"
  have get: "btstack_hid_descriptor_iterator_get_item ?it1 = (x, it2)"
    by (simp add: it2_def btstack_hid_descriptor_iterator_get_item_def)
  note inv1 = has_more_inv [OF Cons.prems(1) more]
  have "di_item_ready ?it1" by simp
  note inv2 = get_item_inv [OF inv1(1) this get]
  from Cons.prems(4) descriptor_items.simps [of "drop (di_pos it) (di_descriptor it)"]
  have "descriptor_items (drop (item_size x) (drop (di_pos it) (di_descriptor it))) = (xs, stop)"
    by (auto split: sum.splits option.splits if_splits prod.splits)
  then have rest: "descriptor_items (drop (di_pos it2) (di_descriptor it2)) = (xs, stop)"
    by (simp add: it2_def btstack_hid_descriptor_iterator_get_item_def add.commute)
  have valid: "di_valid it2" using Cons.prems(3) inv2(4) by simp
  show ?case
  proof (cases "continue s")
    case False
    then show ?thesis using Cons.prems(3) by (subst iterate_items.simps) simp
  next
    case True
    then have unfold: "iterate_items continue body it s
        = (case body x s of Inl e \<Rightarrow> Some (Inl e) | Inr s' \<Rightarrow> iterate_items continue body it2 s')"
      using more get by (subst iterate_items.simps) simp
    show ?thesis
    proof (cases "body x s")
      case (Inl e)
      then show ?thesis using unfold True by simp
    next
      case (Inr s')
      from Cons.IH [OF inv2(1,5) valid rest, of s'] unfold Inr True show ?thesis by simp
    qed
  qed
qed

lemma iterate_items_init_run:
  assumes "descriptor_items ds = (items, stop)"
  shows "\<exists>r. iterate_items continue body (btstack_hid_descriptor_iterator_init ds) s = Some r
    \<and> mapR (\<lambda>(s', it'). (s', di_valid it')) r = run_items continue body stop items s"
  by (rule iterate_items_run)
    (simp_all add: assms iterator_inv_def btstack_hid_descriptor_iterator_init_def)

lemma mapR_pair_Inr: "mapR (\<lambda>(s', it'). (s', di_valid it')) r = Inr (s, v)
    \<longleftrightarrow> (\<exists>it. r = Inr (s, it) \<and> di_valid it = v)"
  by (cases r) auto

section \<open>What the queries answer\<close>

definition declared_report_ids :: "hid_descriptor_item list \<Rightarrow> u16 list" where
  "declared_report_ids items = map (\<lambda>item. word_of_int (item_value item)) (filter report_id_item items)"

lemma run_declared:
  "run_items (\<lambda>found. \<not> found) (\<lambda>item found. Inr (report_id_item item)) stop items False =
    (if \<exists>item \<in> set items. report_id_item item then Inr (True, True)
     else case stop of Complete \<Rightarrow> Inr (False, True) | Malformed \<Rightarrow> Inr (False, False) | Undefined e \<Rightarrow> Inl e)"
proof (induction items)
  case Nil
  then show ?case by simp
next
  case (Cons x xs)
  then show ?case
    by (cases "report_id_item x"; cases xs) simp_all
qed

lemma run_id_query:
  "run_items (\<lambda>_. True) (id_query_body rid) stop items (current, found) =
    (case stop of
       Undefined e \<Rightarrow> Inl e
     | _ \<Rightarrow> Inr ((last (current # declared_report_ids items), found \<or> rid \<in> set (declared_report_ids items)),
                 stop = Complete))"
  by (induction items arbitrary: current found)
    (auto simp: id_query_body_def declared_report_ids_def Let_def split: descriptor_end.splits)

lemma iterate_items_returns:
  "\<exists>r. iterate_items continue body (btstack_hid_descriptor_iterator_init ds) s = Some r"
  using iterate_items_total [where P = "\<lambda>_. True" and s = s and body = body and continue = continue,
      OF iterator_init_inv [of ds]] by blast

text \<open>The three queries over a whole descriptor terminate on every byte sequence, well
  formed or not: the loops over the descriptor iterator never hang.\<close>

theorem descriptor_queries_terminate:
  "btstack_hid_get_report_size_for_id rid ty ds \<noteq> None
   \<and> btstack_hid_report_id_valid rid ds \<noteq> None
   \<and> btstack_hid_report_id_declared ds \<noteq> None"
  by (simp add: btstack_hid_get_report_size_for_id_def btstack_hid_report_id_valid_def
      btstack_hid_report_id_declared_def iterate_items_returns)

text \<open>A report id is valid exactly when a well-formed descriptor declares it, or when no id
  is declared and the caller asks for the undefined id; a malformed descriptor is reported as
  invalid whatever ids precede the damage.\<close>

theorem report_id_valid_correct:
  "btstack_hid_report_id_valid rid ds = Some (case snd (descriptor_items ds) of
       Undefined e \<Rightarrow> Inl e
     | Malformed \<Rightarrow> Inr HID_REPORT_ID_INVALID
     | Complete \<Rightarrow>
         let ids = declared_report_ids (fst (descriptor_items ds))
         in Inr (if rid \<in> set ids \<or> ids = [] \<and> rid = HID_REPORT_ID_UNDEFINED
                 then HID_REPORT_ID_VALID else HID_REPORT_ID_UNDECLARED))"
proof -
  obtain items stop where items: "descriptor_items ds = (items, stop)" by fastforce
  let ?ids = "declared_report_ids items"
  obtain r where r: "iterate_items (\<lambda>_. True) (id_query_body rid)
      (btstack_hid_descriptor_iterator_init ds) (HID_REPORT_ID_UNDEFINED, False) = Some r"
    and run: "mapR (\<lambda>(s', it'). (s', di_valid it')) r
      = run_items (\<lambda>_. True) (id_query_body rid) stop items (HID_REPORT_ID_UNDEFINED, False)"
    using iterate_items_init_run [OF items, of "\<lambda>_. True" "id_query_body rid"] by metis
  have last: "last (HID_REPORT_ID_UNDEFINED # ?ids) = (if ?ids = [] then HID_REPORT_ID_UNDEFINED else last ?ids)"
    by simp
  show ?thesis
  proof (cases r)
    case (Inl e)
    with run r items show ?thesis
      by (auto simp: run_id_query btstack_hid_report_id_valid_def split: descriptor_end.splits)
  next
    case (Inr p)
    then obtain current found it where p: "r = Inr ((current, found), it)" by (metis prod.exhaust)
    with run have "stop = Complete \<and> di_valid it \<or> stop = Malformed \<and> \<not> di_valid it"
      and "current = last (HID_REPORT_ID_UNDEFINED # ?ids)" and "found = (rid \<in> set ?ids)"
      by (auto simp: run_id_query split: descriptor_end.splits)
    with p r items last show ?thesis
      by (auto simp: btstack_hid_report_id_valid_def btstack_hid_descriptor_iterator_valid_def Let_def)
        (metis last_in_set)
  qed
qed

end
