(* ===== verification/Hid_Report.thy ===== *)
theory Hid_Report
  imports Hid_Descriptor
begin

text \<open>
  \<^verbatim>\<open>components/btstack/src/btstack_hid_parser.c\<close>, second half: the usage iterator, which
  pairs the fields of a report with their usages, and the report parser, which reads the
  fields out of the report bytes. The loops are partial functions; \<open>parser_returns\<close> shows
  that they end for every descriptor, by the lexicographic measure \<open>usage_measure\<close>.
\<close>

section \<open>The usage iterator\<close>

datatype usage_iterator_state = SCAN_FOR_REPORT_ITEM | USAGES_AVAILABLE | PARSER_COMPLETE

record usage_iterator =
  ui_descriptor :: bytes
  ui_descriptor_iterator :: descriptor_iterator
  ui_state :: usage_iterator_state
  ui_descriptor_item :: hid_descriptor_item
  ui_report_type :: hid_report_type
  ui_report_pos_in_bit :: u16
  ui_usage_pos :: nat
  ui_usage_page :: u16
  ui_usage_minimum :: u32
  ui_usage_maximum :: u32
  ui_available_usages :: u16
  ui_required_usages :: u16
  ui_usage_range :: bool
  ui_global_logical_minimum :: int
  ui_global_logical_maximum :: int
  ui_global_usage_page :: u16
  ui_global_report_size :: u8
  ui_global_report_count :: u8
  ui_global_report_id :: u16

record usage_item =
  us_report_id :: u16
  us_bit_pos :: u16
  us_usage_page :: u16
  us_usage :: u16
  us_size :: u8
  us_descriptor_item :: hid_descriptor_item
  us_global_logical_minimum :: int

text \<open>The tags without effect, and \<^verbatim>\<open>btstack_assert(false)\<close> for the reserved ones.\<close>

definition handle_global_item :: "usage_iterator \<Rightarrow> hid_descriptor_item \<Rightarrow> usage_iterator cres" where
  "handle_global_item u item =
     (let tag = item_tag item; v = item_value item in
      if tag = Global_UsagePage then Inr (u\<lparr>ui_global_usage_page := word_of_int v\<rparr>)
      else if tag = Global_LogicalMinimum then Inr (u\<lparr>ui_global_logical_minimum := v\<rparr>)
      else if tag = Global_LogicalMaximum then Inr (u\<lparr>ui_global_logical_maximum := v\<rparr>)
      else if tag = Global_ReportSize then Inr (u\<lparr>ui_global_report_size := word_of_int v\<rparr>)
      else if tag = Global_ReportID then Inr (u\<lparr>ui_global_report_id := word_of_int v\<rparr>)
      else if tag = Global_ReportCount then Inr (u\<lparr>ui_global_report_count := word_of_int v\<rparr>)
      else if tag \<le> Global_Pop then Inr u
      else Inl Assertion_failed)"

text \<open>The loop state of the inner search: the main iterator, \<^verbatim>\<open>have_usage_min\<close>, \<^verbatim>\<open>have_usage_max\<close>.\<close>

definition usage_value :: "usage_iterator \<Rightarrow> hid_descriptor_item \<Rightarrow> u32" where
  "usage_value u item =
     (if 2 < data_size item then u32_of_i32 (item_value item)
      else push_bit 16 (ucast (ui_usage_page u)) OR u32_of_i32 (item_value item))"

definition find_usage_body ::
    "hid_descriptor_item \<Rightarrow> usage_iterator \<times> bool \<times> bool \<Rightarrow> (usage_iterator \<times> bool \<times> bool) cres" where
  "find_usage_body item s =
     (case s of (u, have_min, have_max) \<Rightarrow>
        let u = (if item_type item = Tag_Global \<and> item_tag item = Global_UsagePage
                 then u\<lparr>ui_usage_page := word_of_int (item_value item)\<rparr> else u)
        in if item_type item = Tag_Local then
             let v = usage_value u item;
                 tag = item_tag item;
                 u = (if tag = Local_Usage then u\<lparr>ui_available_usages := 1, ui_usage_minimum := v\<rparr>
                      else if tag = Local_UsageMinimum then u\<lparr>ui_usage_minimum := v\<rparr>
                      else if tag = Local_UsageMaximum then u\<lparr>ui_usage_maximum := v\<rparr>
                      else u);
                 have_min = (have_min \<or> tag = Local_UsageMinimum);
                 have_max = (have_max \<or> tag = Local_UsageMaximum);
                 u = (if have_min \<and> have_max
                      then u\<lparr>ui_available_usages := ucast (ui_usage_maximum u - ui_usage_minimum u + 1),
                             ui_usage_range := True\<rparr>
                      else u)
             in Inr (u, have_min, have_max)
           else Inr (u, have_min, have_max))"

definition usage_iterator_hid_find_next_usage :: "usage_iterator \<Rightarrow> usage_iterator cres option" where
  "usage_iterator_hid_find_next_usage u =
     map_option (mapR (\<lambda>((u', have_min, have_max), it).
         u'\<lparr>ui_usage_pos := ui_usage_pos u' + di_pos it\<rparr>))
       (iterate_items (\<lambda>(u', _). ui_available_usages u' = 0) find_usage_body
          (btstack_hid_descriptor_iterator_init (drop (ui_usage_pos u) (ui_descriptor u)))
          (u\<lparr>ui_usage_range := False\<rparr>, False, False))"

definition process_item :: "usage_iterator \<Rightarrow> hid_descriptor_item \<Rightarrow> usage_iterator cres" where
  "process_item u item =
     (if item_type item = Tag_Main then
        (if \<not> main_item_tag_matches_report_type (item_tag item) (ui_report_type u) then Inr u
         else if odd (item_value item)
         then Inr (u\<lparr>ui_report_pos_in_bit := ui_report_pos_in_bit u
                      + ucast (ui_global_report_size u) * ucast (ui_global_report_count u)\<rparr>)
         else if ui_global_report_count u = 0 then Inr u
         else Inr (u\<lparr>ui_required_usages := ucast (ui_global_report_count u)\<rparr>))
      else if item_type item = Tag_Global then
        mapR (\<lambda>u'. if ui_global_report_id u \<noteq> ui_global_report_id u'
                   then u'\<lparr>ui_report_pos_in_bit := 0\<rparr> else u') (handle_global_item u item)
      else if item_type item = Tag_Local \<or> item_type item = Tag_Reserved then Inr u
      else Inl Assertion_failed)"

definition complete_or_available :: "usage_iterator \<Rightarrow> usage_iterator" where
  "complete_or_available u =
     (if ui_available_usages u \<noteq> 0 then u\<lparr>ui_state := USAGES_AVAILABLE\<rparr>
      else u\<lparr>ui_state := PARSER_COMPLETE\<rparr>)"

definition reset_usage :: "usage_iterator \<Rightarrow> usage_iterator" where
  "reset_usage u =
     (if item_type (ui_descriptor_item u) = Tag_Main
      then u\<lparr>ui_usage_pos := di_pos (ui_descriptor_iterator u), ui_usage_page := ui_global_usage_page u\<rparr>
      else u)"

partial_function (option) usage_iterator_find_next_usage ::
    "usage_iterator \<Rightarrow> usage_iterator cres option" where
  "usage_iterator_find_next_usage u =
     (case btstack_hid_descriptor_iterator_has_more (ui_descriptor_iterator u) of
        Inl e \<Rightarrow> Some (Inl e)
      | Inr (ready, it1) \<Rightarrow>
          if \<not> ready
          then Some (Inr (u\<lparr>ui_descriptor_iterator := it1, ui_state := PARSER_COMPLETE\<rparr>))
          else (case btstack_hid_descriptor_iterator_get_item it1 of (item, it2) \<Rightarrow>
                 (case process_item (u\<lparr>ui_descriptor_iterator := it2, ui_descriptor_item := item\<rparr>) item of
                    Inl e \<Rightarrow> Some (Inl e)
                  | Inr u' \<Rightarrow>
                      if ui_required_usages u' \<noteq> 0
                      then map_option (mapR complete_or_available) (usage_iterator_hid_find_next_usage u')
                      else usage_iterator_find_next_usage (reset_usage u'))))"

declare usage_iterator_find_next_usage.simps [code]

definition usage_iterator_init :: "bytes \<Rightarrow> hid_report_type \<Rightarrow> usage_iterator" where
  "usage_iterator_init ds report_type =
     \<lparr>ui_descriptor = ds, ui_descriptor_iterator = btstack_hid_descriptor_iterator_init ds,
      ui_state = SCAN_FOR_REPORT_ITEM, ui_descriptor_item = zero_item, ui_report_type = report_type,
      ui_report_pos_in_bit = 0, ui_usage_pos = 0, ui_usage_page = 0, ui_usage_minimum = 0,
      ui_usage_maximum = 0, ui_available_usages = 0, ui_required_usages = 0, ui_usage_range = False,
      ui_global_logical_minimum = 0, ui_global_logical_maximum = 0, ui_global_usage_page = 0,
      ui_global_report_size = 0, ui_global_report_count = 0,
      ui_global_report_id = HID_REPORT_ID_UNDEFINED\<rparr>"

partial_function (option) usage_iterator_has_more ::
    "usage_iterator \<Rightarrow> (bool \<times> usage_iterator) cres option" where
  "usage_iterator_has_more u =
     (if ui_state u = SCAN_FOR_REPORT_ITEM
      then Option.bind (usage_iterator_find_next_usage u) (\<lambda>r.
             case r of Inl e \<Rightarrow> Some (Inl e) | Inr u' \<Rightarrow> usage_iterator_has_more u')
      else Some (Inr (ui_state u = USAGES_AVAILABLE, u)))"

declare usage_iterator_has_more.simps [code]

definition is_variable_item :: "hid_descriptor_item \<Rightarrow> bool" where
  "is_variable_item item \<longleftrightarrow> u32_of_i32 (item_value item) AND 2 \<noteq> 0"

definition current_usage_item :: "usage_iterator \<Rightarrow> usage_item" where
  "current_usage_item u =
     \<lparr>us_report_id = ui_global_report_id u,
      us_bit_pos = ui_report_pos_in_bit u,
      us_usage_page = ucast (drop_bit 16 (ui_usage_minimum u)),
      us_usage = (if is_variable_item (ui_descriptor_item u)
                  then ucast (ui_usage_minimum u AND 0xffff) else 0),
      us_size = ui_global_report_size u,
      us_descriptor_item = ui_descriptor_item u,
      us_global_logical_minimum = ui_global_logical_minimum u\<rparr>"

definition consume_usage :: "usage_iterator \<Rightarrow> usage_iterator" where
  "consume_usage u =
     (let u1 = u\<lparr>ui_required_usages := ui_required_usages u - 1,
                 ui_report_pos_in_bit := ui_report_pos_in_bit u + ucast (ui_global_report_size u)\<rparr>
      in if is_variable_item (ui_descriptor_item u) then
           let u2 = u1\<lparr>ui_usage_minimum := ui_usage_minimum u1 + 1,
                       ui_available_usages := ui_available_usages u1 - 1\<rparr>
           in if ui_usage_range u2 \<and> ui_usage_maximum u2 < ui_usage_minimum u2
              then u2\<lparr>ui_report_pos_in_bit := ui_report_pos_in_bit u2
                        + ucast (ui_global_report_size u2) * ui_required_usages u2,
                      ui_required_usages := 0\<rparr>
              else u2
         else if ui_required_usages u1 = 0 then u1\<lparr>ui_available_usages := 0\<rparr> else u1)"

definition usage_iterator_get_item :: "usage_iterator \<Rightarrow> (usage_item \<times> usage_iterator) cres option" where
  "usage_iterator_get_item u =
     (let item = current_usage_item u; u1 = consume_usage u
      in if ui_available_usages u1 \<noteq> 0 then Some (Inr (item, u1))
         else if ui_required_usages u1 = 0
         then Some (Inr (item, u1\<lparr>ui_state := SCAN_FOR_REPORT_ITEM\<rparr>))
         else map_option (mapR (\<lambda>u2.
                (item, if ui_available_usages u2 = 0 then u2\<lparr>ui_state := PARSER_COMPLETE\<rparr> else u2)))
              (usage_iterator_hid_find_next_usage u1))"

section \<open>The report parser\<close>

text \<open>
  \<open>hp_report\<close> are the bytes that can be read from the report pointer on. They may be more
  than the \<open>hp_report_len\<close> bytes of the report: the parser is called on a report inside
  a packet buffer.
\<close>

record hid_parser =
  hp_usage_iterator :: usage_iterator
  hp_report :: bytes
  hp_report_len :: nat
  hp_have_report_usage_ready :: bool
  hp_usage_item :: usage_item

definition zero_usage_item :: usage_item where
  "zero_usage_item = \<lparr>us_report_id = 0, us_bit_pos = 0, us_usage_page = 0, us_usage = 0,
     us_size = 0, us_descriptor_item = zero_item, us_global_logical_minimum = 0\<rparr>"

definition hid_parser_init :: "bytes \<Rightarrow> hid_report_type \<Rightarrow> bytes \<Rightarrow> nat \<Rightarrow> hid_parser" where
  "hid_parser_init ds report_type report report_len =
     \<lparr>hp_usage_iterator = usage_iterator_init ds report_type, hp_report = report,
      hp_report_len = report_len, hp_have_report_usage_ready = False, hp_usage_item = zero_usage_item\<rparr>"

definition read_byte :: "bytes \<Rightarrow> nat \<Rightarrow> u8 cres" where
  "read_byte bs i = (if i < length bs then Inr (bs ! i) else Inl Out_of_bounds)"

definition report_id_matches :: "hid_parser \<Rightarrow> usage_item \<Rightarrow> bool cres" where
  "report_id_matches p item =
     (if us_report_id item = HID_REPORT_ID_UNDEFINED then Inr True
      else mapR (\<lambda>b. us_report_id item = ucast b) (read_byte (hp_report p) 0))"

partial_function (option) hid_parser_has_more :: "hid_parser \<Rightarrow> (bool \<times> hid_parser) cres option" where
  "hid_parser_has_more p =
     (if hp_have_report_usage_ready p then Some (Inr (True, p))
      else Option.bind (usage_iterator_has_more (hp_usage_iterator p)) (\<lambda>r.
        case r of Inl e \<Rightarrow> Some (Inl e)
        | Inr (avail, u1) \<Rightarrow>
            if \<not> avail then Some (Inr (False, p\<lparr>hp_usage_iterator := u1\<rparr>))
            else Option.bind (usage_iterator_get_item u1) (\<lambda>r2.
              case r2 of Inl e \<Rightarrow> Some (Inl e)
              | Inr (item, u2) \<Rightarrow>
                  (case report_id_matches p item of
                     Inl e \<Rightarrow> Some (Inl e)
                   | Inr ok \<Rightarrow>
                       hid_parser_has_more
                         (p\<lparr>hp_usage_iterator := u2, hp_usage_item := item,
                            hp_have_report_usage_ready := ok\<rparr>)))))"

declare hid_parser_has_more.simps [code]

primrec read_le :: "bytes \<Rightarrow> nat \<Rightarrow> nat \<Rightarrow> nat \<Rightarrow> u32 cres" where
  "read_le report pos i 0 = Inr 0"
| "read_le report pos i (Suc n) =
     bindR (read_byte report (pos + i)) (\<lambda>b.
       if 32 \<le> i * 8 then Inl Shift_out_of_range
       else mapR (\<lambda>rest. push_bit (i * 8) (ucast b) OR rest) (read_le report pos (Suc i) n))"

definition u32_shl_1 :: "u32 \<Rightarrow> u32 cres" where
  "u32_shl_1 n = (if 32 \<le> n then Inl Shift_out_of_range else Inr (push_bit (unat n) 1))"

text \<open>The values of the out-parameters \<^verbatim>\<open>usage_page\<close>, \<^verbatim>\<open>usage\<close> and \<^verbatim>\<open>value\<close>, and the parser.\<close>

definition field_start :: "usage_item \<Rightarrow> u16" where
  "field_start item =
     (if us_report_id item \<noteq> HID_REPORT_ID_UNDEFINED then us_bit_pos item + 8 else us_bit_pos item)"

definition read_field :: "bytes \<Rightarrow> nat \<Rightarrow> u16 \<Rightarrow> u8 \<Rightarrow> u32 cres" where
  "read_field report report_len bit_pos sz =
     (let pos_start = min (unat (drop_bit 3 bit_pos)) report_len;
          pos_end = min (unat (drop_bit 3 (ucast bit_pos + ucast sz - 1 :: u32))) report_len
      in bindR (read_le report pos_start 0 (pos_end + 1 - pos_start)) (\<lambda>multi_byte_value.
         bindR (u32_shl_1 (ucast sz)) (\<lambda>top.
         Inr (drop_bit (unat (bit_pos AND 7)) multi_byte_value AND (top - 1)))))"

definition field_value :: "usage_item \<Rightarrow> u32 \<Rightarrow> int cres" where
  "field_value item unsigned_value =
     (if us_global_logical_minimum item < 0
      then bindR (u32_shl_1 (ucast (us_size item) - 1)) (\<lambda>sign.
             if unsigned_value AND sign \<noteq> 0
             then mapR (\<lambda>top. i32_of_u32 (unsigned_value - top)) (u32_shl_1 (ucast (us_size item)))
             else Inr (i32_of_u32 unsigned_value))
      else Inr (i32_of_u32 unsigned_value))"

definition hid_parser_get_field :: "hid_parser \<Rightarrow> (u16 \<times> u16 \<times> int \<times> hid_parser) cres" where
  "hid_parser_get_field p =
     (let item = hp_usage_item p
      in bindR (read_field (hp_report p) (hp_report_len p) (field_start item) (us_size item))
           (\<lambda>unsigned_value.
              if is_variable_item (us_descriptor_item item)
              then mapR (\<lambda>v. (us_usage_page item, us_usage item, v,
                              p\<lparr>hp_have_report_usage_ready := False\<rparr>))
                     (field_value item unsigned_value)
              else Inr (us_usage_page item, ucast unsigned_value, 1,
                        p\<lparr>hp_have_report_usage_ready := False\<rparr>)))"

section \<open>Termination for every descriptor\<close>

text \<open>What the search for usages leaves alone.\<close>

definition usages_only :: "usage_iterator \<Rightarrow> usage_iterator \<Rightarrow> bool" where
  "usages_only u0 u \<longleftrightarrow> ui_descriptor u = ui_descriptor u0
     \<and> ui_descriptor_iterator u = ui_descriptor_iterator u0
     \<and> ui_state u = ui_state u0
     \<and> ui_descriptor_item u = ui_descriptor_item u0
     \<and> ui_report_pos_in_bit u = ui_report_pos_in_bit u0
     \<and> ui_required_usages u = ui_required_usages u0
     \<and> ui_global_logical_minimum u = ui_global_logical_minimum u0
     \<and> ui_global_logical_maximum u = ui_global_logical_maximum u0
     \<and> ui_global_report_size u = ui_global_report_size u0
     \<and> ui_global_report_id u = ui_global_report_id u0"

lemma find_usage_body_frame:
  assumes "find_usage_body item (u, have_min, have_max) = Inr (u', have_min', have_max')"
  shows "usages_only u u'" and "ui_usage_pos u' = ui_usage_pos u"
  using assms by (auto simp: find_usage_body_def usages_only_def Let_def split: if_splits)

lemma usages_only_refl [simp]: "usages_only u u"
  by (simp add: usages_only_def)

lemma usages_only_trans: "\<lbrakk>usages_only u v; usages_only v w\<rbrakk> \<Longrightarrow> usages_only u w"
  by (simp add: usages_only_def)

text \<open>The search ends, and when it finds usages it has moved forward in the descriptor.\<close>

lemma find_next_usage_total:
  assumes "ui_usage_pos u \<le> length (ui_descriptor u)"
  shows "\<exists>r. usage_iterator_hid_find_next_usage u = Some r \<and> (\<forall>u'. r = Inr u' \<longrightarrow> usages_only u u'
    \<and> ui_usage_pos u \<le> ui_usage_pos u' \<and> ui_usage_pos u' \<le> length (ui_descriptor u)
    \<and> (ui_available_usages u = 0 \<longrightarrow> ui_available_usages u' \<noteq> 0 \<longrightarrow> ui_usage_pos u < ui_usage_pos u'))"
proof -
  let ?P = "\<lambda>s. usages_only u (fst s) \<and> ui_usage_pos (fst s) = ui_usage_pos u"
  let ?it = "btstack_hid_descriptor_iterator_init (drop (ui_usage_pos u) (ui_descriptor u))"
  have start: "?P (u\<lparr>ui_usage_range := False\<rparr>, False, False)"
    by (simp add: usages_only_def)
  have pres: "\<forall>item s s'. ?P s \<longrightarrow> find_usage_body item s = Inr s' \<longrightarrow> ?P s'"
  proof (intro allI impI)
    fix item s s'
    assume "?P s" "find_usage_body item s = Inr s'"
    obtain v a b where s: "s = (v, a, b)" by (cases s) auto
    obtain w c d where s': "s' = (w, c, d)" by (cases s') auto
    from \<open>?P s\<close> \<open>find_usage_body item s = Inr s'\<close> show "?P s'"
      using find_usage_body_frame [of item v a b w c d] usages_only_trans
      by (auto simp: s s')
  qed
  show ?thesis
  proof (rule iterate_items_cases [where P = ?P and it = ?it and s = "(u\<lparr>ui_usage_range := False\<rparr>, False, False)"
        and body = find_usage_body and continue = "\<lambda>(u', _). ui_available_usages u' = 0",
        OF iterator_init_inv start pres])
    fix e
    assume "iterate_items (\<lambda>(u', _). ui_available_usages u' = 0) find_usage_body ?it
      (u\<lparr>ui_usage_range := False\<rparr>, False, False) = Some (Inl e)"
    then show ?thesis by (simp add: usage_iterator_hid_find_next_usage_def)
  next
    fix s' it'
    assume r: "iterate_items (\<lambda>(u', _). ui_available_usages u' = 0) find_usage_body ?it
        (u\<lparr>ui_usage_range := False\<rparr>, False, False) = Some (Inr (s', it'))"
      and ok: "iterator_inv it'" "di_descriptor it' = di_descriptor ?it"
        "di_pos it' = di_pos ?it \<longrightarrow> s' = (u\<lparr>ui_usage_range := False\<rparr>, False, False)"
        "?P s'"
    obtain v a b where s': "s' = (v, a, b)" by (cases s') auto
    have "di_pos it' \<le> length (ui_descriptor u) - ui_usage_pos u"
      using ok by (simp add: iterator_inv_def btstack_hid_descriptor_iterator_init_def)
    moreover have "0 < di_pos it'" if "ui_available_usages u = 0" "ui_available_usages v \<noteq> 0"
      using ok that s' by (auto simp: btstack_hid_descriptor_iterator_init_def)
    ultimately show ?thesis
      using r s' ok assms by (auto simp: usage_iterator_hid_find_next_usage_def usages_only_def)
  qed
qed

text \<open>The invariant of the usage iterator between calls.\<close>

definition scan_inv :: "usage_iterator \<Rightarrow> bool" where
  "scan_inv u \<longleftrightarrow> iterator_inv (ui_descriptor_iterator u)
     \<and> \<not> di_item_ready (ui_descriptor_iterator u)
     \<and> di_descriptor (ui_descriptor_iterator u) = ui_descriptor u
     \<and> ui_usage_pos u \<le> length (ui_descriptor u)"

definition usage_inv :: "usage_iterator \<Rightarrow> bool" where
  "usage_inv u \<longleftrightarrow> scan_inv u
     \<and> (ui_state u = USAGES_AVAILABLE \<longrightarrow> ui_available_usages u \<noteq> 0
          \<and> (\<not> is_variable_item (ui_descriptor_item u) \<longrightarrow> ui_required_usages u \<noteq> 0))"

definition descriptor_rest :: "usage_iterator \<Rightarrow> nat" where
  "descriptor_rest u = iterator_rest (ui_descriptor_iterator u)"

lemma usage_init_inv: "usage_inv (usage_iterator_init ds ty)"
  by (simp add: usage_inv_def scan_inv_def usage_iterator_init_def)
    (simp add: btstack_hid_descriptor_iterator_init_def)

lemma process_item_frame:
  assumes "process_item u item = Inr u'"
  shows "ui_descriptor u' = ui_descriptor u" "ui_descriptor_iterator u' = ui_descriptor_iterator u"
    "ui_descriptor_item u' = ui_descriptor_item u" "ui_usage_pos u' = ui_usage_pos u"
    "ui_state u' = ui_state u"
  using assms by (auto simp: process_item_def handle_global_item_def Let_def mapR_Inr_iff split: if_splits)

lemma scan_find_next_usage:
  assumes "scan_inv u"
  shows "\<exists>r. usage_iterator_hid_find_next_usage u = Some r \<and> (\<forall>u'. r = Inr u' \<longrightarrow> usages_only u u'
    \<and> scan_inv u' \<and> descriptor_rest u' = descriptor_rest u
    \<and> (ui_available_usages u = 0 \<longrightarrow> ui_available_usages u' \<noteq> 0 \<longrightarrow>
         length (ui_descriptor u') - ui_usage_pos u' < length (ui_descriptor u) - ui_usage_pos u))"
proof -
  have "ui_usage_pos u \<le> length (ui_descriptor u)" using assms by (simp add: scan_inv_def)
  from find_next_usage_total [OF this] obtain r where
    r: "usage_iterator_hid_find_next_usage u = Some r"
    and frame: "\<forall>u'. r = Inr u' \<longrightarrow> usages_only u u'
      \<and> ui_usage_pos u \<le> ui_usage_pos u' \<and> ui_usage_pos u' \<le> length (ui_descriptor u)
      \<and> (ui_available_usages u = 0 \<longrightarrow> ui_available_usages u' \<noteq> 0 \<longrightarrow> ui_usage_pos u < ui_usage_pos u')"
    by blast
  have "usages_only u u' \<and> scan_inv u' \<and> descriptor_rest u' = descriptor_rest u
    \<and> (ui_available_usages u = 0 \<longrightarrow> ui_available_usages u' \<noteq> 0 \<longrightarrow>
         length (ui_descriptor u') - ui_usage_pos u' < length (ui_descriptor u) - ui_usage_pos u)"
    if "r = Inr u'" for u'
    using frame that assms
    by (auto simp: usages_only_def scan_inv_def descriptor_rest_def)
  with r show ?thesis by blast
qed

text \<open>One round of the outer search: an item is taken and processed.\<close>

lemma scan_step:
  assumes inv: "scan_inv u"
    and more: "btstack_hid_descriptor_iterator_has_more (ui_descriptor_iterator u) = Inr (True, it1)"
    and get: "btstack_hid_descriptor_iterator_get_item it1 = (item, it2)"
    and step: "process_item (u\<lparr>ui_descriptor_iterator := it2, ui_descriptor_item := item\<rparr>) item = Inr u'"
  shows "scan_inv u'" "descriptor_rest u' < descriptor_rest u"
    "scan_inv (reset_usage u')" "descriptor_rest (reset_usage u') = descriptor_rest u'"
proof -
  have inv0: "iterator_inv (ui_descriptor_iterator u)" using inv by (simp add: scan_inv_def)
  note inv1 = has_more_inv [OF inv0 more]
  have "di_item_ready it1" using inv1 by simp
  note inv2 = get_item_inv [OF inv1(1) this get]
  note frame = process_item_frame [OF step]
  show "scan_inv u'" using inv inv1 inv2 frame by (simp add: scan_inv_def)
  show "descriptor_rest u' < descriptor_rest u"
    using inv1 inv2 frame by (simp add: descriptor_rest_def iterator_rest_def)
  show "scan_inv (reset_usage u')" "descriptor_rest (reset_usage u') = descriptor_rest u'"
    using inv inv1 inv2 frame
    by (simp_all add: scan_inv_def reset_usage_def descriptor_rest_def iterator_inv_def)
qed

lemma find_next_usage_outer:
  assumes "scan_inv u"
  shows "\<exists>r. usage_iterator_find_next_usage u = Some r \<and> (\<forall>u'. r = Inr u' \<longrightarrow> usage_inv u'
    \<and> ui_state u' \<noteq> SCAN_FOR_REPORT_ITEM
    \<and> (ui_state u' = USAGES_AVAILABLE \<longrightarrow> descriptor_rest u' < descriptor_rest u))"
  using assms
proof (induction "descriptor_rest u" arbitrary: u rule: less_induct)
  case less
  note inv = less.prems
  let ?more = "btstack_hid_descriptor_iterator_has_more (ui_descriptor_iterator u)"
  consider (err) e where "?more = Inl e" | (stop) it1 where "?more = Inr (False, it1)"
    | (item) it1 item it2 where "?more = Inr (True, it1)"
        "btstack_hid_descriptor_iterator_get_item it1 = (item, it2)"
    by (metis (full_types) prod.exhaust sum.exhaust)
  then show ?case
  proof cases
    case err
    then show ?thesis by (subst usage_iterator_find_next_usage.simps) simp
  next
    case stop
    have inv0: "iterator_inv (ui_descriptor_iterator u)" using inv by (simp add: scan_inv_def)
    note inv1 = has_more_inv [OF inv0 stop]
    from stop have "usage_iterator_find_next_usage u
        = Some (Inr (u\<lparr>ui_descriptor_iterator := it1, ui_state := PARSER_COMPLETE\<rparr>))"
      by (subst usage_iterator_find_next_usage.simps) simp
    then show ?thesis using inv inv1 by (simp add: usage_inv_def scan_inv_def)
  next
    case item
    let ?step = "process_item (u\<lparr>ui_descriptor_iterator := it2, ui_descriptor_item := item\<rparr>) item"
    show ?thesis
    proof (cases ?step)
      case (Inl e)
      then show ?thesis using item by (subst usage_iterator_find_next_usage.simps) simp
    next
      case (Inr u')
      note step = scan_step [OF inv item Inr]
      show ?thesis
      proof (cases "ui_required_usages u' = 0")
        case True
        then have "usage_iterator_find_next_usage u = usage_iterator_find_next_usage (reset_usage u')"
          using item Inr by (subst usage_iterator_find_next_usage.simps) simp
        moreover have "descriptor_rest (reset_usage u') < descriptor_rest u" using step by simp
        ultimately show ?thesis using less.hyps [of "reset_usage u'"] step(3) by fastforce
      next
        case False
        then have unfold: "usage_iterator_find_next_usage u
            = map_option (mapR complete_or_available) (usage_iterator_hid_find_next_usage u')"
          using item Inr by (subst usage_iterator_find_next_usage.simps) simp
        from scan_find_next_usage [OF step(1)] obtain r where
          r: "usage_iterator_hid_find_next_usage u' = Some r"
          and ok: "\<And>w. r = Inr w \<Longrightarrow> usages_only u' w \<and> scan_inv w \<and> descriptor_rest w = descriptor_rest u'"
          by blast
        have "usage_inv (complete_or_available w) \<and> ui_state (complete_or_available w) \<noteq> SCAN_FOR_REPORT_ITEM
          \<and> (ui_state (complete_or_available w) = USAGES_AVAILABLE
              \<longrightarrow> descriptor_rest (complete_or_available w) < descriptor_rest u)" if "r = Inr w" for w
          using ok [OF that] False step(2)
          by (auto simp: complete_or_available_def usage_inv_def scan_inv_def usages_only_def
              descriptor_rest_def)
        then show ?thesis using unfold r by (auto simp: mapR_Inr_iff)
      qed
    qed
  qed
qed

text \<open>
  The measure: what is left of the descriptor, whether usages are available, what is left
  for the usage search, and the fields the current item still yields.
\<close>

definition fields_left :: "usage_iterator \<Rightarrow> nat" where
  "fields_left u = (if is_variable_item (ui_descriptor_item u) then unat (ui_available_usages u)
     else unat (ui_required_usages u))"

definition usage_rank :: "usage_iterator \<Rightarrow> nat" where
  "usage_rank u = (if ui_state u = USAGES_AVAILABLE then 1 else 0)"

definition usage_measure :: "(usage_iterator \<times> usage_iterator) set" where
  "usage_measure = inv_image (less_than <*lex*> less_than <*lex*> less_than <*lex*> less_than)
     (\<lambda>u. (descriptor_rest u, usage_rank u, length (ui_descriptor u) - ui_usage_pos u, fields_left u))"

lemma wf_usage_measure: "wf usage_measure"
  unfolding usage_measure_def by (intro wf_inv_image wf_lex_prod wf_less_than)

lemma usage_measure_iff:
  "(v, u) \<in> usage_measure \<longleftrightarrow> descriptor_rest v < descriptor_rest u
     \<or> descriptor_rest v = descriptor_rest u
       \<and> (usage_rank v < usage_rank u \<or> usage_rank v = usage_rank u
         \<and> (length (ui_descriptor v) - ui_usage_pos v < length (ui_descriptor u) - ui_usage_pos u
           \<or> length (ui_descriptor v) - ui_usage_pos v = length (ui_descriptor u) - ui_usage_pos u
             \<and> fields_left v < fields_left u))"
  by (simp add: usage_measure_def)

lemma usage_measure_trans:
  "\<lbrakk>(v, u) \<in> usage_measure; (w, v) \<in> usage_measure\<rbrakk> \<Longrightarrow> (w, u) \<in> usage_measure"
  by (auto simp: usage_measure_iff)

lemma usage_has_more_total:
  assumes "usage_inv u"
  shows "\<exists>r. usage_iterator_has_more u = Some r \<and> (\<forall>avail u'. r = Inr (avail, u') \<longrightarrow> usage_inv u'
    \<and> avail = (ui_state u' = USAGES_AVAILABLE)
    \<and> (avail \<longrightarrow> u' = u \<or> (u', u) \<in> usage_measure))"
proof (cases "ui_state u = SCAN_FOR_REPORT_ITEM")
  case False
  then show ?thesis using assms by (subst usage_iterator_has_more.simps) auto
next
  case True
  have "scan_inv u" using assms by (simp add: usage_inv_def)
  from find_next_usage_outer [OF this] obtain r where r: "usage_iterator_find_next_usage u = Some r"
    and ok: "\<forall>u'. r = Inr u' \<longrightarrow> usage_inv u' \<and> ui_state u' \<noteq> SCAN_FOR_REPORT_ITEM
      \<and> (ui_state u' = USAGES_AVAILABLE \<longrightarrow> descriptor_rest u' < descriptor_rest u)" by blast
  show ?thesis
  proof (cases r)
    case (Inl e)
    then show ?thesis using r True by (subst usage_iterator_has_more.simps) simp
  next
    case (Inr u')
    then have "usage_iterator_has_more u = usage_iterator_has_more u'"
      using r True by (subst usage_iterator_has_more.simps) simp
    also have "\<dots> = Some (Inr (ui_state u' = USAGES_AVAILABLE, u'))"
      using ok Inr by (subst usage_iterator_has_more.simps) simp
    finally show ?thesis using ok Inr by (simp add: usage_measure_iff)
  qed
qed

lemma consume_usage_frame:
  "ui_descriptor (consume_usage u) = ui_descriptor u"
  "ui_descriptor_iterator (consume_usage u) = ui_descriptor_iterator u"
  "ui_descriptor_item (consume_usage u) = ui_descriptor_item u"
  "ui_usage_pos (consume_usage u) = ui_usage_pos u"
  "ui_state (consume_usage u) = ui_state u"
  by (simp_all add: consume_usage_def Let_def)

lemma unat_dec: "(w :: 'a::len word) \<noteq> 0 \<Longrightarrow> unat (w - 1) < unat w"
  using unat_gt_0 [of w] unat_minus_one [of w] by simp

lemma consume_usage_decreases:
  assumes "usage_inv u" and "ui_state u = USAGES_AVAILABLE"
    and "ui_available_usages (consume_usage u) \<noteq> 0"
  shows "fields_left (consume_usage u) < fields_left u"
    and "\<not> is_variable_item (ui_descriptor_item u) \<longrightarrow> ui_required_usages (consume_usage u) \<noteq> 0"
  using assms
  by (auto simp: consume_usage_def Let_def fields_left_def usage_inv_def unat_dec split: if_splits)

lemma usage_get_item_total:
  assumes inv: "usage_inv u" and st: "ui_state u = USAGES_AVAILABLE"
  shows "\<exists>r. usage_iterator_get_item u = Some r \<and> (\<forall>item u'. r = Inr (item, u') \<longrightarrow>
    item = current_usage_item u \<and> usage_inv u' \<and> (u', u) \<in> usage_measure)"
proof -
  let ?c = "consume_usage u"
  note frame = consume_usage_frame [of u]
  have scan: "scan_inv ?c" using inv by (simp add: usage_inv_def scan_inv_def frame)
  have rest: "descriptor_rest ?c = descriptor_rest u" by (simp add: descriptor_rest_def frame)
  consider (more) "ui_available_usages ?c \<noteq> 0"
    | (exhausted) "ui_available_usages ?c = 0" "ui_required_usages ?c = 0"
    | (search) "ui_available_usages ?c = 0" "ui_required_usages ?c \<noteq> 0" by blast
  then show ?thesis
  proof cases
    case more
    then have "usage_iterator_get_item u = Some (Inr (current_usage_item u, ?c))"
      by (simp add: usage_iterator_get_item_def Let_def)
    then show ?thesis
      using consume_usage_decreases [OF inv st more] more scan st rest
      by (simp add: usage_inv_def usage_measure_iff frame usage_rank_def)
  next
    case exhausted
    then have "usage_iterator_get_item u
        = Some (Inr (current_usage_item u, ?c\<lparr>ui_state := SCAN_FOR_REPORT_ITEM\<rparr>))"
      by (simp add: usage_iterator_get_item_def Let_def)
    moreover have "usage_inv (?c\<lparr>ui_state := SCAN_FOR_REPORT_ITEM\<rparr>)"
      using scan by (simp add: usage_inv_def scan_inv_def)
    moreover have "(?c\<lparr>ui_state := SCAN_FOR_REPORT_ITEM\<rparr>, u) \<in> usage_measure"
      using st rest by (simp add: usage_measure_iff usage_rank_def descriptor_rest_def)
    ultimately show ?thesis by simp
  next
    case search
    define finish where "finish u2 = (if ui_available_usages u2 = 0 then u2\<lparr>ui_state := PARSER_COMPLETE\<rparr> else u2)"
      for u2 :: usage_iterator
    have unfold: "usage_iterator_get_item u = map_option (mapR (\<lambda>u2. (current_usage_item u, finish u2)))
        (usage_iterator_hid_find_next_usage ?c)"
      using search by (simp add: usage_iterator_get_item_def Let_def finish_def)
    from scan_find_next_usage [OF scan] obtain r where
      r: "usage_iterator_hid_find_next_usage ?c = Some r"
      and ok: "\<And>w. r = Inr w \<Longrightarrow> usages_only ?c w \<and> scan_inv w \<and> descriptor_rest w = descriptor_rest ?c
        \<and> (ui_available_usages w \<noteq> 0 \<longrightarrow>
            length (ui_descriptor w) - ui_usage_pos w < length (ui_descriptor ?c) - ui_usage_pos ?c)"
      using search(1) by blast
    have "usage_inv (finish w) \<and> (finish w, u) \<in> usage_measure" if "r = Inr w" for w
      using ok [OF that] search st rest frame
      by (auto simp: finish_def usage_inv_def scan_inv_def usages_only_def usage_measure_iff
          descriptor_rest_def usage_rank_def)
    then show ?thesis using unfold r by (auto simp: mapR_Inr_iff)
  qed
qed

definition parser_inv :: "hid_parser \<Rightarrow> bool" where
  "parser_inv p \<longleftrightarrow> usage_inv (hp_usage_iterator p)"

text \<open>The usage measure of the parser strictly decreases with every field delivered.\<close>

lemma parser_has_more_total:
  assumes "parser_inv p"
  shows "\<exists>r. hid_parser_has_more p = Some r \<and> (\<forall>avail p'. r = Inr (avail, p') \<longrightarrow> parser_inv p'
    \<and> hp_report p' = hp_report p \<and> hp_report_len p' = hp_report_len p
    \<and> (\<not> hp_have_report_usage_ready p \<longrightarrow> avail
         \<longrightarrow> (hp_usage_iterator p', hp_usage_iterator p) \<in> usage_measure))"
  using assms
proof (induction "hp_usage_iterator p" arbitrary: p rule: wf_induct_rule [OF wf_usage_measure])
  case 1
  let ?u = "hp_usage_iterator p"
  show ?case
  proof (cases "hp_have_report_usage_ready p")
    case True
    then show ?thesis using 1(2) by (subst hid_parser_has_more.simps) simp
  next
    case idle: False
    have "usage_inv ?u" using 1(2) by (simp add: parser_inv_def)
    from usage_has_more_total [OF this] obtain r where r: "usage_iterator_has_more ?u = Some r"
      and ok: "\<And>avail u1. r = Inr (avail, u1) \<Longrightarrow> usage_inv u1 \<and> avail = (ui_state u1 = USAGES_AVAILABLE)
        \<and> (avail \<longrightarrow> u1 = ?u \<or> (u1, ?u) \<in> usage_measure)" by blast
    consider (err) e where "r = Inl e" | (stop) u1 where "r = Inr (False, u1)"
      | (item) u1 where "r = Inr (True, u1)" by (metis (full_types) prod.exhaust sum.exhaust)
    then show ?thesis
    proof cases
      case err
      then show ?thesis using r idle by (subst hid_parser_has_more.simps) simp
    next
      case stop
      then have "hid_parser_has_more p = Some (Inr (False, p\<lparr>hp_usage_iterator := u1\<rparr>))"
        using r idle by (subst hid_parser_has_more.simps) simp
      then show ?thesis using ok [OF stop] by (simp add: parser_inv_def)
    next
      case item
      note ok = ok [OF item]
      have "usage_inv u1" "ui_state u1 = USAGES_AVAILABLE" using ok by simp_all
      from usage_get_item_total [OF this] obtain r2 where r2: "usage_iterator_get_item u1 = Some r2"
        and ok2: "\<And>it u2. r2 = Inr (it, u2) \<Longrightarrow> usage_inv u2 \<and> (u2, u1) \<in> usage_measure" by blast
      consider (err2) e where "r2 = Inl e"
        | (err3) it u2 e where "r2 = Inr (it, u2)" "report_id_matches p it = Inl e"
        | (next_item) it u2 m where "r2 = Inr (it, u2)" "report_id_matches p it = Inr m"
        by (metis prod.exhaust sum.exhaust)
      then show ?thesis
      proof cases
        case err2
        then show ?thesis using r r2 item idle by (subst hid_parser_has_more.simps) simp
      next
        case err3
        then show ?thesis using r r2 item idle by (subst hid_parser_has_more.simps) simp
      next
        case next_item
        let ?p = "p\<lparr>hp_usage_iterator := u2, hp_usage_item := it, hp_have_report_usage_ready := m\<rparr>"
        have unfold: "hid_parser_has_more p = hid_parser_has_more ?p"
          using r r2 item idle next_item by (subst hid_parser_has_more.simps) simp
        have less: "(u2, ?u) \<in> usage_measure"
          using ok ok2 [OF next_item(1)] usage_measure_trans by blast
        have inv: "parser_inv ?p" using ok2 [OF next_item(1)] by (simp add: parser_inv_def)
        show ?thesis
        proof (cases m)
          case True
          then show ?thesis using unfold less inv by (subst (asm) hid_parser_has_more.simps) simp
        next
          case False
          from 1(1) [of ?p] less inv obtain r3 where r3: "hid_parser_has_more ?p = Some r3"
            and ok3: "\<And>avail p'. r3 = Inr (avail, p') \<Longrightarrow> parser_inv p'
              \<and> hp_report p' = hp_report p \<and> hp_report_len p' = hp_report_len p
              \<and> (avail \<longrightarrow> (hp_usage_iterator p', u2) \<in> usage_measure)"
            using False by auto
          have "parser_inv p' \<and> hp_report p' = hp_report p \<and> hp_report_len p' = hp_report_len p
              \<and> (avail \<longrightarrow> (hp_usage_iterator p', ?u) \<in> usage_measure)" if "r3 = Inr (avail, p')" for avail p'
            using ok3 [OF that] usage_measure_trans [OF less] by blast
          then show ?thesis using unfold r3 by (metis option.inject)
        qed
      qed
    qed
  qed
qed

section \<open>Which bits a field reads\<close>

definition report_bit :: "bytes \<Rightarrow> nat \<Rightarrow> bool" where
  "report_bit report n = bit (report ! (n div 8)) (n mod 8)"

definition field_bits :: "bytes \<Rightarrow> nat \<Rightarrow> nat \<Rightarrow> int" where
  "field_bits report pos n = horner_sum of_bool 2 (map (\<lambda>i. report_bit report (pos + i)) [0..<n])"

lemma bit_field_bits: "bit (field_bits report pos n) k \<longleftrightarrow> k < n \<and> report_bit report (pos + k)"
  by (simp add: field_bits_def bit_horner_sum_bit_iff cong: conj_cong)

lemma field_bits_range: "0 \<le> field_bits report pos n" "field_bits report pos n < 2 ^ n"
proof -
  have "take_bit n (field_bits report pos n) = field_bits report pos n"
    by (rule bit_eqI) (auto simp: bit_take_bit_iff bit_field_bits)
  then show "0 \<le> field_bits report pos n" "field_bits report pos n < 2 ^ n"
    by (metis take_bit_nonnegative, metis take_bit_int_less_exp)
qed

lemma read_le_bits:
  assumes "pos + i + n \<le> length report" and "i + n \<le> 4"
  shows "\<exists>w. read_le report pos i n = Inr w
    \<and> (\<forall>k. bit w k \<longleftrightarrow> 8 * i \<le> k \<and> k < 8 * (i + n) \<and> report_bit report (8 * pos + k))"
  using assms
proof (induction n arbitrary: i)
  case 0
  then show ?case by simp
next
  case (Suc n)
  from Suc.IH [of "Suc i"] Suc.prems obtain w where w: "read_le report pos (Suc i) n = Inr w"
    "\<And>k. bit w k \<longleftrightarrow> 8 * Suc i \<le> k \<and> k < 8 * (Suc i + n) \<and> report_bit report (8 * pos + k)" by auto
  let ?b = "report ! (pos + i)"
  have "read_le report pos i (Suc n) = Inr (push_bit (i * 8) (ucast ?b) OR w)"
    using Suc.prems w(1) by (simp add: read_byte_def)
  moreover have "bit (push_bit (i * 8) (ucast ?b) OR w) k
      \<longleftrightarrow> 8 * i \<le> k \<and> k < 8 * (i + Suc n) \<and> report_bit report (8 * pos + k)" for k
  proof (cases "8 * i \<le> k \<and> k < 8 * Suc i")
    case True
    then have k: "8 * pos + k = (k - i * 8) + 8 * (pos + i)" and "k - i * 8 < 8" by auto
    then have div: "(8 * pos + k) div 8 = pos + i" and mod: "(8 * pos + k) mod 8 = k - i * 8"
      by (simp_all only: k div_mult_self2 mod_mult_self2) simp_all
    have "bit (push_bit (i * 8) (ucast ?b :: u32)) k \<longleftrightarrow> bit ?b (k - i * 8)"
      using True Suc.prems(2) by (auto simp: bit_simps)
    moreover have "\<not> bit w k" using True w(2) by simp
    ultimately show ?thesis
      unfolding bit_or_iff report_bit_def div mod using True by simp
  next
    case False
    have "\<not> bit (push_bit (i * 8) (ucast ?b :: u32)) k"
    proof (cases "i * 8 \<le> k")
      case True
      then have "8 \<le> k - i * 8" using False by simp
      then have "\<not> bit ?b (k - i * 8)" using bit_imp_le_length [of ?b "k - i * 8"] by auto
      then show ?thesis by (simp add: bit_push_bit_iff bit_ucast_iff)
    qed (simp add: bit_push_bit_iff)
    moreover have "8 * Suc i \<le> k \<longleftrightarrow> 8 * i \<le> k" using False by auto
    ultimately show ?thesis unfolding bit_or_iff w(2) [of k] by simp
  qed
  ultimately show ?case by blast
qed

text \<open>A field inside the report that spans at most four bytes and has fewer than 32 bits.\<close>

definition readable_field :: "nat \<Rightarrow> u16 \<Rightarrow> u8 \<Rightarrow> bool" where
  "readable_field report_len bit_pos sz \<longleftrightarrow> 0 < unat sz \<and> unat sz < 32
     \<and> unat bit_pos mod 8 + unat sz \<le> 32 \<and> unat bit_pos + unat sz \<le> 8 * report_len"

lemma unat_less_power: "unat (w :: 'a::len word) < 2 ^ LENGTH('a)"
  by (rule unsigned_less)

lemma unat_ucast_u8: "unat (ucast (w :: u8) :: u32) = unat w"
  using unat_less_power [of w] by (simp only: unsigned_ucast_eq) (simp add: take_bit_nat_eq_self)

lemma unat_and_7: "unat ((w :: u16) AND 7) = unat w mod 8"
proof -
  have "(7 :: u16) = mask 3" by (simp add: mask_eq_exp_minus_1)
  then have "w AND 7 = take_bit 3 w" by (simp only: take_bit_eq_mask)
  then have "unat (w AND 7) = take_bit 3 (unat w)" by (simp only: unsigned_take_bit_eq)
  then show ?thesis by (simp add: take_bit_eq_mod)
qed

lemma read_field_bits:
  assumes "readable_field report_len bit_pos sz" and "report_len \<le> length report"
  shows "\<exists>w. read_field report report_len bit_pos sz = Inr w
    \<and> (\<forall>k. bit w k \<longleftrightarrow> k < unat sz \<and> report_bit report (unat bit_pos + k))"
proof -
  let ?b = "unat bit_pos" and ?s = "unat sz"
  have rf: "0 < ?s" "?s < 32" "?b mod 8 + ?s \<le> 32" "?b + ?s \<le> 8 * report_len"
    using assms(1) by (simp_all add: readable_field_def)
  have "?b < 2 ^ 16" "?s < 2 ^ 8"
    using unat_less_power [of bit_pos] unat_less_power [of sz] by simp_all
  moreover have "(ucast bit_pos + ucast sz - 1 :: u32) = word_of_nat (?b + ?s - 1)"
    using rf(1) by (simp add: of_nat_diff flip: unsigned_of_nat)
  ultimately have sum: "unat (ucast bit_pos + ucast sz - 1 :: u32) = ?b + ?s - 1"
    by (simp add: unat_of_nat)
  have "unat (drop_bit 3 (ucast bit_pos + ucast sz - 1 :: u32)) = drop_bit 3 (?b + ?s - 1)"
    by (simp only: unat_drop_bit_eq sum)
  moreover have "(?b + ?s - 1) div 8 \<le> report_len" using rf by linarith
  ultimately have pos_end: "min (unat (drop_bit 3 (ucast bit_pos + ucast sz - 1 :: u32))) report_len
      = (?b + ?s - 1) div 8"
    by (simp add: drop_bit_eq_div)
  have pos_start: "min (unat (drop_bit 3 bit_pos)) report_len = ?b div 8"
  proof -
    have "unat (drop_bit 3 bit_pos) = ?b div 8" unfolding unat_drop_bit_eq by (simp add: drop_bit_eq_div)
    moreover have "?b div 8 \<le> report_len" using rf by linarith
    ultimately show ?thesis by simp
  qed
  let ?n = "(?b + ?s - 1) div 8 + 1 - ?b div 8"
  have "?b + ?s - 1 = (?b mod 8 + ?s - 1) + 8 * (?b div 8)" using rf(1) by simp
  then have last: "(?b + ?s - 1) div 8 = ?b div 8 + (?b mod 8 + ?s - 1) div 8"
    by (simp only: div_mult_self2)
  have "?b mod 8 + ?s - 1 < 4 * 8" "?b + ?s - 1 < report_len * 8" using rf by simp_all
  then have "(?b mod 8 + ?s - 1) div 8 < 4" "(?b + ?s - 1) div 8 < report_len"
    by (blast intro: less_mult_imp_div_less)+
  then have fit: "?b div 8 + 0 + ?n \<le> length report" "0 + ?n \<le> 4"
    using last assms(2) by simp_all
  from read_le_bits [OF fit] obtain m where m: "read_le report (?b div 8) 0 ?n = Inr m"
    and mbits: "\<And>k. bit m k \<longleftrightarrow> k < 8 * ?n \<and> report_bit report (8 * (?b div 8) + k)"
    by auto
  have top: "u32_shl_1 (ucast sz) = Inr (push_bit ?s 1)"
    using rf(2) by (simp add: u32_shl_1_def word_le_nat_alt unat_ucast_u8)
  let ?w = "drop_bit (unat (bit_pos AND 7)) m AND (push_bit ?s 1 - 1)"
  have "read_field report report_len bit_pos sz = Inr ?w"
    unfolding read_field_def Let_def pos_start pos_end m top by simp
  moreover have "bit ?w k \<longleftrightarrow> k < ?s \<and> report_bit report (?b + k)" for k
  proof -
    have "push_bit ?s 1 - 1 = (mask ?s :: u32)" by (simp add: mask_eq_exp_minus_1 push_bit_eq_mult)
    then have "bit ?w k \<longleftrightarrow> k < ?s \<and> bit m (?b mod 8 + k)"
      using rf(2) by (auto simp: bit_and_iff bit_drop_bit_eq bit_mask_iff unat_and_7)
    moreover have "?b mod 8 + k < 8 * ?n" if "k < ?s"
    proof -
      have "x < 8 * (x div 8 + 1)" for x :: nat by simp
      then have "?b mod 8 + ?s - 1 < 8 * ((?b mod 8 + ?s - 1) div 8 + 1)" .
      moreover have "?b mod 8 + k \<le> ?b mod 8 + ?s - 1" using that by simp
      ultimately have "?b mod 8 + k < 8 * ((?b mod 8 + ?s - 1) div 8 + 1)" by (rule le_less_trans [rotated])
      moreover have "?n = (?b mod 8 + ?s - 1) div 8 + 1" unfolding last by simp
      ultimately show ?thesis by simp
    qed
    moreover have "8 * (?b div 8) + (?b mod 8 + k) = ?b + k" by simp
    ultimately show ?thesis using mbits by auto
  qed
  ultimately show ?thesis by blast
qed

lemma read_field_value:
  assumes "readable_field report_len bit_pos sz" and "report_len \<le> length report"
  shows "read_field report report_len bit_pos sz
    = Inr (word_of_int (field_bits report (unat bit_pos) (unat sz)))"
proof -
  from read_field_bits [OF assms] obtain w where w: "read_field report report_len bit_pos sz = Inr w"
    "\<And>k. bit w k \<longleftrightarrow> k < unat sz \<and> report_bit report (unat bit_pos + k)" by blast
  have "w = word_of_int (field_bits report (unat bit_pos) (unat sz))"
    using assms(1) by (intro bit_word_eqI) (simp add: w(2) bit_word_of_int_iff bit_field_bits)
  with w(1) show ?thesis by simp
qed

section \<open>What a field delivers\<close>

lemma field_value_signed:
  assumes "readable_field report_len bit_pos (us_size item)"
  shows "field_value item (word_of_int (field_bits report pos (unat (us_size item))))
    = Inr (let x = field_bits report pos (unat (us_size item)) in
           if us_global_logical_minimum item < 0 \<and> 2 ^ (unat (us_size item) - 1) \<le> x
           then x - 2 ^ unat (us_size item) else x)"
proof -
  let ?s = "unat (us_size item)" and ?x = "field_bits report pos (unat (us_size item))"
  have s: "0 < ?s" "?s < 32" using assms by (simp_all add: readable_field_def)
  have x: "0 \<le> ?x" "?x < 2 ^ ?s" by (rule field_bits_range)+
  have pow: "(2::int) ^ ?s \<le> 2 ^ 31" using s by (intro power_increasing) simp_all
  have half: "(2::int) ^ ?s = 2 * 2 ^ (?s - 1)" using s(1) by (metis power_Suc Suc_diff_1)
  have unat_s: "unat (ucast (us_size item) - 1 :: u32) = ?s - 1"
  proof -
    have "(ucast (us_size item) :: u32) \<noteq> 0" using s(1) unat_ucast_u8 [of "us_size item"] by force
    then show ?thesis by (simp add: unat_minus_one unat_ucast_u8)
  qed
  have shl: "u32_shl_1 (ucast (us_size item)) = Inr (push_bit ?s 1)"
    "u32_shl_1 (ucast (us_size item) - 1) = Inr (push_bit (?s - 1) 1)"
    using s by (auto simp: u32_shl_1_def word_le_nat_alt unat_ucast_u8 unat_s)
  have sign: "(word_of_int ?x :: u32) AND push_bit (?s - 1) 1 \<noteq> 0 \<longleftrightarrow> 2 ^ (?s - 1) \<le> ?x"
  proof -
    have "(word_of_int ?x :: u32) AND push_bit (?s - 1) 1 \<noteq> 0 \<longleftrightarrow> bit ?x (?s - 1)"
      using and_BIT_ne_0 [of "word_of_int ?x :: u32" "?s - 1"] s
      by (auto simp: BIT_def bit_word_of_int_iff)
    also have "\<dots> \<longleftrightarrow> odd (?x div 2 ^ (?s - 1))" by (simp add: bit_iff_odd)
    also have "\<dots> \<longleftrightarrow> 2 ^ (?s - 1) \<le> ?x"
    proof (cases "2 ^ (?s - 1) \<le> ?x")
      case True
      then have "?x div 2 ^ (?s - 1) = 1"
        using x half by (intro int_div_pos_eq [where r = "?x - 2 ^ (?s - 1)"]) simp_all
      then show ?thesis using True by simp
    next
      case False
      then show ?thesis using x by simp
    qed
    finally show ?thesis .
  qed
  have neg: "i32_of_u32 (word_of_int ?x - push_bit ?s 1) = ?x - 2 ^ ?s"
  proof -
    have "(word_of_int ?x - push_bit ?s 1 :: u32) = u32_of_i32 (?x - 2 ^ ?s)"
      by (simp add: u32_of_i32_def push_bit_eq_mult wi_hom_sub [symmetric])
    then show ?thesis using x pow by (simp add: i32_of_u32_of_i32 in_i32_def)
  qed
  have pos: "i32_of_u32 (word_of_int ?x) = ?x"
    using x pow i32_of_u32_of_i32 [of ?x] by (simp add: in_i32_def u32_of_i32_def)
  show ?thesis
    unfolding field_value_def shl bindR_simps mapR_simps neg pos sign Let_def by simp
qed

text \<open>C36: A variable field that lies inside the report, has 1 to 31 bits and spans at most four
  bytes is delivered as the little-endian number of exactly its bits, sign-extended when the
  logical minimum is negative, together with its own usage.\<close>

theorem get_field_value:
  assumes "is_variable_item (us_descriptor_item (hp_usage_item p))"
    and "readable_field (hp_report_len p) (field_start (hp_usage_item p)) (us_size (hp_usage_item p))"
    and "hp_report_len p \<le> length (hp_report p)"
  shows "hid_parser_get_field p =
    (let item = hp_usage_item p; n = unat (us_size item);
         x = field_bits (hp_report p) (unat (field_start item)) n
     in Inr (us_usage_page item, us_usage item,
             if us_global_logical_minimum item < 0 \<and> 2 ^ (n - 1) \<le> x then x - 2 ^ n else x,
             p\<lparr>hp_have_report_usage_ready := False\<rparr>))"
  using assms(1) field_value_signed [OF assms(2)]
  by (simp add: hid_parser_get_field_def read_field_value [OF assms(2,3)] Let_def)

theorem get_field_value_witness:
  "hid_parser_get_field
     ((hid_parser_init [] HID_REPORT_TYPE_INPUT [0x35, 0xf2] 2)
        \<lparr>hp_usage_item := zero_usage_item\<lparr>us_report_id := HID_REPORT_ID_UNDEFINED, us_bit_pos := 4,
           us_size := 8, us_usage := 0x30, us_usage_page := 1, us_global_logical_minimum := -128,
           us_descriptor_item := zero_item\<lparr>item_value := 2\<rparr>\<rparr>\<rparr>)
   = Inr (1, 0x30, 0x23,
      (hid_parser_init [] HID_REPORT_TYPE_INPUT [0x35, 0xf2] 2)
        \<lparr>hp_usage_item := zero_usage_item\<lparr>us_report_id := HID_REPORT_ID_UNDEFINED, us_bit_pos := 4,
           us_size := 8, us_usage := 0x30, us_usage_page := 1, us_global_logical_minimum := -128,
           us_descriptor_item := zero_item\<lparr>item_value := 2\<rparr>\<rparr>,
         hp_have_report_usage_ready := False\<rparr>)"
  by (subst get_field_value)
    (simp_all add: is_variable_item_def u32_of_i32_def readable_field_def field_start_def
      hid_parser_init_def field_bits_def report_bit_def zero_usage_item_def upt_rec
      bit_iff_odd HID_REPORT_ID_UNDEFINED_def)

end
