(* ===== verification/Hid_Input.thy ===== *)
theory Hid_Input
  imports Hid_Values Hid_Report
begin

text \<open>
  \<^verbatim>\<open>uni_hid_parse_input_report\<close> of \<^verbatim>\<open>components/bluepad32/parser/uni_hid_parser.c\<close>: the
  loop that takes every field out of a report and hands it, with the globals of the
  descriptor, to the usage function of the device's parser. The device is a type
  variable: the loop only carries it along. The locale \<open>usage_parser\<close> is the contract
  of a parser; its lemmas say what a whole report does to the device.
\<close>

section \<open>The loop\<close>

type_synonym 'd usage_fn = "hid_globals \<Rightarrow> u16 \<Rightarrow> u16 \<Rightarrow> int \<Rightarrow> 'd \<Rightarrow> 'd cres"

record 'd report_parser =
  rp_init_report :: "('d \<Rightarrow> 'd) option"
  rp_parse_input_report :: "(bytes \<Rightarrow> nat \<Rightarrow> 'd \<Rightarrow> 'd cres) option"
  rp_parse_usage :: "'d usage_fn option"

definition saved_globals :: "hid_parser \<Rightarrow> hid_globals" where
  "saved_globals p =
     (let u = hp_usage_iterator p in
      \<lparr>hg_logical_minimum = ui_global_logical_minimum u,
       hg_logical_maximum = ui_global_logical_maximum u,
       hg_usage_page = ui_global_usage_page u,
       hg_report_size = ui_global_report_size u,
       hg_report_count = ui_global_report_count u,
       hg_report_id = ucast (ui_global_report_id u)\<rparr>)"

partial_function (option) parse_fields :: "'d usage_fn \<Rightarrow> hid_parser \<Rightarrow> 'd \<Rightarrow> 'd cres option" where
  "parse_fields parse_usage p d =
     Option.bind (hid_parser_has_more p) (\<lambda>r.
       case r of Inl e \<Rightarrow> Some (Inl e)
       | Inr (avail, p1) \<Rightarrow>
           if \<not> avail then Some (Inr d)
           else (case hid_parser_get_field p1 of
                   Inl e \<Rightarrow> Some (Inl e)
                 | Inr (usage_page, usage, val, p2) \<Rightarrow>
                     (case parse_usage (saved_globals p1) usage_page usage val d of
                        Inl e \<Rightarrow> Some (Inl e)
                      | Inr d' \<Rightarrow> parse_fields parse_usage p2 d')))"

declare parse_fields.simps [code]

definition uni_hid_parse_input_report ::
    "'d report_parser \<Rightarrow> bytes \<Rightarrow> bytes \<Rightarrow> nat \<Rightarrow> 'd \<Rightarrow> 'd cres option" where
  "uni_hid_parse_input_report rp hid_descriptor report report_len d =
     (let d0 = (case rp_init_report rp of None \<Rightarrow> d | Some init \<Rightarrow> init d);
          r1 = (case rp_parse_input_report rp of None \<Rightarrow> Inr d0 | Some parse \<Rightarrow> parse report report_len d0)
      in case r1 of
           Inl e \<Rightarrow> Some (Inl e)
         | Inr d1 \<Rightarrow>
             (case rp_parse_usage rp of
                None \<Rightarrow> Some (Inr d1)
              | Some parse_usage \<Rightarrow>
                  parse_fields parse_usage
                    (hid_parser_init hid_descriptor HID_REPORT_TYPE_INPUT report report_len) d1))"

section \<open>Termination, and the loop as a fold\<close>

lemma get_field_frame:
  assumes "hid_parser_get_field p = Inr (pg, us, v, p')"
  shows "p' = p\<lparr>hp_have_report_usage_ready := False\<rparr>"
  using assms by (auto simp: hid_parser_get_field_def Let_def bindR_Inr_iff mapR_Inr_iff split: if_splits)

definition idle :: "hid_parser \<Rightarrow> bool" where
  "idle p \<longleftrightarrow> parser_inv p \<and> \<not> hp_have_report_usage_ready p"

lemma init_idle: "idle (hid_parser_init ds ty report n)"
  by (simp add: idle_def parser_inv_def hid_parser_init_def usage_init_inv)

text \<open>One round of the loop, with the progress it makes.\<close>

lemma field_round:
  assumes "idle p"
  obtains (error) e where "hid_parser_has_more p = Some (Inl e)"
  | (stop) p1 where "hid_parser_has_more p = Some (Inr (False, p1))"
  | (bad_field) p1 e where "hid_parser_has_more p = Some (Inr (True, p1))"
      "hid_parser_get_field p1 = Inl e"
  | (field) p1 pg us v p2 where "hid_parser_has_more p = Some (Inr (True, p1))"
      "hid_parser_get_field p1 = Inr (pg, us, v, p2)" "idle p2"
      "(hp_usage_iterator p2, hp_usage_iterator p) \<in> usage_measure"
proof -
  have inv: "parser_inv p" and not_ready: "\<not> hp_have_report_usage_ready p"
    using assms by (simp_all add: idle_def)
  from parser_has_more_total [OF inv] obtain r where r: "hid_parser_has_more p = Some r"
    and ok: "\<And>avail p'. r = Inr (avail, p') \<Longrightarrow> parser_inv p'
      \<and> (avail \<longrightarrow> (hp_usage_iterator p', hp_usage_iterator p) \<in> usage_measure)"
    using not_ready by blast
  show thesis
  proof (cases r)
    case (Inl e)
    with r error show thesis by simp
  next
    case (Inr q)
    then obtain avail p1 where q: "r = Inr (avail, p1)" by (metis prod.exhaust)
    show thesis
    proof (cases avail)
      case False
      with r q stop show thesis by simp
    next
      case True
      show thesis
      proof (cases "hid_parser_get_field p1")
        case (Inl e)
        with r q True bad_field show thesis by simp
      next
        case (Inr f)
        then obtain pg us v p2 where f: "hid_parser_get_field p1 = Inr (pg, us, v, p2)"
          by (metis prod.exhaust)
        have "idle p2" using get_field_frame [OF f] ok [OF q] by (simp add: idle_def parser_inv_def)
        moreover have "(hp_usage_iterator p2, hp_usage_iterator p) \<in> usage_measure"
          using get_field_frame [OF f] ok [OF q] True by simp
        ultimately show thesis using r q True f field by simp
      qed
    qed
  qed
qed

lemma parse_fields_total:
  assumes "idle p" and "P d"
    and "\<forall>g pg us v d d'. P d \<longrightarrow> parse_usage g pg us v d = Inr d' \<longrightarrow> P d'"
  shows "\<exists>r. parse_fields parse_usage p d = Some r \<and> (\<forall>d'. r = Inr d' \<longrightarrow> P d')"
  using assms(1,2)
proof (induction "hp_usage_iterator p" arbitrary: p d rule: wf_induct_rule [OF wf_usage_measure])
  case 1
  show ?case
  proof (rule field_round [OF 1(2)])
    fix e assume "hid_parser_has_more p = Some (Inl e)"
    then show ?thesis by (subst parse_fields.simps) simp
  next
    fix p1 assume "hid_parser_has_more p = Some (Inr (False, p1))"
    then show ?thesis using 1(3) by (subst parse_fields.simps) simp
  next
    fix p1 e assume "hid_parser_has_more p = Some (Inr (True, p1))" "hid_parser_get_field p1 = Inl e"
    then show ?thesis by (subst parse_fields.simps) simp
  next
    fix p1 pg us v p2
    assume f: "hid_parser_has_more p = Some (Inr (True, p1))"
      "hid_parser_get_field p1 = Inr (pg, us, v, p2)" "idle p2"
      "(hp_usage_iterator p2, hp_usage_iterator p) \<in> usage_measure"
    show ?thesis
    proof (cases "parse_usage (saved_globals p1) pg us v d")
      case (Inl e)
      then show ?thesis using f by (subst parse_fields.simps) simp
    next
      case (Inr d')
      then have "parse_fields parse_usage p d = parse_fields parse_usage p2 d'"
        using f by (subst parse_fields.simps) simp
      moreover have "P d'" using assms(3) 1(3) Inr by blast
      ultimately show ?thesis using 1(1) [OF f(4) f(3)] by simp
    qed
  qed
qed

text \<open>The fields a report holds: the loop with a usage function that only records them.\<close>

type_synonym field = "hid_globals \<times> u16 \<times> u16 \<times> int"

definition record_field :: "field list usage_fn" where
  "record_field g pg us v fs = Inr (fs @ [(g, pg, us, v)])"

definition report_fields :: "bytes \<Rightarrow> bytes \<Rightarrow> nat \<Rightarrow> field list cres option" where
  "report_fields ds report n =
     parse_fields record_field (hid_parser_init ds HID_REPORT_TYPE_INPUT report n) []"

primrec fold_fields :: "'d usage_fn \<Rightarrow> field list \<Rightarrow> 'd \<Rightarrow> 'd cres" where
  "fold_fields parse_usage [] d = Inr d"
| "fold_fields parse_usage (f # fs) d =
     (case f of (g, pg, us, v) \<Rightarrow> bindR (parse_usage g pg us v d) (fold_fields parse_usage fs))"

lemma parse_fields_fold:
  assumes "idle p"
  shows "\<exists>r. parse_fields record_field p acc = Some r
    \<and> (\<forall>fs. r = Inr fs \<longrightarrow> (\<exists>gs. fs = acc @ gs
        \<and> (\<forall>d. parse_fields parse_usage p d = Some (fold_fields parse_usage gs d))))"
  using assms
proof (induction "hp_usage_iterator p" arbitrary: p acc rule: wf_induct_rule [OF wf_usage_measure])
  case 1
  show ?case
  proof (rule field_round [OF 1(2)])
    fix e assume "hid_parser_has_more p = Some (Inl e)"
    then show ?thesis by (subst parse_fields.simps) simp
  next
    fix p1 assume stop: "hid_parser_has_more p = Some (Inr (False, p1))"
    then have "parse_fields record_field p acc = Some (Inr acc)" by (subst parse_fields.simps) simp
    moreover have "parse_fields parse_usage p d = Some (fold_fields parse_usage [] d)" for d
      using stop by (subst parse_fields.simps) simp
    ultimately show ?thesis by (intro exI [of _ "Inr acc"]) auto
  next
    fix p1 e assume "hid_parser_has_more p = Some (Inr (True, p1))" "hid_parser_get_field p1 = Inl e"
    then show ?thesis by (subst parse_fields.simps) simp
  next
    fix p1 pg us v p2
    assume f: "hid_parser_has_more p = Some (Inr (True, p1))"
      "hid_parser_get_field p1 = Inr (pg, us, v, p2)" "idle p2"
      "(hp_usage_iterator p2, hp_usage_iterator p) \<in> usage_measure"
    let ?f = "(saved_globals p1, pg, us, v)"
    have rec: "parse_fields record_field p acc = parse_fields record_field p2 (acc @ [?f])"
      using f by (subst parse_fields.simps) (simp add: record_field_def)
    from 1(1) [OF f(4) f(3), of "acc @ [?f]"] obtain r where
      r: "parse_fields record_field p2 (acc @ [?f]) = Some r"
      and fold: "\<And>fs. r = Inr fs \<Longrightarrow> \<exists>gs. fs = (acc @ [?f]) @ gs
        \<and> (\<forall>d. parse_fields parse_usage p2 d = Some (fold_fields parse_usage gs d))" by blast
    have "\<exists>gs. fs = acc @ gs \<and> (\<forall>d. parse_fields parse_usage p d = Some (fold_fields parse_usage gs d))"
      if "r = Inr fs" for fs
    proof -
      from fold [OF that] obtain gs where gs: "fs = (acc @ [?f]) @ gs"
        "\<And>d. parse_fields parse_usage p2 d = Some (fold_fields parse_usage gs d)" by blast
      have "parse_fields parse_usage p d = Some (fold_fields parse_usage (?f # gs) d)" for d
      proof (cases "parse_usage (saved_globals p1) pg us v d")
        case (Inl e)
        then show ?thesis using f by (subst parse_fields.simps) simp
      next
        case (Inr d')
        then show ?thesis using f gs(2) by (subst parse_fields.simps) simp
      qed
      with gs(1) show ?thesis by (intro exI [of _ "?f # gs"]) simp
    qed
    with rec r show ?thesis by auto
  qed
qed

lemma report_fields_fold:
  assumes "report_fields ds report n = Some (Inr fs)"
  shows "parse_fields parse_usage (hid_parser_init ds HID_REPORT_TYPE_INPUT report n) d
    = Some (fold_fields parse_usage fs d)"
  using parse_fields_fold [OF init_idle, of ds HID_REPORT_TYPE_INPUT report n "[]" parse_usage] assms
  by (auto simp: report_fields_def)

section \<open>The contract of a usage parser\<close>

text \<open>
  \<open>wf\<close> is what every report keeps whatever it holds; \<open>calibrated\<close> is kept by fields that
  fit their descriptor: a logical range as \<open>sane_globals\<close> asks, a value inside it (a hat may
  be outside, which means released), and for the usages \<open>pedal\<close> names a logical minimum
  of zero.
\<close>

definition is_hat :: "u16 \<Rightarrow> u16 \<Rightarrow> bool" where
  "is_hat pg us \<longleftrightarrow> pg = 1 \<and> us = 0x39"

definition good_field :: "(u16 \<Rightarrow> u16 \<Rightarrow> bool) \<Rightarrow> field \<Rightarrow> bool" where
  "good_field pedal f \<longleftrightarrow> (case f of (g, pg, us, v) \<Rightarrow>
     sane_globals g \<and> (is_hat pg us \<or> in_logical_range g v) \<and> (pedal pg us \<longrightarrow> hg_logical_minimum g = 0))"

definition usage_report_parser :: "('d \<Rightarrow> 'd) \<Rightarrow> 'd usage_fn \<Rightarrow> 'd report_parser" where
  "usage_report_parser init_report parse_usage =
     \<lparr>rp_init_report = Some init_report, rp_parse_input_report = None,
      rp_parse_usage = Some parse_usage\<rparr>"

locale usage_parser =
  fixes init_report :: "'d \<Rightarrow> 'd"
    and parse_usage :: "'d usage_fn"
    and wf :: "'d \<Rightarrow> bool"
    and calibrated :: "'d \<Rightarrow> bool"
    and pedal :: "u16 \<Rightarrow> u16 \<Rightarrow> bool"
  assumes init_wf: "wf (init_report d)"
    and init_calibrated: "calibrated (init_report d)"
    and usage_wf: "\<lbrakk>wf d; parse_usage g pg us v d = Inr d'\<rbrakk> \<Longrightarrow> wf d'"
    and usage_calibrated: "\<lbrakk>calibrated d; good_field pedal (g, pg, us, v)\<rbrakk> \<Longrightarrow>
          \<exists>d'. parse_usage g pg us v d = Inr d' \<and> calibrated d'"
begin

abbreviation (input) parser :: "'d report_parser" where
  "parser \<equiv> usage_report_parser init_report parse_usage"

lemma report_returns_wf:
  "\<exists>r. uni_hid_parse_input_report parser ds report n d = Some r \<and> (\<forall>d'. r = Inr d' \<longrightarrow> wf d')"
  unfolding uni_hid_parse_input_report_def usage_report_parser_def
  using parse_fields_total [where P = wf and d = "init_report d" and parse_usage = parse_usage,
      OF init_idle init_wf] usage_wf by auto

lemma fold_calibrated:
  assumes "calibrated d" and "\<forall>f \<in> set fs. good_field pedal f"
  shows "\<exists>d'. fold_fields parse_usage fs d = Inr d' \<and> calibrated d'"
  using assms
proof (induction fs arbitrary: d)
  case Nil
  then show ?case by simp
next
  case (Cons f fs)
  obtain g pg us v where f: "f = (g, pg, us, v)" by (cases f) auto
  from Cons.prems obtain d1 where "parse_usage g pg us v d = Inr d1" "calibrated d1"
    using usage_calibrated [of d g pg us v] by (auto simp: f)
  with Cons.IH [of d1] Cons.prems show ?case by (simp add: f)
qed

lemma report_calibrated:
  assumes "report_fields ds report n = Some (Inr fs)" and "\<forall>f \<in> set fs. good_field pedal f"
  shows "\<exists>d'. uni_hid_parse_input_report parser ds report n d = Some (Inr d') \<and> wf d' \<and> calibrated d'"
proof -
  obtain d' where d': "fold_fields parse_usage fs (init_report d) = Inr d'" "calibrated d'"
    using fold_calibrated [OF init_calibrated assms(2), of d] by blast
  then have run: "uni_hid_parse_input_report parser ds report n d = Some (Inr d')"
    using report_fields_fold [OF assms(1), of parse_usage "init_report d"]
    by (simp add: uni_hid_parse_input_report_def usage_report_parser_def)
  then have "wf d'" using report_returns_wf [of ds report n d] by auto
  with run d' show ?thesis by blast
qed

text \<open>Reports carry the full state: what was there before does not matter.\<close>

lemma report_forgets:
  assumes "init_report d = init_report d0"
  shows "uni_hid_parse_input_report parser ds report n d
    = uni_hid_parse_input_report parser ds report n d0"
  using assms by (simp add: uni_hid_parse_input_report_def usage_report_parser_def)

end

text \<open>C38: Parsing an input report returns for every report descriptor and every report, with any
  usage function: neither a malformed descriptor nor a hostile report can hang the loop.\<close>

theorem input_report_parsing_terminates:
  "\<exists>r. uni_hid_parse_input_report rp ds report n d = Some r"
proof -
  have "\<exists>r. parse_fields f (hid_parser_init ds HID_REPORT_TYPE_INPUT report n) d1 = Some r" for f d1
    using parse_fields_total [where P = "\<lambda>_. True" and parse_usage = f, OF init_idle] by blast
  then show ?thesis
    by (auto simp: uni_hid_parse_input_report_def Let_def split: sum.splits option.splits)
qed

end
