(* ===== verification/Usage_Parsers.thy ===== *)
theory Usage_Parsers
  imports Hid_Input
begin

text \<open>
  The parsers of \<^verbatim>\<open>components/bluepad32/parser/\<close> that work usage by usage and fill the
  virtual gamepad: Android, 8BitDo, generic, Nimbus, OUYA, smart TV remotes and Xbox
  One. A C \<^verbatim>\<open>switch\<close> is \<open>switch\<close> over its labelled branches; the branches are the
  operations on the controller defined first. Each parser is an interpretation of
  \<open>usage_parser\<close>.
\<close>

section \<open>Switch statements and branches\<close>

primrec switch :: "'k \<Rightarrow> ('k list \<times> 'r) list \<Rightarrow> 'r \<Rightarrow> 'r" where
  "switch k [] otherwise = otherwise"
| "switch k (c # cs) otherwise = (if k \<in> set (fst c) then snd c else switch k cs otherwise)"

type_synonym ctl_op = "uni_controller \<Rightarrow> uni_controller cres"

definition on_gamepad :: "(uni_gamepad \<Rightarrow> uni_gamepad) \<Rightarrow> uni_controller \<Rightarrow> uni_controller" where
  "on_gamepad f ctl = ctl\<lparr>ctl_gamepad := f (ctl_gamepad ctl)\<rparr>"

definition ignore :: ctl_op where
  "ignore ctl = Inr ctl"

definition set_axis :: "(int \<Rightarrow> uni_gamepad \<Rightarrow> uni_gamepad) \<Rightarrow> hid_globals \<Rightarrow> int \<Rightarrow> ctl_op" where
  "set_axis f g v ctl =
     mapR (\<lambda>x. on_gamepad (f x) ctl) (uni_hid_parser_process_axis g (u32_of_i32 v))"

definition set_pedal :: "(int \<Rightarrow> uni_gamepad \<Rightarrow> uni_gamepad) \<Rightarrow> hid_globals \<Rightarrow> int \<Rightarrow> ctl_op" where
  "set_pedal f g v ctl =
     mapR (\<lambda>x. on_gamepad (f x) ctl) (uni_hid_parser_process_pedal g (u32_of_i32 v))"

definition put_x :: "int \<Rightarrow> uni_gamepad \<Rightarrow> uni_gamepad" where "put_x v gp = gp\<lparr>gp_axis_x := v\<rparr>"
definition put_y :: "int \<Rightarrow> uni_gamepad \<Rightarrow> uni_gamepad" where "put_y v gp = gp\<lparr>gp_axis_y := v\<rparr>"
definition put_rx :: "int \<Rightarrow> uni_gamepad \<Rightarrow> uni_gamepad" where "put_rx v gp = gp\<lparr>gp_axis_rx := v\<rparr>"
definition put_ry :: "int \<Rightarrow> uni_gamepad \<Rightarrow> uni_gamepad" where "put_ry v gp = gp\<lparr>gp_axis_ry := v\<rparr>"
definition put_brake :: "int \<Rightarrow> uni_gamepad \<Rightarrow> uni_gamepad" where "put_brake v gp = gp\<lparr>gp_brake := v\<rparr>"
definition put_throttle :: "int \<Rightarrow> uni_gamepad \<Rightarrow> uni_gamepad" where
  "put_throttle v gp = gp\<lparr>gp_throttle := v\<rparr>"

text \<open>The inverted axes of the iOS controllers: the negation is an \<^verbatim>\<open>int32_t\<close> operation.\<close>

definition set_axis_inverted ::
    "(int \<Rightarrow> uni_gamepad \<Rightarrow> uni_gamepad) \<Rightarrow> hid_globals \<Rightarrow> int \<Rightarrow> ctl_op" where
  "set_axis_inverted f g v ctl =
     bindR (uni_hid_parser_process_axis g (u32_of_i32 v)) (\<lambda>x.
     mapR (\<lambda>y. on_gamepad (f y) ctl) (i32 (- x)))"

definition set_hat :: "hid_globals \<Rightarrow> int \<Rightarrow> ctl_op" where
  "set_hat g v ctl =
     mapR (\<lambda>hat. on_gamepad (\<lambda>gp. gp\<lparr>gp_dpad := uni_hid_parser_hat_to_dpad hat\<rparr>) ctl)
       (uni_hid_parser_process_hat g (u32_of_i32 v))"

definition set_dpad :: "u16 \<Rightarrow> int \<Rightarrow> ctl_op" where
  "set_dpad usage v ctl =
     Inr (on_gamepad (\<lambda>gp. gp\<lparr>gp_dpad := uni_hid_parser_process_dpad usage (u32_of_i32 v) (gp_dpad gp)\<rparr>) ctl)"

definition set_battery :: "int \<Rightarrow> ctl_op" where
  "set_battery v ctl = Inr (ctl\<lparr>ctl_battery := word_of_int v\<rparr>)"

definition press :: "u16 \<Rightarrow> int \<Rightarrow> ctl_op" where
  "press m v ctl =
     Inr (if v \<noteq> 0 then on_gamepad (\<lambda>gp. gp\<lparr>gp_buttons := gp_buttons gp OR m\<rparr>) ctl else ctl)"

definition press_misc :: "u8 \<Rightarrow> int \<Rightarrow> ctl_op" where
  "press_misc m v ctl =
     Inr (if v \<noteq> 0 then on_gamepad (\<lambda>gp. gp\<lparr>gp_misc_buttons := gp_misc_buttons gp OR m\<rparr>) ctl else ctl)"

definition press_dpad :: "u8 \<Rightarrow> int \<Rightarrow> ctl_op" where
  "press_dpad m v ctl =
     Inr (if v \<noteq> 0 then on_gamepad (\<lambda>gp. gp\<lparr>gp_dpad := gp_dpad gp OR m\<rparr>) ctl else ctl)"

definition and_then :: "ctl_op \<Rightarrow> ctl_op \<Rightarrow> ctl_op" where
  "and_then f h ctl = bindR (f ctl) h"

text \<open>\<^verbatim>\<open>memset(ctl, 0, sizeof(*ctl)); ctl->klass = UNI_CONTROLLER_CLASS_GAMEPAD;\<close>\<close>

definition init_gamepad_report :: "uni_controller \<Rightarrow> uni_controller" where
  "init_gamepad_report ctl = zero_controller\<lparr>ctl_klass := UNI_CONTROLLER_CLASS_GAMEPAD\<rparr>"

section \<open>What the branches keep\<close>

definition wf_gamepad :: "uni_controller \<Rightarrow> bool" where
  "wf_gamepad ctl \<longleftrightarrow> ctl_klass ctl = UNI_CONTROLLER_CLASS_GAMEPAD \<and> gamepad_bits_ok (ctl_gamepad ctl)"

text \<open>The sticks reach from -512 to \<open>hi\<close>, the pedals from 0 to 1023.\<close>

definition calibrated_gamepad :: "int \<Rightarrow> uni_controller \<Rightarrow> bool" where
  "calibrated_gamepad hi ctl \<longleftrightarrow> (let gp = ctl_gamepad ctl in
     gp_axis_x gp \<in> {-512..hi} \<and> gp_axis_y gp \<in> {-512..hi} \<and> gp_axis_rx gp \<in> {-512..hi}
     \<and> gp_axis_ry gp \<in> {-512..hi} \<and> gp_brake gp \<in> {0..1023} \<and> gp_throttle gp \<in> {0..1023})"

definition keeps_wf :: "ctl_op \<Rightarrow> bool" where
  "keeps_wf f \<longleftrightarrow> (\<forall>ctl ctl'. wf_gamepad ctl \<longrightarrow> f ctl = Inr ctl' \<longrightarrow> wf_gamepad ctl')"

definition keeps_calibrated :: "int \<Rightarrow> ctl_op \<Rightarrow> bool" where
  "keeps_calibrated hi f \<longleftrightarrow>
     (\<forall>ctl. calibrated_gamepad hi ctl \<longrightarrow> (\<exists>ctl'. f ctl = Inr ctl' \<and> calibrated_gamepad hi ctl'))"

lemma init_gamepad_wf: "wf_gamepad (init_gamepad_report ctl)"
  by (simp add: wf_gamepad_def init_gamepad_report_def gamepad_bits_ok_def zero_controller_def
      zero_gamepad_def)

lemma init_gamepad_calibrated: "0 \<le> hi \<Longrightarrow> calibrated_gamepad hi (init_gamepad_report ctl)"
  by (simp add: calibrated_gamepad_def init_gamepad_report_def zero_controller_def zero_gamepad_def Let_def)

lemma keeps_wf_switch [keeps]:
  "\<lbrakk>\<forall>c \<in> set cs. keeps_wf (snd c); keeps_wf otherwise\<rbrakk> \<Longrightarrow> keeps_wf (switch k cs otherwise)"
  by (induction cs) auto

lemma keeps_calibrated_switch:
  "\<lbrakk>\<forall>c \<in> set cs. k \<in> set (fst c) \<longrightarrow> keeps_calibrated hi (snd c); keeps_calibrated hi otherwise\<rbrakk>
    \<Longrightarrow> keeps_calibrated hi (switch k cs otherwise)"
  by (induction cs) auto

lemma keeps_ignore [keeps]: "keeps_wf ignore" "keeps_calibrated hi ignore"
  by (simp_all add: keeps_wf_def keeps_calibrated_def ignore_def)

lemma keeps_wf_axis [keeps]:
  "keeps_wf (set_axis put_x g v)" "keeps_wf (set_axis put_y g v)"
  "keeps_wf (set_axis put_rx g v)" "keeps_wf (set_axis put_ry g v)"
  "keeps_wf (set_axis_inverted put_y g v)" "keeps_wf (set_axis_inverted put_ry g v)"
  "keeps_wf (set_pedal put_brake g v)" "keeps_wf (set_pedal put_throttle g v)"
  "keeps_wf (set_pedal put_ry g v)"
  by (auto simp: keeps_wf_def set_axis_def set_axis_inverted_def set_pedal_def mapR_Inr_iff bindR_Inr_iff
      wf_gamepad_def on_gamepad_def gamepad_bits_ok_def put_x_def put_y_def put_rx_def put_ry_def
      put_brake_def put_throttle_def)

lemma keeps_wf_hat [keeps]: "keeps_wf (set_hat g v)"
  using hat_to_dpad_bits
  by (auto simp: keeps_wf_def set_hat_def mapR_Inr_iff wf_gamepad_def on_gamepad_def gamepad_bits_ok_def)

lemma keeps_wf_dpad [keeps]: "keeps_wf (set_dpad usage v)"
  using process_dpad_bits
  by (auto simp: keeps_wf_def set_dpad_def wf_gamepad_def on_gamepad_def gamepad_bits_ok_def)

lemma keeps_wf_battery [keeps]: "keeps_wf (set_battery v)"
  by (auto simp: keeps_wf_def set_battery_def wf_gamepad_def)

lemma keeps_wf_press:
  assumes "\<And>k. bit m k \<Longrightarrow> k < 10"
  shows "keeps_wf (press m v)"
  using assms by (auto simp: keeps_wf_def press_def wf_gamepad_def on_gamepad_def gamepad_bits_ok_def bit_or_iff)

lemma keeps_wf_press_misc:
  assumes "\<And>k. bit m k \<Longrightarrow> k < 4"
  shows "keeps_wf (press_misc m v)" and "keeps_wf (press_dpad m v)"
  using assms
  by (auto simp: keeps_wf_def press_misc_def press_dpad_def wf_gamepad_def on_gamepad_def
      gamepad_bits_ok_def bit_or_iff)

lemma keeps_wf_buttons [keeps]:
  "keeps_wf (press BUTTON_A v)" "keeps_wf (press BUTTON_B v)" "keeps_wf (press BUTTON_X v)"
  "keeps_wf (press BUTTON_Y v)" "keeps_wf (press BUTTON_SHOULDER_L v)"
  "keeps_wf (press BUTTON_SHOULDER_R v)" "keeps_wf (press BUTTON_TRIGGER_L v)"
  "keeps_wf (press BUTTON_TRIGGER_R v)" "keeps_wf (press BUTTON_THUMB_L v)"
  "keeps_wf (press BUTTON_THUMB_R v)"
  by (rule keeps_wf_press; simp add: button_masks bit_BIT)+

lemma keeps_wf_misc [keeps]:
  "keeps_wf (press_misc MISC_BUTTON_SYSTEM v)" "keeps_wf (press_misc MISC_BUTTON_SELECT v)"
  "keeps_wf (press_misc MISC_BUTTON_START v)" "keeps_wf (press_misc MISC_BUTTON_CAPTURE v)"
  "keeps_wf (press_dpad DPAD_UP v)" "keeps_wf (press_dpad DPAD_DOWN v)"
  "keeps_wf (press_dpad DPAD_LEFT v)" "keeps_wf (press_dpad DPAD_RIGHT v)"
  by (rule keeps_wf_press_misc; simp add: button_masks bit_BIT)+

lemma keeps_wf_and_then [keeps]: "\<lbrakk>keeps_wf f; keeps_wf h\<rbrakk> \<Longrightarrow> keeps_wf (and_then f h)"
  unfolding keeps_wf_def and_then_def bindR_Inr_iff by blast

lemma keeps_calibrated_presses [keeps]:
  "keeps_calibrated hi (press m v)" "keeps_calibrated hi (press_misc k v)"
  "keeps_calibrated hi (press_dpad k v)" "keeps_calibrated hi (set_battery v)"
  "keeps_calibrated hi (set_dpad usage v)"
  by (auto simp: keeps_calibrated_def press_def press_misc_def press_dpad_def set_battery_def set_dpad_def
      calibrated_gamepad_def on_gamepad_def Let_def)

lemma keeps_calibrated_and_then [keeps]:
  "\<lbrakk>keeps_calibrated hi f; keeps_calibrated hi h\<rbrakk> \<Longrightarrow> keeps_calibrated hi (and_then f h)"
  unfolding keeps_calibrated_def and_then_def by fastforce

lemma process_pedal_good:
  assumes "sane_globals g" and "in_logical_range g v" and "hg_logical_minimum g = 0"
  shows "\<exists>r. uni_hid_parser_process_pedal g (u32_of_i32 v) = Inr r \<and> 0 \<le> r \<and> r \<le> 1023"
  using process_pedal_formula [OF assms(1,3,2)] by blast

lemma process_hat_good:
  assumes "sane_globals g"
  shows "\<exists>r. uni_hid_parser_process_hat g (u32_of_i32 v) = Inr r"
  using assms i32_of_u32_range [of "u32_of_i32 v"]
  by (auto simp: uni_hid_parser_process_hat_def Let_def sane_globals_def i32_def in_i32_def)

lemma keeps_calibrated_hat: "sane_globals g \<Longrightarrow> keeps_calibrated hi (set_hat g v)"
  using process_hat_good [of g v]
  by (auto simp: keeps_calibrated_def set_hat_def calibrated_gamepad_def on_gamepad_def Let_def)

lemma keeps_calibrated_axis:
  assumes "sane_globals g" and "in_logical_range g v" and "511 \<le> hi"
  shows "keeps_calibrated hi (set_axis put_x g v)" "keeps_calibrated hi (set_axis put_y g v)"
    "keeps_calibrated hi (set_axis put_rx g v)" "keeps_calibrated hi (set_axis put_ry g v)"
  using process_axis_bounds [OF assms(1,2)] assms(3)
  by (auto simp: keeps_calibrated_def set_axis_def calibrated_gamepad_def on_gamepad_def
      put_x_def put_y_def put_rx_def put_ry_def Let_def)

lemma keeps_calibrated_inverted:
  assumes "sane_globals g" and "in_logical_range g v" and "512 \<le> hi"
  shows "keeps_calibrated hi (set_axis_inverted put_y g v)"
    "keeps_calibrated hi (set_axis_inverted put_ry g v)"
  using process_axis_bounds [OF assms(1,2)] assms(3)
  by (auto simp: keeps_calibrated_def set_axis_inverted_def calibrated_gamepad_def on_gamepad_def
      put_y_def put_ry_def Let_def i32_def in_i32_def)

lemma keeps_calibrated_pedal:
  assumes "sane_globals g" and "in_logical_range g v" and "hg_logical_minimum g = 0"
  shows "keeps_calibrated hi (set_pedal put_brake g v)" "keeps_calibrated hi (set_pedal put_throttle g v)"
    "1023 \<le> hi \<Longrightarrow> keeps_calibrated hi (set_pedal put_ry g v)"
  using process_pedal_good [OF assms]
  by (auto simp: keeps_calibrated_def set_pedal_def calibrated_gamepad_def on_gamepad_def
      put_brake_def put_throttle_def put_ry_def Let_def)

section \<open>Usage pages and usages\<close>

abbreviation (input) HID_USAGE_PAGE_GENERIC_DESKTOP :: u16 where "HID_USAGE_PAGE_GENERIC_DESKTOP \<equiv> 0x01"
abbreviation (input) HID_USAGE_PAGE_SIMULATION_CONTROLS :: u16 where "HID_USAGE_PAGE_SIMULATION_CONTROLS \<equiv> 0x02"
abbreviation (input) HID_USAGE_PAGE_GENERIC_DEVICE_CONTROLS :: u16 where "HID_USAGE_PAGE_GENERIC_DEVICE_CONTROLS \<equiv> 0x06"
abbreviation (input) HID_USAGE_PAGE_KEYBOARD_KEYPAD :: u16 where "HID_USAGE_PAGE_KEYBOARD_KEYPAD \<equiv> 0x07"
abbreviation (input) HID_USAGE_PAGE_BUTTON :: u16 where "HID_USAGE_PAGE_BUTTON \<equiv> 0x09"
abbreviation (input) HID_USAGE_PAGE_CONSUMER :: u16 where "HID_USAGE_PAGE_CONSUMER \<equiv> 0x0c"
abbreviation (input) HID_USAGE_AXIS_X :: u16 where "HID_USAGE_AXIS_X \<equiv> 0x30"
abbreviation (input) HID_USAGE_AXIS_Y :: u16 where "HID_USAGE_AXIS_Y \<equiv> 0x31"
abbreviation (input) HID_USAGE_AXIS_Z :: u16 where "HID_USAGE_AXIS_Z \<equiv> 0x32"
abbreviation (input) HID_USAGE_AXIS_RX :: u16 where "HID_USAGE_AXIS_RX \<equiv> 0x33"
abbreviation (input) HID_USAGE_AXIS_RY :: u16 where "HID_USAGE_AXIS_RY \<equiv> 0x34"
abbreviation (input) HID_USAGE_AXIS_RZ :: u16 where "HID_USAGE_AXIS_RZ \<equiv> 0x35"
abbreviation (input) HID_USAGE_HAT :: u16 where "HID_USAGE_HAT \<equiv> 0x39"
abbreviation (input) HID_USAGE_SYSTEM_MAIN_MENU :: u16 where "HID_USAGE_SYSTEM_MAIN_MENU \<equiv> 0x85"
abbreviation (input) HID_USAGE_ACCELERATOR :: u16 where "HID_USAGE_ACCELERATOR \<equiv> 0xc4"
abbreviation (input) HID_USAGE_BRAKE :: u16 where "HID_USAGE_BRAKE \<equiv> 0xc5"
abbreviation (input) HID_USAGE_BATTERY_STRENGTH :: u16 where "HID_USAGE_BATTERY_STRENGTH \<equiv> 0x20"
abbreviation (input) HID_USAGE_KB_NONE :: u16 where "HID_USAGE_KB_NONE \<equiv> 0x00"
abbreviation (input) HID_USAGE_KB_C :: u16 where "HID_USAGE_KB_C \<equiv> 0x06"
abbreviation (input) HID_USAGE_KB_D :: u16 where "HID_USAGE_KB_D \<equiv> 0x07"
abbreviation (input) HID_USAGE_KB_E :: u16 where "HID_USAGE_KB_E \<equiv> 0x08"
abbreviation (input) HID_USAGE_KB_F :: u16 where "HID_USAGE_KB_F \<equiv> 0x09"
abbreviation (input) HID_USAGE_KB_G :: u16 where "HID_USAGE_KB_G \<equiv> 0x0a"
abbreviation (input) HID_USAGE_KB_H :: u16 where "HID_USAGE_KB_H \<equiv> 0x0b"
abbreviation (input) HID_USAGE_KB_I :: u16 where "HID_USAGE_KB_I \<equiv> 0x0c"
abbreviation (input) HID_USAGE_KB_J :: u16 where "HID_USAGE_KB_J \<equiv> 0x0d"
abbreviation (input) HID_USAGE_KB_K :: u16 where "HID_USAGE_KB_K \<equiv> 0x0e"
abbreviation (input) HID_USAGE_KB_M :: u16 where "HID_USAGE_KB_M \<equiv> 0x10"
abbreviation (input) HID_USAGE_KB_N :: u16 where "HID_USAGE_KB_N \<equiv> 0x11"
abbreviation (input) HID_USAGE_KB_O :: u16 where "HID_USAGE_KB_O \<equiv> 0x12"
abbreviation (input) HID_USAGE_KB_ENTER :: u16 where "HID_USAGE_KB_ENTER \<equiv> 0x28"
abbreviation (input) HID_USAGE_KB_RIGHT_ARROW :: u16 where "HID_USAGE_KB_RIGHT_ARROW \<equiv> 0x4f"
abbreviation (input) HID_USAGE_KB_LEFT_ARROW :: u16 where "HID_USAGE_KB_LEFT_ARROW \<equiv> 0x50"
abbreviation (input) HID_USAGE_KB_DOWN_ARROW :: u16 where "HID_USAGE_KB_DOWN_ARROW \<equiv> 0x51"
abbreviation (input) HID_USAGE_KB_UP_ARROW :: u16 where "HID_USAGE_KB_UP_ARROW \<equiv> 0x52"
abbreviation (input) HID_USAGE_KP_ENTER :: u16 where "HID_USAGE_KP_ENTER \<equiv> 0x58"
abbreviation (input) HID_USAGE_KB_POWER :: u16 where "HID_USAGE_KB_POWER \<equiv> 0x66"
abbreviation (input) HID_USAGE_MENU :: u16 where "HID_USAGE_MENU \<equiv> 0x40"
abbreviation (input) HID_USAGE_ASSIGN_SELECTION :: u16 where "HID_USAGE_ASSIGN_SELECTION \<equiv> 0x81"
abbreviation (input) HID_USAGE_ORDER_MOVIE :: u16 where "HID_USAGE_ORDER_MOVIE \<equiv> 0x85"
abbreviation (input) HID_USAGE_MEDIA_SELECT_TV :: u16 where "HID_USAGE_MEDIA_SELECT_TV \<equiv> 0x89"
abbreviation (input) HID_USAGE_MEDIA_SELECT_SECURITY :: u16 where "HID_USAGE_MEDIA_SELECT_SECURITY \<equiv> 0x99"
abbreviation (input) HID_USAGE_RECORD :: u16 where "HID_USAGE_RECORD \<equiv> 0xb2"
abbreviation (input) HID_USAGE_FAST_FORWARD :: u16 where "HID_USAGE_FAST_FORWARD \<equiv> 0xb3"
abbreviation (input) HID_USAGE_REWIND :: u16 where "HID_USAGE_REWIND \<equiv> 0xb4"
abbreviation (input) HID_USAGE_PLAY_PAUSE :: u16 where "HID_USAGE_PLAY_PAUSE \<equiv> 0xcd"
abbreviation (input) HID_USAGE_MUTE :: u16 where "HID_USAGE_MUTE \<equiv> 0xe2"
abbreviation (input) HID_USAGE_VOLUME_UP :: u16 where "HID_USAGE_VOLUME_UP \<equiv> 0xe9"
abbreviation (input) HID_USAGE_VOLUME_DOWN :: u16 where "HID_USAGE_VOLUME_DOWN \<equiv> 0xea"
abbreviation (input) HID_USAGE_AC_SEARCH :: u16 where "HID_USAGE_AC_SEARCH \<equiv> 0x0221"
abbreviation (input) HID_USAGE_AC_HOME :: u16 where "HID_USAGE_AC_HOME \<equiv> 0x0223"
abbreviation (input) HID_USAGE_AC_BACK :: u16 where "HID_USAGE_AC_BACK \<equiv> 0x0224"

definition DPAD_USAGES :: "u16 list" where
  "DPAD_USAGES = [HID_USAGE_DPAD_UP, HID_USAGE_DPAD_DOWN, HID_USAGE_DPAD_RIGHT, HID_USAGE_DPAD_LEFT]"

text \<open>The eight modifier keys, from left control to right GUI.\<close>

definition MODIFIER_USAGES :: "u16 list" where
  "MODIFIER_USAGES = [0xe0, 0xe1, 0xe2, 0xe3, 0xe4, 0xe5, 0xe6, 0xe7]"

section \<open>Android\<close>

text \<open>
  Each parser is a function of the globals, the usage and the value to an operation on the
  controller. Branches of the code that only log are \<open>ignore\<close>.
\<close>

definition android_parse_usage :: "hid_globals \<Rightarrow> u16 \<Rightarrow> u16 \<Rightarrow> int \<Rightarrow> ctl_op" where
  "android_parse_usage g usage_page usage v =
     switch usage_page
       [([HID_USAGE_PAGE_GENERIC_DESKTOP],
         switch usage
           [([HID_USAGE_AXIS_X], set_axis put_x g v),
            ([HID_USAGE_AXIS_Y], set_axis put_y g v),
            ([HID_USAGE_AXIS_Z], set_axis put_rx g v),
            ([HID_USAGE_AXIS_RZ], set_axis put_ry g v),
            ([HID_USAGE_HAT], set_hat g v),
            (DPAD_USAGES, set_dpad usage v)]
           ignore),
        ([HID_USAGE_PAGE_SIMULATION_CONTROLS],
         switch usage
           [([HID_USAGE_ACCELERATOR], set_pedal put_throttle g v),
            ([HID_USAGE_BRAKE], set_pedal put_brake g v)]
           ignore),
        ([HID_USAGE_PAGE_GENERIC_DEVICE_CONTROLS],
         switch usage [([HID_USAGE_BATTERY_STRENGTH], set_battery v)] ignore),
        ([HID_USAGE_PAGE_BUTTON],
         switch usage
           [([0x01], press BUTTON_A v),
            ([0x02], press BUTTON_B v),
            ([0x03], ignore),
            ([0x04], press BUTTON_X v),
            ([0x05], press BUTTON_Y v),
            ([0x06], ignore),
            ([0x07], press BUTTON_SHOULDER_L v),
            ([0x08], press BUTTON_SHOULDER_R v),
            ([0x09], press BUTTON_TRIGGER_L v),
            ([0x0a], press BUTTON_TRIGGER_R v),
            ([0x0b], press_misc MISC_BUTTON_SELECT v),
            ([0x0c], press_misc MISC_BUTTON_START v),
            ([0x0d], press_misc MISC_BUTTON_SYSTEM v),
            ([0x0e], press BUTTON_THUMB_L v),
            ([0x0f], press BUTTON_THUMB_R v),
            ([0x11], ignore),
            ([0x12], ignore),
            ([0x13], press BUTTON_TRIGGER_L v),
            ([0x14], press BUTTON_TRIGGER_R v)]
           ignore),
        ([HID_USAGE_PAGE_CONSUMER],
         switch usage
           [([HID_USAGE_AC_HOME], press_misc MISC_BUTTON_START v),
            ([HID_USAGE_AC_BACK], press_misc MISC_BUTTON_SELECT v)]
           ignore),
        ([0xff01], ignore)]
       ignore"

section \<open>8BitDo\<close>

definition parse_usage_8bitdo :: "hid_globals \<Rightarrow> u16 \<Rightarrow> u16 \<Rightarrow> int \<Rightarrow> ctl_op" where
  "parse_usage_8bitdo g usage_page usage v =
     switch usage_page
       [([HID_USAGE_PAGE_GENERIC_DESKTOP],
         switch usage
           [([HID_USAGE_AXIS_X], set_axis put_x g v),
            ([HID_USAGE_AXIS_Y], set_axis put_y g v),
            ([HID_USAGE_AXIS_Z], set_axis put_rx g v),
            ([HID_USAGE_AXIS_RZ], set_axis put_ry g v),
            ([HID_USAGE_HAT], set_hat g v),
            (DPAD_USAGES, set_dpad usage v)]
           ignore),
        ([HID_USAGE_PAGE_SIMULATION_CONTROLS],
         switch usage
           [([HID_USAGE_ACCELERATOR], set_pedal put_throttle g v),
            ([HID_USAGE_BRAKE], set_pedal put_brake g v)]
           ignore),
        ([HID_USAGE_PAGE_BUTTON],
         switch usage
           [([0x01], press BUTTON_B v),
            ([0x02], press BUTTON_A v),
            ([0x03], press_misc MISC_BUTTON_SYSTEM v),
            ([0x04], press BUTTON_Y v),
            ([0x05], press BUTTON_X v),
            ([0x06], ignore),
            ([0x07], press BUTTON_SHOULDER_L v),
            ([0x08], press BUTTON_SHOULDER_R v),
            ([0x09], press BUTTON_TRIGGER_L v),
            ([0x0a], press BUTTON_TRIGGER_R v),
            ([0x0b], press_misc MISC_BUTTON_SELECT v),
            ([0x0c], press_misc MISC_BUTTON_START v),
            ([0x0d], press_misc MISC_BUTTON_SYSTEM v),
            ([0x0e], press BUTTON_THUMB_L v),
            ([0x0f], press BUTTON_THUMB_R v),
            ([0x10], ignore)]
           ignore),
        ([HID_USAGE_PAGE_GENERIC_DEVICE_CONTROLS],
         switch usage [([HID_USAGE_BATTERY_STRENGTH], set_battery v)] ignore),
        ([HID_USAGE_PAGE_KEYBOARD_KEYPAD],
         switch usage
           [([HID_USAGE_KB_NONE], ignore),
            ([HID_USAGE_KB_C], press_dpad DPAD_UP v),
            ([HID_USAGE_KB_D], press_dpad DPAD_DOWN v),
            ([HID_USAGE_KB_E], press_dpad DPAD_LEFT v),
            ([HID_USAGE_KB_F], press_dpad DPAD_RIGHT v),
            ([HID_USAGE_KB_G], press BUTTON_B v),
            ([HID_USAGE_KB_H], press BUTTON_Y v),
            ([HID_USAGE_KB_I], press BUTTON_X v),
            ([HID_USAGE_KB_J], press BUTTON_A v),
            ([HID_USAGE_KB_K], press BUTTON_SHOULDER_L v),
            ([HID_USAGE_KB_M], press BUTTON_SHOULDER_R v),
            ([HID_USAGE_KB_N], press_misc MISC_BUTTON_SELECT v),
            ([HID_USAGE_KB_O], press_misc MISC_BUTTON_START v),
            (MODIFIER_USAGES, ignore)]
           ignore)]
       ignore"

section \<open>Generic controllers\<close>

definition generic_parse_usage :: "hid_globals \<Rightarrow> u16 \<Rightarrow> u16 \<Rightarrow> int \<Rightarrow> ctl_op" where
  "generic_parse_usage g usage_page usage v =
     switch usage_page
       [([HID_USAGE_PAGE_GENERIC_DESKTOP],
         switch usage
           [([HID_USAGE_AXIS_X], set_axis put_x g v),
            ([HID_USAGE_AXIS_Y], set_axis put_y g v),
            ([HID_USAGE_AXIS_Z], set_axis put_rx g v),
            ([HID_USAGE_AXIS_RX], set_axis put_rx g v),
            ([HID_USAGE_AXIS_RY], set_pedal put_ry g v),
            ([HID_USAGE_AXIS_RZ], set_axis put_ry g v),
            ([HID_USAGE_HAT], set_hat g v),
            (DPAD_USAGES, set_dpad usage v)]
           ignore),
        ([HID_USAGE_PAGE_SIMULATION_CONTROLS],
         switch usage
           [([HID_USAGE_ACCELERATOR], set_pedal put_throttle g v),
            ([HID_USAGE_BRAKE], set_pedal put_brake g v)]
           ignore),
        ([HID_USAGE_PAGE_KEYBOARD_KEYPAD],
         switch usage
           [([HID_USAGE_KB_NONE], ignore),
            ([HID_USAGE_KB_ENTER], press_misc MISC_BUTTON_SYSTEM v),
            (MODIFIER_USAGES, ignore)]
           ignore),
        ([HID_USAGE_PAGE_GENERIC_DEVICE_CONTROLS],
         switch usage [([HID_USAGE_BATTERY_STRENGTH], set_battery v)] ignore),
        ([HID_USAGE_PAGE_BUTTON],
         switch usage
           [([0x01], press BUTTON_A v),
            ([0x02], press BUTTON_B v),
            ([0x03], ignore),
            ([0x04], press BUTTON_X v),
            ([0x05], press BUTTON_Y v),
            ([0x06], ignore),
            ([0x07], press BUTTON_SHOULDER_L v),
            ([0x08], press BUTTON_SHOULDER_R v),
            ([0x09, 0x0a], ignore),
            ([0x0b], press_misc MISC_BUTTON_SELECT v),
            ([0x0c], press_misc MISC_BUTTON_START v),
            ([0x0d], press_misc MISC_BUTTON_SYSTEM v),
            ([0x0e], press BUTTON_THUMB_L v),
            ([0x0f], press BUTTON_THUMB_R v),
            ([0x10], ignore)]
           ignore),
        ([HID_USAGE_PAGE_CONSUMER],
         switch usage
           [([HID_USAGE_FAST_FORWARD], ignore),
            ([HID_USAGE_REWIND], ignore),
            ([HID_USAGE_PLAY_PAUSE], ignore),
            ([HID_USAGE_AC_SEARCH], ignore),
            ([HID_USAGE_AC_HOME], press_misc MISC_BUTTON_START v),
            ([HID_USAGE_AC_BACK], press_misc MISC_BUTTON_SELECT v)]
           ignore)]
       ignore"

section \<open>Nimbus\<close>

definition nimbus_parse_usage :: "hid_globals \<Rightarrow> u16 \<Rightarrow> u16 \<Rightarrow> int \<Rightarrow> ctl_op" where
  "nimbus_parse_usage g usage_page usage v =
     switch usage_page
       [([HID_USAGE_PAGE_GENERIC_DESKTOP],
         switch usage
           [([HID_USAGE_AXIS_X], set_axis put_x g v),
            ([HID_USAGE_AXIS_Y], set_axis_inverted put_y g v),
            ([HID_USAGE_AXIS_Z], set_axis put_rx g v),
            ([HID_USAGE_AXIS_RZ], set_axis_inverted put_ry g v),
            ([HID_USAGE_HAT], set_hat g v),
            (DPAD_USAGES, set_dpad usage v)]
           ignore),
        ([HID_USAGE_PAGE_SIMULATION_CONTROLS],
         switch usage
           [([HID_USAGE_ACCELERATOR], set_pedal put_throttle g v),
            ([HID_USAGE_BRAKE], set_pedal put_brake g v)]
           ignore),
        ([HID_USAGE_PAGE_GENERIC_DEVICE_CONTROLS],
         switch usage [([HID_USAGE_BATTERY_STRENGTH], set_battery v)] ignore),
        ([HID_USAGE_PAGE_BUTTON],
         switch usage
           [([0x01], press BUTTON_A v),
            ([0x02], press BUTTON_B v),
            ([0x03], press BUTTON_X v),
            ([0x04], press BUTTON_Y v),
            ([0x05], press BUTTON_SHOULDER_L v),
            ([0x06], press BUTTON_SHOULDER_R v),
            ([0x07], and_then (press BUTTON_TRIGGER_L v) (set_pedal put_brake g v)),
            ([0x08], and_then (press BUTTON_TRIGGER_R v) (set_pedal put_throttle g v))]
           ignore),
        ([HID_USAGE_PAGE_CONSUMER],
         switch usage
           [([HID_USAGE_AC_SEARCH], ignore),
            ([HID_USAGE_AC_HOME], press_misc MISC_BUTTON_SYSTEM v),
            ([HID_USAGE_AC_BACK], ignore)]
           ignore)]
       ignore"

section \<open>OUYA\<close>

definition ouya_parse_usage :: "hid_globals \<Rightarrow> u16 \<Rightarrow> u16 \<Rightarrow> int \<Rightarrow> ctl_op" where
  "ouya_parse_usage g usage_page usage v =
     switch usage_page
       [([HID_USAGE_PAGE_GENERIC_DESKTOP],
         switch usage
           [([HID_USAGE_AXIS_X], set_axis put_x g v),
            ([HID_USAGE_AXIS_Y], set_axis put_y g v),
            ([HID_USAGE_AXIS_Z], set_pedal put_brake g v),
            ([HID_USAGE_AXIS_RX], set_axis put_rx g v),
            ([HID_USAGE_AXIS_RY], set_axis put_ry g v),
            ([HID_USAGE_AXIS_RZ], set_pedal put_throttle g v)]
           ignore),
        ([HID_USAGE_PAGE_BUTTON],
         switch usage
           [([1], press BUTTON_A v),
            ([2], press BUTTON_X v),
            ([3], press BUTTON_Y v),
            ([4], press BUTTON_B v),
            ([5], press BUTTON_SHOULDER_L v),
            ([6], press BUTTON_SHOULDER_R v),
            ([7], press BUTTON_THUMB_L v),
            ([8], press BUTTON_THUMB_R v),
            ([9], press_dpad DPAD_UP v),
            ([0x0a], press_dpad DPAD_DOWN v),
            ([0x0b], press_dpad DPAD_LEFT v),
            ([0x0c], press_dpad DPAD_RIGHT v),
            ([0x0d], press BUTTON_TRIGGER_L v),
            ([0x0e], press BUTTON_TRIGGER_R v),
            ([0x0f], press_misc MISC_BUTTON_SYSTEM v),
            ([0x10], ignore)]
           ignore),
        ([0xff00], ignore)]
       ignore"

section \<open>Smart TV remotes\<close>

definition smarttvremote_parse_usage :: "hid_globals \<Rightarrow> u16 \<Rightarrow> u16 \<Rightarrow> int \<Rightarrow> ctl_op" where
  "smarttvremote_parse_usage g usage_page usage v =
     switch usage_page
       [([HID_USAGE_PAGE_GENERIC_DEVICE_CONTROLS],
         switch usage [([HID_USAGE_BATTERY_STRENGTH], set_battery v)] ignore),
        ([HID_USAGE_PAGE_KEYBOARD_KEYPAD],
         switch usage
           [([0x00], ignore),
            ([HID_USAGE_KB_RIGHT_ARROW], press_dpad DPAD_RIGHT v),
            ([HID_USAGE_KB_LEFT_ARROW], press_dpad DPAD_LEFT v),
            ([HID_USAGE_KB_DOWN_ARROW], press_dpad DPAD_DOWN v),
            ([HID_USAGE_KB_UP_ARROW], press_dpad DPAD_UP v),
            ([HID_USAGE_KP_ENTER], press BUTTON_A v),
            ([HID_USAGE_KB_POWER], ignore),
            ([0xf1], press_misc MISC_BUTTON_SELECT v)]
           ignore),
        ([HID_USAGE_PAGE_CONSUMER],
         switch usage
           [([HID_USAGE_MENU], press_misc MISC_BUTTON_SYSTEM v),
            ([HID_USAGE_MEDIA_SELECT_TV, HID_USAGE_FAST_FORWARD, HID_USAGE_REWIND,
              HID_USAGE_PLAY_PAUSE, HID_USAGE_MUTE, HID_USAGE_VOLUME_UP,
              HID_USAGE_VOLUME_DOWN, HID_USAGE_AC_SEARCH], ignore),
            ([HID_USAGE_AC_HOME], press_misc MISC_BUTTON_START v)]
           ignore)]
       ignore"

section \<open>Xbox One\<close>

datatype xboxone_firmware = XBOXONE_FIRMWARE_V3_1 | XBOXONE_FIRMWARE_V4_8 | XBOXONE_FIRMWARE_V5

text \<open>
  The Xbox parser also writes the firmware revision it infers: the state is the controller
  with the revision of the device's instance data.
\<close>

type_synonym xbox_state = "uni_controller \<times> xboxone_firmware"
type_synonym xbox_op = "xbox_state \<Rightarrow> xbox_state cres"

definition on_ctl :: "ctl_op \<Rightarrow> xbox_op" where
  "on_ctl f s = mapR (\<lambda>ctl. (ctl, snd s)) (f (fst s))"

definition set_version :: "xboxone_firmware \<Rightarrow> xbox_op" where
  "set_version ver s = Inr (fst s, ver)"

definition set_version_then :: "xboxone_firmware \<Rightarrow> ctl_op \<Rightarrow> xbox_op" where
  "set_version_then ver f s = mapR (\<lambda>ctl. (ctl, ver)) (f (fst s))"

definition TRIGGER_BUTTON_THRESHOLD :: int where
  "TRIGGER_BUTTON_THRESHOLD = 32"

definition press_if_throttle :: ctl_op where
  "press_if_throttle ctl =
     press BUTTON_TRIGGER_R
       (if TRIGGER_BUTTON_THRESHOLD \<le> gp_throttle (ctl_gamepad ctl) then 1 else 0) ctl"

definition press_if_brake :: ctl_op where
  "press_if_brake ctl =
     press BUTTON_TRIGGER_L
       (if TRIGGER_BUTTON_THRESHOLD \<le> gp_brake (ctl_gamepad ctl) then 1 else 0) ctl"

definition parse_usage_firmware_v3_1 :: "hid_globals \<Rightarrow> u16 \<Rightarrow> u16 \<Rightarrow> int \<Rightarrow> xbox_op" where
  "parse_usage_firmware_v3_1 g usage_page usage v =
     switch usage_page
       [([HID_USAGE_PAGE_GENERIC_DESKTOP],
         on_ctl (switch usage
           [([HID_USAGE_AXIS_X], set_axis put_x g v),
            ([HID_USAGE_AXIS_Y], set_axis put_y g v),
            ([HID_USAGE_AXIS_Z], set_pedal put_brake g v),
            ([HID_USAGE_AXIS_RX], set_axis put_rx g v),
            ([HID_USAGE_AXIS_RY], set_axis put_ry g v),
            ([HID_USAGE_AXIS_RZ], set_pedal put_throttle g v),
            ([HID_USAGE_HAT], set_hat g v),
            ([HID_USAGE_SYSTEM_MAIN_MENU], press_misc MISC_BUTTON_SYSTEM v),
            (DPAD_USAGES, set_dpad usage v)]
           ignore)),
        ([HID_USAGE_PAGE_GENERIC_DEVICE_CONTROLS],
         on_ctl (switch usage [([HID_USAGE_BATTERY_STRENGTH], set_battery v)] ignore)),
        ([HID_USAGE_PAGE_BUTTON],
         switch usage
           [([0x01], on_ctl (press BUTTON_A v)),
            ([0x02], on_ctl (press BUTTON_B v)),
            ([0x03], on_ctl (press BUTTON_X v)),
            ([0x04], on_ctl (press BUTTON_Y v)),
            ([0x05], on_ctl (press BUTTON_SHOULDER_L v)),
            ([0x06], on_ctl (press BUTTON_SHOULDER_R v)),
            ([0x07], on_ctl (press_misc MISC_BUTTON_SELECT v)),
            ([0x08], on_ctl (press_misc MISC_BUTTON_START v)),
            ([0x09], on_ctl (press BUTTON_THUMB_L v)),
            ([0x0a], on_ctl (press BUTTON_THUMB_R v)),
            ([0x0f], set_version XBOXONE_FIRMWARE_V4_8)]
           (on_ctl ignore)),
        ([HID_USAGE_PAGE_CONSUMER],
         on_ctl (switch usage
           [([HID_USAGE_RECORD], ignore),
            ([HID_USAGE_AC_BACK], ignore)]
           ignore))]
       (on_ctl ignore)"

definition parse_usage_firmware_v4_v5 :: "hid_globals \<Rightarrow> u16 \<Rightarrow> u16 \<Rightarrow> int \<Rightarrow> xbox_op" where
  "parse_usage_firmware_v4_v5 g usage_page usage v =
     switch usage_page
       [([HID_USAGE_PAGE_GENERIC_DESKTOP],
         on_ctl (switch usage
           [([HID_USAGE_AXIS_X], set_axis put_x g v),
            ([HID_USAGE_AXIS_Y], set_axis put_y g v),
            ([HID_USAGE_AXIS_Z], set_axis put_rx g v),
            ([HID_USAGE_AXIS_RZ], set_axis put_ry g v),
            ([HID_USAGE_HAT], set_hat g v),
            ([HID_USAGE_SYSTEM_MAIN_MENU], press_misc MISC_BUTTON_SYSTEM v),
            (DPAD_USAGES, set_dpad usage v)]
           ignore)),
        ([HID_USAGE_PAGE_SIMULATION_CONTROLS],
         on_ctl (switch usage
           [([HID_USAGE_ACCELERATOR], and_then (set_pedal put_throttle g v) press_if_throttle),
            ([HID_USAGE_BRAKE], and_then (set_pedal put_brake g v) press_if_brake)]
           ignore)),
        ([HID_USAGE_PAGE_GENERIC_DEVICE_CONTROLS],
         on_ctl (switch usage [([HID_USAGE_BATTERY_STRENGTH], set_battery v)] ignore)),
        ([HID_USAGE_PAGE_BUTTON],
         on_ctl (switch usage
           [([0x01], press BUTTON_A v),
            ([0x02], press BUTTON_B v),
            ([0x03], ignore),
            ([0x04], press BUTTON_X v),
            ([0x05], press BUTTON_Y v),
            ([0x06], ignore),
            ([0x07], press BUTTON_SHOULDER_L v),
            ([0x08], press BUTTON_SHOULDER_R v),
            ([0x09, 0x0a], ignore),
            ([0x0b], press_misc MISC_BUTTON_SELECT v),
            ([0x0c], press_misc MISC_BUTTON_START v),
            ([0x0d], press_misc MISC_BUTTON_SYSTEM v),
            ([0x0e], press BUTTON_THUMB_L v),
            ([0x0f], press BUTTON_THUMB_R v)]
           ignore)),
        ([HID_USAGE_PAGE_CONSUMER],
         switch usage
           [([HID_USAGE_RECORD],
             set_version_then XBOXONE_FIRMWARE_V5 (press_misc MISC_BUTTON_CAPTURE v)),
            ([HID_USAGE_AC_BACK], on_ctl (press_misc MISC_BUTTON_SELECT v)),
            ([HID_USAGE_ASSIGN_SELECTION, HID_USAGE_ORDER_MOVIE, HID_USAGE_MEDIA_SELECT_SECURITY],
             on_ctl ignore)]
           (on_ctl ignore))]
       (on_ctl ignore)"

definition xboxone_parse_usage :: "hid_globals \<Rightarrow> u16 \<Rightarrow> u16 \<Rightarrow> int \<Rightarrow> xbox_op" where
  "xboxone_parse_usage g usage_page usage v s =
     (if snd s = XBOXONE_FIRMWARE_V3_1 then parse_usage_firmware_v3_1 g usage_page usage v s
      else parse_usage_firmware_v4_v5 g usage_page usage v s)"

definition xboxone_init_report :: "xbox_state \<Rightarrow> xbox_state" where
  "xboxone_init_report s = (init_gamepad_report (fst s), snd s)"

section \<open>Every parser meets the contract\<close>

declare switch.simps [simp del]

definition sim_pedal :: "u16 \<Rightarrow> u16 \<Rightarrow> bool" where
  "sim_pedal pg us \<longleftrightarrow> pg = HID_USAGE_PAGE_SIMULATION_CONTROLS
     \<and> us \<in> {HID_USAGE_ACCELERATOR, HID_USAGE_BRAKE}"

definition z_pedal :: "u16 \<Rightarrow> u16 \<Rightarrow> bool" where
  "z_pedal pg us \<longleftrightarrow> pg = HID_USAGE_PAGE_GENERIC_DESKTOP \<and> us \<in> {HID_USAGE_AXIS_Z, HID_USAGE_AXIS_RZ}"

definition generic_pedal :: "u16 \<Rightarrow> u16 \<Rightarrow> bool" where
  "generic_pedal pg us \<longleftrightarrow> sim_pedal pg us
     \<or> pg = HID_USAGE_PAGE_GENERIC_DESKTOP \<and> us = HID_USAGE_AXIS_RY"

definition nimbus_pedal :: "u16 \<Rightarrow> u16 \<Rightarrow> bool" where
  "nimbus_pedal pg us \<longleftrightarrow> sim_pedal pg us \<or> pg = HID_USAGE_PAGE_BUTTON \<and> us \<in> {7, 8}"

definition no_pedal :: "u16 \<Rightarrow> u16 \<Rightarrow> bool" where
  "no_pedal pg us \<longleftrightarrow> False"

definition xbox_pedal :: "u16 \<Rightarrow> u16 \<Rightarrow> bool" where
  "xbox_pedal pg us \<longleftrightarrow> sim_pedal pg us \<or> z_pedal pg us"

lemma usages_keep_wf:
  "keeps_wf (android_parse_usage g pg us v)" "keeps_wf (parse_usage_8bitdo g pg us v)"
  "keeps_wf (generic_parse_usage g pg us v)" "keeps_wf (nimbus_parse_usage g pg us v)"
  "keeps_wf (ouya_parse_usage g pg us v)" "keeps_wf (smarttvremote_parse_usage g pg us v)"
  by (simp_all add: android_parse_usage_def parse_usage_8bitdo_def generic_parse_usage_def
      nimbus_parse_usage_def ouya_parse_usage_def smarttvremote_parse_usage_def keeps)

lemmas pedal_defs = sim_pedal_def z_pedal_def generic_pedal_def nimbus_pedal_def no_pedal_def
  xbox_pedal_def

lemma good_fieldD:
  assumes "good_field pedal (g, pg, us, v)"
  shows "sane_globals g" "\<not> is_hat pg us \<Longrightarrow> in_logical_range g v" "pedal pg us \<Longrightarrow> hg_logical_minimum g = 0"
  using assms by (auto simp: good_field_def)

lemma android_calibrated:
  assumes "good_field sim_pedal (g, pg, us, v)"
  shows "keeps_calibrated 511 (android_parse_usage g pg us v)"
  unfolding android_parse_usage_def
  by (intro keeps_calibrated_switch) 
    (auto intro!: keeps_calibrated_switch keeps keeps_calibrated_hat keeps_calibrated_axis keeps_calibrated_pedal
      good_fieldD [OF assms] simp: pedal_defs is_hat_def)

lemma parse_usage_8bitdo_calibrated:
  assumes "good_field sim_pedal (g, pg, us, v)"
  shows "keeps_calibrated 511 (parse_usage_8bitdo g pg us v)"
  unfolding parse_usage_8bitdo_def
  by (intro keeps_calibrated_switch)
    (auto intro!: keeps_calibrated_switch keeps keeps_calibrated_hat keeps_calibrated_axis keeps_calibrated_pedal
      good_fieldD [OF assms] simp: pedal_defs is_hat_def)

lemma generic_calibrated:
  assumes "good_field generic_pedal (g, pg, us, v)"
  shows "keeps_calibrated 1023 (generic_parse_usage g pg us v)"
  unfolding generic_parse_usage_def
  by (intro keeps_calibrated_switch)
    (auto intro!: keeps_calibrated_switch keeps keeps_calibrated_hat keeps_calibrated_axis keeps_calibrated_pedal
      good_fieldD [OF assms] simp: pedal_defs is_hat_def)

lemma nimbus_calibrated:
  assumes "good_field nimbus_pedal (g, pg, us, v)"
  shows "keeps_calibrated 512 (nimbus_parse_usage g pg us v)"
  unfolding nimbus_parse_usage_def
  by (intro keeps_calibrated_switch)
    (auto intro!: keeps_calibrated_switch keeps keeps_calibrated_hat keeps_calibrated_axis keeps_calibrated_pedal
      keeps_calibrated_inverted good_fieldD [OF assms] simp: pedal_defs is_hat_def)

lemma ouya_calibrated:
  assumes "good_field z_pedal (g, pg, us, v)"
  shows "keeps_calibrated 511 (ouya_parse_usage g pg us v)"
  unfolding ouya_parse_usage_def
  by (intro keeps_calibrated_switch)
    (auto intro!: keeps_calibrated_switch keeps keeps_calibrated_hat keeps_calibrated_axis keeps_calibrated_pedal
      good_fieldD [OF assms] simp: pedal_defs is_hat_def)

lemma smarttvremote_calibrated: "keeps_calibrated 511 (smarttvremote_parse_usage g pg us v)"
  unfolding smarttvremote_parse_usage_def
  by (intro keeps_calibrated_switch) (auto intro!: keeps_calibrated_switch keeps)

text \<open>The operations of the Xbox parser, on the pair of controller and revision.\<close>

definition keeps_wf_xbox :: "xbox_op \<Rightarrow> bool" where
  "keeps_wf_xbox f \<longleftrightarrow> (\<forall>s s'. wf_gamepad (fst s) \<longrightarrow> f s = Inr s' \<longrightarrow> wf_gamepad (fst s'))"

definition keeps_calibrated_xbox :: "xbox_op \<Rightarrow> bool" where
  "keeps_calibrated_xbox f \<longleftrightarrow>
     (\<forall>s. calibrated_gamepad 511 (fst s) \<longrightarrow> (\<exists>s'. f s = Inr s' \<and> calibrated_gamepad 511 (fst s')))"

lemma keeps_wf_xbox_switch [keeps]:
  "\<lbrakk>\<forall>c \<in> set cs. keeps_wf_xbox (snd c); keeps_wf_xbox otherwise\<rbrakk> \<Longrightarrow> keeps_wf_xbox (switch k cs otherwise)"
  by (induction cs) (auto simp: switch.simps)

lemma keeps_calibrated_xbox_switch:
  "\<lbrakk>\<forall>c \<in> set cs. k \<in> set (fst c) \<longrightarrow> keeps_calibrated_xbox (snd c); keeps_calibrated_xbox otherwise\<rbrakk>
    \<Longrightarrow> keeps_calibrated_xbox (switch k cs otherwise)"
  by (induction cs) (auto simp: switch.simps)

lemma keeps_wf_on_ctl [keeps]: "keeps_wf f \<Longrightarrow> keeps_wf_xbox (on_ctl f)"
  unfolding keeps_wf_xbox_def keeps_wf_def on_ctl_def mapR_Inr_iff by force

lemma keeps_wf_version_then [keeps]: "keeps_wf f \<Longrightarrow> keeps_wf_xbox (set_version_then ver f)"
  unfolding keeps_wf_xbox_def keeps_wf_def set_version_then_def mapR_Inr_iff by force

lemma keeps_version [keeps]:
  "keeps_wf_xbox (set_version ver)" "keeps_calibrated_xbox (set_version ver)"
  by (simp_all add: keeps_wf_xbox_def keeps_calibrated_xbox_def set_version_def)

lemma keeps_calibrated_on_ctl [keeps]: "keeps_calibrated 511 f \<Longrightarrow> keeps_calibrated_xbox (on_ctl f)"
  unfolding keeps_calibrated_xbox_def keeps_calibrated_def on_ctl_def mapR_Inr_iff by force

lemma keeps_calibrated_version_then [keeps]:
  "keeps_calibrated 511 f \<Longrightarrow> keeps_calibrated_xbox (set_version_then ver f)"
  unfolding keeps_calibrated_xbox_def keeps_calibrated_def set_version_then_def mapR_Inr_iff by force

lemma keeps_dependent:
  "\<lbrakk>\<And>ctl. h ctl = press m (f ctl) ctl; \<And>v. keeps_wf (press m v)\<rbrakk> \<Longrightarrow> keeps_wf h"
  "\<lbrakk>\<And>ctl. h ctl = press m (f ctl) ctl; \<And>v. keeps_calibrated hi (press m v)\<rbrakk> \<Longrightarrow> keeps_calibrated hi h"
  unfolding keeps_wf_def keeps_calibrated_def by metis+

lemma keeps_press_if [keeps]:
  "keeps_wf press_if_throttle" "keeps_wf press_if_brake"
  "keeps_calibrated hi press_if_throttle" "keeps_calibrated hi press_if_brake"
proof -
  show "keeps_wf press_if_throttle"
    by (rule keeps_dependent(1) [OF press_if_throttle_def keeps_wf_buttons(8)])
  show "keeps_wf press_if_brake"
    by (rule keeps_dependent(1) [OF press_if_brake_def keeps_wf_buttons(7)])
  show "keeps_calibrated hi press_if_throttle"
    by (rule keeps_dependent(2) [OF press_if_throttle_def keeps_calibrated_presses(1)])
  show "keeps_calibrated hi press_if_brake"
    by (rule keeps_dependent(2) [OF press_if_brake_def keeps_calibrated_presses(1)])
qed

lemma xboxone_keep_wf: "keeps_wf_xbox (xboxone_parse_usage g pg us v)"
proof -
  have "keeps_wf_xbox (parse_usage_firmware_v3_1 g pg us v)"
    unfolding parse_usage_firmware_v3_1_def
    by (intro keeps_wf_xbox_switch) (auto intro!: keeps)
  moreover have "keeps_wf_xbox (parse_usage_firmware_v4_v5 g pg us v)"
    unfolding parse_usage_firmware_v4_v5_def
    by (intro keeps_wf_xbox_switch) (auto intro!: keeps)
  ultimately show ?thesis unfolding keeps_wf_xbox_def xboxone_parse_usage_def by metis
qed

lemma xboxone_calibrated:
  assumes "good_field xbox_pedal (g, pg, us, v)"
  shows "keeps_calibrated_xbox (xboxone_parse_usage g pg us v)"
proof -
  have "keeps_calibrated_xbox (parse_usage_firmware_v3_1 g pg us v)"
    unfolding parse_usage_firmware_v3_1_def
    by (intro keeps_calibrated_xbox_switch)
      (auto intro!: keeps_calibrated_xbox_switch keeps_calibrated_switch keeps keeps_calibrated_hat
        keeps_calibrated_axis keeps_calibrated_pedal good_fieldD [OF assms] simp: pedal_defs is_hat_def)
  moreover have "keeps_calibrated_xbox (parse_usage_firmware_v4_v5 g pg us v)"
    unfolding parse_usage_firmware_v4_v5_def
    by (intro keeps_calibrated_xbox_switch)
      (auto intro!: keeps_calibrated_xbox_switch keeps_calibrated_switch keeps keeps_calibrated_hat
        keeps_calibrated_axis keeps_calibrated_pedal good_fieldD [OF assms] simp: pedal_defs is_hat_def)
  ultimately show ?thesis unfolding keeps_calibrated_xbox_def xboxone_parse_usage_def by metis
qed

lemma gamepad_usage_parser:
  assumes "\<And>g pg us v. keeps_wf (parse_usage g pg us v)"
    and "\<And>g pg us v. good_field pedal (g, pg, us, v) \<Longrightarrow> keeps_calibrated hi (parse_usage g pg us v)"
    and "0 \<le> hi"
  shows "usage_parser init_gamepad_report parse_usage wf_gamepad (calibrated_gamepad hi) pedal"
proof
  show "wf_gamepad (init_gamepad_report d)" "calibrated_gamepad hi (init_gamepad_report d)" for d
    using assms(3) by (simp_all add: init_gamepad_wf init_gamepad_calibrated)
  show "wf_gamepad d'" if "wf_gamepad d" "parse_usage g pg us v d = Inr d'" for g pg us v d d'
    using assms(1) [of g pg us v] that by (simp add: keeps_wf_def)
  show "\<exists>d'. parse_usage g pg us v d = Inr d' \<and> calibrated_gamepad hi d'"
    if "calibrated_gamepad hi d" "good_field pedal (g, pg, us, v)" for g pg us v d
    using assms(2) [OF that(2)] that(1) by (simp add: keeps_calibrated_def)
qed

interpretation android: usage_parser init_gamepad_report android_parse_usage wf_gamepad
  "calibrated_gamepad 511" sim_pedal
  by (rule gamepad_usage_parser) (simp_all add: usages_keep_wf android_calibrated)

interpretation bitdo8: usage_parser init_gamepad_report parse_usage_8bitdo wf_gamepad
  "calibrated_gamepad 511" sim_pedal
  by (rule gamepad_usage_parser) (simp_all add: usages_keep_wf parse_usage_8bitdo_calibrated)

interpretation generic: usage_parser init_gamepad_report generic_parse_usage wf_gamepad
  "calibrated_gamepad 1023" generic_pedal
  by (rule gamepad_usage_parser) (simp_all add: usages_keep_wf generic_calibrated)

interpretation nimbus: usage_parser init_gamepad_report nimbus_parse_usage wf_gamepad
  "calibrated_gamepad 512" nimbus_pedal
  by (rule gamepad_usage_parser) (simp_all add: usages_keep_wf nimbus_calibrated)

interpretation ouya: usage_parser init_gamepad_report ouya_parse_usage wf_gamepad
  "calibrated_gamepad 511" z_pedal
  by (rule gamepad_usage_parser) (simp_all add: usages_keep_wf ouya_calibrated)

interpretation smarttv: usage_parser init_gamepad_report smarttvremote_parse_usage wf_gamepad
  "calibrated_gamepad 511" no_pedal
  by (rule gamepad_usage_parser) (simp_all add: usages_keep_wf smarttvremote_calibrated)

interpretation xbox: usage_parser xboxone_init_report xboxone_parse_usage "\<lambda>s. wf_gamepad (fst s)"
  "\<lambda>s. calibrated_gamepad 511 (fst s)" xbox_pedal
proof
  show "wf_gamepad (fst (xboxone_init_report s))" "calibrated_gamepad 511 (fst (xboxone_init_report s))" for s
    by (simp_all add: xboxone_init_report_def init_gamepad_wf init_gamepad_calibrated)
  show "wf_gamepad (fst s')" if "wf_gamepad (fst s)" "xboxone_parse_usage g pg us v s = Inr s'" for g pg us v s s'
    using xboxone_keep_wf [of g pg us v] that unfolding keeps_wf_xbox_def by blast
  show "\<exists>s'. xboxone_parse_usage g pg us v s = Inr s' \<and> calibrated_gamepad 511 (fst s')"
    if "calibrated_gamepad 511 (fst s)" "good_field xbox_pedal (g, pg, us, v)" for g pg us v s
    using xboxone_calibrated [OF that(2)] that(1) unfolding keeps_calibrated_xbox_def by blast
qed

section \<open>Where the axes leave the documented range\<close>

text \<open>
  The Nimbus parser negates an axis, so the minimum becomes 512; the generic parser treats
  the usage \<^verbatim>\<open>AXIS_RY\<close>, documented as a duplicate of \<^verbatim>\<open>AXIS_RZ\<close>, as a pedal, so the axis
  reaches 1020 and its resting position is not 0.
\<close>

definition byte_globals :: hid_globals where
  "byte_globals = \<lparr>hg_logical_minimum = 0, hg_logical_maximum = 255, hg_usage_page = 1,
     hg_report_size = 8, hg_report_count = 1, hg_report_id = 1\<rparr>"

lemma nimbus_axis_reaches_512:
  "mapR (\<lambda>ctl. gp_axis_y (ctl_gamepad ctl))
     (nimbus_parse_usage byte_globals 0x01 0x31 0 (init_gamepad_report zero_controller)) = Inr 512"
  by code_simp

lemma generic_axis_ry_is_a_pedal:
  "mapR (\<lambda>ctl. gp_axis_ry (ctl_gamepad ctl))
     (generic_parse_usage byte_globals 0x01 0x34 255 (init_gamepad_report zero_controller)) = Inr 1020"
  "mapR (\<lambda>ctl. gp_axis_ry (ctl_gamepad ctl))
     (generic_parse_usage byte_globals 0x01 0x34 128 (init_gamepad_report zero_controller)) = Inr 512"
  "mapR (\<lambda>ctl. gp_axis_ry (ctl_gamepad ctl))
     (generic_parse_usage byte_globals 0x01 0x35 128 (init_gamepad_report zero_controller)) = Inr 0"
  by code_simp+

end
