(* ===== verification/Hid_Layout.thy ===== *)
theory Hid_Layout
  imports Usage_Parsers
begin

text \<open>
  The layout of the reports of a descriptor: which fields, at which bit positions, the
  parser will read from a report with a given id. The layout does not depend on the
  other bytes, so a check of a descriptor (\<open>consistent_layout\<close>) speaks about every report
  a device with that descriptor can send.
\<close>

partial_function (option) layout_fields ::
    "hid_parser \<Rightarrow> (hid_globals \<times> usage_item) list \<Rightarrow> (hid_globals \<times> usage_item) list cres option" where
  "layout_fields p acc =
     Option.bind (hid_parser_has_more p) (\<lambda>r.
       case r of Inl e \<Rightarrow> Some (Inl e)
       | Inr (avail, p1) \<Rightarrow>
           if \<not> avail then Some (Inr acc)
           else layout_fields (p1\<lparr>hp_have_report_usage_ready := False\<rparr>)
                  (acc @ [(saved_globals p1, hp_usage_item p1)]))"

declare layout_fields.simps [code]

definition report_layout :: "bytes \<Rightarrow> u8 \<Rightarrow> (hid_globals \<times> usage_item) list cres option" where
  "report_layout ds rid = layout_fields (hid_parser_init ds HID_REPORT_TYPE_INPUT [rid] 1) []"

section \<open>The layout only depends on the report id\<close>

definition with_report :: "bytes \<Rightarrow> nat \<Rightarrow> hid_parser \<Rightarrow> hid_parser" where
  "with_report report n p = p\<lparr>hp_report := report, hp_report_len := n\<rparr>"

lemma with_report_simps [simp]:
  "hp_usage_iterator (with_report report n p) = hp_usage_iterator p"
  "hp_have_report_usage_ready (with_report report n p) = hp_have_report_usage_ready p"
  "hp_usage_item (with_report report n p) = hp_usage_item p"
  "hp_report (with_report report n p) = report"
  "hp_report_len (with_report report n p) = n"
  "with_report report n (p\<lparr>hp_usage_iterator := u\<rparr>) = (with_report report n p)\<lparr>hp_usage_iterator := u\<rparr>"
  "with_report report n (p\<lparr>hp_usage_item := item\<rparr>) = (with_report report n p)\<lparr>hp_usage_item := item\<rparr>"
  "with_report report n (p\<lparr>hp_have_report_usage_ready := b\<rparr>)
    = (with_report report n p)\<lparr>hp_have_report_usage_ready := b\<rparr>"
  "saved_globals (with_report report n p) = saved_globals p"
  "parser_inv (with_report report n p) = parser_inv p"
  by (simp_all add: with_report_def saved_globals_def parser_inv_def Let_def)

definition report_swap :: "bytes \<Rightarrow> nat \<Rightarrow> (bool \<times> hid_parser) cres \<Rightarrow> (bool \<times> hid_parser) cres" where
  "report_swap report n = mapR (\<lambda>(avail, p). (avail, with_report report n p))"

lemma has_more_with_report:
  assumes "parser_inv p" and "read_byte report 0 = read_byte (hp_report p) 0"
  shows "hid_parser_has_more (with_report report n p)
    = map_option (report_swap report n) (hid_parser_has_more p)"
  using assms
proof (induction "hp_usage_iterator p" arbitrary: p rule: wf_induct_rule [OF wf_usage_measure])
  case 1
  let ?u = "hp_usage_iterator p"
  let ?p = "with_report report n p"
  show ?case
  proof (cases "hp_have_report_usage_ready p")
    case True
    then have "hid_parser_has_more p = Some (Inr (True, p))"
      "hid_parser_has_more ?p = Some (Inr (True, ?p))"
      by (subst hid_parser_has_more.simps, simp)+
    then show ?thesis by (simp add: report_swap_def)
  next
    case not_ready: False
    have inv: "usage_inv ?u" using 1(2) by (simp add: parser_inv_def)
    from usage_has_more_total [OF inv] obtain r where r: "usage_iterator_has_more ?u = Some r"
      and ok: "\<And>avail u1. r = Inr (avail, u1) \<Longrightarrow> usage_inv u1 \<and> avail = (ui_state u1 = USAGES_AVAILABLE)
        \<and> (avail \<longrightarrow> u1 = ?u \<or> (u1, ?u) \<in> usage_measure)" by blast
    consider (err) e where "r = Inl e" | (stop) u1 where "r = Inr (False, u1)"
      | (item) u1 where "r = Inr (True, u1)" by (metis (full_types) prod.exhaust sum.exhaust)
    then show ?thesis
    proof cases
      case err
      then have "hid_parser_has_more q = Some (Inl e)" if "q \<in> {p, ?p}" for q
        using r not_ready that by (subst hid_parser_has_more.simps) auto
      then show ?thesis by (simp add: report_swap_def)
    next
      case stop
      then have "hid_parser_has_more q = Some (Inr (False, q\<lparr>hp_usage_iterator := u1\<rparr>))" if "q \<in> {p, ?p}" for q
        using r not_ready that by (subst hid_parser_has_more.simps) auto
      then show ?thesis by (simp add: report_swap_def)
    next
      case item
      note ok = ok [OF item]
      have "usage_inv u1" "ui_state u1 = USAGES_AVAILABLE" using ok by simp_all
      from usage_get_item_total [OF this] obtain r2 where r2: "usage_iterator_get_item u1 = Some r2"
        and ok2: "\<And>it u2. r2 = Inr (it, u2) \<Longrightarrow> usage_inv u2 \<and> (u2, u1) \<in> usage_measure" by blast
      show ?thesis
      proof (cases r2)
        case (Inl e)
        then have "hid_parser_has_more q = Some (Inl e)" if "q \<in> {p, ?p}" for q
          using r r2 item not_ready that by (subst hid_parser_has_more.simps) auto
        then show ?thesis by (simp add: report_swap_def)
      next
        case (Inr x)
        then obtain it u2 where x: "r2 = Inr (it, u2)" by (cases x) simp
        have matches: "report_id_matches ?p it = report_id_matches p it"
          using 1(3) by (simp add: report_id_matches_def)
        show ?thesis
        proof (cases "report_id_matches p it")
          case (Inl e)
          then have "hid_parser_has_more q = Some (Inl e)" if "q \<in> {p, ?p}" for q
            using r r2 x item not_ready that matches by (subst hid_parser_has_more.simps) auto
          then show ?thesis by (simp add: report_swap_def)
        next
          case (Inr m)
          define next_p where "next_p q = q\<lparr>hp_usage_iterator := u2, hp_usage_item := it,
              hp_have_report_usage_ready := m\<rparr>" for q :: hid_parser
          have unfold: "hid_parser_has_more q = hid_parser_has_more (next_p q)" if "q \<in> {p, ?p}" for q
            using r r2 x item not_ready that matches Inr
            by (subst hid_parser_has_more.simps) (auto simp: next_p_def)
          have less: "(hp_usage_iterator (next_p p), ?u) \<in> usage_measure"
            using ok ok2 [OF x] usage_measure_trans by (auto simp: next_p_def)
          have inv': "parser_inv (next_p p)" using ok2 [OF x] by (simp add: next_p_def parser_inv_def)
          have "read_byte report 0 = read_byte (hp_report (next_p p)) 0" using 1(3) by (simp add: next_p_def)
          from 1(1) [OF less inv' this]
          have "hid_parser_has_more (with_report report n (next_p p))
            = map_option (report_swap report n) (hid_parser_has_more (next_p p))" .
          then show ?thesis using unfold [of p] unfold [of ?p] by (simp add: next_p_def)
        qed
      qed
    qed
  qed
qed

section \<open>Reading a layout\<close>

definition item_value_in :: "bytes \<Rightarrow> usage_item \<Rightarrow> int" where
  "item_value_in report item =
     (let n = unat (us_size item); x = field_bits report (unat (field_start item)) n
      in if us_global_logical_minimum item < 0 \<and> 2 ^ (n - 1) \<le> x then x - 2 ^ n else x)"

definition field_in :: "bytes \<Rightarrow> hid_globals \<times> usage_item \<Rightarrow> field" where
  "field_in report x =
     (fst x, us_usage_page (snd x), us_usage (snd x), item_value_in report (snd x))"

definition readable_item :: "nat \<Rightarrow> usage_item \<Rightarrow> bool" where
  "readable_item n item \<longleftrightarrow> is_variable_item (us_descriptor_item item)
     \<and> readable_field n (field_start item) (us_size item)"

lemma get_field_in:
  assumes "readable_item (hp_report_len p) (hp_usage_item p)" and "hp_report_len p \<le> length (hp_report p)"
  shows "hid_parser_get_field p
    = Inr (us_usage_page (hp_usage_item p), us_usage (hp_usage_item p),
        item_value_in (hp_report p) (hp_usage_item p), p\<lparr>hp_have_report_usage_ready := False\<rparr>)"
  using assms field_value_signed [of "hp_report_len p" "field_start (hp_usage_item p)" "hp_usage_item p"]
  by (simp add: hid_parser_get_field_def read_field_value readable_item_def item_value_in_def Let_def)

lemma layout_parse:
  assumes "idle p" and "layout_fields p acc = Some (Inr L)"
    and "read_byte report 0 = read_byte (hp_report p) 0" and "n \<le> length report"
  shows "\<exists>M. L = acc @ M \<and> ((\<forall>x \<in> set M. readable_item n (snd x)) \<longrightarrow>
    parse_fields record_field (with_report report n p) fs = Some (Inr (fs @ map (field_in report) M)))"
  using assms
proof (induction "hp_usage_iterator p" arbitrary: p acc fs rule: wf_induct_rule [OF wf_usage_measure])
  case 1
  have inv: "parser_inv p" and ready: "\<not> hp_have_report_usage_ready p" using 1(2) by (simp_all add: idle_def)
  note swap = has_more_with_report [OF inv 1(4), of n]
  from parser_has_more_total [OF inv] obtain r where r: "hid_parser_has_more p = Some r"
    and ok: "\<And>avail p'. r = Inr (avail, p') \<Longrightarrow> parser_inv p' \<and> hp_report p' = hp_report p
      \<and> (avail \<longrightarrow> (hp_usage_iterator p', hp_usage_iterator p) \<in> usage_measure)"
    using ready by blast
  consider (err) e where "r = Inl e" | (stop) p1 where "r = Inr (False, p1)"
    | (item) p1 where "r = Inr (True, p1)" by (metis (full_types) prod.exhaust sum.exhaust)
  then show ?case
  proof cases
    case err
    then have "layout_fields p acc = Some (Inl e)" using r by (subst layout_fields.simps) simp
    then show ?thesis using 1(3) by simp
  next
    case stop
    then have "layout_fields p acc = Some (Inr acc)" using r by (subst layout_fields.simps) simp
    moreover have "parse_fields record_field (with_report report n p) fs = Some (Inr fs)"
      using swap r stop by (subst parse_fields.simps) (simp add: report_swap_def)
    ultimately show ?thesis using 1(3) by simp
  next
    case item
    let ?x = "(saved_globals p1, hp_usage_item p1)"
    let ?p2 = "p1\<lparr>hp_have_report_usage_ready := False\<rparr>"
    note ok = ok [OF item]
    have "layout_fields p acc = layout_fields ?p2 (acc @ [?x])"
      using r item by (subst layout_fields.simps) simp
    then have lay: "layout_fields ?p2 (acc @ [?x]) = Some (Inr L)" using 1(3) by simp
    have idle2: "idle ?p2" and less: "(hp_usage_iterator ?p2, hp_usage_iterator p) \<in> usage_measure"
      and head: "read_byte report 0 = read_byte (hp_report ?p2) 0"
      using ok 1(4) by (simp_all add: idle_def parser_inv_def)
    from 1(1) [OF less idle2 lay head 1(5), of "fs @ [field_in report ?x]"] obtain M where
      M: "L = (acc @ [?x]) @ M" and parse: "(\<forall>x \<in> set M. readable_item n (snd x)) \<longrightarrow>
        parse_fields record_field (with_report report n ?p2) (fs @ [field_in report ?x])
          = Some (Inr ((fs @ [field_in report ?x]) @ map (field_in report) M))" by blast
    have "parse_fields record_field (with_report report n p) fs
        = Some (Inr (fs @ map (field_in report) (?x # M)))" if "\<forall>x \<in> set (?x # M). readable_item n (snd x)"
    proof -
      have "hid_parser_get_field (with_report report n p1)
        = Inr (us_usage_page (hp_usage_item p1), us_usage (hp_usage_item p1),
            item_value_in report (hp_usage_item p1), with_report report n ?p2)"
        using get_field_in [of "with_report report n p1"] that 1(5) by simp
      then have "parse_fields record_field (with_report report n p) fs
          = parse_fields record_field (with_report report n ?p2) (fs @ [field_in report ?x])"
        using swap r item
        by (subst parse_fields.simps) (simp add: report_swap_def record_field_def field_in_def)
      then show ?thesis using parse that by simp
    qed
    with M show ?thesis by (intro exI [of _ "?x # M"]) simp
  qed
qed

lemma report_fields_layout:
  assumes "report_layout ds (report ! 0) = Some (Inr L)" and "report \<noteq> []" and "n \<le> length report"
    and "\<forall>x \<in> set L. readable_item n (snd x)"
  shows "report_fields ds report n = Some (Inr (map (field_in report) L))"
proof -
  let ?p = "hid_parser_init ds HID_REPORT_TYPE_INPUT [report ! 0] 1"
  have "read_byte report 0 = read_byte (hp_report ?p) 0"
    using assms(2) by (simp add: hid_parser_init_def read_byte_def)
  with layout_parse [OF init_idle, of ds HID_REPORT_TYPE_INPUT "[report ! 0]" 1 "[]" L report n "[]"] assms
  show ?thesis
    by (auto simp: report_layout_def report_fields_def hid_parser_init_def with_report_def)
qed

section \<open>Descriptors that describe what they send\<close>

text \<open>
  A consistent item has a logical range that is exactly what its bits can hold, unsigned or
  two's complement, or is a hat with a sane range.
\<close>

definition consistent_item :: "(u16 \<Rightarrow> u16 \<Rightarrow> bool) \<Rightarrow> hid_globals \<times> usage_item \<Rightarrow> bool" where
  "consistent_item pedal x \<longleftrightarrow>
     (case x of (g, item) \<Rightarrow>
        let n = unat (us_size item); lo = hg_logical_minimum g; hi = hg_logical_maximum g in
        0 < n \<and> n \<le> 22 \<and> us_global_logical_minimum item = lo
        \<and> (lo = 0 \<and> hi = 2 ^ n - 1
           \<or> lo = - (2 ^ (n - 1)) \<and> hi = 2 ^ (n - 1) - 1
           \<or> is_hat (us_usage_page item) (us_usage item) \<and> sane_globals g)
        \<and> (pedal (us_usage_page item) (us_usage item) \<longrightarrow> lo = 0))"

definition consistent_layout ::
    "(u16 \<Rightarrow> u16 \<Rightarrow> bool) \<Rightarrow> nat \<Rightarrow> (hid_globals \<times> usage_item) list \<Rightarrow> bool" where
  "consistent_layout pedal n L \<longleftrightarrow> list_all (\<lambda>x. consistent_item pedal x \<and> readable_item n (snd x)) L"

lemma consistent_item_good:
  assumes "consistent_item pedal x"
  shows "good_field pedal (field_in report x)"
proof -
  obtain g item where x: "x = (g, item)" by (cases x) auto
  let ?n = "unat (us_size item)"
  let ?x = "field_bits report (unat (field_start item)) ?n"
  have n: "0 < ?n" "?n \<le> 22" and lo: "us_global_logical_minimum item = hg_logical_minimum g"
    and shape: "hg_logical_minimum g = 0 \<and> hg_logical_maximum g = 2 ^ ?n - 1
      \<or> hg_logical_minimum g = - (2 ^ (?n - 1)) \<and> hg_logical_maximum g = 2 ^ (?n - 1) - 1
      \<or> is_hat (us_usage_page item) (us_usage item) \<and> sane_globals g"
    and ped: "pedal (us_usage_page item) (us_usage item) \<longrightarrow> hg_logical_minimum g = 0"
    using assms by (simp_all add: consistent_item_def x Let_def)
  have pow: "(2::int) ^ ?n \<le> 2 ^ 22" using n by (intro power_increasing) simp_all
  have one: "(1::int) \<le> 2 ^ (?n - 1)" by simp
  have half: "(2::int) ^ ?n = 2 * 2 ^ (?n - 1)" using n(1) by (metis power_Suc Suc_diff_1)
  have bits: "0 \<le> ?x" "?x < 2 ^ ?n" by (rule field_bits_range)+
  have sane: "sane_globals g" and range: "\<not> is_hat (us_usage_page item) (us_usage item)
      \<Longrightarrow> in_logical_range g (item_value_in report item)"
    using shape pow one half bits
    by (auto simp: sane_globals_def in_i32_def in_logical_range_def item_value_in_def Let_def lo)
  then show ?thesis using ped by (auto simp: good_field_def field_in_def x)
qed

context usage_parser
begin

lemma layout_calibrated:
  assumes "report_layout ds (report ! 0) = Some (Inr L)" and "consistent_layout pedal n L"
    and "report \<noteq> []" and "n \<le> length report"
  shows "\<exists>d'. uni_hid_parse_input_report parser ds report n d = Some (Inr d') \<and> wf d' \<and> calibrated d'"
proof (rule report_calibrated)
  show "report_fields ds report n = Some (Inr (map (field_in report) L))"
    using assms by (intro report_fields_layout) (auto simp: consistent_layout_def list_all_iff)
  show "\<forall>f \<in> set (map (field_in report) L). good_field pedal f"
    using assms(2) consistent_item_good by (auto simp: consistent_layout_def list_all_iff)
qed

end

section \<open>Properties of whole reports\<close>

text \<open>A report that its descriptor does not describe: the fields cannot be taken out of it, or one of
  them has a logical range that the conversions cannot handle, a value outside of it, or, where a
  pedal is expected, a minimum other than zero.\<close>

definition misdescribed :: "(u16 \<Rightarrow> u16 \<Rightarrow> bool) \<Rightarrow> bytes \<Rightarrow> bytes \<Rightarrow> nat \<Rightarrow> bool" where
  "misdescribed pedal ds report n \<longleftrightarrow>
     (case report_fields ds report n of
        Some (Inr fs) \<Rightarrow> \<exists>f \<in> set fs. \<not> good_field pedal f
      | _ \<Rightarrow> True)"

lemma misdescribed_iff:
  "\<not> misdescribed pedal ds report n \<longleftrightarrow>
     (\<exists>fs. report_fields ds report n = Some (Inr fs) \<and> (\<forall>f \<in> set fs. good_field pedal f))"
  by (auto simp: misdescribed_def split: option.split sum.split)

context usage_parser
begin

lemma report_parsed_or_misdescribed:
  "\<exists>r. uni_hid_parse_input_report parser ds report n d = Some r
    \<and> (case r of Inl e \<Rightarrow> misdescribed pedal ds report n | Inr d' \<Rightarrow> wf d')"
proof (cases "misdescribed pedal ds report n")
  case True
  then show ?thesis using report_returns_wf [of ds report n d] by (auto split: sum.split)
next
  case False
  then show ?thesis using report_calibrated [of ds report n _ d] by (auto simp: misdescribed_iff)
qed

end

text \<open>One stick whose logical range is from 1 to 0.\<close>

definition empty_range_descriptor :: bytes where
  "empty_range_descriptor =
     [0x05, 0x01, 0x15, 0x01, 0x25, 0x00, 0x75, 0x08, 0x95, 0x01, 0x09, 0x30, 0x81, 0x02]"

text \<open>C33: Whatever descriptor and report a device presents, the six gamepad parsers return. What they
  deliver is a gamepad without undefined button, d-pad or misc bits; they can fail only if the
  descriptor does not describe the report. That can happen, since nothing checks the descriptor: a stick with an
  empty logical range divides by zero.\<close>

theorem gamepad_reports_well_formed:
  "list_all (\<lambda>(parse_usage, pedal).
      \<exists>r. uni_hid_parse_input_report (usage_report_parser init_gamepad_report parse_usage) ds report n ctl = Some r
        \<and> (case r of Inl e \<Rightarrow> misdescribed pedal ds report n | Inr ctl' \<Rightarrow> wf_gamepad ctl'))
    [(android_parse_usage, sim_pedal), (parse_usage_8bitdo, sim_pedal), (generic_parse_usage, generic_pedal),
     (nimbus_parse_usage, nimbus_pedal), (ouya_parse_usage, z_pedal), (smarttvremote_parse_usage, no_pedal)]
   \<and> uni_hid_parse_input_report (usage_report_parser init_gamepad_report android_parse_usage)
       empty_range_descriptor [0] 1 zero_controller = Some (Inl Division_by_zero)"
proof (rule conjI)
  show "uni_hid_parse_input_report (usage_report_parser init_gamepad_report android_parse_usage)
       empty_range_descriptor [0] 1 zero_controller = Some (Inl Division_by_zero)"
    by code_simp
qed (simp add: android.report_parsed_or_misdescribed bitdo8.report_parsed_or_misdescribed
    generic.report_parsed_or_misdescribed nimbus.report_parsed_or_misdescribed
    ouya.report_parsed_or_misdescribed smarttv.report_parsed_or_misdescribed)

text \<open>C34: If the layout of a descriptor is consistent, then every report with that id, of at
  least the described length, is parsed by the Xbox parser without undefined behaviour into a
  gamepad whose sticks lie in -512..511 and whose pedals lie in 0..1023, in every firmware
  revision.\<close>

theorem xbox_reports_calibrated:
  assumes "report_layout ds (report ! 0) = Some (Inr L)" and "consistent_layout xbox_pedal n L"
    and "report \<noteq> []" and "n \<le> length report"
  shows "\<exists>s'. uni_hid_parse_input_report (usage_report_parser xboxone_init_report xboxone_parse_usage)
      ds report n s = Some (Inr s') \<and> wf_gamepad (fst s') \<and> calibrated_gamepad 511 (fst s')"
  by (rule xbox.layout_calibrated [OF assms])

text \<open>Report 1 with two 16-bit sticks, a 10-bit accelerator with padding, and four buttons.\<close>

definition example_descriptor :: bytes where
  "example_descriptor =
     [0x85, 0x01, 0x05, 0x01, 0x15, 0x00, 0x27, 0xff, 0xff, 0x00, 0x00, 0x75, 0x10, 0x95, 0x02,
      0x09, 0x30, 0x09, 0x31, 0x81, 0x02,
      0x05, 0x02, 0x26, 0xff, 0x03, 0x75, 0x0a, 0x95, 0x01, 0x09, 0xc4, 0x81, 0x02,
      0x75, 0x06, 0x81, 0x03,
      0x05, 0x09, 0x25, 0x01, 0x75, 0x01, 0x95, 0x04, 0x19, 0x01, 0x29, 0x04, 0x81, 0x02]"

lemma example_layout:
  "map_option (mapR (consistent_layout xbox_pedal 8)) (report_layout example_descriptor 1) = Some (Inr True)"
  by code_simp

theorem xbox_reports_calibrated_witness:
  "\<exists>s'. uni_hid_parse_input_report (usage_report_parser xboxone_init_report xboxone_parse_usage)
      example_descriptor [1, 0, 0x80, 0xff, 0xff, 0xff, 0x03, 0x05] 8
      (zero_controller, XBOXONE_FIRMWARE_V5) = Some (Inr s') \<and> calibrated_gamepad 511 (fst s')"
proof -
  obtain L where L: "report_layout example_descriptor 1 = Some (Inr L)" "consistent_layout xbox_pedal 8 L"
    using example_layout by (auto simp: mapR_Inr_iff)
  show ?thesis
    using xbox_reports_calibrated [of example_descriptor "[1, 0, 0x80, 0xff, 0xff, 0xff, 0x03, 0x05]" L 8
        "(zero_controller, XBOXONE_FIRMWARE_V5)"] L by auto
qed

end
