(* ===== verification/Rumble.thy ===== *)
theory Rumble
  imports Usage_Parsers
begin

text \<open>
  The force feedback of \<^verbatim>\<open>uni_hid_parser_xboxone.c\<close> and \<^verbatim>\<open>uni_hid_parser_stadia.c\<close>: a state
  machine with two one-shot timers, one that delays the start and one that ends the
  rumble. A timer is \<open>Some ms\<close> while it is registered with the run loop; registering it
  again is the assertion in \<^verbatim>\<open>btstack_run_loop_base_add_timer\<close>. The callbacks take the device
  from the context of the timer, which is null until it is set. The reports handed to the
  Bluetooth stack are recorded in the order they are sent. How the stack answers a
  write is a parameter of every event.
\<close>

datatype rumble_state = STATE_RUMBLE_DISABLED | STATE_RUMBLE_DELAYED | STATE_RUMBLE_IN_PROGRESS

datatype write_status = ERROR_CODE_SUCCESS | ERROR_CODE_COMMAND_DISALLOWED | ERROR_CODE_OTHER

datatype rumble_report = Ble_write bytes | Intr_report bytes

definition BLE_RETRY_MS :: u16 where
  "BLE_RETRY_MS = 50"

definition add_timer :: "u16 \<Rightarrow> u16 option \<Rightarrow> u16 option cres" where
  "add_timer ms timer = (if timer \<noteq> None then Inl Assertion_failed else Inr (Some ms))"

section \<open>Xbox One\<close>

record xbox_rumble =
  xr_version :: xboxone_firmware
  xr_state :: rumble_state
  xr_timer_duration :: "u16 option"
  xr_timer_delayed_start :: "u16 option"
  xr_duration_context :: bool
  xr_delayed_context :: bool
  xr_duration_ms :: u16
  xr_trigger_left :: u8
  xr_trigger_right :: u8
  xr_weak_magnitude :: u8
  xr_strong_magnitude :: u8
  xr_reports :: "rumble_report list"

definition XBOXONE_FF_WEAK :: u8 where "XBOXONE_FF_WEAK = BIT 0"
definition XBOXONE_FF_STRONG :: u8 where "XBOXONE_FF_STRONG = BIT 1"
definition XBOXONE_FF_TRIGGER_RIGHT :: u8 where "XBOXONE_FF_TRIGGER_RIGHT = BIT 2"
definition XBOXONE_FF_TRIGGER_LEFT :: u8 where "XBOXONE_FF_TRIGGER_LEFT = BIT 3"

text \<open>\<^verbatim>\<open>((uint16_t)(m * 100)) / UINT8_MAX\<close>\<close>

definition scale_magnitude :: "u8 \<Rightarrow> u8" where
  "scale_magnitude m = word_of_nat (unat (word_of_nat (unat m * 100) :: u16) div 255)"

definition ff_report :: "u8 \<Rightarrow> u8 \<Rightarrow> u8 \<Rightarrow> u8 \<Rightarrow> u8 \<Rightarrow> u8 \<Rightarrow> u8 \<Rightarrow> bytes" where
  "ff_report actuators left right strong weak duration loops =
     [0xa2, 0x03, actuators, left, right, strong, weak, duration, 0, loops]"

definition actuators_mask :: "u8 \<Rightarrow> u8 \<Rightarrow> u8 \<Rightarrow> u8 \<Rightarrow> u8" where
  "actuators_mask left right weak strong =
     (if left \<noteq> 0 then XBOXONE_FF_TRIGGER_LEFT else 0)
     OR (if right \<noteq> 0 then XBOXONE_FF_TRIGGER_RIGHT else 0)
     OR (if weak \<noteq> 0 then XBOXONE_FF_WEAK else 0)
     OR (if strong \<noteq> 0 then XBOXONE_FF_STRONG else 0)"

datatype xboxone_retry_command = XBOXONE_RETRY_CMD_RUMBLE_ON | XBOXONE_RETRY_CMD_RUMBLE_OFF

text \<open>Whatever is retried, it is the context of the delayed start that is set.\<close>

definition xboxone_retry_cmd :: "xboxone_retry_command \<Rightarrow> xbox_rumble \<Rightarrow> xbox_rumble cres" where
  "xboxone_retry_cmd cmd s =
     (let s1 = s\<lparr>xr_delayed_context := True\<rparr> in
      case cmd of
        XBOXONE_RETRY_CMD_RUMBLE_ON \<Rightarrow>
          mapR (\<lambda>t. s1\<lparr>xr_state := STATE_RUMBLE_DELAYED, xr_timer_delayed_start := t\<rparr>)
            (add_timer BLE_RETRY_MS (xr_timer_delayed_start s1))
      | XBOXONE_RETRY_CMD_RUMBLE_OFF \<Rightarrow>
          mapR (\<lambda>t. s1\<lparr>xr_state := STATE_RUMBLE_IN_PROGRESS, xr_timer_duration := t\<rparr>)
            (add_timer BLE_RETRY_MS (xr_timer_duration s1)))"

definition xboxone_stop_rumble_now :: "write_status \<Rightarrow> xbox_rumble \<Rightarrow> xbox_rumble cres" where
  "xboxone_stop_rumble_now status s =
     (if xr_state s = STATE_RUMBLE_DISABLED then Inl Assertion_failed
      else
        let s1 = s\<lparr>xr_state := STATE_RUMBLE_DISABLED\<rparr>;
            ff = ff_report (XBOXONE_FF_TRIGGER_LEFT OR XBOXONE_FF_TRIGGER_RIGHT OR XBOXONE_FF_WEAK
                   OR XBOXONE_FF_STRONG) 0 0 0 0 0 0
        in if xr_version s = XBOXONE_FIRMWARE_V5 then
             let s2 = s1\<lparr>xr_reports := xr_reports s1 @ [Ble_write (drop 2 ff)]\<rparr>
             in if status = ERROR_CODE_COMMAND_DISALLOWED
                then xboxone_retry_cmd XBOXONE_RETRY_CMD_RUMBLE_OFF s2
                else Inr s2
           else Inr (s1\<lparr>xr_reports := xr_reports s1 @ [Intr_report ff]\<rparr>))"

definition arm_duration :: "u16 \<Rightarrow> xbox_rumble \<Rightarrow> xbox_rumble cres" where
  "arm_duration duration_ms s =
     mapR (\<lambda>t. s\<lparr>xr_duration_context := True, xr_state := STATE_RUMBLE_IN_PROGRESS, xr_timer_duration := t\<rparr>)
       (add_timer duration_ms (xr_timer_duration s))"

definition xboxone_play_quad_rumble_now ::
    "write_status \<Rightarrow> u16 \<Rightarrow> u8 \<Rightarrow> u8 \<Rightarrow> u8 \<Rightarrow> u8 \<Rightarrow> xbox_rumble \<Rightarrow> xbox_rumble cres" where
  "xboxone_play_quad_rumble_now status duration_ms left right weak strong s =
     (if duration_ms = 0 then
        (if xr_state s \<noteq> STATE_RUMBLE_DISABLED then xboxone_stop_rumble_now status s else Inr s)
      else
        let ff = ff_report (actuators_mask left right weak strong) (scale_magnitude left)
                   (scale_magnitude right) (scale_magnitude strong) (scale_magnitude weak) 0xff 25
        in if xr_version s = XBOXONE_FIRMWARE_V5 then
             let s1 = s\<lparr>xr_reports := xr_reports s @ [Ble_write (drop 2 ff)]\<rparr>
             in (case status of
                   ERROR_CODE_COMMAND_DISALLOWED \<Rightarrow> xboxone_retry_cmd XBOXONE_RETRY_CMD_RUMBLE_ON s1
                 | ERROR_CODE_OTHER \<Rightarrow> Inr s1
                 | ERROR_CODE_SUCCESS \<Rightarrow> arm_duration duration_ms s1)
           else arm_duration duration_ms (s\<lparr>xr_reports := xr_reports s @ [Intr_report ff]\<rparr>))"

definition xboxone_play_quad_rumble ::
    "write_status \<Rightarrow> u16 \<Rightarrow> u16 \<Rightarrow> u8 \<Rightarrow> u8 \<Rightarrow> u8 \<Rightarrow> u8 \<Rightarrow> xbox_rumble \<Rightarrow> xbox_rumble cres" where
  "xboxone_play_quad_rumble status start_delay_ms duration_ms left right weak strong s =
     (let s1 = (case xr_state s of
                  STATE_RUMBLE_DELAYED \<Rightarrow> s\<lparr>xr_timer_delayed_start := None\<rparr>
                | STATE_RUMBLE_IN_PROGRESS \<Rightarrow> s\<lparr>xr_timer_duration := None\<rparr>
                | STATE_RUMBLE_DISABLED \<Rightarrow> s)
      in if start_delay_ms = 0
         then xboxone_play_quad_rumble_now status duration_ms left right weak strong s1
         else
           let s2 = s1\<lparr>xr_delayed_context := True, xr_state := STATE_RUMBLE_DELAYED, xr_duration_ms := duration_ms,
                       xr_trigger_left := left, xr_trigger_right := right,
                       xr_strong_magnitude := strong, xr_weak_magnitude := weak\<rparr>
           in mapR (\<lambda>t. s2\<lparr>xr_timer_delayed_start := t\<rparr>)
                (add_timer start_delay_ms (xr_timer_delayed_start s2)))"

definition uni_hid_parser_xboxone_play_dual_rumble ::
    "write_status \<Rightarrow> u16 \<Rightarrow> u16 \<Rightarrow> u8 \<Rightarrow> u8 \<Rightarrow> xbox_rumble \<Rightarrow> xbox_rumble cres" where
  "uni_hid_parser_xboxone_play_dual_rumble status start_delay_ms duration_ms weak strong s =
     xboxone_play_quad_rumble status start_delay_ms duration_ms 0 0 weak strong s"

text \<open>The callbacks: the run loop has taken the timer off its list before it calls them.\<close>

definition on_xboxone_set_rumble_on :: "write_status \<Rightarrow> xbox_rumble \<Rightarrow> xbox_rumble cres" where
  "on_xboxone_set_rumble_on status s =
     (if \<not> xr_delayed_context s then Inl Null_dereference
      else xboxone_play_quad_rumble_now status (xr_duration_ms s) (xr_trigger_left s) (xr_trigger_right s)
             (xr_weak_magnitude s) (xr_strong_magnitude s) s)"

definition on_xboxone_set_rumble_off :: "write_status \<Rightarrow> xbox_rumble \<Rightarrow> xbox_rumble cres" where
  "on_xboxone_set_rumble_off status s =
     (if \<not> xr_duration_context s then Inl Null_dereference else xboxone_stop_rumble_now status s)"

datatype xbox_event =
    Xbox_play write_status u16 u16 u8 u8 u8 u8
  | Xbox_delayed_timer write_status
  | Xbox_duration_timer write_status
  | Xbox_version xboxone_firmware

text \<open>One event. A timer that is not registered does not fire.\<close>

definition xbox_step :: "xbox_event \<Rightarrow> xbox_rumble \<Rightarrow> xbox_rumble cres" where
  "xbox_step ev s = (case ev of
     Xbox_play status delay duration left right weak strong \<Rightarrow>
       xboxone_play_quad_rumble status delay duration left right weak strong s
   | Xbox_delayed_timer status \<Rightarrow>
       if xr_timer_delayed_start s = None then Inr s
       else on_xboxone_set_rumble_on status (s\<lparr>xr_timer_delayed_start := None\<rparr>)
   | Xbox_duration_timer status \<Rightarrow>
       if xr_timer_duration s = None then Inr s
       else on_xboxone_set_rumble_off status (s\<lparr>xr_timer_duration := None\<rparr>)
   | Xbox_version ver \<Rightarrow> Inr (s\<lparr>xr_version := ver\<rparr>))"

definition zero_xbox_rumble :: xbox_rumble where
  "zero_xbox_rumble =
     \<lparr>xr_version = XBOXONE_FIRMWARE_V3_1, xr_state = STATE_RUMBLE_DISABLED,
      xr_timer_duration = None, xr_timer_delayed_start = None, xr_duration_context = False,
      xr_delayed_context = False, xr_duration_ms = 0, xr_trigger_left = 0, xr_trigger_right = 0, xr_weak_magnitude = 0, xr_strong_magnitude = 0,
      xr_reports = []\<rparr>"

text \<open>A registered timer belongs to the state the machine is in, and a delayed start knows its device.\<close>

definition xbox_rumble_inv :: "xbox_rumble \<Rightarrow> bool" where
  "xbox_rumble_inv s \<longleftrightarrow>
     (xr_timer_delayed_start s \<noteq> None \<longrightarrow> xr_state s = STATE_RUMBLE_DELAYED \<and> xr_delayed_context s)
     \<and> (xr_timer_duration s \<noteq> None \<longrightarrow> xr_state s = STATE_RUMBLE_IN_PROGRESS)"

text \<open>The one way to fail: the end of a rumble is due, and its timer never got a context.\<close>

definition xbox_fails :: "xbox_rumble \<Rightarrow> xbox_event \<Rightarrow> c_error \<Rightarrow> bool" where
  "xbox_fails s ev e \<longleftrightarrow> (case ev of
     Xbox_duration_timer status \<Rightarrow>
       e = Null_dereference \<and> xr_timer_duration s \<noteq> None \<and> \<not> xr_duration_context s
   | _ \<Rightarrow> False)"

lemmas xbox_rumble_defs = xbox_step_def xboxone_play_quad_rumble_def xboxone_play_quad_rumble_now_def
  xboxone_stop_rumble_now_def xboxone_retry_cmd_def on_xboxone_set_rumble_on_def
  on_xboxone_set_rumble_off_def arm_duration_def add_timer_def Let_def

lemma xbox_step_result:
  assumes "xbox_rumble_inv s"
  shows "case xbox_step ev s of Inl e \<Rightarrow> xbox_fails s ev e | Inr s' \<Rightarrow> xbox_rumble_inv s'"
  using assms
  by (cases ev; cases "xr_state s")
    (auto simp: xbox_rumble_inv_def xbox_fails_def xbox_rumble_defs split: write_status.splits)

interpretation xbox_rumble: fallible_machine xbox_step xbox_rumble_inv xbox_fails
  by unfold_locales (rule xbox_step_result)


section \<open>Stadia\<close>

record stadia_rumble =
  sr_state :: rumble_state
  sr_timer_duration :: "u16 option"
  sr_timer_delayed_start :: "u16 option"
  sr_weak_magnitude :: u16
  sr_strong_magnitude :: u16
  sr_duration_ms :: u16
  sr_reports :: "bytes list"

text \<open>The packed report: both 16-bit magnitudes, little endian, strong first.\<close>

definition stadia_ff_report :: "u16 \<Rightarrow> u16 \<Rightarrow> bytes" where
  "stadia_ff_report strong weak =
     [ucast strong, ucast (drop_bit 8 strong), ucast weak, ucast (drop_bit 8 weak)]"

definition zero_stadia_rumble :: stadia_rumble where
  "zero_stadia_rumble =
     \<lparr>sr_state = STATE_RUMBLE_DISABLED, sr_timer_duration = None, sr_timer_delayed_start = None,
      sr_weak_magnitude = 0, sr_strong_magnitude = 0, sr_duration_ms = 0, sr_reports = []\<rparr>"

definition stadia_stop_rumble_now :: "write_status \<Rightarrow> stadia_rumble \<Rightarrow> stadia_rumble cres" where
  "stadia_stop_rumble_now status s =
     (if sr_state s = STATE_RUMBLE_DISABLED then Inl Assertion_failed
      else
        let s1 = s\<lparr>sr_state := STATE_RUMBLE_DISABLED,
                   sr_reports := sr_reports s @ [stadia_ff_report 0 0]\<rparr>
        in if status = ERROR_CODE_COMMAND_DISALLOWED
           then mapR (\<lambda>t. s1\<lparr>sr_state := STATE_RUMBLE_IN_PROGRESS, sr_timer_duration := t\<rparr>)
                  (add_timer BLE_RETRY_MS (sr_timer_duration s1))
           else Inr s1)"

definition stadia_play_dual_rumble_now ::
    "write_status \<Rightarrow> u16 \<Rightarrow> u8 \<Rightarrow> u8 \<Rightarrow> stadia_rumble \<Rightarrow> stadia_rumble cres" where
  "stadia_play_dual_rumble_now status duration_ms weak strong s =
     (if duration_ms = 0 then
        (if sr_state s \<noteq> STATE_RUMBLE_DISABLED then stadia_stop_rumble_now status s else Inr s)
      else
        let s1 = s\<lparr>sr_reports := sr_reports s
                     @ [stadia_ff_report (push_bit 8 (ucast strong)) (push_bit 8 (ucast weak))]\<rparr>
        in (case status of
              ERROR_CODE_COMMAND_DISALLOWED \<Rightarrow>
                mapR (\<lambda>t. s1\<lparr>sr_state := STATE_RUMBLE_DELAYED, sr_timer_delayed_start := t\<rparr>)
                  (add_timer BLE_RETRY_MS (sr_timer_delayed_start s1))
            | ERROR_CODE_OTHER \<Rightarrow> Inr s1
            | ERROR_CODE_SUCCESS \<Rightarrow>
                mapR (\<lambda>t. s1\<lparr>sr_state := STATE_RUMBLE_IN_PROGRESS, sr_timer_duration := t\<rparr>)
                  (add_timer duration_ms (sr_timer_duration s1))))"

definition uni_hid_parser_stadia_play_dual_rumble ::
    "write_status \<Rightarrow> u16 \<Rightarrow> u16 \<Rightarrow> u8 \<Rightarrow> u8 \<Rightarrow> stadia_rumble \<Rightarrow> stadia_rumble cres" where
  "uni_hid_parser_stadia_play_dual_rumble status start_delay_ms duration_ms weak strong s =
     (let s1 = (case sr_state s of
                  STATE_RUMBLE_DELAYED \<Rightarrow> s\<lparr>sr_timer_delayed_start := None\<rparr>
                | STATE_RUMBLE_IN_PROGRESS \<Rightarrow> s\<lparr>sr_timer_duration := None\<rparr>
                | STATE_RUMBLE_DISABLED \<Rightarrow> s)
      in if start_delay_ms = 0 then stadia_play_dual_rumble_now status duration_ms weak strong s1
         else
           let s2 = s1\<lparr>sr_state := STATE_RUMBLE_DELAYED, sr_duration_ms := duration_ms,
                       sr_strong_magnitude := ucast strong, sr_weak_magnitude := ucast weak\<rparr>
           in mapR (\<lambda>t. s2\<lparr>sr_timer_delayed_start := t\<rparr>)
                (add_timer start_delay_ms (sr_timer_delayed_start s2)))"

definition on_stadia_set_rumble_on :: "write_status \<Rightarrow> stadia_rumble \<Rightarrow> stadia_rumble cres" where
  "on_stadia_set_rumble_on status s =
     stadia_play_dual_rumble_now status (sr_duration_ms s) (ucast (sr_weak_magnitude s))
       (ucast (sr_strong_magnitude s)) s"

definition on_stadia_set_rumble_off :: "write_status \<Rightarrow> stadia_rumble \<Rightarrow> stadia_rumble cres" where
  "on_stadia_set_rumble_off status s = stadia_stop_rumble_now status s"

text \<open>\<^verbatim>\<open>setup\<close> clears the instance; it runs once, before any other event.\<close>

definition uni_hid_parser_stadia_setup :: "stadia_rumble \<Rightarrow> stadia_rumble" where
  "uni_hid_parser_stadia_setup s = zero_stadia_rumble\<lparr>sr_reports := sr_reports s\<rparr>"

datatype stadia_event =
    Stadia_play write_status u16 u16 u8 u8
  | Stadia_delayed_timer write_status
  | Stadia_duration_timer write_status

definition stadia_step :: "stadia_event \<Rightarrow> stadia_rumble \<Rightarrow> stadia_rumble cres" where
  "stadia_step ev s = (case ev of
     Stadia_play status delay duration weak strong \<Rightarrow>
       uni_hid_parser_stadia_play_dual_rumble status delay duration weak strong s
   | Stadia_delayed_timer status \<Rightarrow>
       if sr_timer_delayed_start s = None then Inr s
       else on_stadia_set_rumble_on status (s\<lparr>sr_timer_delayed_start := None\<rparr>)
   | Stadia_duration_timer status \<Rightarrow>
       if sr_timer_duration s = None then Inr s
       else on_stadia_set_rumble_off status (s\<lparr>sr_timer_duration := None\<rparr>))"

definition stadia_rumble_inv :: "stadia_rumble \<Rightarrow> bool" where
  "stadia_rumble_inv s \<longleftrightarrow>
     (sr_timer_delayed_start s \<noteq> None \<longrightarrow> sr_state s = STATE_RUMBLE_DELAYED)
     \<and> (sr_timer_duration s \<noteq> None \<longrightarrow> sr_state s = STATE_RUMBLE_IN_PROGRESS)"

lemmas stadia_rumble_defs = stadia_step_def uni_hid_parser_stadia_play_dual_rumble_def
  stadia_play_dual_rumble_now_def stadia_stop_rumble_now_def on_stadia_set_rumble_on_def
  on_stadia_set_rumble_off_def add_timer_def Let_def

lemma stadia_step_inv:
  assumes "stadia_rumble_inv s"
  shows "\<exists>s'. stadia_step ev s = Inr s' \<and> stadia_rumble_inv s'"
  using assms
  by (cases ev; cases "sr_state s")
    (auto simp: stadia_rumble_inv_def stadia_rumble_defs split: write_status.splits)

interpretation stadia_rumble: safe_machine stadia_step stadia_rumble_inv
  by unfold_locales (rule stadia_step_inv)

section \<open>Running motors are always stopped\<close>

text \<open>
  As long as the stack answers every write with success or asks for a retry, a machine that
  is not disabled has a timer registered, so some later event stops the motors.
\<close>

definition accepted :: "write_status \<Rightarrow> bool" where
  "accepted status \<longleftrightarrow> status \<noteq> ERROR_CODE_OTHER"

definition xbox_accepted :: "xbox_event \<Rightarrow> bool" where
  "xbox_accepted ev = (case ev of
     Xbox_play status _ _ _ _ _ _ \<Rightarrow> accepted status | Xbox_delayed_timer status \<Rightarrow> accepted status
   | Xbox_duration_timer status \<Rightarrow> accepted status | Xbox_version _ \<Rightarrow> True)"

definition xbox_timers :: "xbox_rumble \<Rightarrow> bool" where
  "xbox_timers s \<longleftrightarrow>
     (xr_timer_delayed_start s \<noteq> None \<longleftrightarrow> xr_state s = STATE_RUMBLE_DELAYED)
     \<and> (xr_timer_duration s \<noteq> None \<longleftrightarrow> xr_state s = STATE_RUMBLE_IN_PROGRESS)"

lemma xbox_step_timers:
  assumes "xbox_timers s" and "xbox_accepted ev" and "xbox_step ev s = Inr s'"
  shows "xbox_timers s'"
  using assms
  by (cases ev; cases "xr_state s")
    (auto simp: xbox_timers_def xbox_rumble_defs xbox_accepted_def accepted_def mapR_Inr_iff
      split: write_status.splits if_splits)

lemma xbox_run_timers:
  assumes "xbox_timers s" and "list_all xbox_accepted evs" and "run_steps xbox_step evs s = Inr s'"
  shows "xbox_timers s'"
  using assms
proof (induction evs arbitrary: s)
  case Nil
  then show ?case by simp
next
  case (Cons ev evs)
  then obtain s1 where "xbox_step ev s = Inr s1" "run_steps xbox_step evs s1 = Inr s'"
    by (auto simp: bindR_Inr_iff)
  with Cons.IH [of s1] Cons.prems xbox_step_timers [of s ev s1] show ?case by simp
qed

text \<open>The magnitudes of every report.\<close>

lemma scale_magnitude_le: "unat (scale_magnitude m) \<le> 100"
proof -
  have "unat m < 2 ^ 8" using unat_less_power [of m] by simp
  then have m: "unat m \<le> 255" by simp
  have u16: "unat (word_of_nat (unat m * 100) :: u16) = unat m * 100"
    unfolding unat_of_nat using m by simp
  have "unat m * 100 div 255 \<le> 255 * 100 div 255" using m by (intro div_le_mono mult_le_mono1)
  then have le: "unat m * 100 div 255 \<le> 100" by simp
  have "scale_magnitude m = word_of_nat (unat m * 100 div 255)"
    by (simp only: scale_magnitude_def u16)
  then have "unat (scale_magnitude m) = unat m * 100 div 255 mod 2 ^ LENGTH(8)"
    by (simp only: unat_of_nat)
  also have "\<dots> \<le> unat m * 100 div 255" by (rule mod_less_eq_dividend)
  finally show ?thesis using le by (rule le_trans)
qed

definition small_magnitudes :: "rumble_report \<Rightarrow> bool" where
  "small_magnitudes r \<longleftrightarrow>
     (case r of
        Ble_write bs \<Rightarrow> length bs = 8 \<and> list_all (\<lambda>b. unat b \<le> 100) (take 4 (drop 1 bs))
      | Intr_report bs \<Rightarrow> length bs = 10 \<and> list_all (\<lambda>b. unat b \<le> 100) (take 4 (drop 3 bs)))"

lemma ff_report_small:
  assumes "unat a \<le> 100" "unat b \<le> 100" "unat c \<le> 100" "unat d \<le> 100"
  shows "small_magnitudes (Ble_write (drop 2 (ff_report m a b c d x y)))"
    and "small_magnitudes (Intr_report (ff_report m a b c d x y))"
  using assms by (simp_all add: small_magnitudes_def ff_report_def)

lemma xbox_step_small:
  assumes "list_all small_magnitudes (xr_reports s)" and "xbox_step ev s = Inr s'"
  shows "list_all small_magnitudes (xr_reports s')"
  using assms
  by (cases ev; cases "xr_state s")
    (auto simp: xbox_rumble_defs ff_report_small scale_magnitude_le bindR_Inr_iff mapR_Inr_iff
      split: write_status.splits if_splits)

lemma xbox_run_small:
  assumes "list_all small_magnitudes (xr_reports s)" and "run_steps xbox_step evs s = Inr s'"
  shows "list_all small_magnitudes (xr_reports s')"
  using assms
proof (induction evs arbitrary: s)
  case Nil
  then show ?case by simp
next
  case (Cons ev evs)
  then obtain s1 where "xbox_step ev s = Inr s1" "run_steps xbox_step evs s1 = Inr s'"
    by (auto simp: bindR_Inr_iff)
  with Cons.IH [of s1] Cons.prems(1) xbox_step_small show ?case by blast
qed

section \<open>Properties\<close>


text \<open>The Stadia driver sets the context of every timer it registers; after its setup it cannot fail.\<close>

theorem stadia_rumble_never_asserts:
  "\<exists>s'. run_steps stadia_step evs (uni_hid_parser_stadia_setup s) = Inr s' \<and> stadia_rumble_inv s'"
  by (rule stadia_rumble.run_safe)
    (simp add: stadia_rumble_inv_def uni_hid_parser_stadia_setup_def zero_stadia_rumble_def)

text \<open>As long as the stack answers every Xbox rumble write with success or a request to
  retry, the driver is disabled or has exactly the timer of its state registered: a motor that
  was started is always due to be stopped.\<close>

theorem xbox_rumble_always_stops:
  assumes "list_all xbox_accepted evs" and "run_steps xbox_step evs zero_xbox_rumble = Inr s'"
  shows "(xr_state s' = STATE_RUMBLE_DELAYED \<longleftrightarrow> xr_timer_delayed_start s' \<noteq> None)
    \<and> (xr_state s' = STATE_RUMBLE_IN_PROGRESS \<longleftrightarrow> xr_timer_duration s' \<noteq> None)"
proof -
  have "xbox_timers zero_xbox_rumble" by (simp add: xbox_timers_def zero_xbox_rumble_def)
  from xbox_run_timers [OF this assms] show ?thesis by (auto simp: xbox_timers_def)
qed

text \<open>Every report the Xbox driver sends has its four magnitudes in the range 0..100 of the
  controller's descriptor, in both transports.\<close>

theorem xbox_magnitudes_in_range:
  "run_steps xbox_step evs zero_xbox_rumble = Inr s' \<Longrightarrow> list_all small_magnitudes (xr_reports s')"
  using xbox_run_small [of zero_xbox_rumble evs s'] by (simp add: zero_xbox_rumble_def)

text \<open>
  A request without delay that the stack asks to retry is retried with the parameters of the
  last delayed request, not its own: here the retry of the first request stops the motors.
\<close>

lemma xbox_retry_forgets_request:
  "mapR xr_reports (run_steps xbox_step
      [Xbox_version XBOXONE_FIRMWARE_V5,
       Xbox_play ERROR_CODE_COMMAND_DISALLOWED 0 1000 0 0 255 255,
       Xbox_delayed_timer ERROR_CODE_SUCCESS] zero_xbox_rumble)
    = Inr [Ble_write [0x03, 0, 0, 100, 100, 0xff, 0, 25], Ble_write [0x0f, 0, 0, 0, 0, 0, 0, 0]]"
  by (simp add: xbox_rumble_defs zero_xbox_rumble_def actuators_mask_def scale_magnitude_def ff_report_def
      XBOXONE_FF_WEAK_def XBOXONE_FF_STRONG_def XBOXONE_FF_TRIGGER_LEFT_def XBOXONE_FF_TRIGGER_RIGHT_def
      BIT_def)

end
