(* ===== verification/Controller_Type.thy ===== *)
theory Controller_Type
  imports Prelude
begin

text \<open>
  \<^verbatim>\<open>components/bluepad32/controller/uni_controller_type.c\<close> and the table it includes,
  \<^verbatim>\<open>include/controller/uni_controller_list.h\<close>: which model of controller a vendor and
  product id stand for. The table is translated entry by entry, in the order of the file,
  because the lookup takes the first match.
\<close>

datatype uni_controller_type =
    CONTROLLER_TYPE_None
  | CONTROLLER_TYPE_Unknown
  | CONTROLLER_TYPE_UnknownSteamController
  | CONTROLLER_TYPE_SteamController
  | CONTROLLER_TYPE_SteamControllerV2
  | CONTROLLER_TYPE_SteamControllerNeptune
  | CONTROLLER_TYPE_UnknownNonSteamController
  | CONTROLLER_TYPE_XBox360Controller
  | CONTROLLER_TYPE_XBoxOneController
  | CONTROLLER_TYPE_PS3Controller
  | CONTROLLER_TYPE_PS4Controller
  | CONTROLLER_TYPE_WiiController
  | CONTROLLER_TYPE_AppleController
  | CONTROLLER_TYPE_AndroidController
  | CONTROLLER_TYPE_SwitchProController
  | CONTROLLER_TYPE_SwitchJoyConLeft
  | CONTROLLER_TYPE_SwitchJoyConRight
  | CONTROLLER_TYPE_SwitchJoyConPair
  | CONTROLLER_TYPE_SwitchInputOnlyController
  | CONTROLLER_TYPE_MobileTouch
  | CONTROLLER_TYPE_XInputSwitchController
  | CONTROLLER_TYPE_PS5Controller
  | CONTROLLER_TYPE_XInputPS4Controller
  | CONTROLLER_TYPE_iCadeController
  | CONTROLLER_TYPE_SmartTVRemoteController
  | CONTROLLER_TYPE_8BitdoController
  | CONTROLLER_TYPE_GenericController
  | CONTROLLER_TYPE_NimbusController
  | CONTROLLER_TYPE_OUYAController
  | CONTROLLER_TYPE_PSMoveController
  | CONTROLLER_TYPE_AtariJoystick
  | CONTROLLER_TYPE_LastController
  | CONTROLLER_TYPE_GenericKeyboard
  | CONTROLLER_TYPE_GenericMouse

text \<open>The values of the enumeration.\<close>

primrec controller_type_value :: "uni_controller_type \<Rightarrow> int" where
  "controller_type_value CONTROLLER_TYPE_None = - 1"
| "controller_type_value CONTROLLER_TYPE_Unknown = 0"
| "controller_type_value CONTROLLER_TYPE_UnknownSteamController = 1"
| "controller_type_value CONTROLLER_TYPE_SteamController = 2"
| "controller_type_value CONTROLLER_TYPE_SteamControllerV2 = 3"
| "controller_type_value CONTROLLER_TYPE_SteamControllerNeptune = 4"
| "controller_type_value CONTROLLER_TYPE_UnknownNonSteamController = 30"
| "controller_type_value CONTROLLER_TYPE_XBox360Controller = 31"
| "controller_type_value CONTROLLER_TYPE_XBoxOneController = 32"
| "controller_type_value CONTROLLER_TYPE_PS3Controller = 33"
| "controller_type_value CONTROLLER_TYPE_PS4Controller = 34"
| "controller_type_value CONTROLLER_TYPE_WiiController = 35"
| "controller_type_value CONTROLLER_TYPE_AppleController = 36"
| "controller_type_value CONTROLLER_TYPE_AndroidController = 37"
| "controller_type_value CONTROLLER_TYPE_SwitchProController = 38"
| "controller_type_value CONTROLLER_TYPE_SwitchJoyConLeft = 39"
| "controller_type_value CONTROLLER_TYPE_SwitchJoyConRight = 40"
| "controller_type_value CONTROLLER_TYPE_SwitchJoyConPair = 41"
| "controller_type_value CONTROLLER_TYPE_SwitchInputOnlyController = 42"
| "controller_type_value CONTROLLER_TYPE_MobileTouch = 43"
| "controller_type_value CONTROLLER_TYPE_XInputSwitchController = 44"
| "controller_type_value CONTROLLER_TYPE_PS5Controller = 45"
| "controller_type_value CONTROLLER_TYPE_XInputPS4Controller = 46"
| "controller_type_value CONTROLLER_TYPE_iCadeController = 50"
| "controller_type_value CONTROLLER_TYPE_SmartTVRemoteController = 51"
| "controller_type_value CONTROLLER_TYPE_8BitdoController = 52"
| "controller_type_value CONTROLLER_TYPE_GenericController = 53"
| "controller_type_value CONTROLLER_TYPE_NimbusController = 54"
| "controller_type_value CONTROLLER_TYPE_OUYAController = 55"
| "controller_type_value CONTROLLER_TYPE_PSMoveController = 56"
| "controller_type_value CONTROLLER_TYPE_AtariJoystick = 57"
| "controller_type_value CONTROLLER_TYPE_LastController = 58"
| "controller_type_value CONTROLLER_TYPE_GenericKeyboard = 400"
| "controller_type_value CONTROLLER_TYPE_GenericMouse = 800"

definition MAKE_CONTROLLER_ID :: "u16 \<Rightarrow> u16 \<Rightarrow> u32" where
  "MAKE_CONTROLLER_ID nVID nPID = push_bit 16 (ucast nVID) OR ucast nPID"

type_synonym uni_controller_description = "u32 \<times> uni_controller_type \<times> string option"

definition controllers_32_180 :: "uni_controller_description list" where
  "controllers_32_180 = [
    (MAKE_CONTROLLER_ID 0x0079 0x181a, CONTROLLER_TYPE_PS3Controller, None),
    (MAKE_CONTROLLER_ID 0x0079 0x1844, CONTROLLER_TYPE_PS3Controller, None),
    (MAKE_CONTROLLER_ID 0x044f 0xb315, CONTROLLER_TYPE_PS3Controller, None),
    (MAKE_CONTROLLER_ID 0x044f 0xd007, CONTROLLER_TYPE_PS3Controller, None),
    (MAKE_CONTROLLER_ID 0x046d 0xcad1, CONTROLLER_TYPE_PS3Controller, None),
    (MAKE_CONTROLLER_ID 0x054c 0x0268, CONTROLLER_TYPE_PS3Controller, None),
    (MAKE_CONTROLLER_ID 0x056e 0x200f, CONTROLLER_TYPE_PS3Controller, None),
    (MAKE_CONTROLLER_ID 0x056e 0x2013, CONTROLLER_TYPE_PS3Controller, None),
    (MAKE_CONTROLLER_ID 0x05b8 0x1004, CONTROLLER_TYPE_PS3Controller, None),
    (MAKE_CONTROLLER_ID 0x05b8 0x1006, CONTROLLER_TYPE_PS3Controller, None),
    (MAKE_CONTROLLER_ID 0x06a3 0xf622, CONTROLLER_TYPE_PS3Controller, None),
    (MAKE_CONTROLLER_ID 0x0738 0x3180, CONTROLLER_TYPE_PS3Controller, None),
    (MAKE_CONTROLLER_ID 0x0738 0x3250, CONTROLLER_TYPE_PS3Controller, None),
    (MAKE_CONTROLLER_ID 0x0738 0x3481, CONTROLLER_TYPE_PS3Controller, None),
    (MAKE_CONTROLLER_ID 0x0738 0x8180, CONTROLLER_TYPE_PS3Controller, None),
    (MAKE_CONTROLLER_ID 0x0738 0x8838, CONTROLLER_TYPE_PS3Controller, None),
    (MAKE_CONTROLLER_ID 0x0810 0x0001, CONTROLLER_TYPE_PS3Controller, None),
    (MAKE_CONTROLLER_ID 0x0810 0x0003, CONTROLLER_TYPE_PS3Controller, None),
    (MAKE_CONTROLLER_ID 0x0925 0x0005, CONTROLLER_TYPE_PS3Controller, None),
    (MAKE_CONTROLLER_ID 0x0925 0x8866, CONTROLLER_TYPE_PS3Controller, None),
    (MAKE_CONTROLLER_ID 0x0925 0x8888, CONTROLLER_TYPE_PS3Controller, None),
    (MAKE_CONTROLLER_ID 0x0e6f 0x0109, CONTROLLER_TYPE_PS3Controller, None),
    (MAKE_CONTROLLER_ID 0x0e6f 0x011e, CONTROLLER_TYPE_PS3Controller, None),
    (MAKE_CONTROLLER_ID 0x0e6f 0x0128, CONTROLLER_TYPE_PS3Controller, None),
    (MAKE_CONTROLLER_ID 0x0e6f 0x0214, CONTROLLER_TYPE_PS3Controller, None),
    (MAKE_CONTROLLER_ID 0x0e6f 0x1314, CONTROLLER_TYPE_PS3Controller, None),
    (MAKE_CONTROLLER_ID 0x0e6f 0x6302, CONTROLLER_TYPE_PS3Controller, None),
    (MAKE_CONTROLLER_ID 0x0e8f 0x0008, CONTROLLER_TYPE_PS3Controller, None),
    (MAKE_CONTROLLER_ID 0x0e8f 0x3075, CONTROLLER_TYPE_PS3Controller, None),
    (MAKE_CONTROLLER_ID 0x0e8f 0x310d, CONTROLLER_TYPE_PS3Controller, None),
    (MAKE_CONTROLLER_ID 0x0f0d 0x0009, CONTROLLER_TYPE_PS3Controller, None),
    (MAKE_CONTROLLER_ID 0x0f0d 0x004d, CONTROLLER_TYPE_PS3Controller, None),
    (MAKE_CONTROLLER_ID 0x0f0d 0x005f, CONTROLLER_TYPE_PS3Controller, None),
    (MAKE_CONTROLLER_ID 0x0f0d 0x006a, CONTROLLER_TYPE_PS3Controller, None),
    (MAKE_CONTROLLER_ID 0x0f0d 0x006e, CONTROLLER_TYPE_PS3Controller, None),
    (MAKE_CONTROLLER_ID 0x0f0d 0x0085, CONTROLLER_TYPE_PS3Controller, None),
    (MAKE_CONTROLLER_ID 0x0f0d 0x0086, CONTROLLER_TYPE_PS3Controller, None),
    (MAKE_CONTROLLER_ID 0x0f0d 0x0088, CONTROLLER_TYPE_PS3Controller, None),
    (MAKE_CONTROLLER_ID 0x0f30 0x1100, CONTROLLER_TYPE_PS3Controller, None),
    (MAKE_CONTROLLER_ID 0x11ff 0x3331, CONTROLLER_TYPE_PS3Controller, None),
    (MAKE_CONTROLLER_ID 0x1345 0x1000, CONTROLLER_TYPE_PS3Controller, None),
    (MAKE_CONTROLLER_ID 0x1345 0x6005, CONTROLLER_TYPE_PS3Controller, None),
    (MAKE_CONTROLLER_ID 0x146b 0x5500, CONTROLLER_TYPE_PS3Controller, None),
    (MAKE_CONTROLLER_ID 0x1a34 0x0836, CONTROLLER_TYPE_PS3Controller, None),
    (MAKE_CONTROLLER_ID 0x20bc 0x5500, CONTROLLER_TYPE_PS3Controller, None),
    (MAKE_CONTROLLER_ID 0x20d6 0x576d, CONTROLLER_TYPE_PS3Controller, None),
    (MAKE_CONTROLLER_ID 0x20d6 0xca6d, CONTROLLER_TYPE_PS3Controller, None),
    (MAKE_CONTROLLER_ID 0x2563 0x0523, CONTROLLER_TYPE_PS3Controller, None),
    (MAKE_CONTROLLER_ID 0x2563 0x0575, CONTROLLER_TYPE_PS3Controller, Some ''Retro-bit Controller''),
    (MAKE_CONTROLLER_ID 0x25f0 0x83c3, CONTROLLER_TYPE_PS3Controller, None),
    (MAKE_CONTROLLER_ID 0x25f0 0xc121, CONTROLLER_TYPE_PS3Controller, None),
    (MAKE_CONTROLLER_ID 0x2c22 0x2003, CONTROLLER_TYPE_PS3Controller, None),
    (MAKE_CONTROLLER_ID 0x2c22 0x2302, CONTROLLER_TYPE_PS3Controller, None),
    (MAKE_CONTROLLER_ID 0x2c22 0x2502, CONTROLLER_TYPE_PS3Controller, None),
    (MAKE_CONTROLLER_ID 0x8380 0x0003, CONTROLLER_TYPE_PS3Controller, None),
    (MAKE_CONTROLLER_ID 0x8888 0x0308, CONTROLLER_TYPE_PS3Controller, None),
    (MAKE_CONTROLLER_ID 0x0079 0x181b, CONTROLLER_TYPE_PS4Controller, None),
    (MAKE_CONTROLLER_ID 0x044f 0xd00e, CONTROLLER_TYPE_PS4Controller, None),
    (MAKE_CONTROLLER_ID 0x054c 0x05c4, CONTROLLER_TYPE_PS4Controller, None),
    (MAKE_CONTROLLER_ID 0x054c 0x05c5, CONTROLLER_TYPE_PS4Controller, None),
    (MAKE_CONTROLLER_ID 0x054c 0x09cc, CONTROLLER_TYPE_PS4Controller, None),
    (MAKE_CONTROLLER_ID 0x054c 0x0ba0, CONTROLLER_TYPE_PS4Controller, None),
    (MAKE_CONTROLLER_ID 0x0738 0x8250, CONTROLLER_TYPE_PS4Controller, None),
    (MAKE_CONTROLLER_ID 0x0738 0x8384, CONTROLLER_TYPE_PS4Controller, None),
    (MAKE_CONTROLLER_ID 0x0738 0x8480, CONTROLLER_TYPE_PS4Controller, None),
    (MAKE_CONTROLLER_ID 0x0738 0x8481, CONTROLLER_TYPE_PS4Controller, None),
    (MAKE_CONTROLLER_ID 0x0c12 0x0e10, CONTROLLER_TYPE_PS4Controller, None),
    (MAKE_CONTROLLER_ID 0x0c12 0x0e13, CONTROLLER_TYPE_PS4Controller, None),
    (MAKE_CONTROLLER_ID 0x0c12 0x0e15, CONTROLLER_TYPE_PS4Controller, None),
    (MAKE_CONTROLLER_ID 0x0c12 0x0e20, CONTROLLER_TYPE_PS4Controller, None),
    (MAKE_CONTROLLER_ID 0x0c12 0x0ef6, CONTROLLER_TYPE_PS4Controller, None),
    (MAKE_CONTROLLER_ID 0x0c12 0x1cf6, CONTROLLER_TYPE_PS4Controller, None),
    (MAKE_CONTROLLER_ID 0x0c12 0x1e10, CONTROLLER_TYPE_PS4Controller, None),
    (MAKE_CONTROLLER_ID 0x0e6f 0x0203, CONTROLLER_TYPE_PS4Controller, None),
    (MAKE_CONTROLLER_ID 0x0e6f 0x0207, CONTROLLER_TYPE_PS4Controller, None),
    (MAKE_CONTROLLER_ID 0x0e6f 0x020a, CONTROLLER_TYPE_PS4Controller, None),
    (MAKE_CONTROLLER_ID 0x0f0d 0x0055, CONTROLLER_TYPE_PS4Controller, None),
    (MAKE_CONTROLLER_ID 0x0f0d 0x005e, CONTROLLER_TYPE_PS4Controller, None),
    (MAKE_CONTROLLER_ID 0x0f0d 0x0066, CONTROLLER_TYPE_PS4Controller, None),
    (MAKE_CONTROLLER_ID 0x0f0d 0x0084, CONTROLLER_TYPE_PS4Controller, None),
    (MAKE_CONTROLLER_ID 0x0f0d 0x0087, CONTROLLER_TYPE_PS4Controller, None),
    (MAKE_CONTROLLER_ID 0x0f0d 0x008a, CONTROLLER_TYPE_PS4Controller, None),
    (MAKE_CONTROLLER_ID 0x0f0d 0x009c, CONTROLLER_TYPE_PS4Controller, None),
    (MAKE_CONTROLLER_ID 0x0f0d 0x00a0, CONTROLLER_TYPE_PS4Controller, None),
    (MAKE_CONTROLLER_ID 0x0f0d 0x00ed, CONTROLLER_TYPE_XInputPS4Controller, None),
    (MAKE_CONTROLLER_ID 0x0f0d 0x00ee, CONTROLLER_TYPE_PS4Controller, None),
    (MAKE_CONTROLLER_ID 0x0f0d 0x011c, CONTROLLER_TYPE_PS4Controller, None),
    (MAKE_CONTROLLER_ID 0x0f0d 0x0123, CONTROLLER_TYPE_PS4Controller, None),
    (MAKE_CONTROLLER_ID 0x0f0d 0x0162, CONTROLLER_TYPE_PS4Controller, None),
    (MAKE_CONTROLLER_ID 0x0f0d 0x0164, CONTROLLER_TYPE_XInputPS4Controller, None),
    (MAKE_CONTROLLER_ID 0x11c0 0x4001, CONTROLLER_TYPE_PS4Controller, None),
    (MAKE_CONTROLLER_ID 0x146b 0x0603, CONTROLLER_TYPE_XInputPS4Controller, None),
    (MAKE_CONTROLLER_ID 0x146b 0x0604, CONTROLLER_TYPE_XInputPS4Controller, None),
    (MAKE_CONTROLLER_ID 0x146b 0x0605, CONTROLLER_TYPE_XInputPS4Controller, None),
    (MAKE_CONTROLLER_ID 0x146b 0x0606, CONTROLLER_TYPE_XInputPS4Controller, None),
    (MAKE_CONTROLLER_ID 0x146b 0x0609, CONTROLLER_TYPE_XInputPS4Controller, None),
    (MAKE_CONTROLLER_ID 0x146b 0x0d01, CONTROLLER_TYPE_PS4Controller, None),
    (MAKE_CONTROLLER_ID 0x146b 0x0d02, CONTROLLER_TYPE_PS4Controller, None),
    (MAKE_CONTROLLER_ID 0x146b 0x0d06, CONTROLLER_TYPE_PS4Controller, None),
    (MAKE_CONTROLLER_ID 0x146b 0x0d08, CONTROLLER_TYPE_PS4Controller, None),
    (MAKE_CONTROLLER_ID 0x146b 0x0d09, CONTROLLER_TYPE_PS4Controller, None),
    (MAKE_CONTROLLER_ID 0x146b 0x0d10, CONTROLLER_TYPE_PS4Controller, None),
    (MAKE_CONTROLLER_ID 0x146b 0x0d10, CONTROLLER_TYPE_PS4Controller, None),
    (MAKE_CONTROLLER_ID 0x146b 0x0d13, CONTROLLER_TYPE_PS4Controller, None),
    (MAKE_CONTROLLER_ID 0x146b 0x1103, CONTROLLER_TYPE_PS4Controller, None),
    (MAKE_CONTROLLER_ID 0x1532 0x0401, CONTROLLER_TYPE_PS4Controller, None),
    (MAKE_CONTROLLER_ID 0x1532 0x1000, CONTROLLER_TYPE_PS4Controller, None),
    (MAKE_CONTROLLER_ID 0x1532 0x1004, CONTROLLER_TYPE_PS4Controller, None),
    (MAKE_CONTROLLER_ID 0x1532 0x1007, CONTROLLER_TYPE_PS4Controller, None),
    (MAKE_CONTROLLER_ID 0x1532 0x1008, CONTROLLER_TYPE_PS4Controller, None),
    (MAKE_CONTROLLER_ID 0x1532 0x1009, CONTROLLER_TYPE_PS4Controller, None),
    (MAKE_CONTROLLER_ID 0x1532 0x100a, CONTROLLER_TYPE_PS4Controller, None),
    (MAKE_CONTROLLER_ID 0x1532 0x1100, CONTROLLER_TYPE_PS4Controller, None),
    (MAKE_CONTROLLER_ID 0x20d6 0x792a, CONTROLLER_TYPE_PS4Controller, None),
    (MAKE_CONTROLLER_ID 0x2c22 0x2000, CONTROLLER_TYPE_PS4Controller, None),
    (MAKE_CONTROLLER_ID 0x2c22 0x2300, CONTROLLER_TYPE_PS4Controller, None),
    (MAKE_CONTROLLER_ID 0x2c22 0x2303, CONTROLLER_TYPE_XInputPS4Controller, None),
    (MAKE_CONTROLLER_ID 0x2c22 0x2500, CONTROLLER_TYPE_PS4Controller, None),
    (MAKE_CONTROLLER_ID 0x2c22 0x2503, CONTROLLER_TYPE_XInputPS4Controller, None),
    (MAKE_CONTROLLER_ID 0x3285 0x0d16, CONTROLLER_TYPE_PS4Controller, None),
    (MAKE_CONTROLLER_ID 0x3285 0x0d17, CONTROLLER_TYPE_PS4Controller, None),
    (MAKE_CONTROLLER_ID 0x7545 0x0104, CONTROLLER_TYPE_PS4Controller, None),
    (MAKE_CONTROLLER_ID 0x9886 0x0024, CONTROLLER_TYPE_XInputPS4Controller, None),
    (MAKE_CONTROLLER_ID 0x9886 0x0025, CONTROLLER_TYPE_PS4Controller, None),
    (MAKE_CONTROLLER_ID 0x054c 0x0ce6, CONTROLLER_TYPE_PS5Controller, None),
    (MAKE_CONTROLLER_ID 0x054c 0x0df2, CONTROLLER_TYPE_PS5Controller, None),
    (MAKE_CONTROLLER_ID 0x054c 0x0e5f, CONTROLLER_TYPE_PS5Controller, None),
    (MAKE_CONTROLLER_ID 0x0e6f 0x0209, CONTROLLER_TYPE_PS5Controller, None),
    (MAKE_CONTROLLER_ID 0x0f0d 0x0163, CONTROLLER_TYPE_PS5Controller, None),
    (MAKE_CONTROLLER_ID 0x0f0d 0x0184, CONTROLLER_TYPE_PS5Controller, None),
    (MAKE_CONTROLLER_ID 0x1532 0x100b, CONTROLLER_TYPE_PS5Controller, None),
    (MAKE_CONTROLLER_ID 0x1532 0x100c, CONTROLLER_TYPE_PS5Controller, None),
    (MAKE_CONTROLLER_ID 0x1532 0x1012, CONTROLLER_TYPE_PS5Controller, None),
    (MAKE_CONTROLLER_ID 0x3285 0x0d18, CONTROLLER_TYPE_PS5Controller, None),
    (MAKE_CONTROLLER_ID 0x3285 0x0d19, CONTROLLER_TYPE_PS5Controller, None),
    (MAKE_CONTROLLER_ID 0x358a 0x0104, CONTROLLER_TYPE_PS5Controller, None),
    (MAKE_CONTROLLER_ID 0x0079 0x0006, CONTROLLER_TYPE_UnknownNonSteamController, None),
    (MAKE_CONTROLLER_ID 0x0079 0x18d4, CONTROLLER_TYPE_XBox360Controller, None),
    (MAKE_CONTROLLER_ID 0x03eb 0xff02, CONTROLLER_TYPE_XBox360Controller, None),
    (MAKE_CONTROLLER_ID 0x044f 0xb326, CONTROLLER_TYPE_XBox360Controller, None),
    (MAKE_CONTROLLER_ID 0x045e 0x028e, CONTROLLER_TYPE_XBox360Controller, Some ''Xbox 360 Controller'')]"

definition controllers_181_330 :: "uni_controller_description list" where
  "controllers_181_330 = [
    (MAKE_CONTROLLER_ID 0x045e 0x028f, CONTROLLER_TYPE_XBox360Controller, Some ''Xbox 360 Controller''),
    (MAKE_CONTROLLER_ID 0x045e 0x0291, CONTROLLER_TYPE_XBox360Controller, Some ''Xbox 360 Wireless Controller''),
    (MAKE_CONTROLLER_ID 0x045e 0x02a0, CONTROLLER_TYPE_XBox360Controller, None),
    (MAKE_CONTROLLER_ID 0x045e 0x02a1, CONTROLLER_TYPE_XBox360Controller, Some ''Xbox 360 Wireless Controller''),
    (MAKE_CONTROLLER_ID 0x045e 0x02a9, CONTROLLER_TYPE_XBox360Controller, Some ''Xbox 360 Wireless Controller''),
    (MAKE_CONTROLLER_ID 0x045e 0x0719, CONTROLLER_TYPE_XBox360Controller, Some ''Xbox 360 Wireless Controller''),
    (MAKE_CONTROLLER_ID 0x046d 0xc21d, CONTROLLER_TYPE_XBox360Controller, None),
    (MAKE_CONTROLLER_ID 0x046d 0xc21e, CONTROLLER_TYPE_XBox360Controller, None),
    (MAKE_CONTROLLER_ID 0x046d 0xc21f, CONTROLLER_TYPE_XBox360Controller, None),
    (MAKE_CONTROLLER_ID 0x046d 0xc242, CONTROLLER_TYPE_XBox360Controller, None),
    (MAKE_CONTROLLER_ID 0x056e 0x2004, CONTROLLER_TYPE_XBox360Controller, None),
    (MAKE_CONTROLLER_ID 0x0738 0x4716, CONTROLLER_TYPE_XBox360Controller, None),
    (MAKE_CONTROLLER_ID 0x0738 0x4718, CONTROLLER_TYPE_XBox360Controller, None),
    (MAKE_CONTROLLER_ID 0x0738 0x4726, CONTROLLER_TYPE_XBox360Controller, None),
    (MAKE_CONTROLLER_ID 0x0738 0x4728, CONTROLLER_TYPE_XBox360Controller, None),
    (MAKE_CONTROLLER_ID 0x0738 0x4736, CONTROLLER_TYPE_XBox360Controller, None),
    (MAKE_CONTROLLER_ID 0x0738 0x4738, CONTROLLER_TYPE_XBox360Controller, None),
    (MAKE_CONTROLLER_ID 0x0738 0x4740, CONTROLLER_TYPE_XBox360Controller, None),
    (MAKE_CONTROLLER_ID 0x0738 0xb726, CONTROLLER_TYPE_XBox360Controller, None),
    (MAKE_CONTROLLER_ID 0x0738 0xbeef, CONTROLLER_TYPE_XBox360Controller, None),
    (MAKE_CONTROLLER_ID 0x0738 0xcb02, CONTROLLER_TYPE_XBox360Controller, None),
    (MAKE_CONTROLLER_ID 0x0738 0xcb03, CONTROLLER_TYPE_XBox360Controller, None),
    (MAKE_CONTROLLER_ID 0x0738 0xf738, CONTROLLER_TYPE_XBox360Controller, None),
    (MAKE_CONTROLLER_ID 0x0955 0x7210, CONTROLLER_TYPE_XBox360Controller, None),
    (MAKE_CONTROLLER_ID 0x0955 0xb400, CONTROLLER_TYPE_XBox360Controller, None),
    (MAKE_CONTROLLER_ID 0x0b05 0x1b4c, CONTROLLER_TYPE_XBox360Controller, None),
    (MAKE_CONTROLLER_ID 0x0e6f 0x0105, CONTROLLER_TYPE_XBox360Controller, None),
    (MAKE_CONTROLLER_ID 0x0e6f 0x0113, CONTROLLER_TYPE_XBox360Controller, Some ''PDP Xbox 360 Afterglow''),
    (MAKE_CONTROLLER_ID 0x0e6f 0x011f, CONTROLLER_TYPE_XBox360Controller, Some ''PDP Xbox 360 Rock Candy''),
    (MAKE_CONTROLLER_ID 0x0e6f 0x0125, CONTROLLER_TYPE_XBox360Controller, Some ''PDP INJUSTICE FightStick''),
    (MAKE_CONTROLLER_ID 0x0e6f 0x0127, CONTROLLER_TYPE_XBox360Controller, Some ''PDP INJUSTICE FightPad''),
    (MAKE_CONTROLLER_ID 0x0e6f 0x0131, CONTROLLER_TYPE_XBox360Controller, Some ''PDP EA Soccer Controller''),
    (MAKE_CONTROLLER_ID 0x0e6f 0x0133, CONTROLLER_TYPE_XBox360Controller, Some ''PDP Battlefield 4 Controller''),
    (MAKE_CONTROLLER_ID 0x0e6f 0x0143, CONTROLLER_TYPE_XBox360Controller, Some ''PDP MK X Fight Stick''),
    (MAKE_CONTROLLER_ID 0x0e6f 0x0147, CONTROLLER_TYPE_XBox360Controller, Some ''PDP Xbox 360 Marvel Controller''),
    (MAKE_CONTROLLER_ID 0x0e6f 0x0201, CONTROLLER_TYPE_XBox360Controller, Some ''PDP Xbox 360 Controller''),
    (MAKE_CONTROLLER_ID 0x0e6f 0x0213, CONTROLLER_TYPE_XBox360Controller, Some ''PDP Xbox 360 Afterglow''),
    (MAKE_CONTROLLER_ID 0x0e6f 0x021f, CONTROLLER_TYPE_XBox360Controller, Some ''PDP Xbox 360 Rock Candy''),
    (MAKE_CONTROLLER_ID 0x0e6f 0x0301, CONTROLLER_TYPE_XBox360Controller, Some ''PDP Xbox 360 Controller''),
    (MAKE_CONTROLLER_ID 0x0e6f 0x0313, CONTROLLER_TYPE_XBox360Controller, Some ''PDP Xbox 360 Afterglow''),
    (MAKE_CONTROLLER_ID 0x0e6f 0x0314, CONTROLLER_TYPE_XBox360Controller, Some ''PDP Xbox 360 Afterglow''),
    (MAKE_CONTROLLER_ID 0x0e6f 0x0401, CONTROLLER_TYPE_XBox360Controller, Some ''PDP Xbox 360 Controller''),
    (MAKE_CONTROLLER_ID 0x0e6f 0x0413, CONTROLLER_TYPE_XBox360Controller, None),
    (MAKE_CONTROLLER_ID 0x0e6f 0x0501, CONTROLLER_TYPE_XBox360Controller, None),
    (MAKE_CONTROLLER_ID 0x0e6f 0xf900, CONTROLLER_TYPE_XBox360Controller, None),
    (MAKE_CONTROLLER_ID 0x0f0d 0x000a, CONTROLLER_TYPE_XBox360Controller, None),
    (MAKE_CONTROLLER_ID 0x0f0d 0x000c, CONTROLLER_TYPE_XBox360Controller, None),
    (MAKE_CONTROLLER_ID 0x0f0d 0x000d, CONTROLLER_TYPE_XBox360Controller, None),
    (MAKE_CONTROLLER_ID 0x0f0d 0x0016, CONTROLLER_TYPE_XBox360Controller, None),
    (MAKE_CONTROLLER_ID 0x0f0d 0x001b, CONTROLLER_TYPE_XBox360Controller, None),
    (MAKE_CONTROLLER_ID 0x0f0d 0x008c, CONTROLLER_TYPE_XBox360Controller, None),
    (MAKE_CONTROLLER_ID 0x0f0d 0x00db, CONTROLLER_TYPE_XBox360Controller, Some ''HORI Slime Controller''),
    (MAKE_CONTROLLER_ID 0x0f0d 0x011e, CONTROLLER_TYPE_XBox360Controller, None),
    (MAKE_CONTROLLER_ID 0x1038 0x1430, CONTROLLER_TYPE_XBox360Controller, Some ''SteelSeries Stratus Duo''),
    (MAKE_CONTROLLER_ID 0x1038 0x1431, CONTROLLER_TYPE_XBox360Controller, Some ''SteelSeries Stratus Duo''),
    (MAKE_CONTROLLER_ID 0x1038 0xb360, CONTROLLER_TYPE_XBox360Controller, None),
    (MAKE_CONTROLLER_ID 0x11c9 0x55f0, CONTROLLER_TYPE_XBox360Controller, None),
    (MAKE_CONTROLLER_ID 0x12ab 0x0004, CONTROLLER_TYPE_XBox360Controller, None),
    (MAKE_CONTROLLER_ID 0x12ab 0x0301, CONTROLLER_TYPE_XBox360Controller, None),
    (MAKE_CONTROLLER_ID 0x12ab 0x0303, CONTROLLER_TYPE_XBox360Controller, None),
    (MAKE_CONTROLLER_ID 0x1430 0x02a0, CONTROLLER_TYPE_XBox360Controller, None),
    (MAKE_CONTROLLER_ID 0x1430 0x4748, CONTROLLER_TYPE_XBox360Controller, None),
    (MAKE_CONTROLLER_ID 0x1430 0xf801, CONTROLLER_TYPE_XBox360Controller, None),
    (MAKE_CONTROLLER_ID 0x146b 0x0601, CONTROLLER_TYPE_XBox360Controller, None),
    (MAKE_CONTROLLER_ID 0x15e4 0x3f00, CONTROLLER_TYPE_XBox360Controller, None),
    (MAKE_CONTROLLER_ID 0x15e4 0x3f0a, CONTROLLER_TYPE_XBox360Controller, None),
    (MAKE_CONTROLLER_ID 0x15e4 0x3f10, CONTROLLER_TYPE_XBox360Controller, None),
    (MAKE_CONTROLLER_ID 0x162e 0xbeef, CONTROLLER_TYPE_XBox360Controller, None),
    (MAKE_CONTROLLER_ID 0x1689 0xfd00, CONTROLLER_TYPE_XBox360Controller, None),
    (MAKE_CONTROLLER_ID 0x1689 0xfd01, CONTROLLER_TYPE_XBox360Controller, None),
    (MAKE_CONTROLLER_ID 0x1689 0xfe00, CONTROLLER_TYPE_XBox360Controller, None),
    (MAKE_CONTROLLER_ID 0x1949 0x041a, CONTROLLER_TYPE_XBox360Controller, Some ''Amazon Luna Controller''),
    (MAKE_CONTROLLER_ID 0x1bad 0x0002, CONTROLLER_TYPE_XBox360Controller, None),
    (MAKE_CONTROLLER_ID 0x1bad 0x0003, CONTROLLER_TYPE_XBox360Controller, None),
    (MAKE_CONTROLLER_ID 0x1bad 0xf016, CONTROLLER_TYPE_XBox360Controller, None),
    (MAKE_CONTROLLER_ID 0x1bad 0xf018, CONTROLLER_TYPE_XBox360Controller, None),
    (MAKE_CONTROLLER_ID 0x1bad 0xf019, CONTROLLER_TYPE_XBox360Controller, None),
    (MAKE_CONTROLLER_ID 0x1bad 0xf021, CONTROLLER_TYPE_XBox360Controller, None),
    (MAKE_CONTROLLER_ID 0x1bad 0xf023, CONTROLLER_TYPE_XBox360Controller, None),
    (MAKE_CONTROLLER_ID 0x1bad 0xf025, CONTROLLER_TYPE_XBox360Controller, None),
    (MAKE_CONTROLLER_ID 0x1bad 0xf027, CONTROLLER_TYPE_XBox360Controller, None),
    (MAKE_CONTROLLER_ID 0x1bad 0xf028, CONTROLLER_TYPE_XBox360Controller, None),
    (MAKE_CONTROLLER_ID 0x1bad 0xf02e, CONTROLLER_TYPE_XBox360Controller, None),
    (MAKE_CONTROLLER_ID 0x1bad 0xf036, CONTROLLER_TYPE_XBox360Controller, None),
    (MAKE_CONTROLLER_ID 0x1bad 0xf038, CONTROLLER_TYPE_XBox360Controller, None),
    (MAKE_CONTROLLER_ID 0x1bad 0xf039, CONTROLLER_TYPE_XBox360Controller, None),
    (MAKE_CONTROLLER_ID 0x1bad 0xf03a, CONTROLLER_TYPE_XBox360Controller, None),
    (MAKE_CONTROLLER_ID 0x1bad 0xf03d, CONTROLLER_TYPE_XBox360Controller, None),
    (MAKE_CONTROLLER_ID 0x1bad 0xf03e, CONTROLLER_TYPE_XBox360Controller, None),
    (MAKE_CONTROLLER_ID 0x1bad 0xf03f, CONTROLLER_TYPE_XBox360Controller, None),
    (MAKE_CONTROLLER_ID 0x1bad 0xf042, CONTROLLER_TYPE_XBox360Controller, None),
    (MAKE_CONTROLLER_ID 0x1bad 0xf080, CONTROLLER_TYPE_XBox360Controller, None),
    (MAKE_CONTROLLER_ID 0x1bad 0xf501, CONTROLLER_TYPE_XBox360Controller, None),
    (MAKE_CONTROLLER_ID 0x1bad 0xf502, CONTROLLER_TYPE_XBox360Controller, None),
    (MAKE_CONTROLLER_ID 0x1bad 0xf503, CONTROLLER_TYPE_XBox360Controller, None),
    (MAKE_CONTROLLER_ID 0x1bad 0xf504, CONTROLLER_TYPE_XBox360Controller, None),
    (MAKE_CONTROLLER_ID 0x1bad 0xf505, CONTROLLER_TYPE_XBox360Controller, None),
    (MAKE_CONTROLLER_ID 0x1bad 0xf506, CONTROLLER_TYPE_XBox360Controller, None),
    (MAKE_CONTROLLER_ID 0x1bad 0xf900, CONTROLLER_TYPE_XBox360Controller, None),
    (MAKE_CONTROLLER_ID 0x1bad 0xf901, CONTROLLER_TYPE_XBox360Controller, None),
    (MAKE_CONTROLLER_ID 0x1bad 0xf902, CONTROLLER_TYPE_XBox360Controller, None),
    (MAKE_CONTROLLER_ID 0x1bad 0xf903, CONTROLLER_TYPE_XBox360Controller, None),
    (MAKE_CONTROLLER_ID 0x1bad 0xf904, CONTROLLER_TYPE_XBox360Controller, None),
    (MAKE_CONTROLLER_ID 0x1bad 0xf906, CONTROLLER_TYPE_XBox360Controller, None),
    (MAKE_CONTROLLER_ID 0x1bad 0xfa01, CONTROLLER_TYPE_XBox360Controller, None),
    (MAKE_CONTROLLER_ID 0x1bad 0xfd00, CONTROLLER_TYPE_XBox360Controller, None),
    (MAKE_CONTROLLER_ID 0x1bad 0xfd01, CONTROLLER_TYPE_XBox360Controller, None),
    (MAKE_CONTROLLER_ID 0x24c6 0x5000, CONTROLLER_TYPE_XBox360Controller, None),
    (MAKE_CONTROLLER_ID 0x24c6 0x5300, CONTROLLER_TYPE_XBox360Controller, None),
    (MAKE_CONTROLLER_ID 0x24c6 0x5303, CONTROLLER_TYPE_XBox360Controller, None),
    (MAKE_CONTROLLER_ID 0x24c6 0x530a, CONTROLLER_TYPE_XBox360Controller, None),
    (MAKE_CONTROLLER_ID 0x24c6 0x531a, CONTROLLER_TYPE_XBox360Controller, None),
    (MAKE_CONTROLLER_ID 0x24c6 0x5397, CONTROLLER_TYPE_XBox360Controller, None),
    (MAKE_CONTROLLER_ID 0x24c6 0x5500, CONTROLLER_TYPE_XBox360Controller, None),
    (MAKE_CONTROLLER_ID 0x24c6 0x5501, CONTROLLER_TYPE_XBox360Controller, None),
    (MAKE_CONTROLLER_ID 0x24c6 0x5502, CONTROLLER_TYPE_XBox360Controller, None),
    (MAKE_CONTROLLER_ID 0x24c6 0x5503, CONTROLLER_TYPE_XBox360Controller, None),
    (MAKE_CONTROLLER_ID 0x24c6 0x5506, CONTROLLER_TYPE_XBox360Controller, None),
    (MAKE_CONTROLLER_ID 0x24c6 0x550d, CONTROLLER_TYPE_XBox360Controller, None),
    (MAKE_CONTROLLER_ID 0x24c6 0x550e, CONTROLLER_TYPE_XBox360Controller, None),
    (MAKE_CONTROLLER_ID 0x24c6 0x5508, CONTROLLER_TYPE_XBox360Controller, None),
    (MAKE_CONTROLLER_ID 0x24c6 0x5510, CONTROLLER_TYPE_XBox360Controller, None),
    (MAKE_CONTROLLER_ID 0x24c6 0x5b00, CONTROLLER_TYPE_XBox360Controller, None),
    (MAKE_CONTROLLER_ID 0x24c6 0x5b02, CONTROLLER_TYPE_XBox360Controller, None),
    (MAKE_CONTROLLER_ID 0x24c6 0x5b03, CONTROLLER_TYPE_XBox360Controller, None),
    (MAKE_CONTROLLER_ID 0x24c6 0x5d04, CONTROLLER_TYPE_XBox360Controller, None),
    (MAKE_CONTROLLER_ID 0x24c6 0xfafa, CONTROLLER_TYPE_XBox360Controller, None),
    (MAKE_CONTROLLER_ID 0x24c6 0xfafb, CONTROLLER_TYPE_XBox360Controller, None),
    (MAKE_CONTROLLER_ID 0x24c6 0xfafc, CONTROLLER_TYPE_XBox360Controller, None),
    (MAKE_CONTROLLER_ID 0x24c6 0xfafd, CONTROLLER_TYPE_XBox360Controller, None),
    (MAKE_CONTROLLER_ID 0x24c6 0xfafe, CONTROLLER_TYPE_XBox360Controller, None),
    (MAKE_CONTROLLER_ID 0x03f0 0x0495, CONTROLLER_TYPE_XBoxOneController, None),
    (MAKE_CONTROLLER_ID 0x044f 0xd012, CONTROLLER_TYPE_XBoxOneController, None),
    (MAKE_CONTROLLER_ID 0x045e 0x02d1, CONTROLLER_TYPE_XBoxOneController, Some ''Xbox One Controller''),
    (MAKE_CONTROLLER_ID 0x045e 0x02dd, CONTROLLER_TYPE_XBoxOneController, Some ''Xbox One Controller''),
    (MAKE_CONTROLLER_ID 0x045e 0x02e0, CONTROLLER_TYPE_XBoxOneController, Some ''Xbox One S Controller''),
    (MAKE_CONTROLLER_ID 0x045e 0x02e3, CONTROLLER_TYPE_XBoxOneController, Some ''Xbox One Elite Controller''),
    (MAKE_CONTROLLER_ID 0x045e 0x02ea, CONTROLLER_TYPE_XBoxOneController, Some ''Xbox One S Controller''),
    (MAKE_CONTROLLER_ID 0x045e 0x02fd, CONTROLLER_TYPE_XBoxOneController, Some ''Xbox One S Controller''),
    (MAKE_CONTROLLER_ID 0x045e 0x02ff, CONTROLLER_TYPE_XBoxOneController, Some ''Xbox One Controller''),
    (MAKE_CONTROLLER_ID 0x045e 0x0b00, CONTROLLER_TYPE_XBoxOneController, Some ''Xbox One Elite 2 Controller''),
    (MAKE_CONTROLLER_ID 0x045e 0x0b05, CONTROLLER_TYPE_XBoxOneController, Some ''Xbox One Elite 2 Controller''),
    (MAKE_CONTROLLER_ID 0x045e 0x0b0a, CONTROLLER_TYPE_XBoxOneController, Some ''Xbox Adaptive Controller''),
    (MAKE_CONTROLLER_ID 0x045e 0x0b0c, CONTROLLER_TYPE_XBoxOneController, Some ''Xbox Adaptive Controller''),
    (MAKE_CONTROLLER_ID 0x045e 0x0b12, CONTROLLER_TYPE_XBoxOneController, Some ''Xbox Series X Controller''),
    (MAKE_CONTROLLER_ID 0x045e 0x0b13, CONTROLLER_TYPE_XBoxOneController, Some ''Xbox Series X Controller'')]"

definition controllers_331_480 :: "uni_controller_description list" where
  "controllers_331_480 = [
    (MAKE_CONTROLLER_ID 0x045e 0x0b20, CONTROLLER_TYPE_XBoxOneController, Some ''Xbox One S Controller''),
    (MAKE_CONTROLLER_ID 0x045e 0x0b21, CONTROLLER_TYPE_XBoxOneController, Some ''Xbox Adaptive Controller''),
    (MAKE_CONTROLLER_ID 0x045e 0x0b22, CONTROLLER_TYPE_XBoxOneController, Some ''Xbox One Elite 2 Controller''),
    (MAKE_CONTROLLER_ID 0x0738 0x4a01, CONTROLLER_TYPE_XBoxOneController, None),
    (MAKE_CONTROLLER_ID 0x0e6f 0x0139, CONTROLLER_TYPE_XBoxOneController, Some ''PDP Xbox One Afterglow''),
    (MAKE_CONTROLLER_ID 0x0e6f 0x013b, CONTROLLER_TYPE_XBoxOneController, Some ''PDP Xbox One Face-Off Controller''),
    (MAKE_CONTROLLER_ID 0x0e6f 0x013a, CONTROLLER_TYPE_XBoxOneController, None),
    (MAKE_CONTROLLER_ID 0x0e6f 0x0145, CONTROLLER_TYPE_XBoxOneController, Some ''PDP MK X Fight Pad''),
    (MAKE_CONTROLLER_ID 0x0e6f 0x0146, CONTROLLER_TYPE_XBoxOneController, Some ''PDP Xbox One Rock Candy''),
    (MAKE_CONTROLLER_ID 0x0e6f 0x015b, CONTROLLER_TYPE_XBoxOneController, Some ''PDP Fallout 4 Vault Boy Controller''),
    (MAKE_CONTROLLER_ID 0x0e6f 0x015c, CONTROLLER_TYPE_XBoxOneController, Some ''PDP Xbox One @Play Controller''),
    (MAKE_CONTROLLER_ID 0x0e6f 0x015d, CONTROLLER_TYPE_XBoxOneController, Some ''PDP Mirror's Edge Controller''),
    (MAKE_CONTROLLER_ID 0x0e6f 0x015f, CONTROLLER_TYPE_XBoxOneController, Some ''PDP Metallic Controller''),
    (MAKE_CONTROLLER_ID 0x0e6f 0x0160, CONTROLLER_TYPE_XBoxOneController, Some ''PDP NFL Face-Off Controller''),
    (MAKE_CONTROLLER_ID 0x0e6f 0x0161, CONTROLLER_TYPE_XBoxOneController, Some ''PDP Xbox One Camo''),
    (MAKE_CONTROLLER_ID 0x0e6f 0x0162, CONTROLLER_TYPE_XBoxOneController, Some ''PDP Xbox One Controller''),
    (MAKE_CONTROLLER_ID 0x0e6f 0x0163, CONTROLLER_TYPE_XBoxOneController, Some ''PDP Deliverer of Truth''),
    (MAKE_CONTROLLER_ID 0x0e6f 0x0164, CONTROLLER_TYPE_XBoxOneController, Some ''PDP Battlefield 1 Controller''),
    (MAKE_CONTROLLER_ID 0x0e6f 0x0165, CONTROLLER_TYPE_XBoxOneController, Some ''PDP Titanfall 2 Controller''),
    (MAKE_CONTROLLER_ID 0x0e6f 0x0166, CONTROLLER_TYPE_XBoxOneController, Some ''PDP Mass Effect: Andromeda Controller''),
    (MAKE_CONTROLLER_ID 0x0e6f 0x0167, CONTROLLER_TYPE_XBoxOneController, Some ''PDP Halo Wars 2 Face-Off Controller''),
    (MAKE_CONTROLLER_ID 0x0e6f 0x0205, CONTROLLER_TYPE_XBoxOneController, Some ''PDP Victrix Pro Fight Stick''),
    (MAKE_CONTROLLER_ID 0x0e6f 0x0206, CONTROLLER_TYPE_XBoxOneController, Some ''PDP Mortal Kombat Controller''),
    (MAKE_CONTROLLER_ID 0x0e6f 0x0246, CONTROLLER_TYPE_XBoxOneController, Some ''PDP Xbox One Rock Candy''),
    (MAKE_CONTROLLER_ID 0x0e6f 0x0261, CONTROLLER_TYPE_XBoxOneController, Some ''PDP Xbox One Camo''),
    (MAKE_CONTROLLER_ID 0x0e6f 0x0262, CONTROLLER_TYPE_XBoxOneController, Some ''PDP Xbox One Controller''),
    (MAKE_CONTROLLER_ID 0x0e6f 0x02a0, CONTROLLER_TYPE_XBoxOneController, Some ''PDP Xbox One Midnight Blue''),
    (MAKE_CONTROLLER_ID 0x0e6f 0x02a1, CONTROLLER_TYPE_XBoxOneController, Some ''PDP Xbox One Verdant Green''),
    (MAKE_CONTROLLER_ID 0x0e6f 0x02a2, CONTROLLER_TYPE_XBoxOneController, Some ''PDP Xbox One Crimson Red''),
    (MAKE_CONTROLLER_ID 0x0e6f 0x02a3, CONTROLLER_TYPE_XBoxOneController, Some ''PDP Xbox One Arctic White''),
    (MAKE_CONTROLLER_ID 0x0e6f 0x02a4, CONTROLLER_TYPE_XBoxOneController, Some ''PDP Xbox One Phantom Black''),
    (MAKE_CONTROLLER_ID 0x0e6f 0x02a5, CONTROLLER_TYPE_XBoxOneController, Some ''PDP Xbox One Ghost White''),
    (MAKE_CONTROLLER_ID 0x0e6f 0x02a6, CONTROLLER_TYPE_XBoxOneController, Some ''PDP Xbox One Revenant Blue''),
    (MAKE_CONTROLLER_ID 0x0e6f 0x02a7, CONTROLLER_TYPE_XBoxOneController, Some ''PDP Xbox One Raven Black''),
    (MAKE_CONTROLLER_ID 0x0e6f 0x02a8, CONTROLLER_TYPE_XBoxOneController, Some ''PDP Xbox One Arctic White''),
    (MAKE_CONTROLLER_ID 0x0e6f 0x02a9, CONTROLLER_TYPE_XBoxOneController, Some ''PDP Xbox One Midnight Blue''),
    (MAKE_CONTROLLER_ID 0x0e6f 0x02aa, CONTROLLER_TYPE_XBoxOneController, Some ''PDP Xbox One Verdant Green''),
    (MAKE_CONTROLLER_ID 0x0e6f 0x02ab, CONTROLLER_TYPE_XBoxOneController, Some ''PDP Xbox One Crimson Red''),
    (MAKE_CONTROLLER_ID 0x0e6f 0x02ac, CONTROLLER_TYPE_XBoxOneController, Some ''PDP Xbox One Ember Orange''),
    (MAKE_CONTROLLER_ID 0x0e6f 0x02ad, CONTROLLER_TYPE_XBoxOneController, Some ''PDP Xbox One Phantom Black''),
    (MAKE_CONTROLLER_ID 0x0e6f 0x02ae, CONTROLLER_TYPE_XBoxOneController, Some ''PDP Xbox One Ghost White''),
    (MAKE_CONTROLLER_ID 0x0e6f 0x02af, CONTROLLER_TYPE_XBoxOneController, Some ''PDP Xbox One Revenant Blue''),
    (MAKE_CONTROLLER_ID 0x0e6f 0x02b0, CONTROLLER_TYPE_XBoxOneController, Some ''PDP Xbox One Raven Black''),
    (MAKE_CONTROLLER_ID 0x0e6f 0x02b1, CONTROLLER_TYPE_XBoxOneController, Some ''PDP Xbox One Arctic White''),
    (MAKE_CONTROLLER_ID 0x0e6f 0x02b3, CONTROLLER_TYPE_XBoxOneController, Some ''PDP Xbox One Afterglow''),
    (MAKE_CONTROLLER_ID 0x0e6f 0x02b5, CONTROLLER_TYPE_XBoxOneController, Some ''PDP Xbox One GAMEware Controller''),
    (MAKE_CONTROLLER_ID 0x0e6f 0x02b6, CONTROLLER_TYPE_XBoxOneController, None),
    (MAKE_CONTROLLER_ID 0x0e6f 0x02bd, CONTROLLER_TYPE_XBoxOneController, Some ''PDP Xbox One Royal Purple''),
    (MAKE_CONTROLLER_ID 0x0e6f 0x02be, CONTROLLER_TYPE_XBoxOneController, Some ''PDP Xbox One Raven Black''),
    (MAKE_CONTROLLER_ID 0x0e6f 0x02bf, CONTROLLER_TYPE_XBoxOneController, Some ''PDP Xbox One Midnight Blue''),
    (MAKE_CONTROLLER_ID 0x0e6f 0x02c0, CONTROLLER_TYPE_XBoxOneController, Some ''PDP Xbox One Phantom Black''),
    (MAKE_CONTROLLER_ID 0x0e6f 0x02c1, CONTROLLER_TYPE_XBoxOneController, Some ''PDP Xbox One Ghost White''),
    (MAKE_CONTROLLER_ID 0x0e6f 0x02c2, CONTROLLER_TYPE_XBoxOneController, Some ''PDP Xbox One Revenant Blue''),
    (MAKE_CONTROLLER_ID 0x0e6f 0x02c3, CONTROLLER_TYPE_XBoxOneController, Some ''PDP Xbox One Verdant Green''),
    (MAKE_CONTROLLER_ID 0x0e6f 0x02c4, CONTROLLER_TYPE_XBoxOneController, Some ''PDP Xbox One Ember Orange''),
    (MAKE_CONTROLLER_ID 0x0e6f 0x02c5, CONTROLLER_TYPE_XBoxOneController, Some ''PDP Xbox One Royal Purple''),
    (MAKE_CONTROLLER_ID 0x0e6f 0x02c6, CONTROLLER_TYPE_XBoxOneController, Some ''PDP Xbox One Crimson Red''),
    (MAKE_CONTROLLER_ID 0x0e6f 0x02c7, CONTROLLER_TYPE_XBoxOneController, Some ''PDP Xbox One Arctic White''),
    (MAKE_CONTROLLER_ID 0x0e6f 0x02c8, CONTROLLER_TYPE_XBoxOneController, Some ''PDP Kingdom Hearts Controller''),
    (MAKE_CONTROLLER_ID 0x0e6f 0x02c9, CONTROLLER_TYPE_XBoxOneController, Some ''PDP Xbox One Phantasm Red''),
    (MAKE_CONTROLLER_ID 0x0e6f 0x02ca, CONTROLLER_TYPE_XBoxOneController, Some ''PDP Xbox One Specter Violet''),
    (MAKE_CONTROLLER_ID 0x0e6f 0x02cb, CONTROLLER_TYPE_XBoxOneController, Some ''PDP Xbox One Specter Violet''),
    (MAKE_CONTROLLER_ID 0x0e6f 0x02cd, CONTROLLER_TYPE_XBoxOneController, Some ''PDP Xbox One Blu-merang''),
    (MAKE_CONTROLLER_ID 0x0e6f 0x02ce, CONTROLLER_TYPE_XBoxOneController, Some ''PDP Xbox One Cranblast''),
    (MAKE_CONTROLLER_ID 0x0e6f 0x02cf, CONTROLLER_TYPE_XBoxOneController, Some ''PDP Xbox One Aqualime''),
    (MAKE_CONTROLLER_ID 0x0e6f 0x02d5, CONTROLLER_TYPE_XBoxOneController, Some ''PDP Xbox One Red Camo''),
    (MAKE_CONTROLLER_ID 0x0e6f 0x0346, CONTROLLER_TYPE_XBoxOneController, Some ''PDP Xbox One RC Gamepad''),
    (MAKE_CONTROLLER_ID 0x0e6f 0x0446, CONTROLLER_TYPE_XBoxOneController, Some ''PDP Xbox One RC Gamepad''),
    (MAKE_CONTROLLER_ID 0x0e6f 0x02da, CONTROLLER_TYPE_XBoxOneController, Some ''PDP Xbox Series X Afterglow''),
    (MAKE_CONTROLLER_ID 0x0e6f 0x02d6, CONTROLLER_TYPE_XBoxOneController, Some ''Victrix Gambit Tournament Controller''),
    (MAKE_CONTROLLER_ID 0x0e6f 0x02d9, CONTROLLER_TYPE_XBoxOneController, Some ''PDP Xbox Series X Midnight Blue''),
    (MAKE_CONTROLLER_ID 0x0f0d 0x0063, CONTROLLER_TYPE_XBoxOneController, None),
    (MAKE_CONTROLLER_ID 0x0f0d 0x0067, CONTROLLER_TYPE_XBoxOneController, None),
    (MAKE_CONTROLLER_ID 0x0f0d 0x0078, CONTROLLER_TYPE_XBoxOneController, None),
    (MAKE_CONTROLLER_ID 0x0f0d 0x00c5, CONTROLLER_TYPE_XBoxOneController, None),
    (MAKE_CONTROLLER_ID 0x0f0d 0x0150, CONTROLLER_TYPE_XBoxOneController, None),
    (MAKE_CONTROLLER_ID 0x10f5 0x7009, CONTROLLER_TYPE_XBoxOneController, None),
    (MAKE_CONTROLLER_ID 0x10f5 0x7013, CONTROLLER_TYPE_XBoxOneController, None),
    (MAKE_CONTROLLER_ID 0x1532 0x0a00, CONTROLLER_TYPE_XBoxOneController, None),
    (MAKE_CONTROLLER_ID 0x1532 0x0a03, CONTROLLER_TYPE_XBoxOneController, None),
    (MAKE_CONTROLLER_ID 0x1532 0x0a14, CONTROLLER_TYPE_XBoxOneController, None),
    (MAKE_CONTROLLER_ID 0x1532 0x0a15, CONTROLLER_TYPE_XBoxOneController, None),
    (MAKE_CONTROLLER_ID 0x20d6 0x2001, CONTROLLER_TYPE_XBoxOneController, Some ''PowerA Xbox Series X Controller''),
    (MAKE_CONTROLLER_ID 0x20d6 0x2002, CONTROLLER_TYPE_XBoxOneController, Some ''PowerA Xbox Series X Controller''),
    (MAKE_CONTROLLER_ID 0x20d6 0x2003, CONTROLLER_TYPE_XBoxOneController, Some ''PowerA Xbox Series X Controller''),
    (MAKE_CONTROLLER_ID 0x20d6 0x2004, CONTROLLER_TYPE_XBoxOneController, Some ''PowerA Xbox Series X Controller''),
    (MAKE_CONTROLLER_ID 0x20d6 0x2005, CONTROLLER_TYPE_XBoxOneController, Some ''PowerA Xbox Series X Controller''),
    (MAKE_CONTROLLER_ID 0x20d6 0x2006, CONTROLLER_TYPE_XBoxOneController, Some ''PowerA Xbox Series X Controller''),
    (MAKE_CONTROLLER_ID 0x20d6 0x2009, CONTROLLER_TYPE_XBoxOneController, Some ''PowerA Xbox Series X Controller''),
    (MAKE_CONTROLLER_ID 0x20d6 0x200a, CONTROLLER_TYPE_XBoxOneController, Some ''PowerA Xbox Series X Controller''),
    (MAKE_CONTROLLER_ID 0x20d6 0x200b, CONTROLLER_TYPE_XBoxOneController, Some ''PowerA Xbox Series X Controller''),
    (MAKE_CONTROLLER_ID 0x20d6 0x200c, CONTROLLER_TYPE_XBoxOneController, Some ''PowerA Xbox Series X Controller''),
    (MAKE_CONTROLLER_ID 0x20d6 0x200d, CONTROLLER_TYPE_XBoxOneController, Some ''PowerA Xbox Series X Controller''),
    (MAKE_CONTROLLER_ID 0x20d6 0x200e, CONTROLLER_TYPE_XBoxOneController, Some ''PowerA Xbox Series X Controller''),
    (MAKE_CONTROLLER_ID 0x20d6 0x200f, CONTROLLER_TYPE_XBoxOneController, Some ''PowerA Xbox Series X Controller''),
    (MAKE_CONTROLLER_ID 0x20d6 0x2011, CONTROLLER_TYPE_XBoxOneController, Some ''PowerA Xbox Series X Controller''),
    (MAKE_CONTROLLER_ID 0x20d6 0x2012, CONTROLLER_TYPE_XBoxOneController, Some ''PowerA Xbox Series X Controller''),
    (MAKE_CONTROLLER_ID 0x20d6 0x2015, CONTROLLER_TYPE_XBoxOneController, Some ''PowerA Xbox Series X Controller''),
    (MAKE_CONTROLLER_ID 0x20d6 0x2016, CONTROLLER_TYPE_XBoxOneController, Some ''PowerA Xbox Series X Controller''),
    (MAKE_CONTROLLER_ID 0x20d6 0x2017, CONTROLLER_TYPE_XBoxOneController, Some ''PowerA Xbox Series X Controller''),
    (MAKE_CONTROLLER_ID 0x20d6 0x2018, CONTROLLER_TYPE_XBoxOneController, Some ''PowerA Xbox Series X Controller''),
    (MAKE_CONTROLLER_ID 0x20d6 0x2019, CONTROLLER_TYPE_XBoxOneController, Some ''PowerA Xbox Series X Controller''),
    (MAKE_CONTROLLER_ID 0x20d6 0x201a, CONTROLLER_TYPE_XBoxOneController, Some ''PowerA Xbox Series X Controller''),
    (MAKE_CONTROLLER_ID 0x20d6 0x4001, CONTROLLER_TYPE_XBoxOneController, Some ''PowerA Fusion Pro 2 Controller''),
    (MAKE_CONTROLLER_ID 0x20d6 0x4002, CONTROLLER_TYPE_XBoxOneController, Some ''PowerA Spectra Infinity Controller''),
    (MAKE_CONTROLLER_ID 0x20d6 0x890b, CONTROLLER_TYPE_XBoxOneController, None),
    (MAKE_CONTROLLER_ID 0x24c6 0x541a, CONTROLLER_TYPE_XBoxOneController, None),
    (MAKE_CONTROLLER_ID 0x24c6 0x542a, CONTROLLER_TYPE_XBoxOneController, None),
    (MAKE_CONTROLLER_ID 0x24c6 0x543a, CONTROLLER_TYPE_XBoxOneController, Some ''PowerA Xbox One Controller''),
    (MAKE_CONTROLLER_ID 0x24c6 0x551a, CONTROLLER_TYPE_XBoxOneController, None),
    (MAKE_CONTROLLER_ID 0x24c6 0x561a, CONTROLLER_TYPE_XBoxOneController, None),
    (MAKE_CONTROLLER_ID 0x24c6 0x581a, CONTROLLER_TYPE_XBoxOneController, None),
    (MAKE_CONTROLLER_ID 0x24c6 0x591a, CONTROLLER_TYPE_XBoxOneController, None),
    (MAKE_CONTROLLER_ID 0x24c6 0x592a, CONTROLLER_TYPE_XBoxOneController, None),
    (MAKE_CONTROLLER_ID 0x24c6 0x791a, CONTROLLER_TYPE_XBoxOneController, None),
    (MAKE_CONTROLLER_ID 0x2dc8 0x2002, CONTROLLER_TYPE_XBoxOneController, None),
    (MAKE_CONTROLLER_ID 0x2dc8 0x3106, CONTROLLER_TYPE_XBoxOneController, None),
    (MAKE_CONTROLLER_ID 0x2e24 0x0652, CONTROLLER_TYPE_XBoxOneController, None),
    (MAKE_CONTROLLER_ID 0x2e24 0x1618, CONTROLLER_TYPE_XBoxOneController, None),
    (MAKE_CONTROLLER_ID 0x2e24 0x1688, CONTROLLER_TYPE_XBoxOneController, None),
    (MAKE_CONTROLLER_ID 0x146b 0x0611, CONTROLLER_TYPE_XBoxOneController, None),
    (MAKE_CONTROLLER_ID 0x0000 0x0000, CONTROLLER_TYPE_XBox360Controller, None),
    (MAKE_CONTROLLER_ID 0x045e 0x02a2, CONTROLLER_TYPE_XBox360Controller, None),
    (MAKE_CONTROLLER_ID 0x0e6f 0x1414, CONTROLLER_TYPE_XBox360Controller, None),
    (MAKE_CONTROLLER_ID 0x0e6f 0x0159, CONTROLLER_TYPE_XBox360Controller, None),
    (MAKE_CONTROLLER_ID 0x24c6 0xfaff, CONTROLLER_TYPE_XBox360Controller, None),
    (MAKE_CONTROLLER_ID 0x0f0d 0x006d, CONTROLLER_TYPE_XBox360Controller, None),
    (MAKE_CONTROLLER_ID 0x0f0d 0x00a4, CONTROLLER_TYPE_XBox360Controller, None),
    (MAKE_CONTROLLER_ID 0x0079 0x1832, CONTROLLER_TYPE_XBox360Controller, None),
    (MAKE_CONTROLLER_ID 0x0079 0x187f, CONTROLLER_TYPE_XBox360Controller, None),
    (MAKE_CONTROLLER_ID 0x0079 0x1883, CONTROLLER_TYPE_XBox360Controller, None),
    (MAKE_CONTROLLER_ID 0x03eb 0xff01, CONTROLLER_TYPE_XBox360Controller, None),
    (MAKE_CONTROLLER_ID 0x0c12 0x0ef8, CONTROLLER_TYPE_XBox360Controller, None),
    (MAKE_CONTROLLER_ID 0x046d 0x1000, CONTROLLER_TYPE_XBox360Controller, None),
    (MAKE_CONTROLLER_ID 0x1345 0x6006, CONTROLLER_TYPE_XBox360Controller, None),
    (MAKE_CONTROLLER_ID 0x056e 0x2012, CONTROLLER_TYPE_XBox360Controller, None),
    (MAKE_CONTROLLER_ID 0x146b 0x0602, CONTROLLER_TYPE_XBox360Controller, None),
    (MAKE_CONTROLLER_ID 0x0f0d 0x00ae, CONTROLLER_TYPE_XBox360Controller, None),
    (MAKE_CONTROLLER_ID 0x046d 0x0401, CONTROLLER_TYPE_XBox360Controller, None),
    (MAKE_CONTROLLER_ID 0x046d 0x0301, CONTROLLER_TYPE_XBox360Controller, None),
    (MAKE_CONTROLLER_ID 0x046d 0xcaa3, CONTROLLER_TYPE_XBox360Controller, None),
    (MAKE_CONTROLLER_ID 0x046d 0xc261, CONTROLLER_TYPE_XBox360Controller, None),
    (MAKE_CONTROLLER_ID 0x046d 0x0291, CONTROLLER_TYPE_XBox360Controller, None),
    (MAKE_CONTROLLER_ID 0x0079 0x18d3, CONTROLLER_TYPE_XBox360Controller, None),
    (MAKE_CONTROLLER_ID 0x0f0d 0x00b1, CONTROLLER_TYPE_XBox360Controller, None),
    (MAKE_CONTROLLER_ID 0x0001 0x0001, CONTROLLER_TYPE_XBox360Controller, None),
    (MAKE_CONTROLLER_ID 0x0079 0x188e, CONTROLLER_TYPE_XBox360Controller, None)]"

definition controllers_481_630 :: "uni_controller_description list" where
  "controllers_481_630 = [
    (MAKE_CONTROLLER_ID 0x0079 0x187c, CONTROLLER_TYPE_XBox360Controller, None),
    (MAKE_CONTROLLER_ID 0x0079 0x189c, CONTROLLER_TYPE_XBox360Controller, None),
    (MAKE_CONTROLLER_ID 0x0079 0x1874, CONTROLLER_TYPE_XBox360Controller, None),
    (MAKE_CONTROLLER_ID 0x2f24 0x0050, CONTROLLER_TYPE_XBoxOneController, None),
    (MAKE_CONTROLLER_ID 0x2f24 0x2e, CONTROLLER_TYPE_XBoxOneController, None),
    (MAKE_CONTROLLER_ID 0x2f24 0x91, CONTROLLER_TYPE_XBoxOneController, None),
    (MAKE_CONTROLLER_ID 0x1430 0x719, CONTROLLER_TYPE_XBoxOneController, None),
    (MAKE_CONTROLLER_ID 0xf0d 0xed, CONTROLLER_TYPE_XBoxOneController, None),
    (MAKE_CONTROLLER_ID 0xf0d 0xc0, CONTROLLER_TYPE_XBoxOneController, None),
    (MAKE_CONTROLLER_ID 0xe6f 0x152, CONTROLLER_TYPE_XBoxOneController, None),
    (MAKE_CONTROLLER_ID 0xe6f 0x2a7, CONTROLLER_TYPE_XBoxOneController, None),
    (MAKE_CONTROLLER_ID 0x46d 0x1007, CONTROLLER_TYPE_XBoxOneController, None),
    (MAKE_CONTROLLER_ID 0xe6f 0x2b8, CONTROLLER_TYPE_XBoxOneController, None),
    (MAKE_CONTROLLER_ID 0xe6f 0x2a8, CONTROLLER_TYPE_XBoxOneController, None),
    (MAKE_CONTROLLER_ID 0x79 0x18a1, CONTROLLER_TYPE_XBoxOneController, None),
    (MAKE_CONTROLLER_ID 0x0 0x6686, CONTROLLER_TYPE_XBoxOneController, None),
    (MAKE_CONTROLLER_ID 0x11ff 0x511, CONTROLLER_TYPE_XBoxOneController, None),
    (MAKE_CONTROLLER_ID 0x12ab 0x304, CONTROLLER_TYPE_XBoxOneController, None),
    (MAKE_CONTROLLER_ID 0x1430 0x291, CONTROLLER_TYPE_XBoxOneController, None),
    (MAKE_CONTROLLER_ID 0x1430 0x2a9, CONTROLLER_TYPE_XBoxOneController, None),
    (MAKE_CONTROLLER_ID 0x1430 0x70b, CONTROLLER_TYPE_XBoxOneController, None),
    (MAKE_CONTROLLER_ID 0x1bad 0x28e, CONTROLLER_TYPE_XBoxOneController, None),
    (MAKE_CONTROLLER_ID 0x1bad 0x2a0, CONTROLLER_TYPE_XBoxOneController, None),
    (MAKE_CONTROLLER_ID 0x1bad 0x5500, CONTROLLER_TYPE_XBoxOneController, None),
    (MAKE_CONTROLLER_ID 0x20ab 0x55ef, CONTROLLER_TYPE_XBoxOneController, None),
    (MAKE_CONTROLLER_ID 0x24c6 0x5509, CONTROLLER_TYPE_XBoxOneController, None),
    (MAKE_CONTROLLER_ID 0x2516 0x69, CONTROLLER_TYPE_XBoxOneController, None),
    (MAKE_CONTROLLER_ID 0x25b1 0x360, CONTROLLER_TYPE_XBoxOneController, None),
    (MAKE_CONTROLLER_ID 0x2c22 0x2203, CONTROLLER_TYPE_XBoxOneController, None),
    (MAKE_CONTROLLER_ID 0x2f24 0x11, CONTROLLER_TYPE_XBoxOneController, None),
    (MAKE_CONTROLLER_ID 0x2f24 0x53, CONTROLLER_TYPE_XBoxOneController, None),
    (MAKE_CONTROLLER_ID 0x2f24 0xb7, CONTROLLER_TYPE_XBoxOneController, None),
    (MAKE_CONTROLLER_ID 0x46d 0x0, CONTROLLER_TYPE_XBoxOneController, None),
    (MAKE_CONTROLLER_ID 0x46d 0x1004, CONTROLLER_TYPE_XBoxOneController, None),
    (MAKE_CONTROLLER_ID 0x46d 0x1008, CONTROLLER_TYPE_XBoxOneController, None),
    (MAKE_CONTROLLER_ID 0x46d 0xf301, CONTROLLER_TYPE_XBoxOneController, None),
    (MAKE_CONTROLLER_ID 0x738 0x2a0, CONTROLLER_TYPE_XBoxOneController, None),
    (MAKE_CONTROLLER_ID 0x738 0x7263, CONTROLLER_TYPE_XBoxOneController, None),
    (MAKE_CONTROLLER_ID 0x738 0xb738, CONTROLLER_TYPE_XBoxOneController, None),
    (MAKE_CONTROLLER_ID 0x738 0xcb29, CONTROLLER_TYPE_XBoxOneController, None),
    (MAKE_CONTROLLER_ID 0x738 0xf401, CONTROLLER_TYPE_XBoxOneController, None),
    (MAKE_CONTROLLER_ID 0x79 0x18c2, CONTROLLER_TYPE_XBoxOneController, None),
    (MAKE_CONTROLLER_ID 0x79 0x18c8, CONTROLLER_TYPE_XBoxOneController, None),
    (MAKE_CONTROLLER_ID 0x79 0x18cf, CONTROLLER_TYPE_XBoxOneController, None),
    (MAKE_CONTROLLER_ID 0xc12 0xe17, CONTROLLER_TYPE_XBoxOneController, None),
    (MAKE_CONTROLLER_ID 0xc12 0xe1c, CONTROLLER_TYPE_XBoxOneController, None),
    (MAKE_CONTROLLER_ID 0xc12 0xe22, CONTROLLER_TYPE_XBoxOneController, None),
    (MAKE_CONTROLLER_ID 0xc12 0xe30, CONTROLLER_TYPE_XBoxOneController, None),
    (MAKE_CONTROLLER_ID 0xd2d2 0xd2d2, CONTROLLER_TYPE_XBoxOneController, None),
    (MAKE_CONTROLLER_ID 0xd62 0x9a1a, CONTROLLER_TYPE_XBoxOneController, None),
    (MAKE_CONTROLLER_ID 0xd62 0x9a1b, CONTROLLER_TYPE_XBoxOneController, None),
    (MAKE_CONTROLLER_ID 0xe00 0xe00, CONTROLLER_TYPE_XBoxOneController, None),
    (MAKE_CONTROLLER_ID 0xe6f 0x12a, CONTROLLER_TYPE_XBoxOneController, None),
    (MAKE_CONTROLLER_ID 0xe6f 0x2a1, CONTROLLER_TYPE_XBoxOneController, None),
    (MAKE_CONTROLLER_ID 0xe6f 0x2a2, CONTROLLER_TYPE_XBoxOneController, None),
    (MAKE_CONTROLLER_ID 0xe6f 0x2a5, CONTROLLER_TYPE_XBoxOneController, None),
    (MAKE_CONTROLLER_ID 0xe6f 0x2b2, CONTROLLER_TYPE_XBoxOneController, None),
    (MAKE_CONTROLLER_ID 0xe6f 0x2bd, CONTROLLER_TYPE_XBoxOneController, None),
    (MAKE_CONTROLLER_ID 0xe6f 0x2bf, CONTROLLER_TYPE_XBoxOneController, None),
    (MAKE_CONTROLLER_ID 0xe6f 0x2c0, CONTROLLER_TYPE_XBoxOneController, None),
    (MAKE_CONTROLLER_ID 0xe6f 0x2c6, CONTROLLER_TYPE_XBoxOneController, None),
    (MAKE_CONTROLLER_ID 0xf0d 0x97, CONTROLLER_TYPE_XBoxOneController, None),
    (MAKE_CONTROLLER_ID 0xf0d 0xba, CONTROLLER_TYPE_XBoxOneController, None),
    (MAKE_CONTROLLER_ID 0xf0d 0xd8, CONTROLLER_TYPE_XBoxOneController, None),
    (MAKE_CONTROLLER_ID 0xfff 0x2a1, CONTROLLER_TYPE_XBoxOneController, None),
    (MAKE_CONTROLLER_ID 0x45e 0x867, CONTROLLER_TYPE_XBoxOneController, None),
    (MAKE_CONTROLLER_ID 0x16d0 0xf3f, CONTROLLER_TYPE_XBoxOneController, None),
    (MAKE_CONTROLLER_ID 0x2f24 0x8f, CONTROLLER_TYPE_XBoxOneController, None),
    (MAKE_CONTROLLER_ID 0xe6f 0xf501, CONTROLLER_TYPE_XBoxOneController, None),
    (MAKE_CONTROLLER_ID 0x05ac 0x0001, CONTROLLER_TYPE_AppleController, None),
    (MAKE_CONTROLLER_ID 0x05ac 0x0002, CONTROLLER_TYPE_AppleController, None),
    (MAKE_CONTROLLER_ID 0x057e 0x2006, CONTROLLER_TYPE_SwitchJoyConLeft, None),
    (MAKE_CONTROLLER_ID 0x057e 0x2007, CONTROLLER_TYPE_SwitchJoyConRight, None),
    (MAKE_CONTROLLER_ID 0x057e 0x2008, CONTROLLER_TYPE_SwitchJoyConPair, None),
    (MAKE_CONTROLLER_ID 0x057e 0x2009, CONTROLLER_TYPE_SwitchProController, None),
    (MAKE_CONTROLLER_ID 0x0f0d 0x00c1, CONTROLLER_TYPE_SwitchInputOnlyController, None),
    (MAKE_CONTROLLER_ID 0x0f0d 0x0092, CONTROLLER_TYPE_SwitchInputOnlyController, None),
    (MAKE_CONTROLLER_ID 0x0f0d 0x00f6, CONTROLLER_TYPE_SwitchProController, None),
    (MAKE_CONTROLLER_ID 0x0f0d 0x00dc, CONTROLLER_TYPE_XInputSwitchController, None),
    (MAKE_CONTROLLER_ID 0x0e6f 0x0180, CONTROLLER_TYPE_SwitchInputOnlyController, None),
    (MAKE_CONTROLLER_ID 0x0e6f 0x0181, CONTROLLER_TYPE_SwitchInputOnlyController, None),
    (MAKE_CONTROLLER_ID 0x0e6f 0x0184, CONTROLLER_TYPE_SwitchInputOnlyController, None),
    (MAKE_CONTROLLER_ID 0x0e6f 0x0185, CONTROLLER_TYPE_SwitchInputOnlyController, None),
    (MAKE_CONTROLLER_ID 0x0e6f 0x0186, CONTROLLER_TYPE_SwitchProController, None),
    (MAKE_CONTROLLER_ID 0x0e6f 0x0187, CONTROLLER_TYPE_SwitchInputOnlyController, None),
    (MAKE_CONTROLLER_ID 0x0e6f 0x0188, CONTROLLER_TYPE_SwitchInputOnlyController, None),
    (MAKE_CONTROLLER_ID 0x0f0d 0x00aa, CONTROLLER_TYPE_SwitchInputOnlyController, None),
    (MAKE_CONTROLLER_ID 0x20d6 0xa711, CONTROLLER_TYPE_SwitchInputOnlyController, None),
    (MAKE_CONTROLLER_ID 0x20d6 0xa712, CONTROLLER_TYPE_SwitchInputOnlyController, None),
    (MAKE_CONTROLLER_ID 0x20d6 0xa713, CONTROLLER_TYPE_SwitchInputOnlyController, None),
    (MAKE_CONTROLLER_ID 0x20d6 0xa714, CONTROLLER_TYPE_SwitchInputOnlyController, None),
    (MAKE_CONTROLLER_ID 0x20d6 0xa715, CONTROLLER_TYPE_SwitchInputOnlyController, None),
    (MAKE_CONTROLLER_ID 0x20d6 0xa716, CONTROLLER_TYPE_SwitchInputOnlyController, None),
    (MAKE_CONTROLLER_ID 0x20d6 0xa718, CONTROLLER_TYPE_SwitchInputOnlyController, None),
    (MAKE_CONTROLLER_ID 0x0000 0x11fb, CONTROLLER_TYPE_MobileTouch, None),
    (MAKE_CONTROLLER_ID 0x28de 0x1101, CONTROLLER_TYPE_SteamController, None),
    (MAKE_CONTROLLER_ID 0x28de 0x1102, CONTROLLER_TYPE_SteamController, None),
    (MAKE_CONTROLLER_ID 0x28de 0x1105, CONTROLLER_TYPE_SteamController, None),
    (MAKE_CONTROLLER_ID 0x28de 0x1106, CONTROLLER_TYPE_SteamController, None),
    (MAKE_CONTROLLER_ID 0x28de 0x11ff, CONTROLLER_TYPE_UnknownNonSteamController, None),
    (MAKE_CONTROLLER_ID 0x28de 0x1142, CONTROLLER_TYPE_SteamController, None),
    (MAKE_CONTROLLER_ID 0x28de 0x1201, CONTROLLER_TYPE_SteamControllerV2, None),
    (MAKE_CONTROLLER_ID 0x28de 0x1202, CONTROLLER_TYPE_SteamControllerV2, None),
    (MAKE_CONTROLLER_ID 0x28de 0x1205, CONTROLLER_TYPE_SteamControllerNeptune, None),
    (MAKE_CONTROLLER_ID 0x2836 0x0001, CONTROLLER_TYPE_OUYAController, None),
    (MAKE_CONTROLLER_ID 0x15e4 0x0132, CONTROLLER_TYPE_iCadeController, None),
    (MAKE_CONTROLLER_ID 0x0a5c 0x8502, CONTROLLER_TYPE_iCadeController, None),
    (MAKE_CONTROLLER_ID 0x20d6 0x6271, CONTROLLER_TYPE_AndroidController, None),
    (MAKE_CONTROLLER_ID 0x0b05 0x4500, CONTROLLER_TYPE_AndroidController, None),
    (MAKE_CONTROLLER_ID 0x1949 0x0402, CONTROLLER_TYPE_AndroidController, None),
    (MAKE_CONTROLLER_ID 0x18d1 0x9400, CONTROLLER_TYPE_AndroidController, None)]"

definition controllers_631_669 :: "uni_controller_description list" where
  "controllers_631_669 = [
    (MAKE_CONTROLLER_ID 0x1949 0x0401, CONTROLLER_TYPE_SmartTVRemoteController, None),
    (MAKE_CONTROLLER_ID 0x2820 0x0009, CONTROLLER_TYPE_8BitdoController, None),
    (MAKE_CONTROLLER_ID 0x2dc8 0x0651, CONTROLLER_TYPE_8BitdoController, None),
    (MAKE_CONTROLLER_ID 0x2dc8 0x2830, CONTROLLER_TYPE_8BitdoController, None),
    (MAKE_CONTROLLER_ID 0x2dc8 0x2840, CONTROLLER_TYPE_8BitdoController, None),
    (MAKE_CONTROLLER_ID 0x2dc8 0x3230, CONTROLLER_TYPE_8BitdoController, None),
    (MAKE_CONTROLLER_ID 0x2dc8 0x6006, CONTROLLER_TYPE_8BitdoController, None),
    (MAKE_CONTROLLER_ID 0x2dc8 0x6100, CONTROLLER_TYPE_8BitdoController, None),
    (MAKE_CONTROLLER_ID 0x2dc8 0x6101, CONTROLLER_TYPE_8BitdoController, None),
    (MAKE_CONTROLLER_ID 0x0a5c 0x4502, CONTROLLER_TYPE_GenericController, None),
    (MAKE_CONTROLLER_ID 0x0111 0x1420, CONTROLLER_TYPE_NimbusController, None),
    (MAKE_CONTROLLER_ID 0x0111 0x1431, CONTROLLER_TYPE_AndroidController, None),
    (MAKE_CONTROLLER_ID 0x057e 0x0330, CONTROLLER_TYPE_WiiController, None),
    (MAKE_CONTROLLER_ID 0x057e 0x0306, CONTROLLER_TYPE_WiiController, None),
    (MAKE_CONTROLLER_ID 0x057e 0x2017, CONTROLLER_TYPE_SwitchProController, None),
    (MAKE_CONTROLLER_ID 0x057e 0x2019, CONTROLLER_TYPE_SwitchProController, None),
    (MAKE_CONTROLLER_ID 0x057e 0x201e, CONTROLLER_TYPE_SwitchProController, None),
    (MAKE_CONTROLLER_ID 0x054c 0x03d5, CONTROLLER_TYPE_PSMoveController, None),
    (MAKE_CONTROLLER_ID 0x054c 0x0c5e, CONTROLLER_TYPE_PSMoveController, None),
    (MAKE_CONTROLLER_ID 0x3250 0x1001, CONTROLLER_TYPE_AtariJoystick, None)]"

definition arrControllers :: "uni_controller_description list" where
  "arrControllers = controllers_32_180 @ controllers_181_330 @ controllers_331_480
     @ controllers_481_630 @ controllers_631_669"

text \<open>The loop over the table, from the first entry on.\<close>

primrec find_controller ::
    "uni_controller_description list \<Rightarrow> u32 \<Rightarrow> (uni_controller_type \<times> string option) option" where
  "find_controller [] device_id = None"
| "find_controller (c # cs) device_id =
     (if device_id = fst c then Some (snd c) else find_controller cs device_id)"

definition uni_guess_controller_type :: "u16 \<Rightarrow> u16 \<Rightarrow> uni_controller_type" where
  "uni_guess_controller_type vid pid =
     (case find_controller arrControllers (MAKE_CONTROLLER_ID vid pid) of
        None \<Rightarrow> CONTROLLER_TYPE_UnknownNonSteamController
      | Some (ty, _) \<Rightarrow> ty)"

definition uni_guess_controller_name :: "u16 \<Rightarrow> u16 \<Rightarrow> string option" where
  "uni_guess_controller_name vid pid =
     (case find_controller arrControllers (MAKE_CONTROLLER_ID vid pid) of
        None \<Rightarrow> None
      | Some (_, name) \<Rightarrow> name)"

section \<open>Lookups\<close>

lemma MAKE_CONTROLLER_ID_inj: "MAKE_CONTROLLER_ID v p = MAKE_CONTROLLER_ID v' p' \<longleftrightarrow> v = v' \<and> p = p'"
proof
  assume eq: "MAKE_CONTROLLER_ID v p = MAKE_CONTROLLER_ID v' p'"
  have b: "bit (MAKE_CONTROLLER_ID v p) (n + 16) = bit v n" for v p n
    by (auto simp: MAKE_CONTROLLER_ID_def bit_simps dest: bit_imp_le_length)
  have c: "n < 16 \<Longrightarrow> bit (MAKE_CONTROLLER_ID v p) n = bit p n" for v p n
    by (auto simp: MAKE_CONTROLLER_ID_def bit_simps dest: bit_imp_le_length)
  have "bit v n = bit v' n" for n using b [of v p n] b [of v' p' n] eq by simp
  moreover have "bit p n = bit p' n" if "n < 16" for n using c [of n v p] c [of n v' p'] that eq by simp
  ultimately show "v = v' \<and> p = p'" by (intro conjI bit_word_eqI) simp_all
qed simp

lemma MAKE_CONTROLLER_ID_split:
  "MAKE_CONTROLLER_ID vid pid = x \<longleftrightarrow> drop_bit 16 x = (ucast vid :: u32) \<and> x AND 0xffff = ucast pid"
proof -
  have m: "(0xffff :: u32) = mask 16" by (simp add: mask_eq_exp_minus_1)
  have l: "bit (MAKE_CONTROLLER_ID vid pid) n = (if n < 16 then bit pid n else bit vid (n - 16))" for n
    by (auto simp: MAKE_CONTROLLER_ID_def bit_simps dest: bit_imp_le_length)
  show ?thesis
  proof
    assume "MAKE_CONTROLLER_ID vid pid = x"
    moreover have "drop_bit 16 (MAKE_CONTROLLER_ID vid pid) = ucast vid"
      by (rule bit_word_eqI) (auto simp: bit_simps l dest: bit_imp_le_length)
    moreover have "MAKE_CONTROLLER_ID vid pid AND 0xffff = ucast pid"
      unfolding m by (rule bit_word_eqI) (auto simp: bit_simps l dest: bit_imp_le_length)
    ultimately show "drop_bit 16 x = ucast vid \<and> x AND 0xffff = ucast pid" by simp
  next
    assume x: "drop_bit 16 x = (ucast vid :: u32) \<and> x AND 0xffff = ucast pid"
    have "bit x n = (if n < 16 then bit pid n else bit vid (n - 16))" if "n < 32" for n
    proof (cases "n < 16")
      case True
      then have "bit x n = bit (x AND 0xffff) n" unfolding m by (simp add: bit_simps)
      with x True that show ?thesis by (simp add: bit_simps)
    next
      case False
      then have "bit x n = bit (drop_bit 16 x) (n - 16)" by (simp add: bit_simps)
      with x False that show ?thesis by (auto simp: bit_simps)
    qed
    then show "MAKE_CONTROLLER_ID vid pid = x" using l by (intro bit_word_eqI) auto
  qed
qed

lemma find_controller_append: "find_controller (xs @ ys) n = (case find_controller xs n of None \<Rightarrow> find_controller ys n | Some r \<Rightarrow> Some r)"
  by (induction xs) auto

lemma find_controller_skip: "v \<noteq> v' \<or> p \<noteq> p' \<Longrightarrow> find_controller ((MAKE_CONTROLLER_ID v' p', t) # cs) (MAKE_CONTROLLER_ID v p)
   = find_controller cs (MAKE_CONTROLLER_ID v p)"
  by (auto simp: MAKE_CONTROLLER_ID_inj)
lemma find_controller_hit: "find_controller ((MAKE_CONTROLLER_ID v p, t) # cs) (MAKE_CONTROLLER_ID v p) = Some t"
  by simp

lemma switch_pro_type: "uni_guess_controller_type 0x057e 0x2009 = CONTROLLER_TYPE_SwitchProController"
proof -
  have "find_controller cs (MAKE_CONTROLLER_ID 0x057e 0x2009) = None"
    if "cs = controllers_32_180 \<or> cs = controllers_181_330 \<or> cs = controllers_331_480" for cs
    using that unfolding controllers_32_180_def controllers_181_330_def controllers_331_480_def
    by (auto simp: find_controller_skip simp del: find_controller.simps(2))
  moreover have "find_controller controllers_481_630 (MAKE_CONTROLLER_ID 0x057e 0x2009)
      = Some (CONTROLLER_TYPE_SwitchProController, None)"
    unfolding controllers_481_630_def
    by (simp add: find_controller_skip find_controller_hit del: find_controller.simps(2))
  ultimately show ?thesis
    by (simp add: uni_guess_controller_type_def arrControllers_def find_controller_append)
qed

text \<open>The lookup of one model that later examples evaluate, as an equation for evaluation.\<close>

lemma uni_guess_code [code]: "uni_guess_controller_type vid pid =
   (if vid = 0x057e \<and> pid = 0x2009 then CONTROLLER_TYPE_SwitchProController
    else (case find_controller arrControllers (MAKE_CONTROLLER_ID vid pid) of
        None \<Rightarrow> CONTROLLER_TYPE_UnknownNonSteamController
      | Some (ty, _) \<Rightarrow> ty))"
  using switch_pro_type by (auto simp: uni_guess_controller_type_def)

text \<open>The lookup compares both ids completely: the type and the name of a vendor and product
  id are those of the first entry of the list whose vendor id and product id are both equal,
  and the answer is ``unknown'' and no name exactly when no entry has both.\<close>

theorem controller_lookup_exact:
  "case List.find (\<lambda>entry. drop_bit 16 (fst entry) = (ucast vid :: u32) \<and> fst entry AND 0xffff = ucast pid) arrControllers of
     None \<Rightarrow> uni_guess_controller_type vid pid = CONTROLLER_TYPE_UnknownNonSteamController
       \<and> uni_guess_controller_name vid pid = None
   | Some (_, ty, name) \<Rightarrow> uni_guess_controller_type vid pid = ty \<and> uni_guess_controller_name vid pid = name"
proof -
  have "find_controller cs (MAKE_CONTROLLER_ID vid pid)
      = map_option snd (List.find (\<lambda>entry. drop_bit 16 (fst entry) = (ucast vid :: u32)
          \<and> fst entry AND 0xffff = ucast pid) cs)" for cs
    by (induction cs) (auto simp: MAKE_CONTROLLER_ID_split)
  then show ?thesis
    by (auto simp: uni_guess_controller_type_def uni_guess_controller_name_def split: option.splits)
qed

end
