(* ===== verification/Hid_Device.thy ===== *)
theory Hid_Device
  imports Circular_Buffer Gamepad Controller_Type
begin

text \<open>
  The table of devices: \<^verbatim>\<open>components/bluepad32/uni_hid_device.c\<close>, with the connection
  record of \<^verbatim>\<open>bt/uni_bt_conn.c\<close> and the switch of \<^verbatim>\<open>uni_virtual_device.c\<close>. This theory
  holds the state, the lookups, the setters and the choice of the driver; the life cycle of
  a device is in the theory \<open>Hid_Lifecycle\<close>.

  A pointer into \<^verbatim>\<open>g_devices\<close> is the index of the slot. The functions that start with a
  \<^verbatim>\<open>NULL\<close> guard take the index of a slot; the lookups, which can give \<^verbatim>\<open>NULL\<close>, return an option.
  The pointers \<^verbatim>\<open>parent\<close> and \<^verbatim>\<open>child\<close> of a device are optional indices, and they are followed
  and left dangling as the code does. Log output is not modelled.
\<close>

section \<open>Connections\<close>

datatype uni_bt_conn_state =
    UNI_BT_CONN_STATE_DEVICE_NONE
  | UNI_BT_CONN_STATE_DEVICE_DISCOVERED
  | UNI_BT_CONN_STATE_REMOTE_NAME_REQUEST
  | UNI_BT_CONN_STATE_REMOTE_NAME_INQUIRED
  | UNI_BT_CONN_STATE_REMOTE_NAME_FETCHED
  | UNI_BT_CONN_STATE_SDP_VENDOR_REQUESTED
  | UNI_BT_CONN_STATE_SDP_VENDOR_FETCHED
  | UNI_BT_CONN_STATE_SDP_HID_DESCRIPTOR_REQUESTED
  | UNI_BT_CONN_STATE_SDP_HID_DESCRIPTOR_FETCHED
  | UNI_BT_CONN_STATE_L2CAP_CONTROL_CONNECTION_REQUESTED
  | UNI_BT_CONN_STATE_L2CAP_CONTROL_CONNECTED
  | UNI_BT_CONN_STATE_L2CAP_INTERRUPT_CONNECTION_REQUESTED
  | UNI_BT_CONN_STATE_L2CAP_INTERRUPT_CONNECTED
  | UNI_BT_CONN_STATE_DEVICE_PENDING_READY
  | UNI_BT_CONN_STATE_DEVICE_READY

datatype uni_bt_conn_protocol =
    UNI_BT_CONN_PROTOCOL_NONE | UNI_BT_CONN_PROTOCOL_BR_EDR | UNI_BT_CONN_PROTOCOL_BLE

definition UNI_BT_CONN_HANDLE_INVALID :: u16 where
  "UNI_BT_CONN_HANDLE_INVALID = 0xffff"

record uni_bt_conn =
  bc_btaddr :: bytes
  bc_handle :: u16
  bc_control_cid :: u16
  bc_interrupt_cid :: u16
  bc_page_scan_repetition_mode :: u8
  bc_clock_offset :: u16
  bc_rssi :: u8
  bc_incoming :: bool
  bc_connected :: bool
  bc_state :: uni_bt_conn_state
  bc_protocol :: uni_bt_conn_protocol

definition zero_addr :: bytes where
  "zero_addr = replicate 6 0"

definition zero_conn :: uni_bt_conn where
  "zero_conn =
     \<lparr>bc_btaddr = zero_addr, bc_handle = 0, bc_control_cid = 0, bc_interrupt_cid = 0,
      bc_page_scan_repetition_mode = 0, bc_clock_offset = 0, bc_rssi = 0, bc_incoming = False,
      bc_connected = False, bc_state = UNI_BT_CONN_STATE_DEVICE_NONE,
      bc_protocol = UNI_BT_CONN_PROTOCOL_NONE\<rparr>"

definition uni_bt_conn_init :: uni_bt_conn where
  "uni_bt_conn_init = zero_conn\<lparr>bc_handle := UNI_BT_CONN_HANDLE_INVALID\<rparr>"

definition uni_bt_conn_set_state :: "uni_bt_conn_state \<Rightarrow> uni_bt_conn \<Rightarrow> uni_bt_conn" where
  "uni_bt_conn_set_state state c = c\<lparr>bc_state := state\<rparr>"

definition uni_bt_conn_set_protocol :: "uni_bt_conn_protocol \<Rightarrow> uni_bt_conn \<Rightarrow> uni_bt_conn" where
  "uni_bt_conn_set_protocol protocol c = c\<lparr>bc_protocol := protocol\<rparr>"

definition uni_bt_conn_set_connected :: "bool \<Rightarrow> uni_bt_conn \<Rightarrow> uni_bt_conn" where
  "uni_bt_conn_set_connected connected c =
     (if bc_connected c = connected then c else c\<lparr>bc_connected := connected\<rparr>)"

definition uni_bt_conn_disconnect :: "uni_bt_conn \<Rightarrow> uni_bt_conn" where
  "uni_bt_conn_disconnect c = uni_bt_conn_set_connected False c"

section \<open>Devices\<close>

text \<open>
  The function pointers of \<^verbatim>\<open>uni_report_parser_t\<close>: each is absent or belongs to one of the
  drivers, so a field names the driver whose function it holds.
\<close>

datatype parser_driver =
    Icade | Ouya | Xboxone | Android | Stadia | Nimbus | Smarttvremote | Psmove | Ds3 | Ds4 | Ds5
  | Eightbitdo | Generic | Wii | Switch | Steam | Atari | Mouse | Keyboard

record uni_report_parser =
  rv_setup :: "parser_driver option"
  rv_init_report :: "parser_driver option"
  rv_parse_usage :: "parser_driver option"
  rv_parse_input_report :: "parser_driver option"
  rv_parse_feature_report :: "parser_driver option"
  rv_set_player_leds :: "parser_driver option"
  rv_set_lightbar_color :: "parser_driver option"
  rv_play_dual_rumble :: "parser_driver option"
  rv_device_dump :: "parser_driver option"

definition no_parser :: uni_report_parser where
  "no_parser =
     \<lparr>rv_setup = None, rv_init_report = None, rv_parse_usage = None, rv_parse_input_report = None,
      rv_parse_feature_report = None, rv_set_player_leds = None, rv_set_lightbar_color = None,
      rv_play_dual_rumble = None, rv_device_dump = None\<rparr>"

datatype uni_controller_subtype =
    CONTROLLER_SUBTYPE_NONE
  | CONTROLLER_SUBTYPE_WIIMOTE_HORIZONTAL
  | CONTROLLER_SUBTYPE_WIIMOTE_VERTICAL
  | CONTROLLER_SUBTYPE_WIIMOTE_ACCEL
  | CONTROLLER_SUBTYPE_WIIMOTE_NUNCHUK
  | CONTROLLER_SUBTYPE_UNUSED_00
  | CONTROLLER_SUBTYPE_WIIMOTE_NUNCHUK_ACCEL
  | CONTROLLER_SUBTYPE_WII_CLASSIC
  | CONTROLLER_SUBTYPE_WIIUPRO
  | CONTROLLER_SUBTYPE_WII_BALANCE_BOARD
  | CONTROLLER_SUBTYPE_WIIMOTE_UDRAW_TABLET
  | CONTROLLER_SUBTYPE_EXAMPLE_OF_NEW_GAMEPAD

datatype uni_sdp_query_type = SDP_QUERY_AFTER_CONNECT | SDP_QUERY_BEFORE_CONNECT | SDP_QUERY_NOT_NEEDED

definition FLAGS_HAS_COD :: u32 where "FLAGS_HAS_COD = BIT 8"
definition FLAGS_HAS_NAME :: u32 where "FLAGS_HAS_NAME = BIT 9"
definition FLAGS_HAS_HID_DESCRIPTOR :: u32 where "FLAGS_HAS_HID_DESCRIPTOR = BIT 10"
definition FLAGS_HAS_VENDOR_ID :: u32 where "FLAGS_HAS_VENDOR_ID = BIT 11"
definition FLAGS_HAS_PRODUCT_ID :: u32 where "FLAGS_HAS_PRODUCT_ID = BIT 12"
definition FLAGS_HAS_CONTROLLER_TYPE :: u32 where "FLAGS_HAS_CONTROLLER_TYPE = BIT 13"

definition HID_MAX_NAME_LEN :: nat where "HID_MAX_NAME_LEN = 240"
definition HID_MAX_DESCRIPTOR_LEN :: nat where "HID_MAX_DESCRIPTOR_LEN = 512"
definition HID_DEVICE_CONNECTION_TIMEOUT_MS :: u32 where "HID_DEVICE_CONNECTION_TIMEOUT_MS = 20000"
definition INQUIRY_REMOTE_NAME_TIMEOUT_MS :: u32 where "INQUIRY_REMOTE_NAME_TIMEOUT_MS = 4500"
definition CONFIG_BLUEPAD32_MAX_DEVICES :: nat where "CONFIG_BLUEPAD32_MAX_DEVICES = 4"
definition MISC_BUTTON_DELAY_MS :: u32 where "MISC_BUTTON_DELAY_MS = 200"

text \<open>
  The instance data of the drivers, \<^verbatim>\<open>parser_data\<close>, is not part of the record: the drivers
  that are modelled keep their own state. \<open>hd_platform_data\<close> maps offsets to bytes. The three
  timers of a device are in the run loop, see below.
\<close>

record uni_hid_device =
  hd_cod :: u32
  hd_vendor_id :: u16
  hd_product_id :: u16
  hd_name :: bytes
  hd_flags :: u32
  hd_hid_descriptor :: bytes
  hd_hid_descriptor_len :: u16
  hd_sdp_query_type :: uni_sdp_query_type
  hd_hids_cid :: u16
  hd_controller_type :: uni_controller_type
  hd_controller_subtype :: uni_controller_subtype
  hd_controller :: uni_controller
  hd_report_parser :: uni_report_parser
  hd_misc_button_wait_release :: u32
  hd_misc_button_wait_delay :: u32
  hd_outgoing_buffer :: uni_circular_buffer
  hd_platform_data :: "nat \<Rightarrow> u8"
  hd_conn :: uni_bt_conn
  hd_parent :: "nat option"
  hd_child :: "nat option"

text \<open>All bytes zero, as \<^verbatim>\<open>memset\<close> leaves a device.\<close>

definition zero_device :: uni_hid_device where
  "zero_device =
     \<lparr>hd_cod = 0, hd_vendor_id = 0, hd_product_id = 0, hd_name = replicate HID_MAX_NAME_LEN 0,
      hd_flags = 0, hd_hid_descriptor = replicate HID_MAX_DESCRIPTOR_LEN 0,
      hd_hid_descriptor_len = 0, hd_sdp_query_type = SDP_QUERY_AFTER_CONNECT, hd_hids_cid = 0,
      hd_controller_type = CONTROLLER_TYPE_Unknown, hd_controller_subtype = CONTROLLER_SUBTYPE_NONE,
      hd_controller = zero_controller, hd_report_parser = no_parser,
      hd_misc_button_wait_release = 0, hd_misc_button_wait_delay = 0,
      hd_outgoing_buffer = zero_circular_buffer, hd_platform_data = (\<lambda>_. 0),
      hd_conn = zero_conn, hd_parent = None, hd_child = None\<rparr>"

text \<open>What \<^verbatim>\<open>uni_hid_device_init\<close> writes into a slot.\<close>

definition init_device :: uni_hid_device where
  "init_device = zero_device\<lparr>hd_hids_cid := 0xffff, hd_conn := uni_bt_conn_init\<rparr>"

definition uni_hid_device_is_virtual_device :: "uni_hid_device \<Rightarrow> bool" where
  "uni_hid_device_is_virtual_device d \<longleftrightarrow> hd_parent d \<noteq> None"

definition has_flag :: "u32 \<Rightarrow> uni_hid_device \<Rightarrow> bool" where
  "has_flag f d \<longleftrightarrow> hd_flags d AND f \<noteq> 0"

definition set_flag :: "u32 \<Rightarrow> uni_hid_device \<Rightarrow> uni_hid_device" where
  "set_flag f d = d\<lparr>hd_flags := hd_flags d OR f\<rparr>"

section \<open>Class of device\<close>

definition UNI_BT_COD_MAJOR_MASK :: u32 where "UNI_BT_COD_MAJOR_MASK = 0x1f00"
definition UNI_BT_COD_MAJOR_PERIPHERAL :: u32 where "UNI_BT_COD_MAJOR_PERIPHERAL = 0x0500"
definition UNI_BT_COD_MAJOR_AUDIO_VIDEO :: u32 where "UNI_BT_COD_MAJOR_AUDIO_VIDEO = 0x0400"
definition UNI_BT_COD_MINOR_MASK :: u32 where "UNI_BT_COD_MINOR_MASK = 0xfc"
definition UNI_BT_COD_MINOR_MICE :: u32 where "UNI_BT_COD_MINOR_MICE = 0x80"
definition UNI_BT_COD_MINOR_KEYBOARD :: u32 where "UNI_BT_COD_MINOR_KEYBOARD = 0x40"
definition UNI_BT_COD_MINOR_GAMEPAD :: u32 where "UNI_BT_COD_MINOR_GAMEPAD = 0x08"
definition UNI_BT_COD_MINOR_JOYSTICK :: u32 where "UNI_BT_COD_MINOR_JOYSTICK = 0x04"

lemmas cod_defs =
  UNI_BT_COD_MAJOR_MASK_def UNI_BT_COD_MAJOR_PERIPHERAL_def UNI_BT_COD_MAJOR_AUDIO_VIDEO_def
  UNI_BT_COD_MINOR_MASK_def UNI_BT_COD_MINOR_MICE_def UNI_BT_COD_MINOR_KEYBOARD_def
  UNI_BT_COD_MINOR_GAMEPAD_def UNI_BT_COD_MINOR_JOYSTICK_def

definition uni_hid_device_is_cod_supported :: "u32 \<Rightarrow> bool" where
  "uni_hid_device_is_cod_supported cod =
     (let minor_cod = cod AND UNI_BT_COD_MINOR_MASK in
      if cod AND UNI_BT_COD_MAJOR_MASK = UNI_BT_COD_MAJOR_PERIPHERAL
      then minor_cod AND (UNI_BT_COD_MINOR_MICE OR UNI_BT_COD_MINOR_KEYBOARD OR UNI_BT_COD_MINOR_GAMEPAD
             OR UNI_BT_COD_MINOR_JOYSTICK) \<noteq> 0
      else if cod AND UNI_BT_COD_MAJOR_MASK = UNI_BT_COD_MAJOR_AUDIO_VIDEO then cod = 0x400408
      else False)"

definition uni_hid_device_is_mouse :: "uni_hid_device \<Rightarrow> bool" where
  "uni_hid_device_is_mouse d =
     (let mouse_cod = UNI_BT_COD_MAJOR_PERIPHERAL OR UNI_BT_COD_MINOR_MICE
      in hd_cod d AND mouse_cod = mouse_cod)"

definition uni_hid_device_is_keyboard :: "uni_hid_device \<Rightarrow> bool" where
  "uni_hid_device_is_keyboard d =
     (let keyboard_cod = UNI_BT_COD_MAJOR_PERIPHERAL OR UNI_BT_COD_MINOR_KEYBOARD
      in hd_cod d AND keyboard_cod = keyboard_cod)"

definition uni_hid_device_is_gamepad :: "uni_hid_device \<Rightarrow> bool" where
  "uni_hid_device_is_gamepad d =
     (let gamepad_cod = UNI_BT_COD_MINOR_GAMEPAD OR UNI_BT_COD_MINOR_JOYSTICK
      in hd_cod d AND UNI_BT_COD_MAJOR_PERIPHERAL \<noteq> 0 \<and> hd_cod d AND gamepad_cod \<noteq> 0)"

datatype uni_error =
    UNI_ERROR_SUCCESS
  | UNI_ERROR_INVALID_DEVICE
  | UNI_ERROR_INVALID_CONTROLLER
  | UNI_ERROR_NO_SLOTS
  | UNI_ERROR_INIT_FAILED
  | UNI_ERROR_IGNORE_DEVICE

text \<open>
  \<open>allowed\<close> is the answer of the allow list, \<open>platform_choice\<close> the optional callback of the
  platform. The class of device arrives in a 16-bit parameter.
\<close>

definition uni_hid_device_on_device_discovered ::
    "(bytes \<Rightarrow> bool) \<Rightarrow> (bytes \<Rightarrow> u16 \<Rightarrow> u8 \<Rightarrow> uni_error) option \<Rightarrow> bytes \<Rightarrow> u16 \<Rightarrow> u8 \<Rightarrow> uni_error" where
  "uni_hid_device_on_device_discovered allowed platform_choice addr cod rssi =
     (if \<not> allowed addr then UNI_ERROR_IGNORE_DEVICE
      else if rssi < 255 - 100 then UNI_ERROR_IGNORE_DEVICE
      else if \<not> uni_hid_device_is_cod_supported (ucast cod) then UNI_ERROR_IGNORE_DEVICE
      else (case platform_choice of
              Some on_device_discovered \<Rightarrow> on_device_discovered addr cod rssi
            | None \<Rightarrow> UNI_ERROR_SUCCESS))"

section \<open>Setters\<close>

definition uni_hid_device_set_cod :: "u32 \<Rightarrow> uni_hid_device \<Rightarrow> uni_hid_device" where
  "uni_hid_device_set_cod cod d =
     (let d1 = d\<lparr>hd_cod := cod\<rparr>
      in if cod = 0 then d1\<lparr>hd_flags := hd_flags d1 AND NOT FLAGS_HAS_COD\<rparr>
         else set_flag FLAGS_HAS_COD d1)"

definition uni_hid_device_set_incoming :: "bool \<Rightarrow> uni_hid_device \<Rightarrow> uni_hid_device" where
  "uni_hid_device_set_incoming incoming d = d\<lparr>hd_conn := (hd_conn d)\<lparr>bc_incoming := incoming\<rparr>\<rparr>"

definition uni_hid_device_set_connection_handle :: "u16 \<Rightarrow> uni_hid_device \<Rightarrow> uni_hid_device" where
  "uni_hid_device_set_connection_handle handle d = d\<lparr>hd_conn := (hd_conn d)\<lparr>bc_handle := handle\<rparr>\<rparr>"

text \<open>C strings: the bytes before the first zero.\<close>

definition c_string :: "bytes \<Rightarrow> bytes" where
  "c_string bs = takeWhile (\<lambda>b. b \<noteq> 0) bs"

definition strncpy :: "nat \<Rightarrow> bytes \<Rightarrow> bytes" where
  "strncpy n src = (let s = take n (c_string src) in s @ replicate (n - length s) 0)"

definition strncmp_eq :: "nat \<Rightarrow> bytes \<Rightarrow> bytes \<Rightarrow> bool" where
  "strncmp_eq n a b \<longleftrightarrow> take n (c_string a @ [0]) = take n (c_string b @ [0])"

definition ascii :: "string \<Rightarrow> bytes" where
  "ascii s = map of_char s"

definition uni_hid_device_set_name :: "bytes \<Rightarrow> uni_hid_device \<Rightarrow> uni_hid_device" where
  "uni_hid_device_set_name name d =
     set_flag FLAGS_HAS_NAME (d\<lparr>hd_name := strncpy (HID_MAX_NAME_LEN - 1) name @ [0]\<rparr>)"

definition uni_hid_device_has_name :: "uni_hid_device \<Rightarrow> bool" where
  "uni_hid_device_has_name d = has_flag FLAGS_HAS_NAME d"

text \<open>The length is clipped, the copy is not: a longer descriptor is written past the array.\<close>

definition uni_hid_device_set_hid_descriptor :: "bytes \<Rightarrow> uni_hid_device \<Rightarrow> uni_hid_device cres" where
  "uni_hid_device_set_hid_descriptor descriptor d =
     (if HID_MAX_DESCRIPTOR_LEN < length descriptor then Inl Out_of_bounds
      else Inr (set_flag FLAGS_HAS_HID_DESCRIPTOR
             (d\<lparr>hd_hid_descriptor := descriptor @ drop (length descriptor) (hd_hid_descriptor d),
                hd_hid_descriptor_len := of_nat (min HID_MAX_DESCRIPTOR_LEN (length descriptor))\<rparr>)))"

definition uni_hid_device_has_hid_descriptor :: "uni_hid_device \<Rightarrow> bool" where
  "uni_hid_device_has_hid_descriptor d = has_flag FLAGS_HAS_HID_DESCRIPTOR d"

definition uni_hid_device_set_product_id :: "u16 \<Rightarrow> uni_hid_device \<Rightarrow> uni_hid_device" where
  "uni_hid_device_set_product_id product_id d =
     set_flag FLAGS_HAS_PRODUCT_ID (d\<lparr>hd_product_id := product_id\<rparr>)"

definition uni_hid_device_set_vendor_id :: "u16 \<Rightarrow> uni_hid_device \<Rightarrow> uni_hid_device" where
  "uni_hid_device_set_vendor_id vendor_id d =
     (if vendor_id = 0 then d
      else set_flag FLAGS_HAS_VENDOR_ID (d\<lparr>hd_vendor_id := vendor_id\<rparr>))"

definition uni_hid_device_has_controller_type :: "uni_hid_device \<Rightarrow> bool" where
  "uni_hid_device_has_controller_type d = has_flag FLAGS_HAS_CONTROLLER_TYPE d"

definition uni_hid_device_does_require_hid_descriptor :: "uni_hid_device \<Rightarrow> bool" where
  "uni_hid_device_does_require_hid_descriptor d \<longleftrightarrow> rv_parse_usage (hd_report_parser d) \<noteq> None"

section \<open>The choice of the driver\<close>

definition XBOX_WIRELESS_VID :: u16 where "XBOX_WIRELESS_VID = 0x045e"
definition XBOX_WIRELESS_PID :: u16 where "XBOX_WIRELESS_PID = 0x02e0"
definition UNI_HID_PARSER_STADIA_VID :: u16 where "UNI_HID_PARSER_STADIA_VID = 0x18d1"
definition UNI_HID_PARSER_STADIA_PID :: u16 where "UNI_HID_PARSER_STADIA_PID = 0x9400"

definition xbox_hid_descriptor_4_8_fw :: bytes where
  "xbox_hid_descriptor_4_8_fw = [
     0x05, 0x01, 0x09, 0x05, 0xa1, 0x01, 0x85, 0x01, 0x09, 0x01, 0xa1, 0x00, 0x09, 0x30, 0x09, 0x31,
     0x15, 0x00, 0x27, 0xff, 0xff, 0x00, 0x00, 0x95, 0x02, 0x75, 0x10, 0x81, 0x02, 0xc0, 0x09, 0x01,
     0xa1, 0x00, 0x09, 0x32, 0x09, 0x35, 0x15, 0x00, 0x27, 0xff, 0xff, 0x00, 0x00, 0x95, 0x02, 0x75,
     0x10, 0x81, 0x02, 0xc0, 0x05, 0x02, 0x09, 0xc5, 0x15, 0x00, 0x26, 0xff, 0x03, 0x95, 0x01, 0x75,
     0x0a, 0x81, 0x02, 0x15, 0x00, 0x25, 0x00, 0x75, 0x06, 0x95, 0x01, 0x81, 0x03, 0x05, 0x02, 0x09,
     0xc4, 0x15, 0x00, 0x26, 0xff, 0x03, 0x95, 0x01, 0x75, 0x0a, 0x81, 0x02, 0x15, 0x00, 0x25, 0x00,
     0x75, 0x06, 0x95, 0x01, 0x81, 0x03, 0x05, 0x01, 0x09, 0x39, 0x15, 0x01, 0x25, 0x08, 0x35, 0x00,
     0x46, 0x3b, 0x01, 0x66, 0x14, 0x00, 0x75, 0x04, 0x95, 0x01, 0x81, 0x42, 0x75, 0x04, 0x95, 0x01,
     0x15, 0x00, 0x25, 0x00, 0x35, 0x00, 0x45, 0x00, 0x65, 0x00, 0x81, 0x03, 0x05, 0x09, 0x19, 0x01,
     0x29, 0x0f, 0x15, 0x00, 0x25, 0x01, 0x75, 0x01, 0x95, 0x0f, 0x81, 0x02, 0x15, 0x00, 0x25, 0x00,
     0x75, 0x01, 0x95, 0x01, 0x81, 0x03, 0x05, 0x0c, 0x0a, 0x24, 0x02, 0x15, 0x00, 0x25, 0x01, 0x95,
     0x01, 0x75, 0x01, 0x81, 0x02, 0x15, 0x00, 0x25, 0x00, 0x75, 0x07, 0x95, 0x01, 0x81, 0x03, 0x05,
     0x0c, 0x09, 0x01, 0x85, 0x02, 0xa1, 0x01, 0x05, 0x0c, 0x0a, 0x23, 0x02, 0x15, 0x00, 0x25, 0x01,
     0x95, 0x01, 0x75, 0x01, 0x81, 0x02, 0x15, 0x00, 0x25, 0x00, 0x75, 0x07, 0x95, 0x01, 0x81, 0x03,
     0xc0, 0x05, 0x0f, 0x09, 0x21, 0x85, 0x03, 0xa1, 0x02, 0x09, 0x97, 0x15, 0x00, 0x25, 0x01, 0x75,
     0x04, 0x95, 0x01, 0x91, 0x02, 0x15, 0x00, 0x25, 0x00, 0x75, 0x04, 0x95, 0x01, 0x91, 0x03, 0x09,
     0x70, 0x15, 0x00, 0x25, 0x64, 0x75, 0x08, 0x95, 0x04, 0x91, 0x02, 0x09, 0x50, 0x66, 0x01, 0x10,
     0x55, 0x0e, 0x15, 0x00, 0x26, 0xff, 0x00, 0x75, 0x08, 0x95, 0x01, 0x91, 0x02, 0x09, 0xa7, 0x15,
     0x00, 0x26, 0xff, 0x00, 0x75, 0x08, 0x95, 0x01, 0x91, 0x02, 0x65, 0x00, 0x55, 0x00, 0x09, 0x7c,
     0x15, 0x00, 0x26, 0xff, 0x00, 0x75, 0x08, 0x95, 0x01, 0x91, 0x02, 0xc0, 0x05, 0x06, 0x09, 0x20,
     0x85, 0x04, 0x15, 0x00, 0x26, 0xff, 0x00, 0x75, 0x08, 0x95, 0x01, 0x81, 0x02, 0xc0]"

definition uni_hid_parser_xboxone_does_name_match :: "uni_hid_device \<Rightarrow> bytes \<Rightarrow> (bool \<times> uni_hid_device) cres" where
  "uni_hid_parser_xboxone_does_name_match d name =
     (if \<not> strncmp_eq 25 (ascii ''Xbox Wireless Controller'') name then Inr (False, d)
      else mapR (\<lambda>d'. (True, d'))
             (uni_hid_device_set_hid_descriptor xbox_hid_descriptor_4_8_fw
               (uni_hid_device_set_product_id XBOX_WIRELESS_PID
                 (uni_hid_device_set_vendor_id XBOX_WIRELESS_VID d))))"

definition switch_parser :: uni_report_parser where
  "switch_parser =
     no_parser\<lparr>rv_setup := Some Switch, rv_init_report := Some Switch,
       rv_parse_input_report := Some Switch, rv_set_player_leds := Some Switch,
       rv_play_dual_rumble := Some Switch, rv_device_dump := Some Switch\<rparr>"

definition report_parser_for ::
    "uni_controller_type \<Rightarrow> u16 \<Rightarrow> u16 \<Rightarrow> uni_report_parser" where
  "report_parser_for ty vendor_id product_id =
     (case ty of
        CONTROLLER_TYPE_iCadeController \<Rightarrow>
          no_parser\<lparr>rv_setup := Some Icade, rv_parse_usage := Some Icade\<rparr>
      | CONTROLLER_TYPE_OUYAController \<Rightarrow>
          no_parser\<lparr>rv_init_report := Some Ouya, rv_parse_usage := Some Ouya,
            rv_set_player_leds := Some Ouya\<rparr>
      | CONTROLLER_TYPE_XBoxOneController \<Rightarrow>
          no_parser\<lparr>rv_setup := Some Xboxone, rv_init_report := Some Xboxone,
            rv_parse_usage := Some Xboxone, rv_play_dual_rumble := Some Xboxone,
            rv_device_dump := Some Xboxone\<rparr>
      | CONTROLLER_TYPE_AndroidController \<Rightarrow>
          (let rp = no_parser\<lparr>rv_init_report := Some Android, rv_parse_usage := Some Android,
                      rv_set_player_leds := Some Android\<rparr>
           in if vendor_id = UNI_HID_PARSER_STADIA_VID \<and> product_id = UNI_HID_PARSER_STADIA_PID
              then rp\<lparr>rv_setup := Some Stadia, rv_play_dual_rumble := Some Stadia\<rparr> else rp)
      | CONTROLLER_TYPE_NimbusController \<Rightarrow>
          no_parser\<lparr>rv_init_report := Some Nimbus, rv_parse_usage := Some Nimbus,
            rv_set_player_leds := Some Nimbus\<rparr>
      | CONTROLLER_TYPE_SmartTVRemoteController \<Rightarrow>
          no_parser\<lparr>rv_init_report := Some Smarttvremote, rv_parse_usage := Some Smarttvremote\<rparr>
      | CONTROLLER_TYPE_PSMoveController \<Rightarrow>
          no_parser\<lparr>rv_setup := Some Psmove, rv_init_report := Some Psmove,
            rv_parse_input_report := Some Psmove, rv_set_lightbar_color := Some Psmove,
            rv_play_dual_rumble := Some Psmove\<rparr>
      | CONTROLLER_TYPE_PS3Controller \<Rightarrow>
          no_parser\<lparr>rv_setup := Some Ds3, rv_init_report := Some Ds3,
            rv_parse_input_report := Some Ds3, rv_set_player_leds := Some Ds3,
            rv_play_dual_rumble := Some Ds3\<rparr>
      | CONTROLLER_TYPE_PS4Controller \<Rightarrow>
          no_parser\<lparr>rv_setup := Some Ds4, rv_init_report := Some Ds4,
            rv_parse_input_report := Some Ds4, rv_parse_feature_report := Some Ds4,
            rv_set_lightbar_color := Some Ds4, rv_play_dual_rumble := Some Ds4,
            rv_device_dump := Some Ds4\<rparr>
      | CONTROLLER_TYPE_PS5Controller \<Rightarrow>
          no_parser\<lparr>rv_init_report := Some Ds5, rv_setup := Some Ds5,
            rv_parse_input_report := Some Ds5, rv_parse_feature_report := Some Ds5,
            rv_set_player_leds := Some Ds5, rv_set_lightbar_color := Some Ds5,
            rv_play_dual_rumble := Some Ds5, rv_device_dump := Some Ds5\<rparr>
      | CONTROLLER_TYPE_8BitdoController \<Rightarrow>
          no_parser\<lparr>rv_init_report := Some Eightbitdo, rv_parse_usage := Some Eightbitdo\<rparr>
      | CONTROLLER_TYPE_GenericController \<Rightarrow>
          no_parser\<lparr>rv_init_report := Some Generic, rv_parse_usage := Some Generic\<rparr>
      | CONTROLLER_TYPE_WiiController \<Rightarrow>
          no_parser\<lparr>rv_setup := Some Wii, rv_init_report := Some Wii,
            rv_parse_input_report := Some Wii, rv_set_player_leds := Some Wii,
            rv_play_dual_rumble := Some Wii, rv_device_dump := Some Wii\<rparr>
      | CONTROLLER_TYPE_SwitchProController \<Rightarrow> switch_parser
      | CONTROLLER_TYPE_SwitchJoyConRight \<Rightarrow> switch_parser
      | CONTROLLER_TYPE_SwitchJoyConLeft \<Rightarrow> switch_parser
      | CONTROLLER_TYPE_SteamController \<Rightarrow>
          no_parser\<lparr>rv_setup := Some Steam, rv_init_report := Some Steam,
            rv_parse_input_report := Some Steam\<rparr>
      | CONTROLLER_TYPE_AtariJoystick \<Rightarrow>
          no_parser\<lparr>rv_setup := Some Atari, rv_init_report := Some Atari,
            rv_parse_input_report := Some Atari\<rparr>
      | CONTROLLER_TYPE_GenericMouse \<Rightarrow>
          no_parser\<lparr>rv_setup := Some Mouse, rv_parse_input_report := Some Mouse,
            rv_init_report := Some Mouse, rv_parse_usage := Some Mouse, rv_device_dump := Some Mouse\<rparr>
      | CONTROLLER_TYPE_GenericKeyboard \<Rightarrow>
          no_parser\<lparr>rv_setup := Some Keyboard, rv_parse_input_report := Some Keyboard,
            rv_init_report := Some Keyboard, rv_parse_usage := Some Keyboard,
            rv_device_dump := Some Keyboard\<rparr>
      | _ \<Rightarrow> no_parser\<lparr>rv_init_report := Some Generic, rv_parse_usage := Some Generic\<rparr>)"

definition unknown_type :: "uni_controller_type \<Rightarrow> bool" where
  "unknown_type ty \<longleftrightarrow> ty = CONTROLLER_TYPE_Unknown \<or> ty = CONTROLLER_TYPE_UnknownNonSteamController
     \<or> ty = CONTROLLER_TYPE_UnknownSteamController"

definition guess_unknown :: "uni_hid_device \<Rightarrow> (uni_controller_type \<times> uni_hid_device) cres" where
  "guess_unknown d =
     (if uni_hid_device_is_mouse d then Inr (CONTROLLER_TYPE_GenericMouse, d)
      else if uni_hid_device_is_keyboard d then Inr (CONTROLLER_TYPE_GenericKeyboard, d)
      else mapR (\<lambda>(match, d'). (if match then CONTROLLER_TYPE_XBoxOneController
                                 else CONTROLLER_TYPE_AndroidController, d'))
             (uni_hid_parser_xboxone_does_name_match d (hd_name d)))"

definition uni_hid_device_guess_controller_type_from_pid_vid :: "uni_hid_device \<Rightarrow> uni_hid_device cres" where
  "uni_hid_device_guess_controller_type_from_pid_vid d =
     (if uni_hid_device_has_controller_type d then Inr d
      else
        let guessed = uni_guess_controller_type (hd_vendor_id d) (hd_product_id d)
        in mapR (\<lambda>(ty, d1).
             set_flag FLAGS_HAS_CONTROLLER_TYPE
               (d1\<lparr>hd_controller_subtype := CONTROLLER_SUBTYPE_NONE,
                   hd_report_parser := report_parser_for ty (hd_vendor_id d1) (hd_product_id d1),
                   hd_controller_type := ty\<rparr>))
             (if unknown_type guessed then guess_unknown d else Inr (guessed, d)))"

section \<open>The world of the device code\<close>

text \<open>
  The timers are those of the run loop: \<open>hw_timers w (i, t)\<close> is the timeout in milliseconds
  with which the timer \<open>t\<close> of slot \<open>i\<close> is registered. Three timers are fields of the device; those
  of its driver lie in \<^verbatim>\<open>parser_data\<close>, inside the device too: every driver that can rumble has the
  two of a rumble, the driver of the Switch has one for its set-up. \<open>hw_calls\<close> records, in order, the
  calls to code outside this model. \<open>hw_platform\<close> is the state of the platform.
\<close>

datatype driver_timer = Rumble_timer_duration | Rumble_timer_delayed_start | Setup_timer

datatype device_timer = Connection_timer | Inquiry_timer | Misc_button_timer | Parser_timer driver_timer

definition device_timers :: "device_timer list" where
  "device_timers = [Connection_timer, Inquiry_timer, Misc_button_timer, Parser_timer Rumble_timer_duration,
     Parser_timer Rumble_timer_delayed_start, Parser_timer Setup_timer]"

lemma set_device_timers [simp]: "set device_timers = UNIV"
proof -
  have "t \<in> set device_timers" for t
  proof (cases t)
    case (Parser_timer r)
    then show ?thesis by (cases r) (simp_all add: device_timers_def)
  qed (simp_all add: device_timers_def)
  then show ?thesis by blast
qed

datatype hid_call =
    Driver_setup parser_driver nat
  | Driver_set_player_leds parser_driver nat u8
  | Driver_set_lightbar_color parser_driver nat u8 u8 u8
  | Driver_play_dual_rumble parser_driver nat u16 u16 u8 u8
  | Service_on_connected nat
  | Service_on_disconnected nat
  | Service_on_ready nat
  | Oob_system_button nat
  | Hids_client_disconnect u16
  | Gap_disconnect u16
  | L2cap_disconnect u16
  | Resume_scanning_hint
  | L2cap_send u16 bytes
  | L2cap_request_can_send_now u16
  | Bt_disconnect_device_safe nat
  | Bt_del_keys_safe
  | Property_set_virtual_device bool

record 'p hid_world =
  hw_devices :: "uni_hid_device list"
  hw_timers :: "nat \<times> device_timer \<Rightarrow> u32 option"
  hw_virtual_device_enabled :: bool
  hw_mappings :: mappings_state
  hw_platform :: 'p
  hw_calls :: "hid_call list"

definition dev :: "'p hid_world \<Rightarrow> nat \<Rightarrow> uni_hid_device" where
  "dev w i = hw_devices w ! i"

definition upd_dev :: "nat \<Rightarrow> (uni_hid_device \<Rightarrow> uni_hid_device) \<Rightarrow> 'p hid_world \<Rightarrow> 'p hid_world" where
  "upd_dev i f w = w\<lparr>hw_devices := (hw_devices w)[i := f (hw_devices w ! i)]\<rparr>"

definition upd_conn :: "nat \<Rightarrow> (uni_bt_conn \<Rightarrow> uni_bt_conn) \<Rightarrow> 'p hid_world \<Rightarrow> 'p hid_world" where
  "upd_conn i f w = upd_dev i (\<lambda>d. d\<lparr>hd_conn := f (hd_conn d)\<rparr>) w"

definition call :: "hid_call \<Rightarrow> 'p hid_world \<Rightarrow> 'p hid_world" where
  "call c w = w\<lparr>hw_calls := hw_calls w @ [c]\<rparr>"

definition is_free :: "'p hid_world \<Rightarrow> nat \<Rightarrow> bool" where
  "is_free w i \<longleftrightarrow> bc_btaddr (hd_conn (dev w i)) = zero_addr"

definition slots :: "nat list" where
  "slots = [0..<CONFIG_BLUEPAD32_MAX_DEVICES]"

section \<open>Lookups\<close>

definition uni_hid_device_get_instance_for_address :: "bytes \<Rightarrow> 'p hid_world \<Rightarrow> nat option" where
  "uni_hid_device_get_instance_for_address addr w =
     List.find (\<lambda>i. \<not> uni_hid_device_is_virtual_device (dev w i) \<and> addr = bc_btaddr (hd_conn (dev w i))) slots"

definition uni_hid_device_get_instance_for_cid :: "u16 \<Rightarrow> 'p hid_world \<Rightarrow> nat option" where
  "uni_hid_device_get_instance_for_cid cid w =
     (if cid = 0 then None
      else List.find (\<lambda>i. bc_interrupt_cid (hd_conn (dev w i)) = cid
                          \<or> bc_control_cid (hd_conn (dev w i)) = cid) slots)"

definition uni_hid_device_get_instance_for_hids_cid :: "u16 \<Rightarrow> 'p hid_world \<Rightarrow> nat option" where
  "uni_hid_device_get_instance_for_hids_cid cid w =
     (if cid = 0 then None else List.find (\<lambda>i. hd_hids_cid (dev w i) = cid) slots)"

definition uni_hid_device_get_instance_for_connection_handle :: "u16 \<Rightarrow> 'p hid_world \<Rightarrow> nat option" where
  "uni_hid_device_get_instance_for_connection_handle handle w =
     (if handle = UNI_BT_CONN_HANDLE_INVALID then None
      else List.find (\<lambda>i. bc_handle (hd_conn (dev w i)) = handle) slots)"

definition uni_hid_device_get_instance_with_predicate ::
    "(uni_hid_device \<Rightarrow> bool) \<Rightarrow> 'p hid_world \<Rightarrow> nat option" where
  "uni_hid_device_get_instance_with_predicate predicate w =
     List.find (\<lambda>i. bc_state (hd_conn (dev w i)) = UNI_BT_CONN_STATE_DEVICE_READY
                    \<and> predicate (dev w i)) slots"

definition uni_hid_device_get_instance_for_idx :: "int \<Rightarrow> nat option" where
  "uni_hid_device_get_instance_for_idx idx =
     (if idx < 0 \<or> int CONFIG_BLUEPAD32_MAX_DEVICES \<le> idx then None else Some (nat idx))"

definition uni_hid_device_get_first_device_with_state :: "uni_bt_conn_state \<Rightarrow> 'p hid_world \<Rightarrow> nat option" where
  "uni_hid_device_get_first_device_with_state state w =
     List.find (\<lambda>i. \<not> is_free w i \<and> bc_state (hd_conn (dev w i)) = state) slots"

definition uni_hid_device_request_inquire :: "'p hid_world \<Rightarrow> 'p hid_world" where
  "uni_hid_device_request_inquire w =
     w\<lparr>hw_devices := map (\<lambda>d. if bc_state (hd_conn d) = UNI_BT_CONN_STATE_REMOTE_NAME_INQUIRED
         then d\<lparr>hd_conn := uni_bt_conn_set_state UNI_BT_CONN_STATE_REMOTE_NAME_REQUEST (hd_conn d)\<rparr>
         else d) (hw_devices w)\<rparr>"

end
