(* ===== verification/Hid_Lifecycle.thy ===== *)
theory Hid_Lifecycle
  imports Hid_Device
begin

text \<open>
  The life cycle of a device in \<^verbatim>\<open>components/bluepad32/uni_hid_device.c\<close>: creation, connection,
  the accepted or declined set-up, input reports, the connection timeout, disconnection and
  deletion. The platform is a record of callbacks, as \<^verbatim>\<open>struct uni_platform\<close> is; the locale
  \<open>hid_platform\<close> is the contract a platform has to meet, and its lemmas say which events, in which
  states, are the only ones that break the table. \<^verbatim>\<open>gap\<close> is the answer of \<^verbatim>\<open>gap_get_connection_type\<close>.
\<close>

section \<open>Platform, run loop, slots\<close>

record 'p uni_platform =
  pl_on_device_connected :: "nat \<Rightarrow> 'p hid_world \<Rightarrow> 'p hid_world"
  pl_on_device_disconnected :: "nat \<Rightarrow> 'p hid_world \<Rightarrow> 'p hid_world"
  pl_on_device_ready :: "nat \<Rightarrow> 'p hid_world \<Rightarrow> uni_error \<times> 'p hid_world"
  pl_on_gamepad_data :: "(nat \<Rightarrow> 'p hid_world \<Rightarrow> 'p hid_world) option"
  pl_on_controller_data :: "(nat \<Rightarrow> 'p hid_world \<Rightarrow> 'p hid_world) option"

datatype gap_connection_type =
    GAP_CONNECTION_INVALID | GAP_CONNECTION_ACL | GAP_CONNECTION_SCO | GAP_CONNECTION_LE

type_synonym gap_types = "u16 \<Rightarrow> gap_connection_type"

definition run_loop_add_timer :: "nat \<times> device_timer \<Rightarrow> u32 \<Rightarrow> 'p hid_world \<Rightarrow> 'p hid_world cres" where
  "run_loop_add_timer t ms w =
     (if hw_timers w t \<noteq> None then Inl Assertion_failed
      else Inr (w\<lparr>hw_timers := (hw_timers w)(t := Some ms)\<rparr>))"

definition run_loop_remove_timer :: "nat \<times> device_timer \<Rightarrow> 'p hid_world \<Rightarrow> 'p hid_world" where
  "run_loop_remove_timer t w = w\<lparr>hw_timers := (hw_timers w)(t := None)\<rparr>"

text \<open>
  Overwriting a slot also overwrites its timers, those of the driver included. One that is still
  linked in the list of the run loop would cut the list off: this is an error of the model.
\<close>

definition overwrite_slot :: "uni_hid_device \<Rightarrow> nat \<Rightarrow> 'p hid_world \<Rightarrow> 'p hid_world cres" where
  "overwrite_slot d i w =
     (if list_ex (\<lambda>t. hw_timers w (i, t) \<noteq> None) device_timers
      then Inl Registered_timer_cleared
      else Inr (upd_dev i (\<lambda>_. d) w))"

lemma overwrite_slot_eq:
  "overwrite_slot d i w = (if \<forall>t. hw_timers w (i, t) = None then Inr (upd_dev i (\<lambda>_. d) w)
     else Inl Registered_timer_cleared)"
  by (simp add: overwrite_slot_def list_ex_iff)

definition uni_hid_device_init :: "nat \<Rightarrow> 'p hid_world \<Rightarrow> 'p hid_world cres" where
  "uni_hid_device_init i w = overwrite_slot init_device i w"

definition uni_hid_device_setup :: "'p hid_world \<Rightarrow> 'p hid_world cres" where
  "uni_hid_device_setup w = run_steps uni_hid_device_init slots w"

definition start_connection_timeout :: "nat \<Rightarrow> 'p hid_world \<Rightarrow> 'p hid_world cres" where
  "start_connection_timeout i w =
     run_loop_add_timer (i, Connection_timer) HID_DEVICE_CONNECTION_TIMEOUT_MS w"

definition uni_hid_device_create :: "bytes \<Rightarrow> 'p hid_world \<Rightarrow> (nat option \<times> 'p hid_world) cres" where
  "uni_hid_device_create address w =
     (case List.find (is_free w) slots of
        None \<Rightarrow> Inr (None, w)
      | Some i \<Rightarrow>
          bindR (overwrite_slot zero_device i w) (\<lambda>w1.
            mapR (\<lambda>w2. (Some i, w2))
              (start_connection_timeout i (upd_conn i (\<lambda>c. c\<lparr>bc_btaddr := address\<rparr>) w1))))"

text \<open>The slot of a virtual device is not cleared: it is free, and \<^verbatim>\<open>init\<close> has left it clean.\<close>

definition virtual_name :: "nat \<Rightarrow> bytes" where
  "virtual_name i = ascii ''virtual-'' @ [48 + of_nat i, 0]"

definition uni_hid_device_create_virtual :: "nat \<Rightarrow> 'p hid_world \<Rightarrow> nat option \<times> 'p hid_world" where
  "uni_hid_device_create_virtual parent w =
     (if \<not> hw_virtual_device_enabled w then (None, w)
      else (case List.find (is_free w) slots of
              None \<Rightarrow> (None, w)
            | Some i \<Rightarrow>
                let w1 = upd_dev i (\<lambda>d. d\<lparr>hd_conn := (hd_conn d)\<lparr>bc_btaddr := bc_btaddr (hd_conn (dev w parent))\<rparr>,
                                          hd_parent := Some parent\<rparr>) w;
                    w2 = upd_dev parent (\<lambda>p. p\<lparr>hd_child := Some i\<rparr>) w1;
                    p = dev w2 parent
                in (Some i, upd_dev i (\<lambda>d. set_flag FLAGS_HAS_CONTROLLER_TYPE
                      (d\<lparr>hd_product_id := hd_product_id p, hd_vendor_id := hd_vendor_id p,
                         hd_cod := hd_cod p, hd_controller_type := hd_controller_type p,
                         hd_controller_subtype := hd_controller_subtype p,
                         hd_name := virtual_name i @ drop (length (virtual_name i)) (hd_name d)\<rparr>)) w2)))"

definition uni_virtual_device_set_enabled :: "bool \<Rightarrow> 'p hid_world \<Rightarrow> 'p hid_world" where
  "uni_virtual_device_set_enabled enabled w =
     (if enabled \<noteq> hw_virtual_device_enabled w
      then call (Property_set_virtual_device enabled) (w\<lparr>hw_virtual_device_enabled := enabled\<rparr>)
      else w)"

section \<open>Connection and disconnection\<close>

definition uni_hid_device_on_connected ::
    "'p uni_platform \<Rightarrow> nat \<Rightarrow> bool \<Rightarrow> 'p hid_world \<Rightarrow> 'p hid_world" where
  "uni_hid_device_on_connected plat i connected w =
     (if connected then call (Service_on_connected i) (pl_on_device_connected plat i w)
      else call (Service_on_disconnected i) (pl_on_device_disconnected plat i w))"

definition uni_hid_device_connect :: "'p uni_platform \<Rightarrow> nat \<Rightarrow> 'p hid_world \<Rightarrow> 'p hid_world" where
  "uni_hid_device_connect plat i w =
     uni_hid_device_on_connected plat i True (upd_conn i (uni_bt_conn_set_connected True) w)"

definition uni_bt_bredr_disconnect :: "gap_types \<Rightarrow> nat \<Rightarrow> 'p hid_world \<Rightarrow> 'p hid_world" where
  "uni_bt_bredr_disconnect gap i w =
     (let c = hd_conn (dev w i) in
      if gap (bc_handle c) \<noteq> GAP_CONNECTION_INVALID
      then upd_conn i (\<lambda>c. c\<lparr>bc_handle := UNI_BT_CONN_HANDLE_INVALID\<rparr>) (call (Gap_disconnect (bc_handle c)) w)
      else
        let w1 = (if bc_control_cid c \<noteq> 0
                  then upd_conn i (\<lambda>c. c\<lparr>bc_control_cid := 0\<rparr>) (call (L2cap_disconnect (bc_control_cid c)) w)
                  else w)
        in if bc_interrupt_cid c \<noteq> 0
           then upd_conn i (\<lambda>c. c\<lparr>bc_interrupt_cid := 0\<rparr>) (call (L2cap_disconnect (bc_interrupt_cid c)) w1)
           else w1)"

definition hog_disconnect :: "gap_types \<Rightarrow> u16 \<Rightarrow> 'p hid_world \<Rightarrow> 'p hid_world" where
  "hog_disconnect gap con_handle w =
     (let w1 = (case uni_hid_device_get_instance_for_connection_handle con_handle w of
                  Some j \<Rightarrow> call (Hids_client_disconnect (hd_hids_cid (dev w j))) w
                | None \<Rightarrow> w);
          w2 = (if gap con_handle \<noteq> GAP_CONNECTION_INVALID then call (Gap_disconnect con_handle) w1 else w1)
      in call Resume_scanning_hint w2)"

definition uni_bt_le_disconnect :: "gap_types \<Rightarrow> nat \<Rightarrow> 'p hid_world \<Rightarrow> 'p hid_world" where
  "uni_bt_le_disconnect gap i w = hog_disconnect gap (bc_handle (hd_conn (dev w i))) w"

definition close_channels :: "gap_types \<Rightarrow> nat \<Rightarrow> 'p hid_world \<Rightarrow> 'p hid_world" where
  "close_channels gap i w =
     (if uni_hid_device_is_virtual_device (dev w i) then w
      else (case gap (bc_handle (hd_conn (dev w i))) of
              GAP_CONNECTION_LE \<Rightarrow> uni_bt_le_disconnect gap i w
            | GAP_CONNECTION_ACL \<Rightarrow> uni_bt_bredr_disconnect gap i w
            | _ \<Rightarrow> w))"

text \<open>What \<^verbatim>\<open>uni_hid_device_disconnect\<close> does to the device itself, after its child.\<close>

definition disconnect_one :: "'p uni_platform \<Rightarrow> gap_types \<Rightarrow> nat \<Rightarrow> 'p hid_world \<Rightarrow> 'p hid_world" where
  "disconnect_one plat gap i w =
     (let connected = bc_connected (hd_conn (dev w i));
          w1 = upd_conn i uni_bt_conn_disconnect (close_channels gap i w);
          w2 = run_loop_remove_timer (i, Inquiry_timer) (run_loop_remove_timer (i, Connection_timer) w1)
      in if connected then uni_hid_device_on_connected plat i False w2 else w2)"

text \<open>
  The recursion along the child links has fuel. A chain of links through more slots than there
  are would visit one twice and never end, so \<open>CONFIG_BLUEPAD32_MAX_DEVICES + 1\<close> calls are enough for
  every recursion that ends; running out is an error.
\<close>

primrec disconnect_chain ::
    "'p uni_platform \<Rightarrow> gap_types \<Rightarrow> nat \<Rightarrow> nat \<Rightarrow> 'p hid_world \<Rightarrow> 'p hid_world cres" where
  "disconnect_chain plat gap 0 i w = Inl Unbounded_recursion"
| "disconnect_chain plat gap (Suc n) i w =
     mapR (disconnect_one plat gap i)
       (case hd_child (dev w i) of None \<Rightarrow> Inr w | Some c \<Rightarrow> disconnect_chain plat gap n c w)"

definition uni_hid_device_disconnect ::
    "'p uni_platform \<Rightarrow> gap_types \<Rightarrow> nat \<Rightarrow> 'p hid_world \<Rightarrow> 'p hid_world cres" where
  "uni_hid_device_disconnect plat gap i w =
     disconnect_chain plat gap (CONFIG_BLUEPAD32_MAX_DEVICES + 1) i w"

primrec delete_chain :: "nat \<Rightarrow> nat \<Rightarrow> 'p hid_world \<Rightarrow> 'p hid_world cres" where
  "delete_chain 0 i w = Inl Unbounded_recursion"
| "delete_chain (Suc n) i w =
     bindR (case hd_child (dev w i) of None \<Rightarrow> Inr w | Some c \<Rightarrow> delete_chain n c w) (\<lambda>w1.
       uni_hid_device_init i (run_loop_remove_timer (i, Connection_timer) w1))"

definition uni_hid_device_delete :: "nat \<Rightarrow> 'p hid_world \<Rightarrow> 'p hid_world cres" where
  "uni_hid_device_delete i w = delete_chain (CONFIG_BLUEPAD32_MAX_DEVICES + 1) i w"

definition disconnect_and_delete ::
    "'p uni_platform \<Rightarrow> gap_types \<Rightarrow> nat \<Rightarrow> 'p hid_world \<Rightarrow> 'p hid_world cres" where
  "disconnect_and_delete plat gap i w =
     bindR (uni_hid_device_disconnect plat gap i w) (uni_hid_device_delete i)"

section \<open>Ready devices\<close>

definition uni_hid_device_set_ready_complete ::
    "'p uni_platform \<Rightarrow> gap_types \<Rightarrow> nat \<Rightarrow> 'p hid_world \<Rightarrow> (bool \<times> 'p hid_world) cres" where
  "uni_hid_device_set_ready_complete plat gap i w =
     (if bc_state (hd_conn (dev w i)) = UNI_BT_CONN_STATE_DEVICE_READY then Inr (False, w)
      else case pl_on_device_ready plat i (run_loop_remove_timer (i, Connection_timer) w) of
        (err, w1) \<Rightarrow>
          if err \<noteq> UNI_ERROR_SUCCESS
          then mapR (\<lambda>w2. (False, w2)) (disconnect_and_delete plat gap i w1)
          else Inr (True, upd_conn i (uni_bt_conn_set_state UNI_BT_CONN_STATE_DEVICE_READY)
                            (call (Service_on_ready i) w1)))"

definition uni_hid_device_set_ready ::
    "'p uni_platform \<Rightarrow> gap_types \<Rightarrow> nat \<Rightarrow> 'p hid_world \<Rightarrow> 'p hid_world cres" where
  "uni_hid_device_set_ready plat gap i w =
     (if bc_state (hd_conn (dev w i)) = UNI_BT_CONN_STATE_DEVICE_PENDING_READY then Inr w
      else
        let w1 = upd_conn i (uni_bt_conn_set_state UNI_BT_CONN_STATE_DEVICE_PENDING_READY) w
        in (case rv_setup (hd_report_parser (dev w1 i)) of
              Some driver \<Rightarrow> Inr (call (Driver_setup driver i) w1)
            | None \<Rightarrow> mapR snd (uni_hid_device_set_ready_complete plat gap i w1)))"

text \<open>
  The end of \<^verbatim>\<open>uni_hid_parser_ds4_setup\<close> and of \<^verbatim>\<open>ds5_send_enable_lightbar_report\<close>: an accepted
  gamepad gets a virtual mouse as its child.
\<close>

definition complete_with_virtual_mouse ::
    "'p uni_platform \<Rightarrow> gap_types \<Rightarrow> nat \<Rightarrow> 'p hid_world \<Rightarrow> 'p hid_world cres" where
  "complete_with_virtual_mouse plat gap i w =
     bindR (uni_hid_device_set_ready_complete plat gap i w) (\<lambda>(accepted, w1).
       if \<not> accepted then Inr w1
       else (case uni_hid_device_create_virtual i w1 of
               (None, w2) \<Rightarrow> Inr w2
             | (Some c, w2) \<Rightarrow>
                 let w3 = upd_dev c (uni_hid_device_set_cod
                            (UNI_BT_COD_MAJOR_PERIPHERAL OR UNI_BT_COD_MINOR_MICE)) w2
                 in bindR (uni_hid_device_set_ready_complete plat gap c (uni_hid_device_connect plat c w3))
                      (\<lambda>(child_accepted, w4).
                         Inr (if child_accepted then w4 else upd_dev i (\<lambda>d. d\<lparr>hd_child := None\<rparr>) w4))))"

definition device_connection_timeout ::
    "'p uni_platform \<Rightarrow> gap_types \<Rightarrow> nat \<Rightarrow> 'p hid_world \<Rightarrow> 'p hid_world cres" where
  "device_connection_timeout plat gap i w =
     (if bc_state (hd_conn (dev w i)) = UNI_BT_CONN_STATE_DEVICE_READY then Inr w
      else disconnect_and_delete plat gap i w)"

section \<open>Input\<close>

definition system_bit :: u32 where "system_bit = ucast MISC_BUTTON_SYSTEM"
definition start_bit :: u32 where "start_bit = ucast MISC_BUTTON_START"

definition requires_delay :: "uni_hid_device \<Rightarrow> bool" where
  "requires_delay d \<longleftrightarrow> hd_controller_type d = CONTROLLER_TYPE_SwitchProController
     \<or> hd_controller_type d = CONTROLLER_TYPE_SwitchJoyConLeft
     \<or> hd_controller_type d = CONTROLLER_TYPE_SwitchJoyConRight"

definition process_misc_button_system :: "nat \<Rightarrow> 'p hid_world \<Rightarrow> 'p hid_world cres" where
  "process_misc_button_system i w =
     (let d = dev w i in
      if gp_misc_buttons (ctl_gamepad (hd_controller d)) AND MISC_BUTTON_SYSTEM = 0
      then Inr (upd_dev i (\<lambda>d. d\<lparr>hd_misc_button_wait_release :=
                 hd_misc_button_wait_release d AND NOT system_bit\<rparr>) w)
      else if hd_misc_button_wait_release d AND system_bit \<noteq> 0 then Inr w
      else if requires_delay d \<and> hd_misc_button_wait_delay d AND system_bit \<noteq> 0 then Inr w
      else
        let w1 = call (Oob_system_button i)
                   (upd_dev i (\<lambda>d. d\<lparr>hd_misc_button_wait_release :=
                      hd_misc_button_wait_release d OR system_bit\<rparr>) w)
        in if requires_delay d
           then run_loop_add_timer (i, Misc_button_timer) MISC_BUTTON_DELAY_MS
                  (upd_dev i (\<lambda>d. d\<lparr>hd_misc_button_wait_delay :=
                     hd_misc_button_wait_delay d OR system_bit\<rparr>) w1)
           else Inr w1)"

definition process_misc_button_home :: "nat \<Rightarrow> 'p hid_world \<Rightarrow> 'p hid_world" where
  "process_misc_button_home i w =
     (let d = dev w i in
      if gp_misc_buttons (ctl_gamepad (hd_controller d)) AND MISC_BUTTON_START = 0
      then upd_dev i (\<lambda>d. d\<lparr>hd_misc_button_wait_release :=
             hd_misc_button_wait_release d AND NOT start_bit\<rparr>) w
      else if hd_misc_button_wait_release d AND start_bit \<noteq> 0 then w
      else upd_dev i (\<lambda>d. d\<lparr>hd_misc_button_wait_release :=
             hd_misc_button_wait_release d OR start_bit\<rparr>) w)"

text \<open>The handler of the delay timer, after the run loop has taken it off its list.\<close>

definition misc_button_enable_callback :: "nat \<Rightarrow> 'p hid_world \<Rightarrow> 'p hid_world" where
  "misc_button_enable_callback i w =
     upd_dev i (\<lambda>d. d\<lparr>hd_misc_button_wait_delay := hd_misc_button_wait_delay d AND NOT system_bit\<rparr>) w"

definition platform_data_callback :: "'p uni_platform \<Rightarrow> nat \<Rightarrow> 'p hid_world \<Rightarrow> 'p hid_world" where
  "platform_data_callback plat i w =
     (case pl_on_controller_data plat of
        Some on_controller_data \<Rightarrow> on_controller_data i w
      | None \<Rightarrow> (case pl_on_gamepad_data plat of Some on_gamepad_data \<Rightarrow> on_gamepad_data i w | None \<Rightarrow> w))"

definition remap_controller :: "mappings_state \<Rightarrow> uni_controller \<Rightarrow> uni_controller cres" where
  "remap_controller m ctl =
     (if ctl_klass ctl = UNI_CONTROLLER_CLASS_GAMEPAD
      then mapR (\<lambda>gp. ctl\<lparr>ctl_gamepad := gp\<rparr>) (uni_gamepad_remap m (ctl_gamepad ctl))
      else Inr ctl)"

definition uni_hid_device_process_controller ::
    "'p uni_platform \<Rightarrow> nat \<Rightarrow> 'p hid_world \<Rightarrow> 'p hid_world cres" where
  "uni_hid_device_process_controller plat i w =
     (if bc_state (hd_conn (dev w i)) \<noteq> UNI_BT_CONN_STATE_DEVICE_READY then Inr w
      else bindR (remap_controller (hw_mappings w) (hd_controller (dev w i))) (\<lambda>ctl.
        mapR (process_misc_button_home i)
          (process_misc_button_system i
            (platform_data_callback plat i (upd_dev i (\<lambda>d. d\<lparr>hd_controller := ctl\<rparr>) w)))))"

section \<open>Output\<close>

text \<open>\<open>sent\<close> is whether \<^verbatim>\<open>l2cap_send\<close> accepts the packet.\<close>

definition uni_hid_device_send_report ::
    "bool \<Rightarrow> nat \<Rightarrow> u16 \<Rightarrow> bytes \<Rightarrow> 'p hid_world \<Rightarrow> 'p hid_world" where
  "uni_hid_device_send_report sent i cid report w =
     (if cid = 0 \<or> report = [] then w
      else
        let w1 = call (L2cap_send cid report) w;
            w2 = (if sent then w1
                  else (case uni_circular_buffer_put (hd_outgoing_buffer (dev w1 i)) cid report of
                          Inl _ \<Rightarrow> w1
                        | Inr b \<Rightarrow> upd_dev i (\<lambda>d. d\<lparr>hd_outgoing_buffer := b\<rparr>) w1))
        in call (L2cap_request_can_send_now cid) w2)"

definition uni_hid_device_send_intr_report :: "bool \<Rightarrow> nat \<Rightarrow> bytes \<Rightarrow> 'p hid_world \<Rightarrow> 'p hid_world" where
  "uni_hid_device_send_intr_report sent i report w =
     uni_hid_device_send_report sent i (bc_interrupt_cid (hd_conn (dev w i))) report w"

definition uni_hid_device_send_ctrl_report :: "bool \<Rightarrow> nat \<Rightarrow> bytes \<Rightarrow> 'p hid_world \<Rightarrow> 'p hid_world" where
  "uni_hid_device_send_ctrl_report sent i report w =
     uni_hid_device_send_report sent i (bc_control_cid (hd_conn (dev w i))) report w"

text \<open>
  The report that is sent again is read out of the slot that has just been freed, before the
  put can write into it.
\<close>

definition uni_hid_device_send_queued_reports :: "bool \<Rightarrow> nat \<Rightarrow> 'p hid_world \<Rightarrow> 'p hid_world" where
  "uni_hid_device_send_queued_reports sent i w =
     (if uni_circular_buffer_is_empty (hd_outgoing_buffer (dev w i)) then w
      else (case uni_circular_buffer_get (hd_outgoing_buffer (dev w i)) of
              Inl _ \<Rightarrow> w
            | Inr (cid, _, data, data_len, b) \<Rightarrow>
                uni_hid_device_send_report sent i cid (take data_len data)
                  (upd_dev i (\<lambda>d. d\<lparr>hd_outgoing_buffer := b\<rparr>) w)))"

section \<open>Events\<close>

text \<open>
  What the Bluetooth handlers, the drivers, the run loop and the application make happen to the
  table. The handlers look a device up before they touch it, so an event on a free slot does
  nothing, and a device is never created with the zero address. The descriptor of a low energy
  device comes from a store that is larger than the array of the device. The timer of the name
  request is registered by the Bluetooth handlers and removed by the answer or its own expiry; a
  driver registers its timers, removes them or lets them expire in any order.
\<close>

datatype hid_event =
    Device_found bytes
  | Class_of_device nat u32
  | Incoming nat bool
  | Device_name nat bytes
  | Vendor_product nat u16 u16
  | Descriptor nat bytes
  | Connection_handle nat u16
  | Channels nat u16 u16
  | Hids_cid nat u16
  | Conn_state nat uni_bt_conn_state
  | Guess_type nat
  | Connected nat
  | Set_ready gap_types nat
  | Setup_complete gap_types nat
  | Setup_complete_with_mouse gap_types nat
  | Disconnected gap_types nat
  | Connection_timeout gap_types nat
  | Misc_button_timeout nat
  | Name_requested nat
  | Name_timer_ended nat
  | Driver_timer_added nat driver_timer u32
  | Driver_timer_ended nat driver_timer
  | Report_parsed nat uni_controller
  | Send_report bool nat u16 bytes
  | Can_send_now bool nat
  | Virtual_device_enabled bool

definition on_slot :: "nat \<Rightarrow> ('p hid_world \<Rightarrow> 'p hid_world cres) \<Rightarrow> 'p hid_world \<Rightarrow> 'p hid_world cres" where
  "on_slot i f w = (if i < CONFIG_BLUEPAD32_MAX_DEVICES \<and> \<not> is_free w i then f w else Inr w)"

definition upd_slot :: "nat \<Rightarrow> (uni_hid_device \<Rightarrow> uni_hid_device) \<Rightarrow> 'p hid_world \<Rightarrow> 'p hid_world cres" where
  "upd_slot i f w = on_slot i (\<lambda>w. Inr (upd_dev i f w)) w"

definition hid_step :: "'p uni_platform \<Rightarrow> hid_event \<Rightarrow> 'p hid_world \<Rightarrow> 'p hid_world cres" where
  "hid_step plat ev w = (case ev of
     Device_found addr \<Rightarrow> if addr = zero_addr then Inr w else mapR snd (uni_hid_device_create addr w)
   | Class_of_device i cod \<Rightarrow> upd_slot i (uni_hid_device_set_cod cod) w
   | Incoming i inc \<Rightarrow> upd_slot i (uni_hid_device_set_incoming inc) w
   | Device_name i name \<Rightarrow> upd_slot i (uni_hid_device_set_name name) w
   | Vendor_product i vid pid \<Rightarrow>
       upd_slot i (\<lambda>d. uni_hid_device_set_product_id pid (uni_hid_device_set_vendor_id vid d)) w
   | Descriptor i ds \<Rightarrow>
       on_slot i (\<lambda>w. mapR (\<lambda>d. upd_dev i (\<lambda>_. d) w)
                        (uni_hid_device_set_hid_descriptor ds (dev w i))) w
   | Connection_handle i handle \<Rightarrow> upd_slot i (uni_hid_device_set_connection_handle handle) w
   | Channels i control interrupt \<Rightarrow>
       upd_slot i (\<lambda>d. d\<lparr>hd_conn := (hd_conn d)\<lparr>bc_control_cid := control, bc_interrupt_cid := interrupt\<rparr>\<rparr>) w
   | Hids_cid i cid \<Rightarrow> upd_slot i (\<lambda>d. d\<lparr>hd_hids_cid := cid\<rparr>) w
   | Conn_state i st \<Rightarrow>
       if st = UNI_BT_CONN_STATE_DEVICE_READY then Inr w
       else upd_slot i (\<lambda>d. d\<lparr>hd_conn := uni_bt_conn_set_state st (hd_conn d)\<rparr>) w
   | Guess_type i \<Rightarrow>
       on_slot i (\<lambda>w. mapR (\<lambda>d. upd_dev i (\<lambda>_. d) w)
                        (uni_hid_device_guess_controller_type_from_pid_vid (dev w i))) w
   | Connected i \<Rightarrow> on_slot i (\<lambda>w. Inr (uni_hid_device_connect plat i w)) w
   | Set_ready gap i \<Rightarrow> on_slot i (uni_hid_device_set_ready plat gap i) w
   | Setup_complete gap i \<Rightarrow> on_slot i (\<lambda>w. mapR snd (uni_hid_device_set_ready_complete plat gap i w)) w
   | Setup_complete_with_mouse gap i \<Rightarrow> on_slot i (complete_with_virtual_mouse plat gap i) w
   | Disconnected gap i \<Rightarrow> on_slot i (disconnect_and_delete plat gap i) w
   | Connection_timeout gap i \<Rightarrow>
       if hw_timers w (i, Connection_timer) = None then Inr w
       else device_connection_timeout plat gap i (run_loop_remove_timer (i, Connection_timer) w)
   | Misc_button_timeout i \<Rightarrow>
       if hw_timers w (i, Misc_button_timer) = None then Inr w
       else Inr (misc_button_enable_callback i (run_loop_remove_timer (i, Misc_button_timer) w))
   | Name_requested i \<Rightarrow> on_slot i (run_loop_add_timer (i, Inquiry_timer) INQUIRY_REMOTE_NAME_TIMEOUT_MS) w
   | Name_timer_ended i \<Rightarrow> Inr (run_loop_remove_timer (i, Inquiry_timer) w)
   | Driver_timer_added i t ms \<Rightarrow> on_slot i (run_loop_add_timer (i, Parser_timer t) ms) w
   | Driver_timer_ended i t \<Rightarrow> Inr (run_loop_remove_timer (i, Parser_timer t) w)
   | Report_parsed i ctl \<Rightarrow>
       on_slot i (\<lambda>w. uni_hid_device_process_controller plat i
                        (upd_dev i (\<lambda>d. d\<lparr>hd_controller := ctl\<rparr>) w)) w
   | Send_report sent i cid report \<Rightarrow>
       on_slot i (\<lambda>w. Inr (uni_hid_device_send_report sent i cid report w)) w
   | Can_send_now sent i \<Rightarrow> on_slot i (\<lambda>w. Inr (uni_hid_device_send_queued_reports sent i w)) w
   | Virtual_device_enabled enabled \<Rightarrow> Inr (uni_virtual_device_set_enabled enabled w))"

section \<open>The table and its invariant\<close>

text \<open>
  \<open>ranked\<close>: along a child link the rank grows, so links never form a cycle. The rank is the
  order in which the slots were filled: a slot is younger than every device that points to it,
  even when the pointer dangles.
\<close>

definition ranked :: "(nat \<Rightarrow> nat) \<Rightarrow> 'p hid_world \<Rightarrow> bool" where
  "ranked rank w \<longleftrightarrow> (\<forall>i c. i < 4 \<longrightarrow> hd_child (dev w i) = Some c \<longrightarrow> c < 4 \<and> rank i < rank c)"

definition timers_ok :: "'p hid_world \<Rightarrow> bool" where
  "timers_ok w \<longleftrightarrow>
     (\<forall>i t. hw_timers w (i, t) \<noteq> None \<longrightarrow> i < 4 \<and> \<not> is_free w i)
     \<and> (\<forall>i < 4. hw_timers w (i, Misc_button_timer) \<noteq> None
          \<longleftrightarrow> hd_misc_button_wait_delay (dev w i) AND system_bit \<noteq> 0)"

definition slots_ok :: "'p hid_world \<Rightarrow> bool" where
  "slots_ok w \<longleftrightarrow> length (hw_devices w) = 4
     \<and> (\<forall>i < 4. is_free w i \<longrightarrow> dev w i = init_device)
     \<and> (\<forall>i < 4. cb_inv (hd_outgoing_buffer (dev w i)))"

definition mappings_ok :: "'p hid_world \<Rightarrow> bool" where
  "mappings_ok w \<longleftrightarrow> mst_type (hw_mappings w) = UNI_GAMEPAD_MAPPINGS_TYPE_XBOX
     \<or> mst_type (hw_mappings w) = UNI_GAMEPAD_MAPPINGS_TYPE_SWITCH"

definition table_inv :: "'p hid_world \<Rightarrow> bool" where
  "table_inv w \<longleftrightarrow> (\<exists>rank. ranked rank w) \<and> timers_ok w \<and> slots_ok w \<and> mappings_ok w"

text \<open>
  Disconnecting a device removes the timers of its connection and of its name request, and no
  other: these are kept.
\<close>

fun kept_timer :: "device_timer \<Rightarrow> bool" where
  "kept_timer Connection_timer = False"
| "kept_timer Inquiry_timer = False"
| "kept_timer Misc_button_timer = True"
| "kept_timer (Parser_timer _) = True"

definition clear_of_timers :: "'p hid_world \<Rightarrow> nat \<Rightarrow> bool" where
  "clear_of_timers w i \<longleftrightarrow> list_all (\<lambda>t. kept_timer t \<longrightarrow> hw_timers w (i, t) = None) device_timers"

lemma clear_of_timers_iff: "clear_of_timers w i \<longleftrightarrow> (\<forall>t. kept_timer t \<longrightarrow> hw_timers w (i, t) = None)"
  by (simp add: clear_of_timers_def list_all_iff)

lemma not_kept_timer: "\<not> kept_timer t \<longleftrightarrow> t = Connection_timer \<or> t = Inquiry_timer"
  by (cases t) simp_all

text \<open>What most operations leave alone.\<close>

definition same_link :: "uni_hid_device \<Rightarrow> uni_hid_device \<Rightarrow> bool" where
  "same_link d d' \<longleftrightarrow> hd_child d' = hd_child d
     \<and> bc_btaddr (hd_conn d') = bc_btaddr (hd_conn d)
     \<and> hd_misc_button_wait_delay d' AND system_bit = hd_misc_button_wait_delay d AND system_bit
     \<and> (cb_inv (hd_outgoing_buffer d) \<longrightarrow> cb_inv (hd_outgoing_buffer d'))
     \<and> (bc_btaddr (hd_conn d) = zero_addr \<longrightarrow> d = init_device \<longrightarrow> d' = d)"

definition keep :: "'p hid_world \<Rightarrow> 'p hid_world \<Rightarrow> bool" where
  "keep w w' \<longleftrightarrow> length (hw_devices w') = length (hw_devices w)
     \<and> (\<forall>i < 4. same_link (dev w i) (dev w' i))
     \<and> (\<forall>t. hw_timers w' t = hw_timers w t \<or> \<not> kept_timer (snd t) \<and> hw_timers w' t = None)
     \<and> hw_mappings w' = hw_mappings w"

named_theorems keep_intros "operations that keep the table"

lemma dev_upd_dev [dev_simps]:
  "dev (upd_dev i f w) j = (if j = i \<and> i < length (hw_devices w) then f (dev w i) else dev w j)"
  by (cases "i < length (hw_devices w)") (auto simp: dev_def upd_dev_def list_update_beyond nth_list_update)

lemma upd_dev_fields [dev_simps]:
  "length (hw_devices (upd_dev i f w)) = length (hw_devices w)"
  "hw_timers (upd_dev i f w) = hw_timers w" "hw_mappings (upd_dev i f w) = hw_mappings w"
  "hw_platform (upd_dev i f w) = hw_platform w"
  "hw_virtual_device_enabled (upd_dev i f w) = hw_virtual_device_enabled w"
  "hw_calls (upd_dev i f w) = hw_calls w"
  by (simp_all add: upd_dev_def)

lemma call_fields [dev_simps]:
  "hw_devices (call c w) = hw_devices w" "dev (call c w) j = dev w j"
  "hw_timers (call c w) = hw_timers w" "hw_mappings (call c w) = hw_mappings w"
  "hw_platform (call c w) = hw_platform w"
  "hw_virtual_device_enabled (call c w) = hw_virtual_device_enabled w"
  by (simp_all add: call_def dev_def)

lemma remove_timer_fields [dev_simps]:
  "hw_devices (run_loop_remove_timer t w) = hw_devices w" "dev (run_loop_remove_timer t w) j = dev w j"
  "hw_timers (run_loop_remove_timer t w) = (hw_timers w)(t := None)"
  "hw_mappings (run_loop_remove_timer t w) = hw_mappings w"
  "hw_platform (run_loop_remove_timer t w) = hw_platform w"
  by (simp_all add: run_loop_remove_timer_def dev_def)

lemma is_free_dev: "is_free w i \<longleftrightarrow> bc_btaddr (hd_conn (dev w i)) = zero_addr"
  by (simp add: is_free_def)

lemma same_link_refl [simp]: "same_link d d"
  by (simp add: same_link_def)

lemma same_link_trans: "same_link d d1 \<Longrightarrow> same_link d1 d2 \<Longrightarrow> same_link d d2"
  unfolding same_link_def by metis

lemma keep_refl [simp]: "keep w w"
  by (simp add: keep_def)

lemma keep_trans:
  assumes "keep w w1" and "keep w1 w2"
  shows "keep w w2"
  unfolding keep_def
proof (intro conjI allI impI)
  fix i :: nat
  assume "i < 4"
  with assms show "same_link (dev w i) (dev w2 i)"
    unfolding keep_def using same_link_trans by blast
next
  fix t
  have "hw_timers w1 t = hw_timers w t \<or> \<not> kept_timer (snd t) \<and> hw_timers w1 t = None"
    and "hw_timers w2 t = hw_timers w1 t \<or> \<not> kept_timer (snd t) \<and> hw_timers w2 t = None"
    using assms unfolding keep_def by blast+
  then show "hw_timers w2 t = hw_timers w t \<or> \<not> kept_timer (snd t) \<and> hw_timers w2 t = None"
    by auto
qed (use assms in \<open>simp_all add: keep_def\<close>)

lemma keepD:
  assumes "keep w w'" and "i < 4"
  shows "hd_child (dev w' i) = hd_child (dev w i)" "is_free w' i = is_free w i"
    "hd_misc_button_wait_delay (dev w' i) AND system_bit = hd_misc_button_wait_delay (dev w i) AND system_bit"
    "cb_inv (hd_outgoing_buffer (dev w i)) \<Longrightarrow> cb_inv (hd_outgoing_buffer (dev w' i))"
    "is_free w i \<Longrightarrow> dev w i = init_device \<Longrightarrow> dev w' i = init_device"
  using assms by (auto simp: keep_def same_link_def is_free_def)

lemma keep_timer:
  assumes "keep w w'"
  shows "hw_timers w' (i, t) = hw_timers w (i, t) \<or> \<not> kept_timer t \<and> hw_timers w' (i, t) = None"
  using assms unfolding keep_def by (metis snd_conv)

lemma keep_clear: "keep w w' \<Longrightarrow> clear_of_timers w' i = clear_of_timers w i"
  using keep_timer unfolding clear_of_timers_iff by metis

lemma keep_ranked:
  assumes "keep w w'" and "ranked rank w"
  shows "ranked rank w'"
  unfolding ranked_def
proof (intro allI impI)
  fix i c
  assume "i < 4" and "hd_child (dev w' i) = Some c"
  with keepD(1) [OF assms(1) \<open>i < 4\<close>] assms(2) show "c < 4 \<and> rank i < rank c"
    by (auto simp: ranked_def)
qed

lemma keep_timers_ok:
  assumes "keep w w'" and "timers_ok w"
  shows "timers_ok w'"
proof -
  note t = keep_timer [OF assms(1)]
  then have "hw_timers w' (i, Misc_button_timer) = hw_timers w (i, Misc_button_timer)" for i
    by (metis kept_timer.simps(3))
  with t keepD(2,3) [OF assms(1)] assms(2) show ?thesis
    unfolding timers_ok_def by metis
qed

lemma keep_slots_ok:
  assumes "keep w w'" and "slots_ok w"
  shows "slots_ok w'"
proof -
  have "length (hw_devices w') = 4" using assms by (simp add: keep_def slots_ok_def)
  moreover have "is_free w' i \<longrightarrow> dev w' i = init_device" if "i < 4" for i
    using keepD(2,5) [OF assms(1) that] assms(2) that by (auto simp: slots_ok_def)
  moreover have "cb_inv (hd_outgoing_buffer (dev w' i))" if "i < 4" for i
    using keepD(4) [OF assms(1) that] assms(2) that by (auto simp: slots_ok_def)
  ultimately show ?thesis by (simp add: slots_ok_def)
qed

lemma keep_table_inv: "keep w w' \<Longrightarrow> table_inv w \<Longrightarrow> table_inv w'"
  unfolding table_inv_def mappings_ok_def
  using keep_ranked keep_timers_ok keep_slots_ok by (metis keep_def)

lemma keep_call [keep_intros]: "keep w (call c w)"
  by (simp add: keep_def dev_simps)

lemma keep_remove_timer [keep_intros]:
  "\<not> kept_timer t \<Longrightarrow> keep w (run_loop_remove_timer (i, t) w)"
  by (simp add: keep_def dev_simps)

lemma keep_upd_dev:
  assumes "same_link (dev w i) (f (dev w i))"
  shows "keep w (upd_dev i f w)"
  using assms by (simp add: keep_def dev_simps)

lemma keep_upd_free:
  assumes "f (dev w i) = dev w i"
  shows "keep w (upd_dev i f w)"
  using assms by (simp add: keep_upd_dev)

section \<open>The contract of a platform\<close>

text \<open>
  A callback for slot \<open>i\<close> changes the platform's own state, the platform bytes of that device and
  the record of calls, and nothing else.
\<close>

definition frame :: "nat \<Rightarrow> 'p hid_world \<Rightarrow> 'p hid_world \<Rightarrow> bool" where
  "frame i w w' \<longleftrightarrow> (\<exists>pd p cs. w' = (upd_dev i (\<lambda>d. d\<lparr>hd_platform_data := pd\<rparr>) w)
     \<lparr>hw_platform := p, hw_calls := cs\<rparr>)"

text \<open>A device counts as owned by the platform while it is connected or ready.\<close>

definition owned :: "uni_hid_device \<Rightarrow> bool" where
  "owned d \<longleftrightarrow> bc_connected (hd_conn d) \<or> bc_state (hd_conn d) = UNI_BT_CONN_STATE_DEVICE_READY"

definition fewer_owned :: "'p hid_world \<Rightarrow> 'p hid_world \<Rightarrow> bool" where
  "fewer_owned w w' \<longleftrightarrow> hw_platform w' = hw_platform w
     \<and> length (hw_devices w') = length (hw_devices w)
     \<and> (\<forall>i < 4. owned (dev w' i) \<longrightarrow> owned (dev w i) \<and> hd_platform_data (dev w' i) = hd_platform_data (dev w i))"

locale hid_platform =
  fixes plat :: "'p uni_platform"
    and pinv :: "'p hid_world \<Rightarrow> bool"
  assumes fewer: "\<lbrakk>pinv w; fewer_owned w w'\<rbrakk> \<Longrightarrow> pinv w'"
    and connected_frame: "frame i w (pl_on_device_connected plat i w)"
    and connected_pinv: "\<lbrakk>pinv w; i < 4; length (hw_devices w) = 4\<rbrakk> \<Longrightarrow>
          pinv (pl_on_device_connected plat i (upd_conn i (uni_bt_conn_set_connected True) w))"
    and disconnected_frame: "frame i w (pl_on_device_disconnected plat i w)"
    and disconnected_pinv: "\<lbrakk>pinv (upd_conn i (\<lambda>c. c\<lparr>bc_connected := True\<rparr>) w); i < 4;
          length (hw_devices w) = 4\<rbrakk> \<Longrightarrow> pinv (pl_on_device_disconnected plat i w)"
    and ready_frame: "frame i w (snd (pl_on_device_ready plat i w))"
    and ready_pinv: "\<lbrakk>pinv w; i < 4; length (hw_devices w) = 4; pl_on_device_ready plat i w = (e, w')\<rbrakk> \<Longrightarrow>
          pinv w' \<and> (e = UNI_ERROR_SUCCESS \<longrightarrow>
            pinv (upd_conn i (uni_bt_conn_set_state UNI_BT_CONN_STATE_DEVICE_READY) w'))"
    and data_frame: "frame i w (platform_data_callback plat i w)"
    and data_pinv: "\<lbrakk>pinv w; i < 4; length (hw_devices w) = 4\<rbrakk> \<Longrightarrow> pinv (platform_data_callback plat i w)"

lemma frame_dev:
  assumes "frame i w w'"
  shows "\<exists>pd. dev w' j = (if j = i \<and> i < length (hw_devices w) then (dev w i)\<lparr>hd_platform_data := pd\<rparr> else dev w j)"
    "length (hw_devices w') = length (hw_devices w)" "hw_timers w' = hw_timers w"
    "hw_mappings w' = hw_mappings w"
    "hw_virtual_device_enabled w' = hw_virtual_device_enabled w"
  using assms dev_upd_dev [of i _ w j] by (auto simp: frame_def dev_def upd_dev_fields)

lemma frame_links:
  assumes "frame i w w'"
  shows "hd_child (dev w' j) = hd_child (dev w j)" "hd_conn (dev w' j) = hd_conn (dev w j)"
    "hd_parent (dev w' j) = hd_parent (dev w j)" "hd_report_parser (dev w' j) = hd_report_parser (dev w j)"
    "hd_misc_button_wait_delay (dev w' j) = hd_misc_button_wait_delay (dev w j)"
    "hd_outgoing_buffer (dev w' j) = hd_outgoing_buffer (dev w j)"
    "is_free w' j = is_free w j"
  using frame_dev(1) [OF assms, of j] by (auto simp: is_free_def split: if_splits)

lemma frame_keep:
  assumes "frame i w w'" and "\<not> is_free w i"
  shows "keep w w'"
proof -
  have "same_link (dev w j) (dev w' j)" for j
  proof (cases "j = i")
    case True
    then show ?thesis using frame_links [OF assms(1), of j] assms(2) by (simp add: same_link_def is_free_def)
  next
    case False
    then have "dev w' j = dev w j" using frame_dev(1) [OF assms(1), of j] by auto
    then show ?thesis by simp
  qed
  then show ?thesis using frame_dev [OF assms(1)] by (simp add: keep_def)
qed

lemma fewer_owned_refl [simp]: "fewer_owned w w"
  by (simp add: fewer_owned_def)

lemma fewer_owned_trans: "fewer_owned w w1 \<Longrightarrow> fewer_owned w1 w2 \<Longrightarrow> fewer_owned w w2"
  unfolding fewer_owned_def by (auto dest: spec)

lemma fewer_owned_upd_dev:
  assumes "owned (f (dev w i)) \<Longrightarrow> owned (dev w i) \<and> hd_platform_data (f (dev w i)) = hd_platform_data (dev w i)"
  shows "fewer_owned w (upd_dev i f w)"
  using assms by (auto simp: fewer_owned_def dev_simps)

lemma fewer_owned_call: "fewer_owned w (call c w)"
  by (simp add: fewer_owned_def dev_simps)

lemma fewer_owned_remove: "fewer_owned w (run_loop_remove_timer t w)"
  by (simp add: fewer_owned_def dev_simps)

text \<open>An operation that keeps the table and the platform's view.\<close>

definition quiet :: "'p hid_world \<Rightarrow> 'p hid_world \<Rightarrow> bool" where
  "quiet w w' \<longleftrightarrow> keep w w' \<and> fewer_owned w w'"

lemma quiet_refl [simp]: "quiet w w"
  by (simp add: quiet_def)

lemma quiet_trans: "quiet w w1 \<Longrightarrow> quiet w1 w2 \<Longrightarrow> quiet w w2"
  unfolding quiet_def using keep_trans fewer_owned_trans by blast

lemma quiet_call: "quiet w (call c w)"
  by (simp add: quiet_def keep_call fewer_owned_call)

lemma quiet_remove: "\<not> kept_timer t \<Longrightarrow> quiet w (run_loop_remove_timer (i, t) w)"
  by (simp add: quiet_def keep_remove_timer fewer_owned_remove)

lemma quiet_upd_dev:
  assumes "same_link (dev w i) (f (dev w i))"
    and "owned (f (dev w i)) \<Longrightarrow> owned (dev w i) \<and> hd_platform_data (f (dev w i)) = hd_platform_data (dev w i)"
  shows "quiet w (upd_dev i f w)"
  unfolding quiet_def by (simp add: assms keep_upd_dev fewer_owned_upd_dev)

lemma quiet_upd_conn:
  assumes "\<And>c. bc_btaddr (f c) = bc_btaddr c"
    and "\<And>c. bc_connected (f c) \<Longrightarrow> bc_connected c"
    and "\<And>c. bc_state (f c) = UNI_BT_CONN_STATE_DEVICE_READY \<Longrightarrow> bc_state c = UNI_BT_CONN_STATE_DEVICE_READY"
    and "f uni_bt_conn_init = uni_bt_conn_init"
  shows "quiet w (upd_conn i f w)"
  unfolding upd_conn_def using assms
  by (intro quiet_upd_dev) (auto simp: same_link_def owned_def init_device_def)

lemma quiet_call_after: "quiet w w1 \<Longrightarrow> quiet w (call c w1)"
  using quiet_trans quiet_call by blast

lemma quiet_clear_conn:
  "quiet w1 (upd_conn i (\<lambda>c. c\<lparr>bc_handle := UNI_BT_CONN_HANDLE_INVALID\<rparr>) w1)"
  "quiet w1 (upd_conn i (\<lambda>c. c\<lparr>bc_control_cid := 0\<rparr>) w1)"
  "quiet w1 (upd_conn i (\<lambda>c. c\<lparr>bc_interrupt_cid := 0\<rparr>) w1)"
  by (rule quiet_upd_conn; simp add: uni_bt_conn_init_def zero_conn_def)+

lemma quiet_hog_disconnect: "quiet w (hog_disconnect gap h w)"
  unfolding hog_disconnect_def Let_def
  by (rule quiet_call_after, cases "uni_hid_device_get_instance_for_connection_handle h w")
    (simp_all add: quiet_call_after)

lemma quiet_bredr_disconnect: "quiet w (uni_bt_bredr_disconnect gap i w)"
proof -
  have step: "quiet w w1 \<Longrightarrow> quiet w (upd_conn i (\<lambda>c. c\<lparr>bc_handle := UNI_BT_CONN_HANDLE_INVALID\<rparr>) w1)"
    "quiet w w1 \<Longrightarrow> quiet w (upd_conn i (\<lambda>c. c\<lparr>bc_control_cid := 0\<rparr>) w1)"
    "quiet w w1 \<Longrightarrow> quiet w (upd_conn i (\<lambda>c. c\<lparr>bc_interrupt_cid := 0\<rparr>) w1)" for w1
    using quiet_trans quiet_clear_conn by blast+
  show ?thesis
    unfolding uni_bt_bredr_disconnect_def Let_def by (simp add: step quiet_call_after)
qed

lemma quiet_close_channels: "quiet w (close_channels gap i w)"
  unfolding close_channels_def uni_bt_le_disconnect_def
  by (simp add: quiet_hog_disconnect quiet_bredr_disconnect split: gap_connection_type.split)

definition closed_world :: "gap_types \<Rightarrow> nat \<Rightarrow> 'p hid_world \<Rightarrow> 'p hid_world" where
  "closed_world gap i w =
     run_loop_remove_timer (i, Inquiry_timer) (run_loop_remove_timer (i, Connection_timer)
       (upd_conn i uni_bt_conn_disconnect (close_channels gap i w)))"

lemma quiet_conn_disconnect: "quiet w (upd_conn i uni_bt_conn_disconnect w)"
  by (rule quiet_upd_conn)
    (simp_all add: uni_bt_conn_disconnect_def uni_bt_conn_set_connected_def uni_bt_conn_init_def
      zero_conn_def split: if_splits)

lemma quiet_closed_world: "quiet w (closed_world gap i w)"
proof -
  let ?w1 = "upd_conn i uni_bt_conn_disconnect (close_channels gap i w)"
  have "quiet w ?w1" using quiet_trans quiet_close_channels quiet_conn_disconnect by blast
  moreover have "quiet ?w1 (closed_world gap i w)"
    unfolding closed_world_def by (rule quiet_trans [OF quiet_remove quiet_remove]) simp_all
  ultimately show ?thesis using quiet_trans by blast
qed

lemma quiet_platform_data:
  assumes "quiet w w'" and "i < 4" and "bc_connected (hd_conn (dev w i))"
    and "hd_platform_data (dev w' i) = hd_platform_data (dev w i)" and "length (hw_devices w) = 4"
  shows "fewer_owned w (upd_conn i (\<lambda>c. c\<lparr>bc_connected := True\<rparr>) w')"
  using assms by (auto simp: quiet_def fewer_owned_def upd_conn_def dev_simps owned_def)

lemma closed_world_platform_data: "hd_platform_data (dev (closed_world gap i w) j) = hd_platform_data (dev w j)"
  by (simp add: closed_world_def close_channels_def uni_bt_le_disconnect_def hog_disconnect_def
      uni_bt_bredr_disconnect_def upd_conn_def Let_def dev_simps split: gap_connection_type.split option.split)

lemma quiet_length: "quiet w w' \<Longrightarrow> length (hw_devices w') = length (hw_devices w)"
  by (simp add: quiet_def keep_def)

lemma table_inv_length: "table_inv w \<Longrightarrow> length (hw_devices w) = 4"
  by (simp add: table_inv_def slots_ok_def)

lemma owned_in_use: "table_inv w \<Longrightarrow> i < 4 \<Longrightarrow> owned (dev w i) \<Longrightarrow> \<not> is_free w i"
  by (auto simp: table_inv_def slots_ok_def owned_def init_device_def uni_bt_conn_init_def zero_conn_def)

context hid_platform begin

definition winv :: "'p hid_world \<Rightarrow> bool" where
  "winv w \<longleftrightarrow> table_inv w \<and> pinv w"

lemma quiet_winv: "winv w \<Longrightarrow> quiet w w' \<Longrightarrow> winv w'"
  unfolding winv_def quiet_def using keep_table_inv fewer by blast

lemma winv_length: "winv w \<Longrightarrow> length (hw_devices w) = 4"
  by (simp add: winv_def table_inv_length)

lemma disconnect_one_winv:
  assumes "winv w" and "i < 4"
  shows "winv (disconnect_one plat gap i w)" and "keep w (disconnect_one plat gap i w)"
proof -
  let ?w2 = "closed_world gap i w"
  have eq: "disconnect_one plat gap i w
      = (if bc_connected (hd_conn (dev w i)) then uni_hid_device_on_connected plat i False ?w2 else ?w2)"
    by (simp add: disconnect_one_def closed_world_def Let_def)
  have q: "quiet w ?w2" by (rule quiet_closed_world)
  have "winv (disconnect_one plat gap i w) \<and> keep w (disconnect_one plat gap i w)"
  proof (cases "bc_connected (hd_conn (dev w i))")
    case False
    with q assms show ?thesis by (simp add: eq quiet_winv) (simp add: quiet_def)
  next
    case True
    let ?w3 = "pl_on_device_disconnected plat i ?w2"
    have used: "\<not> is_free w i" using owned_in_use [of w i] assms True by (simp add: winv_def owned_def)
    then have "\<not> is_free ?w2 i" using keepD(2) [of w ?w2 i] q assms(2) by (simp add: quiet_def)
    then have "keep ?w2 ?w3" using frame_keep [OF disconnected_frame] by blast
    then have k: "keep w ?w3" using q keep_trans unfolding quiet_def by blast
    have "pinv (upd_conn i (\<lambda>c. c\<lparr>bc_connected := True\<rparr>) ?w2)"
      using assms fewer [OF _ quiet_platform_data [OF q assms(2) True closed_world_platform_data]]
      by (simp add: winv_def table_inv_length)
    then have "pinv ?w3"
      using disconnected_pinv assms(2) quiet_length [OF q] winv_length [OF assms(1)] by simp
    moreover have "table_inv ?w3" using k assms(1) keep_table_inv by (auto simp: winv_def)
    ultimately have "winv ?w3" by (simp add: winv_def)
    with k show ?thesis
      using True quiet_winv [OF _ quiet_call] keep_trans [OF k keep_call]
      by (simp add: eq uni_hid_device_on_connected_def)
  qed
  then show "winv (disconnect_one plat gap i w)" and "keep w (disconnect_one plat gap i w)" by auto
qed

end

section \<open>Disconnecting and deleting\<close>

definition younger :: "(nat \<Rightarrow> nat) \<Rightarrow> nat \<Rightarrow> nat set" where
  "younger rank i = {j. j < 4 \<and> rank i < rank j}"

lemma younger_child:
  assumes "ranked rank w" and "i < 4" and "hd_child (dev w i) = Some c"
  shows "c < 4" and "card (younger rank c) < card (younger rank i)"
proof -
  from assms have c: "c < 4" "rank i < rank c" by (auto simp: ranked_def)
  show "c < 4" by (rule c)
  have "younger rank c \<subset> younger rank i" using c by (auto simp: younger_def)
  moreover have "finite (younger rank i)" by (simp add: younger_def)
  ultimately show "card (younger rank c) < card (younger rank i)" by (rule psubset_card_mono [rotated])
qed

lemma card_younger: "card (younger rank i) \<le> 4"
proof -
  have "card (younger rank i) \<le> card {..<4::nat}" by (rule card_mono) (auto simp: younger_def)
  then show ?thesis by simp
qed

text \<open>The slots that a disconnection reaches, along the child links.\<close>

primrec chain :: "nat \<Rightarrow> nat \<Rightarrow> 'p hid_world \<Rightarrow> nat list" where
  "chain 0 i w = []"
| "chain (Suc n) i w = i # (case hd_child (dev w i) of None \<Rightarrow> [] | Some c \<Rightarrow> chain n c w)"

lemma keep_chain:
  assumes "keep w w'" and "ranked rank w" and "i < 4"
  shows "chain n i w' = chain n i w"
  using assms(3)
proof (induction n arbitrary: i)
  case (Suc n)
  then show ?case
    using keepD(1) [OF assms(1) Suc.prems] younger_child(1) [OF assms(2) Suc.prems]
    by (auto split: option.split)
qed simp

text \<open>Why a deletion can fail: a timer that disconnecting leaves runs in a slot of the chain.\<close>

definition timer_left :: "nat \<Rightarrow> 'p hid_world \<Rightarrow> bool" where
  "timer_left i w \<longleftrightarrow> list_ex (\<lambda>j. \<not> clear_of_timers w j) (chain (CONFIG_BLUEPAD32_MAX_DEVICES + 1) i w)"

lemma keep_timer_left: "keep w w' \<Longrightarrow> ranked rank w \<Longrightarrow> i < 4 \<Longrightarrow> timer_left i w' = timer_left i w"
  by (simp only: timer_left_def keep_chain keep_clear)

lemma closed_world_timer: "hw_timers (closed_world gap i w) (i, Inquiry_timer) = None"
  by (simp add: closed_world_def dev_simps)

lemma ranked_init:
  assumes "ranked rank w" and "i < 4"
  shows "ranked rank (upd_dev i (\<lambda>_. init_device) w)"
  using assms by (auto simp: ranked_def dev_simps init_device_def zero_device_def)

lemma init_slot_table:
  assumes "table_inv w" and "i < 4" and "\<forall>t. hw_timers w (i, t) = None"
  shows "table_inv (upd_dev i (\<lambda>_. init_device) w)"
proof -
  have "\<exists>rank. ranked rank (upd_dev i (\<lambda>_. init_device) w)"
    using assms ranked_init unfolding table_inv_def by blast
  moreover have "timers_ok (upd_dev i (\<lambda>_. init_device) w)"
    using assms by (auto simp: table_inv_def timers_ok_def is_free_def dev_simps init_device_def zero_device_def)
  moreover have "slots_ok (upd_dev i (\<lambda>_. init_device) w)"
    using assms by (auto simp: table_inv_def slots_ok_def is_free_def dev_simps)
      (simp add: init_device_def zero_device_def zero_circular_buffer_inv)
  ultimately show ?thesis using assms(1) by (simp add: table_inv_def mappings_ok_def dev_simps)
qed

lemma fewer_owned_init: "fewer_owned w (upd_dev i (\<lambda>_. init_device) w)"
  by (rule fewer_owned_upd_dev)
    (simp add: owned_def init_device_def zero_device_def uni_bt_conn_init_def zero_conn_def)

context hid_platform begin

lemma disconnect_one_inquiry: "hw_timers (disconnect_one plat gap i w) (i, Inquiry_timer) = None"
  using closed_world_timer [of gap i w] frame_dev(3) [OF disconnected_frame, of i "closed_world gap i w"]
  by (simp add: disconnect_one_def closed_world_def [symmetric] Let_def uni_hid_device_on_connected_def dev_simps)

lemma disconnect_chain_winv:
  assumes "winv w" and "i < 4" and "ranked rank w" and "card (younger rank i) < n"
  shows "\<exists>w'. disconnect_chain plat gap n i w = Inr w' \<and> winv w' \<and> keep w w'
    \<and> (\<forall>j \<in> set (chain n i w). hw_timers w' (j, Inquiry_timer) = None)"
  using assms
proof (induction n arbitrary: i)
  case 0
  then show ?case by simp
next
  case (Suc n)
  show ?case
  proof (cases "hd_child (dev w i)")
    case None
    with Suc.prems disconnect_one_winv [of w i gap] disconnect_one_inquiry show ?thesis by simp
  next
    case (Some c)
    with younger_child [OF Suc.prems(3,2)] Suc.prems(4)
    have "c < 4" "card (younger rank c) < n" by auto
    then obtain w1 where w1: "disconnect_chain plat gap n c w = Inr w1" "winv w1" "keep w w1"
      "\<forall>j \<in> set (chain n c w). hw_timers w1 (j, Inquiry_timer) = None"
      using Suc.IH [of c] Suc.prems by blast
    note one = disconnect_one_winv [OF w1(2) Suc.prems(2), of gap]
    have "hw_timers (disconnect_one plat gap i w1) (j, Inquiry_timer) = None" if "j \<in> set (chain n c w)" for j
      using keep_timer [OF one(2), of j Inquiry_timer] w1(4) that by auto
    with w1 one keep_trans [OF w1(3) one(2)] Some disconnect_one_inquiry show ?thesis by simp
  qed
qed

lemma init_winv:
  assumes "winv w" and "i < 4" and "ranked rank w"
  shows "case uni_hid_device_init i (run_loop_remove_timer (i, Connection_timer) w) of
      Inl e \<Rightarrow> e = Registered_timer_cleared \<and> (\<exists>t. t \<noteq> Connection_timer \<and> hw_timers w (i, t) \<noteq> None)
    | Inr w' \<Rightarrow> winv w' \<and> ranked rank w' \<and> (\<forall>t. t \<noteq> Connection_timer \<longrightarrow> hw_timers w (i, t) = None)
        \<and> hw_timers w' = (hw_timers w)((i, Connection_timer) := None)"
proof -
  let ?w1 = "run_loop_remove_timer (i, Connection_timer) w"
  let ?w2 = "upd_dev i (\<lambda>_. init_device) ?w1"
  have w1: "winv ?w1" by (rule quiet_winv [OF assms(1) quiet_remove]) simp
  have rank: "ranked rank ?w2"
    by (rule ranked_init [OF keep_ranked [OF keep_remove_timer assms(3)] assms(2)]) simp
  show ?thesis
  proof (cases "\<forall>t. hw_timers ?w1 (i, t) = None")
    case True
    then have "uni_hid_device_init i ?w1 = Inr ?w2" by (simp add: uni_hid_device_init_def overwrite_slot_eq)
    moreover have "table_inv ?w2"
      using init_slot_table [OF _ assms(2) True] w1 by (auto simp: winv_def)
    moreover have "pinv ?w2" using fewer [OF _ fewer_owned_init] w1 by (auto simp: winv_def)
    moreover have "\<forall>t. t \<noteq> Connection_timer \<longrightarrow> hw_timers w (i, t) = None"
      using True by (auto simp: dev_simps split: if_splits)
    ultimately show ?thesis using rank by (simp add: winv_def dev_simps)
  next
    case False
    then have "uni_hid_device_init i ?w1 = Inl Registered_timer_cleared"
      by (auto simp: uni_hid_device_init_def overwrite_slot_eq)
    with False show ?thesis by (auto simp: dev_simps split: if_splits)
  qed
qed

lemma delete_chain_winv:
  assumes "winv w" and "i < 4" and "ranked rank w" and "card (younger rank i) < n"
  shows "case delete_chain n i w of
      Inl e \<Rightarrow> e = Registered_timer_cleared
        \<and> (\<exists>j \<in> set (chain n i w). \<exists>t. t \<noteq> Connection_timer \<and> hw_timers w (j, t) \<noteq> None)
    | Inr w' \<Rightarrow> winv w' \<and> ranked rank w'
        \<and> (\<forall>j \<in> set (chain n i w). \<forall>t. t \<noteq> Connection_timer \<longrightarrow> hw_timers w (j, t) = None)
        \<and> (\<forall>j t. t \<noteq> Connection_timer \<longrightarrow> hw_timers w' (j, t) = hw_timers w (j, t))"
  using assms
proof (induction n arbitrary: i)
  case 0
  then show ?case by simp
next
  case (Suc n)
  show ?case
  proof (cases "hd_child (dev w i)")
    case None
    with init_winv [OF Suc.prems(1-3)] show ?thesis by (auto split: sum.splits)
  next
    case (Some c)
    with younger_child [OF Suc.prems(3,2)] Suc.prems(4)
    have "c < 4" "card (younger rank c) < n" by auto
    note IH = Suc.IH [OF Suc.prems(1) this(1) Suc.prems(3) this(2)]
    show ?thesis
    proof (cases "delete_chain n c w")
      case (Inl e)
      with IH Some show ?thesis by auto
    next
      case (Inr w1)
      with IH have w1: "winv w1" "ranked rank w1"
        "\<forall>j \<in> set (chain n c w). \<forall>t. t \<noteq> Connection_timer \<longrightarrow> hw_timers w (j, t) = None"
        "\<forall>j t. t \<noteq> Connection_timer \<longrightarrow> hw_timers w1 (j, t) = hw_timers w (j, t)" by simp_all
      with init_winv [OF w1(1) Suc.prems(2) w1(2)] Some Inr show ?thesis
        by (auto split: sum.splits)
    qed
  qed
qed

lemma disconnect_winv:
  assumes "winv w" and "i < 4"
  shows "\<exists>w'. uni_hid_device_disconnect plat gap i w = Inr w' \<and> winv w' \<and> keep w w'
    \<and> (\<forall>j \<in> set (chain 5 i w). hw_timers w' (j, Inquiry_timer) = None)"
proof -
  obtain rank where "ranked rank w" using assms(1) by (auto simp: winv_def table_inv_def)
  with disconnect_chain_winv [OF assms, of rank 5] card_younger [of rank i] show ?thesis
    by (simp add: uni_hid_device_disconnect_def CONFIG_BLUEPAD32_MAX_DEVICES_def)
qed

lemma delete_winv:
  assumes "winv w" and "i < 4"
  shows "case uni_hid_device_delete i w of
      Inl e \<Rightarrow> e = Registered_timer_cleared
        \<and> (\<exists>j \<in> set (chain 5 i w). \<exists>t. t \<noteq> Connection_timer \<and> hw_timers w (j, t) \<noteq> None)
    | Inr w' \<Rightarrow> winv w' \<and> (\<forall>j \<in> set (chain 5 i w). \<forall>t. t \<noteq> Connection_timer \<longrightarrow> hw_timers w (j, t) = None)"
proof -
  obtain rank where "ranked rank w" using assms(1) by (auto simp: winv_def table_inv_def)
  with delete_chain_winv [OF assms, of rank 5] card_younger [of rank i] show ?thesis
    by (simp add: uni_hid_device_delete_def CONFIG_BLUEPAD32_MAX_DEVICES_def split: sum.splits)
qed

lemma disconnect_and_delete_winv:
  assumes "winv w" and "i < 4"
  shows "case disconnect_and_delete plat gap i w of
      Inl e \<Rightarrow> e = Registered_timer_cleared \<and> timer_left i w
    | Inr w' \<Rightarrow> winv w' \<and> \<not> timer_left i w"
proof -
  obtain rank where rank: "ranked rank w" using assms(1) by (auto simp: winv_def table_inv_def)
  obtain w1 where w1: "uni_hid_device_disconnect plat gap i w = Inr w1" "winv w1" "keep w w1"
    and inq: "\<forall>j \<in> set (chain 5 i w). hw_timers w1 (j, Inquiry_timer) = None"
    using disconnect_winv [OF assms] by blast
  have "timer_left i w \<longleftrightarrow> (\<exists>j \<in> set (chain 5 i w1). \<exists>t. t \<noteq> Connection_timer \<and> hw_timers w1 (j, t) \<noteq> None)"
  proof -
    have "timer_left i w \<longleftrightarrow> timer_left i w1" using keep_timer_left [OF w1(3) rank assms(2)] by simp
    also have "\<dots> \<longleftrightarrow> (\<exists>j \<in> set (chain 5 i w1). \<exists>t. kept_timer t \<and> hw_timers w1 (j, t) \<noteq> None)"
      by (auto simp: timer_left_def CONFIG_BLUEPAD32_MAX_DEVICES_def list_ex_iff clear_of_timers_iff)
    also have "\<dots> \<longleftrightarrow> (\<exists>j \<in> set (chain 5 i w1). \<exists>t. t \<noteq> Connection_timer \<and> hw_timers w1 (j, t) \<noteq> None)"
      using inq unfolding keep_chain [OF w1(3) rank assms(2)] by (metis not_kept_timer)
    finally show ?thesis .
  qed
  with delete_winv [OF w1(2) assms(2)] w1(1) show ?thesis
    by (cases "uni_hid_device_delete i w1") (auto simp: disconnect_and_delete_def)
qed

end

section \<open>Filling slots\<close>

text \<open>A slot that is filled becomes the youngest.\<close>

definition youngest :: "(nat \<Rightarrow> nat) \<Rightarrow> nat \<Rightarrow> nat \<Rightarrow> nat" where
  "youngest rank i = rank(i := Suc (Max (rank ` {..<4})))"

lemma youngest_less: "j < 4 \<Longrightarrow> j \<noteq> i \<Longrightarrow> youngest rank i j < youngest rank i i"
  by (simp add: youngest_def less_Suc_eq_le)

lemma ranked_youngest:
  assumes "ranked rank w" and "i < 4"
    and "hd_child (dev w' i) = None"
    and "\<And>j. j < 4 \<Longrightarrow> j \<noteq> i \<Longrightarrow> hd_child (dev w' j) = hd_child (dev w j) \<or> hd_child (dev w' j) = Some i"
  shows "ranked (youngest rank i) w'"
  unfolding ranked_def
proof (intro allI impI)
  fix j c
  assume j: "j < 4" and c: "hd_child (dev w' j) = Some c"
  then have "j \<noteq> i" using assms(3) by auto
  show "c < 4 \<and> youngest rank i j < youngest rank i c"
  proof (cases "c = i")
    case True
    then show ?thesis using youngest_less [OF j \<open>j \<noteq> i\<close>] assms(2) by simp
  next
    case False
    then have "hd_child (dev w j) = Some c" using assms(4) [OF j \<open>j \<noteq> i\<close>] c by auto
    then show ?thesis using assms(1) j \<open>j \<noteq> i\<close> False by (simp add: ranked_def youngest_def)
  qed
qed

lemma find_free_SomeD:
  assumes "List.find (is_free w) slots = Some i"
  shows "i < 4" and "is_free w i"
  using assms by (auto simp: find_Some_iff slots_def CONFIG_BLUEPAD32_MAX_DEVICES_def)

lemma free_slot_timers:
  assumes "timers_ok w" and "is_free w i"
  shows "hw_timers w (i, t) = None"
  using assms unfolding timers_ok_def by blast

definition created :: "bytes \<Rightarrow> nat \<Rightarrow> 'p hid_world \<Rightarrow> 'p hid_world" where
  "created addr i w = (upd_dev i (\<lambda>_. zero_device\<lparr>hd_conn := zero_conn\<lparr>bc_btaddr := addr\<rparr>\<rparr>) w)
     \<lparr>hw_timers := (hw_timers w)((i, Connection_timer) := Some HID_DEVICE_CONNECTION_TIMEOUT_MS)\<rparr>"

lemma uni_hid_device_create_eq:
  assumes "timers_ok w" and "length (hw_devices w) = 4"
  shows "uni_hid_device_create addr w = Inr (case List.find (is_free w) slots of
      None \<Rightarrow> (None, w) | Some i \<Rightarrow> (Some i, created addr i w))"
proof (cases "List.find (is_free w) slots")
  case None
  then show ?thesis by (simp add: uni_hid_device_create_def)
next
  case (Some i)
  note i = find_free_SomeD [OF Some]
  show ?thesis
    using Some i assms free_slot_timers [OF assms(1) i(2)]
    by (simp add: uni_hid_device_create_def overwrite_slot_eq start_connection_timeout_def
        run_loop_add_timer_def created_def upd_conn_def upd_dev_def zero_device_def)
qed

lemma dev_created:
  "dev (created addr i w) j = (if j = i \<and> i < length (hw_devices w)
     then zero_device\<lparr>hd_conn := zero_conn\<lparr>bc_btaddr := addr\<rparr>\<rparr> else dev w j)"
  using dev_upd_dev [of i _ w j] by (simp add: created_def dev_def)

lemma created_fields:
  "length (hw_devices (created addr i w)) = length (hw_devices w)"
  "hw_mappings (created addr i w) = hw_mappings w" "hw_platform (created addr i w) = hw_platform w"
  "hw_timers (created addr i w) =
     (hw_timers w)((i, Connection_timer) := Some HID_DEVICE_CONNECTION_TIMEOUT_MS)"
  by (simp_all add: created_def upd_dev_def)

lemma created_table:
  assumes "table_inv w" and "i < 4" and "is_free w i" and "addr \<noteq> zero_addr"
  shows "table_inv (created addr i w)"
proof -
  note len = table_inv_length [OF assms(1)]
  obtain rank where "ranked rank w" using assms(1) by (auto simp: table_inv_def)
  then have "ranked (youngest rank i) (created addr i w)"
    by (rule ranked_youngest) (use assms len in \<open>simp_all add: dev_created zero_device_def\<close>)
  moreover have "timers_ok (created addr i w)"
    using assms(1) free_slot_timers [OF _ assms(3)] assms(2,4) len
    by (auto simp: table_inv_def timers_ok_def created_fields dev_created is_free_def zero_device_def)
  moreover have "slots_ok (created addr i w)"
    using assms len zero_circular_buffer_inv
    by (auto simp: table_inv_def slots_ok_def created_fields dev_created is_free_def zero_device_def)
  ultimately show ?thesis using assms(1) by (auto simp: table_inv_def mappings_ok_def created_fields)
qed

lemma created_fewer: "fewer_owned w (created addr i w)"
  by (simp add: fewer_owned_def created_fields dev_created owned_def zero_device_def zero_conn_def)

lemma create_virtual_table:
  assumes "table_inv w" and "p < 4" and "\<not> is_free w p"
    and "uni_hid_device_create_virtual p w = (r, w')"
  shows "table_inv w' \<and> fewer_owned w w'
    \<and> (\<forall>i. r = Some i \<longrightarrow> i < 4 \<and> \<not> is_free w' i \<and> hd_child (dev w' i) = None \<and> clear_of_timers w' i)"
proof (cases "hw_virtual_device_enabled w \<and> List.find (is_free w) slots \<noteq> None")
  case False
  then show ?thesis using assms by (auto simp: uni_hid_device_create_virtual_def split: if_splits)
next
  case True
  then obtain i where f: "List.find (is_free w) slots = Some i" by auto
  note i = find_free_SomeD [OF f]
  note len = table_inv_length [OF assms(1)]
  have ne: "p \<noteq> i" using assms(3) i(2) by auto
  have d: "dev w i = init_device" using assms(1) i by (simp add: table_inv_def slots_ok_def)
  have r: "r = Some i"
    and w': "j \<noteq> i \<Longrightarrow> dev w' j = (if j = p then (dev w p)\<lparr>hd_child := Some i\<rparr> else dev w j)"
    and t: "hw_timers w' = hw_timers w" "hw_mappings w' = hw_mappings w" "hw_platform w' = hw_platform w"
      "length (hw_devices w') = length (hw_devices w)"
    and n: "hd_child (dev w' i) = None" "bc_btaddr (hd_conn (dev w' i)) = bc_btaddr (hd_conn (dev w p))"
      "hd_misc_button_wait_delay (dev w' i) = 0" "hd_outgoing_buffer (dev w' i) = zero_circular_buffer"
      "\<not> owned (dev w' i)" for j
    using assms(2,4) True f i ne len d
    by (auto simp: uni_hid_device_create_virtual_def Let_def dev_simps set_flag_def init_device_def
        zero_device_def uni_bt_conn_init_def zero_conn_def owned_def)
  have free: "is_free w' j \<longleftrightarrow> j \<noteq> i \<and> is_free w j" for j
    using w' [of j] n(2) assms(3) by (cases "j = i") (auto simp: is_free_def)
  obtain rank where "ranked rank w" using assms(1) by (auto simp: table_inv_def)
  then have "ranked (youngest rank i) w'"
    by (rule ranked_youngest) (use i n w' in auto)
  moreover have "timers_ok w'"
    unfolding timers_ok_def t
  proof (intro conjI allI impI)
    fix j ty
    assume "hw_timers w (j, ty) \<noteq> None"
    with assms(1) free_slot_timers [OF _ i(2)] show "j < 4" "\<not> is_free w' j"
      by (auto simp: table_inv_def timers_ok_def free)
  next
    fix j :: nat
    assume "j < 4"
    then show "(hw_timers w (j, Misc_button_timer) \<noteq> None)
        = (hd_misc_button_wait_delay (dev w' j) AND system_bit \<noteq> 0)"
      using assms(1) free_slot_timers [OF _ i(2)] n(3) w' [of j]
      by (cases "j = i") (auto simp: table_inv_def timers_ok_def)
  qed
  moreover have "slots_ok w'"
    unfolding slots_ok_def t
  proof (intro conjI allI impI)
    fix j :: nat
    assume "j < 4" and "is_free w' j"
    then show "dev w' j = init_device"
      using assms(1,3) w' [of j] by (auto simp: free table_inv_def slots_ok_def)
  next
    fix j :: nat
    assume "j < 4"
    then show "cb_inv (hd_outgoing_buffer (dev w' j))"
      using assms(1) w' [of j] n(4) zero_circular_buffer_inv
      by (cases "j = i") (auto simp: table_inv_def slots_ok_def)
  qed (rule len)
  moreover have "fewer_owned w w'"
    unfolding fewer_owned_def t
  proof (intro conjI refl allI impI)
    fix j :: nat
    assume o: "owned (dev w' j)"
    with n(5) have "j \<noteq> i" by metis
    note eq = w' [OF this]
    from o show "owned (dev w j)" unfolding eq by (simp add: owned_def split: if_splits)
    show "hd_platform_data (dev w' j) = hd_platform_data (dev w j)" unfolding eq by simp
  qed
  moreover have "mappings_ok w'" using assms(1) by (simp add: table_inv_def mappings_ok_def t)
  moreover have "i < 4 \<and> \<not> is_free w' i \<and> hd_child (dev w' i) = None \<and> clear_of_timers w' i"
    using i free n(1) assms(1) free_slot_timers [OF _ i(2)] by (simp add: clear_of_timers_iff t table_inv_def)
  ultimately have "table_inv w'" "fewer_owned w w'"
      "i < 4 \<and> \<not> is_free w' i \<and> hd_child (dev w' i) = None \<and> clear_of_timers w' i"
    unfolding table_inv_def by blast+
  then show ?thesis using r by simp
qed

section \<open>Every event keeps the table\<close>

text \<open>An update of a device in use that leaves its links, address and delay flag alone.\<close>

lemma same_link_in_use:
  assumes "\<not> is_free w i"
    and "hd_child (f (dev w i)) = hd_child (dev w i)"
    and "bc_btaddr (hd_conn (f (dev w i))) = bc_btaddr (hd_conn (dev w i))"
    and "hd_misc_button_wait_delay (f (dev w i)) = hd_misc_button_wait_delay (dev w i)"
    and "cb_inv (hd_outgoing_buffer (dev w i)) \<Longrightarrow> cb_inv (hd_outgoing_buffer (f (dev w i)))"
  shows "same_link (dev w i) (f (dev w i))"
  using assms by (simp add: same_link_def is_free_def)

lemma quiet_in_use:
  assumes "\<not> is_free w i"
    and "hd_child (f (dev w i)) = hd_child (dev w i)"
    and "hd_conn (f (dev w i)) = hd_conn (dev w i)"
    and "hd_misc_button_wait_delay (f (dev w i)) = hd_misc_button_wait_delay (dev w i)"
    and "hd_outgoing_buffer (f (dev w i)) = hd_outgoing_buffer (dev w i)"
    and "hd_platform_data (f (dev w i)) = hd_platform_data (dev w i)"
  shows "quiet w (upd_dev i f w)"
  using assms by (intro quiet_upd_dev same_link_in_use) (simp_all add: owned_def)

lemma misc_bit_cleared: "(x AND NOT system_bit) AND system_bit = 0" for x :: u32
  by (rule bit_eqI) (simp add: bit_simps)

lemma misc_bit_set: "(x OR system_bit) AND system_bit \<noteq> 0" for x :: u32
proof -
  have "bit ((x OR system_bit) AND system_bit) 0"
    by (simp add: system_bit_def MISC_BUTTON_SYSTEM_def BIT_def bit_simps)
  then show ?thesis by (metis bit_0_eq bot_apply bot_bool_def)
qed

lemma clear_child_table:
  assumes "table_inv w"
  shows "table_inv (upd_dev i (\<lambda>d. d\<lparr>hd_child := None\<rparr>) w)" (is "table_inv ?w")
proof -
  have d: "dev ?w j = (if j = i \<and> i < 4 then (dev w i)\<lparr>hd_child := None\<rparr> else dev w j)" for j
    using table_inv_length [OF assms] by (simp add: dev_simps)
  obtain rank where "ranked rank w" using assms by (auto simp: table_inv_def)
  then have "ranked rank ?w" by (auto simp: ranked_def d)
  moreover have "timers_ok ?w"
    using assms by (auto simp: table_inv_def timers_ok_def is_free_def d dev_simps)
  moreover have "slots_ok ?w"
    unfolding slots_ok_def
  proof (intro conjI allI impI)
    fix j :: nat
    assume "j < 4" and "is_free ?w j"
    then have "dev w j = init_device"
      using assms by (auto simp: table_inv_def slots_ok_def is_free_def d split: if_splits)
    then show "dev ?w j = init_device" by (auto simp: d init_device_def zero_device_def)
  qed (use assms in \<open>auto simp: table_inv_def slots_ok_def d dev_simps\<close>)
  moreover have "mappings_ok ?w" using assms by (simp add: table_inv_def mappings_ok_def dev_simps)
  ultimately show ?thesis unfolding table_inv_def by blast
qed

lemma upd_conn_call: "upd_conn i f (call c w) = call c (upd_conn i f w)"
  by (simp add: upd_conn_def upd_dev_def call_def)

context hid_platform begin

lemma connect_winv:
  assumes "winv w" and "i < 4" and "\<not> is_free w i"
  shows "winv (uni_hid_device_connect plat i w)" and "keep w (uni_hid_device_connect plat i w)"
proof -
  let ?w1 = "upd_conn i (uni_bt_conn_set_connected True) w"
  let ?w2 = "pl_on_device_connected plat i ?w1"
  have k1: "keep w ?w1"
    unfolding upd_conn_def
    by (rule keep_upd_dev, rule same_link_in_use) (use assms(3) in \<open>simp_all add: uni_bt_conn_set_connected_def\<close>)
  then have "\<not> is_free ?w1 i" using keepD(2) assms(2,3) by blast
  then have k: "keep w ?w2" using frame_keep [OF connected_frame] k1 keep_trans by blast
  moreover have "pinv ?w2" using connected_pinv assms winv_length by (simp add: winv_def)
  ultimately have "winv ?w2" using assms(1) keep_table_inv by (auto simp: winv_def)
  then show "winv (uni_hid_device_connect plat i w)"
    by (simp add: uni_hid_device_connect_def uni_hid_device_on_connected_def quiet_winv [OF _ quiet_call])
  show "keep w (uni_hid_device_connect plat i w)"
    using keep_trans [OF k keep_call] by (simp add: uni_hid_device_connect_def uni_hid_device_on_connected_def)
qed

lemma set_ready_complete_winv:
  assumes "winv w" and "i < 4" and "\<not> is_free w i"
  shows "case uni_hid_device_set_ready_complete plat gap i w of
      Inl e \<Rightarrow> e = Registered_timer_cleared \<and> timer_left i w
    | Inr (accepted, w') \<Rightarrow> winv w' \<and> (accepted \<longrightarrow> keep w w')"
proof (cases "bc_state (hd_conn (dev w i)) = UNI_BT_CONN_STATE_DEVICE_READY")
  case True
  with assms show ?thesis by (simp add: uni_hid_device_set_ready_complete_def)
next
  case False
  let ?w0 = "run_loop_remove_timer (i, Connection_timer) w"
  obtain e w1 where ready: "pl_on_device_ready plat i ?w0 = (e, w1)" by fastforce
  have q0: "quiet w ?w0" by (rule quiet_remove) simp
  then have w0: "winv ?w0" using assms(1) quiet_winv by blast
  have "\<not> is_free ?w0 i" using assms(3) by (simp add: is_free_def dev_simps)
  then have k: "keep w w1"
    using frame_keep ready_frame [of i ?w0] ready q0 keep_trans unfolding quiet_def by (metis snd_conv)
  have p: "pinv w1" "e = UNI_ERROR_SUCCESS \<Longrightarrow>
      pinv (upd_conn i (uni_bt_conn_set_state UNI_BT_CONN_STATE_DEVICE_READY) w1)"
    using ready_pinv [OF _ assms(2) _ ready] w0 winv_length by (auto simp: winv_def)
  have w1: "winv w1" using p(1) k assms(1) keep_table_inv by (auto simp: winv_def)
  obtain rank where "ranked rank w" using assms(1) by (auto simp: winv_def table_inv_def)
  note left = keep_timer_left [OF k this assms(2)]
  show ?thesis
  proof (cases "e = UNI_ERROR_SUCCESS")
    case True
    let ?w2 = "upd_conn i (uni_bt_conn_set_state UNI_BT_CONN_STATE_DEVICE_READY) w1"
    have "\<not> is_free w1 i" using keepD(2) [OF k assms(2)] assms(3) by simp
    then have "keep w1 ?w2"
      unfolding upd_conn_def
      by (intro keep_upd_dev same_link_in_use) (simp_all add: uni_bt_conn_set_state_def)
    then have k2: "keep w ?w2" using k keep_trans by blast
    with p(2) True assms(1) have "winv ?w2" using keep_table_inv by (auto simp: winv_def)
    then have "winv (call (Service_on_ready i) ?w2)" using quiet_winv quiet_call by blast
    moreover have "keep w (call (Service_on_ready i) ?w2)" using k2 keep_call keep_trans by blast
    ultimately show ?thesis
      using False ready True by (simp add: uni_hid_device_set_ready_complete_def upd_conn_call)
  next
    case declined: False
    with disconnect_and_delete_winv [OF w1 assms(2), of gap] left False ready show ?thesis
      by (cases "disconnect_and_delete plat gap i w1") (simp_all add: uni_hid_device_set_ready_complete_def)
  qed
qed

lemma complete_with_virtual_mouse_winv:
  assumes "winv w" and "i < 4" and "\<not> is_free w i"
  shows "case complete_with_virtual_mouse plat gap i w of
      Inl e \<Rightarrow> e = Registered_timer_cleared \<and> timer_left i w | Inr w' \<Rightarrow> winv w'"
proof (cases "uni_hid_device_set_ready_complete plat gap i w")
  case (Inl e)
  with set_ready_complete_winv [OF assms, of gap] show ?thesis by (simp add: complete_with_virtual_mouse_def)
next
  case (Inr r)
  obtain accepted w1 where r: "r = (accepted, w1)" by fastforce
  with Inr set_ready_complete_winv [OF assms, of gap]
  have w1: "winv w1" "accepted \<Longrightarrow> keep w w1" by simp_all
  obtain c w2 where v: "uni_hid_device_create_virtual i w1 = (c, w2)" by fastforce
  show ?thesis
  proof (cases "accepted \<and> c \<noteq> None")
    case False
    have "winv w2" if accepted
    proof -
      have "\<not> is_free w1 i" using w1(2) [OF that] assms(2,3) keepD(2) by blast
      then have "table_inv w2 \<and> fewer_owned w1 w2"
        using create_virtual_table [OF _ assms(2) _ v] w1(1) by (auto simp: winv_def)
      then show ?thesis using w1(1) fewer by (auto simp: winv_def)
    qed
    with False Inr r w1 v show ?thesis by (auto simp: complete_with_virtual_mouse_def)
  next
    case True
    then obtain j where j: "c = Some j" and accepted by auto
    then have "\<not> is_free w1 i" using w1(2) assms(2,3) keepD(2) by blast
    then have w2: "table_inv w2" "fewer_owned w1 w2" "j < 4" "\<not> is_free w2 j" "hd_child (dev w2 j) = None"
        "clear_of_timers w2 j"
      using create_virtual_table [OF _ assms(2) _ v] w1(1) j by (auto simp: winv_def)
    then have "winv w2" using w1(1) fewer by (auto simp: winv_def)
    let ?w3 = "upd_dev j (uni_hid_device_set_cod (UNI_BT_COD_MAJOR_PERIPHERAL OR UNI_BT_COD_MINOR_MICE)) w2"
    have q3: "quiet w2 ?w3"
      by (rule quiet_in_use) (use w2(4) in \<open>simp_all add: uni_hid_device_set_cod_def set_flag_def Let_def\<close>)
    have w3: "winv ?w3" "\<not> is_free ?w3 j"
      using quiet_winv [OF \<open>winv w2\<close> q3] keepD(2) [of w2 ?w3 j] q3 w2(3,4) by (simp_all add: quiet_def)
    let ?w4 = "uni_hid_device_connect plat j ?w3"
    note w4 = connect_winv [OF w3(1) w2(3) w3(2)]
    have "\<not> is_free ?w4 j" using keepD(2) [OF w4(2) w2(3)] w3(2) by simp
    note src = set_ready_complete_winv [OF w4(1) w2(3) this, of gap]
    have k4: "keep w2 ?w4" using q3 w4(2) keep_trans unfolding quiet_def by blast
    have "hd_child (dev ?w4 j) = None" "clear_of_timers ?w4 j"
      using keepD(1) [OF k4 w2(3)] keep_clear [OF k4] w2(5,6) by simp_all
    then have clear: "\<not> timer_left j ?w4" by (simp add: timer_left_def)
    have "winv (upd_dev i (\<lambda>d. d\<lparr>hd_child := None\<rparr>) w5)" if "winv w5" for w5
      using that clear_child_table [of w5 i]
        fewer [OF _ fewer_owned_upd_dev [of "\<lambda>d. d\<lparr>hd_child := None\<rparr>" w5 i]]
      by (simp add: winv_def owned_def)
    with src clear Inr r v j \<open>accepted\<close> show ?thesis
      by (cases "uni_hid_device_set_ready_complete plat gap j ?w4")
        (auto simp: complete_with_virtual_mouse_def Let_def)
  qed
qed

end

text \<open>
  The three ways in which the device code can leave its state, each with the event that does it:
  a descriptor longer than the array of the device is copied; the timer of the name request, or
  one of a driver, is registered while it is registered; and a device is deleted while the delay
  timer of its button or a timer of its driver runs, in its own slot or in one that its child
  links lead to.
\<close>

definition hid_failure :: "hid_event \<Rightarrow> 'p hid_world \<Rightarrow> c_error \<Rightarrow> bool" where
  "hid_failure ev w e \<longleftrightarrow> (case ev of
     Descriptor _ ds \<Rightarrow> e = Out_of_bounds \<and> HID_MAX_DESCRIPTOR_LEN < length ds
   | Name_requested i \<Rightarrow> e = Assertion_failed \<and> hw_timers w (i, Inquiry_timer) \<noteq> None
   | Driver_timer_added i t _ \<Rightarrow> e = Assertion_failed \<and> hw_timers w (i, Parser_timer t) \<noteq> None
   | Set_ready _ i \<Rightarrow> e = Registered_timer_cleared \<and> timer_left i w
   | Setup_complete _ i \<Rightarrow> e = Registered_timer_cleared \<and> timer_left i w
   | Setup_complete_with_mouse _ i \<Rightarrow> e = Registered_timer_cleared \<and> timer_left i w
   | Disconnected _ i \<Rightarrow> e = Registered_timer_cleared \<and> timer_left i w
   | Connection_timeout _ i \<Rightarrow> e = Registered_timer_cleared \<and> timer_left i w
   | _ \<Rightarrow> False)"

text \<open>The operations that only write fields of one device in use.\<close>

lemma setters_quiet:
  assumes "\<not> is_free w i"
  shows "quiet w (upd_dev i (uni_hid_device_set_cod cod) w)"
    "quiet w (upd_dev i (uni_hid_device_set_name name) w)"
    "quiet w (upd_dev i (\<lambda>d. uni_hid_device_set_product_id pid (uni_hid_device_set_vendor_id vid d)) w)"
    "quiet w (upd_dev i (\<lambda>d. d\<lparr>hd_hids_cid := c\<rparr>) w)"
    "quiet w (upd_dev i (\<lambda>d. d\<lparr>hd_controller := ctl\<rparr>) w)"
    "quiet w (upd_dev i (\<lambda>d. d\<lparr>hd_misc_button_wait_release := bits d\<rparr>) w)"
  by (rule quiet_in_use; use assms in \<open>simp add: uni_hid_device_set_cod_def uni_hid_device_set_name_def
      uni_hid_device_set_product_id_def uni_hid_device_set_vendor_id_def set_flag_def Let_def\<close>)+

lemma conn_setters_quiet:
  assumes "\<not> is_free w i"
  shows "quiet w (upd_dev i (uni_hid_device_set_incoming inc) w)"
    "quiet w (upd_dev i (uni_hid_device_set_connection_handle handle) w)"
    "quiet w (upd_dev i (\<lambda>d. d\<lparr>hd_conn := (hd_conn d)\<lparr>bc_control_cid := c1, bc_interrupt_cid := c2\<rparr>\<rparr>) w)"
    "st \<noteq> UNI_BT_CONN_STATE_DEVICE_READY \<Longrightarrow>
       quiet w (upd_dev i (\<lambda>d. d\<lparr>hd_conn := uni_bt_conn_set_state st (hd_conn d)\<rparr>) w)"
  by (rule quiet_upd_dev, rule same_link_in_use;
      use assms in \<open>simp add: uni_hid_device_set_incoming_def uni_hid_device_set_connection_handle_def
        uni_bt_conn_set_state_def owned_def\<close>)+

lemma set_hid_descriptor_same:
  assumes "uni_hid_device_set_hid_descriptor ds d = Inr d'"
  shows "hd_child d' = hd_child d \<and> hd_conn d' = hd_conn d
    \<and> hd_misc_button_wait_delay d' = hd_misc_button_wait_delay d
    \<and> hd_outgoing_buffer d' = hd_outgoing_buffer d \<and> hd_platform_data d' = hd_platform_data d"
  using assms by (auto simp: uni_hid_device_set_hid_descriptor_def set_flag_def split: if_splits)

lemma xbox_descriptor_length: "length xbox_hid_descriptor_4_8_fw = 334"
  by (simp add: xbox_hid_descriptor_4_8_fw_def)

lemma guess_type_same:
  "\<exists>d'. uni_hid_device_guess_controller_type_from_pid_vid d = Inr d' \<and> hd_child d' = hd_child d
    \<and> hd_conn d' = hd_conn d \<and> hd_misc_button_wait_delay d' = hd_misc_button_wait_delay d
    \<and> hd_outgoing_buffer d' = hd_outgoing_buffer d \<and> hd_platform_data d' = hd_platform_data d"
  by (auto simp: uni_hid_device_guess_controller_type_from_pid_vid_def guess_unknown_def Let_def
      uni_hid_parser_xboxone_does_name_match_def uni_hid_device_set_hid_descriptor_def
      uni_hid_device_set_product_id_def uni_hid_device_set_vendor_id_def set_flag_def
      xbox_descriptor_length HID_MAX_DESCRIPTOR_LEN_def)

lemma put_buffer_inv:
  assumes "cb_inv b" and "uni_circular_buffer_put b cid data = Inr b'"
  shows "cb_inv b'"
  using cb.put_InrD [of b "(cid, data)" b'] assms by (simp add: cb_put_def)

lemma get_buffer_inv:
  assumes "cb_inv b" and "uni_circular_buffer_get b = Inr (cid, i, data, len, b')"
  shows "cb_inv b'"
  using cb.get_InrD [of b "(cid, take len data)" b'] assms by (simp add: cb_get_def)

lemma buffer_quiet:
  assumes "\<not> is_free w i" and "cb_inv (hd_outgoing_buffer (dev w i)) \<Longrightarrow> cb_inv b"
  shows "quiet w (upd_dev i (\<lambda>d. d\<lparr>hd_outgoing_buffer := b\<rparr>) w)"
  by (rule quiet_upd_dev, rule same_link_in_use) (use assms in \<open>simp_all add: owned_def\<close>)

lemma send_report_quiet:
  assumes "\<not> is_free w i"
  shows "quiet w (uni_hid_device_send_report sent i cid report w)"
proof -
  let ?w1 = "call (L2cap_send cid report) w"
  have u: "\<not> is_free ?w1 i" using assms by (simp add: is_free_def dev_simps)
  have "quiet ?w1 (upd_dev i (\<lambda>d. d\<lparr>hd_outgoing_buffer := b\<rparr>) ?w1)"
    if "uni_circular_buffer_put (hd_outgoing_buffer (dev ?w1 i)) cid report = Inr b" for b
    using buffer_quiet [OF u] put_buffer_inv that by blast
  then have "quiet w (case uni_circular_buffer_put (hd_outgoing_buffer (dev ?w1 i)) cid report of
      Inl _ \<Rightarrow> ?w1 | Inr b \<Rightarrow> upd_dev i (\<lambda>d. d\<lparr>hd_outgoing_buffer := b\<rparr>) ?w1)"
    using quiet_trans [OF quiet_call] quiet_call
    by (cases "uni_circular_buffer_put (hd_outgoing_buffer (dev ?w1 i)) cid report") auto
  then show ?thesis
    by (simp add: uni_hid_device_send_report_def Let_def quiet_call_after quiet_call)
qed

lemma send_queued_quiet:
  assumes "\<not> is_free w i"
  shows "quiet w (uni_hid_device_send_queued_reports sent i w)"
proof (cases "uni_circular_buffer_get (hd_outgoing_buffer (dev w i))")
  case (Inl e)
  then show ?thesis by (simp add: uni_hid_device_send_queued_reports_def)
next
  case (Inr r)
  obtain cid j data len b where r: "r = (cid, j, data, len, b)" by (metis prod_cases5)
  let ?w1 = "upd_dev i (\<lambda>d. d\<lparr>hd_outgoing_buffer := b\<rparr>) w"
  have q: "quiet w ?w1" using buffer_quiet [OF assms] get_buffer_inv Inr r by blast
  then have "\<not> is_free ?w1 i" using assms by (auto simp: is_free_def dev_simps)
  then have "quiet w (uni_hid_device_send_report sent i cid (take len data) ?w1)"
    using q send_report_quiet quiet_trans by blast
  then show ?thesis by (simp add: uni_hid_device_send_queued_reports_def Inr r)
qed

lemma misc_timer_table:
  assumes "table_inv w" and "i < 4" and "\<not> is_free w i"
    and "(ms \<noteq> None) = (delay AND system_bit \<noteq> 0)"
  shows "table_inv ((upd_dev i (\<lambda>d. d\<lparr>hd_misc_button_wait_delay := delay\<rparr>) w)
           \<lparr>hw_timers := (hw_timers w)((i, Misc_button_timer) := ms)\<rparr>)" (is "table_inv ?w")
proof -
  have d: "dev ?w j = (if j = i then (dev w i)\<lparr>hd_misc_button_wait_delay := delay\<rparr> else dev w j)" for j
    using dev_upd_dev [of i _ w j] table_inv_length [OF assms(1)] assms(2) by (simp add: dev_def)
  have t: "hw_timers ?w = (hw_timers w)((i, Misc_button_timer) := ms)" "hw_mappings ?w = hw_mappings w"
    "length (hw_devices ?w) = 4"
    using table_inv_length [OF assms(1)] by (simp_all add: upd_dev_fields)
  have f: "is_free ?w j = is_free w j" for j by (simp add: is_free_def d)
  obtain rank where "ranked rank w" using assms(1) by (auto simp: table_inv_def)
  then have "ranked rank ?w" by (auto simp: ranked_def d)
  moreover have "timers_ok ?w"
    using assms unfolding timers_ok_def f t table_inv_def by (auto simp: d)
  moreover have "slots_ok ?w"
    using assms(1,3) unfolding slots_ok_def f t table_inv_def by (auto simp: d)
  moreover have "mappings_ok ?w" using assms(1) by (simp add: table_inv_def mappings_ok_def t)
  ultimately show ?thesis unfolding table_inv_def by blast
qed

lemma misc_timer_fewer:
  "fewer_owned w ((upd_dev i (\<lambda>d. d\<lparr>hd_misc_button_wait_delay := delay\<rparr>) w)\<lparr>hw_timers := ts\<rparr>)"
proof -
  have "dev ((upd_dev i (\<lambda>d. d\<lparr>hd_misc_button_wait_delay := delay\<rparr>) w)\<lparr>hw_timers := ts\<rparr>) j
      = dev (upd_dev i (\<lambda>d. d\<lparr>hd_misc_button_wait_delay := delay\<rparr>) w) j" for j
    by (simp add: dev_def)
  then show ?thesis by (auto simp: fewer_owned_def owned_def dev_simps)
qed

lemma remap_controller_total:
  assumes "mappings_ok w"
  shows "\<exists>ctl'. remap_controller (hw_mappings w) ctl = Inr ctl'"
  using assms by (auto simp: remap_controller_def uni_gamepad_remap_def mappings_ok_def)

lemma upd_dev_upd_dev: "upd_dev i f (upd_dev i g w) = upd_dev i (\<lambda>d. f (g d)) w"
  by (cases "i < length (hw_devices w)") (simp_all add: upd_dev_def list_update_beyond)

context hid_platform begin

lemma misc_timer_winv:
  assumes "winv w" and "i < 4" and "\<not> is_free w i" and "(ms \<noteq> None) = (delay AND system_bit \<noteq> 0)"
  shows "winv ((upd_dev i (\<lambda>d. d\<lparr>hd_misc_button_wait_delay := delay\<rparr>) w)
           \<lparr>hw_timers := (hw_timers w)((i, Misc_button_timer) := ms)\<rparr>)"
  using misc_timer_table [OF _ assms(2-4)] assms(1) fewer [OF _ misc_timer_fewer] unfolding winv_def by blast

lemma misc_button_timeout_winv:
  assumes "winv w" and "hw_timers w (i, Misc_button_timer) \<noteq> None"
  shows "winv (misc_button_enable_callback i (run_loop_remove_timer (i, Misc_button_timer) w))"
proof -
  have i: "i < 4" "\<not> is_free w i"
    using assms unfolding winv_def table_inv_def timers_ok_def by blast+
  let ?delay = "hd_misc_button_wait_delay (dev w i) AND NOT system_bit"
  have eq: "misc_button_enable_callback i (run_loop_remove_timer (i, Misc_button_timer) w)
      = (upd_dev i (\<lambda>d. d\<lparr>hd_misc_button_wait_delay := ?delay\<rparr>) w)
         \<lparr>hw_timers := (hw_timers w)((i, Misc_button_timer) := None)\<rparr>"
    by (simp add: misc_button_enable_callback_def run_loop_remove_timer_def upd_dev_def dev_def)
  show ?thesis unfolding eq
    by (rule misc_timer_winv [OF assms(1) i]) (simp only: misc_bit_cleared, simp)
qed

lemma process_misc_button_system_winv:
  assumes "winv w" and "i < 4" and "\<not> is_free w i"
  shows "\<exists>w'. process_misc_button_system i w = Inr w' \<and> winv w' \<and> \<not> is_free w' i"
proof -
  define press :: "uni_hid_device \<Rightarrow> uni_hid_device"
    where "press = (\<lambda>d. d\<lparr>hd_misc_button_wait_release := hd_misc_button_wait_release d OR system_bit\<rparr>)"
  let ?d = "dev w i"
  let ?w1 = "call (Oob_system_button i) (upd_dev i press w)"
  have q: "quiet w ?w1" "quiet w (upd_dev i (\<lambda>d. d\<lparr>hd_misc_button_wait_release :=
      hd_misc_button_wait_release d AND NOT system_bit\<rparr>) w)"
    unfolding press_def by (rule quiet_call_after, rule setters_quiet(6) [OF assms(3)])
      (rule setters_quiet(6) [OF assms(3)])
  then have w1: "winv ?w1" "\<not> is_free ?w1 i"
    using quiet_winv [OF assms(1) q(1)] keepD(2) [of w ?w1 i] assms(2,3) by (simp_all add: quiet_def)
  consider "gp_misc_buttons (ctl_gamepad (hd_controller ?d)) AND MISC_BUTTON_SYSTEM = 0"
    | "hd_misc_button_wait_release ?d AND system_bit \<noteq> 0
        \<or> requires_delay ?d \<and> hd_misc_button_wait_delay ?d AND system_bit \<noteq> 0"
      "gp_misc_buttons (ctl_gamepad (hd_controller ?d)) AND MISC_BUTTON_SYSTEM \<noteq> 0"
    | (plain) "\<not> requires_delay ?d" "hd_misc_button_wait_release ?d AND system_bit = 0"
      "gp_misc_buttons (ctl_gamepad (hd_controller ?d)) AND MISC_BUTTON_SYSTEM \<noteq> 0"
    | (delayed) "requires_delay ?d" "hd_misc_button_wait_release ?d AND system_bit = 0"
      "hd_misc_button_wait_delay ?d AND system_bit = 0"
      "gp_misc_buttons (ctl_gamepad (hd_controller ?d)) AND MISC_BUTTON_SYSTEM \<noteq> 0"
    by blast
  then show ?thesis
  proof cases
    case 1
    have "\<not> is_free (upd_dev i (\<lambda>d. d\<lparr>hd_misc_button_wait_release :=
        hd_misc_button_wait_release d AND NOT system_bit\<rparr>) w) i"
      using assms(3) by (simp add: is_free_def dev_simps)
    with 1 quiet_winv [OF assms(1) q(2)] show ?thesis
      by (simp add: process_misc_button_system_def Let_def)
  next
    case 2
    with assms show ?thesis by (auto simp: process_misc_button_system_def Let_def)
  next
    case plain
    with w1 show ?thesis by (simp add: process_misc_button_system_def Let_def press_def)
  next
    case delayed
    let ?delay = "hd_misc_button_wait_delay (dev ?w1 i) OR system_bit"
    let ?w2 = "(upd_dev i (\<lambda>d. d\<lparr>hd_misc_button_wait_delay := ?delay\<rparr>) ?w1)
         \<lparr>hw_timers := (hw_timers ?w1)((i, Misc_button_timer) := Some MISC_BUTTON_DELAY_MS)\<rparr>"
    have off: "hw_timers w (i, Misc_button_timer) = None"
      using assms(1,2) delayed(3) unfolding winv_def table_inv_def timers_ok_def by blast
    have "process_misc_button_system i w = Inr ?w2"
      using delayed off
      by (simp add: process_misc_button_system_def Let_def press_def run_loop_add_timer_def dev_simps)
        (simp add: upd_dev_def call_def dev_def winv_length [OF assms(1)] assms(2))
    moreover have "winv ?w2"
      by (rule misc_timer_winv [OF w1(1) assms(2) w1(2)]) (use misc_bit_set in blast)
    moreover have "\<not> is_free ?w2 i"
      using w1(2) dev_upd_dev [of i "\<lambda>d. d\<lparr>hd_misc_button_wait_delay := ?delay\<rparr>" ?w1 i]
      by (simp add: is_free_def dev_def split: if_splits)
    ultimately show ?thesis by blast
  qed
qed

end

context hid_platform begin

lemma process_controller_winv:
  assumes "winv w" and "i < 4"
  shows "\<exists>w'. uni_hid_device_process_controller plat i w = Inr w' \<and> winv w'"
proof (cases "bc_state (hd_conn (dev w i)) = UNI_BT_CONN_STATE_DEVICE_READY")
  case False
  with assms(1) show ?thesis by (simp add: uni_hid_device_process_controller_def)
next
  case True
  have used: "\<not> is_free w i" using owned_in_use [of w i] assms True by (simp add: winv_def owned_def)
  obtain ctl where ctl: "remap_controller (hw_mappings w) (hd_controller (dev w i)) = Inr ctl"
    using remap_controller_total assms(1) by (auto simp: winv_def table_inv_def)
  let ?w1 = "upd_dev i (\<lambda>d. d\<lparr>hd_controller := ctl\<rparr>) w"
  let ?w2 = "platform_data_callback plat i ?w1"
  have q1: "quiet w ?w1" using setters_quiet(5) [OF used] .
  then have w1: "winv ?w1" "\<not> is_free ?w1 i"
    using quiet_winv [OF assms(1)] keepD(2) [of w ?w1 i] used assms(2) by (simp_all add: quiet_def)
  have k2: "keep ?w1 ?w2" by (rule frame_keep [OF data_frame w1(2)])
  have w2: "winv ?w2" "\<not> is_free ?w2 i"
    using keep_table_inv [OF k2] data_pinv [OF _ assms(2) winv_length [OF w1(1)]] w1
      keepD(2) [OF k2 assms(2)] by (simp_all add: winv_def)
  obtain w3 where w3: "process_misc_button_system i ?w2 = Inr w3" "winv w3" "\<not> is_free w3 i"
    using process_misc_button_system_winv [OF w2(1) assms(2) w2(2)] by blast
  have "quiet w3 (process_misc_button_home i w3)"
    using setters_quiet(6) [OF w3(3)] by (simp add: process_misc_button_home_def Let_def)
  then have "winv (process_misc_button_home i w3)" using w3(2) quiet_winv by blast
  with True ctl w3(1) show ?thesis by (simp add: uni_hid_device_process_controller_def)
qed

lemma create_winv:
  assumes "winv w" and "addr \<noteq> zero_addr"
  shows "\<exists>w'. mapR snd (uni_hid_device_create addr w) = Inr w' \<and> winv w'"
proof (cases "List.find (is_free w) slots")
  case None
  with assms(1) show ?thesis by (simp add: uni_hid_device_create_def)
next
  case (Some i)
  then have "winv (created addr i w)"
    using assms find_free_SomeD [OF Some] created_table fewer [OF _ created_fewer]
    unfolding winv_def by blast
  moreover have "timers_ok w" using assms(1) by (simp add: winv_def table_inv_def)
  ultimately show ?thesis
    using Some winv_length [OF assms(1)] by (simp add: uni_hid_device_create_eq)
qed

lemma set_ready_winv:
  assumes "winv w" and "i < 4" and "\<not> is_free w i"
  shows "case uni_hid_device_set_ready plat gap i w of
      Inl e \<Rightarrow> e = Registered_timer_cleared \<and> timer_left i w | Inr w' \<Rightarrow> winv w'"
proof (cases "bc_state (hd_conn (dev w i)) = UNI_BT_CONN_STATE_DEVICE_PENDING_READY")
  case True
  with assms(1) show ?thesis by (simp add: uni_hid_device_set_ready_def)
next
  case False
  let ?w1 = "upd_conn i (uni_bt_conn_set_state UNI_BT_CONN_STATE_DEVICE_PENDING_READY) w"
  have q: "quiet w ?w1" unfolding upd_conn_def by (rule conn_setters_quiet(4) [OF assms(3)]) simp
  then have w1: "winv ?w1" "\<not> is_free ?w1 i"
    using quiet_winv [OF assms(1) q] keepD(2) [of w ?w1 i] assms(2,3) by (simp_all add: quiet_def)
  note ready = set_ready_complete_winv [OF w1(1) assms(2) w1(2), of gap]
  obtain rank where "ranked rank w" using assms(1) by (auto simp: winv_def table_inv_def)
  then have left: "timer_left i ?w1 = timer_left i w"
    using keep_timer_left [of w ?w1 rank i] q assms(2) by (simp add: quiet_def)
  show ?thesis
  proof (cases "rv_setup (hd_report_parser (dev ?w1 i))")
    case None
    with ready left False show ?thesis
      by (cases "uni_hid_device_set_ready_complete plat gap i ?w1")
        (auto simp: uni_hid_device_set_ready_def Let_def)
  next
    case (Some driver)
    with w1(1) False show ?thesis
      by (simp add: uni_hid_device_set_ready_def Let_def quiet_winv [OF _ quiet_call])
  qed
qed

text \<open>The result of an event is good when it keeps the invariant or fails for a named cause.\<close>

definition good_result :: "(c_error \<Rightarrow> bool) \<Rightarrow> 'p hid_world cres \<Rightarrow> bool" where
  "good_result C r \<longleftrightarrow> (case r of Inl e \<Rightarrow> C e | Inr w' \<Rightarrow> winv w')"

lemma good_InrI: "winv w' \<Longrightarrow> good_result C (Inr w')"
  by (simp add: good_result_def)

lemma good_on_slot:
  assumes "winv w" and "\<lbrakk>i < 4; \<not> is_free w i\<rbrakk> \<Longrightarrow> good_result C (f w)"
  shows "good_result C (on_slot i f w)"
  using assms by (auto simp: on_slot_def CONFIG_BLUEPAD32_MAX_DEVICES_def intro: good_InrI)

lemma good_upd_slot:
  assumes "winv w" and "\<not> is_free w i \<Longrightarrow> quiet w (upd_dev i f w)"
  shows "good_result C (upd_slot i f w)"
  unfolding upd_slot_def using assms(1)
proof (rule good_on_slot)
  assume "\<not> is_free w i"
  then show "good_result C (Inr (upd_dev i f w))" using assms quiet_winv good_InrI by blast
qed

lemma overwrite_good:
  assumes "winv w" and "\<not> is_free w i" and "hd_child d' = hd_child (dev w i)"
    and "hd_conn d' = hd_conn (dev w i)"
    and "hd_misc_button_wait_delay d' = hd_misc_button_wait_delay (dev w i)"
    and "hd_outgoing_buffer d' = hd_outgoing_buffer (dev w i)"
    and "hd_platform_data d' = hd_platform_data (dev w i)"
  shows "good_result C (Inr (upd_dev i (\<lambda>_. d') w))"
proof -
  have "quiet w (upd_dev i (\<lambda>_. d') w)" by (rule quiet_in_use) (use assms in simp_all)
  then show ?thesis using assms(1) quiet_winv good_InrI by blast
qed

lemma descriptor_good:
  assumes "winv w" and "\<not> is_free w i"
  shows "good_result (hid_failure (Descriptor i ds) w)
    (mapR (\<lambda>d. upd_dev i (\<lambda>_. d) w) (uni_hid_device_set_hid_descriptor ds (dev w i)))"
proof (cases "uni_hid_device_set_hid_descriptor ds (dev w i)")
  case (Inl e)
  then show ?thesis
    by (auto simp: good_result_def hid_failure_def uni_hid_device_set_hid_descriptor_def split: if_splits)
next
  case (Inr d')
  from set_hid_descriptor_same [OF Inr]
  have "good_result (hid_failure (Descriptor i ds) w) (Inr (upd_dev i (\<lambda>_. d') w))"
    by (intro overwrite_good [OF assms]) simp_all
  with Inr show ?thesis by simp
qed

lemma guess_good:
  assumes "winv w" and "\<not> is_free w i"
  shows "good_result C (mapR (\<lambda>d. upd_dev i (\<lambda>_. d) w)
           (uni_hid_device_guess_controller_type_from_pid_vid (dev w i)))"
proof -
  obtain d' where d': "uni_hid_device_guess_controller_type_from_pid_vid (dev w i) = Inr d'"
    "hd_child d' = hd_child (dev w i)" "hd_conn d' = hd_conn (dev w i)"
    "hd_misc_button_wait_delay d' = hd_misc_button_wait_delay (dev w i)"
    "hd_outgoing_buffer d' = hd_outgoing_buffer (dev w i)"
    "hd_platform_data d' = hd_platform_data (dev w i)"
    using guess_type_same by blast
  then have "good_result C (Inr (upd_dev i (\<lambda>_. d') w))" by (intro overwrite_good [OF assms])
  with d'(1) show ?thesis by simp
qed

lemma timeout_good:
  assumes "winv w"
  shows "good_result (hid_failure (Connection_timeout gap i) w) (hid_step plat (Connection_timeout gap i) w)"
proof (cases "hw_timers w (i, Connection_timer)")
  case None
  with assms show ?thesis by (simp add: hid_step_def good_InrI)
next
  case (Some ms)
  then have "i < 4" using assms unfolding winv_def table_inv_def timers_ok_def by (metis option.distinct(1))
  let ?w1 = "run_loop_remove_timer (i, Connection_timer) w"
  have q: "quiet w ?w1" by (rule quiet_remove) simp
  have w1: "winv ?w1" by (rule quiet_winv [OF assms q])
  obtain rank where "ranked rank w" using assms by (auto simp: winv_def table_inv_def)
  then have "timer_left i ?w1 = timer_left i w"
    using keep_timer_left [of w ?w1 rank i] q \<open>i < 4\<close> by (simp add: quiet_def)
  with disconnect_and_delete_winv [OF w1 \<open>i < 4\<close>, of gap] w1 Some show ?thesis
    by (auto simp: hid_step_def device_connection_timeout_def good_result_def hid_failure_def split: sum.splits)
qed

lemma report_good:
  assumes "winv w" and "i < 4" and "\<not> is_free w i"
  shows "good_result C (uni_hid_device_process_controller plat i (upd_dev i (\<lambda>d. d\<lparr>hd_controller := ctl\<rparr>) w))"
proof -
  have "winv (upd_dev i (\<lambda>d. d\<lparr>hd_controller := ctl\<rparr>) w)"
    using setters_quiet(5) [OF assms(3)] assms(1) quiet_winv by blast
  with process_controller_winv [OF _ assms(2)] show ?thesis
    using good_InrI by (metis)
qed

lemma ready_complete_good:
  assumes "winv w" and "i < 4" and "\<not> is_free w i"
  shows "good_result (hid_failure (Setup_complete gap i) w)
    (mapR snd (uni_hid_device_set_ready_complete plat gap i w))"
  using set_ready_complete_winv [OF assms, of gap]
  by (cases "uni_hid_device_set_ready_complete plat gap i w")
    (auto simp: good_result_def hid_failure_def)

lemma leaving_good:
  assumes "winv w" and "i < 4" and "\<not> is_free w i"
  shows "good_result (hid_failure (Set_ready gap i) w) (uni_hid_device_set_ready plat gap i w)"
    and "good_result (hid_failure (Setup_complete_with_mouse gap i) w) (complete_with_virtual_mouse plat gap i w)"
    and "good_result (hid_failure (Disconnected gap i) w) (disconnect_and_delete plat gap i w)"
  using set_ready_winv [OF assms, of gap] complete_with_virtual_mouse_winv [OF assms, of gap]
    disconnect_and_delete_winv [OF assms(1,2), of gap]
  by (auto simp: good_result_def hid_failure_def split: sum.splits)

text \<open>Timers that the table does not depend on can be registered and removed for any device in use.\<close>

lemma set_timer_winv:
  assumes "winv w" and "i < 4 \<and> \<not> is_free w i \<or> ms = None" and "t \<noteq> Misc_button_timer"
  shows "winv (w\<lparr>hw_timers := (hw_timers w)((i, t) := ms)\<rparr>)" (is "winv ?w")
proof -
  have same: "dev ?w j = dev w j" "is_free ?w j = is_free w j" for j by (simp_all add: dev_def is_free_def)
  have "timers_ok ?w" using assms unfolding timers_ok_def same
    by (auto simp: winv_def table_inv_def timers_ok_def)
  then have "table_inv ?w"
    using assms(1) by (simp add: winv_def table_inv_def ranked_def slots_ok_def mappings_ok_def same)
  moreover have "fewer_owned w ?w" by (simp add: fewer_owned_def same)
  ultimately show ?thesis using assms(1) fewer unfolding winv_def by blast
qed

lemma add_timer_good:
  assumes "winv w" and "i < 4" and "\<not> is_free w i" and "t \<noteq> Misc_button_timer"
    and "hw_timers w (i, t) \<noteq> None \<Longrightarrow> C Assertion_failed"
  shows "good_result C (run_loop_add_timer (i, t) ms w)"
  using assms set_timer_winv [OF assms(1), of i "Some ms" t] by (auto simp: run_loop_add_timer_def good_result_def)

lemma remove_timer_winv:
  "winv w \<Longrightarrow> t \<noteq> Misc_button_timer \<Longrightarrow> winv (run_loop_remove_timer (i, t) w)"
  using set_timer_winv [of w i None t] by (simp add: run_loop_remove_timer_def)

lemma virtual_enabled_winv:
  assumes "winv w"
  shows "winv (uni_virtual_device_set_enabled b w)"
proof -
  have "quiet w (w\<lparr>hw_virtual_device_enabled := b\<rparr>)"
    by (simp add: quiet_def keep_def fewer_owned_def dev_def)
  then have "winv (call (Property_set_virtual_device b) (w\<lparr>hw_virtual_device_enabled := b\<rparr>))"
    using assms quiet_winv quiet_call_after by blast
  with assms show ?thesis by (simp only: uni_virtual_device_set_enabled_def split: if_split) blast
qed

lemma hid_step_good:
  assumes "winv w"
  shows "good_result (hid_failure ev w) (hid_step plat ev w)"
proof (cases ev)
  case (Device_found addr)
  with assms create_winv [of w addr] show ?thesis by (auto simp: hid_step_def good_InrI)
next
  case (Virtual_device_enabled b)
  with virtual_enabled_winv [OF assms] show ?thesis by (simp add: hid_step_def good_InrI)
next
  case (Connection_timeout gap i)
  with timeout_good [OF assms] show ?thesis by simp
next
  case (Name_requested i)
  then show ?thesis
    using good_on_slot [OF assms] add_timer_good [OF assms] by (simp add: hid_step_def hid_failure_def)
next
  case (Driver_timer_added i t ms)
  then show ?thesis
    using good_on_slot [OF assms] add_timer_good [OF assms] by (simp add: hid_step_def hid_failure_def)
next
  case (Misc_button_timeout i)
  with assms misc_button_timeout_winv show ?thesis by (simp add: hid_step_def good_InrI)
next
  case (Conn_state i st)
  with assms good_upd_slot [OF assms conn_setters_quiet(4)] show ?thesis
    by (simp add: hid_step_def good_InrI)
next
  case (Send_report sent i cid report)
  then show ?thesis
    using good_on_slot [OF assms] good_InrI quiet_winv [OF assms send_report_quiet]
    by (simp add: hid_step_def)
next
  case (Can_send_now sent i)
  then show ?thesis
    using good_on_slot [OF assms] good_InrI quiet_winv [OF assms send_queued_quiet]
    by (simp add: hid_step_def)
next
  case (Connected i)
  then show ?thesis
    using good_on_slot [OF assms] good_InrI connect_winv(1) [OF assms] by (simp add: hid_step_def)
qed (simp_all add: hid_step_def good_on_slot good_upd_slot assms setters_quiet conn_setters_quiet
    descriptor_good guess_good report_good ready_complete_good leaving_good good_InrI remove_timer_winv)

end

end
