(* ===== verification/Arduino_Platform.thy ===== *)
theory Arduino_Platform
  imports Hid_Lifecycle
begin

text \<open>
  \<^verbatim>\<open>components/bluepad32_arduino/arduino_platform.c\<close>, the platform this firmware is built with:
  it gives every accepted device one of four seats, hands its reports to the application, and
  takes the application's requests from a queue. The first core runs the callbacks, the second
  the \<^verbatim>\<open>arduino_*\<close> functions. One step of either side is atomic here. In the code the data and
  the properties of a seat are copied under a mutex and the queue is the operating system's, but
  the callbacks of the first core that give a seat away and take it back write it without the
  mutex, and the second core tests the index of a seat before it takes the mutex: an
  interleaving inside those calls is not modelled.
\<close>

section \<open>State\<close>

definition UNI_ARDUINO_GAMEPAD_INVALID :: int where "UNI_ARDUINO_GAMEPAD_INVALID = - 1"
definition MAX_PENDING_REQUESTS :: nat where "MAX_PENDING_REQUESTS = 16"

record arduino_controller_properties =
  apr_btaddr :: bytes
  apr_type :: u16
  apr_subtype :: u8
  apr_vendor_id :: u16
  apr_product_id :: u16
  apr_flags :: u16

record arduino_controller =
  ac_idx :: int
  ac_data :: uni_controller
  ac_data_updated :: bool
  ac_properties :: arduino_controller_properties

definition zero_arduino_controller :: arduino_controller where
  "zero_arduino_controller =
     \<lparr>ac_idx = 0, ac_data = zero_controller, ac_data_updated = False,
      ac_properties = \<lparr>apr_btaddr = replicate 6 0, apr_type = 0, apr_subtype = 0, apr_vendor_id = 0,
        apr_product_id = 0, apr_flags = 0\<rparr>\<rparr>"

definition free_seat :: arduino_controller where
  "free_seat = zero_arduino_controller\<lparr>ac_idx := UNI_ARDUINO_GAMEPAD_INVALID\<rparr>"

datatype pending_request_cmd =
    PENDING_REQUEST_CMD_LIGHTBAR_COLOR u8 u8 u8
  | PENDING_REQUEST_CMD_PLAYER_LEDS u8
  | PENDING_REQUEST_CMD_RUMBLE u16 u16 u8 u8
  | PENDING_REQUEST_CMD_DISCONNECT

record pending_request =
  pr_controller_idx :: u8
  pr_cmd :: pending_request_cmd

record arduino =
  ar_controllers :: "arduino_controller list"
  ar_used_controllers :: int
  ar_pending_queue :: "pending_request list"

type_synonym arduino_world = "arduino hid_world"

text \<open>\<^verbatim>\<open>arduino_instance_t\<close> is the first byte of the device's platform data, read as \<^verbatim>\<open>int8_t\<close>.\<close>

definition controller_idx :: "uni_hid_device \<Rightarrow> int" where
  "controller_idx d = sint (hd_platform_data d 0)"

definition set_controller_idx :: "int \<Rightarrow> uni_hid_device \<Rightarrow> uni_hid_device" where
  "set_controller_idx idx d = d\<lparr>hd_platform_data := (hd_platform_data d)(0 := word_of_int idx)\<rparr>"

definition upd_seat :: "nat \<Rightarrow> (arduino_controller \<Rightarrow> arduino_controller) \<Rightarrow> arduino \<Rightarrow> arduino" where
  "upd_seat k f a = a\<lparr>ar_controllers := (ar_controllers a)[k := f (ar_controllers a ! k)]\<rparr>"

definition upd_platform :: "('p \<Rightarrow> 'p) \<Rightarrow> 'p hid_world \<Rightarrow> 'p hid_world" where
  "upd_platform f w = w\<lparr>hw_platform := f (hw_platform w)\<rparr>"

section \<open>Callbacks\<close>

definition arduino_init :: "arduino \<Rightarrow> arduino" where
  "arduino_init a = a\<lparr>ar_controllers := replicate CONFIG_BLUEPAD32_MAX_DEVICES free_seat\<rparr>"

definition predicate_arduino_index :: "int \<Rightarrow> uni_hid_device \<Rightarrow> bool" where
  "predicate_arduino_index wanted_idx d \<longleftrightarrow> controller_idx d = wanted_idx"

definition dispatch_request :: "pending_request_cmd \<Rightarrow> nat \<Rightarrow> 'p hid_world \<Rightarrow> 'p hid_world" where
  "dispatch_request cmd i w =
     (let rp = hd_report_parser (dev w i) in
      case cmd of
        PENDING_REQUEST_CMD_LIGHTBAR_COLOR r g b \<Rightarrow>
          (case rv_set_lightbar_color rp of
             Some driver \<Rightarrow> call (Driver_set_lightbar_color driver i r g b) w | None \<Rightarrow> w)
      | PENDING_REQUEST_CMD_PLAYER_LEDS leds \<Rightarrow>
          (case rv_set_player_leds rp of
             Some driver \<Rightarrow> call (Driver_set_player_leds driver i leds) w | None \<Rightarrow> w)
      | PENDING_REQUEST_CMD_RUMBLE delayed_start duration weak strong \<Rightarrow>
          (case rv_play_dual_rumble rp of
             Some driver \<Rightarrow> call (Driver_play_dual_rumble driver i delayed_start duration weak strong) w
           | None \<Rightarrow> w)
      | PENDING_REQUEST_CMD_DISCONNECT \<Rightarrow> call (Bt_disconnect_device_safe i) w)"

text \<open>The loop takes one request after the other; a request whose seat has no device ends it.\<close>

primrec process_requests :: "pending_request list \<Rightarrow> arduino_world \<Rightarrow> arduino_world" where
  "process_requests [] w = w"
| "process_requests (request # rest) w =
     (let w1 = upd_platform (\<lambda>a. a\<lparr>ar_pending_queue := rest\<rparr>) w
      in case uni_hid_device_get_instance_with_predicate
                (predicate_arduino_index (uint (pr_controller_idx request))) w1 of
           None \<Rightarrow> w1
         | Some i \<Rightarrow> process_requests rest (dispatch_request (pr_cmd request) i w1))"

definition process_pending_requests :: "arduino_world \<Rightarrow> arduino_world" where
  "process_pending_requests w = process_requests (ar_pending_queue (hw_platform w)) w"

definition arduino_on_device_connected :: "nat \<Rightarrow> 'p hid_world \<Rightarrow> 'p hid_world" where
  "arduino_on_device_connected i w = upd_dev i (set_controller_idx UNI_ARDUINO_GAMEPAD_INVALID) w"

definition arduino_on_device_disconnected :: "nat \<Rightarrow> arduino_world \<Rightarrow> arduino_world" where
  "arduino_on_device_disconnected i w =
     (let idx = controller_idx (dev w i) in
      if idx = UNI_ARDUINO_GAMEPAD_INVALID then w
      else if idx < 0 \<or> int CONFIG_BLUEPAD32_MAX_DEVICES \<le> idx then w
      else upd_dev i (set_controller_idx UNI_ARDUINO_GAMEPAD_INVALID)
             (upd_platform (\<lambda>a. upd_seat (nat idx) (\<lambda>_. free_seat)
                              (a\<lparr>ar_used_controllers := ar_used_controllers a - 1\<rparr>)) w))"

definition device_properties :: "uni_hid_device \<Rightarrow> arduino_controller_properties" where
  "device_properties d =
     (let rp = hd_report_parser d; ty = controller_type_value (hd_controller_type d)
      in \<lparr>apr_btaddr = bc_btaddr (hd_conn d), apr_type = word_of_int ty, apr_subtype = word_of_int ty,
          apr_vendor_id = hd_vendor_id d, apr_product_id = hd_product_id d,
          apr_flags = (if rv_set_player_leds rp \<noteq> None then BIT 1 else 0)
                   OR (if rv_play_dual_rumble rp \<noteq> None then BIT 0 else 0)
                   OR (if rv_set_lightbar_color rp \<noteq> None then BIT 2 else 0)\<rparr>)"

definition assign_seat :: "nat \<Rightarrow> arduino_world \<Rightarrow> arduino_world" where
  "assign_seat i w =
     (case List.find (\<lambda>k. ac_idx (ar_controllers (hw_platform w) ! k) = UNI_ARDUINO_GAMEPAD_INVALID) slots of
        None \<Rightarrow> w
      | Some k \<Rightarrow>
          upd_dev i (set_controller_idx (int k))
            (upd_platform (\<lambda>a. upd_seat k (\<lambda>c. c\<lparr>ac_idx := int k,
                                                  ac_properties := device_properties (dev w i)\<rparr>)
                                (a\<lparr>ar_used_controllers := ar_used_controllers a + 1\<rparr>)) w))"

definition arduino_on_device_ready :: "nat \<Rightarrow> arduino_world \<Rightarrow> uni_error \<times> arduino_world" where
  "arduino_on_device_ready i w =
     (if ar_used_controllers (hw_platform w) = int CONFIG_BLUEPAD32_MAX_DEVICES
      then (UNI_ERROR_NO_SLOTS, w)
      else if controller_idx (dev w i) \<noteq> UNI_ARDUINO_GAMEPAD_INVALID
      then (UNI_ERROR_INVALID_CONTROLLER, w)
      else
        let w1 = assign_seat i w
        in (UNI_ERROR_SUCCESS,
            case rv_set_player_leds (hd_report_parser (dev w1 i)) of
              Some driver \<Rightarrow> call (Driver_set_player_leds driver i
                               (word_of_int (controller_idx (dev w1 i) + 1))) w1
            | None \<Rightarrow> w1))"

definition arduino_on_controller_data :: "nat \<Rightarrow> arduino_world \<Rightarrow> arduino_world" where
  "arduino_on_controller_data i w =
     (let w1 = process_pending_requests w; idx = controller_idx (dev w1 i)
      in if idx < 0 \<or> int CONFIG_BLUEPAD32_MAX_DEVICES \<le> idx then w1
         else upd_platform (upd_seat (nat idx)
                (\<lambda>c. c\<lparr>ac_data := hd_controller (dev w1 i), ac_data_updated := True\<rparr>)) w1)"

definition arduino_platform :: "arduino uni_platform" where
  "arduino_platform =
     \<lparr>pl_on_device_connected = arduino_on_device_connected,
      pl_on_device_disconnected = arduino_on_device_disconnected,
      pl_on_device_ready = arduino_on_device_ready,
      pl_on_gamepad_data = None,
      pl_on_controller_data = Some arduino_on_controller_data\<rparr>"

section \<open>The application's side\<close>

datatype arduino_error =
    UNI_ARDUINO_ERROR_SUCCESS | UNI_ARDUINO_ERROR_INVALID_DEVICE | UNI_ARDUINO_ERROR_NO_DATA

definition valid_seat :: "int \<Rightarrow> arduino \<Rightarrow> bool" where
  "valid_seat idx a \<longleftrightarrow> \<not> (idx < 0 \<or> int CONFIG_BLUEPAD32_MAX_DEVICES \<le> idx)
     \<and> ac_idx (ar_controllers a ! nat idx) \<noteq> UNI_ARDUINO_GAMEPAD_INVALID"

definition arduino_get_controller_data :: "int \<Rightarrow> arduino \<Rightarrow> arduino_error \<times> uni_controller option \<times> arduino" where
  "arduino_get_controller_data idx a =
     (if \<not> valid_seat idx a then (UNI_ARDUINO_ERROR_INVALID_DEVICE, None, a)
      else
        let c = ar_controllers a ! nat idx
        in if ac_data_updated c
           then (UNI_ARDUINO_ERROR_SUCCESS, Some (ac_data c),
                 upd_seat (nat idx) (\<lambda>c. c\<lparr>ac_data_updated := False\<rparr>) a)
           else (UNI_ARDUINO_ERROR_NO_DATA, None, a))"

definition arduino_get_gamepad_data :: "int \<Rightarrow> arduino \<Rightarrow> arduino_error \<times> uni_gamepad option \<times> arduino" where
  "arduino_get_gamepad_data idx a =
     (if \<not> valid_seat idx a then (UNI_ARDUINO_ERROR_INVALID_DEVICE, None, a)
      else
        let c = ar_controllers a ! nat idx
        in if ac_data_updated c
           then (UNI_ARDUINO_ERROR_SUCCESS, Some (ctl_gamepad (ac_data c)),
                 upd_seat (nat idx) (\<lambda>c. c\<lparr>ac_data_updated := False\<rparr>) a)
           else (UNI_ARDUINO_ERROR_NO_DATA, None, a))"

definition arduino_get_controller_properties ::
    "int \<Rightarrow> arduino \<Rightarrow> arduino_error \<times> arduino_controller_properties option" where
  "arduino_get_controller_properties idx a =
     (if \<not> valid_seat idx a then (UNI_ARDUINO_ERROR_INVALID_DEVICE, None)
      else (UNI_ARDUINO_ERROR_SUCCESS, Some (ac_properties (ar_controllers a ! nat idx))))"

text \<open>A full queue drops the request, and the function still reports success.\<close>

definition queue_request :: "int \<Rightarrow> pending_request_cmd \<Rightarrow> arduino \<Rightarrow> arduino_error \<times> arduino" where
  "queue_request idx cmd a =
     (if \<not> valid_seat idx a then (UNI_ARDUINO_ERROR_INVALID_DEVICE, a)
      else (UNI_ARDUINO_ERROR_SUCCESS,
            if length (ar_pending_queue a) < MAX_PENDING_REQUESTS
            then a\<lparr>ar_pending_queue := ar_pending_queue a
                     @ [\<lparr>pr_controller_idx = word_of_int idx, pr_cmd = cmd\<rparr>]\<rparr>
            else a))"

definition arduino_set_player_leds :: "int \<Rightarrow> u8 \<Rightarrow> arduino \<Rightarrow> arduino_error \<times> arduino" where
  "arduino_set_player_leds idx leds a = queue_request idx (PENDING_REQUEST_CMD_PLAYER_LEDS leds) a"

definition arduino_set_lightbar_color :: "int \<Rightarrow> u8 \<Rightarrow> u8 \<Rightarrow> u8 \<Rightarrow> arduino \<Rightarrow> arduino_error \<times> arduino" where
  "arduino_set_lightbar_color idx r g b a = queue_request idx (PENDING_REQUEST_CMD_LIGHTBAR_COLOR r g b) a"

definition arduino_play_dual_rumble ::
    "int \<Rightarrow> u16 \<Rightarrow> u16 \<Rightarrow> u8 \<Rightarrow> u8 \<Rightarrow> arduino \<Rightarrow> arduino_error \<times> arduino" where
  "arduino_play_dual_rumble idx delayed_start_ms duration_ms weak_magnitude strong_magnitude a =
     queue_request idx
       (PENDING_REQUEST_CMD_RUMBLE delayed_start_ms duration_ms weak_magnitude strong_magnitude) a"

definition arduino_disconnect_controller :: "int \<Rightarrow> arduino \<Rightarrow> arduino_error \<times> arduino" where
  "arduino_disconnect_controller idx a = queue_request idx PENDING_REQUEST_CMD_DISCONNECT a"

definition arduino_get_internal_hid_device :: "int \<Rightarrow> arduino_world \<Rightarrow> nat option" where
  "arduino_get_internal_hid_device idx w =
     (if idx = UNI_ARDUINO_GAMEPAD_INVALID then None
      else if idx < 0 \<or> int CONFIG_BLUEPAD32_MAX_DEVICES \<le> idx then None
      else uni_hid_device_get_instance_with_predicate (predicate_arduino_index idx) w)"

section \<open>The seats\<close>

definition taken :: "arduino \<Rightarrow> nat set" where
  "taken a = {k. k < 4 \<and> ac_idx (ar_controllers a ! k) \<noteq> - 1}"

definition seats_ok :: "arduino \<Rightarrow> bool" where
  "seats_ok a \<longleftrightarrow> length (ar_controllers a) = 4
     \<and> (\<forall>k \<in> taken a. ac_idx (ar_controllers a ! k) = int k)
     \<and> ar_used_controllers a = int (card (taken a))"

text \<open>
  The devices that the platform owns have no seat yet or a taken one, and never share one.
\<close>

definition seat_of :: "uni_hid_device \<Rightarrow> nat option" where
  "seat_of d = (if owned d \<and> controller_idx d \<noteq> - 1 then Some (nat (controller_idx d)) else None)"

definition seat_inv :: "arduino_world \<Rightarrow> bool" where
  "seat_inv w \<longleftrightarrow> seats_ok (hw_platform w)
     \<and> (\<forall>i < 4. owned (dev w i) \<longrightarrow> - 1 \<le> controller_idx (dev w i))
     \<and> (\<forall>i < 4. \<forall>k. seat_of (dev w i) = Some k \<longrightarrow> k \<in> taken (hw_platform w))
     \<and> (\<forall>i < 4. \<forall>j < 4. \<forall>k. seat_of (dev w i) = Some k \<longrightarrow> seat_of (dev w j) = Some k \<longrightarrow> i = j)"

lemma finite_taken [simp]: "finite (taken a)"
  by (simp add: taken_def)

lemma card_taken_le: "card (taken a) \<le> 4"
proof -
  have "card (taken a) \<le> card {..<4::nat}" by (rule card_mono) (auto simp: taken_def)
  then show ?thesis by simp
qed

lemma controller_idx_set [simp]:
  "- 128 \<le> idx \<Longrightarrow> idx < 128 \<Longrightarrow> controller_idx (set_controller_idx idx d) = idx"
  by (simp add: controller_idx_def set_controller_idx_def sint_sbintrunc' signed_take_bit_int_eq_self)

lemma set_controller_idx_fields [simp]:
  "hd_conn (set_controller_idx idx d) = hd_conn d"
  "hd_report_parser (set_controller_idx idx d) = hd_report_parser d"
  "owned (set_controller_idx idx d) = owned d"
  by (simp_all add: set_controller_idx_def owned_def)

lemma controller_idx_conn [simp]: "controller_idx (d\<lparr>hd_conn := c\<rparr>) = controller_idx d"
  by (simp add: controller_idx_def)

lemma upd_platform_fields [dev_simps]:
  "dev (upd_platform f w) i = dev w i" "hw_devices (upd_platform f w) = hw_devices w"
  "hw_platform (upd_platform f w) = f (hw_platform w)"
  "hw_timers (upd_platform f w) = hw_timers w" "hw_mappings (upd_platform f w) = hw_mappings w"
  "hw_virtual_device_enabled (upd_platform f w) = hw_virtual_device_enabled w"
  by (simp_all add: upd_platform_def dev_def)

lemma frame_refl: "frame i w w"
  unfolding frame_def
  by (rule exI [of _ "hd_platform_data (dev w i)"], rule exI [of _ "hw_platform w"], rule exI [of _ "hw_calls w"])
    (simp add: upd_dev_def dev_def)

lemma frame_call: "frame i w w' \<Longrightarrow> frame i w (call c w')"
  unfolding frame_def call_def by force

lemma frame_upd_platform: "frame i w w' \<Longrightarrow> frame i w (upd_platform f w')"
proof -
  assume "frame i w w'"
  then obtain pd p cs where w': "w' = (upd_dev i (\<lambda>d. d\<lparr>hd_platform_data := pd\<rparr>) w)\<lparr>hw_platform := p, hw_calls := cs\<rparr>"
    by (auto simp: frame_def)
  have "upd_platform f w' = (upd_dev i (\<lambda>d. d\<lparr>hd_platform_data := pd\<rparr>) w)\<lparr>hw_platform := f p, hw_calls := cs\<rparr>"
    by (simp add: w' upd_platform_def)
  then show ?thesis unfolding frame_def by blast
qed

lemma frame_set_controller_idx: "frame i w w' \<Longrightarrow> frame i w (upd_dev i (set_controller_idx idx) w')"
proof -
  assume "frame i w w'"
  then obtain pd p cs where w': "w' = (upd_dev i (\<lambda>d. d\<lparr>hd_platform_data := pd\<rparr>) w)\<lparr>hw_platform := p, hw_calls := cs\<rparr>"
    by (auto simp: frame_def)
  have "upd_dev i (set_controller_idx idx) w'
      = (upd_dev i (\<lambda>d. d\<lparr>hd_platform_data := pd(0 := word_of_int idx)\<rparr>) w)\<lparr>hw_platform := p, hw_calls := cs\<rparr>"
    by (cases "i < length (hw_devices w)")
      (simp_all add: w' upd_dev_def set_controller_idx_def list_update_beyond)
  then show ?thesis unfolding frame_def by blast
qed

lemma frame_connected: "frame i w (arduino_on_device_connected i w)"
  by (simp add: arduino_on_device_connected_def frame_set_controller_idx frame_refl)

lemma frame_disconnected: "frame i w (arduino_on_device_disconnected i w)"
  by (simp add: arduino_on_device_disconnected_def Let_def frame_set_controller_idx frame_upd_platform frame_refl)

lemma frame_ready: "frame i w (snd (arduino_on_device_ready i w))"
  by (auto simp: arduino_on_device_ready_def assign_seat_def Let_def frame_set_controller_idx
      frame_upd_platform frame_refl frame_call split: option.split)

text \<open>Requests only log calls and shorten the queue.\<close>

definition same_seats :: "arduino_world \<Rightarrow> arduino_world \<Rightarrow> bool" where
  "same_seats w w' \<longleftrightarrow> (\<exists>q cs. w' = w\<lparr>hw_platform := (hw_platform w)\<lparr>ar_pending_queue := q\<rparr>, hw_calls := cs\<rparr>)"

lemma same_seats_refl [simp]: "same_seats w w"
  unfolding same_seats_def
  by (rule exI [of _ "ar_pending_queue (hw_platform w)"], rule exI [of _ "hw_calls w"]) simp

lemma same_seats_trans: "same_seats w w1 \<Longrightarrow> same_seats w1 w2 \<Longrightarrow> same_seats w w2"
  unfolding same_seats_def by force

lemma same_seats_call: "same_seats w (call c w)"
  unfolding same_seats_def call_def
  by (rule exI [of _ "ar_pending_queue (hw_platform w)"], rule exI [of _ "hw_calls w @ [c]"]) simp

lemma same_seats_dispatch: "same_seats w (dispatch_request cmd i w)"
  by (simp add: dispatch_request_def Let_def same_seats_call split: pending_request_cmd.split option.split)

lemma same_seats_queue: "same_seats w (upd_platform (\<lambda>a. a\<lparr>ar_pending_queue := q\<rparr>) w)"
  unfolding same_seats_def upd_platform_def
  by (rule exI [of _ q], rule exI [of _ "hw_calls w"]) simp

lemma same_seats_requests: "same_seats w (process_requests rs w)"
proof (induction rs arbitrary: w)
  case Nil
  then show ?case by simp
next
  case (Cons r rs)
  let ?w1 = "upd_platform (\<lambda>a. a\<lparr>ar_pending_queue := rs\<rparr>) w"
  have "same_seats ?w1 (process_requests rs (dispatch_request (pr_cmd r) i ?w1))" for i
    using same_seats_trans same_seats_dispatch Cons.IH by blast
  then show ?case
    using same_seats_trans [OF same_seats_queue [of w rs]] same_seats_queue [of w rs]
    by (simp add: Let_def split: option.split)
qed

lemma same_seatsD:
  assumes "same_seats w w'"
  shows "dev w' i = dev w i" "ar_controllers (hw_platform w') = ar_controllers (hw_platform w)"
    "ar_used_controllers (hw_platform w') = ar_used_controllers (hw_platform w)"
    "hw_devices w' = hw_devices w"
  using assms by (auto simp: same_seats_def dev_def)

lemma frame_same_seats: "same_seats w w' \<Longrightarrow> frame i w w'"
proof -
  assume "same_seats w w'"
  then obtain q cs where w': "w' = w\<lparr>hw_platform := (hw_platform w)\<lparr>ar_pending_queue := q\<rparr>, hw_calls := cs\<rparr>"
    by (auto simp: same_seats_def)
  have "w = upd_dev i (\<lambda>d. d\<lparr>hd_platform_data := hd_platform_data (dev w i)\<rparr>) w"
    by (simp add: upd_dev_def dev_def)
  then show ?thesis unfolding frame_def w' by metis
qed

lemma same_seats_process: "same_seats w (process_pending_requests w)"
  by (simp add: process_pending_requests_def same_seats_requests)

lemma frame_data: "frame i w (arduino_on_controller_data i w)"
  using frame_same_seats [OF same_seats_process, of i w] frame_upd_platform
  by (auto simp: arduino_on_controller_data_def Let_def)

lemma seats_ok_cong:
  assumes "map ac_idx (ar_controllers a') = map ac_idx (ar_controllers a)"
    and "ar_used_controllers a' = ar_used_controllers a" and "length (ar_controllers a) = 4"
  shows "taken a' = taken a" "seats_ok a' = seats_ok a"
proof -
  have len: "length (ar_controllers a') = 4" using assms(1,3) by (metis length_map)
  then have idx: "ac_idx (ar_controllers a' ! k) = ac_idx (ar_controllers a ! k)" if "k < 4" for k
    using assms(1,3) that by (metis nth_map)
  then show t: "taken a' = taken a" by (auto simp: taken_def)
  have "(\<forall>k \<in> taken a. ac_idx (ar_controllers a' ! k) = int k) = (\<forall>k \<in> taken a. ac_idx (ar_controllers a ! k) = int k)"
    using idx by (auto simp: taken_def)
  then show "seats_ok a' = seats_ok a" using len assms by (simp add: seats_ok_def t)
qed

lemma seat_invI:
  assumes "seats_ok (hw_platform w)"
    and "\<And>i. i < 4 \<Longrightarrow> owned (dev w i) \<Longrightarrow> - 1 \<le> controller_idx (dev w i)"
    and "\<And>i k. i < 4 \<Longrightarrow> seat_of (dev w i) = Some k \<Longrightarrow> k \<in> taken (hw_platform w)"
    and "\<And>i j k. i < 4 \<Longrightarrow> j < 4 \<Longrightarrow> seat_of (dev w i) = Some k \<Longrightarrow> seat_of (dev w j) = Some k \<Longrightarrow> i = j"
  shows "seat_inv w"
  using assms unfolding seat_inv_def by blast

lemma seat_invD:
  assumes "seat_inv w"
  shows "seats_ok (hw_platform w)"
    "i < 4 \<Longrightarrow> owned (dev w i) \<Longrightarrow> - 1 \<le> controller_idx (dev w i)"
    "i < 4 \<Longrightarrow> seat_of (dev w i) = Some k \<Longrightarrow> k \<in> taken (hw_platform w)"
    "i < 4 \<Longrightarrow> j < 4 \<Longrightarrow> seat_of (dev w i) = Some k \<Longrightarrow> seat_of (dev w j) = Some k \<Longrightarrow> i = j"
  using assms unfolding seat_inv_def by blast+

lemma seat_inv_fewer:
  assumes "seat_inv w" and "fewer_owned w w'"
  shows "seat_inv w'"
proof -
  have d: "owned (dev w i) \<and> controller_idx (dev w' i) = controller_idx (dev w i)"
    if "i < 4" "owned (dev w' i)" for i
    using assms(2) that by (simp add: fewer_owned_def controller_idx_def)
  have s: "seat_of (dev w i) = Some k" if "i < 4" "seat_of (dev w' i) = Some k" for i k
    using d [OF that(1)] that(2) by (auto simp: seat_of_def split: if_splits)
  have p: "hw_platform w' = hw_platform w" using assms(2) by (simp add: fewer_owned_def)
  show ?thesis
    using seat_invD [OF assms(1)] d s by (intro seat_invI) (auto simp: p)
qed

lemma seat_inv_connected:
  assumes "seat_inv w" and "i < 4" and "length (hw_devices w) = 4"
  shows "seat_inv (arduino_on_device_connected i (upd_conn i (uni_bt_conn_set_connected True) w))" (is "seat_inv ?w")
proof -
  have d: "dev ?w j = (if j = i then set_controller_idx (- 1) ((dev w i)\<lparr>hd_conn :=
      uni_bt_conn_set_connected True (hd_conn (dev w i))\<rparr>) else dev w j)" for j
    using assms by (simp add: arduino_on_device_connected_def upd_conn_def dev_simps UNI_ARDUINO_GAMEPAD_INVALID_def)
  have p: "hw_platform ?w = hw_platform w"
    by (simp add: arduino_on_device_connected_def upd_conn_def dev_simps)
  have n: "seat_of (dev ?w i) = None" by (simp add: d seat_of_def)
  have s: "seat_of (dev w j) = Some k" if "seat_of (dev ?w j) = Some k" for j k
    using that n d [of j] by (cases "j = i") auto
  show ?thesis
  proof (rule seat_invI)
    fix j :: nat
    assume "j < 4" and "owned (dev ?w j)"
    then show "- 1 \<le> controller_idx (dev ?w j)"
      using seat_invD(2) [OF assms(1)] by (cases "j = i") (simp_all add: d)
  qed (use seat_invD [OF assms(1)] s p in auto)
qed

lemma taken_upd_seat:
  assumes "length (ar_controllers a) = 4" and "k < 4"
  shows "taken (upd_seat k f a) = (if ac_idx (f (ar_controllers a ! k)) = - 1 then taken a - {k} else insert k (taken a))"
  using assms by (auto simp: taken_def upd_seat_def nth_list_update)

lemma taken_used [simp]: "taken (a\<lparr>ar_used_controllers := n\<rparr>) = taken a"
  by (simp add: taken_def)

lemma seats_ok_free:
  assumes "seats_ok a" and "k \<in> taken a"
  shows "seats_ok (upd_seat k (\<lambda>_. free_seat) (a\<lparr>ar_used_controllers := ar_used_controllers a - 1\<rparr>))"
    (is "seats_ok ?a")
proof -
  have k: "k < 4" using assms(2) by (simp add: taken_def)
  have t: "taken ?a = taken a - {k}"
    using assms k by (subst taken_upd_seat) (auto simp: seats_ok_def free_seat_def UNI_ARDUINO_GAMEPAD_INVALID_def)
  have "card (taken a) = Suc (card (taken a - {k}))" using assms(2) card_Suc_Diff1 [OF finite_taken assms(2)] by simp
  moreover have "ar_used_controllers ?a = ar_used_controllers a - 1" by (simp add: upd_seat_def)
  ultimately show ?thesis
    using assms k unfolding seats_ok_def t by (auto simp: upd_seat_def nth_list_update)
qed

lemma seats_ok_take:
  assumes "seats_ok a" and "k < 4" and "k \<notin> taken a" and "ac_idx (f (ar_controllers a ! k)) = int k"
  shows "seats_ok (upd_seat k f (a\<lparr>ar_used_controllers := ar_used_controllers a + 1\<rparr>))" (is "seats_ok ?a")
    and "taken (upd_seat k f (a\<lparr>ar_used_controllers := ar_used_controllers a + 1\<rparr>)) = insert k (taken a)"
proof -
  show t: "taken ?a = insert k (taken a)"
    using assms by (subst taken_upd_seat) (auto simp: seats_ok_def)
  have "card (insert k (taken a)) = Suc (card (taken a))" using assms(3) by simp
  moreover have "ar_used_controllers ?a = ar_used_controllers a + 1" by (simp add: upd_seat_def)
  ultimately show "seats_ok ?a"
    using assms unfolding seats_ok_def t by (auto simp: upd_seat_def nth_list_update)
qed

lemma seat_inv_disconnected:
  assumes "seat_inv (upd_conn i (\<lambda>c. c\<lparr>bc_connected := True\<rparr>) w)" (is "seat_inv ?w1")
    and "i < 4" and "length (hw_devices w) = 4"
  shows "seat_inv (arduino_on_device_disconnected i w)" (is "seat_inv ?w")
proof -
  let ?idx = "controller_idx (dev w i)"
  have d1: "dev ?w1 j = (if j = i then (dev w i)\<lparr>hd_conn := (hd_conn (dev w i))\<lparr>bc_connected := True\<rparr>\<rparr> else dev w j)" for j
    using assms by (simp add: upd_conn_def dev_simps)
  have p1: "hw_platform ?w1 = hw_platform w" by (simp add: upd_conn_def dev_simps)
  have o: "owned (dev ?w1 i)" "controller_idx (dev ?w1 i) = ?idx" by (simp_all add: d1 owned_def controller_idx_def)
  show ?thesis
  proof (cases "?idx = - 1")
    case True
    have "fewer_owned ?w1 w"
      by (auto simp: fewer_owned_def p1 d1 owned_def upd_conn_def dev_simps)
    with True show ?thesis
      using seat_inv_fewer [OF assms(1)] by (simp add: arduino_on_device_disconnected_def UNI_ARDUINO_GAMEPAD_INVALID_def)
  next
    case False
    then have s: "seat_of (dev ?w1 i) = Some (nat ?idx)" using o by (simp add: seat_of_def)
    then have t: "nat ?idx \<in> taken (hw_platform w)" using seat_invD(3) [OF assms(1,2)] p1 by simp
    have ge: "0 \<le> ?idx" using seat_invD(2) [OF assms(1,2)] o False by simp
    have lt: "?idx < 4" using t ge by (simp add: taken_def nat_less_iff)
    let ?a = "upd_seat (nat ?idx) (\<lambda>_. free_seat)
      ((hw_platform w)\<lparr>ar_used_controllers := ar_used_controllers (hw_platform w) - 1\<rparr>)"
    have eq: "?w = upd_dev i (set_controller_idx (- 1)) (upd_platform (\<lambda>_. ?a) w)"
      using False ge lt by (simp add: arduino_on_device_disconnected_def Let_def upd_platform_def
          UNI_ARDUINO_GAMEPAD_INVALID_def CONFIG_BLUEPAD32_MAX_DEVICES_def)
    have d: "dev ?w j = (if j = i then set_controller_idx (- 1) (dev w i) else dev w j)" for j
      unfolding eq using assms by (simp add: dev_simps)
    have p: "hw_platform ?w = ?a" unfolding eq by (simp add: dev_simps)
    have ok: "seats_ok (hw_platform w)" using seat_invD(1) [OF assms(1)] p1 by simp
    have tk: "taken ?a = taken (hw_platform w) - {nat ?idx}"
      using ok t by (subst taken_upd_seat) (auto simp: seats_ok_def free_seat_def UNI_ARDUINO_GAMEPAD_INVALID_def taken_def)
    have n: "seat_of (dev ?w i) = None" by (simp add: d seat_of_def)
    have s': "j \<noteq> i \<and> seat_of (dev ?w1 j) = Some k" if "seat_of (dev ?w j) = Some k" for j k
      using that n d [of j] d1 [of j] by (cases "j = i") auto
    show ?thesis
    proof (rule seat_invI)
      show "seats_ok (hw_platform ?w)" unfolding p by (rule seats_ok_free [OF ok t])
    next
      fix j :: nat
      assume "j < 4" and "owned (dev ?w j)"
      then show "- 1 \<le> controller_idx (dev ?w j)"
        using seat_invD(2) [OF assms(1), of j] d1 [of j] by (cases "j = i") (simp_all add: d)
    next
      fix j k
      assume j: "j < 4" "seat_of (dev ?w j) = Some k"
      note j1 = s' [OF j(2)]
      have "k \<in> taken (hw_platform w)" using seat_invD(3) [OF assms(1) j(1)] j1 p1 by simp
      moreover have "k \<noteq> nat ?idx" using seat_invD(4) [OF assms(1) j(1) assms(2)] j1 s by blast
      ultimately show "k \<in> taken (hw_platform ?w)" by (simp add: p tk)
    next
      fix j j' k
      assume "j < 4" "j' < 4" "seat_of (dev ?w j) = Some k" "seat_of (dev ?w j') = Some k"
      then show "j = j'" using s' seat_invD(4) [OF assms(1)] by blast
    qed
  qed
qed

lemma free_seat_exists:
  assumes "seats_ok a" and "ar_used_controllers a \<noteq> 4"
  shows "\<exists>k. List.find (\<lambda>k. ac_idx (ar_controllers a ! k) = UNI_ARDUINO_GAMEPAD_INVALID) slots = Some k
           \<and> k < 4 \<and> k \<notin> taken a"
proof -
  have "taken a \<noteq> {..<4}" using assms by (auto simp: seats_ok_def)
  then obtain k where "k < 4" "k \<notin> taken a" by (auto simp: taken_def)
  then have "k \<in> set slots" "ac_idx (ar_controllers a ! k) = - 1"
    by (auto simp: taken_def slots_def CONFIG_BLUEPAD32_MAX_DEVICES_def)
  then have "List.find (\<lambda>k. ac_idx (ar_controllers a ! k) = UNI_ARDUINO_GAMEPAD_INVALID) slots \<noteq> None"
    by (auto simp: find_None_iff UNI_ARDUINO_GAMEPAD_INVALID_def)
  then obtain k' where k': "List.find (\<lambda>k. ac_idx (ar_controllers a ! k) = UNI_ARDUINO_GAMEPAD_INVALID) slots = Some k'"
    by blast
  then have "k' < 4" "k' \<notin> taken a"
    by (auto simp: find_Some_iff slots_def CONFIG_BLUEPAD32_MAX_DEVICES_def taken_def UNI_ARDUINO_GAMEPAD_INVALID_def)
  with k' show ?thesis by blast
qed

text \<open>Taking a free seat keeps the invariant, whatever else happens to the connection.\<close>

lemma seat_inv_take:
  assumes "seat_inv w" and "i < 4" and "k < 4" and "k \<notin> taken (hw_platform w)"
    and "controller_idx (dev w' i) = int k"
    and "\<And>j. j < 4 \<Longrightarrow> j \<noteq> i \<Longrightarrow> dev w' j = dev w j"
    and "seats_ok (hw_platform w')" and "taken (hw_platform w') = insert k (taken (hw_platform w))"
  shows "seat_inv w'"
proof -
  have s: "seat_of (dev w' i) = (if owned (dev w' i) then Some k else None)"
    using assms(5) by (simp add: seat_of_def)
  have other: "j < 4 \<Longrightarrow> seat_of (dev w j) = Some k \<Longrightarrow> False" for j
    using seat_invD(3) [OF assms(1)] assms(4) by blast
  show ?thesis
  proof (rule seat_invI [OF assms(7)])
    fix j :: nat
    assume "j < 4" and "owned (dev w' j)"
    then show "- 1 \<le> controller_idx (dev w' j)"
      using seat_invD(2) [OF assms(1)] assms(5,6) by (cases "j = i") auto
  next
    fix j l
    assume "j < 4" and "seat_of (dev w' j) = Some l"
    then show "l \<in> taken (hw_platform w')"
      using seat_invD(3) [OF assms(1)] s assms(6,8) by (cases "j = i") (auto split: if_splits)
  next
    fix j j' l
    assume "j < 4" "j' < 4" "seat_of (dev w' j) = Some l" "seat_of (dev w' j') = Some l"
    then show "j = j'"
      using seat_invD(4) [OF assms(1)] s assms(6) other
      by (cases "j = i"; cases "j' = i") (auto split: if_splits)
  qed
qed

lemma assign_seat_eq:
  assumes "seats_ok (hw_platform w)" and "ar_used_controllers (hw_platform w) \<noteq> 4" and "i < 4"
    and "length (hw_devices w) = 4"
  shows "\<exists>k. k < 4 \<and> k \<notin> taken (hw_platform w) \<and> seats_ok (hw_platform (assign_seat i w))
    \<and> taken (hw_platform (assign_seat i w)) = insert k (taken (hw_platform w))
    \<and> (\<forall>j. dev (assign_seat i w) j = (if j = i then set_controller_idx (int k) (dev w i) else dev w j))
    \<and> ac_properties (ar_controllers (hw_platform (assign_seat i w)) ! k) = device_properties (dev w i)"
proof -
  obtain k where k: "List.find (\<lambda>k. ac_idx (ar_controllers (hw_platform w) ! k) = UNI_ARDUINO_GAMEPAD_INVALID) slots = Some k"
    "k < 4" "k \<notin> taken (hw_platform w)" using free_seat_exists [OF assms(1,2)] by blast
  let ?f = "\<lambda>c. c\<lparr>ac_idx := int k, ac_properties := device_properties (dev w i)\<rparr>"
  have p: "hw_platform (assign_seat i w) = upd_seat k ?f
      ((hw_platform w)\<lparr>ar_used_controllers := ar_used_controllers (hw_platform w) + 1\<rparr>)"
    using k(1) by (simp add: assign_seat_def dev_simps)
  have d: "dev (assign_seat i w) j = (if j = i then set_controller_idx (int k) (dev w i) else dev w j)" for j
    using k(1) assms(3,4) by (simp add: assign_seat_def dev_simps)
  have "ac_properties (ar_controllers (hw_platform (assign_seat i w)) ! k) = device_properties (dev w i)"
    using k(2) assms(1) by (simp add: p upd_seat_def seats_ok_def)
  with k d seats_ok_take [OF assms(1) k(2,3), of ?f] p show ?thesis by auto
qed

lemma seat_inv_ready:
  assumes "seat_inv w" and "i < 4" and "length (hw_devices w) = 4" and "arduino_on_device_ready i w = (e, w')"
  shows "seat_inv w' \<and> (e = UNI_ERROR_SUCCESS \<longrightarrow>
    seat_inv (upd_conn i (uni_bt_conn_set_state UNI_BT_CONN_STATE_DEVICE_READY) w'))"
proof (cases "ar_used_controllers (hw_platform w) = 4 \<or> controller_idx (dev w i) \<noteq> - 1")
  case True
  with assms show ?thesis
    by (auto simp: arduino_on_device_ready_def CONFIG_BLUEPAD32_MAX_DEVICES_def UNI_ARDUINO_GAMEPAD_INVALID_def
        split: if_splits)
next
  case False
  let ?w1 = "assign_seat i w"
  obtain k where k: "k < 4" "k \<notin> taken (hw_platform w)" "seats_ok (hw_platform ?w1)"
    "taken (hw_platform ?w1) = insert k (taken (hw_platform w))"
    "\<forall>j. dev ?w1 j = (if j = i then set_controller_idx (int k) (dev w i) else dev w j)"
    using assign_seat_eq [OF seat_invD(1) [OF assms(1)] _ assms(2,3)] False by blast
  have w': "dev w' j = dev ?w1 j" "hw_platform w' = hw_platform ?w1" "hw_devices w' = hw_devices ?w1" for j
    using assms(4) False
    by (auto simp: arduino_on_device_ready_def CONFIG_BLUEPAD32_MAX_DEVICES_def UNI_ARDUINO_GAMEPAD_INVALID_def
        Let_def dev_simps split: option.splits)
  have "seat_inv w'"
    by (rule seat_inv_take [OF assms(1,2) k(1,2)]) (use k w' in auto)
  moreover have "seat_inv (upd_conn i (uni_bt_conn_set_state UNI_BT_CONN_STATE_DEVICE_READY) w')"
    by (rule seat_inv_take [OF assms(1,2) k(1,2)])
      (use k w' in \<open>auto simp: upd_conn_def dev_simps\<close>)
  ultimately show ?thesis by blast
qed

lemma seat_inv_same_seats:
  assumes "seat_inv w" and "hw_devices w' = hw_devices w"
    and "map ac_idx (ar_controllers (hw_platform w')) = map ac_idx (ar_controllers (hw_platform w))"
    and "ar_used_controllers (hw_platform w') = ar_used_controllers (hw_platform w)"
  shows "seat_inv w'"
proof -
  have len: "length (ar_controllers (hw_platform w)) = 4"
    using seat_invD(1) [OF assms(1)] by (simp add: seats_ok_def)
  have "dev w' i = dev w i" for i using assms(2) by (simp add: dev_def)
  with assms(1) seats_ok_cong [OF assms(3,4) len] show ?thesis by (simp add: seat_inv_def)
qed

lemma map_ac_idx_upd_seat:
  "(\<And>c. ac_idx (f c) = ac_idx c) \<Longrightarrow> map ac_idx (ar_controllers (upd_seat k f a)) = map ac_idx (ar_controllers a)"
  by (rule nth_equalityI) (simp_all add: upd_seat_def, metis nth_list_update_eq nth_list_update_neq)

lemma seat_inv_data:
  assumes "seat_inv w"
  shows "seat_inv (arduino_on_controller_data i w)"
proof -
  let ?w1 = "process_pending_requests w"
  note same = same_seatsD [OF same_seats_process [of w]]
  have "seat_inv ?w1" by (rule seat_inv_same_seats [OF assms]) (simp_all add: same)
  moreover have "seat_inv (upd_platform (upd_seat k (\<lambda>c. c\<lparr>ac_data := x, ac_data_updated := True\<rparr>)) ?w1)"
    if "seat_inv ?w1" for k x
    by (rule seat_inv_same_seats [OF that])
      (simp_all add: dev_simps map_ac_idx_upd_seat, simp add: upd_seat_def)
  ultimately show ?thesis by (simp add: arduino_on_controller_data_def Let_def)
qed

interpretation arduino: hid_platform arduino_platform seat_inv
proof unfold_locales
  show "seat_inv w'" if "seat_inv w" "fewer_owned w w'" for w w'
    using seat_inv_fewer that by blast
  show "frame i w (pl_on_device_connected arduino_platform i w)" for i w
    by (simp add: arduino_platform_def frame_connected)
  show "frame i w (pl_on_device_disconnected arduino_platform i w)" for i w
    by (simp add: arduino_platform_def frame_disconnected)
  show "frame i w (snd (pl_on_device_ready arduino_platform i w))" for i w
    by (simp add: arduino_platform_def frame_ready)
  show "frame i w (platform_data_callback arduino_platform i w)" for i w
    by (simp add: arduino_platform_def platform_data_callback_def frame_data)
qed (auto simp: arduino_platform_def platform_data_callback_def seat_inv_connected seat_inv_disconnected
    seat_inv_ready seat_inv_data)

section \<open>Boot\<close>

definition powered_on :: arduino_world where
  "powered_on =
     \<lparr>hw_devices = replicate CONFIG_BLUEPAD32_MAX_DEVICES zero_device, hw_timers = (\<lambda>_. None),
      hw_virtual_device_enabled = False,
      hw_mappings = \<lparr>mst_map = GAMEPAD_DEFAULT_MAPPINGS, mst_type = UNI_GAMEPAD_MAPPINGS_TYPE_XBOX\<rparr>,
      hw_platform = \<lparr>ar_controllers = replicate CONFIG_BLUEPAD32_MAX_DEVICES zero_arduino_controller,
        ar_used_controllers = 0, ar_pending_queue = []\<rparr>,
      hw_calls = []\<rparr>"

definition boot :: "arduino_world cres" where
  "boot = uni_hid_device_setup (upd_platform arduino_init powered_on)"

definition booted :: arduino_world where
  "booted = powered_on
     \<lparr>hw_devices := [init_device, init_device, init_device, init_device],
      hw_platform := arduino_init (hw_platform powered_on)\<rparr>"

lemma slots_eq: "slots = [0, 1, 2, 3]"
  by (simp add: slots_def CONFIG_BLUEPAD32_MAX_DEVICES_def upt_rec)

lemma boot_eq: "boot = Inr booted"
  by (simp add: boot_def booted_def uni_hid_device_setup_def slots_eq uni_hid_device_init_def overwrite_slot_eq
      powered_on_def upd_platform_def upd_dev_def CONFIG_BLUEPAD32_MAX_DEVICES_def numeral_eq_Suc)

lemma less_4_iff: "(i::nat) < 4 \<longleftrightarrow> i = 0 \<or> i = 1 \<or> i = 2 \<or> i = 3"
  by auto

lemma dev_booted: "i < 4 \<Longrightarrow> dev booted i = init_device"
  by (auto simp: dev_def booted_def less_4_iff)

lemma owned_init: "\<not> owned init_device"
  by (simp add: owned_def init_device_def uni_bt_conn_init_def zero_conn_def)

lemma booted_table: "table_inv booted"
proof -
  have "ranked (\<lambda>_. 0) booted" by (auto simp: ranked_def dev_booted init_device_def zero_device_def)
  moreover have "timers_ok booted"
    by (auto simp: timers_ok_def dev_booted) (auto simp: booted_def powered_on_def init_device_def zero_device_def)
  moreover have "slots_ok booted"
    by (auto simp: slots_ok_def dev_booted) (simp_all add: booted_def init_device_def zero_device_def zero_circular_buffer_inv)
  moreover have "mappings_ok booted" by (simp add: mappings_ok_def booted_def powered_on_def)
  ultimately show ?thesis unfolding table_inv_def by blast
qed

lemma booted_seats: "seat_inv booted"
proof (rule seat_invI)
  show "seats_ok (hw_platform booted)"
    by (simp add: seats_ok_def taken_def booted_def powered_on_def arduino_init_def free_seat_def
        UNI_ARDUINO_GAMEPAD_INVALID_def CONFIG_BLUEPAD32_MAX_DEVICES_def)
qed (auto simp: dev_booted seat_of_def owned_init)

lemma booted_winv: "arduino.winv booted"
  by (simp add: arduino.winv_def booted_table booted_seats)

text \<open>Everything that can happen after boot, on either core.\<close>

datatype event =
    Core0 hid_event
  | App_get_controller_data int
  | App_get_gamepad_data int
  | App_request int pending_request_cmd

definition app_step :: "event \<Rightarrow> arduino \<Rightarrow> arduino" where
  "app_step ev a = (case ev of
     Core0 _ \<Rightarrow> a
   | App_get_controller_data idx \<Rightarrow> snd (snd (arduino_get_controller_data idx a))
   | App_get_gamepad_data idx \<Rightarrow> snd (snd (arduino_get_gamepad_data idx a))
   | App_request idx cmd \<Rightarrow> snd (queue_request idx cmd a))"

definition firmware_step :: "event \<Rightarrow> arduino_world \<Rightarrow> arduino_world cres" where
  "firmware_step ev w = (case ev of
     Core0 hid \<Rightarrow> hid_step arduino_platform hid w
   | _ \<Rightarrow> Inr (upd_platform (app_step ev) w))"

definition firmware_run :: "event list \<Rightarrow> arduino_world cres" where
  "firmware_run evs = bindR boot (run_steps firmware_step evs)"

lemma app_step_seats:
  "map ac_idx (ar_controllers (app_step ev a)) = map ac_idx (ar_controllers a)
   \<and> ar_used_controllers (app_step ev a) = ar_used_controllers a"
  by (cases ev)
    (simp_all add: app_step_def arduino_get_controller_data_def arduino_get_gamepad_data_def queue_request_def
      Let_def map_ac_idx_upd_seat, simp_all add: upd_seat_def)

lemma app_step_winv:
  assumes "arduino.winv w"
  shows "arduino.winv (upd_platform (app_step ev) w)" (is "arduino.winv ?w")
proof -
  from assms have w: "table_inv w" "seat_inv w" by (simp_all add: arduino.winv_def)
  have "keep w ?w" by (simp add: keep_def dev_simps)
  then have "table_inv ?w" using w(1) by (rule keep_table_inv)
  moreover have "seat_inv ?w"
    by (rule seat_inv_same_seats [OF w(2)]) (simp_all add: dev_simps app_step_seats)
  ultimately show ?thesis by (simp add: arduino.winv_def)
qed

lemma firmware_step_good:
  assumes "arduino.winv w"
  shows "case firmware_step ev w of
      Inl e \<Rightarrow> (\<exists>hid. ev = Core0 hid \<and> hid_failure hid w e) | Inr w' \<Rightarrow> arduino.winv w'"
proof (cases ev)
  case (Core0 hid)
  with arduino.hid_step_good [OF assms, of hid] show ?thesis
    by (simp add: firmware_step_def arduino.good_result_def split: sum.splits)
qed (use app_step_winv [OF assms] in \<open>simp_all add: firmware_step_def\<close>)

lemma firmware_run_append_one:
  "firmware_run (evs @ [ev]) = bindR (firmware_run evs) (firmware_step ev)"
proof -
  have one: "run_steps firmware_step [ev] w = firmware_step ev w" for w
    by (cases "firmware_step ev w") simp_all
  show ?thesis
    by (cases "run_steps firmware_step evs booted")
      (simp_all add: firmware_run_def boot_eq run_steps_append one del: run_steps.simps)
qed

lemma firmware_run_good:
  "case firmware_run evs of
     Inl e \<Rightarrow> \<exists>past hid rest w. evs = past @ Core0 hid # rest \<and> firmware_run past = Inr w \<and> hid_failure hid w e
   | Inr w \<Rightarrow> arduino.winv w"
proof (induction evs rule: rev_induct)
  case Nil
  then show ?case by (simp add: firmware_run_def boot_eq booted_winv)
next
  case (snoc ev evs)
  show ?case
  proof (cases "firmware_run evs")
    case (Inl e)
    with snoc obtain past hid rest w where "evs = past @ Core0 hid # rest" "firmware_run past = Inr w"
      "hid_failure hid w e" by auto
    moreover from this(1) have "evs @ [ev] = past @ Core0 hid # (rest @ [ev])" by simp
    moreover have "firmware_run (evs @ [ev]) = Inl e" by (simp only: firmware_run_append_one Inl bindR_simps)
    ultimately show ?thesis by (simp only: sum.case) blast
  next
    case (Inr w)
    with snoc have "arduino.winv w" by simp
    note good = firmware_step_good [OF this, of ev]
    have run: "firmware_run (evs @ [ev]) = firmware_step ev w" by (simp add: firmware_run_append_one Inr)
    show ?thesis
    proof (cases "firmware_step ev w")
      case (Inl e)
      with good obtain hid where "ev = Core0 hid" "hid_failure hid w e" by auto
      then have "evs @ [ev] = evs @ Core0 hid # [] \<and> firmware_run evs = Inr w \<and> hid_failure hid w e"
        using Inr by simp
      then show ?thesis unfolding run Inl sum.case by blast
    qed (use good run in simp)
  qed
qed

lemma firmware_run_winv: "firmware_run evs = Inr w \<Longrightarrow> arduino.winv w"
  using firmware_run_good [of evs] by simp

section \<open>Properties\<close>

text \<open>C24: From boot on, whatever the radio, the drivers, the timers and the application do, the
  device code either keeps its table and the seats consistent or stops at one of three events,
  with the state it meets: a descriptor of more than 512 bytes is copied; the
  timer of a name request or of a driver is registered again while it runs; a device is deleted,
  after a disconnection, a timeout or a refusal by the platform, while its button timer or a timer of
  its driver runs, or one of a slot that its child links lead to. It fails in no other way: the
  connection and button timers are never registered twice, the child links never run in a
  circle, and a deletion that meets none of those timers succeeds.\<close>

theorem device_table_stays_consistent:
  "case firmware_run evs of
     Inl e \<Rightarrow> \<exists>past hid rest w. evs = past @ Core0 hid # rest \<and> firmware_run past = Inr w \<and> hid_failure hid w e
   | Inr w \<Rightarrow> table_inv w \<and> seat_inv w"
  using firmware_run_good [of evs] unfolding arduino.winv_def .

text \<open>C25: In every state the firmware reaches, disconnecting any slot returns: the child links are
  never cyclic, even where they dangle, so the recursion ends.\<close>

theorem disconnect_always_returns:
  "case firmware_run evs of
     Inl _ \<Rightarrow> True
   | Inr w \<Rightarrow> list_all (\<lambda>i. \<exists>w'. uni_hid_device_disconnect arduino_platform gap i w = Inr w') slots"
proof (cases "firmware_run evs")
  case (Inr w)
  have "\<exists>w'. uni_hid_device_disconnect arduino_platform gap i w = Inr w'" if "i < 4" for i
    using arduino.disconnect_winv [OF firmware_run_winv [OF Inr] that] by blast
  with Inr show ?thesis by (simp add: slots_eq)
qed simp

end
