(* ===== verification/Device_Behaviour.thy ===== *)
theory Device_Behaviour
  imports Arduino_Platform
begin

text \<open>
  What the device table and the Arduino platform do for the user of the firmware: reports reach
  their seat, requests reach their device, disconnected devices free their seat, outgoing
  reports are queued, the system button is reported once per press. The first lemmas describe
  the states that the firmware can reach.
\<close>

section \<open>Outgoing reports\<close>

text \<open>
  The transport as an abstract machine: a list of at most 31 waiting reports, and the calls to
  the stack. A report that does not fit is dropped.
\<close>

datatype out_event = Out_send bool u16 bytes | Out_can_send_now bool

type_synonym out_state = "(u16 \<times> bytes) list \<times> hid_call list"

definition out_send :: "bool \<Rightarrow> u16 \<Rightarrow> bytes \<Rightarrow> out_state \<Rightarrow> out_state" where
  "out_send sent cid report s =
     (if cid = 0 \<or> report = [] then s
      else (if sent \<or> length (fst s) = 31 \<or> 128 \<le> length report then fst s else fst s @ [(cid, report)],
            snd s @ [L2cap_send cid report, L2cap_request_can_send_now cid]))"

definition out_step :: "out_event \<Rightarrow> out_state \<Rightarrow> out_state" where
  "out_step ev s = (case ev of
     Out_send sent cid report \<Rightarrow> out_send sent cid report s
   | Out_can_send_now sent \<Rightarrow>
       (case fst s of [] \<Rightarrow> s | (cid, report) # q \<Rightarrow> out_send sent cid report (q, snd s)))"

definition out_hid_event :: "nat \<Rightarrow> out_event \<Rightarrow> hid_event" where
  "out_hid_event i ev = (case ev of
     Out_send sent cid report \<Rightarrow> Send_report sent i cid report
   | Out_can_send_now sent \<Rightarrow> Can_send_now sent i)"

definition out_view :: "nat \<Rightarrow> 'p hid_world \<Rightarrow> out_state" where
  "out_view i w = (cb_contents (hd_outgoing_buffer (dev w i)), hw_calls w)"

lemma put_result:
  assumes "cb_inv b"
  shows "case uni_circular_buffer_put b cid data of
      Inl _ \<Rightarrow> length (cb_contents b) = 31 \<or> 128 \<le> length data
    | Inr b' \<Rightarrow> \<not> (length (cb_contents b) = 31 \<or> 128 \<le> length data) \<and> cb_contents b' = cb_contents b @ [(cid, data)]"
proof (cases "length (cb_contents b) = 31 \<or> 128 \<le> length data")
  case True
  then have "\<exists>e. uni_circular_buffer_put b cid data = Inl e" using put_branches(1,2) [OF assms] by blast
  with True show ?thesis by auto
next
  case False
  then have "cb_count b < 31" "length data < 128" using cb_count_le [of b] by simp_all
  with put_contents [OF assms this, of cid] False show ?thesis by auto
qed

lemma call_view: "out_view i (call c w) = (fst (out_view i w), snd (out_view i w) @ [c])"
  by (simp add: out_view_def call_def dev_def)

lemma buffer_view:
  "i < length (hw_devices w) \<Longrightarrow>
     out_view i (upd_dev i (\<lambda>d. d\<lparr>hd_outgoing_buffer := b\<rparr>) w) = (cb_contents b, snd (out_view i w))"
  by (simp add: out_view_def dev_simps)

lemma send_report_view:
  assumes "cb_inv (hd_outgoing_buffer (dev w i))" and "i < length (hw_devices w)"
  shows "out_view i (uni_hid_device_send_report sent i cid report w) = out_send sent cid report (out_view i w)"
proof -
  let ?w1 = "call (L2cap_send cid report) w"
  have "i < length (hw_devices ?w1)" using assms(2) by (simp add: dev_simps)
  note put = put_result [OF assms(1), of report cid] buffer_view [OF this]
  show ?thesis
    using put by (auto simp: uni_hid_device_send_report_def out_send_def Let_def call_view dev_simps
        split: sum.splits) (auto simp: out_view_def)
qed

lemma send_queued_view:
  assumes "cb_inv (hd_outgoing_buffer (dev w i))" and "i < length (hw_devices w)"
  shows "out_view i (uni_hid_device_send_queued_reports sent i w) = out_step (Out_can_send_now sent) (out_view i w)"
proof (cases "cb_contents (hd_outgoing_buffer (dev w i))")
  case Nil
  then have "uni_circular_buffer_is_empty (hd_outgoing_buffer (dev w i))"
    using cb_is_empty_iff [OF assms(1)] by (simp flip: length_cb_contents)
  with Nil show ?thesis by (simp add: uni_hid_device_send_queued_reports_def out_step_def out_view_def)
next
  case (Cons p q)
  obtain data len b where get: "uni_circular_buffer_get (hd_outgoing_buffer (dev w i))
      = Inr (fst p, cb_head_idx (hd_outgoing_buffer (dev w i)), data, len, b)"
    "take len data = snd p" "cb_inv b" "cb_contents b = q"
    using get_contents [OF assms(1) Cons] by blast
  let ?w1 = "upd_dev i (\<lambda>d. d\<lparr>hd_outgoing_buffer := b\<rparr>) w"
  have w1: "cb_inv (hd_outgoing_buffer (dev ?w1 i))" "i < length (hw_devices ?w1)"
    using get(3) assms(2) by (simp_all add: dev_simps)
  have "\<not> uni_circular_buffer_is_empty (hd_outgoing_buffer (dev w i))"
    using get(1) by (auto simp: uni_circular_buffer_get_def)
  then have "uni_hid_device_send_queued_reports sent i w
      = uni_hid_device_send_report sent i (fst p) (snd p) ?w1"
    using get(1,2) by (simp add: uni_hid_device_send_queued_reports_def)
  then show ?thesis
    using send_report_view [OF w1] buffer_view [OF assms(2), of b] Cons get(4)
    by (simp add: out_step_def out_view_def split_beta)
qed

lemma out_event_step:
  assumes "arduino.winv w" and "i < 4" and "\<not> is_free w i"
  shows "\<exists>w'. hid_step arduino_platform (out_hid_event i ev) w = Inr w' \<and> arduino.winv w' \<and> \<not> is_free w' i
           \<and> out_view i w' = out_step ev (out_view i w)"
proof -
  have b: "cb_inv (hd_outgoing_buffer (dev w i))" "i < length (hw_devices w)"
    using assms by (simp_all add: arduino.winv_def table_inv_def slots_ok_def)
  have used: "\<not> is_free w' i" if "quiet w w'" for w' :: arduino_world
    using that keepD(2) [of w w' i] assms(2,3) by (simp add: quiet_def)
  show ?thesis
  proof (cases ev)
    case (Out_send sent cid report)
    with send_report_quiet [OF assms(3), of sent cid report] send_report_view [OF b, of sent cid report] assms
    show ?thesis
      using arduino.quiet_winv [OF assms(1)] used
      by (simp add: hid_step_def out_hid_event_def on_slot_def CONFIG_BLUEPAD32_MAX_DEVICES_def out_step_def)
  next
    case (Out_can_send_now sent)
    with send_queued_quiet [OF assms(3), of sent] send_queued_view [OF b, of sent] assms
    show ?thesis
      using arduino.quiet_winv [OF assms(1)] used
      by (simp add: hid_step_def out_hid_event_def on_slot_def CONFIG_BLUEPAD32_MAX_DEVICES_def)
  qed
qed

lemma out_run:
  assumes "arduino.winv w" and "i < 4" and "\<not> is_free w i"
  shows "\<exists>w'. run_steps (hid_step arduino_platform) (map (out_hid_event i) evs) w = Inr w'
           \<and> out_view i w' = fold out_step evs (out_view i w)"
  using assms
proof (induction evs arbitrary: w)
  case Nil
  then show ?case by simp
next
  case (Cons ev evs)
  then obtain w1 where "hid_step arduino_platform (out_hid_event i ev) w = Inr w1" "arduino.winv w1"
    "\<not> is_free w1 i" "out_view i w1 = out_step ev (out_view i w)"
    using out_event_step by blast
  with Cons.IH [of w1] Cons.prems(2) show ?case by auto
qed

text \<open>A device that has just been found: the smallest state with a device.\<close>

definition first_address :: bytes where "first_address = [1, 2, 3, 4, 5, 6]"

lemma first_address_nonzero [simp]: "first_address \<noteq> zero_addr"
  by (simp add: first_address_def zero_addr_def numeral_eq_Suc)

lemma first_device:
  "firmware_run [Core0 (Device_found first_address)] = Inr (created first_address 0 booted)"
proof -
  have "List.find (is_free booted) slots = Some 0"
    by (simp add: slots_eq is_free_def dev_booted init_device_def uni_bt_conn_init_def zero_conn_def)
  moreover have "timers_ok booted" "length (hw_devices booted) = 4"
    using booted_table by (simp_all add: table_inv_def slots_ok_def)
  ultimately show ?thesis
    by (simp add: firmware_run_def boot_eq firmware_step_def hid_step_def uni_hid_device_create_eq)
qed

lemma first_device_slot:
  "dev (created first_address 0 booted) 0 = zero_device\<lparr>hd_conn := zero_conn\<lparr>bc_btaddr := first_address\<rparr>\<rparr>"
  "\<not> is_free (created first_address 0 booted) 0"
  by (simp_all add: dev_created is_free_def) (simp_all add: booted_def)

text \<open>C27: Outgoing reports of a device refine a queue of at most 31 reports. In every reachable
  state, for every order of sends and of permissions to send, accepted or refused by the stack:
  the stack is offered the reports in exactly the order of the abstract machine, and what waits
  in the circular buffer is what waits there. A queued report that is refused again goes behind
  the ones that wait.\<close>

theorem outgoing_reports_refine_queue:
  assumes "firmware_run past = Inr w" and "i < 4" and "\<not> is_free w i"
  shows "\<exists>w'. run_steps (hid_step arduino_platform) (map (out_hid_event i) evs) w = Inr w'
           \<and> (cb_contents (hd_outgoing_buffer (dev w' i)), hw_calls w')
             = fold out_step evs (cb_contents (hd_outgoing_buffer (dev w i)), hw_calls w)"
  using out_run [OF firmware_run_winv [OF assms(1)] assms(2,3), of evs] by (simp add: out_view_def)

theorem outgoing_reports_refine_queue_witness:
  "\<exists>w w'. firmware_run [Core0 (Device_found first_address)] = Inr w
     \<and> run_steps (hid_step arduino_platform)
         (map (out_hid_event 0) [Out_send False 65 [1], Out_send False 65 [2], Out_can_send_now False]) w = Inr w'
     \<and> cb_contents (hd_outgoing_buffer (dev w' 0)) = [(65, [2]), (65, [1])]"
proof -
  have "cb_contents (hd_outgoing_buffer (dev (created first_address 0 booted) 0)) = []"
    by (simp add: first_device_slot zero_device_def zero_circular_buffer_contents)
  with outgoing_reports_refine_queue [OF first_device _ first_device_slot(2),
      of "[Out_send False 65 [1], Out_send False 65 [2], Out_can_send_now False]"] first_device
  show ?thesis by (simp del: map_eq_Cons_conv add: out_step_def out_send_def) fastforce
qed

section \<open>Creation\<close>

lemma find_unique:
  assumes "x \<in> set xs" and "P x" and "\<And>y. y \<in> set xs \<Longrightarrow> P y \<Longrightarrow> y = x"
  shows "List.find P xs = Some x"
proof -
  have "List.find P xs \<noteq> None" using assms(1,2) by (auto simp: find_None_iff)
  then obtain y where y: "List.find P xs = Some y" by blast
  then have "y \<in> set xs" "P y" by (auto simp: find_Some_iff)
  with assms(3) y show ?thesis by simp
qed

lemma set_slots [simp]: "set slots = {..<4}"
  by (auto simp: slots_def CONFIG_BLUEPAD32_MAX_DEVICES_def)

text \<open>A device that is created is found again: in every reachable state, for an address the
  table does not hold, creation takes a free slot, the lookup of the address then gives that
  slot, its connection timer runs and no other slot changes. Creation gives no device only
  when every slot is in use, and then changes nothing. It never fails.\<close>

theorem created_device_found:
  assumes "firmware_run past = Inr w" and "addr \<noteq> zero_addr"
    and "uni_hid_device_get_instance_for_address addr w = None"
  shows "case uni_hid_device_create addr w of
      Inl _ \<Rightarrow> False
    | Inr (None, w') \<Rightarrow> w' = w \<and> list_all (\<lambda>i. \<not> is_free w i) slots
    | Inr (Some i, w') \<Rightarrow> is_free w i
        \<and> uni_hid_device_get_instance_for_address addr w' = Some i
        \<and> hw_timers w' (i, Connection_timer) = Some HID_DEVICE_CONNECTION_TIMEOUT_MS
        \<and> list_all (\<lambda>j. j = i \<or> dev w' j = dev w j) slots"
proof -
  have inv: "timers_ok w" "length (hw_devices w) = 4"
    using firmware_run_winv [OF assms(1)] by (simp_all add: arduino.winv_def table_inv_def slots_ok_def)
  show ?thesis
  proof (cases "List.find (is_free w) slots")
    case None
    then have "list_all (\<lambda>i. \<not> is_free w i) slots" by (simp add: find_None_iff list_all_iff)
    with None show ?thesis by (simp add: uni_hid_device_create_eq [OF inv])
  next
    case (Some i)
    note i = find_free_SomeD [OF Some]
    have other: "uni_hid_device_is_virtual_device (dev w j) \<or> addr \<noteq> bc_btaddr (hd_conn (dev w j))" if "j < 4" for j
      using assms(3) that by (auto simp: uni_hid_device_get_instance_for_address_def find_None_iff)
    have "uni_hid_device_get_instance_for_address addr (created addr i w) = Some i"
      unfolding uni_hid_device_get_instance_for_address_def
    proof (rule find_unique)
      fix j
      assume "j \<in> set slots" and "\<not> uni_hid_device_is_virtual_device (dev (created addr i w) j)
        \<and> addr = bc_btaddr (hd_conn (dev (created addr i w) j))"
      then show "j = i" using other [of j] by (cases "j = i") (simp_all add: dev_created)
    qed (use i inv(2) in \<open>simp_all add: dev_created uni_hid_device_is_virtual_device_def zero_device_def\<close>)
    with i show ?thesis
      by (simp add: uni_hid_device_create_eq [OF inv] Some created_fields dev_created list_all_iff)
  qed
qed

theorem created_device_found_witness:
  "\<exists>w. firmware_run [] = Inr w \<and> uni_hid_device_get_instance_for_address first_address w = None
     \<and> (case uni_hid_device_create first_address w of
          Inr (Some i, w') \<Rightarrow> uni_hid_device_get_instance_for_address first_address w' = Some i
        | _ \<Rightarrow> False)"
proof -
  have run: "firmware_run [] = Inr booted" by (simp add: firmware_run_def boot_eq)
  have "uni_hid_device_get_instance_for_address first_address booted = None"
    by (simp add: uni_hid_device_get_instance_for_address_def find_None_iff dev_booted init_device_def
        uni_bt_conn_init_def zero_conn_def)
  note found = created_device_found [OF run first_address_nonzero this] this
  have "\<not> list_all (\<lambda>i. \<not> is_free booted i) slots"
    by (simp add: list_all_iff is_free_def dev_booted init_device_def uni_bt_conn_init_def zero_conn_def)
      (rule exI [of _ 0], simp)
  with found run show ?thesis by (auto split: sum.splits prod.splits option.splits)
qed

section \<open>A device leaves\<close>

lemma hog_disconnect_devices: "hw_devices (hog_disconnect gap h w) = hw_devices w"
  by (simp add: hog_disconnect_def Let_def dev_simps split: option.split)

lemma close_channels_other: "j \<noteq> i \<Longrightarrow> dev (close_channels gap i w) j = dev w j"
proof -
  assume "j \<noteq> i"
  moreover have "dev (hog_disconnect gap h w) j = dev w j" for h
    by (simp add: dev_def hog_disconnect_devices)
  ultimately show ?thesis
    by (simp add: close_channels_def uni_bt_le_disconnect_def uni_bt_bredr_disconnect_def Let_def
        upd_conn_def dev_simps split: gap_connection_type.split)
qed

lemma close_channels_platform: "hw_platform (close_channels gap i w) = hw_platform w"
  by (simp add: close_channels_def uni_bt_le_disconnect_def uni_bt_bredr_disconnect_def hog_disconnect_def
      Let_def upd_conn_def dev_simps split: gap_connection_type.split option.split)

lemma disconnect_one_eq:
  "disconnect_one plat gap i w
     = (if bc_connected (hd_conn (dev w i)) then uni_hid_device_on_connected plat i False (closed_world gap i w)
        else closed_world gap i w)"
  by (simp add: disconnect_one_def closed_world_def Let_def)

lemma closed_world_fields:
  "j \<noteq> i \<Longrightarrow> dev (closed_world gap i w) j = dev w j"
  "hw_platform (closed_world gap i w) = hw_platform w"
  by (simp_all add: closed_world_def upd_conn_def dev_simps close_channels_other close_channels_platform)

lemma disconnect_one_other: "j \<noteq> i \<Longrightarrow> dev (disconnect_one arduino_platform gap i w) j = dev w j"
  using frame_dev(1) [OF frame_disconnected, where j=j and i=i and w="closed_world gap i w"]
  by (auto simp: disconnect_one_eq uni_hid_device_on_connected_def arduino_platform_def dev_simps closed_world_fields)

text \<open>After the disconnection only the timer of the connection may be off the list of kept timers.\<close>

lemma disconnect_one_timers:
  assumes "arduino.winv w" and "i < 4" and "t \<noteq> Connection_timer"
  shows "hw_timers (disconnect_one arduino_platform gap i w) (i, t)
    = (if t = Inquiry_timer then None else hw_timers w (i, t))"
  using assms(3) keep_timer [OF arduino.disconnect_one_winv(2) [OF assms(1,2), of gap], of i t]
    arduino.disconnect_one_inquiry by (auto simp: not_kept_timer)

text \<open>
  A device without a child and without a running timer of its button or driver goes without a
  trace, and one with such a timer does not.
\<close>

lemma disconnect_and_delete_alone:
  assumes "arduino.winv w" and "i < 4" and "hd_child (dev w i) = None"
  shows "disconnect_and_delete arduino_platform gap i w =
     (if clear_of_timers w i
      then Inr (upd_dev i (\<lambda>_. init_device)
             (run_loop_remove_timer (i, Connection_timer) (disconnect_one arduino_platform gap i w)))
      else Inl Registered_timer_cleared)"
proof -
  let ?w1 = "disconnect_one arduino_platform gap i w"
  note one = arduino.disconnect_one_winv [OF assms(1,2), of gap]
  have "hd_child (dev ?w1 i) = None" using keepD(1) [OF one(2) assms(2)] assms(3) by simp
  then have "disconnect_and_delete arduino_platform gap i w
      = overwrite_slot init_device i (run_loop_remove_timer (i, Connection_timer) ?w1)"
    using assms(3)
    by (simp add: disconnect_and_delete_def uni_hid_device_disconnect_def uni_hid_device_delete_def
        uni_hid_device_init_def)
  moreover have "(\<forall>t. hw_timers (run_loop_remove_timer (i, Connection_timer) ?w1) (i, t) = None)
      \<longleftrightarrow> clear_of_timers w i"
    using disconnect_one_timers [OF assms(1,2), of _ gap]
    by (simp add: dev_simps clear_of_timers_iff) (metis not_kept_timer)
  ultimately show ?thesis by (simp add: overwrite_slot_eq)
qed

lemma gone_fields:
  assumes "arduino.winv w" and "i < 4" and "hd_child (dev w i) = None" and "clear_of_timers w i"
  shows "\<exists>w'. disconnect_and_delete arduino_platform gap i w = Inr w' \<and> dev w' i = init_device
    \<and> (\<forall>t. hw_timers w' (i, t) = None) \<and> (\<forall>j. j \<noteq> i \<longrightarrow> dev w' j = dev w j)
    \<and> (\<forall>j. j \<noteq> i \<longrightarrow> clear_of_timers w' j = clear_of_timers w j)
    \<and> hw_platform w' = hw_platform (disconnect_one arduino_platform gap i w)"
proof -
  let ?w1 = "disconnect_one arduino_platform gap i w"
  let ?w2 = "upd_dev i (\<lambda>_. init_device) (run_loop_remove_timer (i, Connection_timer) ?w1)"
  note one = arduino.disconnect_one_winv [OF assms(1,2), of gap]
  have len: "length (hw_devices ?w1) = 4" using arduino.winv_length [OF one(1)] .
  have "hw_timers ?w2 (i, t) = None" for t
    using disconnect_one_timers [OF assms(1,2), of t gap] assms(4)
    by (cases "t = Connection_timer") (auto simp: dev_simps clear_of_timers_iff not_kept_timer)
  moreover have "dev ?w2 i = init_device" using len assms(2) by (simp add: dev_simps)
  moreover have "dev ?w2 j = dev w j" if "j \<noteq> i" for j
    using that by (simp add: dev_simps disconnect_one_other)
  moreover have "clear_of_timers ?w2 j = clear_of_timers w j" if "j \<noteq> i" for j
    using that keep_clear [OF one(2), of j] by (simp add: clear_of_timers_iff dev_simps)
  moreover have "hw_platform ?w2 = hw_platform ?w1" by (simp add: dev_simps)
  ultimately show ?thesis using disconnect_and_delete_alone [OF assms(1-3), of gap] assms(4) by metis
qed

lemma closed_world_idx: "controller_idx (dev (closed_world gap i w) j) = controller_idx (dev w j)"
  by (simp add: controller_idx_def closed_world_platform_data)

lemma disconnect_one_frees_seat:
  assumes "bc_connected (hd_conn (dev w i))" and "controller_idx (dev w i) = int k" and "k < 4"
  shows "hw_platform (disconnect_one arduino_platform gap i w) = upd_seat k (\<lambda>_. free_seat)
      ((hw_platform w)\<lparr>ar_used_controllers := ar_used_controllers (hw_platform w) - 1\<rparr>)"
  using assms
  by (simp add: disconnect_one_eq uni_hid_device_on_connected_def arduino_platform_def dev_simps
      arduino_on_device_disconnected_def closed_world_idx closed_world_fields Let_def
      UNI_ARDUINO_GAMEPAD_INVALID_def CONFIG_BLUEPAD32_MAX_DEVICES_def)

lemma seat_ofD:
  assumes "seat_inv w" and "i < 4" and "seat_of (dev w i) = Some k"
  shows "controller_idx (dev w i) = int k" "k < 4" "owned (dev w i)" "k \<in> taken (hw_platform w)"
    "ac_idx (ar_controllers (hw_platform w) ! k) = int k"
proof -
  from assms(3) have o: "owned (dev w i)" "k = nat (controller_idx (dev w i))" "controller_idx (dev w i) \<noteq> - 1"
    by (auto simp: seat_of_def split: if_splits)
  show "owned (dev w i)" by (rule o)
  show t: "k \<in> taken (hw_platform w)" using seat_invD(3) [OF assms] .
  then show "k < 4" by (simp add: taken_def)
  show "controller_idx (dev w i) = int k" using seat_invD(2) [OF assms(1,2)] o by simp
  show "ac_idx (ar_controllers (hw_platform w) ! k) = int k"
    using seat_invD(1) [OF assms(1)] t by (auto simp: seats_ok_def)
qed

text \<open>The first device connects and is accepted: it sits in the first seat.\<close>

definition any_acl :: gap_types where "any_acl = (\<lambda>_. GAP_CONNECTION_ACL)"

definition first_joins :: "event list" where
  "first_joins = [Core0 (Device_found first_address), Core0 (Connected 0), Core0 (Setup_complete any_acl 0)]"

lemma first_joins_run:
  "case firmware_run first_joins of Inl _ \<Rightarrow> False
   | Inr w \<Rightarrow> seat_of (dev w 0) = Some 0 \<and> bc_state (hd_conn (dev w 0)) = UNI_BT_CONN_STATE_DEVICE_READY
       \<and> bc_connected (hd_conn (dev w 0)) \<and> \<not> is_free w 0 \<and> hd_child (dev w 0) = None
       \<and> clear_of_timers w 0 \<and> ar_pending_queue (hw_platform w) = []
       \<and> hd_controller_type (dev w 0) = CONTROLLER_TYPE_Unknown
       \<and> hd_misc_button_wait_release (dev w 0) = 0 \<and> is_free w 1
       \<and> Oob_system_button 0 \<notin> set (hw_calls w)"
  by code_simp

lemma first_joined:
  obtains w where "firmware_run first_joins = Inr w" "seat_of (dev w 0) = Some 0"
    "bc_state (hd_conn (dev w 0)) = UNI_BT_CONN_STATE_DEVICE_READY" "bc_connected (hd_conn (dev w 0))"
    "\<not> is_free w 0" "hd_child (dev w 0) = None" "clear_of_timers w 0"
    "ar_pending_queue (hw_platform w) = []" "hd_controller_type (dev w 0) = CONTROLLER_TYPE_Unknown"
    "hd_misc_button_wait_release (dev w 0) = 0" "Oob_system_button 0 \<notin> set (hw_calls w)"
  using first_joins_run by (auto split: sum.splits)

text \<open>C30: A device that leaves frees its seat, unless one of its timers runs. The disconnection of a
  connected device without a child is reported. When neither the delay timer of its button nor a
  timer of its driver, of a rumble or of its set-up, is registered, its slot becomes exactly the
  initial one with no timer left, no other device changes, and the application is told that its
  seat has no device. When one of them is, the code clears the slot with the timer still linked in
  the run loop. The witness shows both, the second for a device that is disconnected while it
  rumbles.\<close>

theorem disconnected_device_frees_seat:
  assumes "firmware_run past = Inr w" and "i < 4" and "seat_of (dev w i) = Some k"
    and "bc_connected (hd_conn (dev w i))" and "hd_child (dev w i) = None"
  shows "if clear_of_timers w i
    then \<exists>w'. firmware_step (Core0 (Disconnected gap i)) w = Inr w'
     \<and> dev w' i = init_device \<and> (\<forall>t. hw_timers w' (i, t) = None)
     \<and> list_all (\<lambda>j. j = i \<or> dev w' j = dev w j) slots
     \<and> ar_controllers (hw_platform w') = (ar_controllers (hw_platform w))[k := free_seat]
     \<and> fst (arduino_get_controller_data (int k) (hw_platform w')) = UNI_ARDUINO_ERROR_INVALID_DEVICE
    else firmware_step (Core0 (Disconnected gap i)) w = Inl Registered_timer_cleared"
proof -
  have inv: "arduino.winv w" "seat_inv w" "table_inv w"
    using firmware_run_winv [OF assms(1)] by (simp_all add: arduino.winv_def)
  note seat = seat_ofD [OF inv(2) assms(2,3)]
  have used: "\<not> is_free w i" using owned_in_use [OF inv(3) assms(2) seat(3)] .
  show ?thesis
  proof (cases "clear_of_timers w i")
    case False
    then show ?thesis
      using disconnect_and_delete_alone [OF inv(1) assms(2,5), of gap] used assms(2)
      by (simp add: firmware_step_def hid_step_def on_slot_def CONFIG_BLUEPAD32_MAX_DEVICES_def)
  next
    case True
    obtain w' where w': "disconnect_and_delete arduino_platform gap i w = Inr w'" "dev w' i = init_device"
      "\<forall>t. hw_timers w' (i, t) = None" "\<forall>j. j \<noteq> i \<longrightarrow> dev w' j = dev w j"
      "hw_platform w' = hw_platform (disconnect_one arduino_platform gap i w)"
      using gone_fields [OF inv(1) assms(2,5) True] by blast
    have step: "firmware_step (Core0 (Disconnected gap i)) w = Inr w'"
      using w'(1) used assms(2) by (simp add: firmware_step_def hid_step_def on_slot_def CONFIG_BLUEPAD32_MAX_DEVICES_def)
    have c: "ar_controllers (hw_platform w') = (ar_controllers (hw_platform w))[k := free_seat]"
      unfolding w'(5) disconnect_one_frees_seat [OF assms(4) seat(1,2)] by (simp add: upd_seat_def)
    moreover have "k < length (ar_controllers (hw_platform w))"
      using seat_invD(1) [OF inv(2)] seat(2) by (simp add: seats_ok_def)
    ultimately have "fst (arduino_get_controller_data (int k) (hw_platform w')) = UNI_ARDUINO_ERROR_INVALID_DEVICE"
      by (simp add: arduino_get_controller_data_def valid_seat_def free_seat_def)
    with step w' c True show ?thesis by (auto simp: list_all_iff)
  qed
qed

definition first_rumbles :: "event list" where
  "first_rumbles = first_joins @ [Core0 (Driver_timer_added 0 Rumble_timer_duration 300)]"

lemma first_rumbles_run:
  "case firmware_run first_rumbles of Inl _ \<Rightarrow> False
   | Inr w \<Rightarrow> seat_of (dev w 0) = Some 0 \<and> bc_connected (hd_conn (dev w 0)) \<and> hd_child (dev w 0) = None
       \<and> \<not> clear_of_timers w 0"
  by code_simp

theorem disconnected_device_frees_seat_witness:
  "(\<exists>w w'. firmware_run first_joins = Inr w \<and> seat_of (dev w 0) = Some 0
     \<and> firmware_step (Core0 (Disconnected any_acl 0)) w = Inr w' \<and> dev w' 0 = init_device)
   \<and> (\<exists>w. firmware_run first_rumbles = Inr w
     \<and> firmware_step (Core0 (Disconnected any_acl 0)) w = Inl Registered_timer_cleared)"
proof
  obtain w where w: "firmware_run first_joins = Inr w" "seat_of (dev w 0) = Some 0"
    "bc_connected (hd_conn (dev w 0))" "hd_child (dev w 0) = None" "clear_of_timers w 0"
    by (rule first_joined)
  from disconnected_device_frees_seat [OF w(1) _ w(2-4), of any_acl] w
  show "\<exists>w w'. firmware_run first_joins = Inr w \<and> seat_of (dev w 0) = Some 0
     \<and> firmware_step (Core0 (Disconnected any_acl 0)) w = Inr w' \<and> dev w' 0 = init_device" by auto
  obtain v where v: "firmware_run first_rumbles = Inr v" "seat_of (dev v 0) = Some 0"
    "bc_connected (hd_conn (dev v 0))" "hd_child (dev v 0) = None" "\<not> clear_of_timers v 0"
    using first_rumbles_run by (auto split: sum.splits)
  from disconnected_device_frees_seat [OF v(1) _ v(2-4), of any_acl] v
  show "\<exists>w. firmware_run first_rumbles = Inr w
     \<and> firmware_step (Core0 (Disconnected any_acl 0)) w = Inl Registered_timer_cleared" by auto
qed

text \<open>The connection timeout. When the timer of a device that never became ready expires, and no
  timer of its button or driver runs, the device is given up: its slot becomes the initial one, no timer of the slot is left, and no
  other device changes.\<close>

theorem connection_timeout_frees_slot:
  assumes "firmware_run past = Inr w" and "hw_timers w (i, Connection_timer) \<noteq> None"
    and "bc_state (hd_conn (dev w i)) \<noteq> UNI_BT_CONN_STATE_DEVICE_READY"
    and "hd_child (dev w i) = None" and "clear_of_timers w i"
  shows "\<exists>w'. firmware_step (Core0 (Connection_timeout gap i)) w = Inr w'
     \<and> is_free w' i \<and> dev w' i = init_device \<and> (\<forall>t. hw_timers w' (i, t) = None)
     \<and> list_all (\<lambda>j. j = i \<or> dev w' j = dev w j) slots"
proof -
  let ?w1 = "run_loop_remove_timer (i, Connection_timer) w"
  have w: "arduino.winv w" by (rule firmware_run_winv [OF assms(1)])
  have i: "i < 4" using w assms(2) unfolding arduino.winv_def table_inv_def timers_ok_def by blast
  have w1: "arduino.winv ?w1" by (rule arduino.quiet_winv [OF w quiet_remove]) simp
  have f: "hd_child (dev ?w1 i) = None" "clear_of_timers ?w1 i"
    using assms(4,5) by (auto simp: dev_simps clear_of_timers_iff)
  obtain w' where w': "disconnect_and_delete arduino_platform gap i ?w1 = Inr w'" "dev w' i = init_device"
    "\<forall>t. hw_timers w' (i, t) = None" "\<forall>j. j \<noteq> i \<longrightarrow> dev w' j = dev ?w1 j"
    using gone_fields [OF w1 i f] by blast
  have "firmware_step (Core0 (Connection_timeout gap i)) w = Inr w'"
    using w'(1) assms(2,3) by (auto simp: firmware_step_def hid_step_def device_connection_timeout_def dev_simps)
  moreover have "is_free w' i"
    using w'(2) by (simp add: is_free_def init_device_def uni_bt_conn_init_def zero_conn_def)
  ultimately show ?thesis using w' by (auto simp: list_all_iff dev_simps)
qed

theorem connection_timeout_frees_slot_witness:
  "\<exists>w w'. firmware_run [Core0 (Device_found first_address)] = Inr w \<and> \<not> is_free w 0
     \<and> firmware_step (Core0 (Connection_timeout any_acl 0)) w = Inr w' \<and> is_free w' 0"
proof -
  let ?w = "created first_address 0 booted"
  have "clear_of_timers ?w 0"
    by (auto simp: clear_of_timers_iff created_fields) (simp add: booted_def powered_on_def)
  moreover have "hw_timers ?w (0, Connection_timer) \<noteq> None"
    "bc_state (hd_conn (dev ?w 0)) \<noteq> UNI_BT_CONN_STATE_DEVICE_READY" "hd_child (dev ?w 0) = None"
    by (simp_all add: created_fields first_device_slot zero_device_def zero_conn_def)
  ultimately show ?thesis
    using connection_timeout_frees_slot [OF first_device] first_device first_device_slot(2) by blast
qed

section \<open>Reports\<close>

lemma process_system_platform:
  "process_misc_button_system i w = Inr w' \<Longrightarrow> hw_platform w' = hw_platform w"
  by (auto simp: process_misc_button_system_def run_loop_add_timer_def Let_def dev_simps split: if_splits)

lemma process_home_platform: "hw_platform (process_misc_button_home i w) = hw_platform w"
  by (simp add: process_misc_button_home_def Let_def dev_simps)

lemma process_controller_ready:
  assumes "arduino.winv w" and "i < 4" and "bc_state (hd_conn (dev w i)) = UNI_BT_CONN_STATE_DEVICE_READY"
  shows "\<exists>ctl w3. remap_controller (hw_mappings w) (hd_controller (dev w i)) = Inr ctl
    \<and> process_misc_button_system i
        (arduino_on_controller_data i (upd_dev i (\<lambda>d. d\<lparr>hd_controller := ctl\<rparr>) w)) = Inr w3
    \<and> uni_hid_device_process_controller arduino_platform i w = Inr (process_misc_button_home i w3)"
proof -
  obtain ctl where ctl: "remap_controller (hw_mappings w) (hd_controller (dev w i)) = Inr ctl"
    using remap_controller_total assms(1) by (auto simp: arduino.winv_def table_inv_def)
  obtain w' where "uni_hid_device_process_controller arduino_platform i w = Inr w'"
    using arduino.process_controller_winv [OF assms(1,2)] by blast
  with assms(3) ctl show ?thesis
    by (auto simp: uni_hid_device_process_controller_def platform_data_callback_def arduino_platform_def
        mapR_Inr_iff)
qed

lemma on_controller_data_platform:
  assumes "controller_idx (dev w i) = int k" and "k < 4"
  shows "\<exists>q. hw_platform (arduino_on_controller_data i w)
    = upd_seat k (\<lambda>c. c\<lparr>ac_data := hd_controller (dev w i), ac_data_updated := True\<rparr>)
        ((hw_platform w)\<lparr>ar_pending_queue := q\<rparr>)"
proof -
  obtain q cs where p: "process_pending_requests w = w\<lparr>hw_platform := (hw_platform w)\<lparr>ar_pending_queue := q\<rparr>, hw_calls := cs\<rparr>"
    using same_seats_process [of w] by (auto simp: same_seats_def)
  then have "dev (process_pending_requests w) i = dev w i" by (simp add: dev_def)
  with assms p show ?thesis
    by (auto simp: arduino_on_controller_data_def Let_def dev_simps CONFIG_BLUEPAD32_MAX_DEVICES_def)
qed

text \<open>C26: A report reaches the application through its own seat. In every reachable state, when
  the driver of a ready device that sits in a seat has parsed a report, the report is remapped
  and stored; the application then reads exactly the remapped report from that seat, and no
  other seat has changed.\<close>

theorem report_reaches_its_seat:
  assumes "firmware_run past = Inr w" and "i < 4" and "seat_of (dev w i) = Some k"
    and "bc_state (hd_conn (dev w i)) = UNI_BT_CONN_STATE_DEVICE_READY"
  shows "\<exists>w' remapped a. firmware_step (Core0 (Report_parsed i ctl)) w = Inr w'
     \<and> remap_controller (hw_mappings w) ctl = Inr remapped
     \<and> arduino_get_controller_data (int k) (hw_platform w') = (UNI_ARDUINO_ERROR_SUCCESS, Some remapped, a)
     \<and> list_all (\<lambda>l. l = k \<or> ar_controllers (hw_platform w') ! l = ar_controllers (hw_platform w) ! l) slots"
proof -
  have inv: "arduino.winv w" "seat_inv w" "table_inv w"
    using firmware_run_winv [OF assms(1)] by (simp_all add: arduino.winv_def)
  note seat = seat_ofD [OF inv(2) assms(2,3)]
  have used: "\<not> is_free w i" using owned_in_use [OF inv(3) assms(2) seat(3)] .
  let ?w1 = "upd_dev i (\<lambda>d. d\<lparr>hd_controller := ctl\<rparr>) w"
  have len: "length (hw_devices w) = 4" using arduino.winv_length [OF inv(1)] .
  have w1: "arduino.winv ?w1" using setters_quiet(5) [OF used] inv(1) arduino.quiet_winv by blast
  have d1: "dev ?w1 i = (dev w i)\<lparr>hd_controller := ctl\<rparr>" using assms(2) len by (simp add: dev_simps)
  obtain ctl' w3 where p: "remap_controller (hw_mappings w) ctl = Inr ctl'"
    "process_misc_button_system i (arduino_on_controller_data i (upd_dev i (\<lambda>d. d\<lparr>hd_controller := ctl'\<rparr>) ?w1)) = Inr w3"
    "uni_hid_device_process_controller arduino_platform i ?w1 = Inr (process_misc_button_home i w3)"
    using process_controller_ready [OF w1 assms(2)] assms(4) d1 by (auto simp: dev_simps)
  let ?w2 = "upd_dev i (\<lambda>d. d\<lparr>hd_controller := ctl'\<rparr>) ?w1" and ?w' = "process_misc_button_home i w3"
  have d2: "dev ?w2 i = (dev w i)\<lparr>hd_controller := ctl'\<rparr>" using assms(2) len by (simp add: dev_simps)
  have idx: "controller_idx (dev ?w2 i) = int k" unfolding d2 using seat(1) by (simp add: controller_idx_def)
  obtain q where "hw_platform (arduino_on_controller_data i ?w2)
      = upd_seat k (\<lambda>c. c\<lparr>ac_data := ctl', ac_data_updated := True\<rparr>) ((hw_platform ?w2)\<lparr>ar_pending_queue := q\<rparr>)"
    using on_controller_data_platform [OF idx seat(2)] d2 by auto
  then have pl: "hw_platform ?w' = upd_seat k (\<lambda>c. c\<lparr>ac_data := ctl', ac_data_updated := True\<rparr>)
      ((hw_platform w)\<lparr>ar_pending_queue := q\<rparr>)"
    using process_system_platform [OF p(2)] by (simp add: process_home_platform dev_simps)
  have n: "length (ar_controllers (hw_platform w)) = 4"
    using seat_invD(1) [OF inv(2)] by (simp add: seats_ok_def)
  have "firmware_step (Core0 (Report_parsed i ctl)) w = Inr ?w'"
    using p(3) used assms(2) by (simp add: firmware_step_def hid_step_def on_slot_def CONFIG_BLUEPAD32_MAX_DEVICES_def)
  moreover have "\<exists>a. arduino_get_controller_data (int k) (hw_platform ?w') = (UNI_ARDUINO_ERROR_SUCCESS, Some ctl', a)"
    unfolding pl using seat(2,5) n
    by (simp add: arduino_get_controller_data_def valid_seat_def upd_seat_def CONFIG_BLUEPAD32_MAX_DEVICES_def
        UNI_ARDUINO_GAMEPAD_INVALID_def)
  moreover have "list_all (\<lambda>l. l = k \<or> ar_controllers (hw_platform ?w') ! l = ar_controllers (hw_platform w) ! l) slots"
    unfolding pl using nth_list_update_neq by (fastforce simp: list_all_iff upd_seat_def)
  ultimately show ?thesis using p(1) by blast
qed

theorem report_reaches_its_seat_witness:
  "\<exists>w w' remapped a. firmware_run first_joins = Inr w
     \<and> firmware_step (Core0 (Report_parsed 0 zero_controller)) w = Inr w'
     \<and> arduino_get_controller_data 0 (hw_platform w') = (UNI_ARDUINO_ERROR_SUCCESS, Some remapped, a)"
proof -
  obtain w where w: "firmware_run first_joins = Inr w" "seat_of (dev w 0) = Some 0"
    "bc_state (hd_conn (dev w 0)) = UNI_BT_CONN_STATE_DEVICE_READY" by (rule first_joined)
  from report_reaches_its_seat [OF w(1) _ w(2,3), of zero_controller] w(1) show ?thesis by auto
qed

text \<open>C32: Two devices never share a seat: in every reachable state, the ready and connected
  devices that have a seat have different ones, each of them is a seat the platform counts as
  taken, and the platform's counter is the number of taken seats, so it never exceeds four.\<close>

theorem seats_are_exclusive:
  "case firmware_run past of
     Inl _ \<Rightarrow> True
   | Inr w \<Rightarrow> distinct (List.map_filter (\<lambda>i. seat_of (dev w i)) slots)
       \<and> set (List.map_filter (\<lambda>i. seat_of (dev w i)) slots) \<subseteq> taken (hw_platform w)
       \<and> ar_used_controllers (hw_platform w) = int (card (taken (hw_platform w)))
       \<and> ar_used_controllers (hw_platform w) \<le> int CONFIG_BLUEPAD32_MAX_DEVICES"
proof (cases "firmware_run past")
  case (Inr w)
  then have inv: "seat_inv w" using firmware_run_winv by (simp add: arduino.winv_def)
  have "distinct (List.map_filter (\<lambda>i. seat_of (dev w i)) js)" if "distinct js" "set js \<subseteq> {..<4}" for js
    using that
  proof (induction js)
    case Nil
    then show ?case by (simp add: List.map_filter_simps)
  next
    case (Cons i js)
    then have "seat_of (dev w i) = Some k \<Longrightarrow> seat_of (dev w j) = Some k \<Longrightarrow> j \<in> set js \<Longrightarrow> False" for j k
      using seat_invD(4) [OF inv, of i j k] by auto
    with Cons show ?case
      by (auto simp: List.map_filter_simps split: option.splits) (auto simp: List.map_filter_def, blast)
  qed
  from this [of slots] have "distinct (List.map_filter (\<lambda>i. seat_of (dev w i)) slots)"
    using set_slots by (simp add: slots_eq)
  moreover have "set (List.map_filter (\<lambda>i. seat_of (dev w i)) slots) \<subseteq> taken (hw_platform w)"
    using seat_invD(3) [OF inv] by (auto simp: List.map_filter_def)
  ultimately show ?thesis
    using Inr seat_invD(1) [OF inv] card_taken_le [of "hw_platform w"]
    by (simp add: seats_ok_def CONFIG_BLUEPAD32_MAX_DEVICES_def)
qed simp

section \<open>Requests\<close>

text \<open>The device that sits in a seat, and what the driver of a device is asked to do for a request.\<close>

definition seat_holder :: "arduino_world \<Rightarrow> nat \<Rightarrow> nat option" where
  "seat_holder w k = List.find (\<lambda>i. bc_state (hd_conn (dev w i)) = UNI_BT_CONN_STATE_DEVICE_READY
     \<and> seat_of (dev w i) = Some k) slots"

definition driver_calls :: "pending_request_cmd \<Rightarrow> nat \<Rightarrow> uni_report_parser \<Rightarrow> hid_call list" where
  "driver_calls cmd i rp = (case cmd of
     PENDING_REQUEST_CMD_LIGHTBAR_COLOR r g b \<Rightarrow>
       (case rv_set_lightbar_color rp of None \<Rightarrow> [] | Some driver \<Rightarrow> [Driver_set_lightbar_color driver i r g b])
   | PENDING_REQUEST_CMD_PLAYER_LEDS leds \<Rightarrow>
       (case rv_set_player_leds rp of None \<Rightarrow> [] | Some driver \<Rightarrow> [Driver_set_player_leds driver i leds])
   | PENDING_REQUEST_CMD_RUMBLE delay duration weak strong \<Rightarrow>
       (case rv_play_dual_rumble rp of None \<Rightarrow> []
        | Some driver \<Rightarrow> [Driver_play_dual_rumble driver i delay duration weak strong])
   | PENDING_REQUEST_CMD_DISCONNECT \<Rightarrow> [Bt_disconnect_device_safe i])"

definition served_calls :: "arduino_world \<Rightarrow> pending_request \<Rightarrow> hid_call list" where
  "served_calls w r = (case seat_holder w (unat (pr_controller_idx r)) of None \<Rightarrow> []
     | Some i \<Rightarrow> driver_calls (pr_cmd r) i (hd_report_parser (dev w i)))"

lemma dispatch_request_eq:
  "dispatch_request cmd i w = w\<lparr>hw_calls := hw_calls w @ driver_calls cmd i (hd_report_parser (dev w i))\<rparr>"
  by (simp add: dispatch_request_def driver_calls_def call_def Let_def split: pending_request_cmd.split option.split)

lemma find_cong_set: "(\<And>x. x \<in> set xs \<Longrightarrow> P x = Q x) \<Longrightarrow> List.find P xs = List.find Q xs"
  by (induction xs) auto

lemma word_seat: "- 1 \<le> x \<Longrightarrow> (x = uint c) = (x \<noteq> - 1 \<and> nat x = unat c)" for c :: u8
proof -
  have "- 1 \<le> x \<Longrightarrow> (x = int n) = (x \<noteq> - 1 \<and> nat x = n)" for n by auto
  from this [of "unat c"] show "- 1 \<le> x \<Longrightarrow> (x = uint c) = (x \<noteq> - 1 \<and> nat x = unat c)" by simp
qed

lemma request_lookup:
  assumes "seat_inv w" and "hw_devices w' = hw_devices w"
  shows "uni_hid_device_get_instance_with_predicate (predicate_arduino_index (uint c)) w' = seat_holder w (unat (c :: u8))"
proof -
  have d: "dev w' i = dev w i" for i using assms(2) by (simp add: dev_def)
  have "(bc_state (hd_conn (dev w i)) = UNI_BT_CONN_STATE_DEVICE_READY \<and> predicate_arduino_index (uint c) (dev w i))
      = (bc_state (hd_conn (dev w i)) = UNI_BT_CONN_STATE_DEVICE_READY \<and> seat_of (dev w i) = Some (unat c))"
    if "i \<in> set slots" for i
    using seat_invD(2) [OF assms(1), of i] that word_seat [of "controller_idx (dev w i)" c]
    by (auto simp: predicate_arduino_index_def seat_of_def owned_def)
  then show ?thesis
    unfolding uni_hid_device_get_instance_with_predicate_def seat_holder_def d by (rule find_cong_set)
qed

lemma process_requests_eq:
  assumes "seat_inv w" and "hw_devices w' = hw_devices w" and "ar_pending_queue (hw_platform w') = rs"
  shows "hw_calls (process_requests rs w') = hw_calls w'
      @ concat (map (served_calls w) (takeWhile (\<lambda>r. seat_holder w (unat (pr_controller_idx r)) \<noteq> None) rs))
    \<and> ar_pending_queue (hw_platform (process_requests rs w'))
      = tl (dropWhile (\<lambda>r. seat_holder w (unat (pr_controller_idx r)) \<noteq> None) rs)"
  using assms(2,3)
proof (induction rs arbitrary: w')
  case Nil
  then show ?case by simp
next
  case (Cons r rs)
  let ?w1 = "upd_platform (\<lambda>a. a\<lparr>ar_pending_queue := rs\<rparr>) w'"
  have d: "hw_devices ?w1 = hw_devices w" using Cons.prems by (simp add: dev_simps)
  then have parser: "hd_report_parser (dev ?w1 i) = hd_report_parser (dev w i)" for i by (simp add: dev_def)
  note lookup = request_lookup [OF assms(1) d, of "pr_controller_idx r"]
  have calls: "hw_calls ?w1 = hw_calls w'" by (simp add: upd_platform_def)
  show ?case
  proof (cases "seat_holder w (unat (pr_controller_idx r))")
    case None
    then show ?thesis using lookup calls by (simp add: Let_def dev_simps)
  next
    case (Some i)
    let ?w2 = "dispatch_request (pr_cmd r) i ?w1"
    have "hw_devices ?w2 = hw_devices w" "ar_pending_queue (hw_platform ?w2) = rs"
      using d by (simp_all add: dispatch_request_eq dev_simps)
    note IH = Cons.IH [OF this]
    have "hw_calls ?w2 = hw_calls w' @ served_calls w r"
      using Some calls parser by (simp add: dispatch_request_eq served_calls_def)
    with Some IH lookup show ?thesis by (simp add: Let_def)
  qed
qed

text \<open>C29: Requests of the application reach the device in the seat they name. In every reachable
  state, handling the queue calls, in the order of the requests, exactly the driver function each
  request names, on the one ready device that sits in its seat; a device whose driver has no such
  function is left alone. The first request whose seat has no ready device is dropped and ends
  the pass, what is behind it waits for the next report; devices and seats do not change.\<close>

theorem requests_served_in_order:
  assumes "firmware_run past = Inr w"
  shows "hw_calls (process_pending_requests w) = hw_calls w
      @ concat (map (served_calls w) (takeWhile (\<lambda>r. seat_holder w (unat (pr_controller_idx r)) \<noteq> None)
                                       (ar_pending_queue (hw_platform w))))
    \<and> ar_pending_queue (hw_platform (process_pending_requests w))
      = tl (dropWhile (\<lambda>r. seat_holder w (unat (pr_controller_idx r)) \<noteq> None) (ar_pending_queue (hw_platform w)))
    \<and> hw_devices (process_pending_requests w) = hw_devices w
    \<and> ar_controllers (hw_platform (process_pending_requests w)) = ar_controllers (hw_platform w)"
proof -
  have "seat_inv w" using firmware_run_winv [OF assms] by (simp add: arduino.winv_def)
  from process_requests_eq [OF this refl refl] show ?thesis
    using same_seatsD(2,4) [OF same_seats_process [of w]] by (simp add: process_pending_requests_def)
qed

definition first_requests :: "event list" where
  "first_requests = first_joins @ [App_request 0 PENDING_REQUEST_CMD_DISCONNECT]"

lemma first_requests_run:
  "case firmware_run first_requests of Inl _ \<Rightarrow> False
   | Inr w \<Rightarrow> concat (map (served_calls w) (takeWhile (\<lambda>r. seat_holder w (unat (pr_controller_idx r)) \<noteq> None)
       (ar_pending_queue (hw_platform w)))) = [Bt_disconnect_device_safe 0]"
  by code_simp

theorem requests_served_in_order_witness:
  "\<exists>w. firmware_run first_requests = Inr w
     \<and> hw_calls (process_pending_requests w) = hw_calls w @ [Bt_disconnect_device_safe 0]"
  using first_requests_run requests_served_in_order [of first_requests] by (auto split: sum.splits)

end
