(* ===== verification/Device_Limits.thy ===== *)
theory Device_Limits
  imports Device_Behaviour
begin

text \<open>
  The system button, the choice of a driver, the devices that are let in, and the error paths:
  what the application is told, and the states in which the code leaves its own rules.
\<close>

section \<open>The system button\<close>

definition pressed :: "uni_controller \<Rightarrow> bool" where
  "pressed ctl \<longleftrightarrow> gp_misc_buttons (ctl_gamepad ctl) AND MISC_BUTTON_SYSTEM \<noteq> 0"

definition held :: "uni_hid_device \<Rightarrow> bool" where
  "held d \<longleftrightarrow> hd_misc_button_wait_release d AND system_bit \<noteq> 0"

text \<open>How often a button goes down in a sequence of samples.\<close>

primrec presses :: "bool \<Rightarrow> bool list \<Rightarrow> nat" where
  "presses before [] = 0"
| "presses before (now # later) = (if now \<and> \<not> before then 1 else 0) + presses now later"

definition plain_ready :: "nat \<Rightarrow> 'p hid_world \<Rightarrow> bool" where
  "plain_ready i w \<longleftrightarrow> i < 4 \<and> bc_state (hd_conn (dev w i)) = UNI_BT_CONN_STATE_DEVICE_READY
     \<and> \<not> requires_delay (dev w i)"

lemma remap_keeps_pressed:
  "mappings_ok w \<Longrightarrow> remap_controller (hw_mappings w) ctl = Inr ctl' \<Longrightarrow> pressed ctl' = pressed ctl"
  by (auto simp: remap_controller_def uni_gamepad_remap_def mappings_ok_def pressed_def split: if_splits)

lemma process_requests_oob:
  "count_list (hw_calls (process_requests rs w)) (Oob_system_button i) = count_list (hw_calls w) (Oob_system_button i)"
proof (induction rs arbitrary: w)
  case (Cons r rs)
  then show ?case
    by (simp add: Let_def dispatch_request_eq split: option.split)
      (simp add: upd_platform_def driver_calls_def split: pending_request_cmd.split option.split)
qed simp

lemma on_controller_data_same:
  "dev (arduino_on_controller_data i w) j = dev w j"
  "hw_timers (arduino_on_controller_data i w) = hw_timers w"
  "count_list (hw_calls (arduino_on_controller_data i w)) (Oob_system_button k)
     = count_list (hw_calls w) (Oob_system_button k)"
proof -
  obtain q cs where p: "process_pending_requests w = w\<lparr>hw_platform := (hw_platform w)\<lparr>ar_pending_queue := q\<rparr>, hw_calls := cs\<rparr>"
    using same_seats_process [of w] by (auto simp: same_seats_def)
  have c: "count_list cs (Oob_system_button k) = count_list (hw_calls w) (Oob_system_button k)"
    using process_requests_oob [of "ar_pending_queue (hw_platform w)" w k] p
    by (simp add: process_pending_requests_def)
  have "hw_calls (upd_platform f w') = hw_calls w'" for f and w' :: arduino_world
    by (simp add: upd_platform_def)
  with p c show "dev (arduino_on_controller_data i w) j = dev w j"
    "hw_timers (arduino_on_controller_data i w) = hw_timers w"
    "count_list (hw_calls (arduino_on_controller_data i w)) (Oob_system_button k)
     = count_list (hw_calls w) (Oob_system_button k)"
    by (simp_all add: arduino_on_controller_data_def Let_def dev_simps) (simp_all add: dev_def)
qed

lemma word_mask_simps:
  "(x AND NOT m) AND m = 0" "m \<noteq> 0 \<Longrightarrow> (x OR m) AND m \<noteq> 0" for x m :: "'a::len word"
proof -
  show "(x AND NOT m) AND m = 0" by (simp add: bit_eq_iff bit_simps)
  assume "m \<noteq> 0"
  then obtain n where "bit m n" by (metis bit_eq_iff bit_0_eq bot_apply bot_bool_def)
  then have "bit ((x OR m) AND m) n" by (auto simp: bit_simps dest: bit_imp_le_length)
  then show "(x OR m) AND m \<noteq> 0" by auto
qed

lemma start_keeps_system:
  "(x AND NOT start_bit) AND system_bit = x AND system_bit" "(x OR start_bit) AND system_bit = x AND system_bit"
proof -
  have d: "system_bit AND start_bit = 0" "start_bit AND system_bit = 0"
    by (simp_all add: start_bit_def system_bit_def MISC_BUTTON_START_def MISC_BUTTON_SYSTEM_def BIT_def)
  show "(x OR start_bit) AND system_bit = x AND system_bit" by (rule word_disjoint_OR_AND [OF d(1)])
  from d show "(x AND NOT start_bit) AND system_bit = x AND system_bit"
    by (simp add: bit_eq_iff bit_simps) blast
qed

lemma home_keeps:
  assumes "i < length (hw_devices w)"
  shows "hd_conn (dev (process_misc_button_home i w) i) = hd_conn (dev w i)"
    "hd_controller_type (dev (process_misc_button_home i w) i) = hd_controller_type (dev w i)"
    "held (dev (process_misc_button_home i w) i) = held (dev w i)"
    "hw_calls (process_misc_button_home i w) = hw_calls w"
  using assms
  by (simp_all add: process_misc_button_home_def Let_def dev_simps held_def start_keeps_system)

lemma system_button:
  assumes "i < length (hw_devices w)" and "\<not> requires_delay (dev w i)"
    and "process_misc_button_system i w = Inr w'"
  shows "hd_conn (dev w' i) = hd_conn (dev w i)" "hd_controller_type (dev w' i) = hd_controller_type (dev w i)"
    "length (hw_devices w') = length (hw_devices w)"
    "held (dev w' i) = pressed (hd_controller (dev w i))"
    "count_list (hw_calls w') (Oob_system_button i) = count_list (hw_calls w) (Oob_system_button i)
       + (if pressed (hd_controller (dev w i)) \<and> \<not> held (dev w i) then 1 else 0)"
proof -
  have ne: "system_bit \<noteq> 0" by (simp add: system_bit_def MISC_BUTTON_SYSTEM_def BIT_def)
  have "hw_calls (call c v) = hw_calls v @ [c]" for c and v :: "'a hid_world" by (simp add: call_def)
  with assms ne
  show "hd_conn (dev w' i) = hd_conn (dev w i)" "hd_controller_type (dev w' i) = hd_controller_type (dev w i)"
    "length (hw_devices w') = length (hw_devices w)"
    "held (dev w' i) = pressed (hd_controller (dev w i))"
    "count_list (hw_calls w') (Oob_system_button i) = count_list (hw_calls w) (Oob_system_button i)
       + (if pressed (hd_controller (dev w i)) \<and> \<not> held (dev w i) then 1 else 0)"
    by (auto simp: process_misc_button_system_def Let_def dev_simps held_def pressed_def word_mask_simps
        split: if_splits)
qed

lemma report_button:
  assumes "arduino.winv w" and "plain_ready i w"
  shows "\<exists>w'. hid_step arduino_platform (Report_parsed i ctl) w = Inr w' \<and> arduino.winv w' \<and> plain_ready i w'
    \<and> held (dev w' i) = pressed ctl
    \<and> count_list (hw_calls w') (Oob_system_button i) = count_list (hw_calls w) (Oob_system_button i)
        + (if pressed ctl \<and> \<not> held (dev w i) then 1 else 0)"
proof -
  have i: "i < 4" "bc_state (hd_conn (dev w i)) = UNI_BT_CONN_STATE_DEVICE_READY" "\<not> requires_delay (dev w i)"
    using assms(2) by (simp_all add: plain_ready_def)
  have inv: "table_inv w" using assms(1) by (simp add: arduino.winv_def)
  have used: "\<not> is_free w i" using owned_in_use [OF inv i(1)] i(2) by (simp add: owned_def)
  have len: "length (hw_devices w) = 4" using arduino.winv_length [OF assms(1)] .
  let ?w1 = "upd_dev i (\<lambda>d. d\<lparr>hd_controller := ctl\<rparr>) w"
  have w1: "arduino.winv ?w1" using setters_quiet(5) [OF used] assms(1) arduino.quiet_winv by blast
  have d1: "dev ?w1 i = (dev w i)\<lparr>hd_controller := ctl\<rparr>" using i(1) len by (simp add: dev_simps)
  obtain ctl' w3 where p: "remap_controller (hw_mappings ?w1) ctl = Inr ctl'"
    "process_misc_button_system i (arduino_on_controller_data i (upd_dev i (\<lambda>d. d\<lparr>hd_controller := ctl'\<rparr>) ?w1)) = Inr w3"
    "uni_hid_device_process_controller arduino_platform i ?w1 = Inr (process_misc_button_home i w3)"
    using process_controller_ready [OF w1 i(1)] i(2) d1 by auto
  let ?w2 = "arduino_on_controller_data i (upd_dev i (\<lambda>d. d\<lparr>hd_controller := ctl'\<rparr>) ?w1)"
  let ?w' = "process_misc_button_home i w3"
  have d2: "dev ?w2 i = (dev w i)\<lparr>hd_controller := ctl'\<rparr>"
    using i(1) len by (simp add: on_controller_data_same dev_simps)
  have len2: "length (hw_devices ?w2) = 4"
    using frame_dev(2) [OF frame_data, of i "upd_dev i (\<lambda>d. d\<lparr>hd_controller := ctl'\<rparr>) ?w1"] len
    by (simp add: dev_simps)
  then have range: "i < length (hw_devices ?w2)" using i(1) by simp
  have "pressed ctl' = pressed ctl"
    using remap_keeps_pressed [OF _ p(1)] w1 by (simp add: arduino.winv_def table_inv_def)
  moreover have "\<not> requires_delay (dev ?w2 i)" using i(3) by (simp add: d2 requires_delay_def)
  note system_button [OF range this p(2)]
  moreover have "held (dev ?w2 i) = held (dev w i)" by (simp add: d2 held_def)
  moreover have "count_list (hw_calls ?w2) (Oob_system_button i) = count_list (hw_calls w) (Oob_system_button i)"
    by (simp add: on_controller_data_same upd_dev_fields)
  ultimately have w3: "hd_conn (dev w3 i) = hd_conn (dev w i)" "hd_controller_type (dev w3 i) = hd_controller_type (dev w i)"
    "length (hw_devices w3) = 4" "held (dev w3 i) = pressed ctl"
    "count_list (hw_calls w3) (Oob_system_button i) = count_list (hw_calls w) (Oob_system_button i)
        + (if pressed ctl \<and> \<not> held (dev w i) then 1 else 0)"
    using len2 by (simp_all add: d2)
  have "i < length (hw_devices w3)" using w3(3) i(1) by simp
  note home = home_keeps [OF this]
  have "arduino.winv ?w'"
    using arduino.process_controller_winv [OF w1 i(1)] p(3) by auto
  moreover have "hid_step arduino_platform (Report_parsed i ctl) w = Inr ?w'"
    using p(3) used i(1) by (simp add: hid_step_def on_slot_def CONFIG_BLUEPAD32_MAX_DEVICES_def)
  moreover have "plain_ready i ?w'"
    using i w3 home by (simp add: plain_ready_def requires_delay_def)
  ultimately show ?thesis using w3 home by auto
qed

lemma report_buttons:
  assumes "arduino.winv w" and "plain_ready i w"
  shows "\<exists>w'. run_steps (\<lambda>ctl. hid_step arduino_platform (Report_parsed i ctl)) ctls w = Inr w'
    \<and> count_list (hw_calls w') (Oob_system_button i) = count_list (hw_calls w) (Oob_system_button i)
        + presses (held (dev w i)) (map pressed ctls)"
  using assms
proof (induction ctls arbitrary: w)
  case Nil
  then show ?case by simp
next
  case (Cons ctl ctls)
  obtain w1 where w1: "hid_step arduino_platform (Report_parsed i ctl) w = Inr w1" "arduino.winv w1" "plain_ready i w1"
    "held (dev w1 i) = pressed ctl"
    "count_list (hw_calls w1) (Oob_system_button i) = count_list (hw_calls w) (Oob_system_button i)
        + (if pressed ctl \<and> \<not> held (dev w i) then 1 else 0)"
    using report_button [OF Cons.prems, of ctl] by blast
  with Cons.IH [OF w1(2,3)] show ?case by auto
qed

text \<open>C28: The system button is reported exactly once per press. For a ready device that is not of
  the Switch family, in every reachable state and for every sequence of reports, the platform is
  told of the system button as often as the button goes down in the sequence, however long it
  is held and whatever else the reports carry.\<close>

theorem system_button_once_per_press:
  assumes "firmware_run past = Inr w" and "i < 4"
    and "bc_state (hd_conn (dev w i)) = UNI_BT_CONN_STATE_DEVICE_READY" and "\<not> requires_delay (dev w i)"
  shows "\<exists>w'. run_steps (\<lambda>ctl. hid_step arduino_platform (Report_parsed i ctl)) ctls w = Inr w'
    \<and> count_list (hw_calls w') (Oob_system_button i) = count_list (hw_calls w) (Oob_system_button i)
        + presses (held (dev w i)) (map pressed ctls)"
  using report_buttons [OF firmware_run_winv [OF assms(1)], of i ctls] assms(2-4) by (simp add: plain_ready_def)

definition system_down :: uni_controller where
  "system_down = zero_controller\<lparr>ctl_gamepad := zero_gamepad\<lparr>gp_misc_buttons := MISC_BUTTON_SYSTEM\<rparr>\<rparr>"

theorem system_button_once_per_press_witness:
  "\<exists>w w'. firmware_run first_joins = Inr w
     \<and> run_steps (\<lambda>ctl. hid_step arduino_platform (Report_parsed 0 ctl))
         [system_down, system_down, zero_controller, system_down] w = Inr w'
     \<and> count_list (hw_calls w') (Oob_system_button 0) = 2"
proof -
  obtain w where w: "firmware_run first_joins = Inr w"
    "bc_state (hd_conn (dev w 0)) = UNI_BT_CONN_STATE_DEVICE_READY"
    "hd_controller_type (dev w 0) = CONTROLLER_TYPE_Unknown" "hd_misc_button_wait_release (dev w 0) = 0"
    "Oob_system_button 0 \<notin> set (hw_calls w)"
    by (rule first_joined)
  have "\<not> requires_delay (dev w 0)" "\<not> held (dev w 0)" using w(3,4) by (simp_all add: requires_delay_def held_def)
  moreover have "pressed system_down" "\<not> pressed zero_controller"
    by (simp_all add: pressed_def system_down_def zero_controller_def zero_gamepad_def MISC_BUTTON_SYSTEM_def BIT_def)
  ultimately show ?thesis
    using system_button_once_per_press [OF w(1) _ w(2), of "[system_down, system_down, zero_controller, system_down]"]
      w(1,5) by (auto simp: count_notin simp del: run_steps.simps)
qed

section \<open>Who is let in, and by which driver\<close>

lemma cod_minor:
  "(cod AND UNI_BT_COD_MINOR_MASK) AND (UNI_BT_COD_MINOR_MICE OR UNI_BT_COD_MINOR_KEYBOARD
     OR UNI_BT_COD_MINOR_GAMEPAD OR UNI_BT_COD_MINOR_JOYSTICK) \<noteq> 0
   \<longleftrightarrow> bit cod 2 \<or> bit cod 3 \<or> bit cod 6 \<or> bit cod 7"
proof -
  have m: "UNI_BT_COD_MINOR_MASK AND (UNI_BT_COD_MINOR_MICE OR UNI_BT_COD_MINOR_KEYBOARD
      OR UNI_BT_COD_MINOR_GAMEPAD OR UNI_BT_COD_MINOR_JOYSTICK) = (BIT 2 OR BIT 3 OR BIT 6 OR BIT 7 :: u32)"
    by (simp add: cod_defs BIT_def)
  have "x AND (a OR b) \<noteq> 0 \<longleftrightarrow> x AND a \<noteq> 0 \<or> x AND b \<noteq> 0" for x a b :: u32
    by (simp add: bit.conj_disj_distrib) (metis or_eq_0_iff)
  then show ?thesis unfolding and.assoc m and_BIT_ne_0 [symmetric] by (simp only:)
qed

lemma ucast_16_32_eq: "(ucast a :: u32) = ucast b \<longleftrightarrow> a = b" for a b :: u16
proof
  assume eq: "(ucast a :: u32) = ucast b"
  have "bit a n = bit b n" if "n < 16" for n
    using arg_cong [OF eq, of "\<lambda>x. bit x n"] that by (simp add: bit_simps)
  then show "a = b" by (intro bit_word_eqI) simp
qed simp

lemma guess_unknown_result:
  "\<exists>ty d1. guess_unknown d = Inr (ty, d1) \<and> \<not> unknown_type ty \<and> hd_conn d1 = hd_conn d
     \<and> hd_name d1 = hd_name d \<and> hd_cod d1 = hd_cod d"
  by (auto simp: guess_unknown_def uni_hid_parser_xboxone_does_name_match_def uni_hid_device_set_hid_descriptor_def
      uni_hid_device_set_product_id_def uni_hid_device_set_vendor_id_def set_flag_def xbox_descriptor_length
      HID_MAX_DESCRIPTOR_LEN_def unknown_type_def)

text \<open>Only nearby, allowed input devices are let in. Without a choice of the platform, a
  discovered device is connected exactly if the allow list lets it in, its signal strength is at
  least 155, its major class is ``peripheral'' and its minor class says pointing device, keyboard,
  joystick or gamepad. The audio device with class 0x400408, which the code means to let in, never
  is: the class arrives in 16 bits.\<close>

theorem discovered_devices_are_peripherals:
  "uni_hid_device_on_device_discovered allowed None addr cod rssi = UNI_ERROR_SUCCESS
   \<longleftrightarrow> allowed addr \<and> 155 \<le> unat rssi \<and> cod AND 0x1f00 = 0x0500
     \<and> (bit cod 2 \<or> bit cod 3 \<or> bit cod 6 \<or> bit cod 7)"
proof -
  have major: "((ucast cod :: u32) AND UNI_BT_COD_MAJOR_MASK = ucast (x :: u16)) \<longleftrightarrow> cod AND 0x1f00 = x" for x
  proof -
    have "(ucast cod :: u32) AND UNI_BT_COD_MAJOR_MASK = ucast (cod AND 0x1f00)"
      by (simp add: cod_defs unsigned_and_eq)
    then show ?thesis by (simp add: ucast_16_32_eq)
  qed
  have per: "((ucast cod :: u32) AND UNI_BT_COD_MAJOR_MASK = UNI_BT_COD_MAJOR_PERIPHERAL) \<longleftrightarrow> cod AND 0x1f00 = 0x0500"
    using major [of "0x0500"] by (simp add: cod_defs)
  have "(ucast cod :: u32) \<noteq> 0x400408"
  proof
    assume "(ucast cod :: u32) = 0x400408"
    then have "uint (ucast cod :: u32) = 0x400408" by simp
    then have "uint cod = 0x400408" by (simp add: uint_up_ucast is_up_def source_size_def target_size_def word_size)
    moreover have "uint cod < 2 ^ 16" using uint_bounded [of cod] by simp
    ultimately show False by simp
  qed
  then have sup: "uni_hid_device_is_cod_supported (ucast cod)
      \<longleftrightarrow> cod AND 0x1f00 = 0x0500 \<and> (bit cod 2 \<or> bit cod 3 \<or> bit cod 6 \<or> bit cod 7)"
    using cod_minor [of "ucast cod"] per by (auto simp: uni_hid_device_is_cod_supported_def Let_def bit_simps)
  have "(rssi < 255 - 100) = (\<not> 155 \<le> unat rssi)" by (simp add: word_less_nat_alt not_le)
  with sup show ?thesis by (simp add: uni_hid_device_on_device_discovered_def)
qed

lemma report_parser_for_reads:
  "\<exists>driver. rv_parse_usage (report_parser_for ty v p) = Some driver
     \<or> rv_parse_input_report (report_parser_for ty v p) = Some driver"
  by (cases ty) (simp_all add: report_parser_for_def no_parser_def switch_parser_def Let_def)

text \<open>Every device gets a driver that can read it. However little is known about a device, the
  guess returns, marks the type as known, never leaves it unknown, and installs a driver that reads
  input reports or usages; nothing but the type, the driver and, for the Xbox name, the ids and the
  descriptor change.\<close>

theorem every_device_gets_a_driver:
  "uni_hid_device_has_controller_type d
   \<or> (\<exists>d'. uni_hid_device_guess_controller_type_from_pid_vid d = Inr d'
        \<and> uni_hid_device_has_controller_type d' \<and> \<not> unknown_type (hd_controller_type d')
        \<and> (\<exists>driver. rv_parse_usage (hd_report_parser d') = Some driver
              \<or> rv_parse_input_report (hd_report_parser d') = Some driver)
        \<and> hd_conn d' = hd_conn d \<and> hd_name d' = hd_name d \<and> hd_cod d' = hd_cod d)"
proof (cases "uni_hid_device_has_controller_type d")
  case False
  let ?ty = "uni_guess_controller_type (hd_vendor_id d) (hd_product_id d)"
  obtain ty d1 where d1: "(if unknown_type ?ty then guess_unknown d else Inr (?ty, d)) = Inr (ty, d1)"
    "\<not> unknown_type ty" "hd_conn d1 = hd_conn d" "hd_name d1 = hd_name d" "hd_cod d1 = hd_cod d"
    using guess_unknown_result [of d] by (cases "unknown_type ?ty") auto
  have "(x OR FLAGS_HAS_CONTROLLER_TYPE) AND FLAGS_HAS_CONTROLLER_TYPE \<noteq> 0" for x
    by (rule word_mask_simps) (simp add: FLAGS_HAS_CONTROLLER_TYPE_def BIT_def)
  then show ?thesis
    using False d1 report_parser_for_reads [of ty "hd_vendor_id d1" "hd_product_id d1"]
    by (auto simp: uni_hid_device_guess_controller_type_from_pid_vid_def Let_def set_flag_def
        uni_hid_device_has_controller_type_def has_flag_def)
qed simp

section \<open>The application's calls\<close>

lemma run_steps_keeps:
  assumes "\<And>s ev s'. P s \<Longrightarrow> step ev s = Inr s' \<Longrightarrow> P s'" and "P s" and "run_steps step evs s = Inr s'"
  shows "P s'"
  using assms(2,3)
proof (induction evs arbitrary: s)
  case (Cons ev evs)
  then show ?case using assms(1) by (auto simp: bindR_Inr_iff)
qed simp

text \<open>The queue of requests is itself an invariant of the table's contract.\<close>

definition queue_fits :: "arduino_world \<Rightarrow> bool" where
  "queue_fits w \<longleftrightarrow> length (ar_pending_queue (hw_platform w)) \<le> MAX_PENDING_REQUESTS"

lemma process_requests_queue:
  "ar_pending_queue (hw_platform w) = rs \<Longrightarrow>
     length (ar_pending_queue (hw_platform (process_requests rs w))) \<le> length rs"
proof (induction rs arbitrary: w)
  case (Cons r rs)
  have "length (ar_pending_queue (hw_platform (process_requests rs (dispatch_request (pr_cmd r) i
      (upd_platform (\<lambda>a. a\<lparr>ar_pending_queue := rs\<rparr>) w))))) \<le> Suc (length rs)" for i
    by (rule le_SucI, rule Cons.IH) (simp add: dispatch_request_eq dev_simps)
  then show ?case by (simp add: Let_def dev_simps split: option.split)
qed simp

lemma queue_callbacks:
  "ar_pending_queue (hw_platform (arduino_on_device_connected i w)) = ar_pending_queue (hw_platform w)"
  "ar_pending_queue (hw_platform (arduino_on_device_disconnected i w)) = ar_pending_queue (hw_platform w)"
  "ar_pending_queue (hw_platform (snd (arduino_on_device_ready i w))) = ar_pending_queue (hw_platform w)"
  "length (ar_pending_queue (hw_platform (arduino_on_controller_data i w))) \<le> length (ar_pending_queue (hw_platform w))"
  using process_requests_queue [OF refl, of w]
  by (simp_all add: arduino_on_device_connected_def arduino_on_device_disconnected_def arduino_on_device_ready_def
      assign_seat_def arduino_on_controller_data_def process_pending_requests_def upd_seat_def Let_def dev_simps
      split: option.split)

interpretation requests: hid_platform arduino_platform queue_fits
proof unfold_locales
  show "queue_fits w'" if "queue_fits w" "fewer_owned w w'" for w w'
    using that by (simp add: queue_fits_def fewer_owned_def)
  show "frame i w (pl_on_device_connected arduino_platform i w)" for i w by (rule arduino.connected_frame)
  show "frame i w (pl_on_device_disconnected arduino_platform i w)" for i w by (rule arduino.disconnected_frame)
  show "frame i w (snd (pl_on_device_ready arduino_platform i w))" for i w by (rule arduino.ready_frame)
  show "frame i w (platform_data_callback arduino_platform i w)" for i w by (rule arduino.data_frame)
  show "queue_fits w' \<and> (e = UNI_ERROR_SUCCESS \<longrightarrow>
      queue_fits (upd_conn i (uni_bt_conn_set_state UNI_BT_CONN_STATE_DEVICE_READY) w'))"
    if "queue_fits w" "pl_on_device_ready arduino_platform i w = (e, w')" for w i e w'
    using that queue_callbacks(3) [of i w] by (simp add: arduino_platform_def queue_fits_def upd_conn_def dev_simps)
  show "queue_fits (platform_data_callback arduino_platform i w)" if "queue_fits w" for i w
    using that queue_callbacks(4) [of i w] by (simp add: arduino_platform_def platform_data_callback_def queue_fits_def)
qed (simp_all add: arduino_platform_def queue_fits_def queue_callbacks upd_conn_def dev_simps)

lemma firmware_step_queue:
  assumes "requests.winv w" and "firmware_step ev w = Inr w'"
  shows "requests.winv w'"
proof (cases "\<exists>e. ev = Core0 e")
  case True
  then obtain e where "hid_step arduino_platform e w = Inr w'" using assms(2) by (auto simp: firmware_step_def)
  with requests.hid_step_good [OF assms(1), of e] show ?thesis by (simp add: requests.good_result_def)
next
  case False
  then have w': "w' = upd_platform (app_step ev) w" using assms(2) by (cases ev) (simp_all add: firmware_step_def)
  have "keep w w'" by (simp add: w' keep_def dev_simps)
  then have "table_inv w'" using assms(1) keep_table_inv by (auto simp: requests.winv_def)
  moreover have "queue_fits w'"
    using assms(1) False
    by (cases ev) (auto simp: w' requests.winv_def queue_fits_def dev_simps app_step_def arduino_get_controller_data_def
        arduino_get_gamepad_data_def queue_request_def upd_seat_def Let_def)
  ultimately show ?thesis by (simp add: requests.winv_def)
qed

lemma firmware_run_queue:
  assumes "firmware_run evs = Inr w"
  shows "length (ar_pending_queue (hw_platform w)) \<le> 16"
proof -
  have "requests.winv booted"
    by (simp add: requests.winv_def booted_table queue_fits_def) (simp add: booted_def powered_on_def arduino_init_def)
  moreover have "run_steps firmware_step evs booted = Inr w" using assms by (simp add: firmware_run_def boot_eq)
  ultimately have "requests.winv w"
    by (rule run_steps_keeps [of requests.winv, rotated]) (rule firmware_step_queue)
  then show ?thesis by (simp add: requests.winv_def queue_fits_def MAX_PENDING_REQUESTS_def)
qed

text \<open>What the application is told, in every reachable state and for every index. A read of an
  index that is no taken seat is refused as an invalid device and changes nothing; a read of a
  taken seat delivers the last report if one has arrived since the last read, and then says that
  there is no data until the next report: no report is delivered twice. A request is refused in
  the same way, and otherwise reported as a success, even when the full queue drops it.\<close>

theorem application_call_outcomes:
  "case firmware_run past of
     Inl _ \<Rightarrow> True
   | Inr w \<Rightarrow> (let a = hw_platform w; seat = 0 \<le> idx \<and> nat idx \<in> taken a in
       (case arduino_get_controller_data idx a of
          (UNI_ARDUINO_ERROR_INVALID_DEVICE, None, a') \<Rightarrow> \<not> seat \<and> a' = a
        | (UNI_ARDUINO_ERROR_NO_DATA, None, a') \<Rightarrow> seat \<and> \<not> ac_data_updated (ar_controllers a ! nat idx) \<and> a' = a
        | (UNI_ARDUINO_ERROR_SUCCESS, Some data, a') \<Rightarrow> seat \<and> data = ac_data (ar_controllers a ! nat idx)
            \<and> fst (arduino_get_controller_data idx a') = UNI_ARDUINO_ERROR_NO_DATA
        | _ \<Rightarrow> False)
       \<and> (case queue_request idx cmd a of
            (UNI_ARDUINO_ERROR_INVALID_DEVICE, a') \<Rightarrow> \<not> seat \<and> a' = a
          | (UNI_ARDUINO_ERROR_SUCCESS, a') \<Rightarrow> seat
              \<and> ar_pending_queue a' = take 16 (ar_pending_queue a @ [\<lparr>pr_controller_idx = word_of_int idx, pr_cmd = cmd\<rparr>])
          | _ \<Rightarrow> False))"
proof (cases "firmware_run past")
  case (Inr w)
  have len: "length (ar_controllers (hw_platform w)) = 4"
    using firmware_run_winv [OF Inr] by (simp add: arduino.winv_def seat_inv_def seats_ok_def)
  have valid: "valid_seat idx (hw_platform w) \<longleftrightarrow> 0 \<le> idx \<and> nat idx \<in> taken (hw_platform w)"
    by (auto simp: valid_seat_def taken_def CONFIG_BLUEPAD32_MAX_DEVICES_def UNI_ARDUINO_GAMEPAD_INVALID_def)
  have "arduino_get_controller_data idx (upd_seat (nat idx) (\<lambda>c. c\<lparr>ac_data_updated := False\<rparr>) (hw_platform w))
      = (UNI_ARDUINO_ERROR_NO_DATA, None, upd_seat (nat idx) (\<lambda>c. c\<lparr>ac_data_updated := False\<rparr>) (hw_platform w))"
    if "valid_seat idx (hw_platform w)"
  proof -
    have "nat idx < 4" "\<not> idx < 0" using that by (auto simp: valid_seat_def CONFIG_BLUEPAD32_MAX_DEVICES_def)
    with that len show ?thesis
      by (auto simp: arduino_get_controller_data_def valid_seat_def upd_seat_def CONFIG_BLUEPAD32_MAX_DEVICES_def)
  qed
  then show ?thesis
    using Inr valid firmware_run_queue [OF Inr]
    by (auto simp: Let_def arduino_get_controller_data_def queue_request_def MAX_PENDING_REQUESTS_def)
qed simp

section \<open>Where the code breaks its own rules\<close>

lemma delete_with_kept_timer:
  assumes "arduino.winv w" and "kept_timer t" and "hw_timers w (i, t) \<noteq> None" and "hd_child (dev w i) = None"
  shows "disconnect_and_delete arduino_platform gap i w = Inl Registered_timer_cleared" and "i < 4" and "\<not> is_free w i"
proof -
  show i: "i < 4" "\<not> is_free w i"
    using assms(1,3) unfolding arduino.winv_def table_inv_def timers_ok_def by blast+
  have "\<not> clear_of_timers w i" using assms(2,3) by (auto simp: clear_of_timers_iff)
  with disconnect_and_delete_alone [OF assms(1) i(1) assms(4), of gap]
  show "disconnect_and_delete arduino_platform gap i w = Inl Registered_timer_cleared" by simp
qed

text \<open>Deleting a device stops neither the button timer nor a timer of the driver. In every reachable
  state in which one of them runs for a device without a child, the disconnection of that
  device clears the slot while the timer is still linked in the run loop.\<close>

theorem delete_clears_running_timer:
  assumes "firmware_run past = Inr w" and "kept_timer t" and "hw_timers w (i, t) \<noteq> None"
    and "hd_child (dev w i) = None"
  shows "firmware_step (Core0 (Disconnected gap i)) w = Inl Registered_timer_cleared"
  using delete_with_kept_timer [OF firmware_run_winv [OF assms(1)] assms(2-4)]
  by (simp add: firmware_step_def hid_step_def on_slot_def CONFIG_BLUEPAD32_MAX_DEVICES_def)

definition switch_presses :: "event list" where
  "switch_presses = [Core0 (Device_found first_address), Core0 (Vendor_product 0 0x057e 0x2009),
     Core0 (Guess_type 0), Core0 (Connected 0), Core0 (Setup_complete any_acl 0), Core0 (Report_parsed 0 system_down)]"

lemma switch_presses_run:
  "case firmware_run switch_presses of Inl _ \<Rightarrow> False
   | Inr w \<Rightarrow> hw_timers w (0, Misc_button_timer) \<noteq> None \<and> hd_child (dev w 0) = None"
  by code_simp

theorem delete_clears_running_timer_witness:
  "\<exists>w. firmware_run switch_presses = Inr w
     \<and> firmware_step (Core0 (Disconnected any_acl 0)) w = Inl Registered_timer_cleared"
  using switch_presses_run delete_clears_running_timer [of switch_presses _ Misc_button_timer 0 any_acl]
  by (auto split: sum.splits)

lemma init_slot:
  assumes "\<And>t. t \<noteq> Connection_timer \<Longrightarrow> hw_timers w (i, t) = None"
  shows "uni_hid_device_init i (run_loop_remove_timer (i, Connection_timer) w)
    = Inr (upd_dev i (\<lambda>_. init_device) (run_loop_remove_timer (i, Connection_timer) w))"
  using assms by (simp add: uni_hid_device_init_def overwrite_slot_eq dev_simps)

lemma disconnect_with_child:
  assumes "arduino.winv w" and "p < 4" and "hd_child (dev w p) = Some c" and "hd_child (dev w c) = None"
    and "clear_of_timers w p" and "clear_of_timers w c"
  shows "\<exists>w'. disconnect_and_delete arduino_platform gap p w = Inr w' \<and> is_free w' p \<and> is_free w' c"
proof -
  obtain rank where "ranked rank w" using assms(1) by (auto simp: arduino.winv_def table_inv_def)
  with assms(2,3) have c: "c < 4" "c \<noteq> p" by (auto simp: ranked_def)
  let ?w1 = "disconnect_one arduino_platform gap c w"
  let ?w2 = "disconnect_one arduino_platform gap p ?w1"
  note one = arduino.disconnect_one_winv [OF assms(1) c(1), of gap]
  note two = arduino.disconnect_one_winv [OF one(1) assms(2), of gap]
  have k: "keep w ?w2" using one(2) two(2) by (rule keep_trans)
  have ch: "hd_child (dev ?w1 p) = Some c" "hd_child (dev ?w2 p) = Some c" "hd_child (dev ?w2 c) = None"
    using keepD(1) [OF one(2)] keepD(1) [OF k] assms(2-4) c by simp_all
  have inq: "hw_timers ?w2 (i, Inquiry_timer) = None" if "i = p \<or> i = c" for i
    using that arduino.disconnect_one_inquiry keep_timer [OF two(2), of c Inquiry_timer] by metis
  have off: "t \<noteq> Connection_timer \<Longrightarrow> hw_timers ?w2 (i, t) = None" if "i = p \<or> i = c" for i t
    using inq [OF that] keep_clear [OF k, of i] assms(5,6) that
    by (cases "kept_timer t") (auto simp: clear_of_timers_iff not_kept_timer)
  let ?w3 = "upd_dev c (\<lambda>_. init_device) (run_loop_remove_timer (c, Connection_timer) ?w2)"
  let ?w4 = "upd_dev p (\<lambda>_. init_device) (run_loop_remove_timer (p, Connection_timer) ?w3)"
  have "uni_hid_device_init c (run_loop_remove_timer (c, Connection_timer) ?w2) = Inr ?w3"
    by (rule init_slot) (use off in blast)
  moreover have "uni_hid_device_init p (run_loop_remove_timer (p, Connection_timer) ?w3) = Inr ?w4"
    by (rule init_slot) (use off in \<open>simp add: dev_simps\<close>)
  ultimately have "disconnect_and_delete arduino_platform gap p w = Inr ?w4"
    using assms(3,4) ch
    by (simp add: disconnect_and_delete_def uni_hid_device_disconnect_def uni_hid_device_delete_def
        CONFIG_BLUEPAD32_MAX_DEVICES_def numeral_eq_Suc)
  moreover have "is_free ?w4 p" "is_free ?w4 c"
    using c assms(2) arduino.winv_length [OF two(1)]
    by (simp_all add: is_free_def dev_simps init_device_def uni_bt_conn_init_def zero_conn_def)
  ultimately show ?thesis by blast
qed

text \<open>C31: A device with a child link takes whatever is in that slot with it. In every reachable state,
  the disconnection of a device that has a link to a childless slot empties both slots, when no timer
  of a button or of a driver runs in either, and the code
  never asks whether the device in the second slot is its virtual child. The witness is a state in
  which it is not: the virtual mouse was disconnected alone, its parent kept the link, and a new
  device, with another address and without a parent, was given the slot.\<close>

theorem child_slot_is_taken_along:
  assumes "firmware_run past = Inr w" and "p < 4" and "\<not> is_free w p"
    and "hd_child (dev w p) = Some c" and "hd_child (dev w c) = None"
    and "clear_of_timers w p" and "clear_of_timers w c"
  shows "\<exists>w'. firmware_step (Core0 (Disconnected gap p)) w = Inr w' \<and> is_free w' p \<and> is_free w' c"
  using disconnect_with_child [OF firmware_run_winv [OF assms(1)] assms(2,4-7), of gap] assms(2,3)
  by (simp add: firmware_step_def hid_step_def on_slot_def CONFIG_BLUEPAD32_MAX_DEVICES_def)

definition mouse_joins :: "event list" where
  "mouse_joins = [Core0 (Virtual_device_enabled True), Core0 (Device_found first_address), Core0 (Connected 0)]"

lemma mouse_joins_run:
  "case firmware_run mouse_joins of Inl _ \<Rightarrow> False
   | Inr w \<Rightarrow> hw_virtual_device_enabled w \<and> \<not> is_free w 0 \<and> is_free w 1
       \<and> hd_child (dev w 0) = None \<and> controller_idx (dev w 0) = - 1
       \<and> bc_state (hd_conn (dev w 0)) = UNI_BT_CONN_STATE_DEVICE_NONE
       \<and> ar_used_controllers (hw_platform w) = 0
       \<and> clear_of_timers w 0"
  by code_simp

text \<open>What acceptance leaves alone.\<close>

lemma arduino_accepts:
  assumes "bc_state (hd_conn (dev w i)) \<noteq> UNI_BT_CONN_STATE_DEVICE_READY" and "controller_idx (dev w i) = - 1"
    and "ar_used_controllers (hw_platform w) \<noteq> 4"
  shows "\<exists>w'. uni_hid_device_set_ready_complete arduino_platform gap i w = Inr (True, w')
    \<and> ar_used_controllers (hw_platform w') \<le> ar_used_controllers (hw_platform w) + 1
    \<and> hw_virtual_device_enabled w' = hw_virtual_device_enabled w
    \<and> (\<forall>j. hd_child (dev w' j) = hd_child (dev w j) \<and> is_free w' j = is_free w j \<and> hd_parent (dev w' j) = hd_parent (dev w j)
         \<and> clear_of_timers w' j = clear_of_timers w j)"
proof -
  let ?w1 = "run_loop_remove_timer (i, Connection_timer) w"
  obtain w2 where w2: "arduino_on_device_ready i ?w1 = (UNI_ERROR_SUCCESS, w2)"
    using assms by (auto simp: arduino_on_device_ready_def dev_simps Let_def UNI_ARDUINO_GAMEPAD_INVALID_def
        CONFIG_BLUEPAD32_MAX_DEVICES_def)
  have fr: "frame i ?w1 w2" using frame_ready [of i ?w1] w2 by simp
  let ?w3 = "upd_conn i (uni_bt_conn_set_state UNI_BT_CONN_STATE_DEVICE_READY) (call (Service_on_ready i) w2)"
  have "ar_used_controllers (hw_platform w2) \<le> ar_used_controllers (hw_platform w) + 1"
    using w2 assms by (auto simp: arduino_on_device_ready_def assign_seat_def Let_def dev_simps upd_seat_def
        UNI_ARDUINO_GAMEPAD_INVALID_def CONFIG_BLUEPAD32_MAX_DEVICES_def split: option.splits)
  moreover have "uni_hid_device_set_ready_complete arduino_platform gap i w = Inr (True, ?w3)"
    using assms(1) w2 by (simp add: uni_hid_device_set_ready_complete_def arduino_platform_def)
  moreover have "hd_child (dev ?w3 j) = hd_child (dev w j) \<and> is_free ?w3 j = is_free w j
      \<and> hd_parent (dev ?w3 j) = hd_parent (dev w j)
      \<and> clear_of_timers ?w3 j = clear_of_timers w j" for j
  proof -
    have "hw_timers ?w3 (j, t) = hw_timers w (j, t)" if "kept_timer t" for t
      using that frame_dev(3) [OF fr] by (auto simp: upd_conn_def dev_simps)
    then have "clear_of_timers ?w3 j = clear_of_timers w j" by (auto simp: clear_of_timers_iff)
    then show ?thesis
      using frame_links(1-3,7) [OF fr, of j]
      by (auto simp: upd_conn_def is_free_def dev_simps uni_bt_conn_set_state_def)
  qed
  moreover have "hw_virtual_device_enabled ?w3 = hw_virtual_device_enabled w"
    using frame_dev(5) [OF fr] by (simp add: upd_conn_def dev_simps) (simp add: run_loop_remove_timer_def)
  moreover have "hw_platform ?w3 = hw_platform w2" by (simp add: upd_conn_def dev_simps)
  ultimately show ?thesis by auto
qed

lemma gamepad_gets_mouse:
  assumes "arduino.winv w" and "hw_virtual_device_enabled w" and "\<not> is_free w 0" and "is_free w 1"
    and "bc_state (hd_conn (dev w 0)) \<noteq> UNI_BT_CONN_STATE_DEVICE_READY" and "controller_idx (dev w 0) = - 1"
    and "ar_used_controllers (hw_platform w) = 0"
  shows "\<exists>w'. complete_with_virtual_mouse arduino_platform gap 0 w = Inr w'
    \<and> hd_child (dev w' 0) = Some 1 \<and> \<not> is_free w' 0 \<and> \<not> is_free w' 1 \<and> hd_child (dev w' 1) = None
    \<and> clear_of_timers w' 0 = clear_of_timers w 0
    \<and> clear_of_timers w' 1 = clear_of_timers w 1"
proof -
  obtain w1 where w1: "uni_hid_device_set_ready_complete arduino_platform gap 0 w = Inr (True, w1)"
    "ar_used_controllers (hw_platform w1) \<le> 1" "hw_virtual_device_enabled w1"
    and w1d: "\<And>j. hd_child (dev w1 j) = hd_child (dev w j) \<and> is_free w1 j = is_free w j
         \<and> hd_parent (dev w1 j) = hd_parent (dev w j)
         \<and> clear_of_timers w1 j = clear_of_timers w j"
    using arduino_accepts [OF assms(5,6), of gap] assms(2,7) by auto
  have "arduino.winv w1"
    using arduino.set_ready_complete_winv [OF assms(1) _ assms(3), of gap] w1(1) by simp
  then have len: "length (hw_devices w1) = 4" and clean: "dev w1 1 = init_device"
    using w1d [of 1] assms(4) by (auto simp: arduino.winv_def table_inv_def slots_ok_def)
  have find: "List.find (is_free w1) slots = Some 1"
    using w1d assms(3,4) by (simp add: slots_eq)
  obtain w2 where w2: "uni_hid_device_create_virtual 0 w1 = (Some 1, w2)"
    "hd_child (dev w2 0) = Some 1" "\<not> is_free w2 0" "\<not> is_free w2 1" "hd_child (dev w2 1) = None"
    "hw_timers w2 = hw_timers w1" "hw_platform w2 = hw_platform w1" "length (hw_devices w2) = 4"
    "bc_state (hd_conn (dev w2 1)) \<noteq> UNI_BT_CONN_STATE_DEVICE_READY"
    using w1(3) find len clean w1d [of 0] assms(3)
    by (simp add: uni_hid_device_create_virtual_def Let_def dev_simps is_free_def set_flag_def init_device_def
        zero_device_def uni_bt_conn_init_def zero_conn_def)
  let ?w3 = "upd_dev 1 (uni_hid_device_set_cod (UNI_BT_COD_MAJOR_PERIPHERAL OR UNI_BT_COD_MINOR_MICE)) w2"
  let ?w4 = "uni_hid_device_connect arduino_platform 1 ?w3"
  have d4: "hd_child (dev ?w4 0) = Some 1" "\<not> is_free ?w4 0" "\<not> is_free ?w4 1" "hd_child (dev ?w4 1) = None"
    "hw_timers ?w4 = hw_timers w1" "hw_platform ?w4 = hw_platform w1" "controller_idx (dev ?w4 1) = - 1"
    "bc_state (hd_conn (dev ?w4 1)) \<noteq> UNI_BT_CONN_STATE_DEVICE_READY"
    using w2(2-9)
    by (simp_all add: uni_hid_device_connect_def uni_hid_device_on_connected_def arduino_platform_def
        arduino_on_device_connected_def upd_conn_def dev_simps is_free_def uni_bt_conn_set_connected_def
        UNI_ARDUINO_GAMEPAD_INVALID_def uni_hid_device_set_cod_def Let_def set_flag_def)
      (simp_all add: set_controller_idx_def)
  obtain w5 where "uni_hid_device_set_ready_complete arduino_platform gap 1 ?w4 = Inr (True, w5)"
    "\<And>j. hd_child (dev w5 j) = hd_child (dev ?w4 j) \<and> is_free w5 j = is_free ?w4 j
         \<and> clear_of_timers w5 j = clear_of_timers ?w4 j"
    using arduino_accepts [OF d4(8,7), of gap] d4(6) w1(2) by auto
  moreover have "clear_of_timers ?w4 j = clear_of_timers w j" for j
    using w1d [of j] d4(5) by (simp add: clear_of_timers_iff)
  ultimately show ?thesis using w1(1) w2(1) d4 w1d
    by (simp add: complete_with_virtual_mouse_def Let_def)
qed

definition second_address :: bytes where "second_address = [6, 5, 4, 3, 2, 1]"

lemma firmware_run_snoc:
  "firmware_run evs = Inr w \<Longrightarrow> firmware_run (evs @ [ev]) = firmware_step ev w"
  by (cases "firmware_step ev w") (auto simp: firmware_run_def boot_eq run_steps_append)

text \<open>The slot of the disconnected mouse goes to the next device.\<close>

lemma mouse_replaced:
  assumes "firmware_run past = Inr w" and "hd_child (dev w 0) = Some 1" and "\<not> is_free w 0" and "\<not> is_free w 1"
    and "hd_child (dev w 1) = None" and "clear_of_timers w 0"
    and "clear_of_timers w 1"
  shows "\<exists>w2. firmware_run (past @ [Core0 (Disconnected any_acl 1), Core0 (Device_found second_address)]) = Inr w2
    \<and> \<not> is_free w2 0 \<and> hd_child (dev w2 0) = Some 1 \<and> hd_child (dev w2 1) = None \<and> hd_parent (dev w2 1) = None
    \<and> bc_btaddr (hd_conn (dev w2 1)) = second_address
    \<and> clear_of_timers w2 0 \<and> clear_of_timers w2 1"
proof -
  have w: "arduino.winv w" by (rule firmware_run_winv [OF assms(1)])
  obtain w1 where w1: "disconnect_and_delete arduino_platform any_acl 1 w = Inr w1" "dev w1 1 = init_device"
    "\<forall>t. hw_timers w1 (1, t) = None" "\<forall>j. j \<noteq> 1 \<longrightarrow> dev w1 j = dev w j"
    "\<forall>j. j \<noteq> 1 \<longrightarrow> clear_of_timers w1 j = clear_of_timers w j"
    using gone_fields [OF w _ assms(5,7), of any_acl] by auto
  have step1: "firmware_step (Core0 (Disconnected any_acl 1)) w = Inr w1"
    using w1(1) assms(4) by (simp add: firmware_step_def hid_step_def on_slot_def CONFIG_BLUEPAD32_MAX_DEVICES_def)
  note run1 = firmware_run_snoc [OF assms(1), of "Core0 (Disconnected any_acl 1)", unfolded step1]
  have inv1: "timers_ok w1" "length (hw_devices w1) = 4"
    using firmware_run_winv [OF run1] by (simp_all add: arduino.winv_def table_inv_def slots_ok_def)
  have free: "\<not> is_free w1 0" "is_free w1 1"
    using w1(2,4) assms(3) by (simp_all add: is_free_def init_device_def uni_bt_conn_init_def zero_conn_def)
  then have "List.find (is_free w1) slots = Some 1" by (simp add: slots_eq)
  moreover have "second_address \<noteq> zero_addr" by (simp add: second_address_def zero_addr_def numeral_eq_Suc)
  ultimately have "firmware_step (Core0 (Device_found second_address)) w1 = Inr (created second_address 1 w1)"
    by (simp add: firmware_step_def hid_step_def uni_hid_device_create_eq [OF inv1])
  then have run2: "firmware_run (past @ [Core0 (Disconnected any_acl 1), Core0 (Device_found second_address)])
      = Inr (created second_address 1 w1)"
    using firmware_run_snoc [OF run1, of "Core0 (Device_found second_address)"] by simp
  have "clear_of_timers w1 0"
    using w1(5) assms(6) by simp
  with run2 free w1 assms(2) inv1(2) show ?thesis
    by (auto simp: dev_created created_fields is_free_def zero_device_def clear_of_timers_iff)
qed

theorem child_slot_is_taken_along_witness:
  "\<exists>past w w'. firmware_run past = Inr w
     \<and> bc_btaddr (hd_conn (dev w 1)) = second_address \<and> hd_parent (dev w 1) = None
     \<and> firmware_step (Core0 (Disconnected any_acl 0)) w = Inr w' \<and> is_free w' 1"
proof -
  obtain w where w: "firmware_run mouse_joins = Inr w" "hw_virtual_device_enabled w" "\<not> is_free w 0" "is_free w 1"
    "controller_idx (dev w 0) = - 1" "bc_state (hd_conn (dev w 0)) \<noteq> UNI_BT_CONN_STATE_DEVICE_READY"
    "ar_used_controllers (hw_platform w) = 0" "clear_of_timers w 0"
    using mouse_joins_run by (auto split: sum.splits)
  have inv: "arduino.winv w" by (rule firmware_run_winv [OF w(1)])
  have free1: "clear_of_timers w 1"
    using free_slot_timers [OF _ w(4)] inv by (simp add: arduino.winv_def table_inv_def clear_of_timers_iff)
  obtain w1 where w1: "complete_with_virtual_mouse arduino_platform any_acl 0 w = Inr w1"
    "hd_child (dev w1 0) = Some 1" "\<not> is_free w1 0" "\<not> is_free w1 1" "hd_child (dev w1 1) = None"
    "clear_of_timers w1 0" "clear_of_timers w1 1"
    using gamepad_gets_mouse [OF inv w(2,3,4,6,5,7), of any_acl] w(8) free1 by auto
  have "firmware_step (Core0 (Setup_complete_with_mouse any_acl 0)) w = Inr w1"
    using w1(1) w(3) by (simp add: firmware_step_def hid_step_def on_slot_def CONFIG_BLUEPAD32_MAX_DEVICES_def)
  note run1 = firmware_run_snoc [OF w(1), of "Core0 (Setup_complete_with_mouse any_acl 0)", unfolded this]
  obtain past w2 where w2: "firmware_run past = Inr w2" "\<not> is_free w2 0" "hd_child (dev w2 0) = Some 1"
    "hd_child (dev w2 1) = None" "hd_parent (dev w2 1) = None" "bc_btaddr (hd_conn (dev w2 1)) = second_address"
    "clear_of_timers w2 0" "clear_of_timers w2 1"
    using mouse_replaced [OF run1 w1(2-7)] by blast
  from child_slot_is_taken_along [OF w2(1) _ w2(2,3,4,7,8), of any_acl] obtain w' where
    "firmware_step (Core0 (Disconnected any_acl 0)) w2 = Inr w'" "is_free w' 1" by auto
  with w2(1,5,6) show ?thesis by blast
qed

text \<open>Each of the failures that the invariant leaves open can happen, and a device that was just found
  answers for a connection it does not have: the slot is filled with zeros, zero is a valid
  connection handle, and the lookup of handle 0 finds it.\<close>

theorem failures_and_false_handle:
  "(\<exists>evs. firmware_run evs = Inl Registered_timer_cleared) \<and> (\<exists>evs. firmware_run evs = Inl Out_of_bounds)
   \<and> (\<exists>evs. firmware_run evs = Inl Assertion_failed)
   \<and> (case firmware_run [Core0 (Device_found first_address)] of
        Inl _ \<Rightarrow> False
      | Inr w \<Rightarrow> uni_hid_device_get_instance_for_connection_handle 0 w = Some 0)"
proof (intro conjI)
  obtain w where w: "firmware_run switch_presses = Inr w" "hw_timers w (0, Misc_button_timer) \<noteq> None"
    "hd_child (dev w 0) = None"
    using switch_presses_run by (auto split: sum.splits)
  have "firmware_run (switch_presses @ [Core0 (Disconnected any_acl 0)]) = Inl Registered_timer_cleared"
    using w(1) delete_with_kept_timer [OF firmware_run_winv [OF w(1)] _ w(2,3)]
    by (simp add: firmware_run_def boot_eq run_steps_append firmware_step_def hid_step_def on_slot_def
        CONFIG_BLUEPAD32_MAX_DEVICES_def)
  then show "\<exists>evs. firmware_run evs = Inl Registered_timer_cleared" by blast
  have "firmware_run [Core0 (Device_found first_address), Core0 (Descriptor 0 (replicate 513 0))] = Inl Out_of_bounds"
    using first_device first_device_slot(2)
    by (simp add: firmware_run_def boot_eq bindR_Inr_iff firmware_step_def hid_step_def on_slot_def
        CONFIG_BLUEPAD32_MAX_DEVICES_def uni_hid_device_set_hid_descriptor_def HID_MAX_DESCRIPTOR_LEN_def)
  then show "\<exists>evs. firmware_run evs = Inl Out_of_bounds" by blast
  have "case firmware_run [Core0 (Device_found first_address), Core0 (Name_requested 0), Core0 (Name_requested 0)]
      of Inl e \<Rightarrow> e = Assertion_failed | Inr _ \<Rightarrow> False"
    by code_simp
  then show "\<exists>evs. firmware_run evs = Inl Assertion_failed" by (auto split: sum.splits)
  show "case firmware_run [Core0 (Device_found first_address)] of Inl _ \<Rightarrow> False
      | Inr w \<Rightarrow> uni_hid_device_get_instance_for_connection_handle 0 w = Some 0"
    using first_device first_device_slot(1)
    by (simp add: uni_hid_device_get_instance_for_connection_handle_def UNI_BT_CONN_HANDLE_INVALID_def slots_eq
        zero_conn_def)
qed

end
