(* ===== verification/Playstation.thy ===== *)
theory Playstation
  imports Rumble Crc32
begin

text \<open>
  What the drivers of the PlayStation controllers (\<^verbatim>\<open>uni_hid_parser_ds3.c\<close>,
  \<^verbatim>\<open>uni_hid_parser_ds4.c\<close>, \<^verbatim>\<open>uni_hid_parser_ds5.c\<close>) have in common: fields of packed reports,
  the conversion of axes and buttons, the calibration of the motion sensors with
  \<^verbatim>\<open>mult_frac\<close> of \<^verbatim>\<open>uni_common.h\<close>, the touchpad that moves a virtual mouse, and the
  two timers that delay and end a rumble. Reading past the end of a report is
  \<open>Inl Out_of_bounds\<close>.
\<close>

section \<open>Fields of packed reports\<close>

definition i16_of_u16 :: "u16 \<Rightarrow> int" where
  "i16_of_u16 w = sint w"

definition read_u16 :: "bytes \<Rightarrow> nat \<Rightarrow> u16 cres" where
  "read_u16 bs i =
     bindR (read_byte bs i) (\<lambda>lo. mapR (\<lambda>hi. ucast lo OR push_bit 8 (ucast hi)) (read_byte bs (Suc i)))"

definition read_u32 :: "bytes \<Rightarrow> nat \<Rightarrow> u32 cres" where
  "read_u32 bs i =
     bindR (read_u16 bs i) (\<lambda>lo. mapR (\<lambda>hi. ucast lo OR push_bit 16 (ucast hi)) (read_u16 bs (i + 2)))"

definition read_i16 :: "bytes \<Rightarrow> nat \<Rightarrow> int cres" where
  "read_i16 bs i = mapR i16_of_u16 (read_u16 bs i)"

primrec read_i16s :: "nat \<Rightarrow> bytes \<Rightarrow> nat \<Rightarrow> int list cres" where
  "read_i16s 0 bs i = Inr []"
| "read_i16s (Suc n) bs i = bindR (read_i16 bs i) (\<lambda>v. mapR (\<lambda>vs. v # vs) (read_i16s n bs (i + 2)))"

definition le32 :: "u32 \<Rightarrow> bytes" where
  "le32 w = [ucast w, ucast (drop_bit 8 w), ucast (drop_bit 16 w), ucast (drop_bit 24 w)]"

lemma i16_of_u16_bounds: "- 32768 \<le> i16_of_u16 w" "i16_of_u16 w \<le> 32767"
  using sint_greater_eq [of w] sint_less [of w] by (simp_all add: i16_of_u16_def)

lemma read_byte_Inr: "i < length bs \<Longrightarrow> read_byte bs i = Inr (bs ! i)"
  by (simp add: read_byte_def)

lemma read_byte_fails: "read_byte bs i = Inl e \<Longrightarrow> e = Out_of_bounds \<and> length bs \<le> i"
  by (simp add: read_byte_def split: if_splits)

lemma read_u16_total: "Suc i < length bs \<Longrightarrow> \<exists>w. read_u16 bs i = Inr w"
  by (simp add: read_u16_def read_byte_def)

lemma read_u16_fails: "read_u16 bs i = Inl e \<Longrightarrow> e = Out_of_bounds \<and> length bs \<le> Suc i"
  by (auto simp: read_u16_def read_byte_def split: if_splits)

lemma read_i16s_total: "i + 2 * n \<le> length bs \<Longrightarrow> \<exists>vs. read_i16s n bs i = Inr vs \<and> length vs = n"
proof (induction n arbitrary: i)
  case 0
  then show ?case by simp
next
  case (Suc n)
  then have "Suc i < length bs" by simp
  from read_u16_total [OF this] obtain w where w: "read_u16 bs i = Inr w" by blast
  from Suc.IH [of "i + 2"] Suc.prems obtain vs where "read_i16s n bs (i + 2) = Inr vs" "length vs = n"
    by auto
  with w show ?case by (simp add: read_i16_def)
qed

lemma read_i16s_fails: "read_i16s n bs i = Inl e \<Longrightarrow> e = Out_of_bounds \<and> length bs < i + 2 * n"
proof (induction n arbitrary: i e)
  case 0
  then show ?case by simp
next
  case (Suc n)
  show ?case
  proof (cases "read_u16 bs i")
    case (Inl e')
    with Suc.prems read_u16_fails [OF Inl] show ?thesis by (simp add: read_i16_def)
  next
    case (Inr w)
    show ?thesis
    proof (cases "read_i16s n bs (i + 2)")
      case (Inl e')
      with Inr Suc.prems Suc.IH [OF Inl] show ?thesis by (simp add: read_i16_def)
    next
      case (Inr vs)
      with \<open>read_u16 bs i = Inr w\<close> Suc.prems show ?thesis by (simp add: read_i16_def)
    qed
  qed
qed

lemma read_i16s_bounds:
  assumes "read_i16s n bs i = Inr vs"
  shows "length vs = n \<and> (\<forall>v \<in> set vs. - 32768 \<le> v \<and> v \<le> 32767)"
  using assms
proof (induction n arbitrary: i vs)
  case 0
  then show ?case by simp
next
  case (Suc n)
  from Suc.prems obtain w vs' where vs: "read_u16 bs i = Inr w" "read_i16s n bs (i + 2) = Inr vs'"
    "vs = i16_of_u16 w # vs'"
    by (auto simp: read_i16_def bindR_Inr_iff mapR_Inr_iff)
  with Suc.IH [OF vs(2)] show ?case by (simp add: i16_of_u16_bounds)
qed

section \<open>\<^verbatim>\<open>mult_frac\<close> and the calibration of the sensors\<close>

text \<open>\<^verbatim>\<open>intmax_t\<close> has 64 bits. The result is stored in an \<^verbatim>\<open>int32_t\<close>: \<open>narrow_i32\<close>.\<close>

definition in_i64 :: "int \<Rightarrow> bool" where
  "in_i64 x \<longleftrightarrow> - (2 ^ 63) \<le> x \<and> x < 2 ^ 63"

definition i64 :: "int \<Rightarrow> int cres" where
  "i64 x = (if in_i64 x then Inr x else Inl Signed_overflow)"

definition narrow_i32 :: "int \<Rightarrow> int" where
  "narrow_i32 x = i32_of_u32 (word_of_int x)"

definition narrow_i16 :: "int \<Rightarrow> int" where
  "narrow_i16 x = i16_of_u16 (word_of_int x)"

definition mult_frac :: "int \<Rightarrow> int \<Rightarrow> int \<Rightarrow> int cres" where
  "mult_frac x multiplier divisor =
     (if divisor = 0 then Inl Division_by_zero
      else
        bindR (i64 (x sdiv divisor)) (\<lambda>q.
        let r = x smod divisor in
        bindR (i64 (q * multiplier)) (\<lambda>a.
        bindR (i64 (r * multiplier)) (\<lambda>b.
        bindR (i64 (b sdiv divisor)) (\<lambda>c. i64 (a + c))))))"

text \<open>The quotient and the remainder have the signs that make the two truncations add up.\<close>

lemma sdiv_split:
  fixes x m d :: int
  assumes "d \<noteq> 0"
  shows "(x sdiv d) * m + ((x smod d) * m) sdiv d = (x * m) sdiv d"
proof -
  let ?s = "sgn x * sgn m * sgn d" and ?X = "\<bar>x\<bar>" and ?M = "\<bar>m\<bar>" and ?D = "\<bar>d\<bar>"
  have "(x sdiv d) * m = ?s * (?X div ?D * ?M)"
  proof -
    have "(x sdiv d) * m = sgn x * sgn d * (?X div ?D) * (sgn m * ?M)"
      by (simp only: signed_divide_int_def sgn_mult_abs)
    then show ?thesis by (simp only: ac_simps)
  qed
  moreover have "((x smod d) * m) sdiv d = ?s * (?X mod ?D * ?M div ?D)"
  proof (cases "x = 0 \<or> m = 0 \<or> ?X mod ?D = 0")
    case True
    then show ?thesis by (auto simp: signed_divide_int_def signed_modulo_int_def)
  next
    case False
    moreover have "0 \<le> ?X mod ?D" using assms by simp
    ultimately have "sgn (?X mod ?D) = 1" by (simp add: sgn_1_pos)
    then show ?thesis
      using \<open>0 \<le> ?X mod ?D\<close> False
      by (simp add: signed_divide_int_def signed_modulo_int_def sgn_mult abs_mult mult.assoc)
  qed
  moreover have "?X div ?D * ?M + ?X mod ?D * ?M div ?D = ?X * ?M div ?D"
  proof -
    have "?X * ?M = (?X div ?D * ?M) * ?D + ?X mod ?D * ?M"
      by (metis div_mult_mod_eq distrib_right mult.assoc mult.commute)
    then show ?thesis using assms by simp
  qed
  moreover have "(x * m) sdiv d = ?s * (?X * ?M div ?D)"
    by (simp add: signed_divide_int_def sgn_mult abs_mult)
  ultimately show ?thesis by (simp flip: distrib_left)
qed

lemma abs_sdiv_le: "\<bar>a sdiv b\<bar> \<le> \<bar>a :: int\<bar>"
proof -
  have "\<bar>a\<bar> div \<bar>b\<bar> \<le> \<bar>a\<bar>" using zdiv_mono2 [of "\<bar>a\<bar>" 1 "\<bar>b\<bar>"] by (cases "b = 0") simp_all
  moreover have "0 \<le> \<bar>a\<bar> div \<bar>b\<bar>" by (simp add: div_int_pos_iff)
  ultimately show ?thesis by (simp only: signed_divide_int_def abs_mult abs_sgn_eq abs_of_nonneg) simp
qed

lemma abs_smod_le: "\<bar>a smod b\<bar> \<le> \<bar>a :: int\<bar>"
proof -
  have "\<bar>a\<bar> mod \<bar>b\<bar> \<le> \<bar>a\<bar>" by (rule zmod_le_nonneg_dividend) simp
  moreover have "0 \<le> \<bar>a\<bar> mod \<bar>b\<bar>" by (cases "b = 0") simp_all
  ultimately show ?thesis by (simp only: signed_modulo_int_def abs_mult abs_sgn_eq abs_of_nonneg) simp
qed

lemma i64_ok: "\<bar>x\<bar> \<le> 2 ^ 62 \<Longrightarrow> i64 x = Inr x"
  by (auto simp: i64_def in_i64_def abs_le_iff)

text \<open>
  With a numerator and a divisor of 32 bits and a sensor value of 16, no intermediate result
  overflows and the split into quotient and remainder loses nothing.
\<close>

lemma mult_frac_eq:
  assumes x: "\<bar>x\<bar> \<le> 2 ^ 31" and m: "\<bar>m\<bar> \<le> 2 ^ 15" and d: "d \<noteq> 0"
  shows "mult_frac x m d = Inr ((x * m) sdiv d)"
proof -
  have prod: "\<bar>a * m\<bar> \<le> 2 ^ 46" if "\<bar>a\<bar> \<le> 2 ^ 31" for a
    using mult_mono [OF that m] by (simp add: abs_mult)
  have q: "\<bar>x sdiv d\<bar> \<le> 2 ^ 31" and r: "\<bar>x smod d\<bar> \<le> 2 ^ 31"
    using abs_sdiv_le [of x d] abs_smod_le [of x d] x by linarith+
  have "\<bar>((x smod d) * m) sdiv d\<bar> \<le> 2 ^ 46"
    using abs_sdiv_le [of "(x smod d) * m" d] prod [OF r] by linarith
  moreover have "\<bar>(x * m) sdiv d\<bar> \<le> 2 ^ 46"
    using abs_sdiv_le [of "x * m" d] prod [OF x] by linarith
  ultimately show ?thesis
    using d q prod [OF q] prod [OF r]
    by (simp add: mult_frac_def Let_def i64_ok sdiv_split)
qed

record ps_calibration =
  cal_bias :: int
  cal_sens_numer :: int
  cal_sens_denom :: int

definition ACC_RES_PER_G :: int where "ACC_RES_PER_G = 8192"
definition ACC_RANGE :: int where "ACC_RANGE = 4 * ACC_RES_PER_G"
definition GYRO_RES_PER_DEG_S :: int where "GYRO_RES_PER_DEG_S = 1024"
definition GYRO_RANGE :: int where "GYRO_RANGE = 2048 * GYRO_RES_PER_DEG_S"

definition default_gyro_calibration :: ps_calibration where
  "default_gyro_calibration = \<lparr>cal_bias = 0, cal_sens_numer = GYRO_RANGE, cal_sens_denom = 32767\<rparr>"

definition default_accel_calibration :: ps_calibration where
  "default_accel_calibration = \<lparr>cal_bias = 0, cal_sens_numer = ACC_RANGE, cal_sens_denom = 32767\<rparr>"

text \<open>
  The operands come from \<^verbatim>\<open>int16_t\<close> fields, so no \<^verbatim>\<open>int\<close> operation here can overflow
  (\<open>calibrations_ok\<close> below).
\<close>

definition gyro_calibration :: "int \<Rightarrow> int \<Rightarrow> ps_calibration" where
  "gyro_calibration speed_2x denom =
     (if denom = 0 then default_gyro_calibration
      else \<lparr>cal_bias = 0, cal_sens_numer = speed_2x * GYRO_RES_PER_DEG_S, cal_sens_denom = denom\<rparr>)"

definition accel_calibration :: "int \<Rightarrow> int \<Rightarrow> ps_calibration" where
  "accel_calibration acc_plus acc_minus =
     (let range_2g = acc_plus - acc_minus in
      if range_2g = 0 then default_accel_calibration
      else \<lparr>cal_bias = narrow_i16 (acc_plus - range_2g sdiv 2), cal_sens_numer = 2 * ACC_RES_PER_G,
            cal_sens_denom = range_2g\<rparr>)"

text \<open>What every calibration in use satisfies: the divisor is not zero.\<close>

definition calibration_ok :: "ps_calibration \<Rightarrow> bool" where
  "calibration_ok c \<longleftrightarrow> cal_sens_denom c \<noteq> 0 \<and> \<bar>cal_sens_numer c\<bar> \<le> 2 ^ 31 \<and> in_i32 (cal_sens_denom c)"

lemma calibrations_ok:
  "calibration_ok default_gyro_calibration" "calibration_ok default_accel_calibration"
  "\<bar>speed\<bar> \<le> 65536 \<Longrightarrow> in_i32 denom \<Longrightarrow> calibration_ok (gyro_calibration speed denom)"
  "\<bar>p\<bar> \<le> 32768 \<Longrightarrow> \<bar>m\<bar> \<le> 32768 \<Longrightarrow> calibration_ok (accel_calibration p m)"
  by (auto simp: calibration_ok_def default_gyro_calibration_def default_accel_calibration_def in_i32_def
      gyro_calibration_def accel_calibration_def Let_def GYRO_RANGE_def GYRO_RES_PER_DEG_S_def
      ACC_RANGE_def ACC_RES_PER_G_def abs_mult)

type_synonym calibration_xyz = "ps_calibration \<times> ps_calibration \<times> ps_calibration"

definition sensor_value :: "ps_calibration \<Rightarrow> int \<Rightarrow> int cres" where
  "sensor_value c raw_data = mapR narrow_i32 (mult_frac (cal_sens_numer c) raw_data (cal_sens_denom c))"

definition sensor_xyz :: "calibration_xyz \<Rightarrow> bytes \<Rightarrow> nat \<Rightarrow> (int \<times> int \<times> int) cres" where
  "sensor_xyz cs bs i = (case cs of (cx, cy, cz) \<Rightarrow>
     bindR (read_i16 bs i) (\<lambda>x. bindR (sensor_value cx x) (\<lambda>vx.
     bindR (read_i16 bs (i + 2)) (\<lambda>y. bindR (sensor_value cy y) (\<lambda>vy.
     bindR (read_i16 bs (i + 4)) (\<lambda>z. bindR (sensor_value cz z) (\<lambda>vz. Inr (vx, vy, vz))))))))"

definition calibrations_xyz_ok :: "calibration_xyz \<Rightarrow> bool" where
  "calibrations_xyz_ok cs \<longleftrightarrow>
     calibration_ok (fst cs) \<and> calibration_ok (fst (snd cs)) \<and> calibration_ok (snd (snd cs))"

lemma sensor_value_total:
  assumes "calibration_ok c"
  shows "\<exists>v. sensor_value c (i16_of_u16 w) = Inr v"
proof -
  have "\<bar>i16_of_u16 w\<bar> \<le> 2 ^ 15" using i16_of_u16_bounds [of w] by simp
  with assms show ?thesis by (simp add: sensor_value_def calibration_ok_def mult_frac_eq)
qed

lemma sensor_xyz_total:
  assumes "calibrations_xyz_ok cs" and "i + 5 < length bs"
  shows "\<exists>v. sensor_xyz cs bs i = Inr v"
proof -
  obtain cx cy cz where cs: "cs = (cx, cy, cz)" by (metis prod.exhaust)
  obtain x y z where "read_u16 bs i = Inr x" "read_u16 bs (i + 2) = Inr y" "read_u16 bs (i + 4) = Inr z"
    using read_u16_total [of i bs] read_u16_total [of "i + 2" bs] read_u16_total [of "i + 4" bs] assms(2)
    by auto
  with assms(1) cs sensor_value_total [of cx x] sensor_value_total [of cy y] sensor_value_total [of cz z]
  show ?thesis by (auto simp: sensor_xyz_def read_i16_def calibrations_xyz_ok_def)
qed

section \<open>Sticks, buttons and the hat\<close>

text \<open>\<^verbatim>\<open>(r->x - 127) * 4\<close> and \<^verbatim>\<open>r->brake * 4\<close>, in \<^verbatim>\<open>int\<close>: at most 1020.\<close>

definition stick_axis :: "u8 \<Rightarrow> int" where
  "stick_axis b = (uint b - 127) * 4"

definition pedal_value :: "u8 \<Rightarrow> int" where
  "pedal_value b = uint b * 4"

text \<open>A sequence of \<^verbatim>\<open>if (byte & bit) dst |= MASK\<close> statements.\<close>

primrec or_masks :: "u8 \<Rightarrow> (u8 \<times> 'a::len word) list \<Rightarrow> 'a word \<Rightarrow> 'a word" where
  "or_masks b [] dst = dst"
| "or_masks b (p # ps) dst = or_masks b ps (if b AND fst p \<noteq> 0 then dst OR snd p else dst)"

definition ps_buttons_0 :: "(u8 \<times> u16) list" where
  "ps_buttons_0 = [(0x10, BUTTON_X), (0x20, BUTTON_A), (0x40, BUTTON_B), (0x80, BUTTON_Y)]"

definition ps_buttons_1 :: "(u8 \<times> u16) list" where
  "ps_buttons_1 = [(0x01, BUTTON_SHOULDER_L), (0x02, BUTTON_SHOULDER_R), (0x04, BUTTON_TRIGGER_L),
     (0x08, BUTTON_TRIGGER_R), (0x40, BUTTON_THUMB_L), (0x80, BUTTON_THUMB_R)]"

definition ps_misc_1 :: "(u8 \<times> u8) list" where
  "ps_misc_1 = [(0x10, MISC_BUTTON_SELECT), (0x20, MISC_BUTTON_START)]"

definition ps_hat :: "u8 \<Rightarrow> u8" where
  "ps_hat buttons_0 =
     (let value = buttons_0 AND 0xf in uni_hid_parser_hat_to_dpad (if 7 < value then 0xff else value))"

lemma mask_bits [simp]:
  "bit BUTTON_A k \<longleftrightarrow> k = 0" "bit BUTTON_B k \<longleftrightarrow> k = 1" "bit BUTTON_X k \<longleftrightarrow> k = 2"
  "bit BUTTON_Y k \<longleftrightarrow> k = 3" "bit BUTTON_SHOULDER_L k \<longleftrightarrow> k = 4" "bit BUTTON_SHOULDER_R k \<longleftrightarrow> k = 5"
  "bit BUTTON_TRIGGER_L k \<longleftrightarrow> k = 6" "bit BUTTON_TRIGGER_R k \<longleftrightarrow> k = 7"
  "bit BUTTON_THUMB_L k \<longleftrightarrow> k = 8" "bit BUTTON_THUMB_R k \<longleftrightarrow> k = 9"
  "bit DPAD_UP k \<longleftrightarrow> k = 0" "bit DPAD_DOWN k \<longleftrightarrow> k = 1" "bit DPAD_RIGHT k \<longleftrightarrow> k = 2"
  "bit DPAD_LEFT k \<longleftrightarrow> k = 3" "bit MISC_BUTTON_SYSTEM k \<longleftrightarrow> k = 0" "bit MISC_BUTTON_SELECT k \<longleftrightarrow> k = 1"
  "bit MISC_BUTTON_START k \<longleftrightarrow> k = 2" "bit MISC_BUTTON_CAPTURE k \<longleftrightarrow> k = 3"
  by (auto simp: button_masks bit_BIT)

lemma bit_or_masks:
  assumes "bit (or_masks b ps dst) k" and "\<And>k. bit dst k \<Longrightarrow> k < n"
    and "\<forall>p \<in> set ps. \<forall>k. bit (snd p) k \<longrightarrow> k < n"
  shows "k < n"
  using assms
proof (induction ps arbitrary: dst)
  case Nil
  then show ?case by simp
next
  case (Cons p ps)
  then have "bit (or_masks b ps (if b AND fst p \<noteq> 0 then dst OR snd p else dst)) k" by simp
  then show ?case
    by (rule Cons.IH) (use Cons.prems(2, 3) in \<open>auto simp: bit_or_iff split: if_splits\<close>)
qed

text \<open>What a PlayStation gamepad report fills in, whatever its bytes.\<close>

definition ps_gamepad_ok :: "uni_gamepad \<Rightarrow> bool" where
  "ps_gamepad_ok gp \<longleftrightarrow> gamepad_bits_ok gp
     \<and> gp_axis_x gp \<in> {-508..512} \<and> gp_axis_y gp \<in> {-508..512}
     \<and> gp_axis_rx gp \<in> {-508..512} \<and> gp_axis_ry gp \<in> {-508..512}
     \<and> gp_brake gp \<in> {0..1020} \<and> gp_throttle gp \<in> {0..1020}"

lemma u8_bounds: "0 \<le> uint (b :: u8)" "uint (b :: u8) \<le> 255"
  using uint_lt2p [of b] by simp_all

lemma stick_axis_bounds: "- 508 \<le> stick_axis b" "stick_axis b \<le> 512"
  using u8_bounds [of b] by (simp_all add: stick_axis_def)

lemma pedal_value_bounds: "0 \<le> pedal_value b" "pedal_value b \<le> 1020"
  using u8_bounds [of b] by (simp_all add: pedal_value_def)

text \<open>The fields that a DualShock 4 and a DualSense report share.\<close>

definition ps_gamepad ::
    "u8 \<Rightarrow> u8 \<Rightarrow> u8 \<Rightarrow> u8 \<Rightarrow> u8 \<Rightarrow> u8 \<Rightarrow> u8 \<Rightarrow> u8 \<Rightarrow> (u8 \<times> u8) list \<Rightarrow> u8 \<Rightarrow> uni_gamepad \<Rightarrow> uni_gamepad" where
  "ps_gamepad x y rx ry brake throttle b0 b1 misc_2 b2 gp =
     gp\<lparr>gp_axis_x := stick_axis x, gp_axis_y := stick_axis y,
        gp_axis_rx := stick_axis rx, gp_axis_ry := stick_axis ry,
        gp_brake := pedal_value brake, gp_throttle := pedal_value throttle,
        gp_dpad := ps_hat b0,
        gp_buttons := or_masks b1 ps_buttons_1 (or_masks b0 ps_buttons_0 (gp_buttons gp)),
        gp_misc_buttons := or_masks b2 misc_2 (or_masks b1 ps_misc_1 (gp_misc_buttons gp))\<rparr>"

lemma ps_gamepad_keeps_ok:
  assumes "ps_gamepad_ok gp" and "\<forall>p \<in> set misc_2. \<forall>k. bit (snd p) k \<longrightarrow> k < 4"
  shows "ps_gamepad_ok (ps_gamepad x y rx ry brake throttle b0 b1 misc_2 b2 gp)"
proof -
  let ?g = "ps_gamepad x y rx ry brake throttle b0 b1 misc_2 b2 gp"
  have proj: "gp_buttons ?g = or_masks b1 ps_buttons_1 (or_masks b0 ps_buttons_0 (gp_buttons gp))"
    "gp_dpad ?g = ps_hat b0" "gp_misc_buttons ?g = or_masks b2 misc_2 (or_masks b1 ps_misc_1 (gp_misc_buttons gp))"
    by (simp_all add: ps_gamepad_def)
  have gp: "\<And>k. bit (gp_buttons gp) k \<Longrightarrow> k < 10" "\<And>k. bit (gp_misc_buttons gp) k \<Longrightarrow> k < 4"
    using assms(1) by (auto simp: ps_gamepad_ok_def gamepad_bits_ok_def)
  have masks: "\<forall>p \<in> set ps_buttons_0. \<forall>k. bit (snd p) k \<longrightarrow> k < 10"
    "\<forall>p \<in> set ps_buttons_1. \<forall>k. bit (snd p) k \<longrightarrow> k < 10" "\<forall>p \<in> set ps_misc_1. \<forall>k. bit (snd p) k \<longrightarrow> k < 4"
    by (simp_all add: ps_buttons_0_def ps_buttons_1_def ps_misc_1_def)
  have "bit (gp_buttons ?g) k \<Longrightarrow> k < 10" for k
    unfolding proj by (erule bit_or_masks [OF _ _ masks(2)], erule bit_or_masks [OF _ gp(1) masks(1)])
  moreover have "bit (gp_misc_buttons ?g) k \<Longrightarrow> k < 4" for k
    unfolding proj by (erule bit_or_masks [OF _ _ assms(2)], erule bit_or_masks [OF _ gp(2) masks(3)])
  moreover have "bit (gp_dpad ?g) k \<Longrightarrow> k < 4" for k
    unfolding proj ps_hat_def Let_def by (rule hat_to_dpad_bits)
  ultimately have "gamepad_bits_ok ?g" unfolding gamepad_bits_ok_def by blast
  then show ?thesis
    by (simp add: ps_gamepad_ok_def) (simp add: ps_gamepad_def stick_axis_bounds pedal_value_bounds)
qed

lemma init_gamepad_ps_ok: "ps_gamepad_ok (ctl_gamepad (init_gamepad_report ctl))"
  by (simp add: ps_gamepad_ok_def gamepad_bits_ok_def init_gamepad_report_def zero_controller_def
      zero_gamepad_def)

lemma ps_gamepad_ok_sensors:
  "ps_gamepad_ok (gp\<lparr>gp_gyro := g, gp_accel := a\<rparr>) \<longleftrightarrow> ps_gamepad_ok gp"
  by (simp add: ps_gamepad_ok_def gamepad_bits_ok_def)

text \<open>The battery nibble, scaled and stored in a byte.\<close>

definition ps_battery :: "u8 \<Rightarrow> u8" where
  "ps_battery status = word_of_int (uint (status AND 0xf) * 25 + 1)"

section \<open>The touchpad as a mouse\<close>

text \<open>
  The virtual device keeps the previous position in its own instance data. A touch point has
  four bytes: contact, the low byte of x, the high nibble of x with the low nibble of y, and
  the high byte of y.
\<close>

definition UNI_MOUSE_BUTTON_LEFT :: u16 where "UNI_MOUSE_BUTTON_LEFT = BIT 0"
definition UNI_MOUSE_BUTTON_RIGHT :: u16 where "UNI_MOUSE_BUTTON_RIGHT = BIT 1"

record touch_state =
  ts_x_prev :: int
  ts_y_prev :: int
  ts_prev_touch_active :: bool

definition zero_touch :: touch_state where
  "zero_touch = \<lparr>ts_x_prev = 0, ts_y_prev = 0, ts_prev_touch_active = False\<rparr>"

record touch_point =
  tp_contact :: u8
  tp_x :: int
  tp_y :: int

definition read_touch_point :: "bytes \<Rightarrow> nat \<Rightarrow> touch_point cres" where
  "read_touch_point bs i =
     bindR (read_byte bs i) (\<lambda>contact.
     bindR (read_byte bs (i + 1)) (\<lambda>x_lo.
     bindR (read_byte bs (i + 2)) (\<lambda>nibbles.
     mapR (\<lambda>y_hi. \<lparr>tp_contact = contact,
              tp_x = push_bit 8 (uint (nibbles AND 0xf)) + uint x_lo,
              tp_y = push_bit 4 (uint y_hi) + uint (drop_bit 4 nibbles)\<rparr>)
       (read_byte bs (i + 3)))))"

definition move_mouse ::
    "touch_point \<Rightarrow> u8 \<Rightarrow> touch_state \<times> uni_controller \<Rightarrow> touch_state \<times> uni_controller" where
  "move_mouse point buttons_2 child = (case child of (ts, ctl) \<Rightarrow>
     let ms = ctl_mouse ctl;
         ms1 = (if ts_prev_touch_active ts
                then ms\<lparr>ms_delta_x := tp_x point - ts_x_prev ts, ms_delta_y := tp_y point - ts_y_prev ts\<rparr>
                else ms\<lparr>ms_delta_x := 0, ms_delta_y := 0\<rparr>);
         ms2 = (if buttons_2 AND 0x02 \<noteq> 0
                then ms1\<lparr>ms_buttons := ms_buttons ms1
                           OR (if tp_x point < 1440 then UNI_MOUSE_BUTTON_LEFT else UNI_MOUSE_BUTTON_RIGHT)\<rparr>
                else ms1)
     in (\<lparr>ts_x_prev = tp_x point, ts_y_prev = tp_y point,
          ts_prev_touch_active = (tp_contact point AND BIT 7 = 0)\<rparr>,
         ctl\<lparr>ctl_mouse := ms2\<rparr>))"

definition touch_ok :: "touch_state \<Rightarrow> bool" where
  "touch_ok ts \<longleftrightarrow> ts_x_prev ts \<in> {0..4095} \<and> ts_y_prev ts \<in> {0..4095}"

definition mouse_ok :: "uni_controller \<Rightarrow> bool" where
  "mouse_ok ctl \<longleftrightarrow> ctl_klass ctl = UNI_CONTROLLER_CLASS_MOUSE
     \<and> ms_delta_x (ctl_mouse ctl) \<in> {-4095..4095} \<and> ms_delta_y (ctl_mouse ctl) \<in> {-4095..4095}"

lemma read_touch_point_total:
  assumes "i + 3 < length bs"
  shows "\<exists>p. read_touch_point bs i = Inr p"
  using assms by (simp add: read_touch_point_def read_byte_def)

lemma read_touch_point_bounds:
  assumes "read_touch_point bs i = Inr p"
  shows "tp_x p \<in> {0..4095}" "tp_y p \<in> {0..4095}"
proof -
  obtain x_lo nibbles y_hi :: u8 where
    p: "tp_x p = push_bit 8 (uint (nibbles AND 0xf)) + uint x_lo"
       "tp_y p = push_bit 4 (uint y_hi) + uint (drop_bit 4 nibbles)"
    using assms by (auto simp: read_touch_point_def bindR_Inr_iff mapR_Inr_iff)
  have "nibbles AND 0xf \<le> 0xf" by (rule word_and_le1)
  then have "uint (nibbles AND 0xf) \<le> 15" by (simp add: word_le_def)
  moreover have "uint (drop_bit 4 nibbles) \<le> 15"
  proof -
    have "uint (drop_bit 4 nibbles) = drop_bit 4 (uint nibbles)"
      using u8_bounds [of nibbles] by (simp add: unsigned_drop_bit_eq take_bit_int_eq_self)
    then show ?thesis using u8_bounds [of nibbles] by (simp add: drop_bit_eq_div)
  qed
  ultimately show "tp_x p \<in> {0..4095}" "tp_y p \<in> {0..4095}"
    using p u8_bounds [of x_lo] u8_bounds [of y_hi] by (simp_all add: push_bit_eq_mult)
qed

lemma move_mouse_ok:
  assumes "tp_x p \<in> {0..4095}" "tp_y p \<in> {0..4095}" and "touch_ok ts"
    and "ctl_klass ctl = UNI_CONTROLLER_CLASS_MOUSE" and "move_mouse p b (ts, ctl) = (ts', ctl')"
  shows "touch_ok ts' \<and> mouse_ok ctl'"
  using assms by (auto simp: move_mouse_def Let_def touch_ok_def mouse_ok_def)

section \<open>Signed output reports\<close>

text \<open>The last four bytes are \<^verbatim>\<open>~uni_crc32_le(0xffffffff, out, sizeof(*out) - 4)\<close>, little endian.\<close>

definition sign_report :: "bytes \<Rightarrow> bytes" where
  "sign_report body = body @ le32 (NOT (uni_crc32_le 0xffffffff body))"

lemma le_word_le32: "le_word (ucast w) (ucast (drop_bit 8 w)) (ucast (drop_bit 16 w)) (ucast (drop_bit 24 w)) = w"
proof (rule bit_word_eqI)
  fix n
  assume n: "n < LENGTH(32)"
  then consider "n < 8" | "8 \<le> n" "n < 16" | "16 \<le> n" "n < 24" | "24 \<le> n" "n < 32" by fastforce
  then show "bit (le_word (ucast w) (ucast (drop_bit 8 w)) (ucast (drop_bit 16 w)) (ucast (drop_bit 24 w))) n = bit w n"
    by cases (auto simp: le_word_def bit_simps)
qed

text \<open>The residue: a receiver that runs the checksum over a whole signed report always gets it.\<close>

lemma crc_of_signed_report: "uni_crc32_le 0xffffffff (sign_report body) = 0xdebb20e3"
proof -
  let ?c = "uni_crc32_le 0xffffffff body"
  have "uni_crc32_le 0xffffffff (sign_report body) = crc_rounds 32 (?c XOR NOT ?c)"
    by (simp only: sign_report_def le32_def uni_crc32_le_append uni_crc32_le_word le_word_le32)
  also have "?c XOR NOT ?c = - 1" by (rule bit_word_eqI) (simp add: bit_simps)
  also have "(- 1 :: u32) = 0xffffffff" by simp
  also have "crc_rounds 32 (0xffffffff :: u32) = 0xdebb20e3"
    by code_simp
  finally show ?thesis .
qed

section \<open>The device of a driver and its rumble\<close>

text \<open>
  Every driver begins its instance data with the two timers and the parameters of a delayed
  rumble. A driver sees the controller it fills, the virtual mouse (its touch state and
  controller) and what it sends: control and interrupt reports, and the mouse reports that
  it passes to \<^verbatim>\<open>uni_hid_device_process_controller\<close>.
\<close>

datatype ps_report = Send_ctrl bytes | Send_intr bytes

record ps_device =
  pd_state :: rumble_state
  pd_timer_duration :: "u16 option"
  pd_timer_delayed_start :: "u16 option"
  pd_weak_magnitude :: u16
  pd_strong_magnitude :: u16
  pd_duration_ms :: u16
  pd_controller :: uni_controller
  pd_mouse :: "(touch_state \<times> uni_controller) option"
  pd_sent :: "ps_report list"
  pd_mouse_reports :: "uni_controller list"

fun intr_reports :: "ps_report list \<Rightarrow> bytes list" where
  "intr_reports [] = []"
| "intr_reports (Send_intr r # rs) = r # intr_reports rs"
| "intr_reports (Send_ctrl r # rs) = intr_reports rs"

lemma intr_reports_append [simp]: "intr_reports (xs @ ys) = intr_reports xs @ intr_reports ys"
  by (induction xs rule: intr_reports.induct) simp_all

definition send_ctrl :: "bytes \<Rightarrow> 'a ps_device_scheme \<Rightarrow> 'a ps_device_scheme" where
  "send_ctrl report s = s\<lparr>pd_sent := pd_sent s @ [Send_ctrl report]\<rparr>"

definition send_intr :: "bytes \<Rightarrow> 'a ps_device_scheme \<Rightarrow> 'a ps_device_scheme" where
  "send_intr report s = s\<lparr>pd_sent := pd_sent s @ [Send_intr report]\<rparr>"

text \<open>\<^verbatim>\<open>init_report\<close>: both controllers are cleared, the virtual one as a mouse.\<close>

definition init_report_with_mouse :: "'a ps_device_scheme \<Rightarrow> 'a ps_device_scheme" where
  "init_report_with_mouse s =
     s\<lparr>pd_controller := init_gamepad_report (pd_controller s),
       pd_mouse := map_option (\<lambda>(ts, ctl). (ts, zero_controller\<lparr>ctl_klass := UNI_CONTROLLER_CLASS_MOUSE\<rparr>))
                     (pd_mouse s)\<rparr>"

text \<open>Mouse of a device whose controllers were just initialised.\<close>

definition fresh_mouse :: "(touch_state \<times> uni_controller) option \<Rightarrow> bool" where
  "fresh_mouse m \<longleftrightarrow> (case m of None \<Rightarrow> True
     | Some (ts, ctl) \<Rightarrow> touch_ok ts \<and> ctl_klass ctl = UNI_CONTROLLER_CLASS_MOUSE)"

definition mouse_state_ok :: "(touch_state \<times> uni_controller) option \<Rightarrow> bool" where
  "mouse_state_ok m \<longleftrightarrow> (case m of None \<Rightarrow> True | Some (ts, ctl) \<Rightarrow> touch_ok ts)"

lemma init_report_with_mouse_simps:
  "mouse_state_ok (pd_mouse s) \<Longrightarrow> fresh_mouse (pd_mouse (init_report_with_mouse s))"
  "ps_gamepad_ok (ctl_gamepad (pd_controller (init_report_with_mouse s)))"
  by (auto simp: init_report_with_mouse_def mouse_state_ok_def fresh_mouse_def init_gamepad_ps_ok
      split: option.splits)

definition remove_rumble_timer :: "'a ps_device_scheme \<Rightarrow> 'a ps_device_scheme" where
  "remove_rumble_timer s =
     (case pd_state s of
        STATE_RUMBLE_DELAYED \<Rightarrow> s\<lparr>pd_timer_delayed_start := None\<rparr>
      | STATE_RUMBLE_IN_PROGRESS \<Rightarrow> s\<lparr>pd_timer_duration := None\<rparr>
      | STATE_RUMBLE_DISABLED \<Rightarrow> s)"

definition delay_rumble ::
    "u16 \<Rightarrow> u16 \<Rightarrow> u8 \<Rightarrow> u8 \<Rightarrow> 'a ps_device_scheme \<Rightarrow> 'a ps_device_scheme cres" where
  "delay_rumble start_delay_ms duration_ms weak strong s =
     mapR (\<lambda>t. s\<lparr>pd_state := STATE_RUMBLE_DELAYED, pd_duration_ms := duration_ms,
                 pd_strong_magnitude := ucast strong, pd_weak_magnitude := ucast weak,
                 pd_timer_delayed_start := t\<rparr>)
       (add_timer start_delay_ms (pd_timer_delayed_start s))"

definition arm_rumble_off :: "u16 \<Rightarrow> 'a ps_device_scheme \<Rightarrow> 'a ps_device_scheme cres" where
  "arm_rumble_off duration_ms s =
     mapR (\<lambda>t. s\<lparr>pd_state := STATE_RUMBLE_IN_PROGRESS, pd_timer_duration := t\<rparr>)
       (add_timer duration_ms (pd_timer_duration s))"

text \<open>\<^verbatim>\<open>play_dual_rumble\<close> and the delayed start, over the driver's \<^verbatim>\<open>play_dual_rumble_now\<close>.\<close>

definition play_dual_rumble ::
    "(u16 \<Rightarrow> u8 \<Rightarrow> u8 \<Rightarrow> 'a ps_device_scheme \<Rightarrow> 'a ps_device_scheme cres)
      \<Rightarrow> u16 \<Rightarrow> u16 \<Rightarrow> u8 \<Rightarrow> u8 \<Rightarrow> 'a ps_device_scheme \<Rightarrow> 'a ps_device_scheme cres" where
  "play_dual_rumble play_now start_delay_ms duration_ms weak strong s =
     (let s1 = remove_rumble_timer s in
      if start_delay_ms = 0 then play_now duration_ms weak strong s1
      else delay_rumble start_delay_ms duration_ms weak strong s1)"

definition set_rumble_on ::
    "(u16 \<Rightarrow> u8 \<Rightarrow> u8 \<Rightarrow> 'a ps_device_scheme \<Rightarrow> 'a ps_device_scheme cres)
      \<Rightarrow> 'a ps_device_scheme \<Rightarrow> 'a ps_device_scheme cres" where
  "set_rumble_on play_now s =
     play_now (pd_duration_ms s) (ucast (pd_weak_magnitude s)) (ucast (pd_strong_magnitude s)) s"

text \<open>The run loop takes an expired timer off its list and calls the driver back.\<close>

definition fire_delayed_timer ::
    "('a ps_device_scheme \<Rightarrow> 'a ps_device_scheme cres) \<Rightarrow> 'a ps_device_scheme \<Rightarrow> 'a ps_device_scheme cres" where
  "fire_delayed_timer rumble_on s =
     (if pd_timer_delayed_start s = None then Inr s
      else rumble_on (s\<lparr>pd_timer_delayed_start := None\<rparr>))"

definition fire_duration_timer ::
    "('a ps_device_scheme \<Rightarrow> 'a ps_device_scheme cres) \<Rightarrow> 'a ps_device_scheme \<Rightarrow> 'a ps_device_scheme cres" where
  "fire_duration_timer rumble_off s =
     (if pd_timer_duration s = None then Inr s
      else rumble_off (s\<lparr>pd_timer_duration := None\<rparr>))"

lemmas ps_rumble_defs = play_dual_rumble_def set_rumble_on_def fire_delayed_timer_def
  fire_duration_timer_def remove_rumble_timer_def delay_rumble_def arm_rumble_off_def add_timer_def
  send_ctrl_def send_intr_def Let_def

definition rumble_timers_ok :: "'a ps_device_scheme \<Rightarrow> bool" where
  "rumble_timers_ok s \<longleftrightarrow>
     (pd_timer_delayed_start s \<noteq> None \<longrightarrow> pd_state s = STATE_RUMBLE_DELAYED)
     \<and> (pd_timer_duration s \<noteq> None \<longrightarrow> pd_state s = STATE_RUMBLE_IN_PROGRESS)"

text \<open>
  The contract of a driver's rumble: once the timer of the old request is gone, starting one
  never fails, and neither does stopping one that is in progress; both keep the timers and
  the rest of the driver's invariant in order. The lemmas then cover every way in.
\<close>

locale rumble_driver =
  fixes play_now :: "u16 \<Rightarrow> u8 \<Rightarrow> u8 \<Rightarrow> 'a ps_device_scheme \<Rightarrow> 'a ps_device_scheme cres"
    and rumble_off :: "'a ps_device_scheme \<Rightarrow> 'a ps_device_scheme cres"
    and inv :: "'a ps_device_scheme \<Rightarrow> bool"
  assumes play_now_safe:
      "\<lbrakk>inv s; pd_timer_delayed_start s = None; pd_timer_duration s = None\<rbrakk>
        \<Longrightarrow> \<exists>s'. play_now duration weak strong s = Inr s' \<and> inv s'"
    and rumble_off_safe:
      "\<lbrakk>inv s; pd_state s = STATE_RUMBLE_IN_PROGRESS; pd_timer_duration s = None\<rbrakk>
        \<Longrightarrow> \<exists>s'. rumble_off s = Inr s' \<and> inv s'"
    and inv_timers: "inv s \<Longrightarrow> rumble_timers_ok s"
    and inv_remove_timer: "inv s \<Longrightarrow> inv (remove_rumble_timer s)"
    and inv_expired:
      "inv s \<Longrightarrow> inv (s\<lparr>pd_timer_delayed_start := None\<rparr>) \<and> inv (s\<lparr>pd_timer_duration := None\<rparr>)"
    and inv_delay:
      "\<lbrakk>inv s; pd_timer_delayed_start s = None; pd_timer_duration s = None; delay_rumble d1 d2 weak strong s = Inr s'\<rbrakk>
        \<Longrightarrow> inv s'"
begin

lemma timer_removed:
  assumes "inv s"
  shows "pd_timer_delayed_start (remove_rumble_timer s) = None"
    and "pd_timer_duration (remove_rumble_timer s) = None"
  using inv_timers [OF assms]
  by (auto simp: rumble_timers_ok_def remove_rumble_timer_def split: rumble_state.splits)

lemma play_safe:
  assumes "inv s"
  shows "\<exists>s'. play_dual_rumble play_now delay duration weak strong s = Inr s' \<and> inv s'"
proof (cases "delay = 0")
  case True
  with play_now_safe [OF inv_remove_timer [OF assms] timer_removed [OF assms]]
  show ?thesis by (simp add: play_dual_rumble_def Let_def)
next
  case False
  let ?s = "remove_rumble_timer s"
  obtain s' where s': "delay_rumble delay duration weak strong ?s = Inr s'"
    by (simp add: delay_rumble_def add_timer_def timer_removed [OF assms])
  with inv_delay [OF inv_remove_timer [OF assms] timer_removed [OF assms] s'] False
  show ?thesis by (simp add: play_dual_rumble_def Let_def)
qed

lemma delayed_timer_safe:
  assumes "inv s"
  shows "\<exists>s'. fire_delayed_timer (set_rumble_on play_now) s = Inr s' \<and> inv s'"
proof (cases "pd_timer_delayed_start s = None")
  case True
  with assms show ?thesis by (simp add: fire_delayed_timer_def)
next
  case False
  then have "pd_timer_duration s = None"
    using inv_timers [OF assms] by (auto simp: rumble_timers_ok_def)
  with False play_now_safe [of "s\<lparr>pd_timer_delayed_start := None\<rparr>"] inv_expired [OF assms]
  show ?thesis by (auto simp: fire_delayed_timer_def set_rumble_on_def)
qed

lemma duration_timer_safe:
  assumes "inv s"
  shows "\<exists>s'. fire_duration_timer rumble_off s = Inr s' \<and> inv s'"
proof (cases "pd_timer_duration s = None")
  case True
  with assms show ?thesis by (simp add: fire_duration_timer_def)
next
  case False
  then have "pd_state s = STATE_RUMBLE_IN_PROGRESS"
    using inv_timers [OF assms] by (auto simp: rumble_timers_ok_def)
  with False rumble_off_safe [of "s\<lparr>pd_timer_duration := None\<rparr>"] inv_expired [OF assms]
  show ?thesis by (auto simp: fire_duration_timer_def)
qed

end

section \<open>Properties\<close>

text \<open>C21: mult_frac on the values the drivers pass to it, a 32-bit numerator and divisor and a
  16-bit sensor value, is the exact product divided by the divisor, truncated toward zero: its
  split into quotient and remainder neither overflows nor rounds differently. The only failure
  is a zero divisor.\<close>

theorem mult_frac_exact:
  fixes x d :: u32 and m :: u16
  shows "mult_frac (sint x) (sint m) (sint d)
    = (if d = 0 then Inl Division_by_zero else Inr ((sint x * sint m) sdiv sint d))"
proof (cases "d = 0")
  case True
  then show ?thesis by (simp add: mult_frac_def)
next
  case False
  moreover from this have "sint d \<noteq> 0" by (simp add: signed_eq_0_iff)
  moreover have "\<bar>sint x\<bar> \<le> 2 ^ 31" using sint_greater_eq [of x] sint_less [of x] by simp
  moreover have "\<bar>sint m\<bar> \<le> 2 ^ 15" using sint_greater_eq [of m] sint_less [of m] by simp
  ultimately show ?thesis by (simp add: mult_frac_eq)
qed

end
