(* ===== verification/Ds3.thy ===== *)
theory Ds3
  imports Playstation
begin

text \<open>
  The DualShock 3 driver, \<^verbatim>\<open>uni_hid_parser_ds3.c\<close>: the setup packet, the player LEDs, which
  have to wait for the first input report, the rumble with its timers, and the decoding of
  input reports. Clones get every output report on the interrupt channel too.
\<close>

datatype ds3_fsm = DS3_FSM_0 | DS3_FSM_REQUIRES_LED_UPDATE | DS3_FSM_LED_UPDATED

record ds3_device = ps_device +
  d3_state :: ds3_fsm
  d3_player_leds :: u8
  d3_clone_controller :: bool

definition zero_ds3 :: ds3_device where
  "zero_ds3 = \<lparr>pd_state = STATE_RUMBLE_DISABLED, pd_timer_duration = None,
     pd_timer_delayed_start = None, pd_weak_magnitude = 0, pd_strong_magnitude = 0, pd_duration_ms = 0,
     pd_controller = zero_controller, pd_mouse = None, pd_sent = [], pd_mouse_reports = [],
     d3_state = DS3_FSM_0, d3_player_leds = 0, d3_clone_controller = False\<rparr>"

section \<open>Output\<close>

text \<open>\<^verbatim>\<open>ds3_output_report_t\<close> with its constant bytes: 37 bytes.\<close>

definition ds3_output_report :: "u8 \<Rightarrow> u8 \<Rightarrow> u8 \<Rightarrow> u8 \<Rightarrow> u8 \<Rightarrow> bytes" where
  "ds3_output_report right_duration right_enabled left_duration left_force player_leds =
     [0x52, 0x01, 0, right_duration, right_enabled, left_duration, left_force, 0, 0, 0, 0, player_leds]
     @ concat (replicate 4 [0xff, 0x27, 0x10, 0x00, 0x32]) @ replicate 5 0"

definition ds3_send_output_report :: "bytes \<Rightarrow> ds3_device \<Rightarrow> ds3_device" where
  "ds3_send_output_report out s =
     (let s1 = send_ctrl out s in if d3_clone_controller s then send_intr out s1 else s1)"

definition ds3_update_led :: "u8 \<Rightarrow> ds3_device \<Rightarrow> ds3_device" where
  "ds3_update_led player_leds s =
     ds3_send_output_report (ds3_output_report 0 0 0 0 (push_bit 1 player_leds))
       (s\<lparr>d3_state := DS3_FSM_LED_UPDATED\<rparr>)"

definition uni_hid_parser_ds3_set_player_leds :: "u8 \<Rightarrow> ds3_device \<Rightarrow> ds3_device" where
  "uni_hid_parser_ds3_set_player_leds leds s =
     (let s1 = s\<lparr>d3_player_leds := leds\<rparr> in
      if d3_state s = DS3_FSM_0 \<or> d3_state s = DS3_FSM_REQUIRES_LED_UPDATE
      then s1\<lparr>d3_state := DS3_FSM_REQUIRES_LED_UPDATE\<rparr>
      else ds3_update_led leds s1)"

definition ds3_stop_rumble_now :: "ds3_device \<Rightarrow> ds3_device cres" where
  "ds3_stop_rumble_now s =
     (if pd_state s \<noteq> STATE_RUMBLE_IN_PROGRESS then Inl Assertion_failed
      else Inr (ds3_send_output_report (ds3_output_report 0 0 0 0 (push_bit 1 (d3_player_leds s)))
                  (s\<lparr>pd_state := STATE_RUMBLE_DISABLED\<rparr>)))"

definition ds3_play_dual_rumble_now :: "u16 \<Rightarrow> u8 \<Rightarrow> u8 \<Rightarrow> ds3_device \<Rightarrow> ds3_device cres" where
  "ds3_play_dual_rumble_now duration_ms weak strong s =
     (if duration_ms = 0 then
        (if pd_state s = STATE_RUMBLE_IN_PROGRESS then ds3_stop_rumble_now s else Inr s)
      else
        arm_rumble_off duration_ms
          (ds3_send_output_report
             (ds3_output_report 0xff (if weak \<noteq> 0 then 1 else 0) 0xff strong
                (push_bit 1 (d3_player_leds s))) s))"

definition uni_hid_parser_ds3_play_dual_rumble ::
    "u16 \<Rightarrow> u16 \<Rightarrow> u8 \<Rightarrow> u8 \<Rightarrow> ds3_device \<Rightarrow> ds3_device cres" where
  "uni_hid_parser_ds3_play_dual_rumble = play_dual_rumble ds3_play_dual_rumble_now"

definition on_ds3_set_rumble_on :: "ds3_device \<Rightarrow> ds3_device cres" where
  "on_ds3_set_rumble_on = set_rumble_on ds3_play_dual_rumble_now"

definition on_ds3_set_rumble_off :: "ds3_device \<Rightarrow> ds3_device cres" where
  "on_ds3_set_rumble_off = ds3_stop_rumble_now"

text \<open>\<^verbatim>\<open>setup\<close>; the device is then completed by \<^verbatim>\<open>uni_hid_device_set_ready_complete\<close>.\<close>

definition uni_hid_parser_ds3_setup :: "ds3_device \<Rightarrow> ds3_device" where
  "uni_hid_parser_ds3_setup s = send_ctrl [0x53, 0xf4, 0x42, 0x03, 0x00, 0x00] s"

section \<open>Input\<close>

definition uni_hid_parser_ds3_init_report :: "ds3_device \<Rightarrow> ds3_device" where
  "uni_hid_parser_ds3_init_report s = s\<lparr>pd_controller := init_gamepad_report (pd_controller s)\<rparr>"

definition ds3_misc_0 :: "(u8 \<times> u8) list" where
  "ds3_misc_0 = [(0x01, MISC_BUTTON_SELECT), (0x08, MISC_BUTTON_START)]"

definition ds3_buttons_0 :: "(u8 \<times> u16) list" where
  "ds3_buttons_0 = [(0x02, BUTTON_THUMB_L), (0x04, BUTTON_THUMB_R)]"

definition ds3_dpad_0 :: "(u8 \<times> u8) list" where
  "ds3_dpad_0 = [(0x10, DPAD_UP), (0x20, DPAD_RIGHT), (0x40, DPAD_DOWN), (0x80, DPAD_LEFT)]"

definition ds3_buttons_1 :: "(u8 \<times> u16) list" where
  "ds3_buttons_1 = [(0x01, BUTTON_TRIGGER_L), (0x02, BUTTON_TRIGGER_R), (0x04, BUTTON_SHOULDER_L),
     (0x08, BUTTON_SHOULDER_R), (0x10, BUTTON_Y), (0x20, BUTTON_B), (0x40, BUTTON_A), (0x80, BUTTON_X)]"

definition ds3_battery :: "u8 \<Rightarrow> u8 \<Rightarrow> u8" where
  "ds3_battery status battery =
     (if status = 1 then 0
      else if status = 2 then 64
      else if status = 3 then 128
      else if status = 4 then 192
      else if status = 5 \<or> status = 0xee then 255
      else battery)"

definition ds3_gamepad :: "u8 \<Rightarrow> u8 \<Rightarrow> u8 \<Rightarrow> u8 \<Rightarrow> u8 \<Rightarrow> u8 \<Rightarrow> u8 \<Rightarrow> u8 \<Rightarrow> u8 \<Rightarrow> uni_gamepad \<Rightarrow> uni_gamepad" where
  "ds3_gamepad x y rx ry brake throttle b0 b1 b2 gp =
     gp\<lparr>gp_axis_x := stick_axis x, gp_axis_y := stick_axis y,
        gp_axis_rx := stick_axis rx, gp_axis_ry := stick_axis ry,
        gp_brake := pedal_value brake, gp_throttle := pedal_value throttle,
        gp_buttons := or_masks b1 ds3_buttons_1 (or_masks b0 ds3_buttons_0 (gp_buttons gp)),
        gp_dpad := or_masks b0 ds3_dpad_0 (gp_dpad gp),
        gp_misc_buttons := or_masks b2 [(0x01, MISC_BUTTON_SYSTEM)]
                             (or_masks b0 ds3_misc_0 (gp_misc_buttons gp))\<rparr>"

definition ds3_fill :: "bytes \<Rightarrow> uni_controller \<Rightarrow> uni_controller cres" where
  "ds3_fill report ctl =
     bindR (read_byte report 6) (\<lambda>x. bindR (read_byte report 7) (\<lambda>y.
     bindR (read_byte report 8) (\<lambda>rx. bindR (read_byte report 9) (\<lambda>ry.
     bindR (read_byte report 18) (\<lambda>brake. bindR (read_byte report 19) (\<lambda>throttle.
     bindR (read_byte report 30) (\<lambda>status.
     bindR (read_byte report 2) (\<lambda>b0. bindR (read_byte report 3) (\<lambda>b1. bindR (read_byte report 4) (\<lambda>b2.
     Inr (ctl\<lparr>ctl_battery := ds3_battery status (ctl_battery ctl),
              ctl_gamepad := ds3_gamepad x y rx ry brake throttle b0 b1 b2 (ctl_gamepad ctl)\<rparr>)))))))))))"

definition uni_hid_parser_ds3_parse_input_report :: "bytes \<Rightarrow> nat \<Rightarrow> ds3_device \<Rightarrow> ds3_device cres" where
  "uni_hid_parser_ds3_parse_input_report report len s =
     (let s1 = (if d3_state s = DS3_FSM_REQUIRES_LED_UPDATE then ds3_update_led (d3_player_leds s) s else s) in
      if len < 30 then Inr s1
      else
        bindR (read_byte report 0) (\<lambda>report_id.
        if report_id \<noteq> 0x01 then Inr s1
        else mapR (\<lambda>ctl. s1\<lparr>pd_controller := ctl\<rparr>) (ds3_fill report (pd_controller s1))))"

definition ds3_report_parser :: "ds3_device report_parser" where
  "ds3_report_parser = \<lparr>rp_init_report = Some uni_hid_parser_ds3_init_report,
     rp_parse_input_report = Some uni_hid_parser_ds3_parse_input_report, rp_parse_usage = None\<rparr>"

definition ds3_input :: "bytes \<Rightarrow> ds3_device \<Rightarrow> ds3_device cres" where
  "ds3_input report s =
     uni_hid_parser_ds3_parse_input_report report (length report) (uni_hid_parser_ds3_init_report s)"

lemma ds3_input_of_report_loop:
  "uni_hid_parse_input_report ds3_report_parser descriptor report (length report) s
    = Some (ds3_input report s)"
  by (simp add: uni_hid_parse_input_report_def ds3_report_parser_def ds3_input_def split: sum.splits)

section \<open>The driver as a machine\<close>

datatype ds3_event =
    Ds3_setup
  | Ds3_set_player_leds u8
  | Ds3_play u16 u16 u8 u8
  | Ds3_delayed_timer
  | Ds3_duration_timer
  | Ds3_report bytes

definition ds3_step :: "ds3_event \<Rightarrow> ds3_device \<Rightarrow> ds3_device cres" where
  "ds3_step ev s = (case ev of
     Ds3_setup \<Rightarrow> Inr (uni_hid_parser_ds3_setup s)
   | Ds3_set_player_leds leds \<Rightarrow> Inr (uni_hid_parser_ds3_set_player_leds leds s)
   | Ds3_play delay duration weak strong \<Rightarrow> uni_hid_parser_ds3_play_dual_rumble delay duration weak strong s
   | Ds3_delayed_timer \<Rightarrow> fire_delayed_timer on_ds3_set_rumble_on s
   | Ds3_duration_timer \<Rightarrow> fire_duration_timer on_ds3_set_rumble_off s
   | Ds3_report report \<Rightarrow> ds3_input report s)"

definition ds3_ok :: "ds3_device \<Rightarrow> bool" where
  "ds3_ok s \<longleftrightarrow> rumble_timers_ok s \<and> ps_gamepad_ok (ctl_gamepad (pd_controller s))"

lemmas ds3_out_defs = ds3_send_output_report_def ds3_update_led_def ds3_stop_rumble_now_def
  ds3_play_dual_rumble_now_def

interpretation ds3: rumble_driver ds3_play_dual_rumble_now on_ds3_set_rumble_off ds3_ok
proof
  fix s s' duration weak strong d1 d2
  show "\<exists>s'. ds3_play_dual_rumble_now duration weak strong s = Inr s' \<and> ds3_ok s'"
    if "ds3_ok s" "pd_timer_delayed_start s = None" "pd_timer_duration s = None"
    using that by (auto simp: ds3_ok_def ds3_out_defs ps_rumble_defs rumble_timers_ok_def)
  show "\<exists>s'. on_ds3_set_rumble_off s = Inr s' \<and> ds3_ok s'"
    if "ds3_ok s" "pd_state s = STATE_RUMBLE_IN_PROGRESS" "pd_timer_duration s = None"
    using that by (auto simp: on_ds3_set_rumble_off_def ds3_ok_def ds3_out_defs ps_rumble_defs rumble_timers_ok_def)
  show "rumble_timers_ok s" if "ds3_ok s" using that by (simp add: ds3_ok_def)
  show "ds3_ok (remove_rumble_timer s)" if "ds3_ok s"
    using that by (auto simp: ds3_ok_def remove_rumble_timer_def rumble_timers_ok_def split: rumble_state.splits)
  show "ds3_ok (s\<lparr>pd_timer_delayed_start := None\<rparr>) \<and> ds3_ok (s\<lparr>pd_timer_duration := None\<rparr>)" if "ds3_ok s"
    using that by (simp add: ds3_ok_def rumble_timers_ok_def)
  show "ds3_ok s'" if "ds3_ok s" "pd_timer_delayed_start s = None" "pd_timer_duration s = None"
    "delay_rumble d1 d2 weak strong s = Inr s'"
    using that by (auto simp: ds3_ok_def delay_rumble_def add_timer_def rumble_timers_ok_def)
qed

section \<open>Input reports\<close>

lemma ds3_mask_bits:
  "\<forall>p \<in> set ds3_buttons_0. \<forall>k. bit (snd p) k \<longrightarrow> k < 10"
  "\<forall>p \<in> set ds3_buttons_1. \<forall>k. bit (snd p) k \<longrightarrow> k < 10"
  "\<forall>p \<in> set ds3_dpad_0. \<forall>k. bit (snd p) k \<longrightarrow> k < 4"
  "\<forall>p \<in> set ds3_misc_0. \<forall>k. bit (snd p) k \<longrightarrow> k < 4"
  by (simp_all add: ds3_buttons_0_def ds3_buttons_1_def ds3_dpad_0_def ds3_misc_0_def)

lemma ds3_masks_ok:
  assumes "gamepad_bits_ok gp"
  shows "bit (or_masks b1 ds3_buttons_1 (or_masks b0 ds3_buttons_0 (gp_buttons gp))) k \<Longrightarrow> k < 10"
    and "bit (or_masks b0 ds3_dpad_0 (gp_dpad gp)) k \<Longrightarrow> k < 4"
    and "bit (or_masks b2 [(0x01, MISC_BUTTON_SYSTEM)] (or_masks b0 ds3_misc_0 (gp_misc_buttons gp))) k
      \<Longrightarrow> k < 4"
proof -
  have gp: "\<And>k. bit (gp_buttons gp) k \<Longrightarrow> k < 10" "\<And>k. bit (gp_dpad gp) k \<Longrightarrow> k < 4"
    "\<And>k. bit (gp_misc_buttons gp) k \<Longrightarrow> k < 4"
    using assms by (auto simp: gamepad_bits_ok_def)
  show "bit (or_masks b1 ds3_buttons_1 (or_masks b0 ds3_buttons_0 (gp_buttons gp))) k \<Longrightarrow> k < 10"
    by (erule bit_or_masks [OF _ _ ds3_mask_bits(2)], erule bit_or_masks [OF _ gp(1) ds3_mask_bits(1)])
  show "bit (or_masks b0 ds3_dpad_0 (gp_dpad gp)) k \<Longrightarrow> k < 4"
    by (erule bit_or_masks [OF _ gp(2) ds3_mask_bits(3)])
  show "bit (or_masks b2 [(0x01, MISC_BUTTON_SYSTEM)] (or_masks b0 ds3_misc_0 (gp_misc_buttons gp))) k
      \<Longrightarrow> k < 4"
    by (erule bit_or_masks, erule bit_or_masks [OF _ gp(3) ds3_mask_bits(4)]) simp_all
qed

lemma ds3_gamepad_ok:
  assumes "ps_gamepad_ok gp"
  shows "ps_gamepad_ok (ds3_gamepad x y rx ry brake throttle b0 b1 b2 gp)"
proof -
  let ?g = "ds3_gamepad x y rx ry brake throttle b0 b1 b2 gp"
  have bits: "gamepad_bits_ok gp" using assms by (simp add: ps_gamepad_ok_def)
  have masks: "gp_buttons ?g = or_masks b1 ds3_buttons_1 (or_masks b0 ds3_buttons_0 (gp_buttons gp))"
    "gp_dpad ?g = or_masks b0 ds3_dpad_0 (gp_dpad gp)"
    "gp_misc_buttons ?g = or_masks b2 [(0x01, MISC_BUTTON_SYSTEM)] (or_masks b0 ds3_misc_0 (gp_misc_buttons gp))"
    by (simp_all add: ds3_gamepad_def)
  have "gamepad_bits_ok ?g"
    unfolding gamepad_bits_ok_def masks using ds3_masks_ok [OF bits] by blast
  then show ?thesis
    by (simp add: ps_gamepad_ok_def) (simp add: ds3_gamepad_def stick_axis_bounds pedal_value_bounds)
qed

lemma ds3_fill_ok:
  assumes "ds3_fill report ctl = Inr ctl'" and "ps_gamepad_ok (ctl_gamepad ctl)"
  shows "ps_gamepad_ok (ctl_gamepad ctl')"
  using assms by (auto simp: ds3_fill_def bindR_Inr_iff ds3_gamepad_ok)

lemma ds3_fill_result:
  "ds3_fill report ctl = Inl e \<longleftrightarrow> e = Out_of_bounds \<and> length report \<le> 30"
  by (auto simp: ds3_fill_def read_byte_def)

text \<open>A report of exactly 30 bytes is read one byte past its end: the battery is byte 30.\<close>

definition ds3_short_report :: "bytes \<Rightarrow> bool" where
  "ds3_short_report r \<longleftrightarrow> length r = 30 \<and> r ! 0 = 0x01"

lemma ds3_led_update_keeps:
  "pd_controller (ds3_update_led leds s) = pd_controller s"
  "rumble_timers_ok (ds3_update_led leds s) \<longleftrightarrow> rumble_timers_ok s"
  by (simp_all add: ds3_out_defs send_ctrl_def send_intr_def Let_def rumble_timers_ok_def)

lemma ds3_input_result:
  assumes "ds3_ok s"
  shows "case ds3_input r s of Inl e \<Rightarrow> e = Out_of_bounds \<and> ds3_short_report r | Inr s' \<Rightarrow> ds3_ok s'"
proof -
  let ?s0 = "uni_hid_parser_ds3_init_report s"
  let ?s1 = "if d3_state ?s0 = DS3_FSM_REQUIRES_LED_UPDATE then ds3_update_led (d3_player_leds ?s0) ?s0 else ?s0"
  have ctl: "pd_controller ?s1 = init_gamepad_report (pd_controller s)"
    by (simp add: ds3_led_update_keeps uni_hid_parser_ds3_init_report_def)
  have timers: "rumble_timers_ok ?s1"
    using assms by (simp add: ds3_led_update_keeps uni_hid_parser_ds3_init_report_def ds3_ok_def)
      (simp add: rumble_timers_ok_def)
  have s1: "ds3_ok ?s1" using ctl timers init_gamepad_ps_ok by (simp only: ds3_ok_def)
  have step: "ds3_input r s = (if length r < 30 then Inr ?s1 else bindR (read_byte r 0) (\<lambda>report_id.
      if report_id \<noteq> 0x01 then Inr ?s1
      else mapR (\<lambda>ctl. ?s1\<lparr>pd_controller := ctl\<rparr>) (ds3_fill r (pd_controller ?s1))))"
    by (simp only: ds3_input_def uni_hid_parser_ds3_parse_input_report_def Let_def)
  show ?thesis
  proof (cases "length r < 30 \<or> r ! 0 \<noteq> 0x01")
    case True
    then have "ds3_input r s = Inr ?s1" unfolding step by (auto simp: read_byte_def)
    with s1 show ?thesis by simp
  next
    case False
    then have r: "ds3_input r s = mapR (\<lambda>ctl. ?s1\<lparr>pd_controller := ctl\<rparr>) (ds3_fill r (pd_controller ?s1))"
      unfolding step by (auto simp: read_byte_def)
    show ?thesis
    proof (cases "ds3_fill r (pd_controller ?s1)")
      case (Inl e)
      with r False show ?thesis using ds3_fill_result by (auto simp: ds3_short_report_def)
    next
      case (Inr ctl')
      from ds3_fill_ok [OF Inr] ctl init_gamepad_ps_ok have "ps_gamepad_ok (ctl_gamepad ctl')" by metis
      moreover have "ds3_input r s = Inr (?s1\<lparr>pd_controller := ctl'\<rparr>)" using r Inr by (simp only: mapR_simps)
      ultimately show ?thesis using timers by (simp only: sum.case ds3_ok_def) (simp add: rumble_timers_ok_def)
    qed
  qed
qed

lemma ds3_step_result:
  assumes "ds3_ok s"
  shows "case ds3_step ev s of
      Inl e \<Rightarrow> e = Out_of_bounds \<and> (\<exists>r. ev = Ds3_report r \<and> ds3_short_report r) | Inr s' \<Rightarrow> ds3_ok s'"
proof (cases ev)
  case Ds3_setup
  then show ?thesis using assms
    by (simp add: ds3_step_def uni_hid_parser_ds3_setup_def send_ctrl_def ds3_ok_def rumble_timers_ok_def)
next
  case (Ds3_set_player_leds leds)
  then show ?thesis using assms
    by (simp add: ds3_step_def uni_hid_parser_ds3_set_player_leds_def ds3_ok_def ds3_led_update_keeps Let_def)
      (simp add: rumble_timers_ok_def)
next
  case (Ds3_play delay duration weak strong)
  then show ?thesis using ds3.play_safe [OF assms, of delay duration weak strong]
    by (auto simp: ds3_step_def uni_hid_parser_ds3_play_dual_rumble_def)
next
  case Ds3_delayed_timer
  then show ?thesis using ds3.delayed_timer_safe [OF assms]
    by (auto simp: ds3_step_def on_ds3_set_rumble_on_def)
next
  case Ds3_duration_timer
  then show ?thesis using ds3.duration_timer_safe [OF assms] by (auto simp: ds3_step_def)
next
  case (Ds3_report r)
  then show ?thesis using ds3_input_result [OF assms, of r] by (simp add: ds3_step_def split: sum.splits)
qed

lemma zero_ds3_ok: "ds3_ok zero_ds3"
  by (simp add: ds3_ok_def zero_ds3_def rumble_timers_ok_def ps_gamepad_ok_def gamepad_bits_ok_def
      zero_controller_def zero_gamepad_def)

interpretation ds3_driver: fallible_machine ds3_step ds3_ok
    "\<lambda>s ev e. e = Out_of_bounds \<and> (\<exists>r. ev = Ds3_report r \<and> ds3_short_report r)"
  by unfold_locales (rule ds3_step_result)

text \<open>
  The LEDs asked for before the first input report are sent with it, the last request winning.
\<close>

lemma ds3_leds_wait_for_report:
  assumes "d3_state s \<noteq> DS3_FSM_LED_UPDATED" and "\<not> d3_clone_controller s" and "length r < 30"
  shows "mapR pd_sent (run_steps ds3_step [Ds3_set_player_leds a, Ds3_set_player_leds b, Ds3_report r] s)
    = Inr (pd_sent s @ [Send_ctrl (ds3_output_report 0 0 0 0 (push_bit 1 b))])"
  using assms by (cases "d3_state s")
    (simp_all add: ds3_step_def uni_hid_parser_ds3_set_player_leds_def ds3_input_def Let_def
      uni_hid_parser_ds3_parse_input_report_def uni_hid_parser_ds3_init_report_def ds3_update_led_def
      ds3_send_output_report_def send_ctrl_def)

section \<open>Properties\<close>

text \<open>C23: Whatever a DualShock 3 sends and whatever is asked of its driver, in any order, the driver
  fails no assertion and leaves its timers and the controller well formed. The only failure is
  the read one byte past a report of exactly 30 bytes, which the length check lets in.\<close>

theorem ds3_fails_only_on_short_report:
  "(case run_steps ds3_step evs zero_ds3 of
      Inl e \<Rightarrow> e = Out_of_bounds \<and> (\<exists>r. Ds3_report r \<in> set evs \<and> length r = 30 \<and> r ! 0 = 0x01)
    | Inr s \<Rightarrow> rumble_timers_ok s \<and> ps_gamepad_ok (ctl_gamepad (pd_controller s)))
   \<and> run_steps ds3_step [Ds3_report (0x01 # replicate 29 b)] zero_ds3 = Inl Out_of_bounds"
proof
  show "case run_steps ds3_step evs zero_ds3 of
      Inl e \<Rightarrow> e = Out_of_bounds \<and> (\<exists>r. Ds3_report r \<in> set evs \<and> length r = 30 \<and> r ! 0 = 0x01)
    | Inr s \<Rightarrow> rumble_timers_ok s \<and> ps_gamepad_ok (ctl_gamepad (pd_controller s))"
    using ds3_driver.run_result [OF zero_ds3_ok, of evs]
    by (auto simp: ds3_ok_def ds3_short_report_def split: sum.splits)
  show "run_steps ds3_step [Ds3_report (0x01 # replicate 29 b)] zero_ds3 = Inl Out_of_bounds"
    by (simp add: ds3_step_def ds3_input_def uni_hid_parser_ds3_parse_input_report_def Let_def
        read_byte_def ds3_fill_result [THEN iffD2])
qed

end
