(* ===== verification/Ds4.thy ===== *)
theory Ds4
  imports Playstation
begin

text \<open>
  The DualShock 4 driver, \<^verbatim>\<open>uni_hid_parser_ds4.c\<close>: setup, feature reports (calibration and
  firmware version), the two input reports, the lightbar and the rumble. Each output report
  sets both the LED and the motors, so the driver caches what it sent last.
\<close>

record ds4_device = ps_device +
  d4_fw_version :: u16
  d4_hw_version :: u16
  d4_gyro_calib :: calibration_xyz
  d4_accel_calib :: calibration_xyz
  d4_prev_color :: "u8 \<times> u8 \<times> u8"
  d4_prev_rumble_weak :: u8
  d4_prev_rumble_strong :: u8

section \<open>Output\<close>

definition DS4_FF_FLAG_BLINK_COLOR_RUMBLE :: u8 where
  "DS4_FF_FLAG_BLINK_COLOR_RUMBLE = BIT 0 OR BIT 1 OR BIT 2"

text \<open>\<^verbatim>\<open>ds4_output_report_t\<close> without its checksum: 75 bytes.\<close>

definition ds4_output_report :: "u8 \<Rightarrow> u8 \<Rightarrow> u8 \<times> u8 \<times> u8 \<Rightarrow> bytes" where
  "ds4_output_report motor_right motor_left color = (case color of (red, green, blue) \<Rightarrow>
     [0xa2, 0x11, 0xc4, 0, DS4_FF_FLAG_BLINK_COLOR_RUMBLE, 0, 0, motor_right, motor_left, red, green, blue, 0, 0]
     @ replicate 61 0)"

definition ds4_send_output_report :: "bytes \<Rightarrow> ds4_device \<Rightarrow> ds4_device" where
  "ds4_send_output_report out s = send_intr (sign_report out) s"

definition ds4_send_enable_lightbar_report :: "ds4_device \<Rightarrow> ds4_device" where
  "ds4_send_enable_lightbar_report s =
     ds4_send_output_report (ds4_output_report 0 0 (0, 0, 0x40))
       (s\<lparr>d4_prev_color := (0, 0, 0x40), d4_prev_rumble_weak := 0, d4_prev_rumble_strong := 0\<rparr>)"

definition ds4_request_calibration_report :: "ds4_device \<Rightarrow> ds4_device" where
  "ds4_request_calibration_report = send_ctrl [0x43, 0x02]"

definition ds4_request_firmware_version_report :: "ds4_device \<Rightarrow> ds4_device" where
  "ds4_request_firmware_version_report = send_ctrl [0x43, 0xa3]"

definition uni_hid_parser_ds4_set_lightbar_color :: "u8 \<Rightarrow> u8 \<Rightarrow> u8 \<Rightarrow> ds4_device \<Rightarrow> ds4_device" where
  "uni_hid_parser_ds4_set_lightbar_color r g b s =
     ds4_send_output_report (ds4_output_report (d4_prev_rumble_weak s) (d4_prev_rumble_strong s) (r, g, b))
       (s\<lparr>d4_prev_color := (r, g, b)\<rparr>)"

definition ds4_stop_rumble_now :: "ds4_device \<Rightarrow> ds4_device cres" where
  "ds4_stop_rumble_now s =
     (if pd_state s \<noteq> STATE_RUMBLE_IN_PROGRESS then Inl Assertion_failed
      else Inr (ds4_send_output_report (ds4_output_report 0 0 (d4_prev_color s))
                  (s\<lparr>pd_state := STATE_RUMBLE_DISABLED, d4_prev_rumble_weak := 0,
                     d4_prev_rumble_strong := 0\<rparr>)))"

definition ds4_play_dual_rumble_now :: "u16 \<Rightarrow> u8 \<Rightarrow> u8 \<Rightarrow> ds4_device \<Rightarrow> ds4_device cres" where
  "ds4_play_dual_rumble_now duration_ms weak strong s =
     (if duration_ms = 0 then
        (if pd_state s \<noteq> STATE_RUMBLE_DISABLED then ds4_stop_rumble_now s else Inr s)
      else
        arm_rumble_off duration_ms
          (ds4_send_output_report (ds4_output_report weak strong (d4_prev_color s))
             (s\<lparr>d4_prev_rumble_weak := weak, d4_prev_rumble_strong := strong\<rparr>)))"

definition uni_hid_parser_ds4_play_dual_rumble ::
    "u16 \<Rightarrow> u16 \<Rightarrow> u8 \<Rightarrow> u8 \<Rightarrow> ds4_device \<Rightarrow> ds4_device cres" where
  "uni_hid_parser_ds4_play_dual_rumble = play_dual_rumble ds4_play_dual_rumble_now"

definition on_ds4_set_rumble_on :: "ds4_device \<Rightarrow> ds4_device cres" where
  "on_ds4_set_rumble_on = set_rumble_on ds4_play_dual_rumble_now"

definition on_ds4_set_rumble_off :: "ds4_device \<Rightarrow> ds4_device cres" where
  "on_ds4_set_rumble_off = ds4_stop_rumble_now"

section \<open>Setup and feature reports\<close>

text \<open>
  \<^verbatim>\<open>setup\<close> clears the instance, which is zero when the device is created, and sends the two
  reports; the ready callback and the virtual mouse that follow are
  \<open>complete_with_virtual_mouse\<close> of the device table.
\<close>

definition uni_hid_parser_ds4_setup :: "ds4_device \<Rightarrow> ds4_device" where
  "uni_hid_parser_ds4_setup s =
     (let gyro = (default_gyro_calibration, default_gyro_calibration, default_gyro_calibration);
          accel = (default_accel_calibration, default_accel_calibration, default_accel_calibration)
      in ds4_request_calibration_report (ds4_send_enable_lightbar_report
           (s\<lparr>pd_state := STATE_RUMBLE_DISABLED, pd_timer_duration := None, pd_timer_delayed_start := None,
              pd_weak_magnitude := 0, pd_strong_magnitude := 0, pd_duration_ms := 0,
              d4_fw_version := 0, d4_hw_version := 0, d4_gyro_calib := gyro, d4_accel_calib := accel,
              d4_prev_color := (0, 0, 0), d4_prev_rumble_weak := 0, d4_prev_rumble_strong := 0\<rparr>)))"

definition DS4_FEATURE_REPORT_CALIBRATION :: u8 where "DS4_FEATURE_REPORT_CALIBRATION = 0x02"
definition DS4_FEATURE_REPORT_FIRMWARE_VERSION :: u8 where "DS4_FEATURE_REPORT_FIRMWARE_VERSION = 0xa3"

text \<open>
  The 17 fields in their order in the report. The pitch axis adds the bias where the others
  subtract it, as the source does. A wrong length is only logged.
\<close>

definition ds4_calibration :: "int list \<Rightarrow> calibration_xyz \<times> calibration_xyz" where
  "ds4_calibration v =
     (let pitch_bias = v ! 0; yaw_bias = v ! 1; roll_bias = v ! 2;
          speed_2x = v ! 9 + v ! 10
      in ((gyro_calibration speed_2x (\<bar>v ! 3 - pitch_bias\<bar> + \<bar>v ! 6 + pitch_bias\<bar>),
           gyro_calibration speed_2x (\<bar>v ! 4 - yaw_bias\<bar> + \<bar>v ! 7 - yaw_bias\<bar>),
           gyro_calibration speed_2x (\<bar>v ! 5 - roll_bias\<bar> + \<bar>v ! 8 - roll_bias\<bar>)),
          (accel_calibration (v ! 11) (v ! 12), accel_calibration (v ! 13) (v ! 14),
           accel_calibration (v ! 15) (v ! 16))))"

text \<open>
  \<^verbatim>\<open>%s\<close> on a part of the report: it is read up to the next zero byte, wherever that is. The two
  strings of the firmware report are logged this way, and nothing terminates them.
\<close>

definition read_string :: "bytes \<Rightarrow> nat \<Rightarrow> bytes cres" where
  "read_string bs i =
     (if 0 \<in> set (drop i bs) then Inr (takeWhile (\<lambda>b. b \<noteq> 0) (drop i bs)) else Inl Out_of_bounds)"

definition uni_hid_parser_ds4_parse_feature_report :: "bytes \<Rightarrow> ds4_device \<Rightarrow> ds4_device cres" where
  "uni_hid_parser_ds4_parse_feature_report report s =
     bindR (read_byte report 0) (\<lambda>report_id.
       if report_id = DS4_FEATURE_REPORT_CALIBRATION then
         mapR (\<lambda>v. ds4_request_firmware_version_report
                  (s\<lparr>d4_gyro_calib := fst (ds4_calibration v), d4_accel_calib := snd (ds4_calibration v)\<rparr>))
           (read_i16s 17 report 1)
       else if report_id = DS4_FEATURE_REPORT_FIRMWARE_VERSION then
         bindR (read_u16 report 35) (\<lambda>hw. bindR (read_u16 report 41) (\<lambda>fw.
         bindR (read_string report 1) (\<lambda>date. mapR (\<lambda>time. s\<lparr>d4_hw_version := hw, d4_fw_version := fw\<rparr>)
           (read_string report 17))))
       else Inr s)"

section \<open>Input\<close>

definition uni_hid_parser_ds4_init_report :: "ds4_device \<Rightarrow> ds4_device" where
  "uni_hid_parser_ds4_init_report = init_report_with_mouse"

definition ds4_misc_2 :: "(u8 \<times> u8) list" where
  "ds4_misc_2 = [(0x01, MISC_BUTTON_SYSTEM)]"

text \<open>The part common to both reports; the struct begins at byte \<open>i\<close>.\<close>

definition ds4_fill :: "bytes \<Rightarrow> nat \<Rightarrow> uni_controller \<Rightarrow> uni_controller cres" where
  "ds4_fill report i ctl =
     bindR (read_byte report i) (\<lambda>x. bindR (read_byte report (i + 1)) (\<lambda>y.
     bindR (read_byte report (i + 2)) (\<lambda>rx. bindR (read_byte report (i + 3)) (\<lambda>ry.
     bindR (read_byte report (i + 4)) (\<lambda>b0. bindR (read_byte report (i + 5)) (\<lambda>b1.
     bindR (read_byte report (i + 6)) (\<lambda>b2.
     bindR (read_byte report (i + 7)) (\<lambda>brake. bindR (read_byte report (i + 8)) (\<lambda>throttle.
     Inr (ctl\<lparr>ctl_gamepad := ps_gamepad x y rx ry brake throttle b0 b1 ds4_misc_2 b2 (ctl_gamepad ctl)\<rparr>))))))))))"

definition ds4_parse_input_report_01 :: "bytes \<Rightarrow> ds4_device \<Rightarrow> ds4_device cres" where
  "ds4_parse_input_report_01 report s =
     mapR (\<lambda>ctl. s\<lparr>pd_controller := ctl\<rparr>) (ds4_fill report 1 (pd_controller s))"

text \<open>
  \<^verbatim>\<open>ds4_parse_mouse\<close> on the virtual child: without touch data the touch is over, otherwise
  the mouse moves and its report is processed at once.
\<close>

definition ds4_parse_mouse :: "bytes \<Rightarrow> ds4_device \<Rightarrow> ds4_device cres" where
  "ds4_parse_mouse report s =
     (case pd_mouse s of
        None \<Rightarrow> Inr s
      | Some (ts, ctl) \<Rightarrow>
          bindR (read_byte report 35) (\<lambda>num_touch_reports.
          if num_touch_reports < 1 then Inr (s\<lparr>pd_mouse := Some (ts\<lparr>ts_prev_touch_active := False\<rparr>, ctl)\<rparr>)
          else bindR (read_touch_point report 37) (\<lambda>point.
            mapR (\<lambda>b2. let child = move_mouse point b2 (ts, ctl)
                       in s\<lparr>pd_mouse := Some child, pd_mouse_reports := pd_mouse_reports s @ [snd child]\<rparr>)
              (read_byte report 9))))"

definition ds4_parse_input_report_11 :: "bytes \<Rightarrow> ds4_device \<Rightarrow> ds4_device cres" where
  "ds4_parse_input_report_11 report s =
     bindR (ds4_fill report 3 (pd_controller s)) (\<lambda>ctl.
     bindR (sensor_xyz (d4_gyro_calib s) report 15) (\<lambda>gyro.
     bindR (sensor_xyz (d4_accel_calib s) report 21) (\<lambda>accel.
     bindR (read_byte report 32) (\<lambda>status.
       ds4_parse_mouse report
         (s\<lparr>pd_controller := ctl\<lparr>ctl_battery := ps_battery status,
              ctl_gamepad := (ctl_gamepad ctl)\<lparr>gp_gyro := gyro, gp_accel := accel\<rparr>\<rparr>\<rparr>)))))"

definition uni_hid_parser_ds4_parse_input_report :: "bytes \<Rightarrow> nat \<Rightarrow> ds4_device \<Rightarrow> ds4_device cres" where
  "uni_hid_parser_ds4_parse_input_report report len s =
     bindR (read_byte report 0) (\<lambda>report_id.
       if report_id = 0x11 \<and> len = 78 then ds4_parse_input_report_11 report s
       else if report_id = 0x01 \<and> len = 10 then ds4_parse_input_report_01 report s
       else Inr s)"

definition ds4_report_parser :: "ds4_device report_parser" where
  "ds4_report_parser = \<lparr>rp_init_report = Some uni_hid_parser_ds4_init_report,
     rp_parse_input_report = Some uni_hid_parser_ds4_parse_input_report, rp_parse_usage = None\<rparr>"

definition ds4_input :: "bytes \<Rightarrow> ds4_device \<Rightarrow> ds4_device cres" where
  "ds4_input report s =
     uni_hid_parser_ds4_parse_input_report report (length report) (uni_hid_parser_ds4_init_report s)"

lemma ds4_input_of_report_loop:
  "uni_hid_parse_input_report ds4_report_parser descriptor report (length report) s
    = Some (ds4_input report s)"
  by (simp add: uni_hid_parse_input_report_def ds4_report_parser_def ds4_input_def split: sum.splits)

section \<open>The driver as a machine\<close>

text \<open>\<open>Ds4_virtual_mouse\<close> is the creation of the child, whose instance data is zero, or its end.\<close>

datatype ds4_event =
    Ds4_virtual_mouse bool
  | Ds4_set_lightbar_color u8 u8 u8
  | Ds4_play u16 u16 u8 u8
  | Ds4_delayed_timer
  | Ds4_duration_timer
  | Ds4_feature_report bytes
  | Ds4_report bytes

definition ds4_step :: "ds4_event \<Rightarrow> ds4_device \<Rightarrow> ds4_device cres" where
  "ds4_step ev s = (case ev of
     Ds4_virtual_mouse present \<Rightarrow>
       Inr (s\<lparr>pd_mouse := if present then Some (zero_touch, zero_controller) else None\<rparr>)
   | Ds4_set_lightbar_color r g b \<Rightarrow> Inr (uni_hid_parser_ds4_set_lightbar_color r g b s)
   | Ds4_play delay duration weak strong \<Rightarrow> uni_hid_parser_ds4_play_dual_rumble delay duration weak strong s
   | Ds4_delayed_timer \<Rightarrow> fire_delayed_timer on_ds4_set_rumble_on s
   | Ds4_duration_timer \<Rightarrow> fire_duration_timer on_ds4_set_rumble_off s
   | Ds4_feature_report report \<Rightarrow> uni_hid_parser_ds4_parse_feature_report report s
   | Ds4_report report \<Rightarrow> ds4_input report s)"

section \<open>The invariant\<close>

text \<open>The LED and the motors of the controller are those of the last report.\<close>

definition ds4_shows_cache :: "ds4_device \<Rightarrow> bool" where
  "ds4_shows_cache s \<longleftrightarrow> intr_reports (pd_sent s) \<noteq> []
     \<and> last (intr_reports (pd_sent s))
       = sign_report (ds4_output_report (d4_prev_rumble_weak s) (d4_prev_rumble_strong s) (d4_prev_color s))
     \<and> (pd_state s = STATE_RUMBLE_DISABLED \<longrightarrow> d4_prev_rumble_weak s = 0 \<and> d4_prev_rumble_strong s = 0)"

definition ds4_ok :: "ds4_device \<Rightarrow> bool" where
  "ds4_ok s \<longleftrightarrow> rumble_timers_ok s \<and> ds4_shows_cache s
     \<and> calibrations_xyz_ok (d4_gyro_calib s) \<and> calibrations_xyz_ok (d4_accel_calib s)
     \<and> ps_gamepad_ok (ctl_gamepad (pd_controller s))
     \<and> mouse_state_ok (pd_mouse s)
     \<and> list_all mouse_ok (pd_mouse_reports s)"

definition ds4_short_feature :: "bytes \<Rightarrow> bool" where
  "ds4_short_feature r \<longleftrightarrow> r = []
     \<or> hd r = DS4_FEATURE_REPORT_CALIBRATION \<and> length r < 35
     \<or> hd r = DS4_FEATURE_REPORT_FIRMWARE_VERSION \<and> (length r < 43 \<or> 0 \<notin> set (drop 17 r))"

text \<open>
  Every way the driver can fail: stopping a rumble that is still delayed, by a request without
  delay and duration or by the expiry of a delay whose duration is zero; and reports that end
  before a field that is read, or before the zero byte that ends the build time of the firmware.
\<close>

definition ds4_fails :: "ds4_device \<Rightarrow> ds4_event \<Rightarrow> c_error \<Rightarrow> bool" where
  "ds4_fails s ev e \<longleftrightarrow> (case ev of
     Ds4_play delay duration weak strong \<Rightarrow>
       e = Assertion_failed \<and> pd_state s = STATE_RUMBLE_DELAYED \<and> delay = 0 \<and> duration = 0
   | Ds4_delayed_timer \<Rightarrow>
       e = Assertion_failed \<and> pd_timer_delayed_start s \<noteq> None \<and> pd_duration_ms s = 0
   | Ds4_feature_report r \<Rightarrow> e = Out_of_bounds \<and> ds4_short_feature r
   | Ds4_report r \<Rightarrow> e = Out_of_bounds \<and> r = []
   | _ \<Rightarrow> False)"

lemmas ds4_out_defs = ds4_send_output_report_def ds4_stop_rumble_now_def ds4_play_dual_rumble_now_def
  ds4_send_enable_lightbar_report_def ds4_request_calibration_report_def
  ds4_request_firmware_version_report_def uni_hid_parser_ds4_set_lightbar_color_def

text \<open>The part of the invariant that output does not touch.\<close>

definition ds4_input_ok :: "ds4_device \<Rightarrow> bool" where
  "ds4_input_ok s \<longleftrightarrow> calibrations_xyz_ok (d4_gyro_calib s) \<and> calibrations_xyz_ok (d4_accel_calib s)
     \<and> ps_gamepad_ok (ctl_gamepad (pd_controller s))
     \<and> mouse_state_ok (pd_mouse s)
     \<and> list_all mouse_ok (pd_mouse_reports s)"

lemma ds4_ok_split: "ds4_ok s \<longleftrightarrow> rumble_timers_ok s \<and> ds4_shows_cache s \<and> ds4_input_ok s"
  by (simp add: ds4_ok_def ds4_input_ok_def)

lemma ds4_play_result:
  assumes "ds4_ok s"
  shows "case uni_hid_parser_ds4_play_dual_rumble delay duration weak strong s of
      Inl e \<Rightarrow> e = Assertion_failed \<and> pd_state s = STATE_RUMBLE_DELAYED \<and> delay = 0 \<and> duration = 0
    | Inr s' \<Rightarrow> ds4_ok s'"
  using assms
  by (cases "pd_state s"; cases "delay = 0"; cases "duration = 0")
    (simp_all add: ds4_ok_split uni_hid_parser_ds4_play_dual_rumble_def ds4_out_defs ps_rumble_defs
      rumble_timers_ok_def ds4_shows_cache_def ds4_input_ok_def)

lemma ds4_delayed_timer_result:
  assumes "ds4_ok s"
  shows "case fire_delayed_timer on_ds4_set_rumble_on s of
      Inl e \<Rightarrow> e = Assertion_failed \<and> pd_timer_delayed_start s \<noteq> None \<and> pd_duration_ms s = 0
    | Inr s' \<Rightarrow> ds4_ok s'"
  using assms
  by (cases "pd_state s"; cases "pd_duration_ms s = 0"; cases "pd_timer_delayed_start s")
    (simp_all add: ds4_ok_split on_ds4_set_rumble_on_def ds4_out_defs ps_rumble_defs
      rumble_timers_ok_def ds4_shows_cache_def ds4_input_ok_def)

lemma ds4_duration_timer_result:
  assumes "ds4_ok s"
  shows "\<exists>s'. fire_duration_timer on_ds4_set_rumble_off s = Inr s' \<and> ds4_ok s'"
  using assms
  by (cases "pd_timer_duration s"; cases "pd_state s")
    (simp_all add: ds4_ok_split on_ds4_set_rumble_off_def ds4_out_defs ps_rumble_defs
      rumble_timers_ok_def ds4_shows_cache_def ds4_input_ok_def)

lemma ds4_calibration_ok:
  assumes "length v = 17" and "\<forall>x \<in> set v. - 32768 \<le> x \<and> x \<le> 32767"
  shows "calibrations_xyz_ok (fst (ds4_calibration v))" "calibrations_xyz_ok (snd (ds4_calibration v))"
proof -
  have b: "i < 17 \<Longrightarrow> - 32768 \<le> v ! i \<and> v ! i \<le> 32767" for i
    using assms by simp
  have speed: "\<bar>v ! 9 + v ! 10\<bar> \<le> 65536" using b [of 9] b [of 10] by (simp add: abs_le_iff)
  have denom: "in_i32 (\<bar>v ! i - v ! j\<bar> + \<bar>v ! k - v ! j\<bar>)" "in_i32 (\<bar>v ! i - v ! j\<bar> + \<bar>v ! k + v ! j\<bar>)"
    if "i < 17" "j < 17" "k < 17" for i j k
    using b [OF that(1)] b [OF that(2)] b [OF that(3)] by (simp_all add: in_i32_def abs_if)
  have acc: "\<bar>v ! i\<bar> \<le> 32768" if "i < 17" for i using b [OF that] by (simp add: abs_le_iff)
  show "calibrations_xyz_ok (fst (ds4_calibration v))"
    unfolding ds4_calibration_def Let_def calibrations_xyz_ok_def fst_conv snd_conv
    by (intro conjI calibrations_ok(3) speed denom) simp_all
  show "calibrations_xyz_ok (snd (ds4_calibration v))"
    unfolding ds4_calibration_def Let_def calibrations_xyz_ok_def fst_conv snd_conv
    by (intro conjI calibrations_ok(4) acc) simp_all
qed

lemma ds4_feature_result:
  assumes "ds4_ok s"
  shows "case uni_hid_parser_ds4_parse_feature_report r s of
      Inl e \<Rightarrow> e = Out_of_bounds \<and> ds4_short_feature r | Inr s' \<Rightarrow> ds4_ok s'"
proof (cases r)
  case Nil
  then show ?thesis
    by (simp add: uni_hid_parser_ds4_parse_feature_report_def read_byte_def ds4_short_feature_def)
next
  case (Cons b bs)
  then have b: "read_byte r 0 = Inr b" "hd r = b" by (simp_all add: read_byte_def)
  consider (cal) "b = DS4_FEATURE_REPORT_CALIBRATION"
    | (fw) "b \<noteq> DS4_FEATURE_REPORT_CALIBRATION" "b = DS4_FEATURE_REPORT_FIRMWARE_VERSION"
    | (other) "b \<noteq> DS4_FEATURE_REPORT_CALIBRATION" "b \<noteq> DS4_FEATURE_REPORT_FIRMWARE_VERSION" by blast
  then show ?thesis
  proof cases
    case cal
    show ?thesis
    proof (cases "read_i16s 17 r 1")
      case (Inl e)
      with read_i16s_fails [OF Inl] show ?thesis using b cal
        by (simp add: uni_hid_parser_ds4_parse_feature_report_def ds4_short_feature_def)
    next
      case (Inr v)
      with read_i16s_bounds [OF Inr] ds4_calibration_ok [of v] show ?thesis using b cal assms
        by (simp add: uni_hid_parser_ds4_parse_feature_report_def ds4_ok_split ds4_input_ok_def
            ds4_request_firmware_version_report_def send_ctrl_def rumble_timers_ok_def ds4_shows_cache_def)
    qed
  next
    case fw
    show ?thesis
    proof (cases "43 \<le> length r")
      case True
      have zero: "0 \<in> set (drop 17 r) \<Longrightarrow> 0 \<in> set (drop 1 r)"
        using set_drop_subset_set_drop [of 1 17 r] by auto
      from True obtain hw fw where "read_u16 r 35 = Inr hw" "read_u16 r 41 = Inr fw"
        using read_u16_total [of 35 r] read_u16_total [of 41 r] by auto
      with b fw assms zero show ?thesis
        by (auto simp: uni_hid_parser_ds4_parse_feature_report_def ds4_ok_split ds4_input_ok_def
            rumble_timers_ok_def ds4_shows_cache_def read_string_def ds4_short_feature_def)
    next
      case False
      with b fw have "ds4_short_feature r" by (simp add: ds4_short_feature_def)
      then show ?thesis using b fw False
        by (auto simp: uni_hid_parser_ds4_parse_feature_report_def read_u16_def read_byte_def)
    qed
  next
    case other
    with b assms show ?thesis by (simp add: uni_hid_parser_ds4_parse_feature_report_def)
  qed
qed

lemma ds4_fill_total:
  assumes "i + 8 < length r"
  shows "\<exists>ctl'. ds4_fill r i ctl = Inr ctl' \<and> (ps_gamepad_ok (ctl_gamepad ctl) \<longrightarrow> ps_gamepad_ok (ctl_gamepad ctl'))"
proof -
  have "\<forall>p \<in> set ds4_misc_2. \<forall>k. bit (snd p) k \<longrightarrow> k < 4" by (simp add: ds4_misc_2_def)
  with assms show ?thesis by (simp add: ds4_fill_def read_byte_def ps_gamepad_keeps_ok)
qed

lemma ds4_parse_mouse_total:
  assumes "38 + 2 < length r" and "fresh_mouse (pd_mouse s)" and "list_all mouse_ok (pd_mouse_reports s)"
  shows "\<exists>m reps. ds4_parse_mouse r s = Inr (s\<lparr>pd_mouse := m, pd_mouse_reports := reps\<rparr>)
    \<and> mouse_state_ok m \<and> list_all mouse_ok reps"
proof (cases "pd_mouse s")
  case None
  then have "ds4_parse_mouse r s = Inr (s\<lparr>pd_mouse := None, pd_mouse_reports := pd_mouse_reports s\<rparr>)"
    by (simp add: ds4_parse_mouse_def)
  with assms(3) show ?thesis
    by (intro exI [of _ None] exI [of _ "pd_mouse_reports s"]) (simp add: mouse_state_ok_def)
next
  case (Some child)
  obtain ts ctl where child: "child = (ts, ctl)" by fastforce
  from assms(2) Some child have fresh: "touch_ok ts" "ctl_klass ctl = UNI_CONTROLLER_CLASS_MOUSE"
    by (simp_all add: fresh_mouse_def)
  have reads: "read_byte r 35 = Inr (r ! 35)" "read_byte r 9 = Inr (r ! 9)"
    using assms(1) by (simp_all add: read_byte_def)
  obtain point where point: "read_touch_point r 37 = Inr point"
    using read_touch_point_total [of 37 r] assms(1) by auto
  show ?thesis
  proof (cases "r ! 35 < 1")
    case True
    with Some child reads have "ds4_parse_mouse r s
        = Inr (s\<lparr>pd_mouse := Some (ts\<lparr>ts_prev_touch_active := False\<rparr>, ctl), pd_mouse_reports := pd_mouse_reports s\<rparr>)"
      by (simp add: ds4_parse_mouse_def)
    moreover have "mouse_state_ok (Some (ts\<lparr>ts_prev_touch_active := False\<rparr>, ctl))"
      using fresh by (simp add: mouse_state_ok_def touch_ok_def)
    ultimately show ?thesis using assms(3) by blast
  next
    case False
    obtain ts' ctl' where m: "move_mouse point (r ! 9) (ts, ctl) = (ts', ctl')" by fastforce
    with Some child reads point False have "ds4_parse_mouse r s
        = Inr (s\<lparr>pd_mouse := Some (ts', ctl'), pd_mouse_reports := pd_mouse_reports s @ [ctl']\<rparr>)"
      by (simp add: ds4_parse_mouse_def)
    moreover have "touch_ok ts' \<and> mouse_ok ctl'"
      by (rule move_mouse_ok [OF read_touch_point_bounds [OF point] fresh m])
    ultimately show ?thesis using assms(3)
      by (intro exI [of _ "Some (ts', ctl')"] exI [of _ "pd_mouse_reports s @ [ctl']"])
        (simp add: mouse_state_ok_def)
  qed
qed

lemma ds4_report_11_total:
  assumes "length r = 78" and "fresh_mouse (pd_mouse s)" and "ds4_input_ok s"
  shows "\<exists>ctl m reps. ds4_parse_input_report_11 r s
      = Inr (s\<lparr>pd_controller := ctl, pd_mouse := m, pd_mouse_reports := reps\<rparr>)
    \<and> ps_gamepad_ok (ctl_gamepad ctl) \<and> mouse_state_ok m \<and> list_all mouse_ok reps"
proof -
  obtain ctl where ctl: "ds4_fill r 3 (pd_controller s) = Inr ctl" "ps_gamepad_ok (ctl_gamepad ctl)"
    using ds4_fill_total [of 3 r "pd_controller s"] assms by (auto simp: ds4_input_ok_def)
  obtain gyro accel where sensors: "sensor_xyz (d4_gyro_calib s) r 15 = Inr gyro"
    "sensor_xyz (d4_accel_calib s) r 21 = Inr accel"
    using sensor_xyz_total [of "d4_gyro_calib s" 15 r] sensor_xyz_total [of "d4_accel_calib s" 21 r] assms
    by (auto simp: ds4_input_ok_def)
  have status: "read_byte r 32 = Inr (r ! 32)" using assms(1) by (simp add: read_byte_def)
  define s1 where "s1 = s\<lparr>pd_controller := ctl\<lparr>ctl_battery := ps_battery (r ! 32),
              ctl_gamepad := (ctl_gamepad ctl)\<lparr>gp_gyro := gyro, gp_accel := accel\<rparr>\<rparr>\<rparr>"
  obtain m reps where m: "ds4_parse_mouse r s1 = Inr (s1\<lparr>pd_mouse := m, pd_mouse_reports := reps\<rparr>)"
    "mouse_state_ok m" "list_all mouse_ok reps"
    using ds4_parse_mouse_total [of r s1] assms by (auto simp: s1_def ds4_input_ok_def)
  have "ds4_parse_input_report_11 r s = Inr (s1\<lparr>pd_mouse := m, pd_mouse_reports := reps\<rparr>)"
    using m(1) by (simp add: ds4_parse_input_report_11_def ctl(1) sensors status s1_def)
  with m ctl(2) show ?thesis
    by (intro exI [of _ "pd_controller s1"] exI [of _ m] exI [of _ reps])
      (simp add: s1_def ps_gamepad_ok_sensors)
qed

lemma ds4_input_result:
  assumes "ds4_ok s"
  shows "case ds4_input r s of Inl e \<Rightarrow> e = Out_of_bounds \<and> r = [] | Inr s' \<Rightarrow> ds4_ok s'"
proof (cases "r = []")
  case True
  then show ?thesis
    by (simp add: ds4_input_def uni_hid_parser_ds4_parse_input_report_def read_byte_def)
next
  case False
  let ?s0 = "uni_hid_parser_ds4_init_report s"
  have fresh: "fresh_mouse (pd_mouse ?s0)"
    using assms by (simp add: uni_hid_parser_ds4_init_report_def init_report_with_mouse_simps ds4_ok_def)
  have frame: "?s0 = s\<lparr>pd_controller := pd_controller ?s0, pd_mouse := pd_mouse ?s0\<rparr>"
    by (simp add: uni_hid_parser_ds4_init_report_def init_report_with_mouse_def)
  have m0: "mouse_state_ok (pd_mouse ?s0)"
    using fresh by (auto simp: fresh_mouse_def mouse_state_ok_def split: option.splits)
  have g0: "ps_gamepad_ok (ctl_gamepad (pd_controller ?s0))"
    by (simp add: uni_hid_parser_ds4_init_report_def init_report_with_mouse_simps)
  have keep: "ds4_ok (s\<lparr>pd_controller := c, pd_mouse := m, pd_mouse_reports := reps\<rparr>)"
    if "ps_gamepad_ok (ctl_gamepad c)" "mouse_state_ok m" "list_all mouse_ok reps" for c m reps
    using that assms by (simp add: ds4_ok_def rumble_timers_ok_def ds4_shows_cache_def)
  have reps0: "list_all mouse_ok (pd_mouse_reports s)" using assms by (simp add: ds4_ok_def)
  have input0: "ds4_input_ok ?s0"
    using assms m0 g0 by (subst frame) (simp add: ds4_ok_def ds4_input_ok_def)
  have hd: "read_byte r 0 = Inr (r ! 0)" using False by (simp add: read_byte_def)
  consider (r11) "r ! 0 = 0x11" "length r = 78" | (r01) "r ! 0 = 0x01" "length r = 10"
    | (other) "\<not> (r ! 0 = 0x11 \<and> length r = 78)" "\<not> (r ! 0 = 0x01 \<and> length r = 10)" by blast
  then show ?thesis
  proof cases
    case r11
    from ds4_report_11_total [OF r11(2) fresh input0] obtain ctl m reps where
      res: "ds4_parse_input_report_11 r ?s0 = Inr (?s0\<lparr>pd_controller := ctl, pd_mouse := m, pd_mouse_reports := reps\<rparr>)"
      and ok: "ps_gamepad_ok (ctl_gamepad ctl)" "mouse_state_ok m" "list_all mouse_ok reps" by blast
    have "ds4_input r s = Inr (s\<lparr>pd_controller := ctl, pd_mouse := m, pd_mouse_reports := reps\<rparr>)"
      unfolding ds4_input_def uni_hid_parser_ds4_parse_input_report_def
      using r11 res by (simp add: hd) (subst frame, simp)
    with keep [OF ok] show ?thesis by simp
  next
    case r01
    obtain ctl where ctl: "ds4_fill r 1 (pd_controller ?s0) = Inr ctl" "ps_gamepad_ok (ctl_gamepad ctl)"
      using ds4_fill_total [of 1 r "pd_controller ?s0"] g0 r01 by auto
    have "ds4_input r s = Inr (s\<lparr>pd_controller := ctl, pd_mouse := pd_mouse ?s0, pd_mouse_reports := pd_mouse_reports s\<rparr>)"
      unfolding ds4_input_def uni_hid_parser_ds4_parse_input_report_def ds4_parse_input_report_01_def
      using r01 ctl(1) by (simp add: hd) (subst frame, simp)
    with keep [OF ctl(2) m0 reps0] show ?thesis by simp
  next
    case other
    have "ds4_input r s = Inr ?s0"
      unfolding ds4_input_def uni_hid_parser_ds4_parse_input_report_def
      using other by (auto simp: hd)
    moreover have "ds4_ok ?s0"
      using keep [OF g0 m0 reps0] by (subst frame) simp
    ultimately show ?thesis by simp
  qed
qed

lemma ds4_step_result:
  assumes "ds4_ok s"
  shows "case ds4_step ev s of Inl e \<Rightarrow> ds4_fails s ev e | Inr s' \<Rightarrow> ds4_ok s'"
proof (cases ev)
  case (Ds4_virtual_mouse present)
  then show ?thesis using assms
    by (simp add: ds4_step_def ds4_ok_def rumble_timers_ok_def ds4_shows_cache_def mouse_state_ok_def
        touch_ok_def zero_touch_def)
next
  case (Ds4_set_lightbar_color r g b)
  then show ?thesis using assms
    by (simp add: ds4_step_def ds4_out_defs send_intr_def ds4_ok_def rumble_timers_ok_def ds4_shows_cache_def)
next
  case (Ds4_play delay duration weak strong)
  then show ?thesis using ds4_play_result [OF assms, of delay duration weak strong]
    by (simp add: ds4_step_def ds4_fails_def split: sum.splits)
next
  case Ds4_delayed_timer
  then show ?thesis using ds4_delayed_timer_result [OF assms] by (simp add: ds4_step_def ds4_fails_def split: sum.splits)
next
  case Ds4_duration_timer
  then show ?thesis using ds4_duration_timer_result [OF assms] by (auto simp: ds4_step_def)
next
  case (Ds4_feature_report r)
  then show ?thesis using ds4_feature_result [OF assms, of r] by (simp add: ds4_step_def ds4_fails_def split: sum.splits)
next
  case (Ds4_report r)
  then show ?thesis using ds4_input_result [OF assms, of r] by (simp add: ds4_step_def ds4_fails_def split: sum.splits)
qed

interpretation ds4_driver: fallible_machine ds4_step ds4_ok ds4_fails
  by unfold_locales (rule ds4_step_result)

definition zero_ds4 :: ds4_device where
  "zero_ds4 =
     (let none = \<lparr>cal_bias = 0, cal_sens_numer = 0, cal_sens_denom = 0\<rparr>
      in \<lparr>pd_state = STATE_RUMBLE_DISABLED, pd_timer_duration = None,
          pd_timer_delayed_start = None, pd_weak_magnitude = 0, pd_strong_magnitude = 0, pd_duration_ms = 0,
          pd_controller = zero_controller, pd_mouse = None, pd_sent = [], pd_mouse_reports = [],
          d4_fw_version = 0, d4_hw_version = 0, d4_gyro_calib = (none, none, none),
          d4_accel_calib = (none, none, none), d4_prev_color = (0, 0, 0), d4_prev_rumble_weak = 0,
          d4_prev_rumble_strong = 0\<rparr>)"

lemma ds4_setup_ok: "ds4_ok (uni_hid_parser_ds4_setup zero_ds4)"
  by (simp add: ds4_ok_def uni_hid_parser_ds4_setup_def zero_ds4_def Let_def ds4_out_defs send_intr_def
      send_ctrl_def rumble_timers_ok_def ds4_shows_cache_def calibrations_xyz_ok_def calibrations_ok
      mouse_state_ok_def ps_gamepad_ok_def gamepad_bits_ok_def zero_controller_def zero_gamepad_def)

text \<open>The colour that was asked for last.\<close>

definition ds4_requested_color :: "ds4_event list \<Rightarrow> u8 \<times> u8 \<times> u8" where
  "ds4_requested_color evs =
     foldl (\<lambda>c ev. case ev of Ds4_set_lightbar_color r g b \<Rightarrow> (r, g, b) | _ \<Rightarrow> c) (0, 0, 0x40) evs"

lemma ds4_parse_mouse_color: "ds4_parse_mouse r s = Inr s' \<Longrightarrow> d4_prev_color s' = d4_prev_color s"
  by (auto simp: ds4_parse_mouse_def bindR_Inr_iff mapR_Inr_iff Let_def split: option.splits prod.splits if_splits)

lemma ds4_step_color:
  assumes "ds4_step ev s = Inr s'"
  shows "d4_prev_color s' = (case ev of Ds4_set_lightbar_color r g b \<Rightarrow> (r, g, b) | _ \<Rightarrow> d4_prev_color s)"
proof (cases ev)
  case (Ds4_play delay duration weak strong)
  with assms show ?thesis
    by (cases "pd_state s")
      (auto simp: ds4_step_def uni_hid_parser_ds4_play_dual_rumble_def ds4_out_defs ps_rumble_defs split: if_splits)
next
  case (Ds4_feature_report r)
  with assms show ?thesis
    by (auto simp: ds4_step_def uni_hid_parser_ds4_parse_feature_report_def bindR_Inr_iff mapR_Inr_iff
        ds4_request_firmware_version_report_def send_ctrl_def split: if_splits)
next
  case (Ds4_report r)
  with assms show ?thesis
    by (auto simp: ds4_step_def ds4_input_def uni_hid_parser_ds4_parse_input_report_def bindR_Inr_iff mapR_Inr_iff
        ds4_parse_input_report_11_def ds4_parse_input_report_01_def uni_hid_parser_ds4_init_report_def
        init_report_with_mouse_def dest!: ds4_parse_mouse_color split: if_splits)
next
  case Ds4_delayed_timer
  with assms show ?thesis
    by (auto simp: ds4_step_def on_ds4_set_rumble_on_def ds4_out_defs ps_rumble_defs split: if_splits)
next
  case Ds4_duration_timer
  with assms show ?thesis
    by (auto simp: ds4_step_def on_ds4_set_rumble_off_def ds4_out_defs ps_rumble_defs split: if_splits)
next
  case Ds4_virtual_mouse
  with assms show ?thesis by (auto simp: ds4_step_def)
next
  case Ds4_set_lightbar_color
  with assms show ?thesis by (auto simp: ds4_step_def ds4_out_defs send_intr_def)
qed

lemma ds4_run_color:
  "run_steps ds4_step evs s = Inr s' \<Longrightarrow> d4_prev_color s'
    = foldl (\<lambda>c ev. case ev of Ds4_set_lightbar_color r g b \<Rightarrow> (r, g, b) | _ \<Rightarrow> c) (d4_prev_color s) evs"
proof (induction evs arbitrary: s)
  case Nil
  then show ?case by simp
next
  case (Cons ev evs)
  then obtain s1 where s1: "ds4_step ev s = Inr s1" "run_steps ds4_step evs s1 = Inr s'"
    by (auto simp: bindR_Inr_iff)
  with Cons.IH [OF s1(2)] ds4_step_color [OF s1(1)] show ?case by simp
qed

lemma ds4_truncated_calibration:
  "uni_hid_parser_ds4_parse_feature_report [DS4_FEATURE_REPORT_CALIBRATION] s = Inl Out_of_bounds"
proof -
  have "read_i16s (Suc 16) [DS4_FEATURE_REPORT_CALIBRATION] 1 = Inl Out_of_bounds"
    by (simp only: read_i16s.simps) (simp add: read_i16_def read_u16_def read_byte_def)
  then show ?thesis by (simp add: uni_hid_parser_ds4_parse_feature_report_def read_byte_def)
qed

lemma ds4_unterminated_firmware:
  "uni_hid_parser_ds4_parse_feature_report (DS4_FEATURE_REPORT_FIRMWARE_VERSION # replicate 48 1) s
    = Inl Out_of_bounds"
  by (simp add: uni_hid_parser_ds4_parse_feature_report_def read_string_def read_u16_def read_byte_def
      DS4_FEATURE_REPORT_FIRMWARE_VERSION_def DS4_FEATURE_REPORT_CALIBRATION_def)

section \<open>Properties\<close>

text \<open>C17: After setup, the driver of the DualShock 4 survives every order of requests, timer expiries,
  feature and input reports except in the listed cases, and stays in its invariant: the
  calibration divisors are never zero, touch positions and mouse moves are bounded, the gamepad
  is well formed, a registered timer belongs to the state. The listed cases are real: a rumble that
  is stopped before its start delay has passed fails the assertion of ds4_stop_rumble_now, a
  truncated calibration report is read past its end, and so is a firmware report of the right length
  whose strings are not terminated.\<close>

theorem ds4_fails_only_as_listed:
  "(case run_steps ds4_step evs (uni_hid_parser_ds4_setup zero_ds4) of
      Inl e \<Rightarrow> \<exists>before ev after s. evs = before @ ev # after
         \<and> run_steps ds4_step before (uni_hid_parser_ds4_setup zero_ds4) = Inr s \<and> ds4_fails s ev e
    | Inr s \<Rightarrow> ds4_ok s)
   \<and> run_steps ds4_step [Ds4_play 100 duration weak strong, Ds4_play 0 0 weak' strong']
       (uni_hid_parser_ds4_setup zero_ds4) = Inl Assertion_failed
   \<and> run_steps ds4_step [Ds4_play 100 0 weak strong, Ds4_delayed_timer]
       (uni_hid_parser_ds4_setup zero_ds4) = Inl Assertion_failed
   \<and> run_steps ds4_step [Ds4_feature_report [DS4_FEATURE_REPORT_CALIBRATION]]
       (uni_hid_parser_ds4_setup zero_ds4) = Inl Out_of_bounds
   \<and> run_steps ds4_step [Ds4_feature_report (DS4_FEATURE_REPORT_FIRMWARE_VERSION # replicate 48 1)]
       (uni_hid_parser_ds4_setup zero_ds4) = Inl Out_of_bounds"
proof (intro conjI)
  show "case run_steps ds4_step evs (uni_hid_parser_ds4_setup zero_ds4) of
      Inl e \<Rightarrow> \<exists>before ev after s. evs = before @ ev # after
         \<and> run_steps ds4_step before (uni_hid_parser_ds4_setup zero_ds4) = Inr s \<and> ds4_fails s ev e
    | Inr s \<Rightarrow> ds4_ok s"
    using ds4_driver.run_result [OF ds4_setup_ok, of evs] by (auto split: sum.splits)
qed (simp_all add: ds4_step_def uni_hid_parser_ds4_play_dual_rumble_def on_ds4_set_rumble_on_def
    ds4_truncated_calibration ds4_unterminated_firmware uni_hid_parser_ds4_setup_def zero_ds4_def ds4_out_defs ps_rumble_defs)

subsection \<open>The motors in force\<close>

text \<open>
  The rumble as a requester sees it: off, on until the duration is over, or waiting for a start
  delay with the duration and strengths to come; and the strengths in force. A delayed request
  leaves the motors as they are until it starts.
\<close>

datatype ds4_rumble = Rumble_off | Rumble_on | Rumble_waiting u16 u8 u8

definition rumble_start :: "u16 \<Rightarrow> u8 \<Rightarrow> u8 \<Rightarrow> ds4_rumble \<times> u8 \<times> u8" where
  "rumble_start duration weak strong =
     (if duration = 0 then (Rumble_off, 0, 0) else (Rumble_on, weak, strong))"

definition ds4_rumble_after :: "ds4_event \<Rightarrow> ds4_rumble \<times> u8 \<times> u8 \<Rightarrow> ds4_rumble \<times> u8 \<times> u8" where
  "ds4_rumble_after ev p = (case ev of
     Ds4_play delay duration weak strong \<Rightarrow>
       if delay = 0 then rumble_start duration weak strong
       else (Rumble_waiting duration weak strong, snd p)
   | Ds4_delayed_timer \<Rightarrow> (case fst p of Rumble_waiting duration weak strong \<Rightarrow> rumble_start duration weak strong | _ \<Rightarrow> p)
   | Ds4_duration_timer \<Rightarrow> if fst p = Rumble_on then (Rumble_off, 0, 0) else p
   | _ \<Rightarrow> p)"

definition ds4_motors :: "ds4_event list \<Rightarrow> u8 \<times> u8" where
  "ds4_motors evs = snd (foldl (\<lambda>p ev. ds4_rumble_after ev p) (Rumble_off, 0, 0) evs)"

definition ds4_rumble_matches :: "ds4_device \<Rightarrow> ds4_rumble \<times> u8 \<times> u8 \<Rightarrow> bool" where
  "ds4_rumble_matches s p \<longleftrightarrow>
     (d4_prev_rumble_weak s, d4_prev_rumble_strong s) = snd p
     \<and> (case fst p of
          Rumble_off \<Rightarrow> pd_state s = STATE_RUMBLE_DISABLED \<and> snd p = (0, 0)
            \<and> pd_timer_delayed_start s = None \<and> pd_timer_duration s = None
        | Rumble_on \<Rightarrow> pd_state s = STATE_RUMBLE_IN_PROGRESS
            \<and> pd_timer_delayed_start s = None \<and> pd_timer_duration s \<noteq> None
        | Rumble_waiting duration weak strong \<Rightarrow> pd_state s = STATE_RUMBLE_DELAYED
            \<and> pd_timer_delayed_start s \<noteq> None \<and> pd_timer_duration s = None
            \<and> pd_duration_ms s = duration \<and> pd_weak_magnitude s = ucast weak \<and> pd_strong_magnitude s = ucast strong)"

text \<open>All that it looks at.\<close>

definition rumble_view :: "ds4_device \<Rightarrow> u8 \<times> u8 \<times> rumble_state \<times> u16 option \<times> u16 option \<times> u16 \<times> u16 \<times> u16" where
  "rumble_view s = (d4_prev_rumble_weak s, d4_prev_rumble_strong s, pd_state s, pd_timer_delayed_start s,
     pd_timer_duration s, pd_duration_ms s, pd_weak_magnitude s, pd_strong_magnitude s)"

lemma rumble_view_cong: "rumble_view s' = rumble_view s \<Longrightarrow> ds4_rumble_matches s' p = ds4_rumble_matches s p"
  by (cases "fst p") (simp_all add: rumble_view_def ds4_rumble_matches_def)

lemma ds4_parse_mouse_view: "ds4_parse_mouse r s = Inr s' \<Longrightarrow> rumble_view s' = rumble_view s"
  by (auto simp: ds4_parse_mouse_def bindR_Inr_iff mapR_Inr_iff Let_def rumble_view_def
      split: option.splits prod.splits if_splits)

lemma ds4_feature_report_view:
  "uni_hid_parser_ds4_parse_feature_report r s = Inr s' \<Longrightarrow> rumble_view s' = rumble_view s"
  by (auto simp: uni_hid_parser_ds4_parse_feature_report_def bindR_Inr_iff mapR_Inr_iff rumble_view_def
      ds4_request_firmware_version_report_def send_ctrl_def split: if_splits)

lemma ds4_input_view: "ds4_input r s = Inr s' \<Longrightarrow> rumble_view s' = rumble_view s"
  by (auto simp: ds4_input_def uni_hid_parser_ds4_parse_input_report_def bindR_Inr_iff mapR_Inr_iff
      ds4_parse_input_report_11_def ds4_parse_input_report_01_def uni_hid_parser_ds4_init_report_def
      init_report_with_mouse_def dest!: ds4_parse_mouse_view split: if_splits)
    (simp_all add: rumble_view_def)

lemma u8_of_u16 [simp]: "ucast (ucast (m :: u8) :: u16) = m"
  by (rule bit_word_eqI) (simp add: bit_simps)

lemma ds4_step_rumble:
  assumes "ds4_rumble_matches s p" and "ds4_step ev s = Inr s'"
  shows "ds4_rumble_matches s' (ds4_rumble_after ev p)"
proof (cases ev)
  case (Ds4_play delay duration weak strong)
  with assms show ?thesis
    by (cases "fst p")
      (auto simp: ds4_step_def uni_hid_parser_ds4_play_dual_rumble_def ds4_out_defs ps_rumble_defs
        ds4_rumble_matches_def ds4_rumble_after_def rumble_start_def split: if_splits)
next
  case (Ds4_feature_report r)
  with assms ds4_feature_report_view [of r s s'] rumble_view_cong [of s' s p] show ?thesis
    by (simp add: ds4_step_def ds4_rumble_after_def)
next
  case (Ds4_report r)
  with assms ds4_input_view [of r s s'] rumble_view_cong [of s' s p] show ?thesis
    by (simp add: ds4_step_def ds4_rumble_after_def)
next
  case Ds4_delayed_timer
  with assms show ?thesis
    by (cases "fst p")
      (auto simp: ds4_step_def on_ds4_set_rumble_on_def ds4_out_defs ps_rumble_defs
        ds4_rumble_matches_def ds4_rumble_after_def rumble_start_def split: if_splits)
next
  case Ds4_duration_timer
  with assms show ?thesis
    by (cases "fst p")
      (auto simp: ds4_step_def on_ds4_set_rumble_off_def ds4_out_defs ps_rumble_defs
        ds4_rumble_matches_def ds4_rumble_after_def split: if_splits)
next
  case Ds4_virtual_mouse
  with assms have "rumble_view s' = rumble_view s" by (auto simp: ds4_step_def rumble_view_def)
  with assms(1) Ds4_virtual_mouse rumble_view_cong [of s' s p] show ?thesis by (simp add: ds4_rumble_after_def)
next
  case Ds4_set_lightbar_color
  with assms have "rumble_view s' = rumble_view s"
    by (auto simp: ds4_step_def ds4_out_defs send_intr_def rumble_view_def)
  with assms(1) Ds4_set_lightbar_color rumble_view_cong [of s' s p] show ?thesis
    by (simp add: ds4_rumble_after_def)
qed

lemma ds4_run_rumble:
  "\<lbrakk>ds4_rumble_matches s p; run_steps ds4_step evs s = Inr s'\<rbrakk>
    \<Longrightarrow> ds4_rumble_matches s' (foldl (\<lambda>p ev. ds4_rumble_after ev p) p evs)"
proof (induction evs arbitrary: s p)
  case Nil
  then show ?case by simp
next
  case (Cons ev evs)
  then obtain s1 where s1: "ds4_step ev s = Inr s1" "run_steps ds4_step evs s1 = Inr s'"
    by (auto simp: bindR_Inr_iff)
  with Cons.IH [OF ds4_step_rumble [OF Cons.prems(1) s1(1)] s1(2)] show ?case by simp
qed

text \<open>C20: The controller always shows what was asked for: whatever happened since setup, its last output
  report is signed and carries the colour requested last (blue before any request) and the two
  motor strengths in force: those of the last rumble that has started, the weak one on the right
  motor and the strong one on the left, until its duration is over, and zero afterwards. A
  request that still waits for its delay changes nothing.\<close>

theorem ds4_led_and_motors:
  "case run_steps ds4_step evs (uni_hid_parser_ds4_setup zero_ds4) of
     Inl e \<Rightarrow> True
   | Inr s \<Rightarrow> \<exists>out. last (intr_reports (pd_sent s)) = sign_report out \<and> length out = 75
       \<and> (out ! 7, out ! 8) = ds4_motors evs
       \<and> (out ! 9, out ! 10, out ! 11) = ds4_requested_color evs"
proof (cases "run_steps ds4_step evs (uni_hid_parser_ds4_setup zero_ds4)")
  case (Inl e)
  then show ?thesis by simp
next
  case (Inr s)
  let ?out = "ds4_output_report (d4_prev_rumble_weak s) (d4_prev_rumble_strong s) (d4_prev_color s)"
  have "ds4_shows_cache s" using ds4_driver.run_result [OF ds4_setup_ok, of evs] Inr by (simp add: ds4_ok_def)
  then have out: "last (intr_reports (pd_sent s)) = sign_report ?out" by (simp add: ds4_shows_cache_def)
  have color: "d4_prev_color s = ds4_requested_color evs"
    using ds4_run_color [OF Inr]
    by (simp add: ds4_requested_color_def uni_hid_parser_ds4_setup_def Let_def ds4_out_defs send_intr_def send_ctrl_def)
  have "ds4_rumble_matches (uni_hid_parser_ds4_setup zero_ds4) (Rumble_off, 0, 0)"
    by (simp add: ds4_rumble_matches_def uni_hid_parser_ds4_setup_def zero_ds4_def Let_def ds4_out_defs
        send_intr_def send_ctrl_def)
  from ds4_run_rumble [OF this Inr]
  have motors: "(d4_prev_rumble_weak s, d4_prev_rumble_strong s) = ds4_motors evs"
    by (simp add: ds4_rumble_matches_def ds4_motors_def)
  have "length ?out = 75 \<and> (?out ! 7, ?out ! 8) = ds4_motors evs
      \<and> (?out ! 9, ?out ! 10, ?out ! 11) = ds4_requested_color evs"
    unfolding motors [symmetric] color [symmetric]
    by (cases "d4_prev_color s") (simp add: ds4_output_report_def)
  with out Inr show ?thesis by auto
qed

end
