(* ===== verification/Ds5.thy ===== *)
theory Ds5
  imports Playstation
begin

text \<open>
  The DualSense driver, \<^verbatim>\<open>uni_hid_parser_ds5.c\<close>: the chain of feature reports that ends in
  \<open>DS5_STATE_READY\<close>, input reports, numbered and signed output reports (player LEDs, lightbar,
  rumble), and the adaptive triggers.
\<close>

datatype ds5_state =
    DS5_STATE_INITIAL
  | DS5_STATE_PAIRING_INFO_REQUEST
  | DS5_STATE_FIRMWARE_VERSION_REQUEST
  | DS5_STATE_CALIBRATION_REQUEST
  | DS5_STATE_READY

record ds5_device = ps_device +
  d5_output_seq :: u8
  d5_state :: ds5_state
  d5_hw_version :: u32
  d5_fw_version :: u32
  d5_update_version :: u16
  d5_use_vibration2 :: bool
  d5_gyro_calib :: calibration_xyz
  d5_accel_calib :: calibration_xyz
  d5_product_id :: u16

section \<open>Output reports\<close>

definition DS5_FLAG0_COMPATIBLE_VIBRATION :: u8 where "DS5_FLAG0_COMPATIBLE_VIBRATION = BIT 0"
definition DS5_FLAG0_HAPTICS_SELECT :: u8 where "DS5_FLAG0_HAPTICS_SELECT = BIT 1"
definition DS5_FLAG0_FFB_RIGHT :: u8 where "DS5_FLAG0_FFB_RIGHT = BIT 2"
definition DS5_FLAG0_FFB_LEFT :: u8 where "DS5_FLAG0_FFB_LEFT = BIT 3"
definition DS5_FLAG1_LIGHTBAR_CONTROL_ENABLE :: u8 where "DS5_FLAG1_LIGHTBAR_CONTROL_ENABLE = BIT 2"
definition DS5_FLAG1_PLAYER_LED_CONTROL_ENABLE :: u8 where "DS5_FLAG1_PLAYER_LED_CONTROL_ENABLE = BIT 4"
definition DS5_FLAG2_LIGHTBAR_SETUP_CONTROL_ENABLE :: u8 where
  "DS5_FLAG2_LIGHTBAR_SETUP_CONTROL_ENABLE = BIT 1"
definition DS5_FLAG2_COMPATIBLE_VIBRATION2 :: u8 where "DS5_FLAG2_COMPATIBLE_VIBRATION2 = BIT 2"
definition DS5_LIGHTBAR_SETUP_LIGHT_OUT :: u8 where "DS5_LIGHTBAR_SETUP_LIGHT_OUT = BIT 1"

text \<open>The fields of \<^verbatim>\<open>ds5_output_report_t\<close> that are ever set; the others are zero.\<close>

record ds5_output_report =
  o5_valid_flag0 :: u8
  o5_valid_flag1 :: u8
  o5_motor_right :: u8
  o5_motor_left :: u8
  o5_right_trigger_ffb :: bytes
  o5_left_trigger_ffb :: bytes
  o5_valid_flag2 :: u8
  o5_lightbar_setup :: u8
  o5_player_leds :: u8
  o5_lightbar_red :: u8
  o5_lightbar_green :: u8
  o5_lightbar_blue :: u8

definition zero_ds5_output :: ds5_output_report where
  "zero_ds5_output = \<lparr>o5_valid_flag0 = 0, o5_valid_flag1 = 0, o5_motor_right = 0, o5_motor_left = 0,
     o5_right_trigger_ffb = replicate 11 0, o5_left_trigger_ffb = replicate 11 0, o5_valid_flag2 = 0,
     o5_lightbar_setup = 0, o5_player_leds = 0, o5_lightbar_red = 0, o5_lightbar_green = 0,
     o5_lightbar_blue = 0\<rparr>"

text \<open>The packed report without its checksum: 75 bytes.\<close>

definition ds5_report_bytes :: "u8 \<Rightarrow> ds5_output_report \<Rightarrow> bytes" where
  "ds5_report_bytes seq_tag out =
     [0xa2, 0x31, seq_tag, 0x10, o5_valid_flag0 out, o5_valid_flag1 out, o5_motor_right out,
      o5_motor_left out, 0, 0, 0, 0, 0, 0]
     @ o5_right_trigger_ffb out @ o5_left_trigger_ffb out @ replicate 6 0
     @ [o5_valid_flag2 out, 0, 0, o5_lightbar_setup out, 0, o5_player_leds out, o5_lightbar_red out,
        o5_lightbar_green out, o5_lightbar_blue out] @ replicate 24 0"

definition ds5_send_output_report :: "ds5_output_report \<Rightarrow> ds5_device \<Rightarrow> ds5_device" where
  "ds5_send_output_report out s =
     (let seq_tag = push_bit 4 (d5_output_seq s);
          seq = d5_output_seq s + 1
      in send_intr (sign_report (ds5_report_bytes seq_tag out))
           (s\<lparr>d5_output_seq := if seq = 15 then 0 else seq\<rparr>))"

definition ds5_led_values :: bytes where
  "ds5_led_values = [0, BIT 2, BIT 1 OR BIT 3, BIT 0 OR BIT 2 OR BIT 4, BIT 0 OR BIT 1 OR BIT 3 OR BIT 4]"

definition uni_hid_parser_ds5_set_player_leds :: "u8 \<Rightarrow> ds5_device \<Rightarrow> ds5_device" where
  "uni_hid_parser_ds5_set_player_leds value s =
     ds5_send_output_report
       (zero_ds5_output\<lparr>o5_player_leds := ds5_led_values ! (unat value mod length ds5_led_values),
          o5_valid_flag1 := DS5_FLAG1_PLAYER_LED_CONTROL_ENABLE\<rparr>) s"

definition uni_hid_parser_ds5_set_lightbar_color :: "u8 \<Rightarrow> u8 \<Rightarrow> u8 \<Rightarrow> ds5_device \<Rightarrow> ds5_device" where
  "uni_hid_parser_ds5_set_lightbar_color r g b s =
     ds5_send_output_report
       (zero_ds5_output\<lparr>o5_lightbar_red := r, o5_lightbar_green := g, o5_lightbar_blue := b,
          o5_valid_flag1 := DS5_FLAG1_LIGHTBAR_CONTROL_ENABLE\<rparr>) s"

text \<open>Both rumble reports select the haptics, with the old or the new vibration flag.\<close>

definition ds5_vibration_flags :: "bool \<Rightarrow> ds5_output_report \<Rightarrow> ds5_output_report" where
  "ds5_vibration_flags use_vibration2 out =
     (if use_vibration2
      then out\<lparr>o5_valid_flag2 := o5_valid_flag2 out OR DS5_FLAG2_COMPATIBLE_VIBRATION2\<rparr>
      else out\<lparr>o5_valid_flag0 := o5_valid_flag0 out OR DS5_FLAG0_COMPATIBLE_VIBRATION\<rparr>)"

definition ds5_stop_rumble_now :: "ds5_device \<Rightarrow> ds5_device cres" where
  "ds5_stop_rumble_now s =
     (if pd_state s = STATE_RUMBLE_DISABLED then Inl Assertion_failed
      else Inr (ds5_send_output_report
                  (ds5_vibration_flags (d5_use_vibration2 s)
                     (zero_ds5_output\<lparr>o5_valid_flag0 := DS5_FLAG0_HAPTICS_SELECT\<rparr>))
                  (s\<lparr>pd_state := STATE_RUMBLE_DISABLED\<rparr>)))"

definition ds5_play_dual_rumble_now :: "u16 \<Rightarrow> u8 \<Rightarrow> u8 \<Rightarrow> ds5_device \<Rightarrow> ds5_device cres" where
  "ds5_play_dual_rumble_now duration_ms weak strong s =
     (if duration_ms = 0 then
        (if pd_state s \<noteq> STATE_RUMBLE_DISABLED then ds5_stop_rumble_now s else Inr s)
      else
        arm_rumble_off duration_ms
          (ds5_send_output_report
             (ds5_vibration_flags (d5_use_vibration2 s)
                (zero_ds5_output\<lparr>o5_valid_flag0 := DS5_FLAG0_HAPTICS_SELECT, o5_motor_right := weak,
                   o5_motor_left := strong\<rparr>)) s))"

definition uni_hid_parser_ds5_play_dual_rumble ::
    "u16 \<Rightarrow> u16 \<Rightarrow> u8 \<Rightarrow> u8 \<Rightarrow> ds5_device \<Rightarrow> ds5_device cres" where
  "uni_hid_parser_ds5_play_dual_rumble = play_dual_rumble ds5_play_dual_rumble_now"

definition on_ds5_set_rumble_on :: "ds5_device \<Rightarrow> ds5_device cres" where
  "on_ds5_set_rumble_on = set_rumble_on ds5_play_dual_rumble_now"

definition on_ds5_set_rumble_off :: "ds5_device \<Rightarrow> ds5_device cres" where
  "on_ds5_set_rumble_off = ds5_stop_rumble_now"

section \<open>Adaptive triggers\<close>

definition DS5_ADAPTIVE_TRIGGER_EFFECT_INVALID :: u8 where "DS5_ADAPTIVE_TRIGGER_EFFECT_INVALID = 0x00"
definition DS5_ADAPTIVE_TRIGGER_EFFECT_OFF :: u8 where "DS5_ADAPTIVE_TRIGGER_EFFECT_OFF = 0x05"
definition DS5_ADAPTIVE_TRIGGER_EFFECT_FEEDBACK :: u8 where "DS5_ADAPTIVE_TRIGGER_EFFECT_FEEDBACK = 0x21"
definition DS5_ADAPTIVE_TRIGGER_EFFECT_WEAPON :: u8 where "DS5_ADAPTIVE_TRIGGER_EFFECT_WEAPON = 0x25"
definition DS5_ADAPTIVE_TRIGGER_EFFECT_VIBRATION :: u8 where "DS5_ADAPTIVE_TRIGGER_EFFECT_VIBRATION = 0x26"

lemmas ds5_effects = DS5_ADAPTIVE_TRIGGER_EFFECT_INVALID_def DS5_ADAPTIVE_TRIGGER_EFFECT_OFF_def
  DS5_ADAPTIVE_TRIGGER_EFFECT_FEEDBACK_def DS5_ADAPTIVE_TRIGGER_EFFECT_WEAPON_def
  DS5_ADAPTIVE_TRIGGER_EFFECT_VIBRATION_def

text \<open>An invalid effect leaves its data uninitialised; nobody reads it. Here it is empty.\<close>

record ds5_adaptive_trigger_effect =
  te_effect :: u8
  te_data :: bytes

definition ds5_invalid_effect :: ds5_adaptive_trigger_effect where
  "ds5_invalid_effect = \<lparr>te_effect = DS5_ADAPTIVE_TRIGGER_EFFECT_INVALID, te_data = []\<rparr>"

definition ds5_new_adaptive_trigger_effect_off :: ds5_adaptive_trigger_effect where
  "ds5_new_adaptive_trigger_effect_off =
     \<lparr>te_effect = DS5_ADAPTIVE_TRIGGER_EFFECT_OFF, te_data = replicate 10 0\<rparr>"

text \<open>
  The loop over the zones from \<open>position\<close> to 9: three bits of force and one bit of activity for
  each. \<^verbatim>\<open>(strength - 1) & 0x07\<close> is computed in \<^verbatim>\<open>int\<close>: 0 gives 7.
\<close>

definition zone_force :: "u8 \<Rightarrow> u8" where
  "zone_force strength = word_of_int ((uint strength - 1) AND 7)"

definition zone_masks :: "u8 \<Rightarrow> u8 \<Rightarrow> u32 \<times> u16" where
  "zone_masks position force =
     foldl (\<lambda>(forces, active) i. (forces OR push_bit (i * 3) (ucast force), active OR push_bit i 1))
       (0, 0) [unat position..<10]"

definition zone_bytes :: "u32 \<times> u16 \<Rightarrow> bytes" where
  "zone_bytes zones = (case zones of (forces, active) \<Rightarrow>
     [ucast (active AND 0xff), ucast (drop_bit 8 active AND 0xff), ucast (forces AND 0xff),
      ucast (drop_bit 8 forces AND 0xff), ucast (drop_bit 16 forces AND 0xff),
      ucast (drop_bit 24 forces AND 0xff)])"

definition ds5_new_adaptive_trigger_effect_feedback :: "u8 \<Rightarrow> u8 \<Rightarrow> ds5_adaptive_trigger_effect" where
  "ds5_new_adaptive_trigger_effect_feedback position strength =
     (if 9 < position then ds5_invalid_effect
      else if 8 < strength then ds5_invalid_effect
      else \<lparr>te_effect = DS5_ADAPTIVE_TRIGGER_EFFECT_FEEDBACK,
            te_data = zone_bytes (zone_masks position (zone_force strength)) @ replicate 4 0\<rparr>)"

definition ds5_new_adaptive_trigger_effect_weapon :: "u8 \<Rightarrow> u8 \<Rightarrow> u8 \<Rightarrow> ds5_adaptive_trigger_effect" where
  "ds5_new_adaptive_trigger_effect_weapon start_position end_position strength =
     (if start_position < 2 \<or> 7 < start_position then ds5_invalid_effect
      else if end_position \<le> start_position \<or> 8 < end_position then ds5_invalid_effect
      else if 8 < strength then ds5_invalid_effect
      else
        let zones = push_bit (unat start_position) 1 OR push_bit (unat end_position) 1 :: u16
        in \<lparr>te_effect = DS5_ADAPTIVE_TRIGGER_EFFECT_WEAPON,
            te_data = [ucast (zones AND 0xff), ucast (drop_bit 8 zones AND 0xff), strength - 1]
                      @ replicate 7 0\<rparr>)"

definition ds5_new_adaptive_trigger_effect_vibration :: "u8 \<Rightarrow> u8 \<Rightarrow> u8 \<Rightarrow> ds5_adaptive_trigger_effect" where
  "ds5_new_adaptive_trigger_effect_vibration position amplitude frequency =
     (if 9 < position then ds5_invalid_effect
      else if 8 < amplitude then ds5_invalid_effect
      else \<lparr>te_effect = DS5_ADAPTIVE_TRIGGER_EFFECT_VIBRATION,
            te_data = zone_bytes (zone_masks position (zone_force amplitude)) @ [0, 0, frequency, 0]\<rparr>)"

datatype ds5_adaptive_trigger_type = UNI_ADAPTIVE_TRIGGER_TYPE_LEFT | UNI_ADAPTIVE_TRIGGER_TYPE_RIGHT

definition ds5_set_adaptive_trigger_effect ::
    "ds5_adaptive_trigger_type \<Rightarrow> ds5_adaptive_trigger_effect \<Rightarrow> ds5_device \<Rightarrow> ds5_device" where
  "ds5_set_adaptive_trigger_effect trigger_type effect s =
     (if te_effect effect = DS5_ADAPTIVE_TRIGGER_EFFECT_INVALID then s
      else
        let ffb = te_effect effect # te_data effect
        in ds5_send_output_report
             (case trigger_type of
                UNI_ADAPTIVE_TRIGGER_TYPE_LEFT \<Rightarrow>
                  zero_ds5_output\<lparr>o5_valid_flag0 := DS5_FLAG0_FFB_LEFT, o5_left_trigger_ffb := ffb\<rparr>
              | UNI_ADAPTIVE_TRIGGER_TYPE_RIGHT \<Rightarrow>
                  zero_ds5_output\<lparr>o5_valid_flag0 := DS5_FLAG0_FFB_RIGHT, o5_right_trigger_ffb := ffb\<rparr>) s)"

section \<open>Setup and feature reports\<close>

definition DS5_FEATURE_REPORT_CALIBRATION :: u8 where "DS5_FEATURE_REPORT_CALIBRATION = 0x05"
definition DS5_FEATURE_REPORT_PAIRING_INFO :: u8 where "DS5_FEATURE_REPORT_PAIRING_INFO = 0x09"
definition DS5_FEATURE_REPORT_FIRMWARE_VERSION :: u8 where "DS5_FEATURE_REPORT_FIRMWARE_VERSION = 0x20"
definition DS5_EDGE_PID :: u16 where "DS5_EDGE_PID = 0x0df2"

lemmas ds5_feature_ids = DS5_FEATURE_REPORT_CALIBRATION_def DS5_FEATURE_REPORT_PAIRING_INFO_def
  DS5_FEATURE_REPORT_FIRMWARE_VERSION_def

definition DS5_FEATURE_VERSION :: "nat \<Rightarrow> nat \<Rightarrow> nat" where
  "DS5_FEATURE_VERSION major minor = push_bit 8 (major AND 0xff) OR (minor AND 0xff)"

definition ds5_request_pairing_info_report :: "ds5_device \<Rightarrow> ds5_device" where
  "ds5_request_pairing_info_report s =
     send_ctrl [0x43, DS5_FEATURE_REPORT_PAIRING_INFO] (s\<lparr>d5_state := DS5_STATE_PAIRING_INFO_REQUEST\<rparr>)"

definition ds5_request_firmware_version_report :: "ds5_device \<Rightarrow> ds5_device" where
  "ds5_request_firmware_version_report s =
     send_ctrl [0x43, DS5_FEATURE_REPORT_FIRMWARE_VERSION]
       (s\<lparr>d5_state := DS5_STATE_FIRMWARE_VERSION_REQUEST\<rparr>)"

definition ds5_request_calibration_report :: "ds5_device \<Rightarrow> ds5_device" where
  "ds5_request_calibration_report s =
     send_ctrl [0x43, DS5_FEATURE_REPORT_CALIBRATION] (s\<lparr>d5_state := DS5_STATE_CALIBRATION_REQUEST\<rparr>)"

text \<open>The driver's part; the ready callback and the virtual mouse are \<open>complete_with_virtual_mouse\<close>.\<close>

definition ds5_send_enable_lightbar_report :: "ds5_device \<Rightarrow> ds5_device" where
  "ds5_send_enable_lightbar_report s =
     (ds5_send_output_report
        (zero_ds5_output\<lparr>o5_lightbar_blue := 255, o5_valid_flag1 := DS5_FLAG1_LIGHTBAR_CONTROL_ENABLE,
           o5_valid_flag2 := DS5_FLAG2_LIGHTBAR_SETUP_CONTROL_ENABLE,
           o5_lightbar_setup := DS5_LIGHTBAR_SETUP_LIGHT_OUT\<rparr>) s)\<lparr>d5_state := DS5_STATE_READY\<rparr>"

definition uni_hid_parser_ds5_setup :: "ds5_device \<Rightarrow> ds5_device" where
  "uni_hid_parser_ds5_setup s =
     ds5_request_pairing_info_report
       (s\<lparr>pd_state := STATE_RUMBLE_DISABLED, pd_timer_duration := None, pd_timer_delayed_start := None,
          pd_weak_magnitude := 0, pd_strong_magnitude := 0, pd_duration_ms := 0, d5_output_seq := 0,
          d5_hw_version := 0, d5_fw_version := 0, d5_update_version := 0, d5_use_vibration2 := False,
          d5_gyro_calib := (default_gyro_calibration, default_gyro_calibration, default_gyro_calibration),
          d5_accel_calib := (default_accel_calibration, default_accel_calibration, default_accel_calibration)\<rparr>)"

definition ds5_calibration :: "int list \<Rightarrow> calibration_xyz \<times> calibration_xyz" where
  "ds5_calibration v =
     (let pitch_bias = v ! 0; yaw_bias = v ! 1; roll_bias = v ! 2;
          speed_2x = v ! 9 + v ! 10
      in ((gyro_calibration speed_2x (\<bar>v ! 3 - pitch_bias\<bar> + \<bar>v ! 4 + pitch_bias\<bar>),
           gyro_calibration speed_2x (\<bar>v ! 5 - yaw_bias\<bar> + \<bar>v ! 6 - yaw_bias\<bar>),
           gyro_calibration speed_2x (\<bar>v ! 7 - roll_bias\<bar> + \<bar>v ! 8 - roll_bias\<bar>)),
          (accel_calibration (v ! 11) (v ! 12), accel_calibration (v ! 13) (v ! 14),
           accel_calibration (v ! 15) (v ! 16))))"

definition uni_hid_parser_ds5_parse_feature_report :: "bytes \<Rightarrow> ds5_device \<Rightarrow> ds5_device cres" where
  "uni_hid_parser_ds5_parse_feature_report report s =
     bindR (read_byte report 0) (\<lambda>report_id.
       if report_id = DS5_FEATURE_REPORT_PAIRING_INFO then Inr (ds5_request_firmware_version_report s)
       else if report_id = DS5_FEATURE_REPORT_FIRMWARE_VERSION then
         bindR (read_u32 report 24) (\<lambda>hw. bindR (read_u32 report 28) (\<lambda>fw.
         mapR (\<lambda>update. ds5_request_calibration_report
                  (s\<lparr>d5_hw_version := hw, d5_fw_version := fw, d5_update_version := update,
                     d5_use_vibration2 := (d5_product_id s = DS5_EDGE_PID
                                           \<or> DS5_FEATURE_VERSION 2 21 \<le> unat update)\<rparr>))
           (read_u16 report 44)))
       else if report_id = DS5_FEATURE_REPORT_CALIBRATION then
         mapR (\<lambda>v. ds5_send_enable_lightbar_report
                  (s\<lparr>d5_gyro_calib := fst (ds5_calibration v), d5_accel_calib := snd (ds5_calibration v)\<rparr>))
           (read_i16s 17 report 1)
       else Inr s)"

section \<open>Input\<close>

definition uni_hid_parser_ds5_init_report :: "ds5_device \<Rightarrow> ds5_device" where
  "uni_hid_parser_ds5_init_report = init_report_with_mouse"

definition ds5_misc_2 :: "(u8 \<times> u8) list" where
  "ds5_misc_2 = [(0x01, MISC_BUTTON_SYSTEM), (0x04, MISC_BUTTON_CAPTURE)]"

definition ds5_fill :: "bytes \<Rightarrow> uni_controller \<Rightarrow> uni_controller cres" where
  "ds5_fill report ctl =
     bindR (read_byte report 2) (\<lambda>x. bindR (read_byte report 3) (\<lambda>y.
     bindR (read_byte report 4) (\<lambda>rx. bindR (read_byte report 5) (\<lambda>ry.
     bindR (read_byte report 6) (\<lambda>brake. bindR (read_byte report 7) (\<lambda>throttle.
     bindR (read_byte report 9) (\<lambda>b0. bindR (read_byte report 10) (\<lambda>b1. bindR (read_byte report 11) (\<lambda>b2.
     Inr (ctl\<lparr>ctl_gamepad := ps_gamepad x y rx ry brake throttle b0 b1 ds5_misc_2 b2 (ctl_gamepad ctl)\<rparr>))))))))))"

definition ds5_parse_mouse :: "bytes \<Rightarrow> ds5_device \<Rightarrow> ds5_device cres" where
  "ds5_parse_mouse report s =
     (case pd_mouse s of
        None \<Rightarrow> Inr s
      | Some child \<Rightarrow>
          bindR (read_touch_point report 34) (\<lambda>point.
          mapR (\<lambda>b2. let child' = move_mouse point b2 child
                     in s\<lparr>pd_mouse := Some child', pd_mouse_reports := pd_mouse_reports s @ [snd child']\<rparr>)
            (read_byte report 11)))"

definition uni_hid_parser_ds5_parse_input_report :: "bytes \<Rightarrow> nat \<Rightarrow> ds5_device \<Rightarrow> ds5_device cres" where
  "uni_hid_parser_ds5_parse_input_report report len s =
     (if d5_state s \<noteq> DS5_STATE_READY then Inr s
      else
        bindR (read_byte report 0) (\<lambda>report_id.
        if report_id \<noteq> 0x31 then Inr s
        else if len \<noteq> 78 then Inr s
        else
          bindR (ds5_fill report (pd_controller s)) (\<lambda>ctl.
          bindR (sensor_xyz (d5_gyro_calib s) report 17) (\<lambda>gyro.
          bindR (sensor_xyz (d5_accel_calib s) report 23) (\<lambda>accel.
          bindR (read_byte report 54) (\<lambda>status.
            ds5_parse_mouse report
              (s\<lparr>pd_controller := ctl\<lparr>ctl_battery := ps_battery status,
                   ctl_gamepad := (ctl_gamepad ctl)\<lparr>gp_gyro := gyro, gp_accel := accel\<rparr>\<rparr>\<rparr>)))))))"

definition ds5_report_parser :: "ds5_device report_parser" where
  "ds5_report_parser = \<lparr>rp_init_report = Some uni_hid_parser_ds5_init_report,
     rp_parse_input_report = Some uni_hid_parser_ds5_parse_input_report, rp_parse_usage = None\<rparr>"

definition ds5_input :: "bytes \<Rightarrow> ds5_device \<Rightarrow> ds5_device cres" where
  "ds5_input report s =
     uni_hid_parser_ds5_parse_input_report report (length report) (uni_hid_parser_ds5_init_report s)"

lemma ds5_input_of_report_loop:
  "uni_hid_parse_input_report ds5_report_parser descriptor report (length report) s
    = Some (ds5_input report s)"
  by (simp add: uni_hid_parse_input_report_def ds5_report_parser_def ds5_input_def split: sum.splits)

section \<open>The driver as a machine\<close>

text \<open>A trigger request of the application: one of the four effects with its parameters.\<close>

datatype ds5_trigger_request =
    Trigger_off
  | Trigger_feedback u8 u8
  | Trigger_weapon u8 u8 u8
  | Trigger_vibration u8 u8 u8

definition ds5_requested_effect :: "ds5_trigger_request \<Rightarrow> ds5_adaptive_trigger_effect" where
  "ds5_requested_effect req = (case req of
     Trigger_off \<Rightarrow> ds5_new_adaptive_trigger_effect_off
   | Trigger_feedback position strength \<Rightarrow> ds5_new_adaptive_trigger_effect_feedback position strength
   | Trigger_weapon start_position end_position strength \<Rightarrow>
       ds5_new_adaptive_trigger_effect_weapon start_position end_position strength
   | Trigger_vibration position amplitude frequency \<Rightarrow>
       ds5_new_adaptive_trigger_effect_vibration position amplitude frequency)"

datatype ds5_event =
    Ds5_virtual_mouse bool
  | Ds5_set_player_leds u8
  | Ds5_set_lightbar_color u8 u8 u8
  | Ds5_trigger ds5_adaptive_trigger_type ds5_trigger_request
  | Ds5_play u16 u16 u8 u8
  | Ds5_delayed_timer
  | Ds5_duration_timer
  | Ds5_feature_report bytes
  | Ds5_report bytes

definition ds5_step :: "ds5_event \<Rightarrow> ds5_device \<Rightarrow> ds5_device cres" where
  "ds5_step ev s = (case ev of
     Ds5_virtual_mouse present \<Rightarrow>
       Inr (s\<lparr>pd_mouse := if present then Some (zero_touch, zero_controller) else None\<rparr>)
   | Ds5_set_player_leds value \<Rightarrow> Inr (uni_hid_parser_ds5_set_player_leds value s)
   | Ds5_set_lightbar_color r g b \<Rightarrow> Inr (uni_hid_parser_ds5_set_lightbar_color r g b s)
   | Ds5_trigger trigger_type req \<Rightarrow>
       Inr (ds5_set_adaptive_trigger_effect trigger_type (ds5_requested_effect req) s)
   | Ds5_play delay duration weak strong \<Rightarrow> uni_hid_parser_ds5_play_dual_rumble delay duration weak strong s
   | Ds5_delayed_timer \<Rightarrow> fire_delayed_timer on_ds5_set_rumble_on s
   | Ds5_duration_timer \<Rightarrow> fire_duration_timer on_ds5_set_rumble_off s
   | Ds5_feature_report report \<Rightarrow> uni_hid_parser_ds5_parse_feature_report report s
   | Ds5_report report \<Rightarrow> ds5_input report s)"

text \<open>Every output report has its length, the next sequence number, and a valid checksum.\<close>

definition signed_reports :: "ds5_device \<Rightarrow> bool" where
  "signed_reports s \<longleftrightarrow>
     list_all (\<lambda>r. length r = 79 \<and> uni_crc32_le 0xffffffff r = 0xdebb20e3) (intr_reports (pd_sent s))
     \<and> map (\<lambda>r. unat (drop_bit 4 (r ! 2))) (intr_reports (pd_sent s))
       = map (\<lambda>i. i mod 15) [0..<length (intr_reports (pd_sent s))]
     \<and> unat (d5_output_seq s) = length (intr_reports (pd_sent s)) mod 15"

definition ds5_ok :: "ds5_device \<Rightarrow> bool" where
  "ds5_ok s \<longleftrightarrow> rumble_timers_ok s \<and> signed_reports s
     \<and> calibrations_xyz_ok (d5_gyro_calib s) \<and> calibrations_xyz_ok (d5_accel_calib s)
     \<and> ps_gamepad_ok (ctl_gamepad (pd_controller s))
     \<and> mouse_state_ok (pd_mouse s) \<and> list_all mouse_ok (pd_mouse_reports s)"

definition ds5_short_feature :: "bytes \<Rightarrow> bool" where
  "ds5_short_feature r \<longleftrightarrow> r = []
     \<or> hd r = DS5_FEATURE_REPORT_CALIBRATION \<and> length r < 35
     \<or> hd r = DS5_FEATURE_REPORT_FIRMWARE_VERSION \<and> length r < 46"

section \<open>Numbered and signed reports\<close>

lemma sequence_tag:
  assumes "unat w < 15"
  shows "drop_bit 4 (push_bit 4 (w :: u8)) = w" and "unat (if w + 1 = 15 then 0 else w + 1) = Suc (unat w) mod 15"
proof -
  have range: "unat w \<in> set [0..<15]" using assms by simp
  have w: "word_of_nat (unat w) = w" by simp
  have "\<forall>n \<in> set [0..<15]. drop_bit 4 (push_bit 4 (word_of_nat n :: u8)) = word_of_nat n
      \<and> unat (if word_of_nat n + 1 = (15 :: u8) then 0 else word_of_nat n + 1 :: u8) = Suc n mod 15"
    by code_simp
  from bspec [OF this range, unfolded w]
  show "drop_bit 4 (push_bit 4 w) = w" "unat (if w + 1 = 15 then 0 else w + 1) = Suc (unat w) mod 15"
    by blast+
qed

lemma length_sign_report: "length (sign_report body) = length body + 4"
  by (simp add: sign_report_def le32_def)

lemma sign_report_nth: "i < length body \<Longrightarrow> sign_report body ! i = body ! i"
  by (simp add: sign_report_def nth_append)

definition triggers_sized :: "ds5_output_report \<Rightarrow> bool" where
  "triggers_sized out \<longleftrightarrow> length (o5_right_trigger_ffb out) = 11 \<and> length (o5_left_trigger_ffb out) = 11"

lemma ds5_send_signed:
  assumes "signed_reports s" and "triggers_sized out"
  shows "signed_reports (ds5_send_output_report out s)"
proof -
  let ?rs = "intr_reports (pd_sent s)" and ?seq = "d5_output_seq s"
  let ?r = "sign_report (ds5_report_bytes (push_bit 4 ?seq) out)"
  have len: "length (ds5_report_bytes (push_bit 4 ?seq) out) = 75"
    using assms(2) by (simp add: ds5_report_bytes_def triggers_sized_def)
  have seq: "unat ?seq = length ?rs mod 15" using assms(1) by (simp add: signed_reports_def)
  then have small: "unat ?seq < 15" by simp
  have "?r ! 2 = push_bit 4 ?seq" using len by (simp add: sign_report_nth) (simp add: ds5_report_bytes_def)
  then have tag: "unat (drop_bit 4 (?r ! 2)) = length ?rs mod 15" using sequence_tag(1) [OF small] seq by simp
  have sent: "intr_reports (pd_sent (ds5_send_output_report out s)) = ?rs @ [?r]"
    "d5_output_seq (ds5_send_output_report out s) = (if ?seq + 1 = 15 then 0 else ?seq + 1)"
    by (simp_all add: ds5_send_output_report_def send_intr_def Let_def)
  have "unat (d5_output_seq (ds5_send_output_report out s)) = Suc (length ?rs) mod 15"
    unfolding sent sequence_tag(2) [OF small] seq by (simp add: mod_Suc_eq)
  moreover have "length ?r = 79" using len by (simp add: length_sign_report)
  ultimately show ?thesis
    using assms(1) tag crc_of_signed_report [of "ds5_report_bytes (push_bit 4 ?seq) out"]
    unfolding signed_reports_def sent by simp
qed

lemma ds5_send_frame:
  "rumble_timers_ok (ds5_send_output_report out s) = rumble_timers_ok s"
  "pd_state (ds5_send_output_report out s) = pd_state s"
  "pd_timer_duration (ds5_send_output_report out s) = pd_timer_duration s"
  "pd_timer_delayed_start (ds5_send_output_report out s) = pd_timer_delayed_start s"
  "d5_gyro_calib (ds5_send_output_report out s) = d5_gyro_calib s"
  "d5_accel_calib (ds5_send_output_report out s) = d5_accel_calib s"
  "pd_controller (ds5_send_output_report out s) = pd_controller s"
  "pd_mouse (ds5_send_output_report out s) = pd_mouse s"
  "pd_mouse_reports (ds5_send_output_report out s) = pd_mouse_reports s"
  "d5_state (ds5_send_output_report out s) = d5_state s"
  by (simp_all add: ds5_send_output_report_def send_intr_def Let_def rumble_timers_ok_def)

lemma ds5_send_ok: "\<lbrakk>ds5_ok s; triggers_sized out\<rbrakk> \<Longrightarrow> ds5_ok (ds5_send_output_report out s)"
  by (simp add: ds5_ok_def ds5_send_frame ds5_send_signed)

lemma sized_outputs:
  "triggers_sized zero_ds5_output"
  "triggers_sized (out\<lparr>o5_valid_flag0 := a\<rparr>) = triggers_sized out"
  "triggers_sized (out\<lparr>o5_valid_flag1 := a\<rparr>) = triggers_sized out"
  "triggers_sized (out\<lparr>o5_valid_flag2 := a\<rparr>) = triggers_sized out"
  "triggers_sized (out\<lparr>o5_lightbar_setup := a\<rparr>) = triggers_sized out"
  "triggers_sized (out\<lparr>o5_player_leds := a\<rparr>) = triggers_sized out"
  "triggers_sized (out\<lparr>o5_lightbar_red := a\<rparr>) = triggers_sized out"
  "triggers_sized (out\<lparr>o5_lightbar_green := a\<rparr>) = triggers_sized out"
  "triggers_sized (out\<lparr>o5_lightbar_blue := a\<rparr>) = triggers_sized out"
  "triggers_sized (out\<lparr>o5_motor_right := a\<rparr>) = triggers_sized out"
  "triggers_sized (out\<lparr>o5_motor_left := a\<rparr>) = triggers_sized out"
  "triggers_sized (ds5_vibration_flags v out) = triggers_sized out"
  by (simp_all add: triggers_sized_def zero_ds5_output_def ds5_vibration_flags_def)

lemma ds5_requested_effect_sized:
  "te_effect (ds5_requested_effect req) = DS5_ADAPTIVE_TRIGGER_EFFECT_INVALID
    \<or> length (te_data (ds5_requested_effect req)) = 10"
  by (cases req)
    (auto simp: ds5_requested_effect_def ds5_new_adaptive_trigger_effect_off_def ds5_invalid_effect_def
      ds5_new_adaptive_trigger_effect_feedback_def ds5_new_adaptive_trigger_effect_weapon_def
      ds5_new_adaptive_trigger_effect_vibration_def zone_bytes_def Let_def split: prod.splits)

lemma ds5_trigger_ok:
  assumes "ds5_ok s"
  shows "ds5_ok (ds5_set_adaptive_trigger_effect t (ds5_requested_effect req) s)"
proof (cases "te_effect (ds5_requested_effect req) = DS5_ADAPTIVE_TRIGGER_EFFECT_INVALID")
  case True
  with assms show ?thesis by (simp add: ds5_set_adaptive_trigger_effect_def)
next
  case False
  with ds5_requested_effect_sized [of req] have "length (te_data (ds5_requested_effect req)) = 10" by simp
  with assms False show ?thesis
    by (cases t) (simp_all add: ds5_set_adaptive_trigger_effect_def Let_def ds5_send_ok triggers_sized_def
        zero_ds5_output_def)
qed

section \<open>The rumble\<close>

lemma ds5_ok_rumble_update:
  "ds5_ok s \<Longrightarrow> rumble_timers_ok s' \<Longrightarrow> signed_reports s' = signed_reports s \<Longrightarrow>
    d5_gyro_calib s' = d5_gyro_calib s \<Longrightarrow> d5_accel_calib s' = d5_accel_calib s \<Longrightarrow>
    pd_controller s' = pd_controller s \<Longrightarrow> pd_mouse s' = pd_mouse s \<Longrightarrow>
    pd_mouse_reports s' = pd_mouse_reports s \<Longrightarrow> ds5_ok s'"
  by (simp add: ds5_ok_def)

interpretation ds5: rumble_driver ds5_play_dual_rumble_now on_ds5_set_rumble_off ds5_ok
proof
  fix s s' :: ds5_device and duration d1 d2 :: u16 and weak strong :: u8
  have stop: "\<exists>s'. ds5_stop_rumble_now s = Inr s' \<and> ds5_ok s'"
    if "ds5_ok s" "pd_state s \<noteq> STATE_RUMBLE_DISABLED" "pd_timer_duration s = None"
      "pd_timer_delayed_start s = None" for s
  proof -
    have "ds5_ok (s\<lparr>pd_state := STATE_RUMBLE_DISABLED\<rparr>)"
      by (rule ds5_ok_rumble_update [OF that(1)]) (use that in \<open>simp_all add: rumble_timers_ok_def signed_reports_def\<close>)
    with that(2) show ?thesis by (simp add: ds5_stop_rumble_now_def ds5_send_ok sized_outputs)
  qed
  show timers: "rumble_timers_ok s" if "ds5_ok s" using that by (simp add: ds5_ok_def)
  show "\<exists>s'. ds5_play_dual_rumble_now duration weak strong s = Inr s' \<and> ds5_ok s'"
    if "ds5_ok s" "pd_timer_delayed_start s = None" "pd_timer_duration s = None"
  proof (cases "duration = 0")
    case True
    with stop [OF that(1) _ that(3,2)] that(1) show ?thesis
      by (simp add: ds5_play_dual_rumble_now_def)
  next
    case False
    let ?s = "ds5_send_output_report (ds5_vibration_flags (d5_use_vibration2 s)
                (zero_ds5_output\<lparr>o5_valid_flag0 := DS5_FLAG0_HAPTICS_SELECT, o5_motor_right := weak,
                   o5_motor_left := strong\<rparr>)) s"
    have "ds5_ok ?s" by (simp add: that(1) ds5_send_ok sized_outputs)
    then have "ds5_ok (?s\<lparr>pd_state := STATE_RUMBLE_IN_PROGRESS, pd_timer_duration := Some duration\<rparr>)"
      by (rule ds5_ok_rumble_update) (simp_all add: rumble_timers_ok_def signed_reports_def ds5_send_frame that)
    with False show ?thesis
      by (simp add: ds5_play_dual_rumble_now_def arm_rumble_off_def add_timer_def ds5_send_frame that)
  qed
  show "\<exists>s'. on_ds5_set_rumble_off s = Inr s' \<and> ds5_ok s'"
    if "ds5_ok s" "pd_state s = STATE_RUMBLE_IN_PROGRESS" "pd_timer_duration s = None"
    using stop [OF that(1) _ that(3)] that timers by (auto simp: on_ds5_set_rumble_off_def rumble_timers_ok_def)
  show "ds5_ok (remove_rumble_timer s)" if "ds5_ok s"
    by (rule ds5_ok_rumble_update [OF that])
      (use timers [OF that] in \<open>auto simp: remove_rumble_timer_def rumble_timers_ok_def signed_reports_def
        split: rumble_state.splits\<close>)
  show "ds5_ok (s\<lparr>pd_timer_delayed_start := None\<rparr>) \<and> ds5_ok (s\<lparr>pd_timer_duration := None\<rparr>)" if "ds5_ok s"
    using that by (simp add: ds5_ok_def rumble_timers_ok_def signed_reports_def)
  show "ds5_ok s'" if "ds5_ok s" "pd_timer_delayed_start s = None" "pd_timer_duration s = None"
    "delay_rumble d1 d2 weak strong s = Inr s'"
    using that by (auto simp: ds5_ok_def delay_rumble_def add_timer_def rumble_timers_ok_def signed_reports_def)
qed

section \<open>Feature and input reports\<close>

lemma read_u32_total: "i + 3 < length bs \<Longrightarrow> \<exists>w. read_u32 bs i = Inr w"
  using read_u16_total [of i bs] read_u16_total [of "i + 2" bs] by (auto simp: read_u32_def)

lemma read_u32_fails: "read_u32 bs i = Inl e \<Longrightarrow> e = Out_of_bounds \<and> length bs \<le> i + 3"
  by (auto simp: read_u32_def read_u16_def read_byte_def split: if_splits)

lemma ds5_calibration_ok:
  assumes "length v = 17" and "\<forall>x \<in> set v. - 32768 \<le> x \<and> x \<le> 32767"
  shows "calibrations_xyz_ok (fst (ds5_calibration v))" "calibrations_xyz_ok (snd (ds5_calibration v))"
proof -
  have b: "i < 17 \<Longrightarrow> - 32768 \<le> v ! i \<and> v ! i \<le> 32767" for i
    using assms by simp
  have speed: "\<bar>v ! 9 + v ! 10\<bar> \<le> 65536" using b [of 9] b [of 10] by (simp add: abs_le_iff)
  have denom: "in_i32 (\<bar>v ! i - v ! j\<bar> + \<bar>v ! k - v ! j\<bar>)" "in_i32 (\<bar>v ! i - v ! j\<bar> + \<bar>v ! k + v ! j\<bar>)"
    if "i < 17" "j < 17" "k < 17" for i j k
    using b [OF that(1)] b [OF that(2)] b [OF that(3)] by (simp_all add: in_i32_def abs_if)
  have acc: "\<bar>v ! i\<bar> \<le> 32768" if "i < 17" for i using b [OF that] by (simp add: abs_le_iff)
  show "calibrations_xyz_ok (fst (ds5_calibration v))"
    unfolding ds5_calibration_def Let_def calibrations_xyz_ok_def fst_conv snd_conv
    by (intro conjI calibrations_ok(3) speed denom) simp_all
  show "calibrations_xyz_ok (snd (ds5_calibration v))"
    unfolding ds5_calibration_def Let_def calibrations_xyz_ok_def fst_conv snd_conv
    by (intro conjI calibrations_ok(4) acc) simp_all
qed

lemma ds5_firmware_result:
  assumes "r \<noteq> []" and "hd r = DS5_FEATURE_REPORT_FIRMWARE_VERSION"
  shows "if length r < 46 then uni_hid_parser_ds5_parse_feature_report r s = Inl Out_of_bounds
    else \<exists>hw fw update v2. uni_hid_parser_ds5_parse_feature_report r s
      = Inr (ds5_request_calibration_report (s\<lparr>d5_hw_version := hw, d5_fw_version := fw,
               d5_update_version := update, d5_use_vibration2 := v2\<rparr>))"
proof -
  have hd: "read_byte r 0 = Inr DS5_FEATURE_REPORT_FIRMWARE_VERSION"
    using assms by (cases r) (simp_all add: read_byte_def)
  note parse = uni_hid_parser_ds5_parse_feature_report_def hd bindR_simps if_True if_False
  show ?thesis
  proof (cases "length r < 46")
    case True
    have "(case read_u32 r 24 of Inl e \<Rightarrow> e = Out_of_bounds | Inr _ \<Rightarrow> True)"
      "(case read_u32 r 28 of Inl e \<Rightarrow> e = Out_of_bounds | Inr _ \<Rightarrow> True)"
      using read_u32_fails by (auto split: sum.splits)
    moreover have "read_u16 r 44 = Inl Out_of_bounds"
      using True by (auto simp: read_u16_def read_byte_def)
    ultimately show ?thesis using True
      by (auto simp: parse ds5_feature_ids split: sum.splits)
  next
    case False
    then obtain hw fw update where "read_u32 r 24 = Inr hw" "read_u32 r 28 = Inr fw" "read_u16 r 44 = Inr update"
      using read_u32_total [of 24 r] read_u32_total [of 28 r] read_u16_total [of 44 r] by auto
    with False show ?thesis by (auto simp: parse ds5_feature_ids)
  qed
qed

lemma ds5_feature_result:
  assumes "ds5_ok s"
  shows "case uni_hid_parser_ds5_parse_feature_report r s of
      Inl e \<Rightarrow> e = Out_of_bounds \<and> ds5_short_feature r | Inr s' \<Rightarrow> ds5_ok s'"
proof (cases r)
  case Nil
  then show ?thesis
    by (simp add: uni_hid_parser_ds5_parse_feature_report_def read_byte_def ds5_short_feature_def)
next
  case (Cons b bs)
  then have b: "read_byte r 0 = Inr b" "hd r = b" "r \<noteq> []" by (simp_all add: read_byte_def)
  have request: "ds5_ok (send_ctrl out (s\<lparr>d5_state := st\<rparr>))" for out st
    using assms by (simp add: ds5_ok_def send_ctrl_def rumble_timers_ok_def signed_reports_def)
  consider (pair) "b = DS5_FEATURE_REPORT_PAIRING_INFO" | (fw) "b = DS5_FEATURE_REPORT_FIRMWARE_VERSION"
    | (cal) "b = DS5_FEATURE_REPORT_CALIBRATION"
    | (other) "b \<noteq> DS5_FEATURE_REPORT_PAIRING_INFO" "b \<noteq> DS5_FEATURE_REPORT_FIRMWARE_VERSION"
        "b \<noteq> DS5_FEATURE_REPORT_CALIBRATION" by blast
  then show ?thesis
  proof cases
    case pair
    with b request show ?thesis
      by (simp add: uni_hid_parser_ds5_parse_feature_report_def ds5_request_firmware_version_report_def)
  next
    case fw
    have keep: "ds5_ok (ds5_request_calibration_report (s\<lparr>d5_hw_version := hw, d5_fw_version := fw,
               d5_update_version := update, d5_use_vibration2 := v2\<rparr>))" for hw fw update v2
      using assms by (simp add: ds5_request_calibration_report_def ds5_ok_def send_ctrl_def
          rumble_timers_ok_def signed_reports_def)
    from ds5_firmware_result [OF b(3), of s] fw b keep show ?thesis
      by (auto simp: ds5_short_feature_def split: if_splits)
  next
    case cal
    show ?thesis
    proof (cases "read_i16s 17 r 1")
      case (Inl e)
      with read_i16s_fails [OF Inl] show ?thesis using b cal
        by (simp add: uni_hid_parser_ds5_parse_feature_report_def ds5_short_feature_def ds5_feature_ids)
    next
      case (Inr v)
      let ?s = "s\<lparr>d5_gyro_calib := fst (ds5_calibration v), d5_accel_calib := snd (ds5_calibration v)\<rparr>"
      have "ds5_ok ?s"
        using assms read_i16s_bounds [OF Inr] ds5_calibration_ok [of v]
        by (simp add: ds5_ok_def rumble_timers_ok_def signed_reports_def)
      then have "ds5_ok (ds5_send_output_report (zero_ds5_output\<lparr>o5_lightbar_blue := 255,
          o5_valid_flag1 := DS5_FLAG1_LIGHTBAR_CONTROL_ENABLE,
          o5_valid_flag2 := DS5_FLAG2_LIGHTBAR_SETUP_CONTROL_ENABLE,
          o5_lightbar_setup := DS5_LIGHTBAR_SETUP_LIGHT_OUT\<rparr>) ?s)"
        by (simp add: ds5_send_ok sized_outputs)
      then have "ds5_ok (ds5_send_enable_lightbar_report ?s)"
        by (simp add: ds5_send_enable_lightbar_report_def ds5_ok_def rumble_timers_ok_def signed_reports_def)
      with Inr b cal show ?thesis
        by (simp add: uni_hid_parser_ds5_parse_feature_report_def ds5_feature_ids)
    qed
  next
    case other
    with b assms show ?thesis by (simp add: uni_hid_parser_ds5_parse_feature_report_def)
  qed
qed

lemma ds5_fill_total:
  assumes "11 < length r"
  shows "\<exists>ctl'. ds5_fill r ctl = Inr ctl' \<and> (ps_gamepad_ok (ctl_gamepad ctl) \<longrightarrow> ps_gamepad_ok (ctl_gamepad ctl'))"
proof -
  have "\<forall>p \<in> set ds5_misc_2. \<forall>k. bit (snd p) k \<longrightarrow> k < 4" by (simp add: ds5_misc_2_def)
  with assms show ?thesis by (simp add: ds5_fill_def read_byte_def ps_gamepad_keeps_ok)
qed

lemma ds5_parse_mouse_total:
  assumes "37 < length r" and "fresh_mouse (pd_mouse s)" and "list_all mouse_ok (pd_mouse_reports s)"
  shows "\<exists>m reps. ds5_parse_mouse r s = Inr (s\<lparr>pd_mouse := m, pd_mouse_reports := reps\<rparr>)
    \<and> mouse_state_ok m \<and> list_all mouse_ok reps"
proof (cases "pd_mouse s")
  case None
  then have "ds5_parse_mouse r s = Inr (s\<lparr>pd_mouse := None, pd_mouse_reports := pd_mouse_reports s\<rparr>)"
    by (simp add: ds5_parse_mouse_def)
  with assms(3) show ?thesis
    by (intro exI [of _ None] exI [of _ "pd_mouse_reports s"]) (simp add: mouse_state_ok_def)
next
  case (Some child)
  obtain ts ctl where child: "child = (ts, ctl)" by fastforce
  from assms(2) Some child have fresh: "touch_ok ts" "ctl_klass ctl = UNI_CONTROLLER_CLASS_MOUSE"
    by (simp_all add: fresh_mouse_def)
  have b2: "read_byte r 11 = Inr (r ! 11)" using assms(1) by (simp add: read_byte_def)
  obtain point where point: "read_touch_point r 34 = Inr point"
    using read_touch_point_total [of 34 r] assms(1) by auto
  obtain ts' ctl' where m: "move_mouse point (r ! 11) (ts, ctl) = (ts', ctl')" by fastforce
  with Some child b2 point have "ds5_parse_mouse r s
      = Inr (s\<lparr>pd_mouse := Some (ts', ctl'), pd_mouse_reports := pd_mouse_reports s @ [ctl']\<rparr>)"
    by (simp add: ds5_parse_mouse_def)
  moreover have "touch_ok ts' \<and> mouse_ok ctl'"
    by (rule move_mouse_ok [OF read_touch_point_bounds [OF point] fresh m])
  ultimately show ?thesis using assms(3)
    by (intro exI [of _ "Some (ts', ctl')"] exI [of _ "pd_mouse_reports s @ [ctl']"])
      (simp add: mouse_state_ok_def)
qed

lemma ds5_ok_input_update:
  "\<lbrakk>ds5_ok s; ps_gamepad_ok (ctl_gamepad c); mouse_state_ok m; list_all mouse_ok reps\<rbrakk>
    \<Longrightarrow> ds5_ok (s\<lparr>pd_controller := c, pd_mouse := m, pd_mouse_reports := reps\<rparr>)"
  by (simp add: ds5_ok_def rumble_timers_ok_def signed_reports_def)

text \<open>What a report can do: fail when it is empty, or fill the controllers.\<close>

lemma ds5_init_ok:
  assumes "ds5_ok s"
  shows "ds5_ok (uni_hid_parser_ds5_init_report s)" "fresh_mouse (pd_mouse (uni_hid_parser_ds5_init_report s))"
proof -
  let ?s0 = "uni_hid_parser_ds5_init_report s"
  have frame: "?s0 = s\<lparr>pd_controller := pd_controller ?s0, pd_mouse := pd_mouse ?s0,
      pd_mouse_reports := pd_mouse_reports s\<rparr>"
    by (simp add: uni_hid_parser_ds5_init_report_def init_report_with_mouse_def)
  show fresh: "fresh_mouse (pd_mouse ?s0)"
    using assms by (simp add: uni_hid_parser_ds5_init_report_def init_report_with_mouse_simps ds5_ok_def)
  then have "mouse_state_ok (pd_mouse ?s0)"
    by (auto simp: fresh_mouse_def mouse_state_ok_def split: option.splits)
  moreover have "ps_gamepad_ok (ctl_gamepad (pd_controller ?s0))"
    by (simp add: uni_hid_parser_ds5_init_report_def init_report_with_mouse_simps)
  moreover have "list_all mouse_ok (pd_mouse_reports s)" using assms by (simp add: ds5_ok_def)
  ultimately show "ds5_ok ?s0" by (subst frame) (rule ds5_ok_input_update [OF assms])
qed

lemma ds5_input_result:
  assumes "ds5_ok s"
  shows "case ds5_input r s of Inl e \<Rightarrow> e = Out_of_bounds \<and> r = [] | Inr s' \<Rightarrow> ds5_ok s'"
proof -
  let ?s0 = "uni_hid_parser_ds5_init_report s"
  note s0 = ds5_init_ok [OF assms]
  show ?thesis
  proof (cases "d5_state ?s0 = DS5_STATE_READY \<and> r \<noteq> [] \<and> r ! 0 = 0x31 \<and> length r = 78")
    case False
    then have "ds5_input r s = Inr ?s0 \<or> r = [] \<and> ds5_input r s = Inl Out_of_bounds"
      by (auto simp: ds5_input_def uni_hid_parser_ds5_parse_input_report_def read_byte_def)
    with s0 show ?thesis by auto
  next
    case True
    obtain ctl where ctl: "ds5_fill r (pd_controller ?s0) = Inr ctl" "ps_gamepad_ok (ctl_gamepad ctl)"
      using ds5_fill_total [of r "pd_controller ?s0"] True s0 by (auto simp: ds5_ok_def)
    obtain gyro accel where sensors: "sensor_xyz (d5_gyro_calib ?s0) r 17 = Inr gyro"
      "sensor_xyz (d5_accel_calib ?s0) r 23 = Inr accel"
      using sensor_xyz_total [of "d5_gyro_calib ?s0" 17 r] sensor_xyz_total [of "d5_accel_calib ?s0" 23 r] True s0
      by (auto simp: ds5_ok_def)
    have bytes: "read_byte r 54 = Inr (r ! 54)" "read_byte r 0 = Inr 0x31" using True by (simp_all add: read_byte_def)
    define s1 where "s1 = ?s0\<lparr>pd_controller := ctl\<lparr>ctl_battery := ps_battery (r ! 54),
                ctl_gamepad := (ctl_gamepad ctl)\<lparr>gp_gyro := gyro, gp_accel := accel\<rparr>\<rparr>\<rparr>"
    obtain m reps where m: "ds5_parse_mouse r s1 = Inr (s1\<lparr>pd_mouse := m, pd_mouse_reports := reps\<rparr>)"
      "mouse_state_ok m" "list_all mouse_ok reps"
      using ds5_parse_mouse_total [of r s1] True s0 by (auto simp: s1_def ds5_ok_def)
    have "ds5_input r s = Inr (s1\<lparr>pd_mouse := m, pd_mouse_reports := reps\<rparr>)"
      using m(1) True
      by (simp add: ds5_input_def uni_hid_parser_ds5_parse_input_report_def ctl(1) sensors bytes s1_def)
    moreover have "ds5_ok (s1\<lparr>pd_mouse := m, pd_mouse_reports := reps\<rparr>)"
      using ds5_ok_input_update [OF s0(1) _ m(2,3), of "pd_controller s1"] ctl(2)
      by (simp add: s1_def ps_gamepad_ok_sensors)
    ultimately show ?thesis by simp
  qed
qed

definition ds5_fails :: "ds5_device \<Rightarrow> ds5_event \<Rightarrow> c_error \<Rightarrow> bool" where
  "ds5_fails s ev e \<longleftrightarrow> e = Out_of_bounds
     \<and> (case ev of Ds5_feature_report r \<Rightarrow> ds5_short_feature r | Ds5_report r \<Rightarrow> r = [] | _ \<Rightarrow> False)"

lemma ds5_step_result:
  assumes "ds5_ok s"
  shows "case ds5_step ev s of Inl e \<Rightarrow> ds5_fails s ev e | Inr s' \<Rightarrow> ds5_ok s'"
proof (cases ev)
  case (Ds5_virtual_mouse present)
  then show ?thesis using assms
    by (simp add: ds5_step_def ds5_ok_def rumble_timers_ok_def signed_reports_def mouse_state_ok_def
        touch_ok_def zero_touch_def)
next
  case (Ds5_set_player_leds leds)
  then show ?thesis using assms
    by (simp add: ds5_step_def uni_hid_parser_ds5_set_player_leds_def ds5_send_ok sized_outputs)
next
  case (Ds5_set_lightbar_color r g b)
  then show ?thesis using assms
    by (simp add: ds5_step_def uni_hid_parser_ds5_set_lightbar_color_def ds5_send_ok sized_outputs)
next
  case (Ds5_trigger t req)
  then show ?thesis using assms by (simp add: ds5_step_def ds5_trigger_ok)
next
  case (Ds5_play delay duration weak strong)
  then show ?thesis using ds5.play_safe [OF assms, of delay duration weak strong]
    by (auto simp: ds5_step_def uni_hid_parser_ds5_play_dual_rumble_def)
next
  case Ds5_delayed_timer
  then show ?thesis using ds5.delayed_timer_safe [OF assms]
    by (auto simp: ds5_step_def on_ds5_set_rumble_on_def)
next
  case Ds5_duration_timer
  then show ?thesis using ds5.duration_timer_safe [OF assms] by (auto simp: ds5_step_def)
next
  case (Ds5_feature_report r)
  then show ?thesis using ds5_feature_result [OF assms, of r]
    by (simp add: ds5_step_def ds5_fails_def split: sum.splits)
next
  case (Ds5_report r)
  then show ?thesis using ds5_input_result [OF assms, of r]
    by (simp add: ds5_step_def ds5_fails_def split: sum.splits)
qed

interpretation ds5_driver: fallible_machine ds5_step ds5_ok ds5_fails
  by unfold_locales (rule ds5_step_result)

definition zero_ds5 :: "u16 \<Rightarrow> ds5_device" where
  "zero_ds5 product_id =
     (let none = \<lparr>cal_bias = 0, cal_sens_numer = 0, cal_sens_denom = 0\<rparr>
      in \<lparr>pd_state = STATE_RUMBLE_DISABLED, pd_timer_duration = None,
          pd_timer_delayed_start = None, pd_weak_magnitude = 0, pd_strong_magnitude = 0, pd_duration_ms = 0,
          pd_controller = zero_controller, pd_mouse = None, pd_sent = [], pd_mouse_reports = [],
          d5_output_seq = 0, d5_state = DS5_STATE_INITIAL, d5_hw_version = 0, d5_fw_version = 0,
          d5_update_version = 0, d5_use_vibration2 = False, d5_gyro_calib = (none, none, none),
          d5_accel_calib = (none, none, none), d5_product_id = product_id\<rparr>)"

lemma ds5_setup_ok: "ds5_ok (uni_hid_parser_ds5_setup (zero_ds5 pid))"
  by (simp add: ds5_ok_def uni_hid_parser_ds5_setup_def zero_ds5_def Let_def ds5_request_pairing_info_report_def
      send_ctrl_def rumble_timers_ok_def signed_reports_def calibrations_xyz_ok_def calibrations_ok
      mouse_state_ok_def ps_gamepad_ok_def gamepad_bits_ok_def zero_controller_def zero_gamepad_def)

section \<open>The handshake\<close>

text \<open>
  The specification: the state is decided by the last feature report that is known, and each
  answer but the calibration asks for the next report.
\<close>

definition ds5_next_state :: "ds5_state \<Rightarrow> ds5_event \<Rightarrow> ds5_state" where
  "ds5_next_state st ev = (case ev of
     Ds5_feature_report r \<Rightarrow>
       if hd r = DS5_FEATURE_REPORT_PAIRING_INFO then DS5_STATE_FIRMWARE_VERSION_REQUEST
       else if hd r = DS5_FEATURE_REPORT_FIRMWARE_VERSION then DS5_STATE_CALIBRATION_REQUEST
       else if hd r = DS5_FEATURE_REPORT_CALIBRATION then DS5_STATE_READY
       else st
   | _ \<Rightarrow> st)"

definition ds5_next_requests :: "ds5_event \<Rightarrow> bytes list" where
  "ds5_next_requests ev = (case ev of
     Ds5_feature_report r \<Rightarrow>
       if hd r = DS5_FEATURE_REPORT_PAIRING_INFO then [[0x43, DS5_FEATURE_REPORT_FIRMWARE_VERSION]]
       else if hd r = DS5_FEATURE_REPORT_FIRMWARE_VERSION then [[0x43, DS5_FEATURE_REPORT_CALIBRATION]]
       else []
   | _ \<Rightarrow> [])"

fun ctrl_reports :: "ps_report list \<Rightarrow> bytes list" where
  "ctrl_reports [] = []"
| "ctrl_reports (Send_ctrl r # rs) = r # ctrl_reports rs"
| "ctrl_reports (Send_intr r # rs) = ctrl_reports rs"

lemma ctrl_reports_append [simp]: "ctrl_reports (xs @ ys) = ctrl_reports xs @ ctrl_reports ys"
  by (induction xs rule: ctrl_reports.induct) simp_all

text \<open>The part of the state the handshake is about.\<close>

definition ds5_handshake :: "ds5_device \<Rightarrow> ds5_state \<times> bytes list" where
  "ds5_handshake s = (d5_state s, ctrl_reports (pd_sent s))"

lemma ds5_send_handshake [simp]: "ds5_handshake (ds5_send_output_report out s) = ds5_handshake s"
  by (simp add: ds5_handshake_def ds5_send_output_report_def send_intr_def Let_def)

lemma ds5_rumble_handshake:
  "ds5_play_dual_rumble_now duration weak strong s = Inr s' \<Longrightarrow> ds5_handshake s' = ds5_handshake s"
  "ds5_stop_rumble_now s = Inr s' \<Longrightarrow> ds5_handshake s' = ds5_handshake s"
proof -
  have upd: "ds5_handshake (s\<lparr>pd_state := a\<rparr>) = ds5_handshake s"
    "ds5_handshake (s\<lparr>pd_state := a, pd_timer_duration := b\<rparr>) = ds5_handshake s" for s a b
    by (simp_all add: ds5_handshake_def)
  show stop: "ds5_stop_rumble_now s = Inr s' \<Longrightarrow> ds5_handshake s' = ds5_handshake s" for s s'
    by (auto simp: ds5_stop_rumble_now_def upd split: if_splits)
  show "ds5_play_dual_rumble_now duration weak strong s = Inr s' \<Longrightarrow> ds5_handshake s' = ds5_handshake s"
    by (auto simp: ds5_play_dual_rumble_now_def arm_rumble_off_def mapR_Inr_iff upd dest: stop split: if_splits)
qed

lemma ds5_parse_mouse_handshake: "ds5_parse_mouse r s = Inr s' \<Longrightarrow> ds5_handshake s' = ds5_handshake s"
  by (auto simp: ds5_parse_mouse_def bindR_Inr_iff mapR_Inr_iff Let_def ds5_handshake_def split: option.splits)

lemma ds5_input_handshake:
  assumes "ds5_input r s = Inr s'"
  shows "ds5_handshake s' = ds5_handshake s"
proof -
  have ctl: "ds5_handshake (s\<lparr>pd_controller := c\<rparr>) = ds5_handshake s" for s c by (simp add: ds5_handshake_def)
  have init: "ds5_handshake (uni_hid_parser_ds5_init_report s) = ds5_handshake s"
    by (simp add: ds5_handshake_def uni_hid_parser_ds5_init_report_def init_report_with_mouse_def)
  from assms show ?thesis
    unfolding ds5_input_def uni_hid_parser_ds5_parse_input_report_def
    by (auto simp: bindR_Inr_iff ctl init dest!: ds5_parse_mouse_handshake split: if_splits)
qed

lemma ds5_step_handshake:
  assumes "ds5_step ev s = Inr s'"
  shows "ds5_handshake s' = (ds5_next_state (d5_state s) ev, ctrl_reports (pd_sent s) @ ds5_next_requests ev)"
proof (cases ev)
  case (Ds5_feature_report r)
  with assms have r: "r \<noteq> []"
    by (auto simp: ds5_step_def uni_hid_parser_ds5_parse_feature_report_def read_byte_def)
  then have hd: "read_byte r 0 = Inr (hd r)" by (cases r) (simp_all add: read_byte_def)
  have enable: "ds5_handshake (ds5_send_enable_lightbar_report s) = (DS5_STATE_READY, ctrl_reports (pd_sent s))" for s
    using ds5_send_handshake [of _ s]
    by (simp add: ds5_send_enable_lightbar_report_def ds5_handshake_def)
  from assms Ds5_feature_report hd show ?thesis
    by (auto simp: ds5_step_def uni_hid_parser_ds5_parse_feature_report_def bindR_Inr_iff mapR_Inr_iff
        ds5_next_state_def ds5_next_requests_def ds5_feature_ids enable
        ds5_request_firmware_version_report_def ds5_request_calibration_report_def send_ctrl_def
        split: if_splits) (simp_all add: ds5_handshake_def)
next
  case (Ds5_report r)
  with assms ds5_input_handshake [of r s s'] show ?thesis
    by (simp add: ds5_step_def ds5_next_state_def ds5_next_requests_def ds5_handshake_def)
next
  case (Ds5_play delay duration weak strong)
  have "ds5_handshake s' = ds5_handshake s"
  proof (cases "delay = 0")
    case True
    with assms Ds5_play have "ds5_play_dual_rumble_now duration weak strong (remove_rumble_timer s) = Inr s'"
      by (simp add: ds5_step_def uni_hid_parser_ds5_play_dual_rumble_def play_dual_rumble_def Let_def)
    from ds5_rumble_handshake(1) [OF this] show ?thesis
      by (simp add: ds5_handshake_def remove_rumble_timer_def split: rumble_state.splits)
  next
    case False
    with assms Ds5_play show ?thesis
      by (auto simp: ds5_step_def uni_hid_parser_ds5_play_dual_rumble_def play_dual_rumble_def Let_def
          delay_rumble_def mapR_Inr_iff ds5_handshake_def remove_rumble_timer_def split: rumble_state.splits)
  qed
  with Ds5_play show ?thesis by (simp add: ds5_next_state_def ds5_next_requests_def ds5_handshake_def)
next
  case Ds5_delayed_timer
  with assms have "s' = s \<or> (\<exists>d w st. ds5_play_dual_rumble_now d w st (s\<lparr>pd_timer_delayed_start := None\<rparr>) = Inr s')"
    by (auto simp: ds5_step_def fire_delayed_timer_def on_ds5_set_rumble_on_def set_rumble_on_def split: if_splits)
  then have "ds5_handshake s' = ds5_handshake s"
    by (auto dest!: ds5_rumble_handshake(1)) (simp add: ds5_handshake_def)
  with Ds5_delayed_timer show ?thesis by (simp add: ds5_next_state_def ds5_next_requests_def ds5_handshake_def)
next
  case Ds5_duration_timer
  with assms have "s' = s \<or> ds5_stop_rumble_now (s\<lparr>pd_timer_duration := None\<rparr>) = Inr s'"
    by (auto simp: ds5_step_def fire_duration_timer_def on_ds5_set_rumble_off_def split: if_splits)
  then have "ds5_handshake s' = ds5_handshake s"
    by (auto dest!: ds5_rumble_handshake(2)) (simp add: ds5_handshake_def)
  with Ds5_duration_timer show ?thesis by (simp add: ds5_next_state_def ds5_next_requests_def ds5_handshake_def)
next
  case (Ds5_trigger t req)
  with assms have "ds5_handshake s' = ds5_handshake s"
    by (auto simp: ds5_step_def ds5_set_adaptive_trigger_effect_def Let_def split: if_splits)
  with Ds5_trigger show ?thesis by (simp add: ds5_next_state_def ds5_next_requests_def ds5_handshake_def)
next
  case (Ds5_virtual_mouse present)
  with assms show ?thesis by (auto simp: ds5_step_def ds5_next_state_def ds5_next_requests_def ds5_handshake_def)
next
  case (Ds5_set_player_leds leds)
  with assms have "ds5_handshake s' = ds5_handshake s"
    by (auto simp: ds5_step_def uni_hid_parser_ds5_set_player_leds_def)
  with Ds5_set_player_leds show ?thesis by (simp add: ds5_next_state_def ds5_next_requests_def ds5_handshake_def)
next
  case (Ds5_set_lightbar_color r g b)
  with assms have "ds5_handshake s' = ds5_handshake s"
    by (auto simp: ds5_step_def uni_hid_parser_ds5_set_lightbar_color_def)
  with Ds5_set_lightbar_color show ?thesis by (simp add: ds5_next_state_def ds5_next_requests_def ds5_handshake_def)
qed

lemma ds5_run_handshake:
  "run_steps ds5_step evs s = Inr s' \<Longrightarrow>
    d5_state s' = foldl ds5_next_state (d5_state s) evs
    \<and> ctrl_reports (pd_sent s') = ctrl_reports (pd_sent s) @ concat (map ds5_next_requests evs)"
proof (induction evs arbitrary: s)
  case Nil
  then show ?case by simp
next
  case (Cons ev evs)
  then obtain s1 where s1: "ds5_step ev s = Inr s1" "run_steps ds5_step evs s1 = Inr s'"
    by (auto simp: bindR_Inr_iff)
  with Cons.IH [OF s1(2)] ds5_step_handshake [OF s1(1)] show ?case by (simp add: ds5_handshake_def)
qed

section \<open>Trigger zones\<close>

text \<open>How the controller reads the data of a zone effect: the force of zone \<open>i\<close>, if it is active.\<close>

definition decode_zone :: "bytes \<Rightarrow> nat \<Rightarrow> nat option" where
  "decode_zone data i =
     (let active = ucast (data ! 0) OR push_bit 8 (ucast (data ! 1)) :: u16;
          forces = le_word (data ! 2) (data ! 3) (data ! 4) (data ! 5)
      in if bit active i then Some (unat (drop_bit (i * 3) forces AND 7)) else None)"

lemma bit_zone_fold:
  fixes f :: u32 and a :: u16
  shows "bit (fst (foldl (\<lambda>(forces, active) i. (forces OR push_bit (i * 3) g, active OR push_bit i 1)) (f, a) is)) k
      \<longleftrightarrow> bit f k \<or> (\<exists>i \<in> set is. bit (push_bit (i * 3) g :: u32) k)"
    and "bit (snd (foldl (\<lambda>(forces, active) i. (forces OR push_bit (i * 3) g, active OR push_bit i 1)) (f, a) is)) k
      \<longleftrightarrow> bit a k \<or> (k \<in> set is \<and> k < 16)"
  by (induction "is" arbitrary: f a) (auto simp: bit_simps)

lemma zone_force_bits: "bit (zone_force s) k \<Longrightarrow> k < 3"
proof -
  have seven: "(7 :: int) = mask 3" by (simp add: mask_eq_exp_minus_1)
  assume "bit (zone_force s) k"
  then have "bit ((uint s - 1) AND 7) k" by (simp add: zone_force_def bit_simps)
  then have "bit (7 :: int) k" by (simp add: bit_and_iff)
  then show "k < 3" by (simp add: seven bit_mask_iff)
qed


lemma zone_masks_bits:
  assumes "\<And>k. bit force k \<Longrightarrow> k < 3" and i: "i < 10"
  shows "bit (snd (zone_masks position force)) i \<longleftrightarrow> unat position \<le> i"
    and "drop_bit (i * 3) (fst (zone_masks position force)) AND 7 = (if unat position \<le> i then ucast force else 0)"
proof -
  show "bit (snd (zone_masks position force)) i \<longleftrightarrow> unat position \<le> i"
    unfolding zone_masks_def bit_zone_fold using i by simp
  have seven: "(7 :: u32) = mask 3" by (simp add: mask_eq_exp_minus_1)
  have force: "bit (ucast force :: u32) k \<Longrightarrow> k < 3" for k using assms(1) by (simp add: bit_simps)
  show "drop_bit (i * 3) (fst (zone_masks position force)) AND 7 = (if unat position \<le> i then ucast force else 0)"
  proof (rule bit_word_eqI)
    fix k
    assume k: "k < LENGTH(32)"
    have "bit (drop_bit (i * 3) (fst (zone_masks position force)) AND 7) k
        \<longleftrightarrow> k < 3 \<and> (\<exists>j \<in> {unat position..<10}. bit (push_bit (j * 3) (ucast force) :: u32) (i * 3 + k))"
      unfolding zone_masks_def bit_and_iff bit_drop_bit_eq comp_def bit_zone_fold seven bit_mask_iff
      by (auto simp: add.commute)
    also have "\<dots> \<longleftrightarrow> k < 3 \<and> (\<exists>j \<in> {unat position..<10}. j * 3 \<le> i * 3 + k \<and> bit (ucast force :: u32) (i * 3 + k - j * 3))"
      using i by (auto simp: bit_push_bit_iff)
    also have "\<dots> \<longleftrightarrow> unat position \<le> i \<and> bit (ucast force :: u32) k"
    proof
      assume "k < 3 \<and> (\<exists>j \<in> {unat position..<10}. j * 3 \<le> i * 3 + k \<and> bit (ucast force :: u32) (i * 3 + k - j * 3))"
      then obtain j where j: "k < 3" "unat position \<le> j" "j * 3 \<le> i * 3 + k" "bit (ucast force :: u32) (i * 3 + k - j * 3)"
        by auto
      from force [OF j(4)] j(1, 3) have "j = i" by linarith
      with j show "unat position \<le> i \<and> bit (ucast force :: u32) k" by simp
    next
      assume a: "unat position \<le> i \<and> bit (ucast force :: u32) k"
      then show "k < 3 \<and> (\<exists>j \<in> {unat position..<10}. j * 3 \<le> i * 3 + k \<and> bit (ucast force :: u32) (i * 3 + k - j * 3))"
        using force i by (intro conjI bexI [of _ i]) auto
    qed
    finally show "bit (drop_bit (i * 3) (fst (zone_masks position force)) AND 7) k
        = bit (if unat position \<le> i then ucast force else 0 :: u32) k" by simp
  qed
qed

lemma zone_bytes_words:
  "zone_bytes (forces, active) ! 0 = ucast active" "zone_bytes (forces, active) ! 1 = ucast (drop_bit 8 active)"
  "zone_bytes (forces, active) ! 2 = ucast forces" "zone_bytes (forces, active) ! 3 = ucast (drop_bit 8 forces)"
  "zone_bytes (forces, active) ! 4 = ucast (drop_bit 16 forces)" "zone_bytes (forces, active) ! 5 = ucast (drop_bit 24 forces)"
proof -
  have low16: "ucast (w AND 0xff) = (ucast w :: u8)" for w :: u16
  proof -
    have ff: "(0xff :: u16) = mask 8" by (simp add: mask_eq_exp_minus_1)
    show ?thesis unfolding ff by (rule bit_word_eqI) (simp add: bit_simps flip: take_bit_eq_mask)
  qed
  show "zone_bytes (forces, active) ! 0 = ucast active" "zone_bytes (forces, active) ! 1 = ucast (drop_bit 8 active)"
    by (simp_all add: zone_bytes_def low16)
  have low32: "ucast (w AND 0xff) = (ucast w :: u8)" for w :: u32
  proof -
    have ff: "(0xff :: u32) = mask 8" by (simp add: mask_eq_exp_minus_1)
    show ?thesis unfolding ff by (rule bit_word_eqI) (simp add: bit_simps flip: take_bit_eq_mask)
  qed
  show "zone_bytes (forces, active) ! 2 = ucast forces" "zone_bytes (forces, active) ! 3 = ucast (drop_bit 8 forces)"
  "zone_bytes (forces, active) ! 4 = ucast (drop_bit 16 forces)" "zone_bytes (forces, active) ! 5 = ucast (drop_bit 24 forces)"
    by (simp_all add: zone_bytes_def low32)
qed

lemma decode_zone_masks:
  assumes "i < 10"
  shows "decode_zone (zone_bytes (zone_masks position (zone_force strength)) @ tail) i
    = (if unat position \<le> i then Some (unat (zone_force strength)) else None)"
proof -
  obtain forces active where zones: "zone_masks position (zone_force strength) = (forces, active)" by fastforce
  have len: "length (zone_bytes (forces, active)) = 6" by (simp add: zone_bytes_def)
  have nth: "(zone_bytes (forces, active) @ tail) ! j = zone_bytes (forces, active) ! j" if "j < 6" for j
    using that len by (simp add: nth_append)
  have active: "ucast (ucast active :: u8) OR push_bit 8 (ucast (ucast (drop_bit 8 active) :: u8)) = active"
    by (rule bit_word_eqI) (auto simp: bit_simps)
  have "decode_zone (zone_bytes (forces, active) @ tail) i
      = (if bit active i then Some (unat (drop_bit (i * 3) forces AND 7)) else None)"
    by (simp only: decode_zone_def Let_def nth zone_bytes_words active le_word_le32)
  moreover have "bit active i \<longleftrightarrow> unat position \<le> i"
    using zone_masks_bits(1) [where force = "zone_force strength" and position = position, OF zone_force_bits assms] zones by simp
  moreover have "unat (drop_bit (i * 3) forces AND 7) = unat (zone_force strength)" if "unat position \<le> i"
    using zone_masks_bits(2) [where force = "zone_force strength" and position = position, OF zone_force_bits assms] zones that
    using unat_less_power [of "zone_force strength"]
    by (simp add: unsigned_ucast_eq take_bit_nat_eq_self)
  ultimately show ?thesis using zones by simp
qed

lemma zone_force_value:
  "unat (zone_force strength) = (unat strength + 7) mod 8"
proof -
  have "unat strength \<in> set [0..<256]" using unat_less_power [of strength] by simp
  moreover have "\<forall>n \<in> set [0..<256]. unat (zone_force (word_of_nat n)) = (n + 7) mod 8" by code_simp
  ultimately have "unat (zone_force (word_of_nat (unat strength))) = (unat strength + 7) mod 8" by blast
  then show ?thesis by simp
qed

section \<open>Properties\<close>

text \<open>C18: From setup on, no order of requests, timer expiries, feature and input reports makes the
  DualSense driver fail an assertion, divide by zero or overflow; it only fails on a report that
  ends before a field it reads. Every report it sent has 79 bytes, a checksum the controller accepts,
  and the sequence numbers 0 to 14 in order; mouse moves and the gamepad are in range.\<close>

theorem ds5_driver_safe:
  "case run_steps ds5_step evs (uni_hid_parser_ds5_setup (zero_ds5 pid)) of
     Inl e \<Rightarrow> e = Out_of_bounds
       \<and> (\<exists>r. Ds5_feature_report r \<in> set evs \<and> ds5_short_feature r \<or> Ds5_report r \<in> set evs \<and> r = [])
   | Inr s \<Rightarrow> ds5_ok s"
proof (cases "run_steps ds5_step evs (uni_hid_parser_ds5_setup (zero_ds5 pid))")
  case (Inl e)
  with ds5_driver.run_result [OF ds5_setup_ok, of evs pid] obtain before ev after s1 where
    "evs = before @ ev # after" "ds5_fails s1 ev e" by auto
  then show ?thesis using Inl by (auto simp: ds5_fails_def split: ds5_event.splits)
next
  case (Inr s)
  with ds5_driver.run_result [OF ds5_setup_ok, of evs pid] show ?thesis by simp
qed

text \<open>C19: The DualSense handshake: the driver asks for the pairing information at setup and then, for
  each answer, for the next report of the chain, and is ready exactly when the last known feature
  report was the calibration; nothing else sends a request or changes the state.\<close>

theorem ds5_handshake_follows_specification:
  "case run_steps ds5_step evs (uni_hid_parser_ds5_setup (zero_ds5 pid)) of
     Inl e \<Rightarrow> True
   | Inr s \<Rightarrow> d5_state s = foldl ds5_next_state DS5_STATE_PAIRING_INFO_REQUEST evs
       \<and> ctrl_reports (pd_sent s) = [0x43, DS5_FEATURE_REPORT_PAIRING_INFO] # concat (map ds5_next_requests evs)"
proof -
  have "d5_state (uni_hid_parser_ds5_setup (zero_ds5 pid)) = DS5_STATE_PAIRING_INFO_REQUEST"
    "ctrl_reports (pd_sent (uni_hid_parser_ds5_setup (zero_ds5 pid))) = [[0x43, DS5_FEATURE_REPORT_PAIRING_INFO]]"
    by (simp_all add: uni_hid_parser_ds5_setup_def ds5_request_pairing_info_report_def send_ctrl_def zero_ds5_def
        Let_def)
  with ds5_run_handshake [of evs "uni_hid_parser_ds5_setup (zero_ds5 pid)"] show ?thesis
    by (auto split: sum.splits)
qed

text \<open>C22: The adaptive trigger effects decode to what was asked for: feedback and vibration act in exactly
  the zones from the position on, with the strength less one (and the greatest for strength 0), the
  vibration with its frequency; parameters out of range give the effect that is never sent.\<close>

theorem trigger_effect_zones:
  "(if position \<le> 9 \<and> strength \<le> 8
    then te_effect (ds5_new_adaptive_trigger_effect_feedback position strength)
           = DS5_ADAPTIVE_TRIGGER_EFFECT_FEEDBACK
      \<and> map (decode_zone (te_data (ds5_new_adaptive_trigger_effect_feedback position strength))) [0..<10]
        = map (\<lambda>i. if unat position \<le> i then Some ((unat strength + 7) mod 8) else None) [0..<10]
      \<and> map (decode_zone (te_data (ds5_new_adaptive_trigger_effect_vibration position strength frequency))) [0..<10]
        = map (\<lambda>i. if unat position \<le> i then Some ((unat strength + 7) mod 8) else None) [0..<10]
      \<and> te_data (ds5_new_adaptive_trigger_effect_vibration position strength frequency) ! 8 = frequency
    else ds5_set_adaptive_trigger_effect t (ds5_new_adaptive_trigger_effect_feedback position strength) s = s
      \<and> ds5_set_adaptive_trigger_effect t (ds5_new_adaptive_trigger_effect_vibration position strength frequency) s = s)"
proof (cases "position \<le> 9 \<and> strength \<le> 8")
  case True
  then have "\<not> 9 < position" "\<not> 8 < strength" by auto
  then have effects: "ds5_new_adaptive_trigger_effect_feedback position strength
      = \<lparr>te_effect = DS5_ADAPTIVE_TRIGGER_EFFECT_FEEDBACK,
         te_data = zone_bytes (zone_masks position (zone_force strength)) @ replicate 4 0\<rparr>"
    "te_data (ds5_new_adaptive_trigger_effect_vibration position strength frequency)
      = zone_bytes (zone_masks position (zone_force strength)) @ [0, 0, frequency, 0]"
    by (simp_all add: ds5_new_adaptive_trigger_effect_feedback_def ds5_new_adaptive_trigger_effect_vibration_def)
  have "(zone_bytes zones @ [0, 0, frequency, 0]) ! 8 = frequency" for zones
    by (cases zones) (simp add: zone_bytes_def)
  with True show ?thesis
    by (simp add: effects decode_zone_masks zone_force_value)
next
  case False
  then have "9 < position \<or> 8 < strength" by auto
  with False show ?thesis
    by (auto simp: ds5_new_adaptive_trigger_effect_feedback_def ds5_new_adaptive_trigger_effect_vibration_def
        ds5_set_adaptive_trigger_effect_def ds5_invalid_effect_def)
qed

end
