(* ===== verification/Switch_Rumble.thy ===== *)
theory Switch_Rumble
  imports Playstation
begin

text \<open>
  How the driver of the Nintendo Switch controllers (\<^verbatim>\<open>uni_hid_parser_switch.c\<close>) encodes a
  rumble: the two tables of frequencies and amplitudes, the search in them, and the four bytes
  that one motor is sent. The searches are shown to agree with a reference definition, and the
  encoding with a decoder.
\<close>

section \<open>The tables\<close>

text \<open>The columns are \<^verbatim>\<open>high\<close>, \<^verbatim>\<open>low\<close> and \<^verbatim>\<open>freq\<close> in Hz.\<close>

record switch_rumble_freq_data =
  fq_high :: u16
  fq_low :: u8
  fq_freq :: u16

record switch_rumble_amp_data =
  am_high :: u8
  am_low :: u16
  am_amp :: u16

definition freq_data :: "u16 \<times> u8 \<times> u16 \<Rightarrow> switch_rumble_freq_data" where
  "freq_data r = (case r of (high, low, freq) \<Rightarrow> \<lparr>fq_high = high, fq_low = low, fq_freq = freq\<rparr>)"

definition amp_data :: "u8 \<times> u16 \<times> u16 \<Rightarrow> switch_rumble_amp_data" where
  "amp_data r = (case r of (high, low, amp) \<Rightarrow> \<lparr>am_high = high, am_low = low, am_amp = amp\<rparr>)"

definition rumble_freqs :: "switch_rumble_freq_data list" where
  "rumble_freqs = map freq_data
    [(0x0000, 0x01, 41), (0x0000, 0x02, 42), (0x0000, 0x03, 43), (0x0000, 0x04, 44), (0x0000, 0x05, 45),
     (0x0000, 0x06, 46), (0x0000, 0x07, 47), (0x0000, 0x08, 48), (0x0000, 0x09, 49), (0x0000, 0x0a, 50),
     (0x0000, 0x0b, 51), (0x0000, 0x0c, 52), (0x0000, 0x0d, 53), (0x0000, 0x0e, 54), (0x0000, 0x0f, 55),
     (0x0000, 0x10, 57), (0x0000, 0x11, 58), (0x0000, 0x12, 59), (0x0000, 0x13, 60), (0x0000, 0x14, 62),
     (0x0000, 0x15, 63), (0x0000, 0x16, 64), (0x0000, 0x17, 66), (0x0000, 0x18, 67), (0x0000, 0x19, 69),
     (0x0000, 0x1a, 70), (0x0000, 0x1b, 72), (0x0000, 0x1c, 73), (0x0000, 0x1d, 75), (0x0000, 0x1e, 77),
     (0x0000, 0x1f, 78), (0x0000, 0x20, 80), (0x0400, 0x21, 82), (0x0800, 0x22, 84), (0x0c00, 0x23, 85),
     (0x1000, 0x24, 87), (0x1400, 0x25, 89), (0x1800, 0x26, 91), (0x1c00, 0x27, 93), (0x2000, 0x28, 95),
     (0x2400, 0x29, 97), (0x2800, 0x2a, 99), (0x2c00, 0x2b, 102), (0x3000, 0x2c, 104), (0x3400, 0x2d, 106),
     (0x3800, 0x2e, 108), (0x3c00, 0x2f, 111), (0x4000, 0x30, 113), (0x4400, 0x31, 116), (0x4800, 0x32, 118),
     (0x4c00, 0x33, 121), (0x5000, 0x34, 123), (0x5400, 0x35, 126), (0x5800, 0x36, 129), (0x5c00, 0x37, 132),
     (0x6000, 0x38, 135), (0x6400, 0x39, 137), (0x6800, 0x3a, 141), (0x6c00, 0x3b, 144), (0x7000, 0x3c, 147),
     (0x7400, 0x3d, 150), (0x7800, 0x3e, 153), (0x7c00, 0x3f, 157), (0x8000, 0x40, 160), (0x8400, 0x41, 164),
     (0x8800, 0x42, 167), (0x8c00, 0x43, 171), (0x9000, 0x44, 174), (0x9400, 0x45, 178), (0x9800, 0x46, 182),
     (0x9c00, 0x47, 186), (0xa000, 0x48, 190), (0xa400, 0x49, 194), (0xa800, 0x4a, 199), (0xac00, 0x4b, 203),
     (0xb000, 0x4c, 207), (0xb400, 0x4d, 212), (0xb800, 0x4e, 217), (0xbc00, 0x4f, 221), (0xc000, 0x50, 226),
     (0xc400, 0x51, 231), (0xc800, 0x52, 236), (0xcc00, 0x53, 241), (0xd000, 0x54, 247), (0xd400, 0x55, 252),
     (0xd800, 0x56, 258), (0xdc00, 0x57, 263), (0xe000, 0x58, 269), (0xe400, 0x59, 275), (0xe800, 0x5a, 281),
     (0xec00, 0x5b, 287), (0xf000, 0x5c, 293), (0xf400, 0x5d, 300), (0xf800, 0x5e, 306), (0xfc00, 0x5f, 313),
     (0x0001, 0x60, 320), (0x0401, 0x61, 327), (0x0801, 0x62, 334), (0x0c01, 0x63, 341), (0x1001, 0x64, 349),
     (0x1401, 0x65, 357), (0x1801, 0x66, 364), (0x1c01, 0x67, 372), (0x2001, 0x68, 381), (0x2401, 0x69, 389),
     (0x2801, 0x6a, 397), (0x2c01, 0x6b, 406), (0x3001, 0x6c, 415), (0x3401, 0x6d, 424), (0x3801, 0x6e, 433),
     (0x3c01, 0x6f, 443), (0x4001, 0x70, 453), (0x4401, 0x71, 462), (0x4801, 0x72, 473), (0x4c01, 0x73, 483),
     (0x5001, 0x74, 494), (0x5401, 0x75, 504), (0x5801, 0x76, 515), (0x5c01, 0x77, 527), (0x6001, 0x78, 538),
     (0x6401, 0x79, 550), (0x6801, 0x7a, 562), (0x6c01, 0x7b, 574), (0x7001, 0x7c, 587), (0x7401, 0x7d, 600),
     (0x7801, 0x7e, 613), (0x7c01, 0x7f, 626), (0x8001, 0x00, 640), (0x8401, 0x00, 654), (0x8801, 0x00, 668),
     (0x8c01, 0x00, 683), (0x9001, 0x00, 698), (0x9401, 0x00, 713), (0x9801, 0x00, 729), (0x9c01, 0x00, 745),
     (0xa001, 0x00, 761), (0xa401, 0x00, 778), (0xa801, 0x00, 795), (0xac01, 0x00, 812), (0xb001, 0x00, 830),
     (0xb401, 0x00, 848), (0xb801, 0x00, 867), (0xbc01, 0x00, 886), (0xc001, 0x00, 905), (0xc401, 0x00, 925),
     (0xc801, 0x00, 945), (0xcc01, 0x00, 966), (0xd001, 0x00, 987), (0xd401, 0x00, 1009), (0xd801, 0x00, 1031),
     (0xdc01, 0x00, 1053), (0xe001, 0x00, 1076), (0xe401, 0x00, 1100), (0xe801, 0x00, 1124), (0xec01, 0x00, 1149),
     (0xf001, 0x00, 1174), (0xf401, 0x00, 1199), (0xf801, 0x00, 1226), (0xfc01, 0x00, 1253)]"

definition rumble_amps :: "switch_rumble_amp_data list" where
  "rumble_amps = map amp_data
    [(0x00, 0x0040, 0), (0x02, 0x8040, 10), (0x04, 0x0041, 12), (0x06, 0x8041, 14), (0x08, 0x0042, 17),
     (0x0a, 0x8042, 20), (0x0c, 0x0043, 24), (0x0e, 0x8043, 28), (0x10, 0x0044, 33), (0x12, 0x8044, 40),
     (0x14, 0x0045, 47), (0x16, 0x8045, 56), (0x18, 0x0046, 67), (0x1a, 0x8046, 80), (0x1c, 0x0047, 95),
     (0x1e, 0x8047, 112), (0x20, 0x0048, 117), (0x22, 0x8048, 123), (0x24, 0x0049, 128), (0x26, 0x8049, 134),
     (0x28, 0x004a, 140), (0x2a, 0x804a, 146), (0x2c, 0x004b, 152), (0x2e, 0x804b, 159), (0x30, 0x004c, 166),
     (0x32, 0x804c, 173), (0x34, 0x004d, 181), (0x36, 0x804d, 189), (0x38, 0x004e, 198), (0x3a, 0x804e, 206),
     (0x3c, 0x004f, 215), (0x3e, 0x804f, 225), (0x40, 0x0050, 230), (0x42, 0x8050, 235), (0x44, 0x0051, 240),
     (0x46, 0x8051, 245), (0x48, 0x0052, 251), (0x4a, 0x8052, 256), (0x4c, 0x0053, 262), (0x4e, 0x8053, 268),
     (0x50, 0x0054, 273), (0x52, 0x8054, 279), (0x54, 0x0055, 286), (0x56, 0x8055, 292), (0x58, 0x0056, 298),
     (0x5a, 0x8056, 305), (0x5c, 0x0057, 311), (0x5e, 0x8057, 318), (0x60, 0x0058, 325), (0x62, 0x8058, 332),
     (0x64, 0x0059, 340), (0x66, 0x8059, 347), (0x68, 0x005a, 355), (0x6a, 0x805a, 362), (0x6c, 0x005b, 370),
     (0x6e, 0x805b, 378), (0x70, 0x005c, 387), (0x72, 0x805c, 395), (0x74, 0x005d, 404), (0x76, 0x805d, 413),
     (0x78, 0x005e, 422), (0x7a, 0x805e, 431), (0x7c, 0x005f, 440), (0x7e, 0x805f, 450), (0x80, 0x0060, 460),
     (0x82, 0x8060, 470), (0x84, 0x0061, 480), (0x86, 0x8061, 491), (0x88, 0x0062, 501), (0x8a, 0x8062, 512),
     (0x8c, 0x0063, 524), (0x8e, 0x8063, 535), (0x90, 0x0064, 547), (0x92, 0x8064, 559), (0x94, 0x0065, 571),
     (0x96, 0x8065, 584), (0x98, 0x0066, 596), (0x9a, 0x8066, 609), (0x9c, 0x0067, 623), (0x9e, 0x8067, 636),
     (0xa0, 0x0068, 650), (0xa2, 0x8068, 665), (0xa4, 0x0069, 679), (0xa6, 0x8069, 694), (0xa8, 0x006a, 709),
     (0xaa, 0x806a, 725), (0xac, 0x006b, 741), (0xae, 0x806b, 757), (0xb0, 0x006c, 773), (0xb2, 0x806c, 790),
     (0xb4, 0x006d, 808), (0xb6, 0x806d, 825), (0xb8, 0x006e, 843), (0xba, 0x806e, 862), (0xbc, 0x006f, 881),
     (0xbe, 0x806f, 900), (0xc0, 0x0070, 920), (0xc2, 0x8070, 940), (0xc4, 0x0071, 960), (0xc6, 0x8071, 981),
     (0xc8, 0x0072, 1003)]"

section \<open>The search\<close>

text \<open>
  Both \<^verbatim>\<open>find\<close> functions run the same loop over the last column: it stops at the first row
  that reaches the value, and at the last row when none does.
\<close>

function search_rumble_row :: "u16 list \<Rightarrow> u16 \<Rightarrow> nat \<Rightarrow> nat" where
  "search_rumble_row keys v i =
     (if i < length keys - 1 \<and> \<not> (keys ! (i - 1) < v \<and> v \<le> keys ! i)
      then search_rumble_row keys v (Suc i) else i)"
  by pat_completeness auto

termination search_rumble_row
  by (relation "measure (\<lambda>(keys, v, i). length keys - i)") auto

declare search_rumble_row.simps [simp del]

definition rumble_row :: "u16 list \<Rightarrow> u16 \<Rightarrow> nat" where
  "rumble_row keys v = (if keys ! 0 < v then search_rumble_row keys v 1 else 0)"

definition find_rumble_freq :: "u16 \<Rightarrow> switch_rumble_freq_data" where
  "find_rumble_freq freq = rumble_freqs ! rumble_row (map fq_freq rumble_freqs) freq"

definition find_rumble_amp :: "u16 \<Rightarrow> switch_rumble_amp_data" where
  "find_rumble_amp amp = rumble_amps ! rumble_row (map am_amp rumble_amps) amp"

text \<open>The reference: the first row that reaches the value, the last one otherwise.\<close>

definition first_row :: "('a \<Rightarrow> u16) \<Rightarrow> 'a list \<Rightarrow> u16 \<Rightarrow> 'a" where
  "first_row key rows v = (case List.find (\<lambda>r. v \<le> key r) rows of Some r \<Rightarrow> r | None \<Rightarrow> last rows)"

lemma first_row_nth:
  assumes "i < length rows" and "\<forall>j < i. key (rows ! j) < v"
    and "v \<le> key (rows ! i) \<or> i = length rows - 1"
  shows "first_row key rows v = rows ! i"
proof (cases "v \<le> key (rows ! i)")
  case True
  have "List.find (\<lambda>r. v \<le> key r) rows = Some (rows ! i)"
    unfolding find_Some_iff using assms True by (intro exI [of _ i]) (auto simp: not_le)
  then show ?thesis by (simp add: first_row_def)
next
  case False
  then have i: "i = length rows - 1" using assms(3) by blast
  have "\<not> v \<le> key r" if "r \<in> set rows" for r
  proof -
    from that obtain j where j: "j < length rows" "rows ! j = r" by (auto simp: in_set_conv_nth)
    then show ?thesis using assms(2) False i by (cases "j = i") (auto simp: not_le)
  qed
  then have "List.find (\<lambda>r. v \<le> key r) rows = None" by (simp add: find_None_iff)
  moreover have "rows \<noteq> []" using assms(1) by auto
  ultimately show ?thesis using i by (simp add: first_row_def last_conv_nth)
qed

lemma search_rumble_row_first:
  assumes "0 < i" "i < length rows" and "\<forall>j < i. key (rows ! j) < v"
  shows "rows ! search_rumble_row (map key rows) v i = first_row key rows v"
  using assms
proof (induction "length rows - i" arbitrary: i)
  case 0
  then show ?case by simp
next
  case (Suc n)
  let ?found = "v \<le> key (rows ! i)"
  have prev: "key (rows ! (i - 1)) < v" using Suc.prems by simp
  show ?case
  proof (cases "i < length rows - 1 \<and> \<not> ?found")
    case True
    have "\<forall>j < Suc i. key (rows ! j) < v"
      using Suc.prems(3) True by (auto simp: less_Suc_eq not_le)
    moreover have "n = length rows - Suc i" "Suc i < length rows" using Suc.hyps(2) True by auto
    ultimately have "rows ! search_rumble_row (map key rows) v (Suc i) = first_row key rows v"
      using Suc.hyps(1) [of "Suc i"] by simp
    moreover have "search_rumble_row (map key rows) v i = search_rumble_row (map key rows) v (Suc i)"
      using True Suc.prems by (subst search_rumble_row.simps) simp
    ultimately show ?thesis by simp
  next
    case False
    then have "search_rumble_row (map key rows) v i = i"
      using Suc.prems prev by (subst search_rumble_row.simps) auto
    moreover have "first_row key rows v = rows ! i"
      using False Suc.prems by (intro first_row_nth) auto
    ultimately show ?thesis by simp
  qed
qed

lemma rumble_row_first:
  assumes "1 < length rows"
  shows "rows ! rumble_row (map key rows) v = first_row key rows v"
proof (cases "key (rows ! 0) < v")
  case True
  moreover have "map key rows ! 0 = key (rows ! 0)" by (rule nth_map) (use assms in auto)
  ultimately show ?thesis using assms search_rumble_row_first [of 1 rows key v]
    by (simp add: rumble_row_def)
next
  case False
  then have "first_row key rows v = rows ! 0" using assms by (intro first_row_nth) auto
  moreover have "map key rows ! 0 = key (rows ! 0)" by (rule nth_map) (use assms in auto)
  ultimately show ?thesis using False by (simp add: rumble_row_def)
qed

lemma rumble_table_lengths: "length rumble_freqs = 159" "length rumble_amps = 101"
  by (simp_all add: rumble_freqs_def rumble_amps_def)

lemma rumble_tables_increase:
  "successively (<) (map fq_freq rumble_freqs)" "successively (<) (map am_amp rumble_amps)"
  by code_simp+

lemma find_rumble_first:
  "find_rumble_freq f = first_row fq_freq rumble_freqs f"
  "find_rumble_amp a = first_row am_amp rumble_amps a"
  by (simp_all add: find_rumble_freq_def find_rumble_amp_def rumble_row_first rumble_table_lengths)

lemma first_row_in: "rows \<noteq> [] \<Longrightarrow> first_row key rows v \<in> set rows"
  by (auto simp: first_row_def find_Some_iff split: option.splits)

lemma find_rumble_in: "find_rumble_freq f \<in> set rumble_freqs" "find_rumble_amp a \<in> set rumble_amps"
  using rumble_table_lengths by (auto simp: find_rumble_first intro!: first_row_in)

section \<open>The encoding\<close>

definition switch_encode_rumble :: "u16 \<Rightarrow> u16 \<Rightarrow> u16 \<Rightarrow> bytes" where
  "switch_encode_rumble freq_low freq_high amp =
     (let freq_data_low = find_rumble_freq freq_low;
          freq_data_high = find_rumble_freq freq_high;
          amp_data = find_rumble_amp amp
      in [ucast (drop_bit 8 (fq_high freq_data_high)),
          ucast (fq_high freq_data_high AND 0xff) + am_high amp_data,
          fq_low freq_data_low + ucast (drop_bit 8 (am_low amp_data)),
          ucast (am_low amp_data)])"

text \<open>The fields of the four bytes, as the tables lay them out.\<close>

definition decode_rumble :: "bytes \<Rightarrow> u16 \<times> u8 \<times> u8 \<times> u16" where
  "decode_rumble d =
     (push_bit 8 (ucast (d ! 0)) OR ucast (d ! 1 AND 1), d ! 2 AND 0x7f,
      d ! 1 AND 0xfe, push_bit 8 (ucast (d ! 2 AND 0x80)) OR ucast (d ! 3))"

definition freq_row_ok :: "switch_rumble_freq_data \<Rightarrow> bool" where
  "freq_row_ok r \<longleftrightarrow>
     push_bit 8 (ucast (ucast (drop_bit 8 (fq_high r)) :: u8)) OR (fq_high r AND 0xff) = fq_high r
     \<and> fq_high r AND 0xff \<in> {0, 1}
     \<and> (fq_low r + 0) AND 0x7f = fq_low r \<and> (fq_low r + 0x80) AND 0x7f = fq_low r
     \<and> (fq_low r + 0) AND 0x80 = 0 \<and> (fq_low r + 0x80) AND 0x80 = 0x80"

definition amp_row_ok :: "switch_rumble_amp_data \<Rightarrow> bool" where
  "amp_row_ok r \<longleftrightarrow>
     (0 + am_high r) AND 1 = 0 \<and> (1 + am_high r) AND 1 = 1
     \<and> (0 + am_high r) AND 0xfe = am_high r \<and> (1 + am_high r) AND 0xfe = am_high r
     \<and> (ucast (drop_bit 8 (am_low r)) :: u8) \<in> {0, 0x80}
     \<and> push_bit 8 (ucast (ucast (drop_bit 8 (am_low r)) :: u8)) OR ucast (ucast (am_low r) :: u8) = am_low r"

lemma rumble_rows_ok: "list_all freq_row_ok rumble_freqs" "list_all amp_row_ok rumble_amps"
  by code_simp+

lemma decode_encode_rumble:
  "decode_rumble (switch_encode_rumble f_low f_high a)
    = (fq_high (find_rumble_freq f_high), fq_low (find_rumble_freq f_low),
       am_high (find_rumble_amp a), am_low (find_rumble_amp a))"
proof -
  have rows: "freq_row_ok (find_rumble_freq f_low)" "freq_row_ok (find_rumble_freq f_high)"
    "amp_row_ok (find_rumble_amp a)"
    using rumble_rows_ok find_rumble_in by (auto simp: list_all_iff)
  then show ?thesis
    unfolding switch_encode_rumble_def decode_rumble_def Let_def freq_row_ok_def amp_row_ok_def
    by auto
qed

lemma rumble_amp_500: "find_rumble_amp 500 = amp_data (0x88, 0x0062, 501)"
  unfolding find_rumble_first by code_simp

section \<open>Properties\<close>

text \<open>C16: the two table searches round up: they return the row of the least frequency or
  amplitude that is not below the value, and the last row for a value beyond the table. The four
  bytes made of three rows can be told apart again: both frequency codes and both amplitude codes
  are read back, no field carries into another.\<close>

theorem rumble_encoding_round_trip:
  "find_rumble_freq f_low = first_row fq_freq rumble_freqs f_low
   \<and> find_rumble_amp a = first_row am_amp rumble_amps a
   \<and> successively (<) (map fq_freq rumble_freqs) \<and> successively (<) (map am_amp rumble_amps)
   \<and> decode_rumble (switch_encode_rumble f_low f_high a)
       = (fq_high (find_rumble_freq f_high), fq_low (find_rumble_freq f_low),
          am_high (find_rumble_amp a), am_low (find_rumble_amp a))"
  by (intro conjI find_rumble_first rumble_tables_increase decode_encode_rumble)

end
