(* ===== verification/Switch_Sticks.thy ===== *)
theory Switch_Sticks
  imports Playstation
begin

text \<open>
  The sticks and the motion sensors of the Nintendo Switch controllers
  (\<^verbatim>\<open>uni_hid_parser_switch.c\<close>): the packing of two 12-bit values in three bytes, the
  calibration data in flash memory, and the conversion of raw values. A division by a
  range that is zero is \<open>Inl Division_by_zero\<close>.
\<close>

section \<open>Packed stick values\<close>

text \<open>\<^verbatim>\<open>a | ((b & 0x0f) << 8)\<close> and \<^verbatim>\<open>(b >> 4) | (c << 4)\<close>, in \<^verbatim>\<open>int\<close>.\<close>

definition stick_low :: "u8 \<Rightarrow> u8 \<Rightarrow> int" where
  "stick_low a b = uint a OR push_bit 8 (uint (b AND 0x0f))"

definition stick_high :: "u8 \<Rightarrow> u8 \<Rightarrow> int" where
  "stick_high b c = drop_bit 4 (uint b) OR push_bit 4 (uint c)"

lemma uint_nibble: "uint (b AND 0x0f :: u8) = take_bit 4 (uint b)"
proof -
  have "(0x0f :: u8) = Bit_Operations.mask 4" by (simp add: mask_eq_exp_minus_1)
  then have "b AND 0x0f = take_bit 4 b" by (simp add: take_bit_eq_mask)
  then show ?thesis by (simp add: unsigned_take_bit_eq)
qed

lemma stick_low_eq: "stick_low a b = uint a + take_bit 4 (uint b) * 256"
proof -
  have "uint a = take_bit 8 (uint a)" using u8_bounds [of a] by (simp add: take_bit_int_eq_self)
  then have "stick_low a b = push_bit 8 (take_bit 4 (uint b)) + uint a"
    unfolding stick_low_def uint_nibble
    by (subst disjunctive_add) (auto simp: bit_simps or.commute dest: bit_imp_le_length)
  then show ?thesis by (simp add: push_bit_eq_mult)
qed

lemma drop_4_bounds: "0 \<le> drop_bit 4 (uint (b :: u8))" "drop_bit 4 (uint b) \<le> 15"
  using u8_bounds [of b] by (simp_all add: drop_bit_eq_div pos_imp_zdiv_nonneg_iff)

lemma stick_high_eq: "stick_high b c = drop_bit 4 (uint b) + uint c * 16"
proof -
  have d: "drop_bit 4 (uint b) = take_bit 4 (drop_bit 4 (uint b))"
    using drop_4_bounds [of b] by (subst take_bit_int_eq_self) simp_all
  have "stick_high b c = push_bit 4 (uint c) + drop_bit 4 (uint b)"
    unfolding stick_high_def
    by (subst (1 2) d, subst disjunctive_add) (auto simp: bit_simps or.commute)
  then show ?thesis by (simp add: push_bit_eq_mult)
qed

lemma stick_bounds:
  "0 \<le> stick_low a b" "stick_low a b \<le> 4095" "0 \<le> stick_high b c" "stick_high b c \<le> 4095"
proof -
  have "take_bit 4 (uint b) \<le> 15" using take_bit_int_less_exp [of 4 "uint b"] by simp
  moreover have "0 \<le> take_bit 4 (uint b)" by simp
  moreover note drop_4_bounds [of b]
  ultimately show "0 \<le> stick_low a b" "stick_low a b \<le> 4095" "0 \<le> stick_high b c" "stick_high b c \<le> 4095"
    using u8_bounds [of a] u8_bounds [of c] by (simp_all add: stick_low_eq stick_high_eq)
qed

text \<open>What a controller sends for two 12-bit values.\<close>

definition pack_stick :: "int \<Rightarrow> int \<Rightarrow> bytes" where
  "pack_stick x y = [word_of_int x, word_of_int (x div 256 + (y mod 16) * 16), word_of_int (y div 16)]"

lemma uint_of_u8: "0 \<le> k \<Longrightarrow> k \<le> 255 \<Longrightarrow> uint (word_of_int k :: u8) = k"
  by (simp add: uint_word_of_int_eq take_bit_int_eq_self)

lemma stick_of_packed:
  assumes "x \<in> {0..4095}" "y \<in> {0..4095}"
  shows "stick_low (pack_stick x y ! 0) (pack_stick x y ! 1) = x"
    and "stick_high (pack_stick x y ! 1) (pack_stick x y ! 2) = y"
proof -
  define m where "m = x div 256 + (y mod 16) * 16"
  have x: "0 \<le> x div 256" "x div 256 \<le> 15" using assms by auto
  have "0 \<le> m" "m \<le> 255" "m mod 16 = x div 256" "m div 16 = y mod 16"
    using x by (simp_all add: m_def)
  moreover have "pack_stick x y = [word_of_int x, word_of_int m, word_of_int (y div 16)]"
    by (simp only: pack_stick_def m_def)
  moreover have "uint (word_of_int x :: u8) = x mod 256"
    by (simp add: uint_word_of_int_eq take_bit_eq_mod)
  moreover have "uint (word_of_int (y div 16) :: u8) = y div 16"
    using assms by (intro uint_of_u8) auto
  ultimately show "stick_low (pack_stick x y ! 0) (pack_stick x y ! 1) = x"
    and "stick_high (pack_stick x y ! 1) (pack_stick x y ! 2) = y"
    by (simp_all add: stick_low_eq stick_high_eq uint_of_u8 take_bit_eq_mod drop_bit_eq_div)
qed

section \<open>Stick calibration\<close>

record switch_cal_stick =
  cal_min :: int
  cal_center :: int
  cal_max :: int

text \<open>
  Nine bytes, three packed pairs. The left stick has the distance to the maximum, the centre
  and the distance to the minimum in this order, the right stick the centre, the distance to
  the minimum and the one to the maximum.
\<close>

definition cal_of :: "int \<Rightarrow> int \<Rightarrow> int \<Rightarrow> switch_cal_stick" where
  "cal_of center down up = \<lparr>cal_min = center - down, cal_center = center, cal_max = center + up\<rparr>"

definition read_packed :: "bytes \<Rightarrow> nat \<Rightarrow> (int \<times> int) cres" where
  "read_packed data i =
     bindR (read_byte data i) (\<lambda>a. bindR (read_byte data (i + 1)) (\<lambda>b.
     mapR (\<lambda>c. (stick_low a b, stick_high b c)) (read_byte data (i + 2))))"

definition parse_stick_calibration :: "bytes \<Rightarrow> bool \<Rightarrow> (switch_cal_stick \<times> switch_cal_stick) cres" where
  "parse_stick_calibration data is_left =
     bindR (read_packed data 0) (\<lambda>(x0, y0). bindR (read_packed data 3) (\<lambda>(x1, y1).
     mapR (\<lambda>(x2, y2).
       if is_left then (cal_of x1 x2 x0, cal_of y1 y2 y0)
       else (cal_of x0 x1 x2, cal_of y0 y1 y2))
     (read_packed data 6)))"

definition default_stick_calibration :: switch_cal_stick where
  "default_stick_calibration = \<lparr>cal_min = 512, cal_center = 2048, cal_max = 3583\<rparr>"

text \<open>What every calibration in use satisfies.\<close>

definition stick_cal_ok :: "switch_cal_stick \<Rightarrow> bool" where
  "stick_cal_ok c \<longleftrightarrow> cal_center c \<in> {0..4095} \<and> cal_min c \<in> {-4095..4095} \<and> cal_max c \<in> {0..8190}"

lemma read_packed_total:
  assumes "i + 2 < length data"
  shows "\<exists>x y. read_packed data i = Inr (x, y) \<and> x \<in> {0..4095} \<and> y \<in> {0..4095}"
  using assms by (simp add: read_packed_def read_byte_def stick_bounds)

lemma read_packed_bounds:
  "read_packed data i = Inr (x, y) \<Longrightarrow> x \<in> {0..4095} \<and> y \<in> {0..4095}"
  by (auto simp: read_packed_def bindR_Inr_iff mapR_Inr_iff stick_bounds)

lemma read_packed_fails: "read_packed data i = Inl e \<Longrightarrow> e = Out_of_bounds \<and> length data \<le> i + 2"
  by (auto simp: read_packed_def read_byte_def split: if_splits)

lemma cal_of_ok:
  "center \<in> {0..4095} \<Longrightarrow> down \<in> {0..4095} \<Longrightarrow> up \<in> {0..4095} \<Longrightarrow> stick_cal_ok (cal_of center down up)"
  by (simp add: stick_cal_ok_def cal_of_def)

lemma parse_stick_calibration_total:
  assumes "9 \<le> length data"
  shows "\<exists>cx cy. parse_stick_calibration data is_left = Inr (cx, cy) \<and> stick_cal_ok cx \<and> stick_cal_ok cy"
proof -
  obtain x0 y0 x1 y1 x2 y2 where
    "read_packed data 0 = Inr (x0, y0)" "x0 \<in> {0..4095}" "y0 \<in> {0..4095}"
    "read_packed data 3 = Inr (x1, y1)" "x1 \<in> {0..4095}" "y1 \<in> {0..4095}"
    "read_packed data 6 = Inr (x2, y2)" "x2 \<in> {0..4095}" "y2 \<in> {0..4095}"
    using read_packed_total [of 0 data] read_packed_total [of 3 data] read_packed_total [of 6 data] assms
    by auto
  then show ?thesis by (simp add: parse_stick_calibration_def cal_of_ok)
qed

lemma parse_stick_calibration_result:
  "case parse_stick_calibration data is_left of
     Inl e \<Rightarrow> e = Out_of_bounds \<and> length data < 9
   | Inr (cx, cy) \<Rightarrow> stick_cal_ok cx \<and> stick_cal_ok cy"
proof (cases "9 \<le> length data")
  case True
  then show ?thesis using parse_stick_calibration_total [of data is_left] by auto
next
  case False
  then have "\<exists>e. parse_stick_calibration data is_left = Inl e \<and> e = Out_of_bounds"
    by (auto simp: parse_stick_calibration_def read_packed_def read_byte_def)
  with False show ?thesis by auto
qed

lemma default_stick_calibration_ok: "stick_cal_ok default_stick_calibration"
  by (simp add: stick_cal_ok_def default_stick_calibration_def)

section \<open>Calibrated axes\<close>

definition calibrate_axis :: "int \<Rightarrow> switch_cal_stick \<Rightarrow> int cres" where
  "calibrate_axis v cal =
     mapR (\<lambda>ret.
         let ret1 = (if AXIS_NORMALIZE_RANGE sdiv 2 < ret then AXIS_NORMALIZE_RANGE sdiv 2 else ret)
         in if ret1 < (- AXIS_NORMALIZE_RANGE) sdiv 2 then (- AXIS_NORMALIZE_RANGE) sdiv 2 else ret1)
       (if cal_center cal < v then
          bindR (i32 (v - cal_center cal)) (\<lambda>d.
          bindR (i32 (d * AXIS_NORMALIZE_RANGE)) (\<lambda>p.
          bindR (i32 (cal_max cal - cal_center cal)) (\<lambda>q. i32_div (p sdiv 2) q)))
        else
          bindR (i32 (cal_center cal - v)) (\<lambda>d.
          bindR (i32 (d * (- AXIS_NORMALIZE_RANGE))) (\<lambda>p.
          bindR (i32 (cal_center cal - cal_min cal)) (\<lambda>q. i32_div (p sdiv 2) q))))"

text \<open>The range that a value is divided by.\<close>

definition stick_range :: "switch_cal_stick \<Rightarrow> int \<Rightarrow> int" where
  "stick_range cal v =
     (if cal_center cal < v then cal_max cal - cal_center cal else cal_center cal - cal_min cal)"

definition clamp_axis :: "int \<Rightarrow> int" where
  "clamp_axis ret = max (- 512) (min 512 ret)"

text \<open>The conversion on the values that occur: proportional to the distance from the centre.\<close>

lemma calibrate_axis_eq:
  assumes "v \<in> {0..4095}" and "stick_cal_ok cal"
  shows "calibrate_axis v cal
    = (if stick_range cal v = 0 then Inl Division_by_zero
       else Inr (clamp_axis (((v - cal_center cal) * 512) sdiv stick_range cal v)))"
proof -
  let ?d = "v - cal_center cal" and ?r = "stick_range cal v"
  have c: "cal_center cal \<in> {0..4095}" "cal_min cal \<in> {-4095..4095}" "cal_max cal \<in> {0..8190}"
    using assms(2) by (simp_all add: stick_cal_ok_def)
  have half: "(a * 1024) sdiv 2 = a * 512" "(a * - 1024) sdiv 2 = - a * 512" for a :: int
  proof -
    have "(c * 2) sdiv 2 = c" for c :: int
      by (simp add: signed_divide_int_def sgn_mult abs_mult sgn_mult_abs)
    from this [of "a * 512"] this [of "- a * 512"]
    show "(a * 1024) sdiv 2 = a * 512" "(a * - 1024) sdiv 2 = - a * 512" by (simp_all add: mult.commute)
  qed
  have small: "in_i32 x" if "\<bar>x\<bar> \<le> 8388608" for x using that by (auto simp: in_i32_def abs_le_iff)
  have quot: "i32_div a b = (if b = 0 then Inl Division_by_zero else Inr (a sdiv b))" if "\<bar>a\<bar> \<le> 8388608" for a b
    using that abs_sdiv_le [of a b] small [of "a sdiv b"] by (simp add: i32_div_def i32_ok)
  have half_range: "AXIS_NORMALIZE_RANGE sdiv 2 = 512" "(- AXIS_NORMALIZE_RANGE) sdiv 2 = - 512"
    by (simp_all add: AXIS_NORMALIZE_RANGE_def)
  have clamp: "(let ret1 = (if 512 < ret then 512 else ret) in if ret1 < - 512 then - 512 else ret1) = clamp_axis ret"
    for ret by (simp add: clamp_axis_def Let_def)
  have side: "bindR (i32 d) (\<lambda>d. bindR (i32 (d * AXIS_NORMALIZE_RANGE)) (\<lambda>p. bindR (i32 q) (\<lambda>q. i32_div (p sdiv 2) q)))
      = (if q = 0 then Inl Division_by_zero else Inr ((d * 512) sdiv q))"
    "bindR (i32 d) (\<lambda>d. bindR (i32 (d * (- AXIS_NORMALIZE_RANGE))) (\<lambda>p. bindR (i32 q) (\<lambda>q. i32_div (p sdiv 2) q)))
      = (if q = 0 then Inl Division_by_zero else Inr ((- d * 512) sdiv q))"
    if "\<bar>d\<bar> \<le> 4095" "\<bar>q\<bar> \<le> 8388608" for d q
    using that by (simp_all only: AXIS_NORMALIZE_RANGE_def small i32_ok bindR_simps half)
      (simp_all add: small i32_ok half quot abs_mult)
  show ?thesis
  proof (cases "cal_center cal < v")
    case True
    with assms(1) c have "\<bar>?d\<bar> \<le> 4095" "\<bar>cal_max cal - cal_center cal\<bar> \<le> 8388608"
      by (simp_all add: abs_le_iff)
    with True show ?thesis
      unfolding calibrate_axis_def half_range clamp by (simp add: side stick_range_def)
  next
    case False
    with assms(1) c have "\<bar>cal_center cal - v\<bar> \<le> 4095" "\<bar>cal_center cal - cal_min cal\<bar> \<le> 8388608"
      by (simp_all add: abs_le_iff)
    from side(2) [OF this] False show ?thesis
      unfolding calibrate_axis_def half_range clamp by (simp only: if_False) (simp add: stick_range_def)
  qed
qed

lemma sdiv_nonneg_eq: "0 \<le> a \<Longrightarrow> 0 < b \<Longrightarrow> a sdiv b = (a :: int) div b"
  by (cases "a = 0") (simp_all add: signed_divide_int_def sgn_1_pos)

lemma sdiv_neg_eq: "a \<le> 0 \<Longrightarrow> 0 < b \<Longrightarrow> a sdiv b = - ((- a :: int) div b)"
  by (cases "a = 0") (simp_all add: signed_divide_int_def)

lemma sdiv_mono: "0 < b \<Longrightarrow> a \<le> a' \<Longrightarrow> a sdiv b \<le> a' sdiv (b :: int)"
proof -
  assume b: "0 < b" and le: "a \<le> a'"
  consider "0 \<le> a" | "a \<le> 0" "0 \<le> a'" | "a' \<le> 0" using le by linarith
  then show ?thesis
  proof cases
    case 1
    with b le show ?thesis by (simp add: sdiv_nonneg_eq zdiv_mono1)
  next
    case 2
    moreover from this b have "0 \<le> (- a) div b" "0 \<le> a' div b"
      by (simp_all add: pos_imp_zdiv_nonneg_iff)
    ultimately show ?thesis using b by (simp add: sdiv_nonneg_eq sdiv_neg_eq)
  next
    case 3
    with b le show ?thesis by (simp add: sdiv_neg_eq zdiv_mono1)
  qed
qed

definition proper_stick :: "switch_cal_stick \<Rightarrow> bool" where
  "proper_stick cal \<longleftrightarrow> stick_cal_ok cal \<and> cal_min cal < cal_center cal \<and> cal_center cal < cal_max cal"

definition scaled_stick :: "switch_cal_stick \<Rightarrow> int \<Rightarrow> int" where
  "scaled_stick cal v = ((v - cal_center cal) * 512) sdiv stick_range cal v"

lemma scaled_stick_mono:
  assumes "proper_stick cal" and "v \<le> v'"
  shows "scaled_stick cal v \<le> scaled_stick cal v'"
proof -
  let ?c = "cal_center cal"
  have r: "0 < stick_range cal u" for u using assms(1) by (simp add: stick_range_def proper_stick_def)
  show ?thesis
  proof (cases "stick_range cal v = stick_range cal v'")
    case True
    then show ?thesis using r [of v] assms(2) by (simp add: scaled_stick_def sdiv_mono)
  next
    case False
    then have "v \<le> ?c" "?c < v'" using assms(2) by (auto simp: stick_range_def split: if_splits)
    then have "scaled_stick cal v \<le> 0 sdiv stick_range cal v" "0 sdiv stick_range cal v' \<le> scaled_stick cal v'"
      unfolding scaled_stick_def by (intro sdiv_mono r; simp)+
    then show ?thesis by (simp add: signed_divide_int_def)
  qed
qed

lemma scaled_stick_points:
  assumes "proper_stick cal"
  shows "scaled_stick cal (cal_center cal) = 0" "scaled_stick cal (cal_min cal) = - 512"
    "scaled_stick cal (cal_max cal) = 512"
proof -
  have "cal_min cal < cal_center cal" "cal_center cal < cal_max cal"
    using assms by (simp_all add: proper_stick_def)
  moreover have "(k * 512) sdiv k = 512" "(- k * 512) sdiv k = - 512" if "0 < k" for k :: int
    using that by (simp_all add: sdiv_nonneg_eq sdiv_neg_eq)
  from this(1) [of "cal_max cal - cal_center cal"] this(2) [of "cal_center cal - cal_min cal"] calculation
  show "scaled_stick cal (cal_center cal) = 0" "scaled_stick cal (cal_min cal) = - 512"
    "scaled_stick cal (cal_max cal) = 512"
    by (simp_all add: scaled_stick_def stick_range_def)
qed

lemma calibrate_axis_scaled:
  assumes "v \<in> {0..4095}" and "proper_stick cal"
  shows "calibrate_axis v cal = Inr (clamp_axis (scaled_stick cal v))"
proof -
  have "stick_range cal v \<noteq> 0" using assms(2) by (simp add: stick_range_def proper_stick_def)
  with assms show ?thesis by (simp add: calibrate_axis_eq proper_stick_def scaled_stick_def)
qed

lemma clamp_axis_mono: "a \<le> b \<Longrightarrow> clamp_axis a \<le> clamp_axis b"
  by (simp add: clamp_axis_def)

lemma calibrate_axis_result:
  assumes "v \<in> {0..4095}" and "stick_cal_ok cal"
  shows "case calibrate_axis v cal of
      Inl e \<Rightarrow> e = Division_by_zero \<and> stick_range cal v = 0
    | Inr r \<Rightarrow> r \<in> {-512..512}"
  using assms by (simp add: calibrate_axis_eq clamp_axis_def)

section \<open>Motion sensors\<close>

text \<open>\<^verbatim>\<open>switch_cal_imu_t\<close>: offsets and scales of the three axes, from \<^verbatim>\<open>int16_t\<close> fields.\<close>

record switch_cal_imu =
  imu_offset :: "int list"
  imu_scale :: "int list"

definition SWITCH_IMU_PREC_RANGE_SCALE :: int where "SWITCH_IMU_PREC_RANGE_SCALE = 1000"

definition default_accel_cal :: switch_cal_imu where
  "default_accel_cal = \<lparr>imu_offset = [0, 0, 0], imu_scale = [16384, 16384, 16384]\<rparr>"

definition default_gyro_cal :: switch_cal_imu where
  "default_gyro_cal = \<lparr>imu_offset = [0, 0, 0], imu_scale = [13371, 13371, 13371]\<rparr>"

definition imu_divisors :: "switch_cal_imu \<Rightarrow> int list" where
  "imu_divisors cal = map (\<lambda>i. imu_scale cal ! i - imu_offset cal ! i) [0, 1, 2]"

definition accel_value :: "int \<Rightarrow> int \<Rightarrow> int \<Rightarrow> int cres" where
  "accel_value raw_data scale divisor =
     (if divisor = 0 then Inr raw_data else bindR (i32 (raw_data * scale)) (\<lambda>p. i32_div p divisor))"

definition gyro_value :: "int \<Rightarrow> int \<Rightarrow> int \<Rightarrow> int \<Rightarrow> int cres" where
  "gyro_value raw_data offset scale divisor =
     bindR (i32 (raw_data - offset)) (\<lambda>d.
     bindR (i32 (SWITCH_IMU_PREC_RANGE_SCALE * d)) (\<lambda>x.
     mapR narrow_i32 (mult_frac x scale divisor)))"

text \<open>One turn of the loop of \<^verbatim>\<open>parse_imu\<close> over the six values of a frame.\<close>

definition imu_axis :: "int list \<Rightarrow> switch_cal_imu \<Rightarrow> switch_cal_imu \<Rightarrow> nat \<Rightarrow> (int \<times> int) cres" where
  "imu_axis frame accel_cal gyro_cal i =
     bindR (accel_value (frame ! i) (imu_scale accel_cal ! i) (imu_divisors accel_cal ! i)) (\<lambda>a.
     mapR (\<lambda>g. (a, g))
       (gyro_value (frame ! (3 + i)) (imu_offset gyro_cal ! i) (imu_scale gyro_cal ! i) (imu_divisors gyro_cal ! i)))"

definition is_i16 :: "int \<Rightarrow> bool" where
  "is_i16 x \<longleftrightarrow> - 32768 \<le> x \<and> x \<le> 32767"

definition imu_cal_ok :: "switch_cal_imu \<Rightarrow> bool" where
  "imu_cal_ok cal \<longleftrightarrow> length (imu_offset cal) = 3 \<and> length (imu_scale cal) = 3
     \<and> (\<forall>i < 3. is_i16 (imu_offset cal ! i) \<and> is_i16 (imu_scale cal ! i))"

lemma default_imu_cals_ok: "imu_cal_ok default_accel_cal" "imu_cal_ok default_gyro_cal"
  by (auto simp: imu_cal_ok_def default_accel_cal_def default_gyro_cal_def is_i16_def
      less_Suc_eq numeral_3_eq_3)

text \<open>The accelerometer never fails; the gyroscope only without a range.\<close>

lemma accel_value_total:
  assumes "is_i16 r" "is_i16 s"
  shows "\<exists>a. accel_value r s d = Inr a \<and> \<bar>a\<bar> \<le> 1073741824"
proof (cases "d = 0")
  case True
  with assms(1) show ?thesis by (simp add: accel_value_def is_i16_def abs_le_iff)
next
  case False
  have "\<bar>r\<bar> \<le> 32768" "\<bar>s\<bar> \<le> 32768" using assms by (simp_all add: is_i16_def abs_le_iff)
  then have p: "\<bar>r * s\<bar> \<le> 1073741824" using mult_mono [of "\<bar>r\<bar>" 32768 "\<bar>s\<bar>" 32768] by (simp add: abs_mult)
  moreover have q: "\<bar>(r * s) sdiv d\<bar> \<le> 1073741824" using p abs_sdiv_le [of "r * s" d] by linarith
  moreover have "in_i32 x" if "\<bar>x\<bar> \<le> 1073741824" for x using that by (auto simp: in_i32_def abs_le_iff)
  ultimately show ?thesis using False by (simp add: accel_value_def i32_div_def i32_ok)
qed

lemma gyro_value_eq:
  assumes "is_i16 r" "is_i16 off" "is_i16 s"
  shows "gyro_value r off s d
    = (if d = 0 then Inl Division_by_zero else Inr (narrow_i32 ((1000 * (r - off) * s) sdiv d)))"
proof -
  have "\<bar>r - off\<bar> \<le> 65535" using assms by (auto simp: is_i16_def abs_le_iff)
  moreover from this have x: "\<bar>1000 * (r - off)\<bar> \<le> 2 ^ 31" by (auto simp: abs_le_iff)
  moreover have "in_i32 (r - off)" "in_i32 (1000 * (r - off))"
    using calculation(1) by (auto simp: in_i32_def abs_le_iff)
  moreover have "\<bar>s\<bar> \<le> 2 ^ 15" using assms(3) by (simp add: is_i16_def abs_le_iff)
  ultimately show ?thesis
    using mult_frac_eq [OF x, of s d]
    by (simp add: gyro_value_def SWITCH_IMU_PREC_RANGE_SCALE_def i32_ok mult_frac_def)
qed

lemma narrow_i32_range: "in_i32 (narrow_i32 x)"
  by (simp add: narrow_i32_def)

lemma imu_axis_result:
  assumes "i < 3" "length frame = 6" "\<forall>x \<in> set frame. is_i16 x" "imu_cal_ok ac" "imu_cal_ok gc"
  shows "case imu_axis frame ac gc i of
      Inl e \<Rightarrow> e = Division_by_zero \<and> imu_divisors gc ! i = 0
    | Inr (a, g) \<Rightarrow> \<bar>a\<bar> \<le> 1073741824 \<and> in_i32 g"
proof -
  have raw: "is_i16 (frame ! i)" "is_i16 (frame ! (3 + i))" using assms(1-3) by simp_all
  have cals: "is_i16 (imu_scale ac ! i)" "is_i16 (imu_offset gc ! i)" "is_i16 (imu_scale gc ! i)"
    using assms(1,4,5) by (simp_all add: imu_cal_ok_def)
  obtain a where "accel_value (frame ! i) (imu_scale ac ! i) (imu_divisors ac ! i) = Inr a" "\<bar>a\<bar> \<le> 1073741824"
    using accel_value_total [OF raw(1) cals(1)] by blast
  then show ?thesis
    by (simp add: imu_axis_def gyro_value_eq [OF raw(2) cals(2,3)] narrow_i32_range)
qed

section \<open>Properties\<close>

text \<open>C15: with a proper calibration, the minimum below the centre and the centre below the maximum,
  every 12-bit stick value has a calibrated position: the conversion never fails, is monotone,
  maps the centre to 0, everything from the maximum on to 512 and everything up to the minimum to
  -512, and nothing beyond. When the two ends of a side coincide, which the calibration data of a
  controller may say, the conversion divides by zero.\<close>

theorem stick_calibration_monotone:
  fixes v v' :: int
  assumes "v \<in> {0..4095}" "v' \<in> {0..4095}" and "stick_cal_ok cal"
  shows "(proper_stick cal \<longrightarrow>
       (\<exists>r r'. calibrate_axis v cal = Inr r \<and> calibrate_axis v' cal = Inr r'
          \<and> r \<in> {-512..512} \<and> (v \<le> v' \<longrightarrow> r \<le> r')
          \<and> (v = cal_center cal \<longrightarrow> r = 0) \<and> (cal_max cal \<le> v \<longrightarrow> r = 512) \<and> (v \<le> cal_min cal \<longrightarrow> r = - 512)))
     \<and> (stick_range cal v = 0 \<longrightarrow> calibrate_axis v cal = Inl Division_by_zero)"
proof (intro conjI impI)
  assume proper: "proper_stick cal"
  have ends: "cal_max cal \<le> v \<Longrightarrow> 512 \<le> scaled_stick cal v" "v \<le> cal_min cal \<Longrightarrow> scaled_stick cal v \<le> - 512"
    using scaled_stick_mono [OF proper] scaled_stick_points [OF proper] by metis+
  show "\<exists>r r'. calibrate_axis v cal = Inr r \<and> calibrate_axis v' cal = Inr r'
          \<and> r \<in> {-512..512} \<and> (v \<le> v' \<longrightarrow> r \<le> r')
          \<and> (v = cal_center cal \<longrightarrow> r = 0) \<and> (cal_max cal \<le> v \<longrightarrow> r = 512) \<and> (v \<le> cal_min cal \<longrightarrow> r = - 512)"
    using calibrate_axis_scaled [OF assms(1) proper] calibrate_axis_scaled [OF assms(2) proper]
      scaled_stick_mono [OF proper, of v v'] scaled_stick_points(1) [OF proper] ends
    by (auto intro!: clamp_axis_mono simp: clamp_axis_def)
next
  assume "stick_range cal v = 0"
  with assms show "calibrate_axis v cal = Inl Division_by_zero" by (simp add: calibrate_axis_eq)
qed

theorem stick_calibration_monotone_witness:
  "proper_stick default_stick_calibration
   \<and> (\<exists>r r'. calibrate_axis 100 default_stick_calibration = Inr r \<and> calibrate_axis 3000 default_stick_calibration = Inr r'
        \<and> r \<in> {-512..512} \<and> r \<le> r' \<and> r = - 512)"
proof -
  have "proper_stick default_stick_calibration"
    by (simp add: proper_stick_def default_stick_calibration_ok) (simp add: default_stick_calibration_def)
  moreover have "(100 :: int) \<in> {0..4095}" "(3000 :: int) \<in> {0..4095}" "100 \<le> cal_min default_stick_calibration"
    by (simp_all add: default_stick_calibration_def)
  ultimately show ?thesis
    using stick_calibration_monotone [of 100 3000 default_stick_calibration] default_stick_calibration_ok by auto
qed

text \<open>What a controller stores is what the driver uses: nine bytes that pack the distances below and above
  the centre and the centres of both axes, in the order of the left or of the right stick, give
  back the minimum, centre and maximum of both axes; and three packed bytes of a report give
  back both stick values.\<close>

theorem stick_calibration_round_trip:
  assumes "\<forall>k \<in> {x_up, y_up, x_mid, y_mid, x_down, y_down}. k \<in> {0..4095}"
  shows "parse_stick_calibration (pack_stick x_up y_up @ pack_stick x_mid y_mid @ pack_stick x_down y_down @ rest) True
      = Inr (cal_of x_mid x_down x_up, cal_of y_mid y_down y_up)
    \<and> parse_stick_calibration (pack_stick x_mid y_mid @ pack_stick x_down y_down @ pack_stick x_up y_up @ rest) False
      = Inr (cal_of x_mid x_down x_up, cal_of y_mid y_down y_up)
    \<and> read_packed (pack_stick x_mid y_mid) 0 = Inr (x_mid, y_mid)"
proof -
  have packed: "\<exists>a b c. pack_stick x y = [a, b, c] \<and> stick_low a b = x \<and> stick_high b c = y"
    if "x \<in> {0..4095}" "y \<in> {0..4095}" for x y
    using stick_of_packed [OF that] by (simp add: pack_stick_def)
  obtain a0 b0 c0 a1 b1 c1 a2 b2 c2 where
    "pack_stick x_up y_up = [a0, b0, c0]" "stick_low a0 b0 = x_up" "stick_high b0 c0 = y_up"
    "pack_stick x_mid y_mid = [a1, b1, c1]" "stick_low a1 b1 = x_mid" "stick_high b1 c1 = y_mid"
    "pack_stick x_down y_down = [a2, b2, c2]" "stick_low a2 b2 = x_down" "stick_high b2 c2 = y_down"
    using packed [of x_up y_up] packed [of x_mid y_mid] packed [of x_down y_down] assms by auto
  then show ?thesis
    by (simp add: parse_stick_calibration_def read_packed_def read_byte_def nth_append)
qed

theorem stick_calibration_round_trip_witness:
  "parse_stick_calibration (pack_stick 1500 1501 @ pack_stick 2048 2000 @ pack_stick 1400 1402 @ []) True
      = Inr (cal_of 2048 1400 1500, cal_of 2000 1402 1501)"
  using stick_calibration_round_trip [of 1500 1501 2048 2000 1400 1402 "[]"] by simp

end
