(* ===== verification/Switch.thy ===== *)
theory Switch
  imports Switch_Rumble Switch_Sticks
begin

text \<open>
  The driver of the Nintendo Switch controllers, \<^verbatim>\<open>uni_hid_parser_switch.c\<close>: the setup
  script with its timer, the answers to its commands, the three input reports, the LEDs and the
  rumble. The packet number is a static variable that all Switch controllers share.
\<close>

section \<open>The instance\<close>

datatype switch_state =
    STATE_UNINIT
  | STATE_SETUP
  | STATE_REQ_DEV_INFO
  | STATE_READ_FACTORY_STICK_CALIBRATION
  | STATE_READ_USER_STICK_CALIBRATION
  | STATE_READ_FACTORY_IMU_CALIBRATION
  | STATE_SET_FULL_REPORT
  | STATE_ENABLE_IMU
  | STATE_DUMP_FLASH
  | STATE_UPDATE_LED
  | STATE_READY

text \<open>The source compares states by their number.\<close>

fun switch_state_number :: "switch_state \<Rightarrow> nat" where
  "switch_state_number STATE_UNINIT = 0"
| "switch_state_number STATE_SETUP = 1"
| "switch_state_number STATE_REQ_DEV_INFO = 2"
| "switch_state_number STATE_READ_FACTORY_STICK_CALIBRATION = 3"
| "switch_state_number STATE_READ_USER_STICK_CALIBRATION = 4"
| "switch_state_number STATE_READ_FACTORY_IMU_CALIBRATION = 5"
| "switch_state_number STATE_SET_FULL_REPORT = 6"
| "switch_state_number STATE_ENABLE_IMU = 7"
| "switch_state_number STATE_DUMP_FLASH = 8"
| "switch_state_number STATE_UPDATE_LED = 9"
| "switch_state_number STATE_READY = 10"

lemma switch_state_number_inject: "switch_state_number s = switch_state_number t \<Longrightarrow> s = t"
  by (cases s; cases t) simp_all

instantiation switch_state :: linorder
begin

definition less_eq_switch_state :: "switch_state \<Rightarrow> switch_state \<Rightarrow> bool" where
  "s \<le> t \<longleftrightarrow> switch_state_number s \<le> switch_state_number t"

definition less_switch_state :: "switch_state \<Rightarrow> switch_state \<Rightarrow> bool" where
  "s < t \<longleftrightarrow> switch_state_number s < switch_state_number t"

instance
  by standard (auto simp: less_eq_switch_state_def less_switch_state_def dest: switch_state_number_inject)

end

datatype switch_flags = SWITCH_MODE_NONE | SWITCH_MODE_NORMAL | SWITCH_MODE_IMU

definition SWITCH_CONTROLLER_TYPE_JCL :: u8 where "SWITCH_CONTROLLER_TYPE_JCL = 0x01"
definition SWITCH_CONTROLLER_TYPE_JCR :: u8 where "SWITCH_CONTROLLER_TYPE_JCR = 0x02"
definition SWITCH_CONTROLLER_TYPE_PRO :: u8 where "SWITCH_CONTROLLER_TYPE_PRO = 0x03"
definition SWITCH_CONTROLLER_TYPE_SNES :: u8 where "SWITCH_CONTROLLER_TYPE_SNES = 0x0b"

record switch_device = ps_device +
  sw_setup_timer :: "u16 option"
  sw_state :: switch_state
  sw_mode :: switch_flags
  sw_firmware_version_hi :: u8
  sw_firmware_version_lo :: u8
  sw_controller_type :: u8
  sw_gamepad_seat :: u8
  sw_cal_x :: switch_cal_stick
  sw_cal_y :: switch_cal_stick
  sw_cal_rx :: switch_cal_stick
  sw_cal_ry :: switch_cal_stick
  sw_cal_accel :: switch_cal_imu
  sw_cal_gyro :: switch_cal_imu
  sw_packet_num :: u8
  sw_ready_calls :: nat

text \<open>
  The divisors of the sensors are always recomputed together with the calibration, so they are
  \<open>imu_divisors\<close> of it. \<open>sw_ready_calls\<close> counts the calls of
  \<^verbatim>\<open>uni_hid_device_set_ready_complete\<close>.
\<close>

section \<open>Commands\<close>

definition SUBCMD_REQ_DEV_INFO :: u8 where "SUBCMD_REQ_DEV_INFO = 0x02"
definition SUBCMD_SET_REPORT_MODE :: u8 where "SUBCMD_SET_REPORT_MODE = 0x03"
definition SUBCMD_SPI_FLASH_READ :: u8 where "SUBCMD_SPI_FLASH_READ = 0x10"
definition SUBCMD_SET_PLAYER_LEDS :: u8 where "SUBCMD_SET_PLAYER_LEDS = 0x30"
definition SUBCMD_ENABLE_IMU :: u8 where "SUBCMD_ENABLE_IMU = 0x40"
definition OUTPUT_RUMBLE_AND_SUBCMD :: u8 where "OUTPUT_RUMBLE_AND_SUBCMD = 0x01"
definition OUTPUT_RUMBLE_ONLY :: u8 where "OUTPUT_RUMBLE_ONLY = 0x10"

lemmas switch_constants = SUBCMD_REQ_DEV_INFO_def SUBCMD_SET_REPORT_MODE_def SUBCMD_SPI_FLASH_READ_def
  SUBCMD_SET_PLAYER_LEDS_def SUBCMD_ENABLE_IMU_def OUTPUT_RUMBLE_AND_SUBCMD_def OUTPUT_RUMBLE_ONLY_def
  SWITCH_CONTROLLER_TYPE_JCL_def SWITCH_CONTROLLER_TYPE_JCR_def SWITCH_CONTROLLER_TYPE_PRO_def
  SWITCH_CONTROLLER_TYPE_SNES_def

text \<open>\<^verbatim>\<open>struct switch_subcmd_request\<close>; a rumble request ends before \<^verbatim>\<open>subcmd_id\<close>.\<close>

definition switch_request :: "u8 \<Rightarrow> bytes \<Rightarrow> bytes \<Rightarrow> bytes \<Rightarrow> bytes" where
  "switch_request report_id left right rest = [0, report_id, 0] @ left @ right @ rest"

definition send_subcmd :: "bytes \<Rightarrow> switch_device \<Rightarrow> switch_device" where
  "send_subcmd r s =
     (let packet_num = sw_packet_num s;
          next_num = packet_num + 1
      in send_intr (r[2 := packet_num, 0 := 0xa2])
           (s\<lparr>sw_packet_num := (if 0x0f < next_num then 0 else next_num)\<rparr>))"

definition send_switch_subcmd :: "u8 \<Rightarrow> bytes \<Rightarrow> switch_device \<Rightarrow> switch_device" where
  "send_switch_subcmd subcmd_id args =
     send_subcmd (switch_request OUTPUT_RUMBLE_AND_SUBCMD [0, 0, 0, 0] [0, 0, 0, 0] (subcmd_id # args))"

definition spi_flash_read :: "u32 \<Rightarrow> u8 \<Rightarrow> switch_device \<Rightarrow> switch_device" where
  "spi_flash_read addr bytes_to_read = send_switch_subcmd SUBCMD_SPI_FLASH_READ (le32 addr @ [bytes_to_read])"

definition set_led :: "u8 \<Rightarrow> switch_device \<Rightarrow> switch_device" where
  "set_led leds s = send_switch_subcmd SUBCMD_SET_PLAYER_LEDS [leds AND 0x0f] (s\<lparr>sw_gamepad_seat := leds\<rparr>)"

section \<open>The setup script\<close>

definition fsm_request_device_info :: "switch_device \<Rightarrow> switch_device" where
  "fsm_request_device_info s = send_switch_subcmd SUBCMD_REQ_DEV_INFO [] (s\<lparr>sw_state := STATE_REQ_DEV_INFO\<rparr>)"

definition fsm_read_factory_stick_calibration :: "switch_device \<Rightarrow> switch_device" where
  "fsm_read_factory_stick_calibration s =
     spi_flash_read (if sw_controller_type s = SWITCH_CONTROLLER_TYPE_JCR then 0x6046 else 0x603d)
       (if sw_controller_type s = SWITCH_CONTROLLER_TYPE_PRO then 9 * 2 else 9)
       (s\<lparr>sw_state := STATE_READ_FACTORY_STICK_CALIBRATION\<rparr>)"

definition fsm_read_user_stick_calibration :: "switch_device \<Rightarrow> switch_device" where
  "fsm_read_user_stick_calibration s =
     spi_flash_read (if sw_controller_type s = SWITCH_CONTROLLER_TYPE_JCR then 0x801b else 0x8010)
       (if sw_controller_type s = SWITCH_CONTROLLER_TYPE_PRO then 11 * 2 else 11)
       (s\<lparr>sw_state := STATE_READ_USER_STICK_CALIBRATION\<rparr>)"

definition fsm_read_factory_imu_calibration :: "switch_device \<Rightarrow> switch_device" where
  "fsm_read_factory_imu_calibration s =
     spi_flash_read 0x6020 24 (s\<lparr>sw_state := STATE_READ_FACTORY_IMU_CALIBRATION\<rparr>)"

definition fsm_set_full_report :: "switch_device \<Rightarrow> switch_device" where
  "fsm_set_full_report s = send_switch_subcmd SUBCMD_SET_REPORT_MODE [0x30] (s\<lparr>sw_state := STATE_SET_FULL_REPORT\<rparr>)"

definition fsm_enable_imu :: "switch_device \<Rightarrow> switch_device" where
  "fsm_enable_imu s =
     send_switch_subcmd SUBCMD_ENABLE_IMU [if sw_mode s = SWITCH_MODE_IMU then 1 else 0]
       (s\<lparr>sw_state := STATE_ENABLE_IMU\<rparr>)"

definition fsm_update_led :: "switch_device \<Rightarrow> switch_device" where
  "fsm_update_led s = set_led (sw_gamepad_seat s) (s\<lparr>sw_state := STATE_UPDATE_LED\<rparr>)"

text \<open>
  \<^verbatim>\<open>fsm_dump_rom\<close> (the dump of the flash memory is not compiled in) and \<^verbatim>\<open>fsm_ready\<close>, up to
  their calls of \<^verbatim>\<open>process_fsm\<close>.
\<close>

definition fsm_dump_rom :: "switch_device \<Rightarrow> switch_device" where
  "fsm_dump_rom s = s\<lparr>sw_state := STATE_DUMP_FLASH, sw_setup_timer := None\<rparr>"

definition fsm_ready :: "switch_device \<Rightarrow> switch_device" where
  "fsm_ready s = s\<lparr>sw_state := STATE_READY, sw_ready_calls := Suc (sw_ready_calls s)\<rparr>"

definition SWITCH_SETUP_TIMEOUT_MS :: u16 where "SWITCH_SETUP_TIMEOUT_MS = 800"

function switch_process_fsm :: "switch_device \<Rightarrow> switch_device cres" where
  "switch_process_fsm s = (case sw_state s of
     STATE_SETUP \<Rightarrow>
       mapR (\<lambda>t. fsm_request_device_info (s\<lparr>sw_setup_timer := t\<rparr>))
         (add_timer SWITCH_SETUP_TIMEOUT_MS (sw_setup_timer s))
   | STATE_REQ_DEV_INFO \<Rightarrow> Inr (fsm_read_factory_stick_calibration s)
   | STATE_READ_FACTORY_STICK_CALIBRATION \<Rightarrow> Inr (fsm_read_user_stick_calibration s)
   | STATE_READ_USER_STICK_CALIBRATION \<Rightarrow> Inr (fsm_read_factory_imu_calibration s)
   | STATE_READ_FACTORY_IMU_CALIBRATION \<Rightarrow> Inr (fsm_set_full_report s)
   | STATE_SET_FULL_REPORT \<Rightarrow> Inr (fsm_enable_imu s)
   | STATE_ENABLE_IMU \<Rightarrow> switch_process_fsm (fsm_dump_rom s)
   | STATE_DUMP_FLASH \<Rightarrow> Inr (fsm_update_led s)
   | STATE_UPDATE_LED \<Rightarrow> switch_process_fsm (fsm_ready s)
   | STATE_READY \<Rightarrow> Inr (s\<lparr>sw_setup_timer := None\<rparr>)
   | STATE_UNINIT \<Rightarrow> Inr s)"
  by pat_completeness auto

termination switch_process_fsm
  by (relation "measure (\<lambda>s. 10 - switch_state_number (sw_state s))")
    (auto simp: fsm_dump_rom_def fsm_ready_def)

declare switch_process_fsm.simps [simp del]

definition uni_hid_parser_switch_setup :: "switch_device \<Rightarrow> switch_device cres" where
  "uni_hid_parser_switch_setup s =
     switch_process_fsm (s\<lparr>pd_state := STATE_RUMBLE_DISABLED, pd_timer_duration := None, pd_timer_delayed_start := None,
       pd_weak_magnitude := 0, pd_strong_magnitude := 0, pd_duration_ms := 0,
       sw_setup_timer := None, sw_state := STATE_SETUP, sw_mode := SWITCH_MODE_NONE,
       sw_firmware_version_hi := 0, sw_firmware_version_lo := 0,
       sw_controller_type := SWITCH_CONTROLLER_TYPE_PRO, sw_gamepad_seat := 0,
       sw_cal_x := default_stick_calibration, sw_cal_y := default_stick_calibration,
       sw_cal_rx := default_stick_calibration, sw_cal_ry := default_stick_calibration,
       sw_cal_accel := default_accel_cal, sw_cal_gyro := default_gyro_cal,
       pd_controller := zero_controller\<lparr>ctl_klass := UNI_CONTROLLER_CLASS_GAMEPAD\<rparr>\<rparr>)"

text \<open>The run loop takes the expired timer off its list and calls \<^verbatim>\<open>switch_setup_timeout_callback\<close>.\<close>

definition switch_setup_timeout_callback :: "switch_device \<Rightarrow> switch_device cres" where
  "switch_setup_timeout_callback = switch_process_fsm"

definition fire_setup_timer :: "switch_device \<Rightarrow> switch_device cres" where
  "fire_setup_timer s =
     (if sw_setup_timer s = None then Inr s else switch_setup_timeout_callback (s\<lparr>sw_setup_timer := None\<rparr>))"

section \<open>Answers to commands\<close>

text \<open>\<open>data\<close> is what the pointer of the source points to: the rest of the report.\<close>

definition process_reply_req_dev_info :: "bytes \<Rightarrow> switch_device \<Rightarrow> switch_device cres" where
  "process_reply_req_dev_info report s =
     (let s1 = (if STATE_SETUP < sw_state s \<and> sw_mode s = SWITCH_MODE_NONE
                then s\<lparr>sw_mode := SWITCH_MODE_IMU\<rparr> else s)
      in bindR (read_byte report 15) (\<lambda>hi. bindR (read_byte report 16) (\<lambda>lo.
         mapR (\<lambda>t. s1\<lparr>sw_firmware_version_hi := hi, sw_firmware_version_lo := lo, sw_controller_type := t\<rparr>)
           (read_byte report 17))))"

text \<open>\<^verbatim>\<open>printf_hexdump\<close> of BTstack prints \<open>len\<close> bytes, so it reads them; the length of the calibration
  data is the one the controller names.\<close>

definition printf_hexdump :: "bytes \<Rightarrow> nat \<Rightarrow> unit cres" where
  "printf_hexdump data len = (if len \<le> length data then Inr () else Inl Out_of_bounds)"

definition process_reply_read_spi_factory_stick_calibration ::
    "bytes \<Rightarrow> nat \<Rightarrow> switch_device \<Rightarrow> switch_device cres" where
  "process_reply_read_spi_factory_stick_calibration data len s =
     (if sw_controller_type s = SWITCH_CONTROLLER_TYPE_PRO then
        (if len < 9 * 2 then mapR (\<lambda>_. s) (printf_hexdump data len)
         else bindR (parse_stick_calibration data True) (\<lambda>(x, y).
              mapR (\<lambda>(rx, ry). s\<lparr>sw_cal_x := x, sw_cal_y := y, sw_cal_rx := rx, sw_cal_ry := ry\<rparr>)
                (parse_stick_calibration (drop 9 data) False)))
      else if len < 9 then mapR (\<lambda>_. s) (printf_hexdump data len)
      else if sw_controller_type s = SWITCH_CONTROLLER_TYPE_JCL then
        mapR (\<lambda>(x, y). s\<lparr>sw_cal_x := x, sw_cal_y := y\<rparr>) (parse_stick_calibration data True)
      else mapR (\<lambda>(x, y). s\<lparr>sw_cal_rx := x, sw_cal_ry := y\<rparr>) (parse_stick_calibration data False))"

text \<open>\<^verbatim>\<open>data[i] == 0xb2 && data[i + 1] == 0xa1\<close>: the second byte is only read after the first.\<close>

definition user_cal_magic :: "bytes \<Rightarrow> nat \<Rightarrow> bool cres" where
  "user_cal_magic data i =
     bindR (read_byte data i) (\<lambda>b0. if b0 = 0xb2 then mapR (\<lambda>b1. b1 = 0xa1) (read_byte data (i + 1)) else Inr False)"

definition use_left_calibration :: "bytes \<Rightarrow> bool \<Rightarrow> switch_device \<Rightarrow> switch_device cres" where
  "use_left_calibration data process_left s =
     (if process_left
      then mapR (\<lambda>(x, y). s\<lparr>sw_cal_x := x, sw_cal_y := y\<rparr>) (parse_stick_calibration (drop 2 data) True)
      else Inr s)"

definition use_right_calibration :: "bytes \<Rightarrow> nat \<Rightarrow> bool \<Rightarrow> switch_device \<Rightarrow> switch_device cres" where
  "use_right_calibration data data_pointer process_right s =
     (if process_right
      then mapR (\<lambda>(x, y). s\<lparr>sw_cal_rx := x, sw_cal_ry := y\<rparr>)
             (parse_stick_calibration (drop data_pointer data) False)
      else Inr s)"

text \<open>The first two bytes are logged before any length is checked.\<close>

definition process_reply_read_spi_user_stick_calibration ::
    "bytes \<Rightarrow> nat \<Rightarrow> switch_device \<Rightarrow> switch_device cres" where
  "process_reply_read_spi_user_stick_calibration data len s =
     bindR (read_byte data 0) (\<lambda>_. bindR (read_byte data 1) (\<lambda>_.
     if sw_controller_type s = SWITCH_CONTROLLER_TYPE_PRO then
        (if len < 9 * 2 then mapR (\<lambda>_. s) (printf_hexdump data len)
         else bindR (user_cal_magic data 0) (\<lambda>process_left.
              bindR (user_cal_magic data 11) (\<lambda>process_right.
              bindR (use_left_calibration data process_left s)
                (use_right_calibration data (if process_right then 13 else 2) process_right))))
      else if len < 9 then mapR (\<lambda>_. s) (printf_hexdump data len)
      else bindR (user_cal_magic data 0) (\<lambda>magic.
           let is_left = sw_controller_type s = SWITCH_CONTROLLER_TYPE_JCL
           in bindR (use_left_calibration data (magic \<and> is_left) s)
                (use_right_calibration data 2 (magic \<and> \<not> is_left)))))"

definition process_reply_read_spi_factory_imu_calibration ::
    "bytes \<Rightarrow> nat \<Rightarrow> switch_device \<Rightarrow> switch_device cres" where
  "process_reply_read_spi_factory_imu_calibration data len s =
     (if len \<noteq> 24 then Inr s
      else mapR (\<lambda>v. s\<lparr>sw_cal_accel := \<lparr>imu_offset = take 3 v, imu_scale = take 3 (drop 3 v)\<rparr>,
                       sw_cal_gyro := \<lparr>imu_offset = take 3 (drop 6 v), imu_scale = take 3 (drop 9 v)\<rparr>\<rparr>)
             (read_i16s 12 data 0))"

text \<open>
  The address is assembled in \<^verbatim>\<open>int\<close>: \<^verbatim>\<open>data[3] << 24\<close> overflows when its top bit is set. The
  address is only logged, and the answer is taken for the request of the current state.
\<close>

definition process_reply_spi_flash_read :: "bytes \<Rightarrow> nat \<Rightarrow> switch_device \<Rightarrow> switch_device cres" where
  "process_reply_spi_flash_read report len s =
     (if len < 15 + 5 then Inr s
      else bindR (read_byte report 19) (\<lambda>mem_len.
           bindR (read_byte report 18) (\<lambda>a3.
           bindR (i32 (uint a3 * 2 ^ 24)) (\<lambda>_.
           let data = drop 20 report in
           case sw_state s of
             STATE_READ_FACTORY_STICK_CALIBRATION \<Rightarrow>
               process_reply_read_spi_factory_stick_calibration data (unat mem_len) s
           | STATE_READ_USER_STICK_CALIBRATION \<Rightarrow>
               process_reply_read_spi_user_stick_calibration data (unat mem_len) s
           | STATE_READ_FACTORY_IMU_CALIBRATION \<Rightarrow>
               process_reply_read_spi_factory_imu_calibration data (unat mem_len) s
           | _ \<Rightarrow> Inr s))))"

definition UNI_CONTROLLER_BATTERY_EMPTY :: u8 where "UNI_CONTROLLER_BATTERY_EMPTY = 1"
definition UNI_CONTROLLER_BATTERY_FULL :: u8 where "UNI_CONTROLLER_BATTERY_FULL = 255"

definition switch_battery :: "u8 \<Rightarrow> u8 \<Rightarrow> u8" where
  "switch_battery bat_con old =
     (let battery = drop_bit 5 bat_con in
      if battery = 0 then UNI_CONTROLLER_BATTERY_EMPTY
      else if battery = 1 then 64
      else if battery = 2 then 128
      else if battery = 3 then 192
      else if battery = 4 then UNI_CONTROLLER_BATTERY_FULL
      else old)"

definition process_input_subcmd_reply :: "bytes \<Rightarrow> nat \<Rightarrow> switch_device \<Rightarrow> switch_device cres" where
  "process_input_subcmd_reply report len s =
     bindR (read_byte report 13) (\<lambda>ack. bindR (read_byte report 14) (\<lambda>subcmd_id.
     bindR (if subcmd_id = SUBCMD_REQ_DEV_INFO then process_reply_req_dev_info report s
            else if subcmd_id = SUBCMD_SPI_FLASH_READ then process_reply_spi_flash_read report len s
            else Inr s) (\<lambda>s1.
     bindR (read_byte report 2) (\<lambda>bat_con.
     switch_process_fsm (s1\<lparr>pd_controller := (pd_controller s1)\<lparr>ctl_battery :=
       switch_battery bat_con (ctl_battery (pd_controller s1))\<rparr>\<rparr>)))))"

section \<open>Input reports\<close>

text \<open>\<^verbatim>\<open>struct switch_buttons_s\<close>, which begins at byte 3 of the report 0x30.\<close>

record switch_buttons =
  sb_right :: u8
  sb_misc :: u8
  sb_left :: u8
  sb_stick_left :: "int \<times> int"
  sb_stick_right :: "int \<times> int"

definition read_switch_buttons :: "bytes \<Rightarrow> switch_buttons cres" where
  "read_switch_buttons report =
     bindR (read_byte report 3) (\<lambda>right. bindR (read_byte report 4) (\<lambda>misc.
     bindR (read_byte report 5) (\<lambda>left. bindR (read_packed report 6) (\<lambda>stick_left.
     mapR (\<lambda>stick_right. \<lparr>sb_right = right, sb_misc = misc, sb_left = left,
             sb_stick_left = stick_left, sb_stick_right = stick_right\<rparr>)
       (read_packed report 9)))))"

definition pro_buttons_right :: "(u8 \<times> u16) list" where
  "pro_buttons_right = [(0x01, BUTTON_X), (0x02, BUTTON_Y), (0x04, BUTTON_A), (0x08, BUTTON_B),
     (0x40, BUTTON_SHOULDER_R), (0x80, BUTTON_TRIGGER_R)]"

definition pro_dpad :: "(u8 \<times> u8) list" where
  "pro_dpad = [(0x01, DPAD_DOWN), (0x02, DPAD_UP), (0x04, DPAD_RIGHT), (0x08, DPAD_LEFT)]"

definition pro_buttons_left :: "(u8 \<times> u16) list" where
  "pro_buttons_left = [(0x40, BUTTON_SHOULDER_L), (0x80, BUTTON_TRIGGER_L)]"

definition pro_misc :: "(u8 \<times> u8) list" where
  "pro_misc = [(0x01, MISC_BUTTON_SELECT), (0x02, MISC_BUTTON_START), (0x10, MISC_BUTTON_SYSTEM),
     (0x20, MISC_BUTTON_CAPTURE)]"

definition pro_thumbs :: "(u8 \<times> u16) list" where
  "pro_thumbs = [(0x04, BUTTON_THUMB_R), (0x08, BUTTON_THUMB_L)]"

definition parse_report_30_pro_controller :: "switch_buttons \<Rightarrow> switch_device \<Rightarrow> uni_gamepad \<Rightarrow> uni_gamepad cres" where
  "parse_report_30_pro_controller r s gp =
     (let gp1 = gp\<lparr>gp_buttons := or_masks (sb_left r) pro_buttons_left
                       (or_masks (sb_right r) pro_buttons_right (gp_buttons gp)),
                   gp_dpad := or_masks (sb_left r) pro_dpad (gp_dpad gp),
                   gp_misc_buttons := or_masks (sb_misc r) pro_misc (gp_misc_buttons gp)\<rparr>
      in if sw_controller_type s = SWITCH_CONTROLLER_TYPE_PRO then
           bindR (calibrate_axis (fst (sb_stick_left r)) (sw_cal_x s)) (\<lambda>x.
           bindR (calibrate_axis (snd (sb_stick_left r)) (sw_cal_y s)) (\<lambda>y.
           bindR (calibrate_axis (fst (sb_stick_right r)) (sw_cal_rx s)) (\<lambda>rx.
           mapR (\<lambda>ry. gp1\<lparr>gp_buttons := or_masks (sb_misc r) pro_thumbs (gp_buttons gp1),
                          gp_axis_x := x, gp_axis_y := - y, gp_axis_rx := rx, gp_axis_ry := - ry\<rparr>)
             (calibrate_axis (snd (sb_stick_right r)) (sw_cal_ry s)))))
         else Inr gp1)"

text \<open>A single JoyCon is held sideways: its buttons and axes are turned.\<close>

definition jcl_buttons :: "(u8 \<times> u16) list" where
  "jcl_buttons = [(0x01, BUTTON_B), (0x02, BUTTON_X), (0x04, BUTTON_Y), (0x08, BUTTON_A),
     (0x10, BUTTON_SHOULDER_R), (0x20, BUTTON_SHOULDER_L), (0x40, BUTTON_TRIGGER_L), (0x80, BUTTON_TRIGGER_R)]"

definition jcl_thumb :: "(u8 \<times> u16) list" where "jcl_thumb = [(0x08, BUTTON_THUMB_L)]"
definition jcl_misc :: "(u8 \<times> u8) list" where "jcl_misc = [(0x01, MISC_BUTTON_SELECT), (0x20, MISC_BUTTON_START)]"

definition parse_report_30_joycon_left :: "switch_buttons \<Rightarrow> switch_device \<Rightarrow> uni_gamepad \<Rightarrow> uni_gamepad cres" where
  "parse_report_30_joycon_left r s gp =
     bindR (calibrate_axis (fst (sb_stick_left r)) (sw_cal_x s)) (\<lambda>x.
     mapR (\<lambda>y. gp\<lparr>gp_axis_y := - x, gp_axis_x := - y,
                   gp_buttons := or_masks (sb_misc r) jcl_thumb
                     (or_masks (sb_left r) jcl_buttons (gp_buttons gp)),
                   gp_misc_buttons := or_masks (sb_misc r) jcl_misc
                     (gp_misc_buttons gp)\<rparr>)
       (calibrate_axis (snd (sb_stick_left r)) (sw_cal_y s)))"

definition jcr_buttons :: "(u8 \<times> u16) list" where
  "jcr_buttons = [(0x01, BUTTON_Y), (0x02, BUTTON_B), (0x04, BUTTON_X), (0x08, BUTTON_A),
     (0x10, BUTTON_SHOULDER_R), (0x20, BUTTON_SHOULDER_L), (0x40, BUTTON_TRIGGER_L), (0x80, BUTTON_TRIGGER_R)]"

definition jcr_thumb :: "(u8 \<times> u16) list" where "jcr_thumb = [(0x04, BUTTON_THUMB_L)]"
definition jcr_misc :: "(u8 \<times> u8) list" where "jcr_misc = [(0x10, MISC_BUTTON_SELECT), (0x02, MISC_BUTTON_START)]"

definition parse_report_30_joycon_right :: "switch_buttons \<Rightarrow> switch_device \<Rightarrow> uni_gamepad \<Rightarrow> uni_gamepad cres" where
  "parse_report_30_joycon_right r s gp =
     bindR (calibrate_axis (fst (sb_stick_right r)) (sw_cal_rx s)) (\<lambda>rx.
     mapR (\<lambda>ry. gp\<lparr>gp_axis_y := rx, gp_axis_x := ry,
                    gp_buttons := or_masks (sb_misc r) jcr_thumb
                      (or_masks (sb_right r) jcr_buttons (gp_buttons gp)),
                    gp_misc_buttons := or_masks (sb_misc r) jcr_misc
                      (gp_misc_buttons gp)\<rparr>)
       (calibrate_axis (snd (sb_stick_right r)) (sw_cal_ry s)))"

text \<open>The last of the three frames, at byte 37. The right JoyCon turns two axes, in \<^verbatim>\<open>int\<close>.\<close>

definition parse_imu :: "bytes \<Rightarrow> switch_device \<Rightarrow> uni_gamepad \<Rightarrow> uni_gamepad cres" where
  "parse_imu report s gp =
     bindR (read_i16s 6 report 37) (\<lambda>frame.
     bindR (imu_axis frame (sw_cal_accel s) (sw_cal_gyro s) 0) (\<lambda>(a0, g0).
     bindR (imu_axis frame (sw_cal_accel s) (sw_cal_gyro s) 1) (\<lambda>(a1, g1).
     bindR (imu_axis frame (sw_cal_accel s) (sw_cal_gyro s) 2) (\<lambda>(a2, g2).
     if sw_controller_type s = SWITCH_CONTROLLER_TYPE_JCR then
       bindR (i32 (- a1)) (\<lambda>a1'. bindR (i32 (- a2)) (\<lambda>a2'.
       bindR (i32 (- g1)) (\<lambda>g1'. mapR (\<lambda>g2'. gp\<lparr>gp_accel := (a0, a1', a2'), gp_gyro := (g0, g1', g2')\<rparr>)
         (i32 (- g2)))))
     else Inr (gp\<lparr>gp_accel := (a0, a1, a2), gp_gyro := (g0, g1, g2)\<rparr>)))))"

definition set_gamepad :: "uni_gamepad \<Rightarrow> switch_device \<Rightarrow> switch_device" where
  "set_gamepad gp s = s\<lparr>pd_controller := (pd_controller s)\<lparr>ctl_gamepad := gp\<rparr>\<rparr>"

definition parse_buttons_30 :: "switch_buttons \<Rightarrow> switch_device \<Rightarrow> uni_gamepad cres" where
  "parse_buttons_30 r s =
     (if sw_controller_type s = SWITCH_CONTROLLER_TYPE_JCL then parse_report_30_joycon_left r s zero_gamepad
      else if sw_controller_type s = SWITCH_CONTROLLER_TYPE_JCR then parse_report_30_joycon_right r s zero_gamepad
      else if sw_controller_type s = SWITCH_CONTROLLER_TYPE_PRO
           \<or> sw_controller_type s = SWITCH_CONTROLLER_TYPE_SNES
        then parse_report_30_pro_controller r s zero_gamepad
      else Inr zero_gamepad)"

definition parse_report_30 :: "bytes \<Rightarrow> switch_device \<Rightarrow> switch_device cres" where
  "parse_report_30 report s =
     bindR (read_switch_buttons report) (\<lambda>r.
     bindR (parse_buttons_30 r s) (\<lambda>gp.
     mapR (\<lambda>gp'. set_gamepad gp' s)
       (if sw_mode s = SWITCH_MODE_IMU then parse_imu report s gp else Inr gp)))"

definition main_buttons_3f :: "(u8 \<times> u16) list" where
  "main_buttons_3f = [(0x01, BUTTON_A), (0x02, BUTTON_B), (0x04, BUTTON_X), (0x08, BUTTON_Y),
     (0x10, BUTTON_SHOULDER_L), (0x20, BUTTON_SHOULDER_R), (0x40, BUTTON_TRIGGER_L), (0x80, BUTTON_TRIGGER_R)]"

definition thumbs_3f :: "(u8 \<times> u16) list" where
  "thumbs_3f = [(0x04, BUTTON_THUMB_L), (0x08, BUTTON_THUMB_R)]"

definition axis_3f :: "bytes \<Rightarrow> nat \<Rightarrow> int cres" where
  "axis_3f report i =
     bindR (read_byte report i) (\<lambda>lsb. bindR (read_byte report (i + 1)) (\<lambda>msb.
     mapR (\<lambda>p. p sdiv 65536 - AXIS_NORMALIZE_RANGE sdiv 2)
       (i32 ((push_bit 8 (uint msb) OR uint lsb) * AXIS_NORMALIZE_RANGE))))"

definition parse_report_3f :: "bytes \<Rightarrow> switch_device \<Rightarrow> switch_device cres" where
  "parse_report_3f report s =
     bindR (read_byte report 1) (\<lambda>buttons_main. bindR (read_byte report 2) (\<lambda>buttons_aux.
     bindR (read_byte report 3) (\<lambda>hat.
     bindR (axis_3f report 4) (\<lambda>x. bindR (axis_3f report 6) (\<lambda>y.
     bindR (axis_3f report 8) (\<lambda>rx. mapR (\<lambda>ry.
       set_gamepad (zero_gamepad\<lparr>
         gp_buttons := or_masks buttons_aux thumbs_3f (or_masks buttons_main main_buttons_3f 0),
         gp_misc_buttons := or_masks buttons_aux pro_misc 0,
         gp_dpad := uni_hid_parser_hat_to_dpad hat,
         gp_axis_x := x, gp_axis_y := y, gp_axis_rx := rx, gp_axis_ry := ry\<rparr>) s)
       (axis_3f report 10)))))))"

definition uni_hid_parser_switch_init_report :: "switch_device \<Rightarrow> switch_device" where
  "uni_hid_parser_switch_init_report s = s"

definition uni_hid_parser_switch_parse_input_report :: "bytes \<Rightarrow> nat \<Rightarrow> switch_device \<Rightarrow> switch_device cres" where
  "uni_hid_parser_switch_parse_input_report report len s =
     (if len < 12 then Inr s
      else bindR (read_byte report 0) (\<lambda>report_id.
        if report_id = 0x21 then process_input_subcmd_reply report len s
        else if report_id = 0x30 then parse_report_30 report s
        else if report_id = 0x3f then parse_report_3f report s
        else Inr s))"

definition switch_report_parser :: "switch_device report_parser" where
  "switch_report_parser = \<lparr>rp_init_report = Some uni_hid_parser_switch_init_report,
     rp_parse_input_report = Some uni_hid_parser_switch_parse_input_report, rp_parse_usage = None\<rparr>"

definition switch_input :: "bytes \<Rightarrow> switch_device \<Rightarrow> switch_device cres" where
  "switch_input report s = uni_hid_parser_switch_parse_input_report report (length report) s"

lemma switch_input_of_report_loop:
  "uni_hid_parse_input_report switch_report_parser descriptor report (length report) s
    = Some (switch_input report s)"
  by (simp add: uni_hid_parse_input_report_def switch_report_parser_def switch_input_def
      uni_hid_parser_switch_init_report_def split: sum.splits)

section \<open>Output\<close>

definition uni_hid_parser_switch_set_player_leds :: "u8 \<Rightarrow> switch_device \<Rightarrow> switch_device" where
  "uni_hid_parser_switch_set_player_leds leds s =
     (let s1 = s\<lparr>sw_gamepad_seat := leds\<rparr>
      in if sw_state s1 < STATE_READY then s1 else set_led leds s1)"

definition switch_stop_rumble_now :: "switch_device \<Rightarrow> switch_device cres" where
  "switch_stop_rumble_now s =
     (if pd_state s \<noteq> STATE_RUMBLE_IN_PROGRESS then Inl Assertion_failed
      else Inr (send_subcmd (switch_request OUTPUT_RUMBLE_ONLY [0x00, 0x01, 0x40, 0x40] [0x00, 0x01, 0x40, 0x40] [])
                  (s\<lparr>pd_state := STATE_RUMBLE_DISABLED\<rparr>)))"

definition switch_play_dual_rumble_now :: "u16 \<Rightarrow> u8 \<Rightarrow> u8 \<Rightarrow> switch_device \<Rightarrow> switch_device cres" where
  "switch_play_dual_rumble_now duration_ms weak strong s =
     (if duration_ms = 0 then
        (if pd_state s \<noteq> STATE_RUMBLE_DISABLED then switch_stop_rumble_now s else Inr s)
      else
        arm_rumble_off duration_ms
          (send_subcmd (switch_request OUTPUT_RUMBLE_ONLY
               (switch_encode_rumble (push_bit 2 (ucast weak)) (ucast weak) 500)
               (switch_encode_rumble (push_bit 2 (ucast strong)) (ucast strong) 500) []) s))"

definition uni_hid_parser_switch_play_dual_rumble ::
    "u16 \<Rightarrow> u16 \<Rightarrow> u8 \<Rightarrow> u8 \<Rightarrow> switch_device \<Rightarrow> switch_device cres" where
  "uni_hid_parser_switch_play_dual_rumble = play_dual_rumble switch_play_dual_rumble_now"

definition on_switch_set_rumble_on :: "switch_device \<Rightarrow> switch_device cres" where
  "on_switch_set_rumble_on = set_rumble_on switch_play_dual_rumble_now"

definition on_switch_set_rumble_off :: "switch_device \<Rightarrow> switch_device cres" where
  "on_switch_set_rumble_off = switch_stop_rumble_now"

section \<open>The driver as a machine\<close>

text \<open>\<open>Switch_other_sends\<close>: another Switch controller takes a packet number.\<close>

datatype switch_event =
    Switch_other_sends
  | Switch_set_player_leds u8
  | Switch_play u16 u16 u8 u8
  | Switch_delayed_timer
  | Switch_duration_timer
  | Switch_setup_timer
  | Switch_report bytes

definition switch_step :: "switch_event \<Rightarrow> switch_device \<Rightarrow> switch_device cres" where
  "switch_step ev s = (case ev of
     Switch_other_sends \<Rightarrow>
       Inr (s\<lparr>sw_packet_num := (if 0x0f < sw_packet_num s + 1 then 0 else sw_packet_num s + 1)\<rparr>)
   | Switch_set_player_leds leds \<Rightarrow> Inr (uni_hid_parser_switch_set_player_leds leds s)
   | Switch_play delay duration weak strong \<Rightarrow> uni_hid_parser_switch_play_dual_rumble delay duration weak strong s
   | Switch_delayed_timer \<Rightarrow> fire_delayed_timer on_switch_set_rumble_on s
   | Switch_duration_timer \<Rightarrow> fire_duration_timer on_switch_set_rumble_off s
   | Switch_setup_timer \<Rightarrow> fire_setup_timer s
   | Switch_report report \<Rightarrow> switch_input report s)"

section \<open>What the operations leave alone\<close>

lemma send_subcmd_simps [simp]:
  "pd_state (send_subcmd r s) = pd_state s"
  "pd_timer_duration (send_subcmd r s) = pd_timer_duration s"
  "pd_timer_delayed_start (send_subcmd r s) = pd_timer_delayed_start s"
  "pd_controller (send_subcmd r s) = pd_controller s"
  "sw_setup_timer (send_subcmd r s) = sw_setup_timer s"
  "sw_state (send_subcmd r s) = sw_state s"
  "sw_mode (send_subcmd r s) = sw_mode s"
  "sw_controller_type (send_subcmd r s) = sw_controller_type s"
  "sw_cal_x (send_subcmd r s) = sw_cal_x s" "sw_cal_y (send_subcmd r s) = sw_cal_y s"
  "sw_cal_rx (send_subcmd r s) = sw_cal_rx s" "sw_cal_ry (send_subcmd r s) = sw_cal_ry s"
  "sw_cal_accel (send_subcmd r s) = sw_cal_accel s" "sw_cal_gyro (send_subcmd r s) = sw_cal_gyro s"
  "sw_ready_calls (send_subcmd r s) = sw_ready_calls s"
  "intr_reports (pd_sent (send_subcmd r s)) = intr_reports (pd_sent s) @ [r[2 := sw_packet_num s, 0 := 0xa2]]"
  by (simp_all add: send_subcmd_def send_intr_def Let_def)

lemma length_switch_request: "length (switch_request i left right rest) = 3 + length left + length right + length rest"
  by (simp add: switch_request_def)

lemmas switch_fsm_defs = fsm_request_device_info_def fsm_read_factory_stick_calibration_def
  fsm_read_user_stick_calibration_def fsm_read_factory_imu_calibration_def fsm_set_full_report_def
  fsm_enable_imu_def fsm_update_led_def set_led_def spi_flash_read_def send_switch_subcmd_def

text \<open>What one call of \<^verbatim>\<open>process_fsm\<close> does in each state, its own calls included.\<close>

lemma switch_process_fsm_eq:
  "switch_process_fsm s = (case sw_state s of
     STATE_SETUP \<Rightarrow>
       mapR (\<lambda>t. fsm_request_device_info (s\<lparr>sw_setup_timer := t\<rparr>))
         (add_timer SWITCH_SETUP_TIMEOUT_MS (sw_setup_timer s))
   | STATE_REQ_DEV_INFO \<Rightarrow> Inr (fsm_read_factory_stick_calibration s)
   | STATE_READ_FACTORY_STICK_CALIBRATION \<Rightarrow> Inr (fsm_read_user_stick_calibration s)
   | STATE_READ_USER_STICK_CALIBRATION \<Rightarrow> Inr (fsm_read_factory_imu_calibration s)
   | STATE_READ_FACTORY_IMU_CALIBRATION \<Rightarrow> Inr (fsm_set_full_report s)
   | STATE_SET_FULL_REPORT \<Rightarrow> Inr (fsm_enable_imu s)
   | STATE_ENABLE_IMU \<Rightarrow> Inr (fsm_update_led (fsm_dump_rom s))
   | STATE_DUMP_FLASH \<Rightarrow> Inr (fsm_update_led s)
   | STATE_UPDATE_LED \<Rightarrow> Inr ((fsm_ready s)\<lparr>sw_setup_timer := None\<rparr>)
   | STATE_READY \<Rightarrow> Inr (s\<lparr>sw_setup_timer := None\<rparr>)
   | STATE_UNINIT \<Rightarrow> Inr s)"
proof -
  have "switch_process_fsm (fsm_dump_rom s) = Inr (fsm_update_led (fsm_dump_rom s))"
    by (subst switch_process_fsm.simps) (simp add: fsm_dump_rom_def)
  moreover have "switch_process_fsm (fsm_ready s) = Inr ((fsm_ready s)\<lparr>sw_setup_timer := None\<rparr>)"
    by (subst switch_process_fsm.simps) (simp add: fsm_ready_def)
  ultimately show ?thesis by (subst switch_process_fsm.simps) (simp split: switch_state.split)
qed

lemma length_encode_rumble [simp]: "length (switch_encode_rumble a b c) = 4"
  by (simp add: switch_encode_rumble_def Let_def)

text \<open>A device whose driver was just created; \<open>n\<close> is the packet number that the others left.\<close>

definition zero_switch :: "u8 \<Rightarrow> switch_device" where
  "zero_switch n =
     (let cal = \<lparr>cal_min = 0, cal_center = 0, cal_max = 0\<rparr>; imu = \<lparr>imu_offset = [0, 0, 0], imu_scale = [0, 0, 0]\<rparr>
      in \<lparr>pd_state = STATE_RUMBLE_DISABLED, pd_timer_duration = None,
          pd_timer_delayed_start = None, pd_weak_magnitude = 0, pd_strong_magnitude = 0, pd_duration_ms = 0,
          pd_controller = zero_controller, pd_mouse = None, pd_sent = [], pd_mouse_reports = [],
          sw_setup_timer = None, sw_state = STATE_UNINIT, sw_mode = SWITCH_MODE_NONE,
          sw_firmware_version_hi = 0, sw_firmware_version_lo = 0, sw_controller_type = 0, sw_gamepad_seat = 0,
          sw_cal_x = cal, sw_cal_y = cal, sw_cal_rx = cal, sw_cal_ry = cal, sw_cal_accel = imu, sw_cal_gyro = imu,
          sw_packet_num = n, sw_ready_calls = 0\<rparr>)"

text \<open>The state that \<^verbatim>\<open>setup\<close> leaves: the first command is sent and the timer runs.\<close>

definition switch_after_setup :: "u8 \<Rightarrow> switch_device" where
  "switch_after_setup n = fsm_request_device_info ((zero_switch n)\<lparr>
     sw_state := STATE_SETUP, sw_setup_timer := Some SWITCH_SETUP_TIMEOUT_MS,
     sw_controller_type := SWITCH_CONTROLLER_TYPE_PRO,
     sw_cal_x := default_stick_calibration, sw_cal_y := default_stick_calibration,
     sw_cal_rx := default_stick_calibration, sw_cal_ry := default_stick_calibration,
     sw_cal_accel := default_accel_cal, sw_cal_gyro := default_gyro_cal,
     pd_controller := zero_controller\<lparr>ctl_klass := UNI_CONTROLLER_CLASS_GAMEPAD\<rparr>\<rparr>)"

lemma switch_setup_result: "uni_hid_parser_switch_setup (zero_switch n) = Inr (switch_after_setup n)"
  unfolding uni_hid_parser_switch_setup_def
  by (subst switch_process_fsm.simps) (simp add: add_timer_def switch_after_setup_def zero_switch_def Let_def)

end
