(* ===== verification/Switch_Safe.thy ===== *)
theory Switch_Safe
  imports Switch
begin

text \<open>
  When the driver of the Nintendo Switch controllers can fail: its invariant, every operation
  on it, and the list of the events and states that read past a report, divide by zero,
  overflow or fail an assertion.
\<close>

section \<open>The invariant\<close>

definition switch_gamepad_ok :: "uni_gamepad \<Rightarrow> bool" where
  "switch_gamepad_ok gp \<longleftrightarrow> gamepad_bits_ok gp
     \<and> gp_axis_x gp \<in> {-512..512} \<and> gp_axis_y gp \<in> {-512..512}
     \<and> gp_axis_rx gp \<in> {-512..512} \<and> gp_axis_ry gp \<in> {-512..512}
     \<and> gp_brake gp = 0 \<and> gp_throttle gp = 0"

definition switch_request_ok :: "bytes \<Rightarrow> bool" where
  "switch_request_ok r \<longleftrightarrow> 11 \<le> length r \<and> r ! 0 = 0xa2 \<and> r ! 2 \<le> 15"

text \<open>The calibrations and what the reports fill in.\<close>

definition switch_data_ok :: "switch_device \<Rightarrow> bool" where
  "switch_data_ok s \<longleftrightarrow> switch_gamepad_ok (ctl_gamepad (pd_controller s))
     \<and> stick_cal_ok (sw_cal_x s) \<and> stick_cal_ok (sw_cal_y s)
     \<and> stick_cal_ok (sw_cal_rx s) \<and> stick_cal_ok (sw_cal_ry s)
     \<and> imu_cal_ok (sw_cal_accel s) \<and> imu_cal_ok (sw_cal_gyro s)"

text \<open>
  The setup timer only runs while commands are unanswered; the states that \<^verbatim>\<open>process_fsm\<close>
  leaves at once are not seen between events.
\<close>

definition switch_setup_ok :: "switch_device \<Rightarrow> bool" where
  "switch_setup_ok s \<longleftrightarrow> STATE_SETUP < sw_state s \<and> sw_state s \<noteq> STATE_DUMP_FLASH
     \<and> (sw_setup_timer s \<noteq> None \<longrightarrow> sw_state s < STATE_DUMP_FLASH)
     \<and> sw_packet_num s \<le> 15 \<and> list_all switch_request_ok (intr_reports (pd_sent s))"

definition switch_ok :: "switch_device \<Rightarrow> bool" where
  "switch_ok s \<longleftrightarrow> rumble_timers_ok s \<and> switch_data_ok s \<and> switch_setup_ok s"

lemma send_subcmd_packet_num: "sw_packet_num s \<le> 15 \<Longrightarrow> sw_packet_num (send_subcmd r s) \<le> 15"
  by (simp add: send_subcmd_def send_intr_def Let_def not_less)

lemma send_subcmd_ok:
  assumes "switch_ok s" and "11 \<le> length r"
  shows "switch_ok (send_subcmd r s)"
proof -
  have "r[2 := sw_packet_num s, 0 := 0xa2] ! 0 = 0xa2"
    by (rule nth_list_update_eq) (use assms(2) in auto)
  moreover have "r[2 := sw_packet_num s, 0 := 0xa2] ! 2 = sw_packet_num s"
    using assms(2) by simp
  ultimately have "switch_request_ok (r[2 := sw_packet_num s, 0 := 0xa2])"
    using assms by (simp add: switch_request_ok_def switch_ok_def switch_setup_ok_def)
  with assms(1) show ?thesis
    by (simp add: switch_ok_def switch_setup_ok_def switch_data_ok_def rumble_timers_ok_def send_subcmd_packet_num)
qed

lemma switch_ok_ready:
  "switch_ok s \<Longrightarrow> switch_ok ((fsm_ready s)\<lparr>sw_setup_timer := None\<rparr>)"
  by (simp add: fsm_ready_def switch_ok_def switch_setup_ok_def switch_data_ok_def rumble_timers_ok_def
      less_switch_state_def)

lemma switch_ok_dumped:
  "switch_ok s \<Longrightarrow> switch_ok (s\<lparr>sw_setup_timer := None, sw_state := STATE_UPDATE_LED\<rparr>)"
  by (simp add: switch_ok_def switch_setup_ok_def switch_data_ok_def rumble_timers_ok_def less_switch_state_def)

lemma switch_ok_command:
  assumes "switch_ok s" and "st \<in> {STATE_REQ_DEV_INFO, STATE_READ_FACTORY_STICK_CALIBRATION,
    STATE_READ_USER_STICK_CALIBRATION, STATE_READ_FACTORY_IMU_CALIBRATION, STATE_SET_FULL_REPORT, STATE_ENABLE_IMU}"
  shows "switch_ok (s\<lparr>sw_state := st\<rparr>)"
  using assms by (auto simp: switch_ok_def switch_setup_ok_def switch_data_ok_def rumble_timers_ok_def
      less_switch_state_def)

lemma switch_process_fsm_ok:
  assumes "switch_ok s"
  shows "\<exists>s'. switch_process_fsm s = Inr s' \<and> switch_ok s'"
proof (cases "sw_state s")
  case STATE_UNINIT
  with assms show ?thesis by (simp add: switch_ok_def switch_setup_ok_def less_switch_state_def)
next
  case STATE_SETUP
  with assms show ?thesis by (simp add: switch_ok_def switch_setup_ok_def less_switch_state_def)
next
  case STATE_DUMP_FLASH
  with assms show ?thesis by (simp add: switch_ok_def switch_setup_ok_def)
next
  case STATE_ENABLE_IMU
  have "switch_ok (send_switch_subcmd SUBCMD_SET_PLAYER_LEDS [sw_gamepad_seat s AND 0x0f]
      (s\<lparr>sw_setup_timer := None, sw_state := STATE_UPDATE_LED\<rparr>))"
    unfolding send_switch_subcmd_def
    by (rule send_subcmd_ok [OF switch_ok_dumped [OF assms]]) (simp add: length_switch_request)
  then show ?thesis using STATE_ENABLE_IMU
    by (simp add: switch_process_fsm_eq fsm_update_led_def fsm_dump_rom_def set_led_def)
next
  case STATE_UPDATE_LED
  with switch_ok_ready [OF assms] show ?thesis by (simp add: switch_process_fsm_eq)
next
  case STATE_READY
  with assms have "switch_ok (s\<lparr>sw_setup_timer := None\<rparr>)"
    by (simp add: switch_ok_def switch_setup_ok_def switch_data_ok_def rumble_timers_ok_def)
  with STATE_READY show ?thesis by (simp add: switch_process_fsm_eq)
qed (simp_all add: switch_process_fsm_eq switch_fsm_defs send_subcmd_ok switch_ok_command [OF assms]
      length_switch_request le32_def)

text \<open>What the driver sends and when its rumble fails.\<close>

lemma switch_ok_rumble:
  assumes "switch_ok s" and "t1 \<noteq> None \<longrightarrow> st = STATE_RUMBLE_DELAYED" "t2 \<noteq> None \<longrightarrow> st = STATE_RUMBLE_IN_PROGRESS"
  shows "switch_ok (s\<lparr>pd_state := st, pd_timer_delayed_start := t1, pd_timer_duration := t2,
    pd_duration_ms := d, pd_strong_magnitude := m1, pd_weak_magnitude := m2\<rparr>)"
  using assms by (simp add: switch_ok_def switch_setup_ok_def switch_data_ok_def rumble_timers_ok_def)

lemma switch_stop_ok:
  assumes "switch_ok s" and "pd_timer_duration s = None" "pd_timer_delayed_start s = None"
  shows "case switch_stop_rumble_now s of
      Inl e \<Rightarrow> e = Assertion_failed \<and> pd_state s \<noteq> STATE_RUMBLE_IN_PROGRESS | Inr s' \<Rightarrow> switch_ok s'"
proof -
  have "switch_ok (s\<lparr>pd_state := STATE_RUMBLE_DISABLED\<rparr>)"
    using assms by (simp add: switch_ok_def switch_setup_ok_def switch_data_ok_def rumble_timers_ok_def)
  then show ?thesis by (simp add: switch_stop_rumble_now_def send_subcmd_ok length_switch_request)
qed

lemma switch_play_now_ok:
  assumes "switch_ok s" and "pd_timer_duration s = None" "pd_timer_delayed_start s = None"
  shows "case switch_play_dual_rumble_now duration weak strong s of
      Inl e \<Rightarrow> e = Assertion_failed \<and> duration = 0 \<and> pd_state s = STATE_RUMBLE_DELAYED
    | Inr s' \<Rightarrow> switch_ok s'"
proof (cases "duration = 0")
  case True
  with switch_stop_ok [OF assms] assms(1) show ?thesis
    by (cases "pd_state s") (auto simp: switch_play_dual_rumble_now_def switch_stop_rumble_now_def split: sum.splits)
next
  case False
  let ?s = "send_subcmd (switch_request OUTPUT_RUMBLE_ONLY
               (switch_encode_rumble (push_bit 2 (ucast weak)) (ucast weak) 500)
               (switch_encode_rumble (push_bit 2 (ucast strong)) (ucast strong) 500) []) s"
  have "switch_ok ?s" using assms(1) by (simp add: send_subcmd_ok length_switch_request)
  then have "switch_ok (?s\<lparr>pd_state := STATE_RUMBLE_IN_PROGRESS, pd_timer_duration := Some duration\<rparr>)"
    using assms by (simp add: switch_ok_def switch_setup_ok_def switch_data_ok_def rumble_timers_ok_def)
  with False assms show ?thesis
    by (simp add: switch_play_dual_rumble_now_def arm_rumble_off_def add_timer_def)
qed

lemma switch_play_result:
  assumes "switch_ok s"
  shows "case uni_hid_parser_switch_play_dual_rumble delay duration weak strong s of
      Inl e \<Rightarrow> e = Assertion_failed \<and> pd_state s = STATE_RUMBLE_DELAYED \<and> delay = 0 \<and> duration = 0
    | Inr s' \<Rightarrow> switch_ok s'"
proof -
  let ?s = "remove_rumble_timer s"
  have ok: "switch_ok ?s" "pd_timer_duration ?s = None" "pd_timer_delayed_start ?s = None" "pd_state ?s = pd_state s"
    using assms by (cases "pd_state s";
      simp add: remove_rumble_timer_def switch_ok_def switch_setup_ok_def switch_data_ok_def rumble_timers_ok_def)+
  show ?thesis
  proof (cases "delay = 0")
    case True
    with switch_play_now_ok [OF ok(1-3), of duration weak strong] ok(4) show ?thesis
      by (auto simp: uni_hid_parser_switch_play_dual_rumble_def play_dual_rumble_def split: sum.splits)
  next
    case False
    with ok switch_ok_rumble [OF ok(1), of "Some delay" STATE_RUMBLE_DELAYED None duration "ucast strong" "ucast weak"]
    show ?thesis
      by (simp add: uni_hid_parser_switch_play_dual_rumble_def play_dual_rumble_def delay_rumble_def add_timer_def
          switch_ok_def switch_setup_ok_def switch_data_ok_def rumble_timers_ok_def)
  qed
qed

lemma switch_delayed_timer_result:
  assumes "switch_ok s"
  shows "case fire_delayed_timer on_switch_set_rumble_on s of
      Inl e \<Rightarrow> e = Assertion_failed \<and> pd_timer_delayed_start s \<noteq> None \<and> pd_duration_ms s = 0
    | Inr s' \<Rightarrow> switch_ok s'"
proof (cases "pd_timer_delayed_start s = None")
  case True
  with assms show ?thesis by (simp add: fire_delayed_timer_def)
next
  case False
  let ?s = "s\<lparr>pd_timer_delayed_start := None\<rparr>"
  have "switch_ok ?s" "pd_timer_duration ?s = None" "pd_timer_delayed_start ?s = None"
    using assms False
    by (auto simp: switch_ok_def switch_setup_ok_def switch_data_ok_def rumble_timers_ok_def)
  from switch_play_now_ok [OF this, of "pd_duration_ms s" "ucast (pd_weak_magnitude s)" "ucast (pd_strong_magnitude s)"]
  show ?thesis using False
    by (auto simp: fire_delayed_timer_def on_switch_set_rumble_on_def set_rumble_on_def split: sum.splits)
qed

lemma switch_duration_timer_result:
  assumes "switch_ok s"
  shows "\<exists>s'. fire_duration_timer on_switch_set_rumble_off s = Inr s' \<and> switch_ok s'"
proof (cases "pd_timer_duration s = None")
  case True
  with assms show ?thesis by (simp add: fire_duration_timer_def)
next
  case False
  let ?s = "s\<lparr>pd_timer_duration := None\<rparr>"
  have "switch_ok ?s" "pd_timer_duration ?s = None" "pd_timer_delayed_start ?s = None" "pd_state s = STATE_RUMBLE_IN_PROGRESS"
    using assms False
    by (auto simp: switch_ok_def switch_setup_ok_def switch_data_ok_def rumble_timers_ok_def)
  with switch_stop_ok [OF this(1-3)] False show ?thesis
    by (auto simp: fire_duration_timer_def on_switch_set_rumble_off_def split: sum.splits)
qed

section \<open>Input keeps the invariant\<close>

text \<open>How far an answer is read, and when a report can make the driver fail.\<close>

definition spi_bytes :: "switch_device \<Rightarrow> nat \<Rightarrow> nat" where
  "spi_bytes s mem_len =
     (let pro = (sw_controller_type s = SWITCH_CONTROLLER_TYPE_PRO) in
      case sw_state s of
        STATE_READ_FACTORY_STICK_CALIBRATION \<Rightarrow> if pro then min mem_len 18 else min mem_len 9
      | STATE_READ_USER_STICK_CALIBRATION \<Rightarrow> if pro then (if mem_len < 18 then max 2 mem_len else 22)
          else (if mem_len < 9 then max 2 mem_len else 11)
      | STATE_READ_FACTORY_IMU_CALIBRATION \<Rightarrow> if mem_len = 24 then 24 else 0
      | _ \<Rightarrow> 0)"

lemma switch_ok_fields:
  assumes "switch_ok s" and "stick_cal_ok x" "stick_cal_ok y" "stick_cal_ok rx" "stick_cal_ok ry"
  shows "switch_ok (s\<lparr>sw_cal_x := x, sw_cal_y := y, sw_cal_rx := rx, sw_cal_ry := ry\<rparr>)"
    "switch_ok (s\<lparr>sw_cal_x := x, sw_cal_y := y\<rparr>)" "switch_ok (s\<lparr>sw_cal_rx := rx, sw_cal_ry := ry\<rparr>)"
  using assms by (simp_all add: switch_ok_def switch_setup_ok_def switch_data_ok_def rumble_timers_ok_def)

text \<open>A result that either satisfies \<open>P\<close> or failed because \<open>data\<close> has less than \<open>n\<close> bytes.\<close>

definition reads_within :: "nat \<Rightarrow> bytes \<Rightarrow> ('a \<Rightarrow> bool) \<Rightarrow> 'a cres \<Rightarrow> bool" where
  "reads_within n data P r \<longleftrightarrow> (case r of Inl e \<Rightarrow> e = Out_of_bounds \<and> length data < n | Inr x \<Rightarrow> P x)"

lemma reads_within_simps [simp]:
  "reads_within n data P (Inr x) \<longleftrightarrow> P x"
  "reads_within n data P (Inl e) \<longleftrightarrow> e = Out_of_bounds \<and> length data < n"
  by (simp_all add: reads_within_def)

lemma reads_within_bind:
  assumes "reads_within m data Q r" and "m \<le> n" and "\<forall>x. Q x \<longrightarrow> reads_within n data P (f x)"
  shows "reads_within n data P (bindR r f)"
  using assms by (cases r) auto

lemma reads_within_map:
  assumes "reads_within m data Q r" and "m \<le> n" and "\<forall>x. Q x \<longrightarrow> P (f x)"
  shows "reads_within n data P (mapR f r)"
  using assms by (cases r) auto

lemma reads_within_mono: "reads_within m data P r \<Longrightarrow> m \<le> n \<Longrightarrow> reads_within n data P r"
  by (cases r) auto

lemma read_byte_within: "i < n \<Longrightarrow> reads_within n data (\<lambda>_. True) (read_byte data i)"
  by (simp add: read_byte_def)

lemma hexdump_within:
  "switch_ok s \<Longrightarrow> n \<le> m \<Longrightarrow> reads_within m data switch_ok (mapR (\<lambda>_. s) (printf_hexdump data n))"
  by (simp add: printf_hexdump_def)

definition sticks_ok :: "switch_cal_stick \<times> switch_cal_stick \<Rightarrow> bool" where
  "sticks_ok p \<longleftrightarrow> stick_cal_ok (fst p) \<and> stick_cal_ok (snd p)"

lemma parse_stick_within:
  "i + 9 \<le> n \<Longrightarrow> reads_within n data sticks_ok (parse_stick_calibration (drop i data) is_left)"
  using parse_stick_calibration_result [of "drop i data" is_left]
  by (cases "parse_stick_calibration (drop i data) is_left") (auto simp: sticks_ok_def)

lemma factory_stick_result:
  assumes "switch_ok s" and "sw_state s = STATE_READ_FACTORY_STICK_CALIBRATION"
  shows "reads_within (spi_bytes s n) data switch_ok (process_reply_read_spi_factory_stick_calibration data n s)"
proof (cases "sw_controller_type s = SWITCH_CONTROLLER_TYPE_PRO")
  case True
  show ?thesis
  proof (cases "n < 18")
    case False
    have "reads_within 18 data switch_ok (bindR (parse_stick_calibration data True) (\<lambda>(x, y).
        mapR (\<lambda>(rx, ry). s\<lparr>sw_cal_x := x, sw_cal_y := y, sw_cal_rx := rx, sw_cal_ry := ry\<rparr>)
          (parse_stick_calibration (drop 9 data) False)))"
      using parse_stick_within [of 0 18 data True] assms(1)
      by (auto intro!: reads_within_bind [where Q = sticks_ok and m = 18] reads_within_map [OF parse_stick_within]
          simp: sticks_ok_def switch_ok_fields)
    then show ?thesis using False True assms(2)
      by (simp add: process_reply_read_spi_factory_stick_calibration_def spi_bytes_def)
  qed (use True assms hexdump_within [of s n n data] in
      \<open>simp add: process_reply_read_spi_factory_stick_calibration_def spi_bytes_def\<close>)
next
  case pro: False
  show ?thesis
  proof (cases "n < 9")
    case False
    have "reads_within 9 data switch_ok (mapR (\<lambda>(x, y). s\<lparr>sw_cal_x := x, sw_cal_y := y\<rparr>) (parse_stick_calibration data True))"
      "reads_within 9 data switch_ok (mapR (\<lambda>(x, y). s\<lparr>sw_cal_rx := x, sw_cal_ry := y\<rparr>) (parse_stick_calibration data False))"
      using parse_stick_within [of 0 9 data True] parse_stick_within [of 0 9 data False] assms(1)
      by (auto intro!: reads_within_map [where Q = sticks_ok and m = 9] simp: sticks_ok_def switch_ok_fields)
    then show ?thesis using False pro assms(2)
      by (simp add: process_reply_read_spi_factory_stick_calibration_def spi_bytes_def)
  qed (use pro assms hexdump_within [of s n n data] in
      \<open>simp add: process_reply_read_spi_factory_stick_calibration_def spi_bytes_def\<close>)
qed

lemma use_left_within:
  "switch_ok s \<Longrightarrow> 11 \<le> n \<Longrightarrow> reads_within n data switch_ok (use_left_calibration data b s)"
  by (auto simp: use_left_calibration_def sticks_ok_def switch_ok_fields
      intro!: reads_within_map [OF parse_stick_within [of 2 11]])

lemma use_right_within:
  "switch_ok s \<Longrightarrow> p + 9 \<le> n \<Longrightarrow> reads_within n data switch_ok (use_right_calibration data p b s)"
  by (auto simp: use_right_calibration_def sticks_ok_def switch_ok_fields
      intro!: reads_within_map [OF parse_stick_within [of p "p + 9"]])

lemma user_cal_magic_within: "i + 2 \<le> n \<Longrightarrow> reads_within n data (\<lambda>_. True) (user_cal_magic data i)"
  by (simp add: user_cal_magic_def read_byte_def)

lemma use_both_within:
  assumes "switch_ok s" and "11 \<le> n" "p + 9 \<le> n"
  shows "reads_within n data switch_ok (bindR (use_left_calibration data l s) (use_right_calibration data p r))"
  by (rule reads_within_bind [OF use_left_within [OF assms(1,2)] order_refl])
    (use assms(3) in \<open>simp add: use_right_within\<close>)

lemma first_two_within:
  assumes "2 \<le> n" and "reads_within n data P r"
  shows "reads_within n data P (bindR (read_byte data 0) (\<lambda>_. bindR (read_byte data 1) (\<lambda>_. r)))"
  using assms by (simp add: read_byte_def)

lemma user_stick_result:
  assumes "switch_ok s" and "sw_state s = STATE_READ_USER_STICK_CALIBRATION"
  shows "reads_within (spi_bytes s n) data switch_ok (process_reply_read_spi_user_stick_calibration data n s)"
proof (cases "sw_controller_type s = SWITCH_CONTROLLER_TYPE_PRO")
  case True
  have "reads_within 22 data switch_ok (bindR (user_cal_magic data 0) (\<lambda>l. bindR (user_cal_magic data 11) (\<lambda>r.
      bindR (use_left_calibration data l s) (use_right_calibration data (if r then 13 else 2) r))))"
    by (intro reads_within_bind [OF user_cal_magic_within [OF order_refl]] allI impI use_both_within assms(1)) simp_all
  with True assms show ?thesis
    unfolding process_reply_read_spi_user_stick_calibration_def
    by (intro first_two_within) (auto simp: spi_bytes_def hexdump_within [OF assms(1)])
next
  case False
  have "reads_within 11 data switch_ok (bindR (user_cal_magic data 0) (\<lambda>magic.
      bindR (use_left_calibration data (magic \<and> l) s) (use_right_calibration data 2 (magic \<and> \<not> l))))" for l
    by (intro reads_within_bind [OF user_cal_magic_within [OF order_refl]] allI impI use_both_within assms(1)) simp_all
  with False assms show ?thesis
    unfolding process_reply_read_spi_user_stick_calibration_def
    by (intro first_two_within) (auto simp: spi_bytes_def Let_def hexdump_within [OF assms(1)])
qed

lemma imu_cal_of_list:
  assumes "length v = 12" and "\<forall>x \<in> set v. - 32768 \<le> x \<and> x \<le> 32767"
  shows "imu_cal_ok \<lparr>imu_offset = take 3 v, imu_scale = take 3 (drop 3 v)\<rparr>"
    "imu_cal_ok \<lparr>imu_offset = take 3 (drop 6 v), imu_scale = take 3 (drop 9 v)\<rparr>"
  using assms by (simp_all add: imu_cal_ok_def is_i16_def)

lemma imu_cal_result:
  assumes "switch_ok s" and "sw_state s = STATE_READ_FACTORY_IMU_CALIBRATION"
  shows "reads_within (spi_bytes s n) data switch_ok (process_reply_read_spi_factory_imu_calibration data n s)"
proof (cases "read_i16s 12 data 0")
  case (Inl e)
  with read_i16s_fails [OF Inl] assms show ?thesis
    by (simp add: process_reply_read_spi_factory_imu_calibration_def spi_bytes_def)
next
  case (Inr v)
  with read_i16s_bounds [OF Inr] imu_cal_of_list [of v] assms show ?thesis
    by (simp add: process_reply_read_spi_factory_imu_calibration_def switch_ok_def switch_setup_ok_def
        switch_data_ok_def rumble_timers_ok_def)
qed

text \<open>How far the answer to a command is read.\<close>

definition switch_reply_end :: "switch_device \<Rightarrow> bytes \<Rightarrow> nat" where
  "switch_reply_end s r =
     (if length r < 15 then 15
      else if r ! 14 = SUBCMD_REQ_DEV_INFO then 18
      else if r ! 14 = SUBCMD_SPI_FLASH_READ \<and> 20 \<le> length r then 20 + spi_bytes s (unat (r ! 19))
      else 15)"

definition switch_address_overflows :: "bytes \<Rightarrow> bool" where
  "switch_address_overflows r \<longleftrightarrow> 20 \<le> length r \<and> r ! 14 = SUBCMD_SPI_FLASH_READ \<and> 0x80 \<le> r ! 18"

definition reply_failure :: "switch_device \<Rightarrow> bytes \<Rightarrow> c_error \<Rightarrow> bool" where
  "reply_failure s r e \<longleftrightarrow>
     e = Out_of_bounds \<and> length r < switch_reply_end s r
     \<or> e = Signed_overflow \<and> switch_address_overflows r"

lemma address_overflow:
  "i32 (uint (a :: u8) * 16777216) = (if 0x80 \<le> a then Inl Signed_overflow else Inr (uint a * 16777216))"
proof -
  have "0x80 \<le> a \<longleftrightarrow> 128 \<le> uint a" by (simp add: word_le_def)
  moreover have "- 128 \<le> uint a" using u8_bounds [of a] by linarith
  ultimately show ?thesis by (auto simp: i32_def in_i32_def)
qed

lemma spi_flash_read_result:
  assumes "switch_ok s" and "15 \<le> length r" and "r ! 14 = SUBCMD_SPI_FLASH_READ"
  shows "case process_reply_spi_flash_read r (length r) s of Inl e \<Rightarrow> reply_failure s r e | Inr s' \<Rightarrow> switch_ok s'"
proof (cases "length r < 20")
  case True
  with assms(1) show ?thesis by (simp add: process_reply_spi_flash_read_def)
next
  case False
  define data where "data = drop 20 r"
  define m where "m = unat (r ! 19)"
  have reads: "read_byte r 19 = Inr (r ! 19)" "read_byte r 18 = Inr (r ! 18)"
    using False by (simp_all add: read_byte_def)
  show ?thesis
  proof (cases "0x80 \<le> r ! 18")
    case True
    with False assms(3) show ?thesis
      by (simp add: process_reply_spi_flash_read_def reads address_overflow reply_failure_def switch_address_overflows_def)
  next
    case le: False
    have fail: "case x of Inl e \<Rightarrow> reply_failure s r e | Inr s' \<Rightarrow> switch_ok s'"
      if "reads_within (spi_bytes s m) data switch_ok x" for x :: "switch_device cres"
    proof -
      have "switch_reply_end s r = 20 + spi_bytes s m"
        using False assms(3) by (simp add: switch_reply_end_def m_def switch_constants)
      moreover have "length data = length r - 20" by (simp add: data_def)
      ultimately show ?thesis using that False by (cases x) (auto simp: reply_failure_def)
    qed
    have "process_reply_spi_flash_read r (length r) s = (case sw_state s of
             STATE_READ_FACTORY_STICK_CALIBRATION \<Rightarrow> process_reply_read_spi_factory_stick_calibration data m s
           | STATE_READ_USER_STICK_CALIBRATION \<Rightarrow> process_reply_read_spi_user_stick_calibration data m s
           | STATE_READ_FACTORY_IMU_CALIBRATION \<Rightarrow> process_reply_read_spi_factory_imu_calibration data m s
           | _ \<Rightarrow> Inr s)"
      unfolding data_def m_def using False le
      by (simp add: process_reply_spi_flash_read_def reads address_overflow Let_def)
    moreover have "reads_within (spi_bytes s m) data switch_ok \<dots>"
      using factory_stick_result [OF assms(1)] user_stick_result [OF assms(1)] imu_cal_result [OF assms(1)] assms(1)
      by (simp split: switch_state.split)
    ultimately show ?thesis by (simp only: fail)
  qed
qed

lemma req_dev_info_result:
  assumes "switch_ok s" and "15 \<le> length r" and "r ! 14 = SUBCMD_REQ_DEV_INFO"
  shows "case process_reply_req_dev_info r s of Inl e \<Rightarrow> reply_failure s r e | Inr s' \<Rightarrow> switch_ok s'"
proof -
  have e: "switch_reply_end s r = 18" using assms(2,3) by (simp add: switch_reply_end_def)
  show ?thesis
    using assms(1) by (auto simp: process_reply_req_dev_info_def Let_def read_byte_def reply_failure_def e
        switch_ok_def switch_setup_ok_def switch_data_ok_def rumble_timers_ok_def)
qed

lemma subcmd_reply_result:
  assumes "switch_ok s" and "12 \<le> length r"
  shows "case process_input_subcmd_reply r (length r) s of Inl e \<Rightarrow> reply_failure s r e | Inr s' \<Rightarrow> switch_ok s'"
proof (cases "length r < 15")
  case True
  then have e: "switch_reply_end s r = 15" by (simp add: switch_reply_end_def)
  with True show ?thesis
    by (auto simp: process_input_subcmd_reply_def read_byte_def reply_failure_def)
next
  case False
  have reads: "read_byte r 13 = Inr (r ! 13)" "read_byte r 14 = Inr (r ! 14)" "read_byte r 2 = Inr (r ! 2)"
    using False by (simp_all add: read_byte_def)
  define x where "x = (if r ! 14 = SUBCMD_REQ_DEV_INFO then process_reply_req_dev_info r s
            else if r ! 14 = SUBCMD_SPI_FLASH_READ then process_reply_spi_flash_read r (length r) s
            else Inr s)"
  have x: "case x of Inl e \<Rightarrow> reply_failure s r e | Inr s' \<Rightarrow> switch_ok s'"
    using req_dev_info_result [OF assms(1), of r] spi_flash_read_result [OF assms(1), of r] False assms(1)
    by (simp add: x_def)
  have eq: "process_input_subcmd_reply r (length r) s = bindR x (\<lambda>s1. switch_process_fsm (s1\<lparr>pd_controller :=
       (pd_controller s1)\<lparr>ctl_battery := switch_battery (r ! 2) (ctl_battery (pd_controller s1))\<rparr>\<rparr>))"
    by (simp add: process_input_subcmd_reply_def reads x_def)
  show ?thesis
  proof (cases x)
    case (Inl e)
    with x show ?thesis by (simp add: eq)
  next
    case (Inr s1)
    with x have "switch_ok (s1\<lparr>pd_controller :=
       (pd_controller s1)\<lparr>ctl_battery := switch_battery (r ! 2) (ctl_battery (pd_controller s1))\<rparr>\<rparr>)"
      by (simp add: switch_ok_def switch_setup_ok_def switch_data_ok_def rumble_timers_ok_def)
    from switch_process_fsm_ok [OF this] Inr show ?thesis by (auto simp: eq)
  qed
qed

text \<open>When a stick or a sensor has no range, and when a report cannot be converted.\<close>

definition flat_stick :: "switch_cal_stick \<Rightarrow> bool" where
  "flat_stick c \<longleftrightarrow> cal_min c = cal_center c \<or> cal_max c = cal_center c"

definition switch_no_range :: "switch_device \<Rightarrow> bool" where
  "switch_no_range s \<longleftrightarrow> flat_stick (sw_cal_x s) \<or> flat_stick (sw_cal_y s)
     \<or> flat_stick (sw_cal_rx s) \<or> flat_stick (sw_cal_ry s)
     \<or> sw_mode s = SWITCH_MODE_IMU \<and> 0 \<in> set (imu_divisors (sw_cal_gyro s))"

definition report_30_failure :: "switch_device \<Rightarrow> bytes \<Rightarrow> c_error \<Rightarrow> bool" where
  "report_30_failure s r e \<longleftrightarrow>
     e = Division_by_zero \<and> switch_no_range s
     \<or> e = Out_of_bounds \<and> sw_mode s = SWITCH_MODE_IMU \<and> length r < 49
     \<or> e = Signed_overflow \<and> sw_mode s = SWITCH_MODE_IMU \<and> sw_controller_type s = SWITCH_CONTROLLER_TYPE_JCR"

lemma calibrate_cases:
  assumes "v \<in> {0..4095}" and "stick_cal_ok cal"
  obtains (flat) "calibrate_axis v cal = Inl Division_by_zero" "flat_stick cal"
  | (ok) r where "calibrate_axis v cal = Inr r" "r \<in> {-512..512}" "- r \<in> {-512..512}"
  using calibrate_axis_result [OF assms] that
  by (cases "calibrate_axis v cal") (auto simp: flat_stick_def stick_range_def split: if_splits)

definition bits_below :: "nat \<Rightarrow> 'a::len word \<Rightarrow> bool" where
  "bits_below n w \<longleftrightarrow> (\<forall>k. bit w k \<longrightarrow> k < n)"

definition masks_below :: "nat \<Rightarrow> (u8 \<times> 'a::len word) list \<Rightarrow> bool" where
  "masks_below n ps \<longleftrightarrow> (\<forall>p \<in> set ps. bits_below n (snd p))"

lemma bits_below_0 [simp]: "bits_below n 0"
  by (simp add: bits_below_def)

lemma bits_below_or_masks [simp]: "bits_below n dst \<Longrightarrow> masks_below n ps \<Longrightarrow> bits_below n (or_masks b ps dst)"
  using bit_or_masks [of b ps dst _ n] by (auto simp: bits_below_def masks_below_def)

lemma switch_masks [simp]:
  "masks_below 10 pro_buttons_right" "masks_below 10 pro_buttons_left" "masks_below 10 pro_thumbs"
  "masks_below 10 jcl_buttons" "masks_below 10 jcr_buttons" "masks_below 10 jcl_thumb" "masks_below 10 jcr_thumb"
  "masks_below 10 main_buttons_3f" "masks_below 10 thumbs_3f"
  "masks_below 4 pro_dpad" "masks_below 4 pro_misc" "masks_below 4 jcl_misc" "masks_below 4 jcr_misc"
  by (simp_all add: masks_below_def bits_below_def pro_buttons_right_def pro_buttons_left_def pro_thumbs_def
      jcl_buttons_def jcr_buttons_def jcl_thumb_def jcr_thumb_def main_buttons_3f_def thumbs_3f_def pro_dpad_def
      pro_misc_def jcl_misc_def jcr_misc_def)

lemma switch_gamepad_ok_iff:
  "switch_gamepad_ok gp \<longleftrightarrow> bits_below 10 (gp_buttons gp) \<and> bits_below 4 (gp_misc_buttons gp) \<and> bits_below 4 (gp_dpad gp)
     \<and> gp_axis_x gp \<in> {-512..512} \<and> gp_axis_y gp \<in> {-512..512}
     \<and> gp_axis_rx gp \<in> {-512..512} \<and> gp_axis_ry gp \<in> {-512..512}
     \<and> gp_brake gp = 0 \<and> gp_throttle gp = 0"
  by (auto simp: switch_gamepad_ok_def gamepad_bits_ok_def bits_below_def)

lemma zero_gamepad_fields:
  "gp_buttons zero_gamepad = 0" "gp_misc_buttons zero_gamepad = 0" "gp_dpad zero_gamepad = 0"
  "gp_axis_x zero_gamepad = 0" "gp_axis_y zero_gamepad = 0" "gp_axis_rx zero_gamepad = 0"
  "gp_axis_ry zero_gamepad = 0" "gp_brake zero_gamepad = 0" "gp_throttle zero_gamepad = 0"
  by (simp_all add: zero_gamepad_def)

definition sticks_12_bit :: "switch_buttons \<Rightarrow> bool" where
  "sticks_12_bit r \<longleftrightarrow> fst (sb_stick_left r) \<in> {0..4095} \<and> snd (sb_stick_left r) \<in> {0..4095}
     \<and> fst (sb_stick_right r) \<in> {0..4095} \<and> snd (sb_stick_right r) \<in> {0..4095}"

lemma read_switch_buttons_total:
  assumes "12 \<le> length r"
  shows "\<exists>b. read_switch_buttons r = Inr b \<and> sticks_12_bit b"
proof -
  obtain x y rx ry where "read_packed r 6 = Inr (x, y)" "read_packed r 9 = Inr (rx, ry)"
    "x \<in> {0..4095}" "y \<in> {0..4095}" "rx \<in> {0..4095}" "ry \<in> {0..4095}"
    using read_packed_total [of 6 r] read_packed_total [of 9 r] assms by auto
  then show ?thesis using assms by (simp add: read_switch_buttons_def read_byte_def sticks_12_bit_def)
qed

lemma joycon_left_result:
  assumes "switch_ok s" and "sticks_12_bit r"
  shows "case parse_report_30_joycon_left r s zero_gamepad of
      Inl e \<Rightarrow> e = Division_by_zero \<and> switch_no_range s | Inr gp \<Rightarrow> switch_gamepad_ok gp"
proof -
  have v: "fst (sb_stick_left r) \<in> {0..4095}" "snd (sb_stick_left r) \<in> {0..4095}"
    and c: "stick_cal_ok (sw_cal_x s)" "stick_cal_ok (sw_cal_y s)"
    using assms by (simp_all add: sticks_12_bit_def switch_ok_def switch_data_ok_def)
  from v(1) c(1) show ?thesis
  proof (cases rule: calibrate_cases)
    case flat
    then show ?thesis by (simp add: parse_report_30_joycon_left_def switch_no_range_def)
  next
    case x: (ok x)
    from v(2) c(2) show ?thesis
    proof (cases rule: calibrate_cases)
      case flat
      then show ?thesis using x by (simp add: parse_report_30_joycon_left_def switch_no_range_def)
    next
      case y: (ok y)
      show ?thesis using x y
        by (simp add: parse_report_30_joycon_left_def zero_gamepad_fields switch_gamepad_ok_iff)
    qed
  qed
qed

lemma joycon_right_result:
  assumes "switch_ok s" and "sticks_12_bit r"
  shows "case parse_report_30_joycon_right r s zero_gamepad of
      Inl e \<Rightarrow> e = Division_by_zero \<and> switch_no_range s | Inr gp \<Rightarrow> switch_gamepad_ok gp"
proof -
  have v: "fst (sb_stick_right r) \<in> {0..4095}" "snd (sb_stick_right r) \<in> {0..4095}"
    and c: "stick_cal_ok (sw_cal_rx s)" "stick_cal_ok (sw_cal_ry s)"
    using assms by (simp_all add: sticks_12_bit_def switch_ok_def switch_data_ok_def)
  from v(1) c(1) show ?thesis
  proof (cases rule: calibrate_cases)
    case flat
    then show ?thesis by (simp add: parse_report_30_joycon_right_def switch_no_range_def)
  next
    case x: (ok x)
    from v(2) c(2) show ?thesis
    proof (cases rule: calibrate_cases)
      case flat
      then show ?thesis using x by (simp add: parse_report_30_joycon_right_def switch_no_range_def)
    next
      case y: (ok y)
      show ?thesis using x y
        by (simp add: parse_report_30_joycon_right_def zero_gamepad_fields switch_gamepad_ok_iff)
    qed
  qed
qed

lemma pro_controller_result:
  assumes "switch_ok s" and "sticks_12_bit r"
  shows "case parse_report_30_pro_controller r s zero_gamepad of
      Inl e \<Rightarrow> e = Division_by_zero \<and> switch_no_range s | Inr gp \<Rightarrow> switch_gamepad_ok gp"
proof (cases "sw_controller_type s = SWITCH_CONTROLLER_TYPE_PRO")
  case False
  then show ?thesis
    by (simp add: parse_report_30_pro_controller_def zero_gamepad_fields switch_gamepad_ok_iff Let_def)
next
  case True
  define axis where "axis v cal r \<longleftrightarrow> calibrate_axis v cal = Inl Division_by_zero \<and> switch_no_range s
    \<or> (calibrate_axis v cal = Inr r \<and> r \<in> {-512..512} \<and> - r \<in> {-512..512})" for v cal r
  have axis: "\<exists>r. axis v cal r"
    if "v \<in> {0..4095}" "stick_cal_ok cal" "flat_stick cal \<longrightarrow> switch_no_range s" for v cal
    using that(1,2) by (cases rule: calibrate_cases) (use that(3) in \<open>auto simp: axis_def\<close>)
  obtain x y rx ry where "axis (fst (sb_stick_left r)) (sw_cal_x s) x" "axis (snd (sb_stick_left r)) (sw_cal_y s) y"
    "axis (fst (sb_stick_right r)) (sw_cal_rx s) rx" "axis (snd (sb_stick_right r)) (sw_cal_ry s) ry"
    using axis [of "fst (sb_stick_left r)" "sw_cal_x s"] axis [of "snd (sb_stick_left r)" "sw_cal_y s"]
      axis [of "fst (sb_stick_right r)" "sw_cal_rx s"] axis [of "snd (sb_stick_right r)" "sw_cal_ry s"] assms
    by (auto simp: sticks_12_bit_def switch_ok_def switch_data_ok_def switch_no_range_def)
  with True show ?thesis
    by (auto simp: axis_def parse_report_30_pro_controller_def zero_gamepad_fields switch_gamepad_ok_iff Let_def)
qed

lemma parse_buttons_30_result:
  assumes "switch_ok s" and "sticks_12_bit r"
  shows "case parse_buttons_30 r s of
      Inl e \<Rightarrow> e = Division_by_zero \<and> switch_no_range s | Inr gp \<Rightarrow> switch_gamepad_ok gp"
  using joycon_left_result [OF assms] joycon_right_result [OF assms] pro_controller_result [OF assms]
  by (simp add: parse_buttons_30_def zero_gamepad_fields switch_gamepad_ok_iff)

lemma switch_gamepad_ok_sensors: "switch_gamepad_ok (gp\<lparr>gp_accel := a, gp_gyro := g\<rparr>) \<longleftrightarrow> switch_gamepad_ok gp"
  by (simp add: switch_gamepad_ok_def gamepad_bits_ok_def)

lemma imu_divisor_in: "i < 3 \<Longrightarrow> imu_divisors c ! i \<in> set (imu_divisors c)"
  by (rule nth_mem) (simp add: imu_divisors_def)

lemma parse_imu_result:
  assumes "switch_ok s" and "switch_gamepad_ok gp" and "sw_mode s = SWITCH_MODE_IMU"
  shows "case parse_imu r s gp of Inl e \<Rightarrow> report_30_failure s r e | Inr gp' \<Rightarrow> switch_gamepad_ok gp'"
proof (cases "read_i16s 6 r 37")
  case (Inl e)
  with read_i16s_fails [OF Inl] assms(3) show ?thesis by (simp add: parse_imu_def report_30_failure_def)
next
  case (Inr frame)
  let ?ax = "imu_axis frame (sw_cal_accel s) (sw_cal_gyro s)"
  have frame: "length frame = 6" "\<forall>x \<in> set frame. is_i16 x"
    using read_i16s_bounds [OF Inr] by (simp_all add: is_i16_def)
  have cals: "imu_cal_ok (sw_cal_accel s)" "imu_cal_ok (sw_cal_gyro s)"
    using assms(1) by (simp_all add: switch_ok_def switch_data_ok_def)
  have ax: "?ax i = Inl Division_by_zero \<and> switch_no_range s \<or> (\<exists>a g. ?ax i = Inr (a, g) \<and> i32 (- a) = Inr (- a))"
    if i: "i < 3" for i
  proof (cases "?ax i")
    case (Inl e)
    with imu_axis_result [OF i frame cals] imu_divisor_in [OF i, of "sw_cal_gyro s"] assms(3)
    show ?thesis by (auto simp: switch_no_range_def)
  next
    case (Inr p)
    obtain a g where p: "p = (a, g)" by fastforce
    with imu_axis_result [OF i frame cals] Inr have "\<bar>a\<bar> \<le> 1073741824" by simp
    then have "in_i32 (- a)" by (auto simp: in_i32_def abs_le_iff)
    with Inr p show ?thesis by (simp add: i32_ok)
  qed
  show ?thesis
  proof (cases "\<exists>i < 3. ?ax i = Inl Division_by_zero")
    case True
    then obtain i where "i < 3" "?ax i = Inl Division_by_zero" by blast
    with ax [of i] have "switch_no_range s" by auto
    then show ?thesis using ax [of 0] ax [of 1] ax [of 2] Inr True
      by (auto simp: parse_imu_def report_30_failure_def less_Suc_eq numeral_3_eq_3 numeral_2_eq_2 switch_gamepad_ok_sensors
          assms(2) i32_def split: if_splits)
  next
    case False
    then obtain a0 g0 a1 g1 a2 g2 where "?ax 0 = Inr (a0, g0)" "?ax 1 = Inr (a1, g1)" "?ax 2 = Inr (a2, g2)"
      "i32 (- a1) = Inr (- a1)" "i32 (- a2) = Inr (- a2)"
      using ax [of 0] ax [of 1] ax [of 2] by auto
    then show ?thesis using Inr assms(2, 3)
      by (simp add: parse_imu_def switch_gamepad_ok_sensors)
        (simp add: i32_def switch_gamepad_ok_sensors report_30_failure_def)
  qed
qed

lemma switch_ok_set_gamepad: "switch_ok s \<Longrightarrow> switch_gamepad_ok gp \<Longrightarrow> switch_ok (set_gamepad gp s)"
  by (simp add: set_gamepad_def switch_ok_def switch_setup_ok_def switch_data_ok_def rumble_timers_ok_def)

lemma report_30_result:
  assumes "switch_ok s" and "12 \<le> length r"
  shows "case parse_report_30 r s of Inl e \<Rightarrow> report_30_failure s r e | Inr s' \<Rightarrow> switch_ok s'"
proof -
  obtain b where b: "read_switch_buttons r = Inr b" "sticks_12_bit b"
    using read_switch_buttons_total [OF assms(2)] by blast
  show ?thesis
  proof (cases "parse_buttons_30 b s")
    case (Inl e)
    with parse_buttons_30_result [OF assms(1) b(2)] b(1) show ?thesis
      by (simp add: parse_report_30_def report_30_failure_def)
  next
    case (Inr gp)
    with parse_buttons_30_result [OF assms(1) b(2)] have gp: "switch_gamepad_ok gp" by simp
    then show ?thesis using parse_imu_result [OF assms(1) gp, of r] b(1) Inr assms(1)
      by (auto simp: parse_report_30_def switch_ok_set_gamepad mapR_def split: sum.splits)
  qed
qed

lemma axis_3f_total:
  assumes "i + 1 < length r"
  shows "\<exists>v. axis_3f r i = Inr v \<and> v \<in> {-512..511}"
proof -
  define w where "w = push_bit 8 (uint (r ! (i + 1))) OR uint (r ! i)"
  have "uint (r ! i) = take_bit 8 (uint (r ! i))"
    using u8_bounds [of "r ! i"] by (simp add: take_bit_int_eq_self)
  then have "w = push_bit 8 (uint (r ! (i + 1))) + uint (r ! i)"
    unfolding w_def by (subst disjunctive_add) (auto simp: bit_simps dest: bit_imp_le_length)
  then have w: "0 \<le> w" "w \<le> 65535"
    using u8_bounds [of "r ! i"] u8_bounds [of "r ! (i + 1)"] by (simp_all add: push_bit_eq_mult)
  then have "i32 (w * AXIS_NORMALIZE_RANGE) = Inr (w * AXIS_NORMALIZE_RANGE)"
    by (simp add: i32_def in_i32_def AXIS_NORMALIZE_RANGE_def)
  moreover have "(w * 1024) sdiv 65536 = (w * 1024) div 65536" using w by (simp add: sdiv_nonneg_eq)
  moreover have "0 \<le> (w * 1024) div 65536" "(w * 1024) div 65536 \<le> 1023" using w by simp_all
  moreover have "(1024 :: int) sdiv 2 = 512" by simp
  ultimately show ?thesis using assms w_def
    by (simp add: axis_3f_def read_byte_def AXIS_NORMALIZE_RANGE_def)
qed

lemma report_3f_total:
  assumes "switch_ok s" and "12 \<le> length r"
  shows "\<exists>s'. parse_report_3f r s = Inr s' \<and> switch_ok s'"
proof -
  obtain x y rx ry where "axis_3f r 4 = Inr x" "axis_3f r 6 = Inr y" "axis_3f r 8 = Inr rx" "axis_3f r 10 = Inr ry"
    "x \<in> {-512..511}" "y \<in> {-512..511}" "rx \<in> {-512..511}" "ry \<in> {-512..511}"
    using axis_3f_total [of 4 r] axis_3f_total [of 6 r] axis_3f_total [of 8 r] axis_3f_total [of 10 r] assms(2) by auto
  moreover have "bits_below 4 (uni_hid_parser_hat_to_dpad (r ! 3))"
    by (simp add: bits_below_def hat_to_dpad_bits)
  ultimately show ?thesis using assms
    by (auto simp: parse_report_3f_def read_byte_def intro!: switch_ok_set_gamepad)
      (auto simp: switch_gamepad_ok_iff zero_gamepad_fields)
qed

section \<open>Every event\<close>

definition switch_fails :: "switch_device \<Rightarrow> switch_event \<Rightarrow> c_error \<Rightarrow> bool" where
  "switch_fails s ev e \<longleftrightarrow> (case ev of
     Switch_play delay duration weak strong \<Rightarrow>
       e = Assertion_failed \<and> pd_state s = STATE_RUMBLE_DELAYED \<and> delay = 0 \<and> duration = 0
   | Switch_delayed_timer \<Rightarrow>
       e = Assertion_failed \<and> pd_timer_delayed_start s \<noteq> None \<and> pd_duration_ms s = 0
   | Switch_report r \<Rightarrow> 12 \<le> length r \<and> (r ! 0 = 0x21 \<and> reply_failure s r e \<or> r ! 0 = 0x30 \<and> report_30_failure s r e)
   | _ \<Rightarrow> False)"

lemma switch_input_result:
  assumes "switch_ok s"
  shows "case switch_input r s of Inl e \<Rightarrow> switch_fails s (Switch_report r) e | Inr s' \<Rightarrow> switch_ok s'"
proof (cases "length r < 12")
  case True
  with assms show ?thesis by (simp add: switch_input_def uni_hid_parser_switch_parse_input_report_def)
next
  case False
  then have len: "12 \<le> length r" by simp
  then have "read_byte r 0 = Inr (r ! 0)" by (auto simp: read_byte_def)
  with len have eq: "switch_input r s = (if r ! 0 = 0x21 then process_input_subcmd_reply r (length r) s
        else if r ! 0 = 0x30 then parse_report_30 r s
        else if r ! 0 = 0x3f then parse_report_3f r s
        else Inr s)"
    by (simp add: switch_input_def uni_hid_parser_switch_parse_input_report_def)
  consider "r ! 0 = 0x21" | "r ! 0 = 0x30" | "r ! 0 = 0x3f" | "r ! 0 \<noteq> 0x21" "r ! 0 \<noteq> 0x30" "r ! 0 \<noteq> 0x3f" by blast
  then show ?thesis
  proof cases
    case 1
    with subcmd_reply_result [OF assms len] len show ?thesis
      by (simp add: eq switch_fails_def split: sum.splits)
  next
    case 2
    with report_30_result [OF assms len] len show ?thesis
      by (simp add: eq switch_fails_def split: sum.splits)
  next
    case 3
    with report_3f_total [OF assms len] show ?thesis by (auto simp: eq)
  next
    case 4
    with assms show ?thesis by (simp add: eq)
  qed
qed

lemma fire_setup_timer_ok:
  assumes "switch_ok s"
  shows "\<exists>s'. fire_setup_timer s = Inr s' \<and> switch_ok s'"
proof (cases "sw_setup_timer s = None")
  case True
  with assms show ?thesis by (simp add: fire_setup_timer_def)
next
  case False
  have "switch_ok (s\<lparr>sw_setup_timer := None\<rparr>)"
    using assms by (simp add: switch_ok_def switch_setup_ok_def switch_data_ok_def rumble_timers_ok_def)
  from switch_process_fsm_ok [OF this] False show ?thesis
    by (auto simp: fire_setup_timer_def switch_setup_timeout_callback_def)
qed

lemma switch_step_result:
  assumes "switch_ok s"
  shows "case switch_step ev s of Inl e \<Rightarrow> switch_fails s ev e | Inr s' \<Rightarrow> switch_ok s'"
proof (cases ev)
  case Switch_other_sends
  with assms show ?thesis
    by (simp add: switch_step_def switch_ok_def switch_setup_ok_def switch_data_ok_def rumble_timers_ok_def not_less)
next
  case (Switch_set_player_leds leds)
  have "switch_ok (s\<lparr>sw_gamepad_seat := leds\<rparr>)"
    using assms by (simp add: switch_ok_def switch_setup_ok_def switch_data_ok_def rumble_timers_ok_def)
  then show ?thesis using Switch_set_player_leds
    by (simp add: switch_step_def uni_hid_parser_switch_set_player_leds_def Let_def set_led_def
        send_switch_subcmd_def send_subcmd_ok length_switch_request)
next
  case (Switch_play delay duration weak strong)
  then show ?thesis using switch_play_result [OF assms, of delay duration weak strong]
    by (simp add: switch_step_def switch_fails_def split: sum.splits)
next
  case Switch_delayed_timer
  then show ?thesis using switch_delayed_timer_result [OF assms] by (simp add: switch_step_def switch_fails_def split: sum.splits)
next
  case Switch_duration_timer
  then show ?thesis using switch_duration_timer_result [OF assms] by (auto simp: switch_step_def)
next
  case Switch_setup_timer
  then show ?thesis using fire_setup_timer_ok [OF assms] by (auto simp: switch_step_def)
next
  case (Switch_report r)
  then show ?thesis using switch_input_result [OF assms, of r] by (simp add: switch_step_def split: sum.splits)
qed

interpretation switch_driver: fallible_machine switch_step switch_ok switch_fails
  by unfold_locales (rule switch_step_result)

lemma switch_setup_ok_initial:
  assumes "n \<le> 15"
  shows "switch_ok (switch_after_setup n)"
proof -
  have "switch_ok ((zero_switch n)\<lparr>
     sw_setup_timer := Some SWITCH_SETUP_TIMEOUT_MS,
     sw_controller_type := SWITCH_CONTROLLER_TYPE_PRO,
     sw_cal_x := default_stick_calibration, sw_cal_y := default_stick_calibration,
     sw_cal_rx := default_stick_calibration, sw_cal_ry := default_stick_calibration,
     sw_cal_accel := default_accel_cal, sw_cal_gyro := default_gyro_cal,
     pd_controller := zero_controller\<lparr>ctl_klass := UNI_CONTROLLER_CLASS_GAMEPAD\<rparr>,
     sw_state := STATE_REQ_DEV_INFO\<rparr>)"
    using assms by (simp add: switch_ok_def switch_setup_ok_def switch_data_ok_def rumble_timers_ok_def
        zero_switch_def Let_def less_switch_state_def default_stick_calibration_ok default_imu_cals_ok
        switch_gamepad_ok_def gamepad_bits_ok_def zero_controller_def zero_gamepad_def)
  from send_subcmd_ok [OF this] show ?thesis
    by (simp add: switch_after_setup_def fsm_request_device_info_def send_switch_subcmd_def length_switch_request)
qed

lemma switch_run_result:
  assumes "n \<le> 15"
  shows "case run_steps switch_step evs (switch_after_setup n) of
      Inl e \<Rightarrow> \<exists>before ev after s. evs = before @ ev # after
         \<and> run_steps switch_step before (switch_after_setup n) = Inr s \<and> switch_fails s ev e
    | Inr s \<Rightarrow> switch_ok s"
  using switch_driver.run_result [OF switch_setup_ok_initial [OF assms], of evs] by (auto split: sum.splits)

text \<open>Reports that make the driver fail: an answer of twelve bytes, an answer whose calibration is longer
  than the length that was checked, one without the bytes that are logged, and calibration data without a range.\<close>

definition short_answer :: bytes where
  "short_answer = 0x21 # replicate 11 0"

definition other_answer :: bytes where
  "other_answer = 0x21 # replicate 14 0"

definition truncated_user_calibration :: bytes where
  "truncated_user_calibration =
     [0x21] @ replicate 13 0 @ [SUBCMD_SPI_FLASH_READ, 0, 0, 0, 0, 18] @ replicate 11 0 @ [0xb2, 0xa1] @ replicate 5 0"

definition empty_user_calibration :: bytes where
  "empty_user_calibration = [0x21] @ replicate 13 0 @ [SUBCMD_SPI_FLASH_READ, 0, 0, 0, 0, 0]"

definition flat_calibration :: bytes where
  "flat_calibration = [0x21] @ replicate 13 0 @ [SUBCMD_SPI_FLASH_READ, 0, 0, 0, 0, 18] @ replicate 18 0"

definition stick_report :: bytes where
  "stick_report = 0x30 # replicate 11 0"

lemma switch_failing_runs:
  "run_steps switch_step [Switch_play 100 duration weak strong, Switch_play 0 0 weak' strong']
     (switch_after_setup n) = Inl Assertion_failed"
  "run_steps switch_step [Switch_report short_answer] (switch_after_setup n) = Inl Out_of_bounds"
  "run_steps switch_step [Switch_report other_answer, Switch_report other_answer, Switch_report truncated_user_calibration]
     (switch_after_setup 0) = Inl Out_of_bounds"
  "run_steps switch_step [Switch_report other_answer, Switch_report other_answer, Switch_report empty_user_calibration]
     (switch_after_setup 0) = Inl Out_of_bounds"
  "run_steps switch_step [Switch_report other_answer, Switch_report flat_calibration, Switch_report stick_report]
     (switch_after_setup 0) = Inl Division_by_zero"
proof -
  show "run_steps switch_step [Switch_play 100 duration weak strong, Switch_play 0 0 weak' strong']
     (switch_after_setup n) = Inl Assertion_failed"
    by (simp add: switch_step_def uni_hid_parser_switch_play_dual_rumble_def ps_rumble_defs
        switch_play_dual_rumble_now_def switch_stop_rumble_now_def switch_after_setup_def zero_switch_def
        fsm_request_device_info_def send_switch_subcmd_def send_subcmd_def)
  show "run_steps switch_step [Switch_report short_answer] (switch_after_setup n) = Inl Out_of_bounds"
    by (simp add: switch_step_def switch_input_def uni_hid_parser_switch_parse_input_report_def
        process_input_subcmd_reply_def read_byte_def short_answer_def)
qed code_simp+

section \<open>Properties\<close>

text \<open>C10: After setup the driver of the Switch controllers fails only in the listed cases, in whatever order
  requests, timer expiries and reports come: a rumble that is stopped while it is delayed, an
  answer that is read past its end (an answer of 12 bytes passes the length check, the first
  bytes of the user calibration are logged unchecked, a calibration that is too short is dumped
  with the length it names, and the user calibration is checked against the size of the factory
  calibration), a stick or
  gyroscope without a range, an address with its top bit set, and the negation of a
  wrapped gyroscope value of a right JoyCon. In every other case the driver returns in its
  invariant: sticks within -512 to 512, calibrations in range, packets well formed. The listed
  cases are real: five runs that reach them.\<close>

theorem switch_fails_only_as_listed:
  assumes "n \<le> 15"
  shows "uni_hid_parser_switch_setup (zero_switch n) = Inr (switch_after_setup n)
    \<and> (case run_steps switch_step evs (switch_after_setup n) of
        Inl e \<Rightarrow> \<exists>before ev after s. evs = before @ ev # after
           \<and> run_steps switch_step before (switch_after_setup n) = Inr s \<and> switch_fails s ev e
      | Inr s \<Rightarrow> switch_ok s)
    \<and> run_steps switch_step [Switch_play 100 duration weak strong, Switch_play 0 0 weak' strong']
        (switch_after_setup n) = Inl Assertion_failed
    \<and> run_steps switch_step [Switch_report short_answer] (switch_after_setup n) = Inl Out_of_bounds
    \<and> run_steps switch_step [Switch_report other_answer, Switch_report other_answer, Switch_report truncated_user_calibration]
        (switch_after_setup 0) = Inl Out_of_bounds
    \<and> run_steps switch_step [Switch_report other_answer, Switch_report other_answer, Switch_report empty_user_calibration]
        (switch_after_setup 0) = Inl Out_of_bounds
    \<and> run_steps switch_step [Switch_report other_answer, Switch_report flat_calibration, Switch_report stick_report]
        (switch_after_setup 0) = Inl Division_by_zero"
  by (intro conjI switch_setup_result switch_run_result [OF assms] switch_failing_runs)

theorem switch_fails_only_as_listed_witness:
  "uni_hid_parser_switch_setup (zero_switch 3) = Inr (switch_after_setup 3)
   \<and> run_steps switch_step [Switch_report short_answer] (switch_after_setup 3) = Inl Out_of_bounds"
  using switch_fails_only_as_listed [of 3 "[]" 0 0 0 0 0] by simp

text \<open>C14: the strength of a rumble is lost: whatever the two magnitudes, the two amplitudes in the packet are the
  same, those of the table row for 500, even for a motor whose magnitude is zero. The magnitudes only
  select the two frequencies.\<close>

theorem rumble_ignores_magnitudes:
  assumes "duration \<noteq> 0" and "pd_timer_duration s = None"
  shows "\<exists>s' packet. switch_play_dual_rumble_now duration weak strong s = Inr s'
    \<and> intr_reports (pd_sent s') = intr_reports (pd_sent s) @ [packet]
    \<and> snd (snd (decode_rumble (take 4 (drop 3 packet)))) = (am_high (find_rumble_amp 500), am_low (find_rumble_amp 500))
    \<and> snd (snd (decode_rumble (drop 7 packet))) = (am_high (find_rumble_amp 500), am_low (find_rumble_amp 500))
    \<and> am_amp (find_rumble_amp 500) = 501"
proof -
  let ?left = "switch_encode_rumble (push_bit 2 (ucast weak)) (ucast weak) 500"
  let ?right = "switch_encode_rumble (push_bit 2 (ucast strong)) (ucast strong) 500"
  let ?packet = "[0xa2, OUTPUT_RUMBLE_ONLY, sw_packet_num s] @ ?left @ ?right"
  have "(switch_request OUTPUT_RUMBLE_ONLY ?left ?right [])[2 := sw_packet_num s, 0 := 0xa2] = ?packet"
    by (simp add: switch_request_def)
  then have "intr_reports (pd_sent (send_subcmd (switch_request OUTPUT_RUMBLE_ONLY ?left ?right []) s))
      = intr_reports (pd_sent s) @ [?packet]"
    by simp
  moreover have "take 4 (drop 3 ?packet) = ?left" "drop 7 ?packet = ?right" by simp_all
  ultimately show ?thesis using assms
    by (simp add: switch_play_dual_rumble_now_def arm_rumble_off_def add_timer_def decode_encode_rumble
        rumble_amp_500 amp_data_def)
qed

theorem rumble_ignores_magnitudes_witness:
  "\<exists>s' packet. switch_play_dual_rumble_now 100 0 0 (switch_after_setup 0) = Inr s'
    \<and> snd (snd (decode_rumble (drop 7 packet))) = (am_high (find_rumble_amp 500), am_low (find_rumble_amp 500))"
proof -
  have "pd_timer_duration (switch_after_setup 0) = None"
    by (simp add: switch_after_setup_def fsm_request_device_info_def send_switch_subcmd_def zero_switch_def Let_def)
  from rumble_ignores_magnitudes [OF _ this, of 100 0 0] show ?thesis by auto
qed

end
