(* ===== verification/Switch_Setup.thy ===== *)
theory Switch_Setup
  imports Switch_Safe
begin

text \<open>
  The setup of a Switch controller against its specification: a script of seven commands, of
  which the next one is sent when any answer comes or when the setup timer expires. The timer is
  registered once and never again.
\<close>

section \<open>The specification\<close>

definition setup_script :: "u8 list" where
  "setup_script = [SUBCMD_REQ_DEV_INFO, SUBCMD_SPI_FLASH_READ, SUBCMD_SPI_FLASH_READ, SUBCMD_SPI_FLASH_READ,
     SUBCMD_SET_REPORT_MODE, SUBCMD_ENABLE_IMU, SUBCMD_SET_PLAYER_LEDS]"

text \<open>How many commands are answered or given up, whether the timer runs, and what was sent.\<close>

record setup_spec =
  ss_answered :: nat
  ss_timer :: bool
  ss_sent :: "u8 list"
  ss_ready_calls :: nat

definition spec_advance :: "setup_spec \<Rightarrow> setup_spec" where
  "spec_advance x =
     (if ss_answered x < 6 then
        x\<lparr>ss_answered := Suc (ss_answered x), ss_timer := ss_timer x \<and> ss_answered x < 5,
          ss_sent := ss_sent x @ [setup_script ! Suc (ss_answered x)]\<rparr>
      else if ss_answered x = 6 then
        x\<lparr>ss_answered := 7, ss_timer := False, ss_ready_calls := Suc (ss_ready_calls x)\<rparr>
      else x\<lparr>ss_timer := False\<rparr>)"

definition is_answer :: "switch_event \<Rightarrow> bool" where
  "is_answer ev \<longleftrightarrow> (case ev of Switch_report r \<Rightarrow> 12 \<le> length r \<and> r ! 0 = 0x21 | _ \<Rightarrow> False)"

definition spec_step :: "setup_spec \<Rightarrow> switch_event \<Rightarrow> setup_spec" where
  "spec_step x ev =
     (if is_answer ev then spec_advance x
      else case ev of
        Switch_setup_timer \<Rightarrow> if ss_timer x then spec_advance (x\<lparr>ss_timer := False\<rparr>) else x
      | Switch_set_player_leds leds \<Rightarrow>
          if ss_answered x < 7 then x else x\<lparr>ss_sent := ss_sent x @ [SUBCMD_SET_PLAYER_LEDS]\<rparr>
      | _ \<Rightarrow> x)"

definition setup_spec_start :: setup_spec where
  "setup_spec_start = \<lparr>ss_answered = 0, ss_timer = True, ss_sent = [SUBCMD_REQ_DEV_INFO], ss_ready_calls = 0\<rparr>"

section \<open>The abstraction\<close>

fun answered :: "switch_state \<Rightarrow> nat" where
  "answered STATE_READ_FACTORY_STICK_CALIBRATION = 1"
| "answered STATE_READ_USER_STICK_CALIBRATION = 2"
| "answered STATE_READ_FACTORY_IMU_CALIBRATION = 3"
| "answered STATE_SET_FULL_REPORT = 4"
| "answered STATE_ENABLE_IMU = 5"
| "answered STATE_UPDATE_LED = 6"
| "answered STATE_READY = 7"
| "answered _ = 0"

definition subcommands :: "bytes list \<Rightarrow> u8 list" where
  "subcommands rs = map (\<lambda>r. r ! 11) (filter (\<lambda>r. r ! 1 = OUTPUT_RUMBLE_AND_SUBCMD) rs)"

definition switch_abs :: "switch_device \<Rightarrow> setup_spec" where
  "switch_abs s = \<lparr>ss_answered = answered (sw_state s), ss_timer = (sw_setup_timer s \<noteq> None),
     ss_sent = subcommands (intr_reports (pd_sent s)), ss_ready_calls = sw_ready_calls s\<rparr>"

definition seen_state :: "switch_device \<Rightarrow> bool" where
  "seen_state s \<longleftrightarrow> sw_state s \<notin> {STATE_UNINIT, STATE_SETUP, STATE_DUMP_FLASH}"

lemma subcommands_append [simp]: "subcommands (xs @ ys) = subcommands xs @ subcommands ys"
  by (simp add: subcommands_def)

lemma subcommands_request [simp]:
  "length left = 4 \<Longrightarrow> length right = 4 \<Longrightarrow>
    subcommands [(switch_request OUTPUT_RUMBLE_AND_SUBCMD left right (c # rest))[2 := n, 0 := 0xa2]] = [c]"
  "subcommands [(switch_request OUTPUT_RUMBLE_ONLY left right rest)[2 := n, 0 := 0xa2]] = []"
  by (simp_all add: subcommands_def switch_request_def nth_append switch_constants)

lemma switch_process_fsm_abs:
  assumes "seen_state s" and "switch_process_fsm s = Inr s'"
  shows "seen_state s' \<and> switch_abs s' = spec_advance (switch_abs s)"
  using assms
  by (cases "sw_state s")
    (auto simp: switch_process_fsm_eq seen_state_def switch_abs_def spec_advance_def switch_fsm_defs fsm_dump_rom_def
      fsm_ready_def setup_script_def)

text \<open>What leaves the setup alone.\<close>

definition same_setup :: "switch_device \<Rightarrow> switch_device \<Rightarrow> bool" where
  "same_setup s s' \<longleftrightarrow> sw_state s' = sw_state s \<and> switch_abs s' = switch_abs s"

lemma same_setup_refl [simp]: "same_setup s s"
  by (simp add: same_setup_def)

lemma same_setup_trans: "same_setup s s1 \<Longrightarrow> same_setup s1 s2 \<Longrightarrow> same_setup s s2"
  by (simp add: same_setup_def)

lemma same_setup_seen: "same_setup s s' \<Longrightarrow> seen_state s' = seen_state s"
  by (simp add: same_setup_def seen_state_def)

lemma cal_fields_same:
  "same_setup s (s\<lparr>sw_cal_x := x, sw_cal_y := y, sw_cal_rx := rx, sw_cal_ry := ry\<rparr>)"
  "same_setup s (s\<lparr>sw_cal_x := x, sw_cal_y := y\<rparr>)" "same_setup s (s\<lparr>sw_cal_rx := rx, sw_cal_ry := ry\<rparr>)"
  "same_setup s (s\<lparr>sw_cal_accel := a, sw_cal_gyro := g\<rparr>)"
  by (simp_all add: same_setup_def switch_abs_def)

definition keeps_setup :: "switch_device \<Rightarrow> switch_device cres \<Rightarrow> bool" where
  "keeps_setup s r \<longleftrightarrow> (\<forall>s'. r = Inr s' \<longrightarrow> same_setup s s')"

lemma keeps_setup_Inr [simp]: "keeps_setup s (Inr s') \<longleftrightarrow> same_setup s s'"
  by (simp add: keeps_setup_def)

lemma keeps_setup_bind: "(\<And>x. keeps_setup s (f x)) \<Longrightarrow> keeps_setup s (bindR m f)"
  by (auto simp: keeps_setup_def bindR_Inr_iff)

lemma keeps_setup_map: "(\<And>x. same_setup s (f x)) \<Longrightarrow> keeps_setup s (mapR f m)"
  by (auto simp: keeps_setup_def mapR_Inr_iff)

lemma keeps_setup_chain:
  "keeps_setup s m \<Longrightarrow> (\<And>s1. keeps_setup s1 (f s1)) \<Longrightarrow> keeps_setup s (bindR m f)"
  by (auto simp: keeps_setup_def bindR_Inr_iff intro: same_setup_trans)

lemma factory_stick_same: "keeps_setup s (process_reply_read_spi_factory_stick_calibration data n s)"
  by (auto simp: process_reply_read_spi_factory_stick_calibration_def cal_fields_same
      intro!: keeps_setup_bind keeps_setup_map)

lemma use_calibration_same:
  "keeps_setup s (use_left_calibration data b s)" "keeps_setup s (use_right_calibration data p b s)"
  by (auto simp: use_left_calibration_def use_right_calibration_def cal_fields_same intro!: keeps_setup_map)

lemma use_both_same: "keeps_setup s (bindR (use_left_calibration data l s) (use_right_calibration data p r))"
  by (rule keeps_setup_chain) (rule use_calibration_same)+

lemma user_stick_same: "keeps_setup s (process_reply_read_spi_user_stick_calibration data n s)"
  unfolding process_reply_read_spi_user_stick_calibration_def
  by (intro keeps_setup_bind) (auto simp: Let_def intro!: use_both_same keeps_setup_map
      intro: keeps_setup_bind)

lemma imu_cal_same: "keeps_setup s (process_reply_read_spi_factory_imu_calibration data n s)"
  by (auto simp: process_reply_read_spi_factory_imu_calibration_def cal_fields_same intro!: keeps_setup_map)

lemma spi_flash_read_same: "keeps_setup s (process_reply_spi_flash_read r n s)"
proof -
  have "keeps_setup s (case sw_state s of
             STATE_READ_FACTORY_STICK_CALIBRATION \<Rightarrow> process_reply_read_spi_factory_stick_calibration data m s
           | STATE_READ_USER_STICK_CALIBRATION \<Rightarrow> process_reply_read_spi_user_stick_calibration data m s
           | STATE_READ_FACTORY_IMU_CALIBRATION \<Rightarrow> process_reply_read_spi_factory_imu_calibration data m s
           | _ \<Rightarrow> Inr s)" for data m
    by (simp add: factory_stick_same user_stick_same imu_cal_same split: switch_state.split)
  then show ?thesis
    unfolding process_reply_spi_flash_read_def Let_def by (simp add: keeps_setup_bind)
qed

lemma req_dev_info_same: "keeps_setup s (process_reply_req_dev_info r s)"
  by (auto simp: process_reply_req_dev_info_def Let_def same_setup_def switch_abs_def
      intro!: keeps_setup_bind keeps_setup_map)

lemma subcmd_reply_abs:
  assumes "seen_state s" and "process_input_subcmd_reply r n s = Inr s'"
  shows "seen_state s' \<and> switch_abs s' = spec_advance (switch_abs s)"
proof -
  let ?reply = "\<lambda>c. if c = SUBCMD_REQ_DEV_INFO then process_reply_req_dev_info r s
            else if c = SUBCMD_SPI_FLASH_READ then process_reply_spi_flash_read r n s
            else Inr s"
  obtain c s1 b where r: "?reply c = Inr s1"
    and fsm: "switch_process_fsm (s1\<lparr>pd_controller := (pd_controller s1)\<lparr>ctl_battery := b\<rparr>\<rparr>) = Inr s'"
    using assms(2) unfolding process_input_subcmd_reply_def bindR_Inr_iff by blast
  have "keeps_setup s (?reply c)" by (simp add: req_dev_info_same spi_flash_read_same)
  with r have s1: "same_setup s s1" by (simp add: keeps_setup_def)
  have "seen_state (s1\<lparr>pd_controller := (pd_controller s1)\<lparr>ctl_battery := b\<rparr>\<rparr>)"
    "switch_abs (s1\<lparr>pd_controller := (pd_controller s1)\<lparr>ctl_battery := b\<rparr>\<rparr>) = switch_abs s"
    using s1 assms(1) by (simp_all add: same_setup_def seen_state_def switch_abs_def)
  with switch_process_fsm_abs [OF this(1) fsm] show ?thesis by simp
qed

lemma set_gamepad_same [simp]: "same_setup s (set_gamepad gp s)"
  by (simp add: same_setup_def switch_abs_def set_gamepad_def)

lemma switch_input_abs:
  assumes "seen_state s" and "switch_input r s = Inr s'"
  shows "seen_state s' \<and> switch_abs s' = spec_step (switch_abs s) (Switch_report r)"
proof (cases "is_answer (Switch_report r)")
  case True
  then have len: "12 \<le> length r" and id: "r ! 0 = 0x21" by (simp_all add: is_answer_def)
  then have "read_byte r 0 = Inr 0x21" by (auto simp: read_byte_def)
  with len assms(2) have "process_input_subcmd_reply r (length r) s = Inr s'"
    by (simp add: switch_input_def uni_hid_parser_switch_parse_input_report_def)
  from subcmd_reply_abs [OF assms(1) this] True show ?thesis by (simp add: spec_step_def)
next
  case False
  have "same_setup s s'"
    using False assms(2)
    by (auto simp: switch_input_def uni_hid_parser_switch_parse_input_report_def is_answer_def bindR_Inr_iff mapR_Inr_iff
        parse_report_30_def parse_report_3f_def read_byte_def split: if_splits)
  with False assms(1) show ?thesis by (simp add: spec_step_def same_setup_seen) (simp add: same_setup_def)
qed

lemma rumble_same:
  "switch_stop_rumble_now s = Inr s' \<Longrightarrow> same_setup s s'"
  "switch_play_dual_rumble_now d w m s = Inr s' \<Longrightarrow> same_setup s s'"
  by (auto simp: switch_stop_rumble_now_def switch_play_dual_rumble_now_def arm_rumble_off_def add_timer_def
      same_setup_def switch_abs_def split: if_splits)

lemma rumble_fields_same:
  "same_setup s (s\<lparr>pd_timer_delayed_start := t\<rparr>)" "same_setup s (s\<lparr>pd_timer_duration := t\<rparr>)"
  "same_setup s (s\<lparr>pd_state := st, pd_duration_ms := d, pd_strong_magnitude := m1, pd_weak_magnitude := m2,
     pd_timer_delayed_start := t\<rparr>)"
  by (simp_all add: same_setup_def switch_abs_def)

lemma remove_timer_same: "same_setup s (remove_rumble_timer s)"
  by (simp add: remove_rumble_timer_def rumble_fields_same split: rumble_state.split)

lemma switch_step_abs:
  assumes "seen_state s" and "switch_step ev s = Inr s'"
  shows "seen_state s' \<and> switch_abs s' = spec_step (switch_abs s) ev"
proof (cases ev)
  case Switch_other_sends
  with assms show ?thesis
    by (auto simp: switch_step_def seen_state_def switch_abs_def spec_step_def is_answer_def)
next
  case (Switch_set_player_leds leds)
  with assms show ?thesis
    by (cases "sw_state s") (auto simp: switch_step_def uni_hid_parser_switch_set_player_leds_def Let_def set_led_def
        send_switch_subcmd_def seen_state_def switch_abs_def spec_step_def is_answer_def less_switch_state_def)
next
  case (Switch_play delay duration weak strong)
  then have "same_setup s s'"
    using assms(2) rumble_same(2) [of duration weak strong "remove_rumble_timer s" s']
      same_setup_trans [OF remove_timer_same [of s]] rumble_fields_same(3)
    by (auto simp: switch_step_def uni_hid_parser_switch_play_dual_rumble_def play_dual_rumble_def Let_def
        delay_rumble_def mapR_Inr_iff split: if_splits)
  then show ?thesis using Switch_play assms(1)
    by (simp add: same_setup_seen) (simp add: same_setup_def spec_step_def is_answer_def)
next
  case Switch_delayed_timer
  then have "same_setup s s'"
    using assms(2) by (auto simp: switch_step_def fire_delayed_timer_def on_switch_set_rumble_on_def set_rumble_on_def
        split: if_splits dest!: rumble_same(2) intro: same_setup_trans [OF rumble_fields_same(1)])
  then show ?thesis using Switch_delayed_timer assms(1)
    by (simp add: same_setup_seen) (simp add: same_setup_def spec_step_def is_answer_def)
next
  case Switch_duration_timer
  then have "same_setup s s'"
    using assms(2) by (auto simp: switch_step_def fire_duration_timer_def on_switch_set_rumble_off_def
        split: if_splits dest!: rumble_same(1) intro: same_setup_trans [OF rumble_fields_same(2)])
  then show ?thesis using Switch_duration_timer assms(1)
    by (simp add: same_setup_seen) (simp add: same_setup_def spec_step_def is_answer_def)
next
  case Switch_setup_timer
  show ?thesis
  proof (cases "sw_setup_timer s = None")
    case True
    with Switch_setup_timer assms show ?thesis
      by (auto simp: switch_step_def fire_setup_timer_def spec_step_def is_answer_def switch_abs_def)
  next
    case False
    let ?s = "s\<lparr>sw_setup_timer := None\<rparr>"
    have "switch_process_fsm ?s = Inr s'"
      using False Switch_setup_timer assms(2)
      by (auto simp: switch_step_def fire_setup_timer_def switch_setup_timeout_callback_def)
    moreover have "seen_state ?s" using assms(1) by (simp add: seen_state_def)
    ultimately have "seen_state s' \<and> switch_abs s' = spec_advance (switch_abs ?s)" by (rule switch_process_fsm_abs [rotated])
    then show ?thesis using False Switch_setup_timer by (simp add: spec_step_def is_answer_def switch_abs_def)
  qed
next
  case (Switch_report r)
  then show ?thesis using switch_input_abs [OF assms(1), of r s'] assms(2) by (simp add: switch_step_def)
qed

lemma switch_run_abs:
  assumes "seen_state s" and "run_steps switch_step evs s = Inr s'"
  shows "seen_state s' \<and> switch_abs s' = foldl spec_step (switch_abs s) evs"
  using assms
proof (induction evs arbitrary: s)
  case Nil
  then show ?case by simp
next
  case (Cons ev evs)
  then obtain s1 where s1: "switch_step ev s = Inr s1" "run_steps switch_step evs s1 = Inr s'"
    by (auto simp: bindR_Inr_iff)
  with switch_step_abs [OF Cons.prems(1) s1(1)] Cons.IH [of s1] show ?case by simp
qed

lemma switch_start_abs: "seen_state (switch_after_setup n)" "switch_abs (switch_after_setup n) = setup_spec_start"
  by (simp_all add: switch_after_setup_def fsm_request_device_info_def send_switch_subcmd_def seen_state_def switch_abs_def
      setup_spec_start_def zero_switch_def Let_def)

section \<open>What the specification promises\<close>

text \<open>After \<open>a\<close> answers: the timer has counted for at most one more.\<close>

definition spec_after :: "nat \<Rightarrow> setup_spec \<Rightarrow> bool" where
  "spec_after a x \<longleftrightarrow>
     (\<exists>f \<le> 1. ss_answered x = min 7 (a + f) \<and> (ss_timer x \<longrightarrow> f = 0))
     \<and> ss_ready_calls x = (if ss_answered x = 7 then 1 else 0)
     \<and> (\<exists>k. ss_sent x = take (Suc (min 6 (ss_answered x))) setup_script @ replicate k SUBCMD_SET_PLAYER_LEDS
          \<and> (ss_answered x < 7 \<longrightarrow> k = 0))"

lemma spec_after_start: "spec_after 0 setup_spec_start"
  by (simp add: spec_after_def setup_spec_start_def setup_script_def)

lemma script_next: "i < 6 \<Longrightarrow> take (Suc (Suc i)) setup_script = take (Suc i) setup_script @ [setup_script ! Suc i]"
  by (rule take_Suc_conv_app_nth) (simp add: setup_script_def)

lemma spec_advance_effect:
  "ss_answered (spec_advance x) = (if ss_answered x < 7 then Suc (ss_answered x) else ss_answered x)"
  "ss_timer (spec_advance x) \<Longrightarrow> ss_timer x"
  by (auto simp: spec_advance_def split: if_splits)

lemma spec_advance_sent:
  assumes "spec_after a x"
  shows "ss_ready_calls (spec_advance x) = (if ss_answered (spec_advance x) = 7 then 1 else 0)
    \<and> (\<exists>k. ss_sent (spec_advance x)
          = take (Suc (min 6 (ss_answered (spec_advance x)))) setup_script @ replicate k SUBCMD_SET_PLAYER_LEDS
          \<and> (ss_answered (spec_advance x) < 7 \<longrightarrow> k = 0))"
proof -
  have le: "ss_answered x \<le> 7" using assms by (auto simp: spec_after_def)
  consider "ss_answered x < 6" | "ss_answered x = 6" | "ss_answered x = 7" using le by linarith
  then show ?thesis using assms
    by cases (auto simp: spec_after_def spec_advance_def script_next)
qed

lemma spec_after_answer: "spec_after a x \<Longrightarrow> spec_after (Suc a) (spec_advance x)"
  unfolding spec_after_def [of "Suc a"]
proof (intro conjI)
  assume x: "spec_after a x"
  then obtain f where "f \<le> 1" "ss_answered x = min 7 (a + f)" "ss_timer x \<longrightarrow> f = 0"
    by (auto simp: spec_after_def)
  then show "\<exists>f \<le> 1. ss_answered (spec_advance x) = min 7 (Suc a + f) \<and> (ss_timer (spec_advance x) \<longrightarrow> f = 0)"
    using spec_advance_effect [of x] by (intro exI [of _ f]) auto
qed (use spec_advance_sent [of a x] in auto)

lemma spec_after_timer:
  assumes "spec_after a x" and "ss_timer x"
  shows "spec_after a (spec_advance (x\<lparr>ss_timer := False\<rparr>))"
proof -
  let ?x = "x\<lparr>ss_timer := False\<rparr>"
  have x: "spec_after a ?x" using assms by (auto simp: spec_after_def)
  have "ss_answered x = min 7 a" using assms by (auto simp: spec_after_def)
  then have "ss_answered (spec_advance ?x) = min 7 (a + 1)" "\<not> ss_timer (spec_advance ?x)"
    using spec_advance_effect [of ?x] by auto
  then have "\<exists>f \<le> 1. ss_answered (spec_advance ?x) = min 7 (a + f) \<and> (ss_timer (spec_advance ?x) \<longrightarrow> f = 0)"
    by (intro exI [of _ 1]) simp
  with spec_advance_sent [OF x] show ?thesis unfolding spec_after_def by blast
qed

lemma spec_after_leds:
  assumes "spec_after a x" and "\<not> ss_answered x < 7"
  shows "spec_after a (x\<lparr>ss_sent := ss_sent x @ [SUBCMD_SET_PLAYER_LEDS]\<rparr>)"
proof -
  obtain k where "ss_sent x = take (Suc (min 6 (ss_answered x))) setup_script @ replicate k SUBCMD_SET_PLAYER_LEDS"
    using assms(1) by (auto simp: spec_after_def)
  then have "ss_sent x @ [SUBCMD_SET_PLAYER_LEDS]
      = take (Suc (min 6 (ss_answered x))) setup_script @ replicate (Suc k) SUBCMD_SET_PLAYER_LEDS"
    by (simp add: replicate_append_same)
  with assms show ?thesis by (auto simp: spec_after_def intro!: exI [of _ "Suc k"])
qed

lemma spec_after_step:
  "spec_after a x \<Longrightarrow> spec_after (if is_answer ev then Suc a else a) (spec_step x ev)"
  by (cases ev) (auto simp: spec_step_def spec_after_answer spec_after_timer spec_after_leds)

lemma spec_after_run:
  "spec_after a x \<Longrightarrow> spec_after (a + length (filter is_answer evs)) (foldl spec_step x evs)"
proof (induction evs arbitrary: a x)
  case Nil
  then show ?case by simp
next
  case (Cons ev evs)
  from Cons.IH [OF spec_after_step [OF Cons.prems, of ev]] show ?case by (cases "is_answer ev") simp_all
qed

lemma switch_run_after:
  assumes "run_steps switch_step evs (switch_after_setup n) = Inr s"
  shows "spec_after (length (filter is_answer evs)) (switch_abs s)" "seen_state s"
    "switch_abs s = foldl spec_step setup_spec_start evs"
  using switch_run_abs [OF switch_start_abs(1) assms] spec_after_run [OF spec_after_start, of evs]
  by (simp_all add: switch_start_abs(2))

lemma answered_ready: "answered st = 7 \<longleftrightarrow> st = STATE_READY"
  by (cases st) simp_all

section \<open>Answers that come late\<close>

definition spi_answer :: "u8 \<Rightarrow> bytes \<Rightarrow> bool" where
  "spi_answer mem_len r \<longleftrightarrow> length r = 20 + unat mem_len \<and> r ! 0 = 0x21 \<and> r ! 14 = SUBCMD_SPI_FLASH_READ
     \<and> r ! 18 < 0x80 \<and> r ! 19 = mem_len"

definition spi_answer_of :: "u8 \<Rightarrow> bytes \<Rightarrow> bytes" where
  "spi_answer_of n data = [0x21] @ replicate 13 0 @ [SUBCMD_SPI_FLASH_READ, 0, 0, 0, 0, n] @ data"

definition same_calibration :: "switch_device \<Rightarrow> switch_device \<Rightarrow> bool" where
  "same_calibration s s' \<longleftrightarrow> sw_cal_x s' = sw_cal_x s \<and> sw_cal_y s' = sw_cal_y s \<and> sw_cal_rx s' = sw_cal_rx s
     \<and> sw_cal_ry s' = sw_cal_ry s \<and> sw_cal_accel s' = sw_cal_accel s \<and> sw_cal_gyro s' = sw_cal_gyro s
     \<and> sw_controller_type s' = sw_controller_type s"

text \<open>An answer that the current state has no use for only moves the script on.\<close>

lemma ignored_answer:
  assumes "spi_answer n r" and "process_reply_spi_flash_read r (length r) s = Inr s"
    and "sw_state s \<in> {STATE_READ_USER_STICK_CALIBRATION, STATE_READ_FACTORY_IMU_CALIBRATION, STATE_SET_FULL_REPORT}"
  shows "\<exists>s'. switch_input r s = Inr s' \<and> same_calibration s s' \<and> answered (sw_state s') = Suc (answered (sw_state s))
    \<and> seen_state s'"
proof -
  let ?s = "s\<lparr>pd_controller := (pd_controller s)\<lparr>ctl_battery :=
       switch_battery (r ! 2) (ctl_battery (pd_controller s))\<rparr>\<rparr>"
  have len: "20 \<le> length r" using assms(1) by (simp add: spi_answer_def)
  then have reads: "read_byte r 0 = Inr (r ! 0)" "read_byte r 13 = Inr (r ! 13)" "read_byte r 14 = Inr (r ! 14)"
    "read_byte r 2 = Inr (r ! 2)"
    by (auto simp: read_byte_def)
  have "switch_input r s = switch_process_fsm ?s"
    using assms(1,2) len
    by (simp add: switch_input_def uni_hid_parser_switch_parse_input_report_def process_input_subcmd_reply_def reads
        spi_answer_def) (simp add: switch_constants)
  then show ?thesis
    using assms(3) by (auto simp: switch_process_fsm_eq switch_fsm_defs same_calibration_def seen_state_def)
qed

lemma user_answer_without_magic:
  assumes "spi_answer 18 r" and "sw_state s = STATE_READ_USER_STICK_CALIBRATION"
    and "sw_controller_type s = SWITCH_CONTROLLER_TYPE_PRO" and "r ! 20 \<noteq> 0xb2" "r ! 31 \<noteq> 0xb2"
  shows "process_reply_spi_flash_read r (length r) s = Inr s"
proof -
  have len: "length r = 38" and m: "unat (r ! 19) = 18" and a: "\<not> 0x80 \<le> r ! 18"
    using assms(1) by (simp_all add: spi_answer_def not_le)
  have "user_cal_magic (drop 20 r) 0 = Inr False" "user_cal_magic (drop 20 r) 11 = Inr False"
    using assms(4,5) len by (simp_all add: user_cal_magic_def read_byte_def)
  moreover have "read_byte (drop 20 r) 0 = Inr (r ! 20)" "read_byte (drop 20 r) 1 = Inr (r ! 21)"
    using len by (simp_all add: read_byte_def)
  ultimately have "process_reply_read_spi_user_stick_calibration (drop 20 r) 18 s = Inr s"
    using assms(3) by (simp add: process_reply_read_spi_user_stick_calibration_def use_left_calibration_def
        use_right_calibration_def)
  then show ?thesis using assms(2) len m a
    by (simp add: process_reply_spi_flash_read_def read_byte_def address_overflow Let_def)
qed

lemma answer_of_other_length:
  assumes "spi_answer n r" and "unat n \<noteq> 24"
    and "sw_state s = STATE_READ_FACTORY_IMU_CALIBRATION"
  shows "process_reply_spi_flash_read r (length r) s = Inr s"
  using assms by (simp add: process_reply_spi_flash_read_def read_byte_def address_overflow spi_answer_def not_le
      process_reply_read_spi_factory_imu_calibration_def Let_def)

lemma answer_not_expected:
  assumes "spi_answer n r" and "sw_state s = STATE_SET_FULL_REPORT"
  shows "process_reply_spi_flash_read r (length r) s = Inr s"
  using assms by (simp add: process_reply_spi_flash_read_def read_byte_def address_overflow spi_answer_def not_le Let_def)

lemma answered_inject: "seen_state s \<Longrightarrow> answered (sw_state s) = answered st \<Longrightarrow> 0 < answered st \<Longrightarrow> sw_state s = st"
  by (cases "sw_state s"; cases st) (simp_all add: seen_state_def)

lemma same_calibration_trans: "same_calibration s s1 \<Longrightarrow> same_calibration s1 s2 \<Longrightarrow> same_calibration s s2"
  by (simp add: same_calibration_def)

lemma late_answers:
  assumes "sw_state s = STATE_READ_FACTORY_STICK_CALIBRATION" and "sw_setup_timer s \<noteq> None"
    and "sw_controller_type s = SWITCH_CONTROLLER_TYPE_PRO"
    and "spi_answer 18 factory" "factory ! 20 \<noteq> 0xb2" "factory ! 31 \<noteq> 0xb2"
    and "spi_answer 22 user" and "spi_answer 24 imu"
  shows "\<exists>s'. run_steps switch_step [Switch_setup_timer, Switch_report factory, Switch_report user, Switch_report imu] s
        = Inr s' \<and> sw_state s' = STATE_ENABLE_IMU \<and> same_calibration s s'"
proof -
  let ?s1 = "fsm_read_user_stick_calibration (s\<lparr>sw_setup_timer := None\<rparr>)"
  have s1: "switch_step Switch_setup_timer s = Inr ?s1"
    using assms(1,2) by (auto simp: switch_step_def fire_setup_timer_def switch_setup_timeout_callback_def switch_process_fsm_eq)
  have st1: "sw_state ?s1 = STATE_READ_USER_STICK_CALIBRATION" "same_calibration s ?s1"
    "sw_controller_type ?s1 = SWITCH_CONTROLLER_TYPE_PRO"
    using assms(3) by (simp_all add: switch_fsm_defs same_calibration_def)
  from ignored_answer [OF assms(4) user_answer_without_magic [OF assms(4) st1(1,3) assms(5,6)]] st1(1)
  obtain s2 where s2: "switch_input factory ?s1 = Inr s2" "same_calibration ?s1 s2"
    "answered (sw_state s2) = 3" "seen_state s2" by auto
  have st2: "sw_state s2 = STATE_READ_FACTORY_IMU_CALIBRATION" by (rule answered_inject) (use s2 in simp_all)
  from ignored_answer [OF assms(7) answer_of_other_length [OF assms(7) _ st2]] st2
  obtain s3 where s3: "switch_input user s2 = Inr s3" "same_calibration s2 s3" "answered (sw_state s3) = 4" "seen_state s3"
    by auto
  have st3: "sw_state s3 = STATE_SET_FULL_REPORT" by (rule answered_inject) (use s3 in simp_all)
  from ignored_answer [OF assms(8) answer_not_expected [OF assms(8) st3]] st3
  obtain s4 where s4: "switch_input imu s3 = Inr s4" "same_calibration s3 s4" "answered (sw_state s4) = 5" "seen_state s4"
    by auto
  have "sw_state s4 = STATE_ENABLE_IMU" by (rule answered_inject) (use s4 in simp_all)
  moreover have "same_calibration s s4"
    using same_calibration_trans [OF same_calibration_trans [OF same_calibration_trans [OF st1(2) s2(2)] s3(2)] s4(2)] .
  moreover have "run_steps switch_step [Switch_setup_timer, Switch_report factory, Switch_report user, Switch_report imu] s = Inr s4"
    using s1 s2(1) s3(1) s4(1) by (simp add: switch_step_def)
  ultimately show ?thesis by blast
qed

section \<open>Properties\<close>

text \<open>C11: the setup of a Switch controller follows its specification, whatever requests, timer expiries and
  reports come in between: the state, the timer and the commands sent are those of the abstract
  script machine, on which an answer or the expiry of the timer sends the next of the seven
  commands; so the commands sent are a prefix of the script, followed by the LED commands of a
  ready controller.\<close>

theorem switch_setup_follows_script:
  assumes "run_steps switch_step evs (switch_after_setup n) = Inr s"
  shows "switch_abs s = foldl spec_step setup_spec_start evs
    \<and> (\<exists>k. subcommands (intr_reports (pd_sent s))
         = take (Suc (min 6 (answered (sw_state s)))) setup_script @ replicate k SUBCMD_SET_PLAYER_LEDS
         \<and> (sw_state s \<noteq> STATE_READY \<longrightarrow> k = 0))"
proof
  show "switch_abs s = foldl spec_step setup_spec_start evs" by (rule switch_run_after(3) [OF assms])
  have "answered (sw_state s) < 7 \<longleftrightarrow> sw_state s \<noteq> STATE_READY" by (cases "sw_state s") simp_all
  then show "\<exists>k. subcommands (intr_reports (pd_sent s))
         = take (Suc (min 6 (answered (sw_state s)))) setup_script @ replicate k SUBCMD_SET_PLAYER_LEDS
         \<and> (sw_state s \<noteq> STATE_READY \<longrightarrow> k = 0)"
    using switch_run_after(1) [OF assms] by (simp add: spec_after_def switch_abs_def)
qed

theorem switch_setup_follows_script_witness:
  "switch_abs (switch_after_setup 0) = setup_spec_start
   \<and> (\<exists>k. subcommands (intr_reports (pd_sent (switch_after_setup 0)))
         = take (Suc (min 6 (answered (sw_state (switch_after_setup 0))))) setup_script @ replicate k SUBCMD_SET_PLAYER_LEDS
         \<and> (sw_state (switch_after_setup 0) \<noteq> STATE_READY \<longrightarrow> k = 0))"
  using switch_setup_follows_script [of "[]" 0 "switch_after_setup 0"] by simp

text \<open>C12: with seven answers a Switch controller is ready and is announced exactly once; with at most five it
  never becomes ready, although the setup timer exists to get past lost answers: the timer is
  not registered again after it has expired, so it replaces one answer only, and a controller
  that leaves two of the seven commands unanswered hangs in its setup.\<close>

theorem switch_ready_needs_answers:
  assumes "run_steps switch_step evs (switch_after_setup n) = Inr s"
  shows "(7 \<le> length (filter is_answer evs) \<longrightarrow> sw_state s = STATE_READY \<and> sw_ready_calls s = 1)
    \<and> (length (filter is_answer evs) \<le> 5 \<longrightarrow> sw_state s \<noteq> STATE_READY \<and> sw_ready_calls s = 0)"
  using switch_run_after(1) [OF assms] by (auto simp: spec_after_def switch_abs_def answered_ready)

theorem switch_ready_needs_answers_witness:
  "\<exists>s. run_steps switch_step (replicate 7 (Switch_report other_answer)) (switch_after_setup 0) = Inr s
    \<and> sw_state s = STATE_READY \<and> sw_ready_calls s = 1"
proof -
  have "case run_steps switch_step (replicate 7 (Switch_report other_answer)) (switch_after_setup 0) of
      Inl e \<Rightarrow> False | Inr s \<Rightarrow> True" by code_simp
  then obtain s where s: "run_steps switch_step (replicate 7 (Switch_report other_answer)) (switch_after_setup 0) = Inr s"
    by (auto split: sum.splits)
  have "length (filter is_answer (replicate 7 (Switch_report other_answer))) = 7"
    by (simp add: is_answer_def other_answer_def)
  with s switch_ready_needs_answers [OF s] show ?thesis by simp
qed

text \<open>C13: answers are matched to the state and not to the address they carry. When the answer with the
  factory calibration comes after the timer has expired, it is taken for the user calibration, the
  user calibration for that of the sensors and that of the sensors for the next answer: a Pro
  Controller that answers every command gets through its setup and none of its calibration data is
  used.\<close>

theorem late_answer_loses_calibration:
  assumes "sw_state s = STATE_READ_FACTORY_STICK_CALIBRATION" and "sw_setup_timer s \<noteq> None"
    and "sw_controller_type s = SWITCH_CONTROLLER_TYPE_PRO"
    and "spi_answer 18 factory" "factory ! 20 \<noteq> 0xb2" "factory ! 31 \<noteq> 0xb2"
    and "spi_answer 22 user" and "spi_answer 24 imu"
  shows "\<exists>s'. run_steps switch_step [Switch_setup_timer, Switch_report factory, Switch_report user, Switch_report imu] s
        = Inr s' \<and> sw_state s' = STATE_ENABLE_IMU \<and> same_calibration s s'"
  by (rule late_answers [OF assms])

theorem late_answer_loses_calibration_witness:
  "\<exists>s s'. run_steps switch_step [Switch_report other_answer] (switch_after_setup 0) = Inr s
     \<and> run_steps switch_step [Switch_setup_timer, Switch_report (spi_answer_of 18 (replicate 18 1)),
          Switch_report (spi_answer_of 22 (replicate 22 1)), Switch_report (spi_answer_of 24 (replicate 24 1))] s = Inr s'
     \<and> sw_state s' = STATE_ENABLE_IMU \<and> same_calibration s s'"
proof -
  have "case run_steps switch_step [Switch_report other_answer] (switch_after_setup 0) of
      Inl e \<Rightarrow> False | Inr s \<Rightarrow> sw_state s = STATE_READ_FACTORY_STICK_CALIBRATION \<and> sw_setup_timer s \<noteq> None
        \<and> sw_controller_type s = SWITCH_CONTROLLER_TYPE_PRO" by code_simp
  then obtain s where s: "run_steps switch_step [Switch_report other_answer] (switch_after_setup 0) = Inr s"
    "sw_state s = STATE_READ_FACTORY_STICK_CALIBRATION" "sw_setup_timer s \<noteq> None"
    "sw_controller_type s = SWITCH_CONTROLLER_TYPE_PRO" by (auto split: sum.splits)
  have a: "spi_answer 18 (spi_answer_of 18 (replicate 18 1))" "spi_answer 22 (spi_answer_of 22 (replicate 22 1))"
    "spi_answer 24 (spi_answer_of 24 (replicate 24 1))"
    "spi_answer_of 18 (replicate 18 1) ! 20 \<noteq> 0xb2" "spi_answer_of 18 (replicate 18 1) ! 31 \<noteq> 0xb2"
    by (simp_all add: spi_answer_def spi_answer_of_def nth_append)
  from late_answer_loses_calibration [OF s(2-4) a(1) a(4,5) a(2,3)] s(1) show ?thesis by blast
qed

end
