(* ===== verification/Property.thy ===== *)
theory Property
  imports Hid_Device
begin

text \<open>
  Settings that survive a restart: the table of \<^verbatim>\<open>components/bluepad32/uni_property.c\<close> and the
  back end of \<^verbatim>\<open>arch/uni_property_esp32.c\<close>, which keeps the values in the non-volatile storage
  (NVS) of the ESP-IDF. The storage is not part of the repository: its functions are the record
  \<open>nvs_api\<close>, an argument of the definitions, and \<open>nvs_works\<close> is what its documentation promises.
  Strings are the bytes before the terminating zero, and \<open>float\<close> values are their 32 bits.
\<close>

section \<open>The table\<close>

datatype uni_property_type =
    UNI_PROPERTY_TYPE_BOOL
  | UNI_PROPERTY_TYPE_U8
  | UNI_PROPERTY_TYPE_U32
  | UNI_PROPERTY_TYPE_FLOAT
  | UNI_PROPERTY_TYPE_STRING

datatype uni_property_value =
    Prop_boolean bool
  | Prop_u8 u8
  | Prop_u32 u32
  | Prop_f32 u32
  | Prop_str "bytes option"

text \<open>
  Reading the member \<^verbatim>\<open>u8\<close> of the union: its first byte, on a little-endian machine. The first
  byte of a pointer is nothing the model can know.
\<close>

fun prop_u8 :: "uni_property_value \<Rightarrow> u8 option" where
  "prop_u8 (Prop_boolean b) = Some (of_bool b)"
| "prop_u8 (Prop_u8 x) = Some x"
| "prop_u8 (Prop_u32 x) = Some (ucast x)"
| "prop_u8 (Prop_f32 x) = Some (ucast x)"
| "prop_u8 (Prop_str s) = None"

record uni_property =
  pr_idx :: nat
  pr_name :: bytes
  pr_type :: uni_property_type
  pr_default_value :: uni_property_value
  pr_read_only :: bool

definition UNI_PROPERTY_IDX_ALLOWLIST_ENABLED :: nat where "UNI_PROPERTY_IDX_ALLOWLIST_ENABLED = 0"
definition UNI_PROPERTY_IDX_ALLOWLIST_LIST :: nat where "UNI_PROPERTY_IDX_ALLOWLIST_LIST = 1"
definition UNI_PROPERTY_IDX_LAST :: nat where "UNI_PROPERTY_IDX_LAST = 10"
definition UNI_PROPERTY_IDX_COUNT :: nat where "UNI_PROPERTY_IDX_COUNT = 18"

definition writable :: "nat \<Rightarrow> string \<Rightarrow> uni_property_type \<Rightarrow> uni_property_value \<Rightarrow> uni_property" where
  "writable i name ty v =
     \<lparr>pr_idx = i, pr_name = ascii name, pr_type = ty, pr_default_value = v, pr_read_only = False\<rparr>"

text \<open>The defaults are those of the configuration of this repository and of \<^verbatim>\<open>Kconfig\<close>.\<close>

definition properties :: "uni_property list" where
  "properties = [
     writable 0 ''bp.bt.allow_en'' UNI_PROPERTY_TYPE_BOOL (Prop_boolean False),
     writable 1 ''bp.bt.allowlist'' UNI_PROPERTY_TYPE_STRING (Prop_str None),
     writable 2 ''bp.ble.enabled'' UNI_PROPERTY_TYPE_BOOL (Prop_boolean True),
     writable 3 ''bp.gap.inq_len'' UNI_PROPERTY_TYPE_U8 (Prop_u8 3),
     writable 4 ''bp.gap.level'' UNI_PROPERTY_TYPE_U8 (Prop_u8 2),
     writable 5 ''bp.gap.max_len'' UNI_PROPERTY_TYPE_U8 (Prop_u8 5),
     writable 6 ''bp.gap.min_len'' UNI_PROPERTY_TYPE_U8 (Prop_u8 4),
     writable 7 ''bp.mouse.scale'' UNI_PROPERTY_TYPE_FLOAT (Prop_f32 0x3f800000),
     (writable 8 ''bp.version'' UNI_PROPERTY_TYPE_STRING (Prop_str (Some (ascii ''4.2.0''))))
       \<lparr>pr_read_only := True\<rparr>,
     writable 9 ''bp.virt_dev_en'' UNI_PROPERTY_TYPE_BOOL (Prop_boolean False)]"

text \<open>Indices from \<open>UNI_PROPERTY_IDX_LAST\<close> on belong to the platform, if it has a callback for them.\<close>

definition get_property :: "(nat \<Rightarrow> uni_property option) option \<Rightarrow> nat \<Rightarrow> uni_property option" where
  "get_property platform_get_property idx =
     (if UNI_PROPERTY_IDX_LAST \<le> idx
      then (case platform_get_property of Some get \<Rightarrow> get idx | None \<Rightarrow> None)
      else Some (properties ! idx))"

definition uni_property_get_property_by_name ::
    "(nat \<Rightarrow> uni_property option) option \<Rightarrow> bytes \<Rightarrow> uni_property option" where
  "uni_property_get_property_by_name platform_get_property name =
     List.find (\<lambda>p. c_string (pr_name p) = c_string name)
       (List.map_filter (get_property platform_get_property) [0..<UNI_PROPERTY_IDX_COUNT])"

text \<open>The rows whose index is not their position: the debug build reports them.\<close>

definition uni_property_init_debug :: "uni_property list" where
  "uni_property_init_debug =
     map snd (filter (\<lambda>(i, p). pr_idx p \<noteq> i) (zip [0..<length properties] properties))"

section \<open>The storage\<close>

text \<open>
  \<open>nv_open readwrite s\<close> is whether \<^verbatim>\<open>nvs_open\<close> succeeds; a getter gives \<open>None\<close> when it reports an
  error, \<open>nv_get_str\<close> takes the size of the buffer; a setter and \<open>nv_commit\<close> give whether they
  succeeded and the storage that is left.
\<close>

record 'n nvs_api =
  nv_open :: "bool \<Rightarrow> 'n \<Rightarrow> bool"
  nv_get_u8 :: "'n \<Rightarrow> bytes \<Rightarrow> u8 option"
  nv_get_u32 :: "'n \<Rightarrow> bytes \<Rightarrow> u32 option"
  nv_get_str :: "'n \<Rightarrow> bytes \<Rightarrow> nat \<Rightarrow> bytes option"
  nv_set_u8 :: "bytes \<Rightarrow> u8 \<Rightarrow> 'n \<Rightarrow> bool \<times> 'n"
  nv_set_u32 :: "bytes \<Rightarrow> u32 \<Rightarrow> 'n \<Rightarrow> bool \<times> 'n"
  nv_set_str :: "bytes \<Rightarrow> bytes \<Rightarrow> 'n \<Rightarrow> bool \<times> 'n"
  nv_commit :: "'n \<Rightarrow> bool \<times> 'n"

definition PROPERTY_STRING_MAX_LEN :: nat where "PROPERTY_STRING_MAX_LEN = 128"

text \<open>The write of the back end, by the type of the property; a null string is handed to NVS.\<close>

definition nvs_write ::
    "'n nvs_api \<Rightarrow> uni_property \<Rightarrow> uni_property_value \<Rightarrow> 'n \<Rightarrow> (bool \<times> 'n) cres" where
  "nvs_write api p v n =
     (case (pr_type p, v) of
        (UNI_PROPERTY_TYPE_U32, Prop_u32 x) \<Rightarrow> Inr (nv_set_u32 api (pr_name p) x n)
      | (UNI_PROPERTY_TYPE_FLOAT, Prop_f32 x) \<Rightarrow> Inr (nv_set_u32 api (pr_name p) x n)
      | (UNI_PROPERTY_TYPE_STRING, Prop_str (Some s)) \<Rightarrow> Inr (nv_set_str api (pr_name p) s n)
      | (UNI_PROPERTY_TYPE_STRING, Prop_str None) \<Rightarrow> Inl Null_dereference
      | (UNI_PROPERTY_TYPE_BOOL, _) \<Rightarrow>
          (case prop_u8 v of Some x \<Rightarrow> Inr (nv_set_u8 api (pr_name p) x n) | None \<Rightarrow> Inl Out_of_bounds)
      | (UNI_PROPERTY_TYPE_U8, _) \<Rightarrow>
          (case prop_u8 v of Some x \<Rightarrow> Inr (nv_set_u8 api (pr_name p) x n) | None \<Rightarrow> Inl Out_of_bounds)
      | _ \<Rightarrow> Inl Out_of_bounds)"

definition uni_property_set_with_property ::
    "'n nvs_api \<Rightarrow> uni_property \<Rightarrow> uni_property_value \<Rightarrow> 'n \<Rightarrow> 'n cres" where
  "uni_property_set_with_property api p v n =
     (if pr_read_only p then Inr n
      else if \<not> nv_open api True n then Inr n
      else mapR (\<lambda>(ok, n1). if ok then snd (nv_commit api n1) else n1) (nvs_write api p v n))"

definition uni_property_get_with_property ::
    "'n nvs_api \<Rightarrow> uni_property \<Rightarrow> 'n \<Rightarrow> uni_property_value" where
  "uni_property_get_with_property api p n =
     (if \<not> nv_open api False n then pr_default_value p
      else
        let stored = (case pr_type p of
              UNI_PROPERTY_TYPE_BOOL \<Rightarrow> map_option Prop_u8 (nv_get_u8 api n (pr_name p))
            | UNI_PROPERTY_TYPE_U8 \<Rightarrow> map_option Prop_u8 (nv_get_u8 api n (pr_name p))
            | UNI_PROPERTY_TYPE_U32 \<Rightarrow> map_option Prop_u32 (nv_get_u32 api n (pr_name p))
            | UNI_PROPERTY_TYPE_FLOAT \<Rightarrow> map_option Prop_f32 (nv_get_u32 api n (pr_name p))
            | UNI_PROPERTY_TYPE_STRING \<Rightarrow>
                map_option (\<lambda>s. Prop_str (Some s))
                  (nv_get_str api n (pr_name p) (PROPERTY_STRING_MAX_LEN - 1)))
        in (case stored of Some v \<Rightarrow> v | None \<Rightarrow> pr_default_value p))"

definition uni_property_set ::
    "'n nvs_api \<Rightarrow> (nat \<Rightarrow> uni_property option) option \<Rightarrow> nat \<Rightarrow> uni_property_value \<Rightarrow> 'n \<Rightarrow> 'n cres" where
  "uni_property_set api plat idx v n =
     (case get_property plat idx of
        None \<Rightarrow> Inr n
      | Some p \<Rightarrow> uni_property_set_with_property api p v n)"

text \<open>For an index that nobody knows only the member \<^verbatim>\<open>u8\<close> of the result is set.\<close>

definition uni_property_get ::
    "'n nvs_api \<Rightarrow> (nat \<Rightarrow> uni_property option) option \<Rightarrow> nat \<Rightarrow> 'n \<Rightarrow> uni_property_value" where
  "uni_property_get api plat idx n =
     (case get_property plat idx of
        None \<Rightarrow> Prop_u8 0
      | Some p \<Rightarrow> uni_property_get_with_property api p n)"

section \<open>What NVS promises\<close>

text \<open>
  The documented behaviour the firmware relies on, over a view of the storage as a map from keys
  to entries: opening for writing works, the namespace can be opened for reading once it holds
  an entry, a getter finds an entry of its own type (a string together with its terminating zero
  has to fit the buffer), a setter changes one entry. Keys have at most 15 characters and
  strings at most 4000 bytes.
\<close>

datatype nvs_entry = Nvs_u8 u8 | Nvs_u32 u32 | Nvs_str bytes

definition nvs_works :: "'n nvs_api \<Rightarrow> ('n \<Rightarrow> bytes \<Rightarrow> nvs_entry option) \<Rightarrow> bool" where
  "nvs_works api view \<longleftrightarrow>
     (\<forall>n. nv_open api True n)
     \<and> (\<forall>n k. view n k \<noteq> None \<longrightarrow> nv_open api False n)
     \<and> (\<forall>n k. nv_get_u8 api n k = (case view n k of Some (Nvs_u8 x) \<Rightarrow> Some x | _ \<Rightarrow> None))
     \<and> (\<forall>n k. nv_get_u32 api n k = (case view n k of Some (Nvs_u32 x) \<Rightarrow> Some x | _ \<Rightarrow> None))
     \<and> (\<forall>n k len. nv_get_str api n k len =
            (case view n k of Some (Nvs_str s) \<Rightarrow> if length s < len then Some s else None | _ \<Rightarrow> None))
     \<and> (\<forall>k x n. length k \<le> 15 \<longrightarrow>
            (\<exists>n'. nv_set_u8 api k x n = (True, n') \<and> view n' = (view n)(k \<mapsto> Nvs_u8 x)))
     \<and> (\<forall>k x n. length k \<le> 15 \<longrightarrow>
            (\<exists>n'. nv_set_u32 api k x n = (True, n') \<and> view n' = (view n)(k \<mapsto> Nvs_u32 x)))
     \<and> (\<forall>k s n. length k \<le> 15 \<longrightarrow> length s < 4000 \<longrightarrow>
            (\<exists>n'. nv_set_str api k s n = (True, n') \<and> view n' = (view n)(k \<mapsto> Nvs_str s)))
     \<and> (\<forall>n. \<exists>n'. nv_commit api n = (True, n') \<and> view n' = view n)"

text \<open>A storage that keeps its promise: a map.\<close>

definition map_nvs :: "(bytes \<Rightarrow> nvs_entry option) nvs_api" where
  "map_nvs =
     \<lparr>nv_open = (\<lambda>_ _. True),
      nv_get_u8 = (\<lambda>n k. case n k of Some (Nvs_u8 x) \<Rightarrow> Some x | _ \<Rightarrow> None),
      nv_get_u32 = (\<lambda>n k. case n k of Some (Nvs_u32 x) \<Rightarrow> Some x | _ \<Rightarrow> None),
      nv_get_str = (\<lambda>n k len. case n k of
         Some (Nvs_str s) \<Rightarrow> if length s < len then Some s else None | _ \<Rightarrow> None),
      nv_set_u8 = (\<lambda>k x n. (True, n(k \<mapsto> Nvs_u8 x))),
      nv_set_u32 = (\<lambda>k x n. (True, n(k \<mapsto> Nvs_u32 x))),
      nv_set_str = (\<lambda>k s n. (True, n(k \<mapsto> Nvs_str s))),
      nv_commit = (\<lambda>n. (True, n))\<rparr>"

lemma map_nvs_works: "nvs_works map_nvs (\<lambda>n. n)"
  by (simp add: nvs_works_def map_nvs_def)

section \<open>Setting and getting\<close>

text \<open>What is stored for a value, which values a property of a type takes.\<close>

fun entry_of :: "uni_property_value \<Rightarrow> nvs_entry option" where
  "entry_of (Prop_boolean b) = Some (Nvs_u8 (of_bool b))"
| "entry_of (Prop_u8 x) = Some (Nvs_u8 x)"
| "entry_of (Prop_u32 x) = Some (Nvs_u32 x)"
| "entry_of (Prop_f32 x) = Some (Nvs_u32 x)"
| "entry_of (Prop_str s) = map_option Nvs_str s"

fun value_of :: "uni_property_type \<Rightarrow> nvs_entry \<Rightarrow> uni_property_value option" where
  "value_of UNI_PROPERTY_TYPE_BOOL (Nvs_u8 x) = Some (Prop_u8 x)"
| "value_of UNI_PROPERTY_TYPE_U8 (Nvs_u8 x) = Some (Prop_u8 x)"
| "value_of UNI_PROPERTY_TYPE_U32 (Nvs_u32 x) = Some (Prop_u32 x)"
| "value_of UNI_PROPERTY_TYPE_FLOAT (Nvs_u32 x) = Some (Prop_f32 x)"
| "value_of UNI_PROPERTY_TYPE_STRING (Nvs_str s) = (if length s < 127 then Some (Prop_str (Some s)) else None)"
| "value_of _ _ = None"

fun fits :: "uni_property_type \<Rightarrow> uni_property_value \<Rightarrow> bool" where
  "fits UNI_PROPERTY_TYPE_BOOL (Prop_boolean b) = True"
| "fits UNI_PROPERTY_TYPE_BOOL (Prop_u8 x) = True"
| "fits UNI_PROPERTY_TYPE_U8 (Prop_u8 x) = True"
| "fits UNI_PROPERTY_TYPE_U32 (Prop_u32 x) = True"
| "fits UNI_PROPERTY_TYPE_FLOAT (Prop_f32 x) = True"
| "fits UNI_PROPERTY_TYPE_STRING (Prop_str (Some s)) = (length s < 127)"
| "fits _ _ = False"

lemma get_with_property_view:
  assumes "nvs_works api view"
  shows "uni_property_get_with_property api p n =
    (case view n (pr_name p) of
       Some e \<Rightarrow> (case value_of (pr_type p) e of Some v \<Rightarrow> v | None \<Rightarrow> pr_default_value p)
     | None \<Rightarrow> pr_default_value p)"
proof (cases "view n (pr_name p)")
  case None
  with assms show ?thesis
    by (cases "pr_type p") (simp_all add: nvs_works_def uni_property_get_with_property_def)
next
  case (Some e)
  then have "nv_open api False n" using assms unfolding nvs_works_def by blast
  with assms Some show ?thesis
    by (cases "pr_type p"; cases e)
      (simp_all add: nvs_works_def uni_property_get_with_property_def PROPERTY_STRING_MAX_LEN_def)
qed

lemma nvs_write_view:
  assumes "nvs_works api view" and "fits (pr_type p) v" and "length (pr_name p) \<le> 15"
  shows "\<exists>n' e. nvs_write api p v n = Inr (True, n') \<and> entry_of v = Some e \<and> view n' = (view n)(pr_name p \<mapsto> e)"
proof (cases "(pr_type p, v)" rule: fits.cases)
qed (use assms in \<open>auto simp: nvs_works_def nvs_write_def\<close>)

lemma nvs_worksD:
  assumes "nvs_works api view"
  shows "nv_open api True n" "\<exists>n'. nv_commit api n = (True, n') \<and> view n' = view n"
  using assms by (simp_all add: nvs_works_def)

lemma set_with_property_view:
  assumes "nvs_works api view" and "fits (pr_type p) v" and "length (pr_name p) \<le> 15" and "\<not> pr_read_only p"
  shows "\<exists>n' e. uni_property_set_with_property api p v n = Inr n' \<and> entry_of v = Some e
    \<and> view n' = (view n)(pr_name p \<mapsto> e)"
proof -
  from nvs_write_view [OF assms(1-3), of n] obtain n1 e
    where w: "nvs_write api p v n = Inr (True, n1)" "entry_of v = Some e" "view n1 = (view n)(pr_name p \<mapsto> e)"
    by blast
  moreover obtain n2 where "nv_commit api n1 = (True, n2)" "view n2 = view n1"
    using nvs_worksD(2) [OF assms(1)] by blast
  ultimately show ?thesis using assms(4) nvs_worksD(1) [OF assms(1)] by (simp add: uni_property_set_with_property_def)
qed

lemma property_names:
  "distinct (map pr_name properties)" "list_all (\<lambda>p. length (pr_name p) \<le> 15) properties"
  by code_simp+

lemma properties_length [simp]: "length properties = UNI_PROPERTY_IDX_LAST"
  by (simp add: properties_def UNI_PROPERTY_IDX_LAST_def)

lemma property_name_short: "i < UNI_PROPERTY_IDX_LAST \<Longrightarrow> length (pr_name (properties ! i)) \<le> 15"
  using property_names(2) by (simp add: list_all_length)

lemma property_name_eq:
  "\<lbrakk>i < UNI_PROPERTY_IDX_LAST; j < UNI_PROPERTY_IDX_LAST\<rbrakk> \<Longrightarrow>
     pr_name (properties ! i) = pr_name (properties ! j) \<longleftrightarrow> i = j"
  using property_names(1) nth_eq_iff_index_eq [of "map pr_name properties" i j] by simp

lemma fits_value_of:
  "\<lbrakk>fits ty v; entry_of v = Some e\<rbrakk> \<Longrightarrow>
     value_of ty e = Some (case v of Prop_boolean b \<Rightarrow> Prop_u8 (of_bool b) | _ \<Rightarrow> v)"
  by (cases "(ty, v)" rule: fits.cases) auto

text \<open>What a setter of a writable property does to the value of every property.\<close>

lemma property_set_then_get:
  assumes "nvs_works api view" and "idx < UNI_PROPERTY_IDX_LAST" and "\<not> pr_read_only (properties ! idx)"
    and "fits (pr_type (properties ! idx)) v"
  shows "\<exists>n'. uni_property_set api plat idx v n = Inr n'
    \<and> uni_property_get api plat idx n' = (case v of Prop_boolean b \<Rightarrow> Prop_u8 (of_bool b) | _ \<Rightarrow> v)
    \<and> (\<forall>j < UNI_PROPERTY_IDX_LAST. j \<noteq> idx \<longrightarrow> uni_property_get api plat j n' = uni_property_get api plat j n)"
proof -
  from set_with_property_view [OF assms(1,4) property_name_short [OF assms(2)] assms(3), of n]
  obtain n' e where s: "uni_property_set_with_property api (properties ! idx) v n = Inr n'"
      "entry_of v = Some e" "view n' = (view n)(pr_name (properties ! idx) \<mapsto> e)"
    by blast
  have "uni_property_set api plat idx v n = Inr n'"
    using assms(2) s(1) by (simp add: uni_property_set_def get_property_def)
  moreover have "uni_property_get api plat idx n' = (case v of Prop_boolean b \<Rightarrow> Prop_u8 (of_bool b) | _ \<Rightarrow> v)"
    using assms(2) fits_value_of [OF assms(4) s(2)]
    by (simp add: uni_property_get_def get_property_def get_with_property_view [OF assms(1)] s(3))
  moreover have "uni_property_get api plat j n' = uni_property_get api plat j n"
    if "j < UNI_PROPERTY_IDX_LAST" "j \<noteq> idx" for j
    using that assms(2)
    by (simp add: uni_property_get_def get_property_def get_with_property_view [OF assms(1)] s(3) property_name_eq)
  ultimately show ?thesis by blast
qed

end
