(* ===== verification/Bt_Allowlist.thy ===== *)
theory Bt_Allowlist
  imports Property
begin

text \<open>
  The list of addresses that may connect: \<^verbatim>\<open>components/bluepad32/bt/uni_bt_allowlist.c\<close>, with the
  conversions between addresses and text of \<^verbatim>\<open>components/btstack/src/btstack_util.c\<close>. The
  list is kept in a property, so the theorems follow it through a restart.
\<close>

section \<open>Addresses as text\<close>

definition char_for_nibble :: "u8 \<Rightarrow> u8" where
  "char_for_nibble nibble =
     (if nibble < 16 then ascii ''0123456789ABCDEF'' ! unat nibble else of_char (CHR ''?''))"

definition char_for_high_nibble :: "u8 \<Rightarrow> u8" where
  "char_for_high_nibble v = char_for_nibble (drop_bit 4 v AND 0x0f)"

definition char_for_low_nibble :: "u8 \<Rightarrow> u8" where
  "char_for_low_nibble v = char_for_nibble (v AND 0x0f)"

definition nibble_for_char :: "u8 \<Rightarrow> int" where
  "nibble_for_char c =
     (if of_char (CHR ''0'') \<le> c \<and> c \<le> of_char (CHR ''9'') then uint c - of_char (CHR ''0'')
      else if of_char (CHR ''a'') \<le> c \<and> c \<le> of_char (CHR ''f'') then uint c - of_char (CHR ''a'') + 10
      else if of_char (CHR ''A'') \<le> c \<and> c \<le> of_char (CHR ''F'') then uint c - of_char (CHR ''A'') + 10
      else -1)"

text \<open>The delimiter after the last byte is overwritten with the terminating zero.\<close>

definition bd_addr_to_str_with_delimiter :: "bytes \<Rightarrow> u8 \<Rightarrow> bytes" where
  "bd_addr_to_str_with_delimiter addr delimiter =
     butlast (concat (map (\<lambda>b. [char_for_high_nibble b, char_for_low_nibble b, delimiter]) addr))"

definition bd_addr_to_str :: "bytes \<Rightarrow> bytes" where
  "bd_addr_to_str addr = bd_addr_to_str_with_delimiter addr (of_char (CHR '':''))"

text \<open>
  A string is read through a pointer: the list that remains, and the zero behind it. The
  second digit is read only when the first one is not that zero.
\<close>

definition c_char :: "bytes \<Rightarrow> nat \<Rightarrow> u8" where
  "c_char s k = (if k < length s then s ! k else 0)"

definition scan_hex_byte :: "bytes \<Rightarrow> int" where
  "scan_hex_byte byte_string =
     (let upper_nibble = nibble_for_char (c_char byte_string 0) in
      if upper_nibble < 0 then -1
      else
        let lower_nibble = nibble_for_char (c_char byte_string 1) in
        if lower_nibble < 0 then -1 else upper_nibble * 16 + lower_nibble)"

definition skip_separator :: "bytes \<Rightarrow> bytes" where
  "skip_separator s =
     (if c_char s 0 = of_char (CHR '':'') \<or> c_char s 0 = of_char (CHR ''-'') \<or> c_char s 0 = of_char (CHR '' '')
      then drop 1 s else s)"

primrec scan_bytes :: "nat \<Rightarrow> bytes \<Rightarrow> bytes option" where
  "scan_bytes 0 s = Some []"
| "scan_bytes (Suc n) s =
     (let single_byte = scan_hex_byte s in
      if single_byte < 0 then None
      else map_option (\<lambda>bs. word_of_int single_byte # bs)
             (if n = 0 then Some [] else scan_bytes n (skip_separator (drop 2 s))))"

definition sscanf_bd_addr :: "bytes \<Rightarrow> bytes option" where
  "sscanf_bd_addr addr_string = scan_bytes 6 addr_string"

section \<open>The list\<close>

definition CONFIG_BLUEPAD32_MAX_ALLOWLIST :: nat where "CONFIG_BLUEPAD32_MAX_ALLOWLIST = 4"

record 'n allowlist =
  al_addrs :: "bytes list"
  al_enforced :: bool
  al_storage :: 'n

text \<open>The characters of the list, with a comma after every address; \<^verbatim>\<open>char str[128]\<close> holds 127.\<close>

primrec append_addresses :: "bytes list \<Rightarrow> bytes \<Rightarrow> bytes cres" where
  "append_addresses [] str = Inr str"
| "append_addresses (a # as) str =
     (if a = zero_addr then append_addresses as str
      else
        let str1 = str @ bd_addr_to_str a @ [of_char (CHR '','')]
        in if 128 \<le> length str1 then Inl Out_of_bounds else append_addresses as str1)"

definition update_allowlist_to_property ::
    "'n nvs_api \<Rightarrow> 'n allowlist \<Rightarrow> 'n allowlist cres" where
  "update_allowlist_to_property api s =
     bindR (append_addresses (al_addrs s) []) (\<lambda>str.
       mapR (\<lambda>n. s\<lparr>al_storage := n\<rparr>)
         (uni_property_set api None UNI_PROPERTY_IDX_ALLOWLIST_LIST (Prop_str (Some str)) (al_storage s)))"

definition is_address_in_allowlist :: "'n allowlist \<Rightarrow> bytes \<Rightarrow> bool" where
  "is_address_in_allowlist s addr \<longleftrightarrow> List.find (\<lambda>a. addr = a) (al_addrs s) \<noteq> None"

definition uni_bt_allowlist_is_allowed_addr :: "'n allowlist \<Rightarrow> bytes \<Rightarrow> bool" where
  "uni_bt_allowlist_is_allowed_addr s addr \<longleftrightarrow> \<not> al_enforced s \<or> is_address_in_allowlist s addr"

text \<open>The index of the first entry that holds an address.\<close>

definition first_entry :: "'n allowlist \<Rightarrow> bytes \<Rightarrow> nat option" where
  "first_entry s addr = List.find (\<lambda>i. al_addrs s ! i = addr) [0..<length (al_addrs s)]"

definition uni_bt_allowlist_add_addr ::
    "'n nvs_api \<Rightarrow> bytes \<Rightarrow> 'n allowlist \<Rightarrow> (bool \<times> 'n allowlist) cres" where
  "uni_bt_allowlist_add_addr api addr s =
     (if is_address_in_allowlist s addr then Inr (False, s)
      else (case first_entry s zero_addr of
              None \<Rightarrow> Inr (False, s)
            | Some i \<Rightarrow> mapR (\<lambda>s'. (True, s'))
                          (update_allowlist_to_property api (s\<lparr>al_addrs := (al_addrs s)[i := addr]\<rparr>))))"

definition uni_bt_allowlist_remove_addr ::
    "'n nvs_api \<Rightarrow> bytes \<Rightarrow> 'n allowlist \<Rightarrow> (bool \<times> 'n allowlist) cres" where
  "uni_bt_allowlist_remove_addr api addr s =
     (case first_entry s addr of
        None \<Rightarrow> Inr (False, s)
      | Some i \<Rightarrow> mapR (\<lambda>s'. (True, s'))
                    (update_allowlist_to_property api (s\<lparr>al_addrs := (al_addrs s)[i := zero_addr]\<rparr>)))"

definition uni_bt_allowlist_remove_all ::
    "'n nvs_api \<Rightarrow> 'n allowlist \<Rightarrow> (bool \<times> 'n allowlist) cres" where
  "uni_bt_allowlist_remove_all api s =
     mapR (\<lambda>s'. (True, s'))
       (update_allowlist_to_property api (s\<lparr>al_addrs := map (\<lambda>_. zero_addr) (al_addrs s)\<rparr>))"

definition uni_bt_allowlist_set_enabled ::
    "'n nvs_api \<Rightarrow> bool \<Rightarrow> 'n allowlist \<Rightarrow> 'n allowlist cres" where
  "uni_bt_allowlist_set_enabled api enabled s =
     (if enabled = al_enforced s then Inr s
      else mapR (\<lambda>n. s\<lparr>al_enforced := enabled, al_storage := n\<rparr>)
             (uni_property_set api None UNI_PROPERTY_IDX_ALLOWLIST_ENABLED (Prop_u8 (of_bool enabled))
               (al_storage s)))"

text \<open>
  The loop of \<^verbatim>\<open>update_allowlist_from_property\<close>, from an offset on. Every address that is added
  writes the property again; the string that is read is a copy and does not change.
\<close>

function load_addresses ::
    "'n nvs_api \<Rightarrow> bytes \<Rightarrow> nat \<Rightarrow> 'n allowlist \<Rightarrow> 'n allowlist cres" where
  "load_addresses api str offset s =
     (if length str \<le> offset then Inr s
      else (case sscanf_bd_addr (drop offset str) of
              None \<Rightarrow> Inr s
            | Some addr \<Rightarrow>
                bindR (uni_bt_allowlist_add_addr api addr s) (\<lambda>(_, s1).
                  load_addresses api str (offset + (6 * 2 + 5 + 1)) s1)))"
  by pat_completeness auto
termination
  by (relation "measure (\<lambda>(api, str, offset, s). length str - offset)") auto

declare load_addresses.simps [simp del]

definition update_allowlist_from_property ::
    "'n nvs_api \<Rightarrow> 'n allowlist \<Rightarrow> 'n allowlist cres" where
  "update_allowlist_from_property api s =
     (case uni_property_get api None UNI_PROPERTY_IDX_ALLOWLIST_LIST (al_storage s) of
        Prop_str (Some str) \<Rightarrow> load_addresses api (c_string str) 0 s
      | _ \<Rightarrow> Inr s)"

definition uni_bt_allowlist_init :: "'n nvs_api \<Rightarrow> 'n allowlist \<Rightarrow> 'n allowlist cres" where
  "uni_bt_allowlist_init api s =
     (case prop_u8 (uni_property_get api None UNI_PROPERTY_IDX_ALLOWLIST_ENABLED (al_storage s)) of
        None \<Rightarrow> Inl Out_of_bounds
      | Some v \<Rightarrow> update_allowlist_from_property api (s\<lparr>al_enforced := (v \<noteq> 0)\<rparr>))"

text \<open>The static data at power-on, and the boot from a storage.\<close>

definition power_on :: "'n \<Rightarrow> 'n allowlist" where
  "power_on n = \<lparr>al_addrs = replicate CONFIG_BLUEPAD32_MAX_ALLOWLIST zero_addr,
                 al_enforced = False, al_storage = n\<rparr>"

definition allowlist_boot :: "'n nvs_api \<Rightarrow> 'n \<Rightarrow> 'n allowlist cres" where
  "allowlist_boot api n = uni_bt_allowlist_init api (power_on n)"

text \<open>A \<^verbatim>\<open>bd_addr_t\<close> has six bytes: no other list can be added.\<close>

datatype allow_event =
    Add_addr bytes
  | Remove_addr bytes
  | Remove_all
  | Set_enabled bool
  | Restart

definition allow_step :: "'n nvs_api \<Rightarrow> allow_event \<Rightarrow> 'n allowlist \<Rightarrow> 'n allowlist cres" where
  "allow_step api ev s = (case ev of
     Add_addr a \<Rightarrow> if length a = 6 then mapR snd (uni_bt_allowlist_add_addr api a s) else Inr s
   | Remove_addr a \<Rightarrow> mapR snd (uni_bt_allowlist_remove_addr api a s)
   | Remove_all \<Rightarrow> mapR snd (uni_bt_allowlist_remove_all api s)
   | Set_enabled e \<Rightarrow> uni_bt_allowlist_set_enabled api e s
   | Restart \<Rightarrow> allowlist_boot api (al_storage s))"

section \<open>Addresses and text\<close>

lemma nibble_text_all:
  "list_all (\<lambda>n :: u8. nibble_for_char (char_for_nibble n) = uint n \<and> char_for_nibble n \<noteq> 0)
     [0, 1, 2, 3, 4, 5, 6, 7, 8, 9, 10, 11, 12, 13, 14, 15]"
  by code_simp

lemma nibble_text:
  assumes "n < 16"
  shows "nibble_for_char (char_for_nibble n) = uint n" "char_for_nibble n \<noteq> 0"
proof -
  have "unat n < 16" using assms by (simp add: word_less_nat_alt)
  then have "unat n \<in> {0, 1, 2, 3, 4, 5, 6, 7, 8, 9, 10, 11, 12, 13, 14, 15}"
    unfolding insert_iff empty_iff by presburger
  then have "(of_nat (unat n) :: u8) \<in> of_nat ` {0, 1, 2, 3, 4, 5, 6, 7, 8, 9, 10, 11, 12, 13, 14, 15}"
    by (rule imageI)
  then have "n \<in> set [0, 1, 2, 3, 4, 5, 6, 7, 8, 9, 10, 11, 12, 13, 14, 15 :: u8]"
    by (simp only: image_insert image_empty of_nat_0 of_nat_1 of_nat_numeral list.set of_nat_unat ucast_id)
      simp
  then show "nibble_for_char (char_for_nibble n) = uint n" "char_for_nibble n \<noteq> 0"
    using nibble_text_all unfolding list_all_iff by blast+
qed

lemma nibbles:
  "drop_bit 4 (b :: u8) AND 0x0f < 16" "b AND 0x0f < 16"
  "uint (drop_bit 4 b AND 0x0f) * 16 + uint (b AND 0x0f) = uint b"
proof -
  have f: "(0x0f :: int) = mask 4" by (simp add: mask_eq_exp_minus_1)
  have hi: "uint (drop_bit 4 b AND 0x0f) = uint b div 16 mod 16"
    by (simp add: unsigned_and_eq unsigned_drop_bit_eq f drop_bit_eq_div flip: take_bit_eq_mask)
      (simp add: take_bit_eq_mod uint_div)
  have lo: "uint (b AND 0x0f) = uint b mod 16"
    by (simp add: unsigned_and_eq f flip: take_bit_eq_mask) (simp add: take_bit_eq_mod)
  have "uint b < 256" using uint_lt2p [of b] by simp
  then have "uint b div 16 < 16" by linarith
  then have "uint b div 16 mod 16 = uint b div 16" by (simp add: pos_imp_zdiv_nonneg_iff mod_pos_pos_trivial)
  then show "uint (drop_bit 4 b AND 0x0f) * 16 + uint (b AND 0x0f) = uint b"
    unfolding hi lo by simp
  show "drop_bit 4 b AND 0x0f < 16" "b AND 0x0f < 16"
    by (simp_all add: word_less_def hi lo)
qed

lemma byte_text:
  "nibble_for_char (char_for_high_nibble b) * 16 + nibble_for_char (char_for_low_nibble b) = uint b"
  "0 \<le> nibble_for_char (char_for_high_nibble b)" "0 \<le> nibble_for_char (char_for_low_nibble b)"
  "char_for_high_nibble b \<noteq> 0" "char_for_low_nibble b \<noteq> 0"
  using nibbles [of b] by (simp_all add: char_for_high_nibble_def char_for_low_nibble_def nibble_text)

lemma c_char_simps [simp]:
  "c_char [] k = 0" "c_char (x # s) 0 = x" "c_char (x # s) (Suc k) = c_char s k"
  by (simp_all add: c_char_def)

lemma scan_hex_byte_text:
  "scan_hex_byte (char_for_high_nibble b # char_for_low_nibble b # s) = uint b"
  using byte_text [of b] by (simp add: scan_hex_byte_def Let_def One_nat_def [symmetric] del: One_nat_def)
    (simp add: mult.commute)

definition separators :: "u8 set" where
  "separators = {of_char (CHR '':''), of_char (CHR ''-''), of_char (CHR '' '')}"

lemma scan_bytes_text:
  assumes "delimiter \<in> separators" and "addr \<noteq> []"
  shows "scan_bytes (length addr) (bd_addr_to_str_with_delimiter addr delimiter @ rest) = Some addr"
  using assms(2)
proof (induction addr)
  case Nil
  then show ?case by simp
next
  case (Cons b addr)
  show ?case
  proof (cases "addr = []")
    case True
    then show ?thesis by (simp add: bd_addr_to_str_with_delimiter_def scan_hex_byte_text)
  next
    case False
    then have "bd_addr_to_str_with_delimiter (b # addr) delimiter @ rest
        = char_for_high_nibble b # char_for_low_nibble b # delimiter
          # (bd_addr_to_str_with_delimiter addr delimiter @ rest)"
      by (cases addr) (simp_all add: bd_addr_to_str_with_delimiter_def)
    moreover have "skip_separator (delimiter # s) = s" for s
      using assms(1) by (auto simp: skip_separator_def separators_def)
    ultimately show ?thesis using Cons.IH False by (simp add: scan_hex_byte_text)
  qed
qed

lemma sscanf_bd_addr_text:
  "length addr = 6 \<Longrightarrow> sscanf_bd_addr (bd_addr_to_str addr @ rest) = Some addr"
  using scan_bytes_text [of "of_char (CHR '':'')" addr rest]
  by (cases "addr = []") (simp_all add: sscanf_bd_addr_def bd_addr_to_str_def separators_def)

text \<open>An address and its comma take 18 characters, none of them zero.\<close>

definition entry :: "bytes \<Rightarrow> bytes" where
  "entry a = bd_addr_to_str a @ [of_char (CHR '','')]"

lemma length_triples: "length (concat (map (\<lambda>b. [f b, g b, c]) addr)) = 3 * length addr"
  by (induction addr) simp_all

lemma length_entry: "length addr = 6 \<Longrightarrow> length (entry addr) = 18"
  by (simp add: entry_def bd_addr_to_str_def bd_addr_to_str_with_delimiter_def length_triples)

lemma entry_no_zero: "0 \<notin> set (entry a)"
proof -
  have "0 \<notin> set (concat (map (\<lambda>b. [char_for_high_nibble b, char_for_low_nibble b, of_char (CHR '':'') :: u8]) a))"
    using byte_text(4,5) by (induction a) (auto dest: sym)
  then have "0 \<notin> set (bd_addr_to_str a)"
    unfolding bd_addr_to_str_def bd_addr_to_str_with_delimiter_def by (blast dest: in_set_butlastD)
  then show ?thesis by (simp add: entry_def)
qed

lemma c_string_id: "0 \<notin> set s \<Longrightarrow> c_string s = s"
  by (auto simp: c_string_def takeWhile_eq_all_conv)

definition used :: "bytes list \<Rightarrow> bytes list" where
  "used as = filter (\<lambda>a. a \<noteq> zero_addr) as"

definition list_text :: "bytes list \<Rightarrow> bytes" where
  "list_text as = concat (map entry (used as))"

lemma list_text_no_zero: "c_string (list_text as) = list_text as"
  using entry_no_zero by (intro c_string_id) (auto simp: list_text_def)

lemma length_list_text:
  "\<forall>a \<in> set as. length a = 6 \<Longrightarrow> length (list_text as) = 18 * length (used as)"
  by (induction as) (auto simp: list_text_def used_def length_entry)

text \<open>Seven addresses fit the buffer, an eighth is written past its end.\<close>

lemma append_addresses_text:
  assumes "\<forall>a \<in> set as. length a = 6"
  shows "append_addresses as str =
    (if used as \<noteq> [] \<and> 128 \<le> length str + 18 * length (used as) then Inl Out_of_bounds
     else Inr (str @ list_text as))"
  using assms
proof (induction as arbitrary: str)
  case Nil
  then show ?case by (simp add: used_def list_text_def)
next
  case (Cons a as)
  let ?str1 = "str @ entry a"
  have l: "length ?str1 = length str + 18" using Cons.prems length_entry [of a] by simp
  have step: "append_addresses (a # as) str =
      (if a = zero_addr then append_addresses as str
       else if 128 \<le> length ?str1 then Inl Out_of_bounds else append_addresses as ?str1)"
    by (simp add: entry_def Let_def)
  have IH: "append_addresses as s = (if used as \<noteq> [] \<and> 128 \<le> length s + 18 * length (used as) then Inl Out_of_bounds
     else Inr (s @ list_text as))" for s
    using Cons by simp
  show ?case unfolding step IH l by (auto simp: used_def list_text_def)
qed

section \<open>The operations on the list\<close>

definition al_inv :: "'n allowlist \<Rightarrow> bool" where
  "al_inv s \<longleftrightarrow> length (al_addrs s) = CONFIG_BLUEPAD32_MAX_ALLOWLIST
     \<and> (\<forall>a \<in> set (al_addrs s). length a = 6) \<and> distinct (used (al_addrs s))"

text \<open>What the storage says about the list and about the switch.\<close>

definition list_stored :: "'n nvs_api \<Rightarrow> 'n allowlist \<Rightarrow> bool" where
  "list_stored api s \<longleftrightarrow>
     (case uni_property_get api None UNI_PROPERTY_IDX_ALLOWLIST_LIST (al_storage s) of
        Prop_str (Some str) \<Rightarrow> str = list_text (al_addrs s)
      | Prop_str None \<Rightarrow> used (al_addrs s) = []
      | _ \<Rightarrow> False)"

lemma list_stored_cong:
  "\<lbrakk>list_stored api s; al_addrs s' = al_addrs s;
    uni_property_get api None UNI_PROPERTY_IDX_ALLOWLIST_LIST (al_storage s')
      = uni_property_get api None UNI_PROPERTY_IDX_ALLOWLIST_LIST (al_storage s)\<rbrakk> \<Longrightarrow> list_stored api s'"
  by (auto simp: list_stored_def split: uni_property_value.splits option.splits)

definition switch_stored :: "'n nvs_api \<Rightarrow> 'n allowlist \<Rightarrow> bool" where
  "switch_stored api s \<longleftrightarrow>
     prop_u8 (uni_property_get api None UNI_PROPERTY_IDX_ALLOWLIST_ENABLED (al_storage s))
       = Some (of_bool (al_enforced s))"

definition allow_inv :: "'n nvs_api \<Rightarrow> 'n allowlist \<Rightarrow> bool" where
  "allow_inv api s \<longleftrightarrow> al_inv s \<and> list_stored api s \<and> switch_stored api s"

lemma used_simps [simp]:
  "used [] = []" "used (a # as) = (if a = zero_addr then used as else a # used as)"
  "used (as @ bs) = used as @ used bs" "used (replicate n zero_addr) = []" "used (used as) = used as"
  by (simp_all add: used_def)

lemma set_used: "set (used as) = set as - {zero_addr}"
  by (auto simp: used_def)

lemma length_used: "length (used as) \<le> length as"
  by (simp add: used_def)

lemma zero_in_list: "zero_addr \<in> set as \<longleftrightarrow> length (used as) < length as"
proof (induction as)
  case Nil
  then show ?case by simp
next
  case (Cons a as)
  then show ?case using length_used [of as] by auto
qed

lemma is_address_in_allowlist_iff: "is_address_in_allowlist s a \<longleftrightarrow> a \<in> set (al_addrs s)"
  by (auto simp: is_address_in_allowlist_def find_None_iff)

lemma first_entry_Some:
  assumes "first_entry s a = Some i"
  shows "i < length (al_addrs s)" "al_addrs s ! i = a"
  using assms by (auto simp: first_entry_def find_Some_iff)

lemma first_entry_None: "first_entry s a = None \<longleftrightarrow> a \<notin> set (al_addrs s)"
  by (auto simp: first_entry_def find_None_iff in_set_conv_nth)

lemma find_upt:
  assumes "\<forall>j < i. \<not> P j" and "P i" and "i < n"
  shows "List.find P [0..<n] = Some i"
  unfolding find_Some_iff using assms by (intro exI [of _ i]) simp

lemma used_update:
  assumes "i < length as"
  shows "\<exists>l r. used as = l @ used [as ! i] @ r \<and> used (as[i := b]) = l @ used [b] @ r"
proof -
  have "as = take i as @ [as ! i] @ drop (Suc i) as" using assms by (simp add: id_take_nth_drop)
  moreover have "as[i := b] = take i as @ [b] @ drop (Suc i) as" using assms by (simp add: upd_conv_take_nth_drop)
  ultimately show ?thesis using used_simps(3) by metis
qed

lemma set_update_length:
  "\<lbrakk>\<forall>a \<in> set as. length a = 6; length b = 6\<rbrakk> \<Longrightarrow> \<forall>a \<in> set (as[i := b]). length a = 6"
  using set_update_subset_insert [of as i b] by blast

lemma length_zero_addr [simp]: "length zero_addr = 6"
  by (simp add: zero_addr_def)

lemma properties_of_list:
  "\<not> pr_read_only (properties ! UNI_PROPERTY_IDX_ALLOWLIST_LIST)"
  "pr_type (properties ! UNI_PROPERTY_IDX_ALLOWLIST_LIST) = UNI_PROPERTY_TYPE_STRING"
  "\<not> pr_read_only (properties ! UNI_PROPERTY_IDX_ALLOWLIST_ENABLED)"
  "pr_type (properties ! UNI_PROPERTY_IDX_ALLOWLIST_ENABLED) = UNI_PROPERTY_TYPE_BOOL"
  "UNI_PROPERTY_IDX_ALLOWLIST_LIST < UNI_PROPERTY_IDX_LAST"
  "UNI_PROPERTY_IDX_ALLOWLIST_ENABLED < UNI_PROPERTY_IDX_LAST"
  "UNI_PROPERTY_IDX_ALLOWLIST_LIST \<noteq> UNI_PROPERTY_IDX_ALLOWLIST_ENABLED"
  "UNI_PROPERTY_IDX_ALLOWLIST_ENABLED \<noteq> UNI_PROPERTY_IDX_ALLOWLIST_LIST"
  by (simp_all add: properties_def writable_def UNI_PROPERTY_IDX_ALLOWLIST_LIST_def
      UNI_PROPERTY_IDX_ALLOWLIST_ENABLED_def UNI_PROPERTY_IDX_LAST_def)

lemma update_to_property:
  assumes "nvs_works api view" and "al_inv s"
    and "switch_stored api s"
  shows "\<exists>s'. update_allowlist_to_property api s = Inr s' \<and> al_addrs s' = al_addrs s
    \<and> al_enforced s' = al_enforced s \<and> allow_inv api s'
    \<and> uni_property_get api None UNI_PROPERTY_IDX_ALLOWLIST_LIST (al_storage s') = Prop_str (Some (list_text (al_addrs s)))"
proof -
  have len: "length (list_text (al_addrs s)) \<le> 72" "length (used (al_addrs s)) \<le> 4"
    using assms(2) length_used [of "al_addrs s"] length_list_text [of "al_addrs s"]
    by (simp_all add: al_inv_def CONFIG_BLUEPAD32_MAX_ALLOWLIST_def)
  then have "append_addresses (al_addrs s) [] = Inr (list_text (al_addrs s))"
    using append_addresses_text [of "al_addrs s" "[]"] assms(2) by (simp add: al_inv_def)
  moreover from property_set_then_get [OF assms(1) properties_of_list(5,1),
      of "Prop_str (Some (list_text (al_addrs s)))" None "al_storage s"] len
  obtain n where
    "uni_property_set api None UNI_PROPERTY_IDX_ALLOWLIST_LIST (Prop_str (Some (list_text (al_addrs s)))) (al_storage s) = Inr n"
    "uni_property_get api None UNI_PROPERTY_IDX_ALLOWLIST_LIST n = Prop_str (Some (list_text (al_addrs s)))"
    "uni_property_get api None UNI_PROPERTY_IDX_ALLOWLIST_ENABLED n
       = uni_property_get api None UNI_PROPERTY_IDX_ALLOWLIST_ENABLED (al_storage s)"
    by (auto simp: properties_of_list)
  ultimately show ?thesis using assms(2,3)
    by (simp add: update_allowlist_to_property_def allow_inv_def list_stored_def switch_stored_def al_inv_def)
qed

lemma add_addr_spec:
  assumes "nvs_works api view" and "allow_inv api s" and "length a = 6"
  shows "\<exists>ok s'. uni_bt_allowlist_add_addr api a s = Inr (ok, s') \<and> allow_inv api s' \<and> al_enforced s' = al_enforced s
    \<and> (ok \<longleftrightarrow> a \<notin> set (al_addrs s) \<and> zero_addr \<in> set (al_addrs s))
    \<and> set (used (al_addrs s')) = (if ok then insert a (set (used (al_addrs s))) else set (used (al_addrs s)))"
proof (cases "a \<in> set (al_addrs s) \<or> zero_addr \<notin> set (al_addrs s)")
  case True
  then have "uni_bt_allowlist_add_addr api a s = Inr (False, s)"
    using first_entry_None [of s zero_addr]
    by (auto simp: uni_bt_allowlist_add_addr_def is_address_in_allowlist_iff)
  with True assms(2) show ?thesis by auto
next
  case False
  then obtain i where i: "first_entry s zero_addr = Some i"
    using first_entry_None [of s zero_addr] by (cases "first_entry s zero_addr") auto
  let ?s = "s\<lparr>al_addrs := (al_addrs s)[i := a]\<rparr>"
  from False have nz: "a \<noteq> zero_addr" by auto
  obtain l r where lr: "used (al_addrs s) = l @ r" "used ((al_addrs s)[i := a]) = l @ a # r"
    using used_update [OF first_entry_Some(1) [OF i], of a] first_entry_Some(2) [OF i] nz by auto
  have new: "a \<notin> set (used (al_addrs s))" using False by (simp add: set_used)
  have "al_inv ?s"
    using assms(2,3) new lr set_update_length [of "al_addrs s" a i]
    by (auto simp: allow_inv_def al_inv_def)
  moreover have "switch_stored api ?s" using assms(2) by (simp add: allow_inv_def switch_stored_def)
  ultimately obtain s' where "update_allowlist_to_property api ?s = Inr s'" "al_addrs s' = al_addrs ?s"
    "al_enforced s' = al_enforced s" "allow_inv api s'"
    using update_to_property [OF assms(1), of ?s] by auto
  then show ?thesis
    using False i lr by (auto simp: uni_bt_allowlist_add_addr_def is_address_in_allowlist_iff)
qed

lemma remove_addr_spec:
  assumes "nvs_works api view" and "allow_inv api s"
  shows "\<exists>ok s'. uni_bt_allowlist_remove_addr api a s = Inr (ok, s') \<and> allow_inv api s' \<and> al_enforced s' = al_enforced s
    \<and> (ok \<longleftrightarrow> a \<in> set (al_addrs s))
    \<and> set (used (al_addrs s')) = set (used (al_addrs s)) - {a}"
proof (cases "first_entry s a")
  case None
  then have "a \<notin> set (al_addrs s)" by (simp add: first_entry_None)
  with None assms(2) show ?thesis by (auto simp: uni_bt_allowlist_remove_addr_def set_used)
next
  case (Some i)
  let ?s = "s\<lparr>al_addrs := (al_addrs s)[i := zero_addr]\<rparr>"
  obtain l r where lr: "used (al_addrs s) = l @ used [a] @ r" "used ((al_addrs s)[i := zero_addr]) = l @ r"
    using used_update [OF first_entry_Some(1) [OF Some], of zero_addr] first_entry_Some(2) [OF Some] by auto
  have "distinct (used (al_addrs s))" using assms(2) by (simp add: allow_inv_def al_inv_def)
  with lr have d: "distinct (l @ r)" "set (l @ r) = set (used (al_addrs s)) - {a}"
    using set_used [of "al_addrs s"] by (auto split: if_splits)
  have "al_inv ?s"
    using assms(2) lr(2) d(1) set_update_length [of "al_addrs s" zero_addr i]
    by (auto simp: allow_inv_def al_inv_def)
  moreover have "switch_stored api ?s" using assms(2) by (simp add: allow_inv_def switch_stored_def)
  ultimately obtain s' where "update_allowlist_to_property api ?s = Inr s'" "al_addrs s' = al_addrs ?s"
    "al_enforced s' = al_enforced s" "allow_inv api s'"
    using update_to_property [OF assms(1), of ?s] by auto
  then show ?thesis
    using Some lr(2) d(2) first_entry_None [of s a] by (auto simp: uni_bt_allowlist_remove_addr_def)
qed

lemma remove_all_spec:
  assumes "nvs_works api view" and "allow_inv api s"
  shows "\<exists>s'. uni_bt_allowlist_remove_all api s = Inr (True, s') \<and> allow_inv api s'
    \<and> al_enforced s' = al_enforced s \<and> used (al_addrs s') = []"
proof -
  let ?s = "s\<lparr>al_addrs := map (\<lambda>_. zero_addr) (al_addrs s)\<rparr>"
  have u: "used (map (\<lambda>_. zero_addr) (al_addrs s)) = []" by (simp add: used_def)
  then have "al_inv ?s" "switch_stored api ?s"
    using assms(2) by (auto simp: allow_inv_def al_inv_def switch_stored_def)
  with update_to_property [OF assms(1), of ?s] u show ?thesis
    by (auto simp: uni_bt_allowlist_remove_all_def)
qed

lemma set_enabled_spec:
  assumes "nvs_works api view" and "allow_inv api s"
  shows "\<exists>s'. uni_bt_allowlist_set_enabled api e s = Inr s' \<and> allow_inv api s'
    \<and> al_enforced s' = e \<and> al_addrs s' = al_addrs s"
proof (cases "e = al_enforced s")
  case True
  with assms(2) show ?thesis by (simp add: uni_bt_allowlist_set_enabled_def)
next
  case False
  from property_set_then_get [OF assms(1) properties_of_list(6,3), of "Prop_u8 (of_bool e)" None "al_storage s"]
  obtain n where "uni_property_set api None UNI_PROPERTY_IDX_ALLOWLIST_ENABLED (Prop_u8 (of_bool e)) (al_storage s) = Inr n"
    "uni_property_get api None UNI_PROPERTY_IDX_ALLOWLIST_ENABLED n = Prop_u8 (of_bool e)"
    "uni_property_get api None UNI_PROPERTY_IDX_ALLOWLIST_LIST n
       = uni_property_get api None UNI_PROPERTY_IDX_ALLOWLIST_LIST (al_storage s)"
    by (auto simp: properties_of_list)
  moreover from this have "list_stored api (s\<lparr>al_enforced := e, al_storage := n\<rparr>)"
    using list_stored_cong [of api s] assms(2) by (simp add: allow_inv_def)
  ultimately show ?thesis
    using False assms(2) by (simp add: uni_bt_allowlist_set_enabled_def allow_inv_def al_inv_def switch_stored_def)
qed

section \<open>Restart\<close>

lemma allow_inv_simps:
  assumes "allow_inv api s"
  shows "al_inv s" "list_stored api s" "switch_stored api s"
  using assms by (simp_all add: allow_inv_def)

lemma load_addresses_text:
  assumes "nvs_works api view" and "\<forall>a \<in> set (pre @ as). length a = 6 \<and> a \<noteq> zero_addr"
    and "distinct (pre @ as)" and "length (pre @ as) \<le> CONFIG_BLUEPAD32_MAX_ALLOWLIST"
    and "al_addrs s = pre @ replicate (CONFIG_BLUEPAD32_MAX_ALLOWLIST - length pre) zero_addr"
    and "switch_stored api s" and "list_stored api s \<or> as \<noteq> []"
  shows "\<exists>s'. load_addresses api (list_text (pre @ as)) (18 * length pre) s = Inr s'
    \<and> al_addrs s' = pre @ as @ replicate (CONFIG_BLUEPAD32_MAX_ALLOWLIST - length (pre @ as)) zero_addr
    \<and> al_enforced s' = al_enforced s \<and> allow_inv api s'"
  using assms(2-7)
proof (induction as arbitrary: pre s)
  case Nil
  then have "used pre = pre" by (auto simp: used_def)
  with Nil have "al_inv s" by (auto simp: al_inv_def)
  moreover have "length (list_text pre) \<le> 18 * length pre"
    using Nil.prems(1) length_list_text [of pre] length_used [of pre] by simp
  ultimately show ?case using Nil.prems by (simp add: load_addresses.simps allow_inv_def)
next
  case (Cons a as)
  let ?max = "CONFIG_BLUEPAD32_MAX_ALLOWLIST"
  have pre6: "\<forall>b \<in> set pre. length b = 6" and a6: "length a = 6" "a \<noteq> zero_addr"
    using Cons.prems(1) by simp_all
  have "used pre = pre" using Cons.prems(1) by (auto simp: used_def)
  then have lp: "length (list_text pre) = 18 * length pre" using length_list_text [OF pre6] by simp
  have split: "list_text (pre @ a # as) = list_text pre @ bd_addr_to_str a @ of_char (CHR '','') # list_text as"
    using a6(2) by (simp add: list_text_def entry_def)
  have here: "drop (18 * length pre) (list_text (pre @ a # as)) = bd_addr_to_str a @ of_char (CHR '','') # list_text as"
    unfolding split using lp by simp
  have remaining: "\<not> length (list_text (pre @ a # as)) \<le> 18 * length pre"
    unfolding split using lp by simp
  have rep: "replicate (?max - length pre) zero_addr = zero_addr # replicate (?max - length (pre @ [a])) zero_addr"
    using Cons.prems(3) by (cases "?max - length pre") simp_all
  have notin: "a \<notin> set (al_addrs s)" using Cons.prems(2,4) a6(2) by auto
  have "(al_addrs s)[length pre := a] = pre @ a # replicate (?max - length (pre @ [a])) zero_addr"
    unfolding Cons.prems(4) rep by simp
  moreover have first: "first_entry s zero_addr = Some (length pre)"
    unfolding first_entry_def
  proof (rule find_upt)
    show "length pre < length (al_addrs s)" "al_addrs s ! length pre = zero_addr"
      unfolding Cons.prems(4) rep by simp_all
    show "\<forall>j < length pre. al_addrs s ! j \<noteq> zero_addr"
      unfolding Cons.prems(4) using Cons.prems(1) by (simp add: nth_append)
  qed
  moreover define s1 where "s1 = s\<lparr>al_addrs := pre @ a # replicate (?max - length (pre @ [a])) zero_addr\<rparr>"
  moreover have "al_inv s1" "switch_stored api s1"
    using Cons.prems a6 by (auto simp: s1_def al_inv_def switch_stored_def used_def)
  ultimately obtain s2 where s2: "uni_bt_allowlist_add_addr api a s = Inr (True, s2)" "al_addrs s2 = al_addrs s1"
    "al_enforced s2 = al_enforced s" "allow_inv api s2"
    using update_to_property [OF assms(1), of s1] notin
    by (auto simp: uni_bt_allowlist_add_addr_def is_address_in_allowlist_iff)
  have "load_addresses api (list_text (pre @ a # as)) (18 * length pre) s
      = load_addresses api (list_text ((pre @ [a]) @ as)) (18 * length (pre @ [a])) s2"
    using remaining s2(1) here sscanf_bd_addr_text [OF a6(1)] by (subst load_addresses.simps) (simp add: add.commute)
  moreover have "\<exists>s'. load_addresses api (list_text ((pre @ [a]) @ as)) (18 * length (pre @ [a])) s2 = Inr s'
    \<and> al_addrs s' = (pre @ [a]) @ as @ replicate (?max - length ((pre @ [a]) @ as)) zero_addr
    \<and> al_enforced s' = al_enforced s2 \<and> allow_inv api s'"
    by (rule Cons.IH) (use Cons.prems s2 in \<open>simp_all add: s1_def allow_inv_simps\<close>)
  ultimately show ?case using s2(3) by simp
qed

lemma boot_restores:
  assumes "nvs_works api view" and "allow_inv api s"
  shows "\<exists>s'. allowlist_boot api (al_storage s) = Inr s' \<and> allow_inv api s'
    \<and> al_enforced s' = al_enforced s
    \<and> al_addrs s' = used (al_addrs s) @ replicate (CONFIG_BLUEPAD32_MAX_ALLOWLIST - length (used (al_addrs s))) zero_addr"
proof -
  let ?u = "used (al_addrs s)"
  define s0 where "s0 = (power_on (al_storage s))\<lparr>al_enforced := al_enforced s\<rparr>"
  have init: "allowlist_boot api (al_storage s) = update_allowlist_from_property api s0"
    using allow_inv_simps(3) [OF assms(2)]
    by (simp add: allowlist_boot_def uni_bt_allowlist_init_def power_on_def s0_def switch_stored_def)
  have sw: "switch_stored api s0"
    using allow_inv_simps(3) [OF assms(2)] by (simp add: switch_stored_def s0_def power_on_def)
  have s0: "al_addrs s0 = replicate CONFIG_BLUEPAD32_MAX_ALLOWLIST zero_addr" "al_storage s0 = al_storage s"
    "al_enforced s0 = al_enforced s"
    by (simp_all add: s0_def power_on_def)
  have u: "\<forall>a \<in> set ([] @ ?u). length a = 6 \<and> a \<noteq> zero_addr" "distinct ([] @ ?u)"
    "length ([] @ ?u) \<le> CONFIG_BLUEPAD32_MAX_ALLOWLIST"
    using allow_inv_simps(1) [OF assms(2)] length_used [of "al_addrs s"] by (auto simp: al_inv_def set_used)
  show ?thesis
  proof (cases "uni_property_get api None UNI_PROPERTY_IDX_ALLOWLIST_LIST (al_storage s) = Prop_str None")
    case True
    then have "?u = []" using allow_inv_simps(2) [OF assms(2)] by (simp add: list_stored_def)
    moreover have "allow_inv api s0"
      using True sw by (simp add: allow_inv_def al_inv_def list_stored_def s0)
    ultimately show ?thesis using True by (simp add: init update_allowlist_from_property_def s0)
  next
    case False
    then have stored: "uni_property_get api None UNI_PROPERTY_IDX_ALLOWLIST_LIST (al_storage s) = Prop_str (Some (list_text ?u))"
      using allow_inv_simps(2) [OF assms(2)]
      by (auto simp: list_stored_def list_text_def split: uni_property_value.splits option.splits)
    then have "list_stored api s0 \<or> ?u \<noteq> []"
      by (auto simp: list_stored_def s0 list_text_def)
    from load_addresses_text [OF assms(1) u _ sw this] s0(1) stored
    show ?thesis
      by (auto simp: init update_allowlist_from_property_def s0 list_text_no_zero)
  qed
qed

section \<open>The list as a set\<close>

text \<open>
  The abstract list is a set of at most four addresses and a switch. The zero address marks
  free entries, so it cannot be added, and restarting changes nothing.
\<close>

definition set_step :: "allow_event \<Rightarrow> bytes set \<times> bool \<Rightarrow> bytes set \<times> bool" where
  "set_step ev = (\<lambda>(S, e). case ev of
     Add_addr a \<Rightarrow> (if length a = 6 \<and> a \<noteq> zero_addr \<and> card S < 4 then insert a S else S, e)
   | Remove_addr a \<Rightarrow> (S - {a}, e)
   | Remove_all \<Rightarrow> ({}, e)
   | Set_enabled e' \<Rightarrow> (S, e')
   | Restart \<Rightarrow> (S, e))"

definition allow_abs :: "'n allowlist \<Rightarrow> bytes set \<times> bool" where
  "allow_abs s = (set (used (al_addrs s)), al_enforced s)"

lemma card_used: "al_inv s \<Longrightarrow> card (set (used (al_addrs s))) = length (used (al_addrs s))"
  by (simp add: al_inv_def distinct_card)

lemma zero_in_list_card:
  "al_inv s \<Longrightarrow> zero_addr \<in> set (al_addrs s) \<longleftrightarrow> card (set (used (al_addrs s))) < 4"
  using zero_in_list [of "al_addrs s"]
  by (simp add: card_used) (simp add: al_inv_def CONFIG_BLUEPAD32_MAX_ALLOWLIST_def)

lemma allow_step_refines:
  assumes "nvs_works api view" and "allow_inv api s"
  shows "\<exists>s'. allow_step api ev s = Inr s' \<and> allow_inv api s' \<and> allow_abs s' = set_step ev (allow_abs s)"
proof (cases ev)
  case (Add_addr a)
  show ?thesis
  proof (cases "length a = 6")
    case True
    from add_addr_spec [OF assms this] obtain ok s' where
      s': "uni_bt_allowlist_add_addr api a s = Inr (ok, s')" "allow_inv api s'" "al_enforced s' = al_enforced s"
        "ok \<longleftrightarrow> a \<notin> set (al_addrs s) \<and> zero_addr \<in> set (al_addrs s)"
        "set (used (al_addrs s')) = (if ok then insert a (set (used (al_addrs s))) else set (used (al_addrs s)))"
      by blast
    moreover have "a \<in> set (al_addrs s) \<longleftrightarrow> a \<in> set (used (al_addrs s)) \<or> a = zero_addr \<and> zero_addr \<in> set (al_addrs s)"
      by (auto simp: set_used)
    ultimately have "allow_abs s' = set_step (Add_addr a) (allow_abs s)"
      using zero_in_list_card [OF allow_inv_simps(1) [OF assms(2)]] True
      by (auto simp: allow_abs_def set_step_def)
    with s'(1,2) True Add_addr show ?thesis by (simp add: allow_step_def)
  next
    case False
    with assms(2) Add_addr show ?thesis by (simp add: allow_step_def set_step_def allow_abs_def)
  qed
next
  case (Remove_addr a)
  with remove_addr_spec [OF assms, of a] show ?thesis
    by (auto simp: allow_step_def set_step_def allow_abs_def)
next
  case Remove_all
  with remove_all_spec [OF assms] show ?thesis
    by (auto simp: allow_step_def set_step_def allow_abs_def)
next
  case (Set_enabled e)
  with set_enabled_spec [OF assms, of e] show ?thesis
    by (auto simp: allow_step_def set_step_def allow_abs_def)
next
  case Restart
  with boot_restores [OF assms] show ?thesis
    by (auto simp: allow_step_def set_step_def allow_abs_def)
qed

lemma run_refines:
  assumes "nvs_works api view" and "allow_inv api s"
  shows "\<exists>s'. run_steps (allow_step api) evs s = Inr s' \<and> allow_inv api s' \<and> allow_abs s' = fold set_step evs (allow_abs s)"
  using assms(2)
proof (induction evs arbitrary: s)
  case Nil
  then show ?case by simp
next
  case (Cons ev evs)
  from allow_step_refines [OF assms(1) Cons.prems, of ev] obtain s1
    where s1: "allow_step api ev s = Inr s1" "allow_inv api s1" "allow_abs s1 = set_step ev (allow_abs s)"
    by blast
  from Cons.IH [OF s1(2)] s1 show ?case by simp
qed

lemma first_boot:
  assumes "nvs_works api view" and "view n = Map.empty"
  shows "allowlist_boot api n = Inr (power_on n)" "allow_inv api (power_on n)" "allow_abs (power_on n) = ({}, False)"
proof -
  have g: "uni_property_get api None UNI_PROPERTY_IDX_ALLOWLIST_LIST n = Prop_str None"
    "uni_property_get api None UNI_PROPERTY_IDX_ALLOWLIST_ENABLED n = Prop_boolean False"
    using assms(2) by (simp_all add: uni_property_get_def get_property_def get_with_property_view [OF assms(1)]
        properties_of_list) (simp_all add: properties_def writable_def UNI_PROPERTY_IDX_ALLOWLIST_LIST_def
        UNI_PROPERTY_IDX_ALLOWLIST_ENABLED_def UNI_PROPERTY_IDX_LAST_def)
  then show "allowlist_boot api n = Inr (power_on n)" "allow_inv api (power_on n)" "allow_abs (power_on n) = ({}, False)"
    by (simp_all add: allowlist_boot_def uni_bt_allowlist_init_def update_allowlist_from_property_def power_on_def
        allow_inv_def al_inv_def list_stored_def switch_stored_def allow_abs_def)
qed

text \<open>C2: over a working storage, any order of additions, removals, switching and restarts after
  the first boot succeeds, and the list decides like a set of at most four addresses that a
  restart does not change: an address is let in when the list is not enforced, when it is in
  the set, or when it is the zero address and the set is not full.\<close>
theorem allowlist_refines_set:
  assumes "nvs_works api view" and "view n = Map.empty"
  shows "\<exists>s. bindR (allowlist_boot api n) (run_steps (allow_step api) evs) = Inr s
    \<and> (let (S, enforced) = fold set_step evs ({}, False) in
        al_enforced s = enforced \<and> (\<forall>addr. uni_bt_allowlist_is_allowed_addr s addr \<longleftrightarrow>
          (enforced \<longrightarrow> addr \<in> S \<or> addr = zero_addr \<and> card S < 4)))"
proof -
  from run_refines [OF assms(1) first_boot(2) [OF assms], of evs] obtain s
    where s: "run_steps (allow_step api) evs (power_on n) = Inr s" "allow_inv api s"
      "allow_abs s = fold set_step evs ({}, False)"
    by (auto simp: first_boot(3) [OF assms])
  have "addr \<in> set (al_addrs s) \<longleftrightarrow> addr \<in> set (used (al_addrs s)) \<or> addr = zero_addr \<and> zero_addr \<in> set (al_addrs s)"
    for addr by (auto simp: set_used)
  then have "uni_bt_allowlist_is_allowed_addr s addr \<longleftrightarrow> (al_enforced s \<longrightarrow> addr \<in> set (used (al_addrs s))
      \<or> addr = zero_addr \<and> card (set (used (al_addrs s))) < 4)" for addr
    unfolding uni_bt_allowlist_is_allowed_addr_def is_address_in_allowlist_iff
      zero_in_list_card [OF allow_inv_simps(1) [OF s(2)], symmetric] by blast
  with s(1) s(3) [symmetric] show ?thesis by (simp add: first_boot(1) [OF assms] allow_abs_def)
qed

definition some_address :: bytes where "some_address = [0x11, 0xab, 0x8b, 0x99, 0x44, 0x8a]"

lemma some_address_used: "some_address \<noteq> zero_addr" "length some_address = 6"
  "[1, 2, 3, 4, 5, 6] \<noteq> some_address" "[1, 2, 3, 4, 5, 6] \<noteq> zero_addr"
  by code_simp+

theorem allowlist_refines_set_witness:
  "\<exists>s. bindR (allowlist_boot map_nvs (\<lambda>_. None))
         (run_steps (allow_step map_nvs) [Add_addr some_address, Set_enabled True, Restart]) = Inr s
     \<and> uni_bt_allowlist_is_allowed_addr s some_address
     \<and> \<not> uni_bt_allowlist_is_allowed_addr s [1, 2, 3, 4, 5, 6]"
proof -
  have "fold set_step [Add_addr some_address, Set_enabled True, Restart] ({}, False) = ({some_address}, True)"
    by (simp add: set_step_def some_address_used)
  with allowlist_refines_set [OF map_nvs_works, of "\<lambda>_. None" "[Add_addr some_address, Set_enabled True, Restart]"]
  show ?thesis by (auto simp: some_address_used)
qed

text \<open>The list is stored while it is read: after the first address, the others are gone from the flash.\<close>

lemma boot_rewrites_the_list:
  assumes "nvs_works api view" and "length a = 6" and "a \<noteq> zero_addr"
    and "switch_stored api (power_on n)"
  shows "\<exists>s. uni_bt_allowlist_add_addr api a (power_on n) = Inr (True, s)
    \<and> uni_property_get api None UNI_PROPERTY_IDX_ALLOWLIST_LIST (al_storage s) = Prop_str (Some (list_text [a]))"
proof -
  let ?s = "(power_on n)\<lparr>al_addrs := a # replicate 3 zero_addr\<rparr>"
  have "al_inv ?s" "switch_stored api ?s"
    using assms(2-4) by (auto simp: al_inv_def CONFIG_BLUEPAD32_MAX_ALLOWLIST_def switch_stored_def power_on_def)
  moreover have "first_entry (power_on n) zero_addr = Some 0"
    unfolding first_entry_def by (rule find_upt) (simp_all add: power_on_def CONFIG_BLUEPAD32_MAX_ALLOWLIST_def)
  moreover have "(al_addrs (power_on n))[0 := a] = al_addrs ?s"
    by (simp add: power_on_def CONFIG_BLUEPAD32_MAX_ALLOWLIST_def numeral_eq_Suc)
  moreover have "list_text (al_addrs ?s) = list_text [a]"
    by (simp add: list_text_def)
  ultimately show ?thesis
    using update_to_property [OF assms(1), of ?s] assms(3)
    by (auto simp: uni_bt_allowlist_add_addr_def is_address_in_allowlist_iff power_on_def)
qed

end
