(* ===== verification/Sdp_Elements.thy ===== *)
theory Sdp_Elements
  imports Hid_Device
begin

text \<open>
  The values in the answers to an SDP query: the data elements of
  \<^verbatim>\<open>components/btstack/src/classic/sdp_util.c\<close> and the loop of
  \<^verbatim>\<open>bt/uni_bt_sdp.c\<close> that takes the HID descriptor of a device out of them. The bytes come from
  the device, and everything about them is its claim.

  A pointer into \<^verbatim>\<open>sdp_attribute_value\<close> is an offset; a read behind its 512 bytes is an error.
\<close>

section \<open>Data elements\<close>

definition MAX_ATTRIBUTE_VALUE_SIZE :: nat where "MAX_ATTRIBUTE_VALUE_SIZE = 512"

definition DE_NIL :: u8 where "DE_NIL = 0"
definition DE_UINT :: u8 where "DE_UINT = 1"
definition DE_STRING :: u8 where "DE_STRING = 4"
definition DE_DES :: u8 where "DE_DES = 6"

definition DE_SIZE_16 :: u8 where "DE_SIZE_16 = 1"
definition DE_SIZE_128 :: u8 where "DE_SIZE_128 = 4"
definition DE_SIZE_VAR_8 :: u8 where "DE_SIZE_VAR_8 = 5"
definition DE_SIZE_VAR_16 :: u8 where "DE_SIZE_VAR_16 = 6"
definition DE_SIZE_VAR_32 :: u8 where "DE_SIZE_VAR_32 = 7"

definition attribute_byte :: "bytes \<Rightarrow> nat \<Rightarrow> u8 cres" where
  "attribute_byte buf k = (if k < length buf then Inr (buf ! k) else Inl Out_of_bounds)"

definition big_endian_read_16 :: "bytes \<Rightarrow> nat \<Rightarrow> u32 cres" where
  "big_endian_read_16 buf k =
     bindR (attribute_byte buf (k + 1)) (\<lambda>lo.
       mapR (\<lambda>hi. ucast lo OR push_bit 8 (ucast hi)) (attribute_byte buf k))"

definition big_endian_read_32 :: "bytes \<Rightarrow> nat \<Rightarrow> u32 cres" where
  "big_endian_read_32 buf k =
     bindR (attribute_byte buf (k + 3)) (\<lambda>b3.
       bindR (attribute_byte buf (k + 2)) (\<lambda>b2.
         bindR (attribute_byte buf (k + 1)) (\<lambda>b1.
           mapR (\<lambda>b0. ucast b3 OR push_bit 8 (ucast b2) OR push_bit 16 (ucast b1) OR push_bit 24 (ucast b0))
             (attribute_byte buf k))))"

definition de_get_size_type :: "bytes \<Rightarrow> nat \<Rightarrow> u8 cres" where
  "de_get_size_type buf header = mapR (\<lambda>b. b AND 7) (attribute_byte buf header)"

definition de_get_element_type :: "bytes \<Rightarrow> nat \<Rightarrow> u8 cres" where
  "de_get_element_type buf header = mapR (\<lambda>b. drop_bit 3 b) (attribute_byte buf header)"

definition de_get_header_size :: "bytes \<Rightarrow> nat \<Rightarrow> u32 cres" where
  "de_get_header_size buf header =
     mapR (\<lambda>de_size. if de_size \<le> DE_SIZE_128 then 1
                     else 1 + push_bit (unat (de_size - DE_SIZE_VAR_8)) 1)
       (de_get_size_type buf header)"

definition de_get_data_size :: "bytes \<Rightarrow> nat \<Rightarrow> u32 cres" where
  "de_get_data_size buf header =
     bindR (de_get_element_type buf header) (\<lambda>de_type.
       bindR (de_get_size_type buf header) (\<lambda>de_size.
         if de_size = DE_SIZE_VAR_8 then mapR ucast (attribute_byte buf (header + 1))
         else if de_size = DE_SIZE_VAR_16 then big_endian_read_16 buf (header + 1)
         else if de_size = DE_SIZE_VAR_32 then big_endian_read_32 buf (header + 1)
         else if de_type = DE_NIL then Inr 0
         else Inr (push_bit (unat de_size) 1)))"

text \<open>The sum wraps: an element can claim to have no length at all.\<close>

definition de_get_len :: "bytes \<Rightarrow> nat \<Rightarrow> u32 cres" where
  "de_get_len buf header =
     bindR (de_get_header_size buf header) (\<lambda>h. mapR (\<lambda>n. h + n) (de_get_data_size buf header))"

definition de_element_get_uint16 :: "bytes \<Rightarrow> nat \<Rightarrow> u16 option cres" where
  "de_element_get_uint16 buf element =
     bindR (de_get_size_type buf element) (\<lambda>de_size.
       if de_size \<noteq> DE_SIZE_16 then Inr None
       else bindR (de_get_header_size buf element) (\<lambda>h.
         mapR (\<lambda>v. Some (ucast v)) (big_endian_read_16 buf (element + unat h))))"

definition de_get_string :: "bytes \<Rightarrow> nat \<Rightarrow> nat option cres" where
  "de_get_string buf element =
     bindR (de_get_element_type buf element) (\<lambda>de_type.
       if de_type \<noteq> DE_STRING then Inr None
       else mapR (\<lambda>h. Some (element + unat h)) (de_get_header_size buf element))"

section \<open>Iterators\<close>

record des_iterator =
  di_element :: nat
  di_pos :: u16
  di_length :: u16

text \<open>\<open>None\<close>: the element is no sequence, and the iterator is left as it was.\<close>

definition des_iterator_init :: "bytes \<Rightarrow> nat \<Rightarrow> des_iterator option cres" where
  "des_iterator_init buf element =
     bindR (de_get_element_type buf element) (\<lambda>de_type.
       if de_type \<noteq> DE_DES then Inr None
       else bindR (de_get_header_size buf element) (\<lambda>h.
         mapR (\<lambda>len. Some \<lparr>di_element = element, di_pos = ucast h, di_length = ucast len\<rparr>)
           (de_get_len buf element)))"

definition des_iterator_has_more :: "des_iterator \<Rightarrow> bool" where
  "des_iterator_has_more it \<longleftrightarrow> di_pos it < di_length it"

definition des_iterator_get_type :: "bytes \<Rightarrow> des_iterator \<Rightarrow> u8 cres" where
  "des_iterator_get_type buf it = de_get_element_type buf (di_element it + unat (di_pos it))"

definition des_iterator_get_element :: "des_iterator \<Rightarrow> nat option" where
  "des_iterator_get_element it =
     (if des_iterator_has_more it then Some (di_element it + unat (di_pos it)) else None)"

text \<open>The length is an \<^verbatim>\<open>int\<close>, and the sum is stored in 16 bits.\<close>

definition des_iterator_next :: "bytes \<Rightarrow> des_iterator \<Rightarrow> des_iterator cres" where
  "des_iterator_next buf it =
     bindR (de_get_len buf (di_element it + unat (di_pos it))) (\<lambda>len.
       mapR (\<lambda>p. it\<lparr>di_pos := word_of_int p\<rparr>) (i32 (uint (di_pos it) + i32_of_u32 len)))"

section \<open>The HID descriptor list\<close>

text \<open>The descriptor is copied with the length it claims, from the buffer into the device.\<close>

definition store_descriptor :: "bytes \<Rightarrow> nat \<Rightarrow> u32 \<Rightarrow> uni_hid_device \<Rightarrow> uni_hid_device cres" where
  "store_descriptor buf descriptor len d =
     (if length buf < descriptor + unat len then Inl Out_of_bounds
      else uni_hid_device_set_hid_descriptor (take (unat len) (drop descriptor buf)) d)"

definition string_body ::
    "bytes \<Rightarrow> des_iterator \<Rightarrow> uni_hid_device \<Rightarrow> (des_iterator \<times> uni_hid_device) cres" where
  "string_body buf it d =
     bindR (des_iterator_get_type buf it) (\<lambda>de_type.
       bindR (if de_type \<noteq> DE_STRING then Inr d
              else (case des_iterator_get_element it of
                      None \<Rightarrow> Inl Null_dereference
                    | Some element \<Rightarrow>
                        bindR (de_get_string buf element) (\<lambda>descriptor.
                          bindR (de_get_data_size buf element) (\<lambda>len.
                            case descriptor of None \<Rightarrow> Inl Null_dereference
                            | Some p \<Rightarrow> store_descriptor buf p len d))))
         (\<lambda>d'. mapR (\<lambda>it'. (it', d')) (des_iterator_next buf it)))"

partial_function (option) each_string ::
    "bytes \<Rightarrow> des_iterator \<Rightarrow> uni_hid_device \<Rightarrow> uni_hid_device cres option" where
  "each_string buf it d =
     (if \<not> des_iterator_has_more it then Some (Inr d)
      else (case string_body buf it d of
              Inl e \<Rightarrow> Some (Inl e)
            | Inr (it', d') \<Rightarrow> each_string buf it' d'))"

text \<open>
  The body of the outer loop. The inner iterator is initialised on an element whose type has
  just been tested.
\<close>

definition list_body ::
    "bytes \<Rightarrow> des_iterator \<Rightarrow> uni_hid_device \<Rightarrow> (des_iterator \<times> uni_hid_device) cres option" where
  "list_body buf it d =
     (case des_iterator_get_type buf it of
        Inl e \<Rightarrow> Some (Inl e)
      | Inr de_type \<Rightarrow>
          if de_type \<noteq> DE_DES then Some (mapR (\<lambda>it'. (it', d)) (des_iterator_next buf it))
          else (case des_iterator_init buf (di_element it + unat (di_pos it)) of
                  Inl e \<Rightarrow> Some (Inl e)
                | Inr None \<Rightarrow> Some (Inl Uninitialised_read)
                | Inr (Some inner) \<Rightarrow>
                    map_option (\<lambda>r. bindR r (\<lambda>d'. mapR (\<lambda>it'. (it', d')) (des_iterator_next buf it)))
                      (each_string buf inner d)))"

partial_function (option) each_descriptor ::
    "bytes \<Rightarrow> des_iterator \<Rightarrow> uni_hid_device \<Rightarrow> uni_hid_device cres option" where
  "each_descriptor buf it d =
     (if \<not> des_iterator_has_more it then Some (Inr d)
      else Option.bind (list_body buf it d) (\<lambda>r.
        case r of Inl e \<Rightarrow> Some (Inl e) | Inr (it', d') \<Rightarrow> each_descriptor buf it' d'))"

declare each_string.simps [code]
declare each_descriptor.simps [code]

text \<open>An attribute that is no sequence leaves the outer iterator uninitialised, and it is used.\<close>

definition read_descriptor_list :: "bytes \<Rightarrow> uni_hid_device \<Rightarrow> uni_hid_device cres option" where
  "read_descriptor_list buf d =
     (case des_iterator_init buf 0 of
        Inl e \<Rightarrow> Some (Inl e)
      | Inr None \<Rightarrow> Some (Inl Uninitialised_read)
      | Inr (Some it) \<Rightarrow> each_descriptor buf it d)"

section \<open>Well-formed answers\<close>

text \<open>
  An element with its length in one byte, or in two when it needs them. The encoder of the stack
  (\<^verbatim>\<open>de_add_data\<close>, \<^verbatim>\<open>de_create_sequence\<close>) does this for strings but gives every sequence two
  bytes: this is \<open>wide\<close>.
\<close>

definition one_length_byte :: "bool \<Rightarrow> u8 \<Rightarrow> nat \<Rightarrow> bool" where
  "one_length_byte wide ty n \<longleftrightarrow> n < 256 \<and> \<not> (wide \<and> ty = DE_DES)"

definition encode_header :: "bool \<Rightarrow> u8 \<Rightarrow> nat \<Rightarrow> bytes" where
  "encode_header wide ty n =
     (if one_length_byte wide ty n then [push_bit 3 ty OR DE_SIZE_VAR_8, of_nat n]
      else [push_bit 3 ty OR DE_SIZE_VAR_16, of_nat (n div 256), of_nat (n mod 256)])"

definition encode_element :: "bool \<Rightarrow> u8 \<Rightarrow> bytes \<Rightarrow> bytes" where
  "encode_element wide ty body = encode_header wide ty (length body) @ body"

text \<open>An entry of the list: the kind of descriptor (report, 0x22) and the descriptor.\<close>

definition encode_entry :: "bool \<Rightarrow> bytes \<Rightarrow> bytes" where
  "encode_entry wide ds = encode_element wide DE_DES ([0x08, 0x22] @ encode_element wide DE_STRING ds)"

definition encode_list :: "bool \<Rightarrow> bytes list \<Rightarrow> bytes" where
  "encode_list wide dss = encode_element wide DE_DES (concat (map (encode_entry wide) dss))"

lemma attribute_byte_at:
  "buf = pre @ xs @ post \<Longrightarrow> k < length xs \<Longrightarrow> attribute_byte buf (length pre + k) = Inr (xs ! k)"
  by (simp add: attribute_byte_def nth_append)

lemma attribute_byte_at_0:
  "buf = pre @ xs @ post \<Longrightarrow> xs \<noteq> [] \<Longrightarrow> attribute_byte buf (length pre) = Inr (xs ! 0)"
  using attribute_byte_at [of buf pre xs post 0] by simp

lemma two_bytes:
  assumes "n < 65536"
  shows "ucast (of_nat (n mod 256) :: u8) OR push_bit 8 (ucast (of_nat (n div 256) :: u8)) = (of_nat n :: u32)"
proof -
  have n: "n mod 256 = take_bit 8 n" "n div 256 = drop_bit 8 n"
    by (simp_all add: take_bit_eq_mod drop_bit_eq_div)
  have "n = take_bit 16 n" using assms by (simp add: take_bit_eq_mod)
  then have b: "bit n k \<Longrightarrow> k < 16" for k by (metis bit_take_bit_iff)
  show ?thesis unfolding n
    by (rule bit_word_eqI) (auto simp: bit_simps dest: b)
qed

lemma element_read:
  assumes "buf = pre @ encode_element wide ty body @ post" and "ty = DE_STRING \<or> ty = DE_DES" and "length body < 65000"
  shows "de_get_element_type buf (length pre) = Inr ty"
    "de_get_header_size buf (length pre) = Inr (of_nat (length (encode_header wide ty (length body))))"
    "de_get_data_size buf (length pre) = Inr (of_nat (length body))"
    "de_get_len buf (length pre) = Inr (of_nat (length (encode_element wide ty body)))"
proof -
  let ?h = "encode_header wide ty (length body)"
  have buf: "buf = pre @ ?h @ (body @ post)" using assms(1) by (simp add: encode_element_def)
  have ne: "?h \<noteq> []" by (simp add: encode_header_def)
  note b0 = attribute_byte_at_0 [OF buf ne]
  have ty: "drop_bit 3 (push_bit 3 ty OR DE_SIZE_VAR_8) = ty" "drop_bit 3 (push_bit 3 ty OR DE_SIZE_VAR_16) = ty"
    "(push_bit 3 ty OR DE_SIZE_VAR_8) AND 7 = DE_SIZE_VAR_8" "(push_bit 3 ty OR DE_SIZE_VAR_16) AND 7 = DE_SIZE_VAR_16"
    using assms(2) by (auto simp: DE_STRING_def DE_DES_def DE_SIZE_VAR_8_def DE_SIZE_VAR_16_def)
  show t: "de_get_element_type buf (length pre) = Inr ty"
    by (simp add: de_get_element_type_def b0) (simp add: encode_header_def ty del: drop_bit_or)
  have s: "de_get_size_type buf (length pre) = Inr (if one_length_byte wide ty (length body) then DE_SIZE_VAR_8 else DE_SIZE_VAR_16)"
    by (simp add: de_get_size_type_def b0) (simp add: encode_header_def ty)
  show h: "de_get_header_size buf (length pre) = Inr (of_nat (length ?h))"
    by (simp add: de_get_header_size_def s) (simp add: encode_header_def DE_SIZE_VAR_8_def DE_SIZE_VAR_16_def DE_SIZE_128_def)
  show n: "de_get_data_size buf (length pre) = Inr (of_nat (length body))"
  proof (cases "one_length_byte wide ty (length body)")
    case True
    then have "attribute_byte buf (length pre + 1) = Inr (of_nat (length body))"
      using attribute_byte_at [OF buf, of 1] by (simp add: encode_header_def)
    moreover have "ucast (of_nat (length body) :: u8) = (of_nat (length body) :: u32)"
      using True by (simp add: one_length_byte_def unsigned_of_nat take_bit_nat_eq_self)
    ultimately show ?thesis
      using True by (simp add: de_get_data_size_def t s)
  next
    case False
    then have "attribute_byte buf (length pre + 1) = Inr (of_nat (length body div 256))"
      "attribute_byte buf (length pre + 2) = Inr (of_nat (length body mod 256))"
      using attribute_byte_at [OF buf, of 1] attribute_byte_at [OF buf, of 2] by (simp_all add: encode_header_def)
    then have "big_endian_read_16 buf (length pre + 1) = Inr (of_nat (length body))"
      using two_bytes [of "length body"] assms(3) by (simp add: big_endian_read_16_def)
    with False show ?thesis
      by (simp add: de_get_data_size_def t s) (simp add: DE_SIZE_VAR_8_def DE_SIZE_VAR_16_def)
  qed
  show "de_get_len buf (length pre) = Inr (of_nat (length (encode_element wide ty body)))"
    by (simp add: de_get_len_def h n encode_element_def)
qed

lemma next_at:
  assumes "de_get_len buf (di_element it + p) = Inr (of_nat n)" and "di_pos it = of_nat p" and "p + n < 65536"
  shows "des_iterator_next buf it = Inr (it\<lparr>di_pos := of_nat (p + n)\<rparr>)"
proof -
  have "unat (of_nat p :: u16) = p" "uint (of_nat p :: u16) = int p"
    using assms(3) by (simp_all add: unsigned_of_nat take_bit_nat_eq_self)
  moreover have "i32_of_u32 (of_nat n) = int n"
  proof -
    have "in_i32 (int n)" using assms(3) by (simp add: in_i32_def)
    from i32_of_u32_of_i32 [OF this] show ?thesis by (simp add: u32_of_i32_def)
  qed
  moreover have "in_i32 (int p + int n)" using assms(3) by (simp add: in_i32_def)
  ultimately show ?thesis
    using assms(1,2) by (simp add: des_iterator_next_def i32_ok)
qed

lemma encode_header_length: "length (encode_header wide ty n) = (if one_length_byte wide ty n then 2 else 3)"
  by (simp add: encode_header_def)

lemma iterator_init:
  assumes "buf = pre @ encode_element wide DE_DES body @ post" and "length body < 65000"
  shows "des_iterator_init buf (length pre) = Inr (Some \<lparr>di_element = length pre,
    di_pos = of_nat (length (encode_header wide DE_DES (length body))),
    di_length = of_nat (length (encode_element wide DE_DES body))\<rparr>)"
proof -
  have c: "n < 65536 \<Longrightarrow> ucast (of_nat n :: u32) = (of_nat n :: u16)" for n
    by (simp add: unsigned_of_nat take_bit_nat_eq_self)
  have "length (encode_element wide DE_DES body) < 65536" "length (encode_header wide DE_DES (length body)) < 65536"
    using assms(2) by (simp_all add: encode_element_def encode_header_def)
  then show ?thesis
    using element_read [OF assms(1) disjI2 [OF refl] assms(2)]
    by (simp add: des_iterator_init_def c del: of_nat_add)
qed

lemma has_more_of_nat:
  "\<lbrakk>p < 65536; n < 65536\<rbrakk> \<Longrightarrow>
     des_iterator_has_more \<lparr>di_element = e, di_pos = of_nat p, di_length = of_nat n\<rparr> \<longleftrightarrow> p < n"
  by (simp add: des_iterator_has_more_def word_less_nat_alt unsigned_of_nat take_bit_nat_eq_self)

text \<open>The inner loop stores the descriptor of one entry.\<close>

lemma entry_read:
  assumes "buf = pre @ encode_entry wide ds @ post" and "length buf < 60000"
  shows "\<exists>it. des_iterator_init buf (length pre) = Inr (Some it)
    \<and> each_string buf it d = Some (uni_hid_device_set_hid_descriptor ds d)"
proof -
  let ?str = "encode_element wide DE_STRING ds"
  define body where "body = [0x08, 0x22] @ ?str"
  define hdr where "hdr = encode_header wide DE_DES (length body)"
  define h where "h = length hdr"
  define l where "l = length (encode_element wide DE_DES body)"
  let ?it = "\<lambda>p. \<lparr>di_element = length pre, di_pos = of_nat p, di_length = of_nat l\<rparr>"
  have buf: "buf = pre @ encode_element wide DE_DES body @ post" using assms(1) by (simp add: encode_entry_def body_def)
  have flat: "encode_element wide DE_DES body = hdr @ [0x08, 0x22] @ ?str"
    by (simp add: encode_element_def hdr_def body_def)
  have lens: "length pre + l + length post = length buf" "l = h + 2 + length ?str"
    using buf by (simp_all add: l_def h_def flat)
  have init: "des_iterator_init buf (length pre) = Inr (Some (?it h))"
    unfolding h_def hdr_def l_def
    by (rule iterator_init [OF buf]) (use lens assms(2) in \<open>simp add: l_def encode_element_def\<close>)
  have small: "x < 65536 \<Longrightarrow> unat (of_nat x :: u16) = x" for x
    by (simp add: unsigned_of_nat take_bit_nat_eq_self)
  have buf1: "buf = (pre @ hdr) @ ([0x08, 0x22] @ (?str @ post))"
    using buf by (simp add: flat)
  have b8: "attribute_byte buf (length pre + h) = Inr 0x08"
    using attribute_byte_at_0 [of buf "pre @ hdr" "[0x08, 0x22]" "?str @ post"] buf1 by (simp add: h_def)
  have ty1: "de_get_element_type buf (length pre + h) = Inr DE_UINT"
    by (simp add: de_get_element_type_def b8 DE_UINT_def)
  have len1: "de_get_len buf (length pre + h) = Inr 2"
    by (simp add: de_get_len_def de_get_header_size_def de_get_data_size_def de_get_size_type_def
        de_get_element_type_def b8 DE_SIZE_128_def DE_SIZE_VAR_8_def DE_SIZE_VAR_16_def DE_SIZE_VAR_32_def DE_NIL_def)
  have step1: "string_body buf (?it h) d = Inr (?it (h + 2), d)"
    using next_at [of buf "?it h" h 2] len1 lens assms(2) ty1
    by (simp add: string_body_def des_iterator_get_type_def small DE_UINT_def DE_STRING_def)
  have buf2: "buf = (pre @ hdr @ [0x08, 0x22]) @ ?str @ post"
    using buf by (simp add: flat)
  have "length ds < 65000" using lens assms(2) by (simp add: encode_element_def)
  note str = element_read [OF buf2 disjI1 [OF refl] this]
  let ?o = "length pre + (h + 2)"
  have str': "de_get_element_type buf ?o = Inr DE_STRING" "de_get_len buf ?o = Inr (of_nat (length ?str))"
    "de_get_data_size buf ?o = Inr (of_nat (length ds))"
    "de_get_header_size buf ?o = Inr (of_nat (length (encode_header wide DE_STRING (length ds))))"
    using str by (simp_all add: add.assoc h_def)
  let ?hs = "length (encode_header wide DE_STRING (length ds))"
  have small32: "x < 65536 \<Longrightarrow> unat (of_nat x :: u32) = x" for x
    by (simp add: unsigned_of_nat take_bit_nat_eq_self)
  have buf3: "buf = (pre @ hdr @ [0x08, 0x22] @ encode_header wide DE_STRING (length ds)) @ ds @ post"
    using buf2 by (simp add: encode_element_def)
  have slice: "take (length ds) (drop (?o + ?hs) buf) = ds" "?o + ?hs + length ds \<le> length buf"
    by (subst buf3; simp add: h_def)+
  have hs: "?hs < 65536" "length ds < 65536" using lens assms(2) by (simp_all add: encode_element_def encode_header_length)
  have step2: "string_body buf (?it (h + 2)) d =
      mapR (\<lambda>d'. (?it l, d')) (uni_hid_device_set_hid_descriptor ds d)"
  proof -
    have "des_iterator_has_more (?it (h + 2))"
      using lens assms(2) by (subst has_more_of_nat) (simp_all add: encode_element_def encode_header_length)
    moreover have "des_iterator_next buf (?it (h + 2)) = Inr (?it l)"
      using next_at [of buf "?it (h + 2)" "h + 2" "length ?str"] str'(2) lens assms(2) by simp
    moreover have "unat (of_nat (h + 2) :: u16) = h + 2" using lens assms(2) by (intro small) simp
    ultimately show ?thesis
      using str' slice hs
      by (cases "uni_hid_device_set_hid_descriptor ds d")
        (simp_all add: string_body_def des_iterator_get_type_def des_iterator_get_element_def de_get_string_def
          store_descriptor_def small32 del: of_nat_add of_nat_Suc)
  qed
  have more1: "des_iterator_has_more (?it h)" "des_iterator_has_more (?it (h + 2))" "\<not> des_iterator_has_more (?it l)"
    using lens assms(2) by (subst has_more_of_nat; simp add: encode_element_def encode_header_length)+
  have "each_string buf (?it h) d = Some (uni_hid_device_set_hid_descriptor ds d)"
  proof (cases "uni_hid_device_set_hid_descriptor ds d")
    case (Inl e)
    then show ?thesis using more1 step1 step2 by (simp add: each_string.simps)
  next
    case (Inr d')
    have "each_string buf (?it l) d' = Some (Inr d')" using more1(3) by (subst each_string.simps) simp
    with Inr show ?thesis using more1(1,2) step1 step2 by (simp add: each_string.simps)
  qed
  with init show ?thesis by blast
qed

lemma string_step_on_entry:
  assumes "buf = pre @ encode_entry wide ds @ post" and "length buf < 60000"
    and "it = \<lparr>di_element = 0, di_pos = of_nat (length pre), di_length = n\<rparr>"
  shows "list_body buf it d =
    Some (mapR (\<lambda>d'. (it\<lparr>di_pos := of_nat (length pre + length (encode_entry wide ds))\<rparr>, d'))
            (uni_hid_device_set_hid_descriptor ds d))"
proof -
  let ?body = "[0x08, 0x22] @ encode_element wide DE_STRING ds"
  have buf: "buf = pre @ encode_element wide DE_DES ?body @ post" using assms(1) by (simp add: encode_entry_def)
  then have len: "length pre + length (encode_element wide DE_DES ?body) \<le> length buf" by simp
  then have "length ?body < 65000" using assms(2) by (simp add: encode_element_def)
  note el = element_read [OF buf disjI2 [OF refl] this]
  have "unat (of_nat (length pre) :: u16) = length pre"
    using len assms(2) by (simp add: unsigned_of_nat take_bit_nat_eq_self)
  moreover obtain inner where "des_iterator_init buf (length pre) = Inr (Some inner)"
    "each_string buf inner d = Some (uni_hid_device_set_hid_descriptor ds d)"
    using entry_read [OF assms(1,2), of d] by blast
  moreover have "des_iterator_next buf it = Inr (it\<lparr>di_pos := of_nat (length pre + length (encode_entry wide ds))\<rparr>)"
    using next_at [of buf it "length pre" "length (encode_entry wide ds)"] el(4) len assms(2,3)
    by (simp add: encode_entry_def)
  ultimately show ?thesis
    using el(1) assms(3)
    by (cases "uni_hid_device_set_hid_descriptor ds d")
      (simp_all add: list_body_def des_iterator_get_type_def)
qed

lemma entries_read:
  assumes "buf = pre @ concat (map (encode_entry wide) dss) @ post" and "length buf < 60000"
    and "n = of_nat (length (pre @ concat (map (encode_entry wide) dss)))"
  shows "each_descriptor buf \<lparr>di_element = 0, di_pos = of_nat (length pre), di_length = n\<rparr> d
    = Some (run_steps uni_hid_device_set_hid_descriptor dss d)"
  using assms
proof (induction dss arbitrary: pre d)
  case Nil
  then show ?case by (subst each_descriptor.simps) (simp add: des_iterator_has_more_def)
next
  case (Cons ds dss)
  let ?it = "\<lambda>p. \<lparr>di_element = 0, di_pos = of_nat (length p), di_length = n\<rparr>"
  let ?rest = "concat (map (encode_entry wide) dss)"
  have buf: "buf = pre @ encode_entry wide ds @ (?rest @ post)" "buf = (pre @ encode_entry wide ds) @ ?rest @ post"
    using Cons.prems(1) by simp_all
  have n: "n = of_nat (length ((pre @ encode_entry wide ds) @ ?rest))" using Cons.prems(3) by simp
  have pos: "0 < length (encode_entry wide ds)"
    by (simp add: encode_entry_def encode_element_def encode_header_def)
  have "des_iterator_has_more (?it pre)"
    unfolding n using buf(1) Cons.prems(2) pos by (subst has_more_of_nat) auto
  moreover have "list_body buf (?it pre) d =
      Some (mapR (\<lambda>d'. (?it (pre @ encode_entry wide ds), d')) (uni_hid_device_set_hid_descriptor ds d))"
    using string_step_on_entry [OF buf(1) Cons.prems(2), of "?it pre" n d] by simp
  moreover have "each_descriptor buf (?it (pre @ encode_entry wide ds)) d'
      = Some (run_steps uni_hid_device_set_hid_descriptor dss d')" for d'
    by (rule Cons.IH [OF buf(2) Cons.prems(2) n])
  ultimately show ?case
    by (subst each_descriptor.simps) (cases "uni_hid_device_set_hid_descriptor ds d"; simp)
qed

lemma list_read:
  assumes "buf = encode_list wide dss @ rest" and "length buf = MAX_ATTRIBUTE_VALUE_SIZE"
  shows "read_descriptor_list buf d = Some (run_steps uni_hid_device_set_hid_descriptor dss d)"
proof -
  let ?body = "concat (map (encode_entry wide) dss)"
  let ?hdr = "encode_header wide DE_DES (length ?body)"
  have buf: "buf = [] @ encode_element wide DE_DES ?body @ rest" using assms(1) by (simp add: encode_list_def)
  have small: "length buf < 60000" using assms(2) by (simp add: MAX_ATTRIBUTE_VALUE_SIZE_def)
  then have "length ?body < 65000" using buf by (simp add: encode_element_def)
  from iterator_init [OF buf this]
  have "des_iterator_init buf 0 = Inr (Some \<lparr>di_element = 0, di_pos = of_nat (length ?hdr),
      di_length = of_nat (length (?hdr @ ?body))\<rparr>)"
    by (simp add: encode_element_def)
  moreover have "buf = ?hdr @ ?body @ rest" using buf by (simp add: encode_element_def)
  ultimately show ?thesis
    using entries_read [where buf=buf and pre="?hdr" and dss=dss and post=rest and wide=wide and d=d] small
    by (simp add: read_descriptor_list_def)
qed

lemma run_set_descriptors:
  assumes "\<forall>ds \<in> set dss. length ds \<le> HID_MAX_DESCRIPTOR_LEN" and "dss \<noteq> []"
  shows "\<exists>d'. run_steps uni_hid_device_set_hid_descriptor dss d = Inr d'
    \<and> unat (hd_hid_descriptor_len d') = length (last dss)
    \<and> take (length (last dss)) (hd_hid_descriptor d') = last dss \<and> uni_hid_device_has_hid_descriptor d'"
  using assms
proof (induction dss arbitrary: d)
  case Nil
  then show ?case by simp
next
  case (Cons ds dss)
  let ?d = "set_flag FLAGS_HAS_HID_DESCRIPTOR
     (d\<lparr>hd_hid_descriptor := ds @ drop (length ds) (hd_hid_descriptor d),
        hd_hid_descriptor_len := of_nat (length ds)\<rparr>)"
  have set: "uni_hid_device_set_hid_descriptor ds d = Inr ?d"
    using Cons.prems(1) by (simp add: uni_hid_device_set_hid_descriptor_def)
  show ?case
  proof (cases "dss = []")
    case True
    have "unat (of_nat (length ds) :: u16) = length ds"
      using Cons.prems(1) by (simp add: unsigned_of_nat take_bit_nat_eq_self HID_MAX_DESCRIPTOR_LEN_def)
    moreover have "uni_hid_device_has_hid_descriptor ?d"
      by (simp only: uni_hid_device_has_hid_descriptor_def has_flag_def FLAGS_HAS_HID_DESCRIPTOR_def and_BIT_ne_0)
        (simp add: set_flag_def bit_or_iff bit_BIT)
    ultimately show ?thesis using True set by (simp add: set_flag_def)
  next
    case False
    with Cons.IH [of ?d] Cons.prems(1) set show ?thesis by simp
  qed
qed

lemma length_encode_list:
  "ds \<in> set dss \<Longrightarrow> length ds \<le> length (encode_list wide dss)"
proof -
  assume "ds \<in> set dss"
  then have "length (encode_entry wide ds) \<le> length (concat (map (encode_entry wide) dss))"
    by (induction dss) auto
  moreover have "length ds \<le> length (encode_entry wide ds)"
    by (simp add: encode_entry_def encode_element_def)
  ultimately show ?thesis by (simp add: encode_list_def encode_element_def)
qed

text \<open>C3: from an attribute value that is a list of descriptors, encoded with the shortest lengths or as
  the stack's own encoder does, with two bytes for every sequence, the device gets the last one,
  unchanged and with its length, whatever stale bytes follow the value in the buffer.\<close>
theorem descriptor_list_round_trip:
  assumes "dss \<noteq> []" and "length (encode_list wide dss @ stale) = MAX_ATTRIBUTE_VALUE_SIZE"
  shows "\<exists>d'. read_descriptor_list (encode_list wide dss @ stale) d = Some (Inr d')
    \<and> unat (hd_hid_descriptor_len d') = length (last dss)
    \<and> take (length (last dss)) (hd_hid_descriptor d') = last dss
    \<and> uni_hid_device_has_hid_descriptor d'"
proof -
  have "\<forall>ds \<in> set dss. length ds \<le> HID_MAX_DESCRIPTOR_LEN"
    using length_encode_list [of _ dss wide] assms(2)
    by (fastforce simp: MAX_ATTRIBUTE_VALUE_SIZE_def HID_MAX_DESCRIPTOR_LEN_def)
  from run_set_descriptors [OF this assms(1), of d] list_read [OF refl assms(2), of d]
  show ?thesis by auto
qed

definition short_descriptors :: "bytes list" where
  "short_descriptors = [[0x05, 0x01, 0x09, 0x05, 0xa1, 0x01, 0xc0]]"

theorem descriptor_list_round_trip_witness:
  "\<exists>d'. read_descriptor_list (encode_list True short_descriptors @ replicate 495 0) init_device = Some (Inr d')
     \<and> take 7 (hd_hid_descriptor d') = [0x05, 0x01, 0x09, 0x05, 0xa1, 0x01, 0xc0]"
proof -
  have len: "length (encode_list True short_descriptors @ replicate 495 0) = MAX_ATTRIBUTE_VALUE_SIZE"
    by (simp add: short_descriptors_def encode_list_def encode_entry_def encode_element_def encode_header_length
        one_length_byte_def MAX_ATTRIBUTE_VALUE_SIZE_def) (simp add: DE_STRING_def DE_DES_def)
  have ds: "short_descriptors \<noteq> []" "last short_descriptors = [0x05, 0x01, 0x09, 0x05, 0xa1, 0x01, 0xc0]"
    "length (last short_descriptors) = 7"
    by (simp_all add: short_descriptors_def)
  show ?thesis
    using descriptor_list_round_trip [OF ds(1) len, of init_device, unfolded ds(3)] unfolding ds(2)
    by (elim exE conjE, intro exI conjI)
qed

section \<open>Malformed answers\<close>

lemma each_descriptor_stuck:
  assumes "des_iterator_has_more it" and "list_body buf it d = Some (Inr (it, d))"
  shows "each_descriptor buf it d = None"
proof -
  have "\<not> (buf' = buf \<and> it' = it \<and> d' = d)" if "each_descriptor buf' it' d' = Some r" for buf' it' d' r
  proof (rule each_descriptor.raw_induct [where P = "\<lambda>buf' it' d' r. \<not> (buf' = buf \<and> it' = it \<and> d' = d)", OF _ that])
    fix each buf' it' d' r
    assume IH: "\<And>buf' it' d' r. each buf' it' d' = Some r \<Longrightarrow> \<not> (buf' = buf \<and> it' = it \<and> d' = d)"
      and step: "(if \<not> des_iterator_has_more it' then Some (Inr d')
        else Option.bind (list_body buf' it' d') (\<lambda>r.
          case r of Inl e \<Rightarrow> Some (Inl e) | Inr (it', d') \<Rightarrow> each buf' it' d')) = Some r"
    show "\<not> (buf' = buf \<and> it' = it \<and> d' = d)"
    proof
      assume "buf' = buf \<and> it' = it \<and> d' = d"
      with step assms have "each buf it d = Some r" by simp
      with IH show False by blast
    qed
  qed
  then show ?thesis by (cases "each_descriptor buf it d") auto
qed

lemma overlong_descriptor:
  "read_descriptor_list ([0x35, 0x05, 0x35, 0x03, 0x26, hi, lo] @ replicate 505 b) d
    = Some (if 505 < 256 * unat hi + unat lo then Inl Out_of_bounds
            else uni_hid_device_set_hid_descriptor (replicate (256 * unat hi + unat lo) b) d)"
proof -
  define n where "n = 256 * unat hi + unat lo"
  define buf where "buf = [0x35, 0x05, 0x35, 0x03, 0x26, hi, lo] @ replicate 505 b"
  let ?outer = "\<lambda>p. \<lparr>di_element = 0, di_pos = p, di_length = 7\<rparr>"
  let ?inner = "\<lambda>p. \<lparr>di_element = 2, di_pos = p, di_length = 5\<rparr>"
  have "unat hi < 256" "unat lo < 256"
    using unsigned_less [of hi, where ?'a = nat] unsigned_less [of lo, where ?'a = nat] by simp_all
  then have n: "n < 65536" "n mod 256 = unat lo" "n div 256 = unat hi" by (simp_all add: n_def)
  have bytes: "attribute_byte buf 0 = Inr 0x35" "attribute_byte buf (Suc 0) = Inr 0x05" "attribute_byte buf 2 = Inr 0x35"
    "attribute_byte buf 3 = Inr 0x03" "attribute_byte buf 4 = Inr 0x26" "attribute_byte buf 5 = Inr hi"
    "attribute_byte buf 6 = Inr lo"
    by (simp_all add: buf_def attribute_byte_def)
  note reads = de_get_element_type_def de_get_size_type_def de_get_header_size_def de_get_data_size_def de_get_len_def
    DE_NIL_def DE_STRING_def DE_DES_def DE_SIZE_128_def DE_SIZE_VAR_8_def DE_SIZE_VAR_16_def DE_SIZE_VAR_32_def bytes
  have size: "big_endian_read_16 buf 5 = Inr (of_nat n)"
    using two_bytes [OF n(1)] by (simp add: big_endian_read_16_def bytes n)
  have len4: "de_get_len buf 4 = Inr (of_nat (3 + n))"
    by (simp add: reads size)
  have len2: "de_get_len buf 2 = Inr (of_nat 5)"
    by (simp add: reads)
  have "unat (of_nat n :: u32) = n" using n(1) by (simp add: unsigned_of_nat take_bit_nat_eq_self)
  then have store: "store_descriptor buf 7 (of_nat n) d =
      (if 505 < n then Inl Out_of_bounds else uni_hid_device_set_hid_descriptor (replicate n b) d)"
    by (simp add: store_descriptor_def buf_def min_def)
  have next_string: "des_iterator_next buf (?inner 2) = Inr (?inner (of_nat (5 + n)))" if "n \<le> 505"
    using next_at [of buf "?inner 2" 2 "3 + n"] len4 that by (simp add: add.assoc)
  have body: "string_body buf (?inner 2) d =
      bindR (store_descriptor buf 7 (of_nat n) d) (\<lambda>d'. mapR (\<lambda>it'. (it', d')) (des_iterator_next buf (?inner 2)))"
    by (simp add: string_body_def des_iterator_get_type_def des_iterator_get_element_def des_iterator_has_more_def
        de_get_string_def reads size)
  have stop: "\<not> des_iterator_has_more (?inner (of_nat (5 + n)))" if "n \<le> 505"
    using has_more_of_nat [of "5 + n" 5 2] that by simp
  have inner: "each_string buf (?inner 2) d = Some (store_descriptor buf 7 (of_nat n) d)"
  proof (cases "store_descriptor buf 7 (of_nat n) d")
    case (Inl e)
    then show ?thesis by (subst each_string.simps) (simp add: des_iterator_has_more_def body)
  next
    case (Inr d')
    then have "n \<le> 505" using store by (auto split: if_splits)
    moreover from this have "each_string buf (?inner (of_nat (5 + n))) d' = Some (Inr d')"
      using stop by (subst each_string.simps) simp
    ultimately show ?thesis
      using Inr next_string by (subst each_string.simps) (simp add: des_iterator_has_more_def body)
  qed
  have init: "des_iterator_init buf 0 = Inr (Some (?outer 2))" "des_iterator_init buf 2 = Inr (Some (?inner 2))"
    by (simp_all add: des_iterator_init_def reads)
  have "des_iterator_next buf (?outer 2) = Inr (?outer 7)"
    using next_at [of buf "?outer 2" 2 5] len2 by (simp add: numeral_2_eq_2)
  then have "list_body buf (?outer 2) d = Some (mapR (\<lambda>d'. (?outer 7, d')) (store_descriptor buf 7 (of_nat n) d))"
    using inner init(2)
    by (cases "store_descriptor buf 7 (of_nat n) d")
      (simp_all add: list_body_def des_iterator_get_type_def de_get_element_type_def DE_DES_def bytes
        flip: numeral_2_eq_2)
  moreover have "each_descriptor buf (?outer 7) d' = Some (Inr d')" for d'
    by (subst each_descriptor.simps) (simp add: des_iterator_has_more_def)
  ultimately have "each_descriptor buf (?outer 2) d = Some (store_descriptor buf 7 (of_nat n) d)"
    by (subst each_descriptor.simps)
      (cases "store_descriptor buf 7 (of_nat n) d"; simp add: des_iterator_has_more_def)
  then show ?thesis
    unfolding read_descriptor_list_def buf_def [symmetric] init(1) n_def [symmetric] by (simp add: store)
qed

text \<open>C4: a device controls what becomes of the loop. An element that claims 0xfffffffb bytes has
  length zero in 32 bits, and the loop never ends. A descriptor is copied with the length it
  claims, and from 506 on it is read behind the buffer and written behind the array of the
  device. A value that is no sequence is read through an iterator that was never set.\<close>
theorem malformed_descriptor_lists:
  "read_descriptor_list ([0x35, 0x05, 0x27, 0xff, 0xff, 0xff, 0xfb] @ rest) d = None
   \<and> read_descriptor_list ([0x35, 0x05, 0x35, 0x03, 0x26, hi, lo] @ replicate 505 b) d
      = Some (if 505 < 256 * unat hi + unat lo then Inl Out_of_bounds
              else uni_hid_device_set_hid_descriptor (replicate (256 * unat hi + unat lo) b) d)
   \<and> read_descriptor_list (0x08 # rest) d = Some (Inl Uninitialised_read)"
  (is "?hang \<and> ?overrun \<and> ?unset")
proof (intro conjI)
  note defs = attribute_byte_def de_get_element_type_def de_get_size_type_def de_get_header_size_def
    de_get_data_size_def de_get_len_def big_endian_read_32_def big_endian_read_16_def des_iterator_init_def
    des_iterator_has_more_def des_iterator_get_type_def des_iterator_next_def DE_NIL_def DE_STRING_def DE_DES_def
    DE_SIZE_128_def DE_SIZE_VAR_8_def DE_SIZE_VAR_16_def DE_SIZE_VAR_32_def
  let ?buf = "[0x35, 0x05, 0x27, 0xff, 0xff, 0xff, 0xfb] @ rest"
  let ?it = "\<lparr>di_element = 0, di_pos = 2, di_length = 7\<rparr>"
  have "des_iterator_init ?buf 0 = Inr (Some ?it)"
    by (simp add: defs)
  moreover have "list_body ?buf ?it d = Some (Inr (?it, d))"
    by (simp add: list_body_def defs i32_of_u32_def i32_def in_i32_def)
  moreover have "des_iterator_has_more ?it" by (simp add: defs)
  ultimately show ?hang by (simp add: read_descriptor_list_def each_descriptor_stuck)
  show ?unset by (simp add: read_descriptor_list_def defs)
  show ?overrun by (rule overlong_descriptor)
qed

end
