(* ===== verification/Bt_Connection.thy ===== *)
theory Bt_Connection
  imports Hid_Lifecycle Sdp_Elements
begin

text \<open>
  The connection of a classic Bluetooth controller: the state machine and the event handlers of
  \<^verbatim>\<open>components/bluepad32/bt/uni_bt_bredr.c\<close>, the SDP queries of \<^verbatim>\<open>bt/uni_bt_sdp.c\<close> and the
  dispatch of \<^verbatim>\<open>bt/uni_bt.c\<close>, over the device table of \<open>Hid_Lifecycle\<close>.

  An event is the decoded content of a packet. What BTstack answers to the calls of a handler
  comes with the event, as the record \<open>stack_answers\<close>, and the calls are recorded. The drivers
  are called through function pointers, and what they do with a report is part of the record
  \<open>bt_env\<close>, with the platform and the allow list. The low energy handlers are not in this theory.
\<close>

section \<open>The stack\<close>

definition PSM_HID_CONTROL :: u16 where "PSM_HID_CONTROL = 0x11"
definition PSM_HID_INTERRUPT :: u16 where "PSM_HID_INTERRUPT = 0x13"
definition BLUETOOTH_SERVICE_CLASS_PNP_INFORMATION :: u16 where
  "BLUETOOTH_SERVICE_CLASS_PNP_INFORMATION = 0x1200"
definition BLUETOOTH_SERVICE_CLASS_HUMAN_INTERFACE_DEVICE_SERVICE :: u16 where
  "BLUETOOTH_SERVICE_CLASS_HUMAN_INTERFACE_DEVICE_SERVICE = 0x1124"
definition BLUETOOTH_ATTRIBUTE_VENDOR_ID :: u16 where "BLUETOOTH_ATTRIBUTE_VENDOR_ID = 0x0201"
definition BLUETOOTH_ATTRIBUTE_PRODUCT_ID :: u16 where "BLUETOOTH_ATTRIBUTE_PRODUCT_ID = 0x0202"
definition BLUETOOTH_ATTRIBUTE_HID_DESCRIPTOR_LIST :: u16 where
  "BLUETOOTH_ATTRIBUTE_HID_DESCRIPTOR_LIST = 0x0206"
definition UNI_BT_CLOCK_OFFSET_VALID :: u16 where "UNI_BT_CLOCK_OFFSET_VALID = BIT 15"
definition UNI_BT_COD_MINOR_KEYBOARD_AND_MICE :: u32 where "UNI_BT_COD_MINOR_KEYBOARD_AND_MICE = 0xc0"

text \<open>
  \<open>st_l2cap_create\<close> gives the status and the channel id that \<^verbatim>\<open>l2cap_create_channel\<close> stores through
  its pointer, if it does.
\<close>

record stack_answers =
  st_gap :: gap_types
  st_l2cap_create :: "bytes \<Rightarrow> u16 \<Rightarrow> u8 \<times> u16 option"
  st_sdp_query :: "bytes \<Rightarrow> u16 \<Rightarrow> u8"
  st_can_send :: bool
  st_local_addr :: bytes

datatype bt_call =
    Remote_name_request bytes u8 u16
  | Create_channel bytes u16
  | Sdp_query bytes u16
  | Accept_connection u16
  | Decline_connection u16
  | Drop_link_key bytes
  | Pin_code_response bytes bytes
  | Ds3_clone_controller nat

text \<open>
  The context of the SDP timer is the device it was started for; \<open>None\<close> is a timer that is not
  registered.
\<close>

record 'p bt_world =
  bw_hid :: "'p hid_world"
  bw_sdp_device :: "nat option"
  bw_sdp_timer :: "nat option"
  bw_sdp_attribute_value :: bytes
  bw_allow_incoming :: bool
  bw_calls :: "bt_call list"

record 'p bt_env =
  be_plat :: "'p uni_platform"
  be_allowed :: "bytes \<Rightarrow> bool"
  be_on_device_discovered :: "(bytes \<Rightarrow> u16 \<Rightarrow> u8 \<Rightarrow> uni_error) option"
  be_parse_input_report :: "nat \<Rightarrow> bytes \<Rightarrow> 'p hid_world \<Rightarrow> 'p hid_world cres"
  be_parse_feature_report :: "nat \<Rightarrow> bytes \<Rightarrow> 'p hid_world \<Rightarrow> 'p hid_world cres"

definition on_hid :: "('p hid_world \<Rightarrow> 'p hid_world) \<Rightarrow> 'p bt_world \<Rightarrow> 'p bt_world" where
  "on_hid f b = b\<lparr>bw_hid := f (bw_hid b)\<rparr>"

definition on_hidR :: "('p hid_world \<Rightarrow> 'p hid_world cres) \<Rightarrow> 'p bt_world \<Rightarrow> 'p bt_world cres" where
  "on_hidR f b = mapR (\<lambda>w. b\<lparr>bw_hid := w\<rparr>) (f (bw_hid b))"

definition bt_call :: "bt_call \<Rightarrow> 'p bt_world \<Rightarrow> 'p bt_world" where
  "bt_call c b = b\<lparr>bw_calls := bw_calls b @ [c]\<rparr>"

definition bdev :: "'p bt_world \<Rightarrow> nat \<Rightarrow> uni_hid_device" where
  "bdev b i = dev (bw_hid b) i"

definition set_state :: "nat \<Rightarrow> uni_bt_conn_state \<Rightarrow> 'p bt_world \<Rightarrow> 'p bt_world" where
  "set_state i state = on_hid (upd_conn i (uni_bt_conn_set_state state))"

definition set_sdp_query_type :: "nat \<Rightarrow> uni_sdp_query_type \<Rightarrow> 'p bt_world \<Rightarrow> 'p bt_world" where
  "set_sdp_query_type i ty = on_hid (upd_dev i (\<lambda>d. d\<lparr>hd_sdp_query_type := ty\<rparr>))"

definition disconnect_device :: "'p bt_env \<Rightarrow> stack_answers \<Rightarrow> nat \<Rightarrow> 'p bt_world \<Rightarrow> 'p bt_world cres" where
  "disconnect_device env st i = on_hidR (disconnect_and_delete (be_plat env) (st_gap st) i)"

section \<open>Names\<close>

definition strcmp_eq :: "string \<Rightarrow> bytes \<Rightarrow> bool" where
  "strcmp_eq s name \<longleftrightarrow> ascii s = c_string name"

definition DUALSHOCK3_VID :: u16 where "DUALSHOCK3_VID = 0x054c"
definition DUALSHOCK3_PID :: u16 where "DUALSHOCK3_PID = 0x0268"
definition NINTENDO_VID :: u16 where "NINTENDO_VID = 0x057e"

definition set_ids :: "u16 \<Rightarrow> u16 \<Rightarrow> uni_hid_device \<Rightarrow> uni_hid_device" where
  "set_ids vid pid d = uni_hid_device_set_product_id pid (uni_hid_device_set_vendor_id vid d)"

text \<open>The flag \<^verbatim>\<open>clone_controller\<close> is in the data of the driver: setting it is recorded.\<close>

definition uni_hid_parser_ds3_does_name_match :: "nat \<Rightarrow> bytes \<Rightarrow> 'p bt_world \<Rightarrow> bool \<times> 'p bt_world" where
  "uni_hid_parser_ds3_does_name_match i name b =
     (let found = on_hid (upd_dev i (set_ids DUALSHOCK3_VID DUALSHOCK3_PID)) in
      if strcmp_eq ''Navigation Controller'' name then (True, found b)
      else if strncmp_eq 15 (ascii ''PLAYSTATION(R)3'') name
      then (True, found (if \<not> strcmp_eq ''PLAYSTATION(R)3 Controller'' name
                         then bt_call (Ds3_clone_controller i) b else b))
      else (False, b))"

definition switch_names :: "(string \<times> u16 \<times> u16) list" where
  "switch_names = [
     (''Pro Controller'', NINTENDO_VID, 0x2009),
     (''Joy-Con (L)'', NINTENDO_VID, 0x2006),
     (''Joy-Con (R)'', NINTENDO_VID, 0x2007),
     (''SNES Controller'', NINTENDO_VID, 0x2017)]"

definition uni_hid_parser_switch_does_name_match :: "nat \<Rightarrow> bytes \<Rightarrow> 'p bt_world \<Rightarrow> bool \<times> 'p bt_world" where
  "uni_hid_parser_switch_does_name_match i name b =
     (case List.find (\<lambda>(n, vid, pid). strcmp_eq n name) switch_names of
        Some (n, vid, pid) \<Rightarrow> (True, on_hid (upd_dev i (set_ids vid pid)) b)
      | None \<Rightarrow> (False, b))"

definition guess_type :: "nat \<Rightarrow> 'p bt_world \<Rightarrow> 'p bt_world cres" where
  "guess_type i b =
     mapR (\<lambda>d. on_hid (upd_dev i (\<lambda>_. d)) b) (uni_hid_device_guess_controller_type_from_pid_vid (bdev b i))"

definition uni_hid_device_guess_controller_type_from_name ::
    "nat \<Rightarrow> bytes \<Rightarrow> 'p bt_world \<Rightarrow> (bool \<times> 'p bt_world) cres" where
  "uni_hid_device_guess_controller_type_from_name i name b =
     (case uni_hid_parser_ds3_does_name_match i name b of
        (True, b1) \<Rightarrow> mapR (\<lambda>b2. (True, b2)) (guess_type i b1)
      | (False, b1) \<Rightarrow>
          (case uni_hid_parser_switch_does_name_match i name b1 of
             (True, b2) \<Rightarrow> mapR (\<lambda>b3. (True, b3)) (guess_type i b2)
           | (False, b2) \<Rightarrow> Inr (False, b2)))"

section \<open>SDP queries\<close>

definition uni_bt_sdp_query_start_vid_pid ::
    "'p bt_env \<Rightarrow> stack_answers \<Rightarrow> nat \<Rightarrow> 'p bt_world \<Rightarrow> 'p bt_world cres" where
  "uni_bt_sdp_query_start_vid_pid env st i b =
     (let addr = bc_btaddr (hd_conn (bdev b i));
          b1 = bt_call (Sdp_query addr BLUETOOTH_SERVICE_CLASS_PNP_INFORMATION)
                 (set_state i UNI_BT_CONN_STATE_SDP_VENDOR_REQUESTED b)
      in if st_sdp_query st addr BLUETOOTH_SERVICE_CLASS_PNP_INFORMATION \<noteq> 0
         then disconnect_device env st i b1 else Inr b1)"

text \<open>One query at a time: a device that comes second is removed.\<close>

definition uni_bt_sdp_query_start ::
    "'p bt_env \<Rightarrow> stack_answers \<Rightarrow> nat \<Rightarrow> 'p bt_world \<Rightarrow> 'p bt_world cres" where
  "uni_bt_sdp_query_start env st i b =
     (if bw_sdp_device b \<noteq> None then disconnect_device env st i b
      else if bw_sdp_timer b \<noteq> None then Inl Assertion_failed
      else uni_bt_sdp_query_start_vid_pid env st i (b\<lparr>bw_sdp_device := Some i, bw_sdp_timer := Some i\<rparr>))"

text \<open>\<open>fsm\<close> is the state machine, which this function calls again.\<close>

definition uni_bt_sdp_query_end ::
    "(nat \<Rightarrow> 'p bt_world \<Rightarrow> 'p bt_world cres) \<Rightarrow> nat \<Rightarrow> 'p bt_world \<Rightarrow> 'p bt_world cres" where
  "uni_bt_sdp_query_end fsm i b =
     fsm i ((set_state i UNI_BT_CONN_STATE_SDP_HID_DESCRIPTOR_FETCHED b)
              \<lparr>bw_sdp_device := None, bw_sdp_timer := None\<rparr>)"

definition uni_bt_sdp_query_start_hid_descriptor ::
    "'p bt_env \<Rightarrow> stack_answers \<Rightarrow> (nat \<Rightarrow> 'p bt_world \<Rightarrow> 'p bt_world cres) \<Rightarrow> nat \<Rightarrow> 'p bt_world
       \<Rightarrow> 'p bt_world cres" where
  "uni_bt_sdp_query_start_hid_descriptor env st fsm i b =
     (if \<not> uni_hid_device_does_require_hid_descriptor (bdev b i) then uni_bt_sdp_query_end fsm i b
      else if bw_sdp_device b = None then Inr b
      else
        let addr = bc_btaddr (hd_conn (bdev b i));
            b1 = bt_call (Sdp_query addr BLUETOOTH_SERVICE_CLASS_HUMAN_INTERFACE_DEVICE_SERVICE)
                   (set_state i UNI_BT_CONN_STATE_SDP_HID_DESCRIPTOR_REQUESTED b)
        in if st_sdp_query st addr BLUETOOTH_SERVICE_CLASS_HUMAN_INTERFACE_DEVICE_SERVICE \<noteq> 0
           then disconnect_device env st i (b1\<lparr>bw_sdp_timer := None\<rparr>) else Inr b1)"

text \<open>The handler of the timer, which the run loop has taken off its list.\<close>

definition sdp_query_timeout :: "'p bt_world \<Rightarrow> 'p bt_world" where
  "sdp_query_timeout b =
     (case bw_sdp_timer b of
        None \<Rightarrow> b
      | Some i \<Rightarrow>
          let b1 = b\<lparr>bw_sdp_timer := None\<rparr>
          in if bw_sdp_device b = None then b1
             else if bw_sdp_device b \<noteq> Some i then b1
             else b1\<lparr>bw_sdp_device := None\<rparr>)"

section \<open>The state machine\<close>

definition l2cap_create_control_connection :: "stack_answers \<Rightarrow> nat \<Rightarrow> 'p bt_world \<Rightarrow> 'p bt_world" where
  "l2cap_create_control_connection st i b =
     (let addr = bc_btaddr (hd_conn (bdev b i));
          (status, cid) = st_l2cap_create st addr PSM_HID_CONTROL;
          b1 = bt_call (Create_channel addr PSM_HID_CONTROL) b;
          b2 = (case cid of None \<Rightarrow> b1 | Some c \<Rightarrow> on_hid (upd_conn i (\<lambda>k. k\<lparr>bc_control_cid := c\<rparr>)) b1)
      in if status \<noteq> 0 then b2
         else set_state i UNI_BT_CONN_STATE_L2CAP_CONTROL_CONNECTION_REQUESTED b2)"

definition l2cap_create_interrupt_connection :: "stack_answers \<Rightarrow> nat \<Rightarrow> 'p bt_world \<Rightarrow> 'p bt_world" where
  "l2cap_create_interrupt_connection st i b =
     (let addr = bc_btaddr (hd_conn (bdev b i));
          (status, cid) = st_l2cap_create st addr PSM_HID_INTERRUPT;
          b1 = bt_call (Create_channel addr PSM_HID_INTERRUPT) b;
          b2 = (case cid of None \<Rightarrow> b1 | Some c \<Rightarrow> on_hid (upd_conn i (\<lambda>k. k\<lparr>bc_interrupt_cid := c\<rparr>)) b1)
      in if status \<noteq> 0 then b2
         else set_state i UNI_BT_CONN_STATE_L2CAP_INTERRUPT_CONNECTION_REQUESTED b2)"

definition set_ready :: "'p bt_env \<Rightarrow> stack_answers \<Rightarrow> nat \<Rightarrow> 'p bt_world \<Rightarrow> 'p bt_world cres" where
  "set_ready env st i = on_hidR (uni_hid_device_set_ready (be_plat env) (st_gap st) i)"

definition request_name :: "nat \<Rightarrow> 'p bt_world \<Rightarrow> 'p bt_world cres" where
  "request_name i b =
     (let c = hd_conn (bdev b i);
          b1 = bt_call (if bc_clock_offset c AND UNI_BT_CLOCK_OFFSET_VALID \<noteq> 0
                        then Remote_name_request (bc_btaddr c) (bc_page_scan_repetition_mode c) (bc_clock_offset c)
                        else Remote_name_request (bc_btaddr c) 2 0) b
      in on_hidR (run_loop_add_timer (i, Inquiry_timer) INQUIRY_REMOTE_NAME_TIMEOUT_MS)
           (set_state i UNI_BT_CONN_STATE_REMOTE_NAME_INQUIRED b1))"

definition name_fetched :: "'p bt_env \<Rightarrow> stack_answers \<Rightarrow> nat \<Rightarrow> 'p bt_world \<Rightarrow> 'p bt_world cres" where
  "name_fetched env st i b =
     (if strcmp_eq ''Wireless Controller'' (hd_name (bdev b i))
      then uni_bt_sdp_query_start env st i (set_sdp_query_type i SDP_QUERY_BEFORE_CONNECT b)
      else bindR (uni_hid_device_guess_controller_type_from_name i (hd_name (bdev b i)) b) (\<lambda>(found, b1).
        let b2 = (if found
                  then set_state i UNI_BT_CONN_STATE_SDP_HID_DESCRIPTOR_FETCHED
                         (set_sdp_query_type i SDP_QUERY_NOT_NEEDED b1)
                  else b1)
        in if bc_incoming (hd_conn (bdev b2 i))
           then (if hd_sdp_query_type (bdev b2 i) = SDP_QUERY_NOT_NEEDED then set_ready env st i b2
                 else uni_bt_sdp_query_start env st i b2)
           else Inr (l2cap_create_control_connection st i b2)))"

definition fsm_body ::
    "'p bt_env \<Rightarrow> stack_answers \<Rightarrow> (nat \<Rightarrow> 'p bt_world \<Rightarrow> 'p bt_world cres) \<Rightarrow> nat \<Rightarrow> 'p bt_world
       \<Rightarrow> 'p bt_world cres" where
  "fsm_body env st fsm i b =
     (let d = bdev b i; state = bc_state (hd_conn d); incoming = bc_incoming (hd_conn d) in
      if \<not> uni_hid_device_has_name d
         \<and> (state = UNI_BT_CONN_STATE_DEVICE_DISCOVERED \<or> state = UNI_BT_CONN_STATE_L2CAP_INTERRUPT_CONNECTED)
      then request_name i b
      else if state = UNI_BT_CONN_STATE_REMOTE_NAME_FETCHED then name_fetched env st i b
      else if state = UNI_BT_CONN_STATE_SDP_VENDOR_FETCHED
      then uni_bt_sdp_query_start_hid_descriptor env st fsm i b
      else if state = UNI_BT_CONN_STATE_SDP_HID_DESCRIPTOR_FETCHED
      then (if incoming then set_ready env st i b
            else if hd_sdp_query_type d = SDP_QUERY_BEFORE_CONNECT
            then Inr (l2cap_create_control_connection st i b)
            else set_ready env st i b)
      else if \<not> incoming \<and> state = UNI_BT_CONN_STATE_L2CAP_CONTROL_CONNECTED
      then Inr (l2cap_create_interrupt_connection st i b)
      else if \<not> incoming \<and> state = UNI_BT_CONN_STATE_L2CAP_INTERRUPT_CONNECTED
      then (if hd_sdp_query_type d = SDP_QUERY_AFTER_CONNECT then uni_bt_sdp_query_start env st i b
            else set_ready env st i b)
      else Inr b)"

text \<open>
  The recursion through the end of an SDP query has fuel, and \<open>fsm_recursion_bounded\<close> shows that
  it never runs out: there is no third call.
\<close>

primrec process_fsm ::
    "nat \<Rightarrow> 'p bt_env \<Rightarrow> stack_answers \<Rightarrow> nat \<Rightarrow> 'p bt_world \<Rightarrow> 'p bt_world cres" where
  "process_fsm 0 env st i b = Inl Unbounded_recursion"
| "process_fsm (Suc n) env st i b = fsm_body env st (process_fsm n env st) i b"

definition uni_bt_bredr_process_fsm ::
    "'p bt_env \<Rightarrow> stack_answers \<Rightarrow> nat \<Rightarrow> 'p bt_world \<Rightarrow> 'p bt_world cres" where
  "uni_bt_bredr_process_fsm env st i b = process_fsm 2 env st i b"

section \<open>Answers to SDP queries\<close>

text \<open>A byte of an attribute: its id, the length of the value, the offset of the byte, the byte.\<close>

datatype sdp_event =
    Attribute_byte u16 u16 u16 u8
  | Query_complete

definition store_attribute_byte :: "u16 \<Rightarrow> u8 \<Rightarrow> 'p bt_world \<Rightarrow> 'p bt_world cres" where
  "store_attribute_byte offset data b =
     (if MAX_ATTRIBUTE_VALUE_SIZE \<le> unat offset then Inl Out_of_bounds
      else Inr (b\<lparr>bw_sdp_attribute_value := (bw_sdp_attribute_value b)[unat offset := data]\<rparr>))"

definition pid_attribute :: "u16 \<Rightarrow> nat \<Rightarrow> 'p bt_world \<Rightarrow> 'p bt_world cres" where
  "pid_attribute attribute_id i b =
     (let set = (\<lambda>f. mapR (\<lambda>id16. case id16 of Some v \<Rightarrow> on_hid (upd_dev i (f v)) b | None \<Rightarrow> b)
                       (de_element_get_uint16 (bw_sdp_attribute_value b) 0))
      in if attribute_id = BLUETOOTH_ATTRIBUTE_VENDOR_ID then set uni_hid_device_set_vendor_id
         else if attribute_id = BLUETOOTH_ATTRIBUTE_PRODUCT_ID then set uni_hid_device_set_product_id
         else Inr b)"

definition uni_handle_sdp_pid_query_result ::
    "'p bt_env \<Rightarrow> stack_answers \<Rightarrow> sdp_event \<Rightarrow> 'p bt_world \<Rightarrow> 'p bt_world cres" where
  "uni_handle_sdp_pid_query_result env st ev b =
     (case bw_sdp_device b of
        None \<Rightarrow> Inr b
      | Some i \<Rightarrow> (case ev of
          Attribute_byte attribute_id len offset data \<Rightarrow>
            if MAX_ATTRIBUTE_VALUE_SIZE < unat len then Inr b
            else bindR (store_attribute_byte offset data b) (\<lambda>b1.
              if offset + 1 = len then pid_attribute attribute_id i b1 else Inr b1)
        | Query_complete \<Rightarrow>
            bindR (guess_type i b) (\<lambda>b1.
              uni_bt_bredr_process_fsm env st i (set_state i UNI_BT_CONN_STATE_SDP_VENDOR_FETCHED b1))))"

text \<open>A loop over the descriptor list that does not end is the error \<open>Never_returns\<close>.\<close>

definition hid_attribute :: "u16 \<Rightarrow> nat \<Rightarrow> 'p bt_world \<Rightarrow> 'p bt_world cres" where
  "hid_attribute attribute_id i b =
     (if attribute_id = BLUETOOTH_ATTRIBUTE_HID_DESCRIPTOR_LIST
      then (case read_descriptor_list (bw_sdp_attribute_value b) (bdev b i) of
              None \<Rightarrow> Inl Never_returns
            | Some r \<Rightarrow> mapR (\<lambda>d. on_hid (upd_dev i (\<lambda>_. d)) b) r)
      else Inr b)"

definition uni_handle_sdp_hid_query_result ::
    "'p bt_env \<Rightarrow> stack_answers \<Rightarrow> sdp_event \<Rightarrow> 'p bt_world \<Rightarrow> 'p bt_world cres" where
  "uni_handle_sdp_hid_query_result env st ev b =
     (case bw_sdp_device b of
        None \<Rightarrow> Inr b
      | Some i \<Rightarrow> (case ev of
          Attribute_byte attribute_id len offset data \<Rightarrow>
            if MAX_ATTRIBUTE_VALUE_SIZE < unat len then Inr b
            else bindR (store_attribute_byte offset data b) (\<lambda>b1.
              if offset + 1 = len then hid_attribute attribute_id i b1 else Inr b1)
        | Query_complete \<Rightarrow> uni_bt_sdp_query_end (uni_bt_bredr_process_fsm env st) i b))"

section \<open>Event handlers\<close>

text \<open>The handler of the timer, which the run loop has taken off its list.\<close>

definition inquiry_remote_name_timeout_callback ::
    "'p bt_env \<Rightarrow> stack_answers \<Rightarrow> nat \<Rightarrow> 'p bt_world \<Rightarrow> 'p bt_world cres" where
  "inquiry_remote_name_timeout_callback env st i b =
     uni_bt_bredr_process_fsm env st i
       (set_state i UNI_BT_CONN_STATE_REMOTE_NAME_FETCHED
         (on_hid (upd_dev i (uni_hid_device_set_name (ascii ''Controller without name''))) b))"

definition on_l2cap_incoming_connection ::
    "'p bt_env \<Rightarrow> stack_answers \<Rightarrow> u16 \<Rightarrow> u16 \<Rightarrow> u16 \<Rightarrow> bytes \<Rightarrow> 'p bt_world \<Rightarrow> 'p bt_world cres" where
  "on_l2cap_incoming_connection env st channel psm handle addr b =
     (if \<not> bw_allow_incoming b then Inr (bt_call (Decline_connection channel) b)
      else if \<not> be_allowed env addr then Inr (bt_call (Decline_connection channel) b)
      else
        let found = uni_hid_device_get_instance_for_address addr (bw_hid b)
        in bindR (case found of
                    Some i \<Rightarrow>
                      if bc_state (hd_conn (bdev b i)) = UNI_BT_CONN_STATE_DEVICE_READY
                      then mapR (\<lambda>b1. (None, b1)) (disconnect_device env st i b)
                      else Inr (Some i, b)
                  | None \<Rightarrow> Inr (None, b)) (\<lambda>(device, b1).
             if psm = PSM_HID_CONTROL
             then bindR (case device of
                           Some i \<Rightarrow> Inr (Some i, b1)
                         | None \<Rightarrow> mapR (\<lambda>(new, w). (new, b1\<lparr>bw_hid := w\<rparr>))
                                     (uni_hid_device_create addr (bw_hid b1))) (\<lambda>(device', b2).
                    case device' of
                      None \<Rightarrow> Inr (bt_call (Decline_connection channel) b2)
                    | Some i \<Rightarrow>
                        Inr (on_hid (upd_dev i (uni_hid_device_set_incoming True))
                               (on_hid (upd_conn i (\<lambda>c. c\<lparr>bc_control_cid := channel\<rparr>))
                                 (on_hid (upd_dev i (uni_hid_device_set_connection_handle handle))
                                   (bt_call (Accept_connection channel) b2)))))
             else if psm = PSM_HID_INTERRUPT
             then (case device of
                     None \<Rightarrow> Inr (bt_call (Decline_connection channel) b1)
                   | Some i \<Rightarrow>
                       Inr (bt_call (Accept_connection channel)
                              (on_hid (upd_conn i (\<lambda>c. c\<lparr>bc_interrupt_cid := channel\<rparr>)) b1)))
             else Inr b1))"

definition on_l2cap_channel_opened ::
    "'p bt_env \<Rightarrow> stack_answers \<Rightarrow> bytes \<Rightarrow> u8 \<Rightarrow> u16 \<Rightarrow> u16 \<Rightarrow> 'p bt_world \<Rightarrow> 'p bt_world cres" where
  "on_l2cap_channel_opened env st addr status psm local_cid b =
     (case uni_hid_device_get_instance_for_address addr (bw_hid b) of
        None \<Rightarrow> Inr b
      | Some i \<Rightarrow>
          if status \<noteq> 0
          then disconnect_device env st i (bt_call (Drop_link_key (bc_btaddr (hd_conn (bdev b i)))) b)
          else uni_bt_bredr_process_fsm env st i
            (if psm = PSM_HID_CONTROL
             then set_state i UNI_BT_CONN_STATE_L2CAP_CONTROL_CONNECTED
                    (on_hid (upd_conn i (\<lambda>c. c\<lparr>bc_control_cid := local_cid\<rparr>)) b)
             else if psm = PSM_HID_INTERRUPT
             then on_hid (uni_hid_device_connect (be_plat env) i)
                    (set_state i UNI_BT_CONN_STATE_L2CAP_INTERRUPT_CONNECTED
                      (on_hid (upd_conn i (\<lambda>c. c\<lparr>bc_interrupt_cid := local_cid\<rparr>)) b))
             else b))"

definition on_l2cap_channel_closed ::
    "'p bt_env \<Rightarrow> stack_answers \<Rightarrow> u16 \<Rightarrow> 'p bt_world \<Rightarrow> 'p bt_world cres" where
  "on_l2cap_channel_closed env st local_cid b =
     (case uni_hid_device_get_instance_for_cid local_cid (bw_hid b) of
        None \<Rightarrow> Inr b
      | Some i \<Rightarrow> disconnect_device env st i b)"

definition on_l2cap_data_packet ::
    "'p bt_env \<Rightarrow> u16 \<Rightarrow> bytes \<Rightarrow> 'p bt_world \<Rightarrow> 'p bt_world cres" where
  "on_l2cap_data_packet env channel packet b =
     (case uni_hid_device_get_instance_for_cid channel (bw_hid b) of
        None \<Rightarrow> Inr b
      | Some i \<Rightarrow>
          if length packet < 2 then Inr b
          else if channel = bc_control_cid (hd_conn (bdev b i))
          then (if rv_parse_feature_report (hd_report_parser (bdev b i)) \<noteq> None
                then on_hidR (be_parse_feature_report env i (drop 1 packet)) b else Inr b)
          else if channel \<noteq> bc_interrupt_cid (hd_conn (bdev b i)) then Inr b
          else if hd packet \<noteq> 0xa1 then Inr b
          else bindR (on_hidR (be_parse_input_report env i (drop 1 packet)) b)
                 (on_hidR (uni_hid_device_process_controller (be_plat env) i)))"

text \<open>The name in the inquiry response is copied into a buffer of 241 bytes; \<open>None\<close>: there is none.\<close>

definition on_gap_inquiry_result ::
    "'p bt_env \<Rightarrow> stack_answers \<Rightarrow> bytes \<Rightarrow> u8 \<Rightarrow> u16 \<Rightarrow> u32 \<Rightarrow> u8 option \<Rightarrow> bytes option \<Rightarrow> 'p bt_world
       \<Rightarrow> 'p bt_world cres" where
  "on_gap_inquiry_result env st addr page_scan clock_offset cod rssi name b =
     (let rssi' = (case rssi of Some r \<Rightarrow> r | None \<Rightarrow> 255);
          name' = (case name of Some n \<Rightarrow> n | None \<Rightarrow> [])
      in if HID_MAX_NAME_LEN < length name' then Inl Out_of_bounds
         else if uni_hid_device_on_device_discovered (be_allowed env) (be_on_device_discovered env)
                   addr (ucast cod) rssi' \<noteq> UNI_ERROR_SUCCESS
         then Inr b
         else (case uni_hid_device_get_instance_for_address addr (bw_hid b) of
                 Some i \<Rightarrow>
                   if bc_state (hd_conn (bdev b i)) = UNI_BT_CONN_STATE_DEVICE_READY then Inr b
                   else uni_bt_bredr_process_fsm env st i b
               | None \<Rightarrow>
                   bindR (uni_hid_device_create addr (bw_hid b)) (\<lambda>(new, w). case new of
                     None \<Rightarrow> Inr (b\<lparr>bw_hid := w\<rparr>)
                   | Some i \<Rightarrow>
                       let b1 = set_state i UNI_BT_CONN_STATE_DEVICE_DISCOVERED (b\<lparr>bw_hid := w\<rparr>);
                           b2 = on_hid (upd_conn i (\<lambda>c. c\<lparr>bc_page_scan_repetition_mode := page_scan,
                                    bc_clock_offset := clock_offset OR UNI_BT_CLOCK_OFFSET_VALID, bc_rssi := rssi'\<rparr>))
                                  (on_hid (upd_dev i (uni_hid_device_set_cod cod)) b1);
                           b3 = (if 0 < length name' \<and> \<not> uni_hid_device_has_name (bdev b2 i)
                                 then set_state i UNI_BT_CONN_STATE_REMOTE_NAME_FETCHED
                                        (on_hid (upd_dev i (uni_hid_device_set_name name')) b2)
                                 else b2)
                       in uni_bt_bredr_process_fsm env st i b3)))"

definition on_hci_connection_request :: "bytes \<Rightarrow> u32 \<Rightarrow> 'p bt_world \<Rightarrow> 'p bt_world cres" where
  "on_hci_connection_request addr cod b =
     bindR (case uni_hid_device_get_instance_for_address addr (bw_hid b) of
              Some i \<Rightarrow> Inr (Some i, b)
            | None \<Rightarrow> mapR (\<lambda>(new, w). (new, b\<lparr>bw_hid := w\<rparr>)) (uni_hid_device_create addr (bw_hid b)))
       (\<lambda>(device, b1). case device of
          None \<Rightarrow> Inr b1
        | Some i \<Rightarrow> Inr (on_hid (upd_dev i (uni_hid_device_set_incoming True))
                           (on_hid (upd_dev i (uni_hid_device_set_cod cod)) b1)))"

definition on_hci_connection_complete :: "bytes \<Rightarrow> u8 \<Rightarrow> u16 \<Rightarrow> 'p bt_world \<Rightarrow> 'p bt_world" where
  "on_hci_connection_complete addr status handle b =
     (if status \<noteq> 0 then b
      else (case uni_hid_device_get_instance_for_address addr (bw_hid b) of
              None \<Rightarrow> b
            | Some i \<Rightarrow> on_hid (upd_dev i (uni_hid_device_set_connection_handle handle)) b))"

definition on_hci_pin_code_request :: "stack_answers \<Rightarrow> bytes \<Rightarrow> 'p bt_world \<Rightarrow> 'p bt_world" where
  "on_hci_pin_code_request st addr b =
     (let is_mouse_or_keyboard =
            (case uni_hid_device_get_instance_for_address addr (bw_hid b) of
               None \<Rightarrow> False
             | Some i \<Rightarrow> hd_cod (bdev b i) AND UNI_BT_COD_MAJOR_MASK = UNI_BT_COD_MAJOR_PERIPHERAL
                 \<and> hd_cod (bdev b i) AND UNI_BT_COD_MINOR_KEYBOARD_AND_MICE \<noteq> 0)
      in bt_call (Pin_code_response addr
           (if is_mouse_or_keyboard then ascii ''0000'' else rev (st_local_addr st))) b)"

text \<open>
  The timer is removed at the end, whatever the state machine has done with the device.
\<close>

definition on_hci_remote_name_request_complete ::
    "'p bt_env \<Rightarrow> stack_answers \<Rightarrow> bytes \<Rightarrow> u8 \<Rightarrow> bytes \<Rightarrow> 'p bt_world \<Rightarrow> 'p bt_world cres" where
  "on_hci_remote_name_request_complete env st addr status remote_name b =
     (case uni_hid_device_get_instance_for_address addr (bw_hid b) of
        None \<Rightarrow> Inr b
      | Some i \<Rightarrow>
          let name = (if status \<noteq> 0 then ascii ''Controller without name'' else remote_name);
              b1 = on_hid (upd_dev i (uni_hid_device_set_name name)) b;
              pending = (case bc_state (hd_conn (bdev b1 i)) of
                           UNI_BT_CONN_STATE_DEVICE_PENDING_READY \<Rightarrow> False
                         | UNI_BT_CONN_STATE_DEVICE_READY \<Rightarrow> False
                         | _ \<Rightarrow> True)
          in mapR (on_hid (run_loop_remove_timer (i, Inquiry_timer)))
               (if pending
                then uni_bt_bredr_process_fsm env st i (set_state i UNI_BT_CONN_STATE_REMOTE_NAME_FETCHED b1)
                else Inr b1))"

definition on_hci_disconnection_complete ::
    "'p bt_env \<Rightarrow> stack_answers \<Rightarrow> u16 \<Rightarrow> 'p bt_world \<Rightarrow> 'p bt_world cres" where
  "on_hci_disconnection_complete env st handle b =
     (case uni_hid_device_get_instance_for_connection_handle handle (bw_hid b) of
        None \<Rightarrow> Inr b
      | Some i \<Rightarrow>
          let ty = st_gap st (bc_handle (hd_conn (bdev b i)))
          in mapR (\<lambda>b1. if ty = GAP_CONNECTION_LE then on_hid (call Resume_scanning_hint) b1 else b1)
               (disconnect_device env st i b))"

section \<open>Events\<close>

datatype bt_event =
    Inquiry_result bytes u8 u16 u32 "u8 option" "bytes option"
  | Connection_request bytes u32
  | Connection_complete bytes u8 u16
  | Disconnection_complete u16
  | Remote_name_request_complete bytes u8 bytes
  | Pin_code_request bytes
  | Incoming_channel u16 u16 u16 bytes
  | Channel_opened bytes u8 u16 u16
  | Channel_closed u16
  | Data_packet u16 bytes
  | Can_send_channel u16
  | Rssi_measurement u16 u8
  | Pid_query sdp_event
  | Hid_query sdp_event
  | Sdp_timer
  | Name_timer nat
  | Timeout_timer nat
  | Driver_ready nat
  | Disconnect_command int

definition bt_step :: "'p bt_env \<Rightarrow> stack_answers \<times> bt_event \<Rightarrow> 'p bt_world \<Rightarrow> 'p bt_world cres" where
  "bt_step env = (\<lambda>(st, ev) b. case ev of
     Inquiry_result addr page_scan clock_offset cod rssi name \<Rightarrow>
       on_gap_inquiry_result env st addr page_scan clock_offset cod rssi name b
   | Connection_request addr cod \<Rightarrow> on_hci_connection_request addr cod b
   | Connection_complete addr status handle \<Rightarrow> Inr (on_hci_connection_complete addr status handle b)
   | Disconnection_complete handle \<Rightarrow> on_hci_disconnection_complete env st handle b
   | Remote_name_request_complete addr status name \<Rightarrow>
       on_hci_remote_name_request_complete env st addr status name b
   | Pin_code_request addr \<Rightarrow> Inr (on_hci_pin_code_request st addr b)
   | Incoming_channel channel psm handle addr \<Rightarrow> on_l2cap_incoming_connection env st channel psm handle addr b
   | Channel_opened addr status psm local_cid \<Rightarrow> on_l2cap_channel_opened env st addr status psm local_cid b
   | Channel_closed local_cid \<Rightarrow> on_l2cap_channel_closed env st local_cid b
   | Data_packet channel packet \<Rightarrow> on_l2cap_data_packet env channel packet b
   | Can_send_channel local_cid \<Rightarrow>
       (case uni_hid_device_get_instance_for_cid local_cid (bw_hid b) of
          None \<Rightarrow> Inr b
        | Some i \<Rightarrow> Inr (on_hid (uni_hid_device_send_queued_reports (st_can_send st) i) b))
   | Rssi_measurement handle rssi \<Rightarrow>
       (case uni_hid_device_get_instance_for_connection_handle handle (bw_hid b) of
          None \<Rightarrow> Inr b
        | Some i \<Rightarrow> Inr (on_hid (upd_conn i (\<lambda>c. c\<lparr>bc_rssi := rssi\<rparr>)) b))
   | Pid_query answer \<Rightarrow> uni_handle_sdp_pid_query_result env st answer b
   | Hid_query answer \<Rightarrow> uni_handle_sdp_hid_query_result env st answer b
   | Sdp_timer \<Rightarrow> Inr (sdp_query_timeout b)
   | Name_timer i \<Rightarrow>
       if hw_timers (bw_hid b) (i, Inquiry_timer) = None then Inr b
       else inquiry_remote_name_timeout_callback env st i (on_hid (run_loop_remove_timer (i, Inquiry_timer)) b)
   | Timeout_timer i \<Rightarrow>
       if hw_timers (bw_hid b) (i, Connection_timer) = None then Inr b
       else on_hidR (\<lambda>w. device_connection_timeout (be_plat env) (st_gap st) i
                            (run_loop_remove_timer (i, Connection_timer) w)) b
   | Driver_ready i \<Rightarrow>
       on_hidR (on_slot i (\<lambda>w. mapR snd (uni_hid_device_set_ready_complete (be_plat env) (st_gap st) i w))) b
   | Disconnect_command idx \<Rightarrow>
       (case uni_hid_device_get_instance_for_idx idx of
          None \<Rightarrow> Inr b
        | Some i \<Rightarrow> disconnect_device env st i b))"

definition bt_run ::
    "'p bt_env \<Rightarrow> (stack_answers \<times> bt_event) list \<Rightarrow> 'p bt_world \<Rightarrow> 'p bt_world cres" where
  "bt_run env = run_steps (bt_step env)"

text \<open>The statics at start, over a table that has been set up.\<close>

definition bt_start :: "'p hid_world \<Rightarrow> 'p bt_world" where
  "bt_start w = \<lparr>bw_hid = w, bw_sdp_device = None, bw_sdp_timer = None,
     bw_sdp_attribute_value = replicate MAX_ATTRIBUTE_VALUE_SIZE 0, bw_allow_incoming = True, bw_calls = []\<rparr>"

section \<open>The state machine calls itself once at most\<close>

named_theorems bt_simps "projections of the updates of the Bluetooth world"

lemma on_hid_fields [bt_simps]:
  "bw_hid (on_hid f b) = f (bw_hid b)" "bw_sdp_device (on_hid f b) = bw_sdp_device b"
  "bw_sdp_timer (on_hid f b) = bw_sdp_timer b"
  "bw_sdp_attribute_value (on_hid f b) = bw_sdp_attribute_value b"
  "bw_allow_incoming (on_hid f b) = bw_allow_incoming b" "bw_calls (on_hid f b) = bw_calls b"
  by (simp_all add: on_hid_def)

lemma bt_call_fields [bt_simps]:
  "bw_hid (bt_call c b) = bw_hid b" "bw_sdp_device (bt_call c b) = bw_sdp_device b"
  "bw_sdp_timer (bt_call c b) = bw_sdp_timer b"
  "bw_sdp_attribute_value (bt_call c b) = bw_sdp_attribute_value b"
  "bw_allow_incoming (bt_call c b) = bw_allow_incoming b" "bw_calls (bt_call c b) = bw_calls b @ [c]"
  by (simp_all add: bt_call_def)

lemma set_state_fields [bt_simps]:
  "bw_sdp_device (set_state i s b) = bw_sdp_device b" "bw_sdp_timer (set_state i s b) = bw_sdp_timer b"
  "bw_sdp_attribute_value (set_state i s b) = bw_sdp_attribute_value b"
  "bw_allow_incoming (set_state i s b) = bw_allow_incoming b" "bw_calls (set_state i s b) = bw_calls b"
  "set_sdp_query_type i ty b = on_hid (upd_dev i (\<lambda>d. d\<lparr>hd_sdp_query_type := ty\<rparr>)) b"
  by (simp_all add: set_state_def set_sdp_query_type_def bt_simps)

lemma state_after_set_state:
  "i < length (hw_devices (bw_hid b)) \<Longrightarrow>
     bc_state (hd_conn (bdev ((set_state i s b)\<lparr>bw_sdp_device := x, bw_sdp_timer := y\<rparr>) i)) = s"
  by (simp add: bdev_def set_state_def on_hid_def upd_conn_def uni_bt_conn_set_state_def dev_upd_dev)

text \<open>In no other state than \<^verbatim>\<open>SDP_VENDOR_FETCHED\<close> does the machine call itself.\<close>

lemma fsm_body_no_recursion:
  assumes "bc_state (hd_conn (bdev b i)) \<noteq> UNI_BT_CONN_STATE_SDP_VENDOR_FETCHED"
  shows "fsm_body env st fsm i b = fsm_body env st fsm' i b"
  using assms by (simp add: fsm_body_def Let_def)

text \<open>So whatever stands in the place of a third call is not looked at.\<close>

lemma third_call_unused:
  assumes "i < length (hw_devices (bw_hid b))"
  shows "fsm_body env st (fsm_body env st third) i b = fsm_body env st (fsm_body env st third') i b"
proof -
  let ?b = "(set_state i UNI_BT_CONN_STATE_SDP_HID_DESCRIPTOR_FETCHED b)\<lparr>bw_sdp_device := None, bw_sdp_timer := None\<rparr>"
  have "bc_state (hd_conn (bdev ?b i)) \<noteq> UNI_BT_CONN_STATE_SDP_VENDOR_FETCHED"
    using state_after_set_state [OF assms] by simp
  from fsm_body_no_recursion [OF this]
  have "fsm_body env st third i ?b = fsm_body env st third' i ?b" .
  then have same: "uni_bt_sdp_query_start_hid_descriptor env st (fsm_body env st third) i b
      = uni_bt_sdp_query_start_hid_descriptor env st (fsm_body env st third') i b"
    unfolding uni_bt_sdp_query_start_hid_descriptor_def uni_bt_sdp_query_end_def by (simp only:)
  show ?thesis unfolding fsm_body_def [of env st "fsm_body env st third"]
      fsm_body_def [of env st "fsm_body env st third'"] Let_def same ..
qed

lemma process_fsm_unfold:
  "uni_bt_bredr_process_fsm env st = fsm_body env st (fsm_body env st (process_fsm 0 env st))"
proof -
  have step: "process_fsm (Suc n) env st = fsm_body env st (process_fsm n env st)" for n
    by (intro ext) simp
  show ?thesis by (intro ext) (simp only: uni_bt_bredr_process_fsm_def numeral_2_eq_2 step)
qed

text \<open>C6: the state machine and the end of an SDP query call each other, and for a device in the
  table a third call is never made: any function in its place, one that fails included, gives the
  same result. So the fuel never runs out, and the model satisfies the equation of the code, in
  which the function calls itself.\<close>
theorem fsm_recursion_bounded:
  assumes "i < length (hw_devices (bw_hid b))"
  shows "fsm_body env st (fsm_body env st third) i b = uni_bt_bredr_process_fsm env st i b
    \<and> uni_bt_bredr_process_fsm env st i b = fsm_body env st (uni_bt_bredr_process_fsm env st) i b"
  unfolding process_fsm_unfold using third_call_unused [OF assms, of env st] by metis

section \<open>The bookkeeping of SDP queries\<close>

text \<open>While the timer of a query runs, the query is registered for the device of the timer.\<close>

definition sdp_ok :: "'p bt_world \<Rightarrow> bool" where
  "sdp_ok b \<longleftrightarrow> (bw_sdp_timer b \<noteq> None \<longrightarrow> bw_sdp_device b = bw_sdp_timer b)
     \<and> length (bw_sdp_attribute_value b) = MAX_ATTRIBUTE_VALUE_SIZE"

definition sdp_result :: "'p bt_world cres \<Rightarrow> bool" where
  "sdp_result r \<longleftrightarrow> (case r of Inl _ \<Rightarrow> True | Inr b \<Rightarrow> sdp_ok b)"

lemma sdp_result_simps [simp]: "sdp_result (Inl e)" "sdp_result (Inr b) = sdp_ok b"
  by (simp_all add: sdp_result_def)

lemma sdp_result_bind:
  "\<lbrakk>\<And>x. r = Inr x \<Longrightarrow> sdp_result (f x)\<rbrakk> \<Longrightarrow> sdp_result (bindR r f)"
  by (cases r) simp_all

lemma sdp_result_map: "(\<And>x. r = Inr x \<Longrightarrow> sdp_ok (f x)) \<Longrightarrow> sdp_result (mapR f r)"
  by (cases r) simp_all

lemma sdp_ok_fields:
  "sdp_ok (on_hid f b) = sdp_ok b" "sdp_ok (bt_call c b) = sdp_ok b" "sdp_ok (set_state i s b) = sdp_ok b"
  "sdp_ok (b\<lparr>bw_hid := w\<rparr>) = sdp_ok b"
  "sdp_ok b \<Longrightarrow> sdp_ok (b\<lparr>bw_sdp_timer := None\<rparr>)"
  "sdp_ok b \<Longrightarrow> sdp_ok (b\<lparr>bw_sdp_device := x, bw_sdp_timer := None\<rparr>)"
  "sdp_ok b \<Longrightarrow> sdp_ok (b\<lparr>bw_sdp_device := Some i, bw_sdp_timer := Some i\<rparr>)"
  by (simp_all add: sdp_ok_def bt_simps)

lemma sdp_on_hidR: "sdp_ok b \<Longrightarrow> sdp_result (on_hidR f b)"
  by (simp add: on_hidR_def sdp_result_map sdp_ok_fields)

lemma sdp_disconnect: "sdp_ok b \<Longrightarrow> sdp_result (disconnect_device env st i b)"
  by (simp add: disconnect_device_def sdp_on_hidR)

lemma sdp_query_start_ok: "sdp_ok b \<Longrightarrow> sdp_result (uni_bt_sdp_query_start env st i b)"
  by (simp add: uni_bt_sdp_query_start_def uni_bt_sdp_query_start_vid_pid_def Let_def sdp_disconnect sdp_ok_fields)

lemma sdp_create_channel:
  "sdp_ok b \<Longrightarrow> sdp_ok (l2cap_create_control_connection st i b)"
  "sdp_ok b \<Longrightarrow> sdp_ok (l2cap_create_interrupt_connection st i b)"
  by (simp_all add: l2cap_create_control_connection_def l2cap_create_interrupt_connection_def Let_def
      sdp_ok_fields split: prod.splits option.splits)

lemma sdp_guess_from_name:
  "\<lbrakk>sdp_ok b; uni_hid_device_guess_controller_type_from_name i name b = Inr (found, b')\<rbrakk> \<Longrightarrow> sdp_ok b'"
  by (auto simp: uni_hid_device_guess_controller_type_from_name_def guess_type_def mapR_Inr_iff Let_def sdp_ok_fields
      uni_hid_parser_ds3_does_name_match_def uni_hid_parser_switch_does_name_match_def
      split: prod.splits bool.splits option.splits if_splits)

lemma sdp_name_fetched:
  assumes "sdp_ok b"
  shows "sdp_result (name_fetched env st i b)"
proof (cases "strcmp_eq ''Wireless Controller'' (hd_name (bdev b i))")
  case True
  with assms show ?thesis by (simp add: name_fetched_def bt_simps sdp_query_start_ok sdp_ok_fields)
next
  case False
  have "sdp_ok b1" if "uni_hid_device_guess_controller_type_from_name i (hd_name (bdev b i)) b = Inr (found, b1)"
    for found b1 using sdp_guess_from_name [OF assms that] .
  with False show ?thesis
    by (auto simp: name_fetched_def Let_def bt_simps set_ready_def sdp_ok_fields split: prod.splits
        intro!: sdp_query_start_ok sdp_result_bind sdp_on_hidR sdp_create_channel)
qed

lemma sdp_fsm_body:
  assumes "\<And>i b. sdp_ok b \<Longrightarrow> sdp_result (fsm i b)" and "sdp_ok b"
  shows "sdp_result (fsm_body env st fsm i b)"
  using assms
  by (simp add: fsm_body_def Let_def request_name_def sdp_on_hidR sdp_name_fetched set_ready_def sdp_create_channel
      sdp_query_start_ok uni_bt_sdp_query_start_hid_descriptor_def uni_bt_sdp_query_end_def sdp_disconnect sdp_ok_fields)

lemma sdp_process_fsm: "sdp_ok b \<Longrightarrow> sdp_result (process_fsm n env st i b)"
proof (induction n arbitrary: i b)
  case (Suc n)
  then show ?case by (simp add: sdp_fsm_body)
qed simp

lemma sdp_fsm: "sdp_ok b \<Longrightarrow> sdp_result (uni_bt_bredr_process_fsm env st i b)"
  by (simp add: uni_bt_bredr_process_fsm_def sdp_process_fsm)

lemma sdp_guess_type: "sdp_ok b \<Longrightarrow> sdp_result (guess_type i b)"
  by (simp add: guess_type_def sdp_result_map sdp_ok_fields)

lemma sdp_store_byte: "sdp_ok b \<Longrightarrow> sdp_result (store_attribute_byte offset data b)"
  by (simp add: store_attribute_byte_def sdp_ok_def)

lemma sdp_resultD: "\<lbrakk>sdp_result r; r = Inr b\<rbrakk> \<Longrightarrow> sdp_ok b"
  by simp

lemma sdp_attributes:
  "sdp_ok b \<Longrightarrow> sdp_result (pid_attribute attribute_id i b)"
  "sdp_ok b \<Longrightarrow> sdp_result (hid_attribute attribute_id i b)"
  by (auto simp: pid_attribute_def hid_attribute_def Let_def sdp_ok_fields intro!: sdp_result_map split: option.splits)

lemma sdp_pid_query:
  assumes "sdp_ok b"
  shows "sdp_result (uni_handle_sdp_pid_query_result env st ev b)"
proof (cases "bw_sdp_device b")
  case (Some i)
  have "sdp_ok b1" if "store_attribute_byte offset data b = Inr b1" for offset data b1
    using sdp_store_byte [OF assms] that by (rule sdp_resultD)
  moreover have "sdp_ok b1" if "guess_type i b = Inr b1" for b1
    using sdp_guess_type [OF assms] that by (rule sdp_resultD)
  ultimately show ?thesis
    using Some assms
    by (cases ev) (auto simp: uni_handle_sdp_pid_query_result_def sdp_ok_fields
        intro!: sdp_result_bind sdp_attributes sdp_fsm)
qed (use assms in \<open>simp add: uni_handle_sdp_pid_query_result_def\<close>)

lemma sdp_hid_query:
  assumes "sdp_ok b"
  shows "sdp_result (uni_handle_sdp_hid_query_result env st ev b)"
proof (cases "bw_sdp_device b")
  case (Some i)
  have "sdp_ok b1" if "store_attribute_byte offset data b = Inr b1" for offset data b1
    using sdp_store_byte [OF assms] that by (rule sdp_resultD)
  with Some assms show ?thesis
    by (cases ev) (auto simp: uni_handle_sdp_hid_query_result_def uni_bt_sdp_query_end_def sdp_ok_fields
        intro!: sdp_result_bind sdp_attributes sdp_fsm)
qed (use assms in \<open>simp add: uni_handle_sdp_hid_query_result_def\<close>)

lemma sdp_timeout: "sdp_ok b \<Longrightarrow> sdp_ok (sdp_query_timeout b)"
  by (auto simp: sdp_query_timeout_def sdp_ok_def Let_def split: option.splits)

lemma sdp_incoming:
  assumes "sdp_ok b"
  shows "sdp_result (on_l2cap_incoming_connection env st channel psm handle addr b)"
proof -
  have "sdp_ok b1" if "disconnect_device env st i b = Inr b1" for i b1
    using sdp_disconnect [OF assms] that by (rule sdp_resultD)
  then show ?thesis
    using assms
    by (auto simp: on_l2cap_incoming_connection_def Let_def sdp_ok_fields mapR_Inr_iff
        intro!: sdp_result_bind split: option.splits if_splits)
qed

lemma sdp_opened: "sdp_ok b \<Longrightarrow> sdp_result (on_l2cap_channel_opened env st addr status psm local_cid b)"
  by (auto simp: on_l2cap_channel_opened_def sdp_ok_fields intro!: sdp_fsm sdp_disconnect split: option.splits)

lemma sdp_data: "sdp_ok b \<Longrightarrow> sdp_result (on_l2cap_data_packet env channel packet b)"
  by (auto simp: on_l2cap_data_packet_def sdp_on_hidR on_hidR_def mapR_Inr_iff sdp_ok_fields
      intro!: sdp_result_bind sdp_result_map split: option.splits)

lemma sdp_inquiry:
  assumes "sdp_ok b"
  shows "sdp_result (on_gap_inquiry_result env st addr page_scan clock_offset cod rssi name b)"
  using assms
  by (auto simp: on_gap_inquiry_result_def Let_def sdp_ok_fields intro!: sdp_result_bind sdp_fsm
      split: option.splits prod.splits)

lemma sdp_request: "sdp_ok b \<Longrightarrow> sdp_result (on_hci_connection_request addr cod b)"
  by (auto simp: on_hci_connection_request_def sdp_ok_fields mapR_Inr_iff intro!: sdp_result_bind split: option.splits)

lemma sdp_result_map_ok: "\<lbrakk>sdp_result r; \<And>x. sdp_ok x \<Longrightarrow> sdp_ok (f x)\<rbrakk> \<Longrightarrow> sdp_result (mapR f r)"
  by (cases r) simp_all

lemma sdp_name_complete:
  "sdp_ok b \<Longrightarrow> sdp_result (on_hci_remote_name_request_complete env st addr status name b)"
  by (auto simp: on_hci_remote_name_request_complete_def Let_def sdp_ok_fields intro!: sdp_fsm sdp_result_map_ok
      split: option.splits)

lemma sdp_disconnection:
  "sdp_ok b \<Longrightarrow> sdp_result (on_hci_disconnection_complete env st handle b)"
  by (auto simp: on_hci_disconnection_complete_def Let_def sdp_ok_fields intro!: sdp_disconnect sdp_result_map_ok
      split: option.splits)

lemma sdp_step:
  assumes "sdp_ok b"
  shows "sdp_result (bt_step env (st, ev) b)"
proof (cases ev)
  case (Name_timer i)
  with assms show ?thesis
    by (simp add: bt_step_def inquiry_remote_name_timeout_callback_def sdp_fsm sdp_ok_fields)
qed (use assms in \<open>simp_all add: bt_step_def sdp_inquiry sdp_request sdp_disconnection sdp_name_complete
    sdp_incoming sdp_opened sdp_data sdp_pid_query sdp_hid_query sdp_timeout sdp_on_hidR sdp_disconnect sdp_ok_fields
    on_l2cap_channel_closed_def on_hci_connection_complete_def on_hci_pin_code_request_def Let_def split: option.splits\<close>)

lemma sdp_run: "sdp_ok b \<Longrightarrow> sdp_result (bt_run env evs b)"
proof (induction evs arbitrary: b)
  case Nil
  then show ?case by (simp add: bt_run_def)
next
  case (Cons ev evs)
  have "sdp_result (bt_step env ev b)" using sdp_step [OF Cons.prems] by (cases ev) simp
  with Cons.IH show ?case by (auto simp: bt_run_def intro!: sdp_result_bind)
qed

lemma sdp_ok_start: "sdp_ok (bt_start w)"
  by (simp add: sdp_ok_def bt_start_def)

text \<open>C5: in every state that any order of events reaches, a running SDP timer belongs to the device
  that the query is registered for, so the timeout always frees the query, and starting one
  never registers the timer twice. The other direction does not hold: the query can be
  registered without a timer.\<close>
theorem sdp_timer_frees_query:
  "case bt_run env evs (bt_start w) of
     Inl _ \<Rightarrow> True
   | Inr b \<Rightarrow>
       (if bw_sdp_timer b = None then sdp_query_timeout b = b
        else bw_sdp_device (sdp_query_timeout b) = None \<and> bw_sdp_timer (sdp_query_timeout b) = None)
       \<and> uni_bt_sdp_query_start env st i b
          = (if bw_sdp_device b \<noteq> None then disconnect_device env st i b
             else uni_bt_sdp_query_start_vid_pid env st i (b\<lparr>bw_sdp_device := Some i, bw_sdp_timer := Some i\<rparr>))"
proof (cases "bt_run env evs (bt_start w)")
  case (Inr b)
  then have "sdp_ok b" using sdp_run [OF sdp_ok_start] sdp_resultD by blast
  with Inr show ?thesis
    by (auto simp: sdp_ok_def sdp_query_timeout_def uni_bt_sdp_query_start_def split: option.splits)
qed simp

end
