(* ===== verification/Bt_Behaviour.thy ===== *)
theory Bt_Behaviour
  imports Bt_Connection Device_Behaviour
begin

text \<open>
  What the connection machine of \<open>Bt_Connection\<close> does for a controller, with the Arduino platform:
  the way of a new controller to its seat, who is let in, and the orders of events in which the
  code loses track of a device.
\<close>

definition gamepad_cod :: u32 where "gamepad_cod = 0x2508"

definition arduino_env :: "(bytes \<Rightarrow> bool) \<Rightarrow> arduino bt_env" where
  "arduino_env allowed =
     \<lparr>be_plat = arduino_platform, be_allowed = allowed, be_on_device_discovered = None,
      be_parse_input_report = (\<lambda>i report w. Inr w), be_parse_feature_report = (\<lambda>i report w. Inr w)\<rparr>"

definition open_env :: "arduino bt_env" where
  "open_env = arduino_env (\<lambda>_. True)"

text \<open>A stack that grants everything; \<open>busy\<close> is whether it refuses an SDP query to the zero address.\<close>

definition granting :: "bool \<Rightarrow> stack_answers" where
  "granting busy =
     \<lparr>st_gap = any_acl, st_l2cap_create = (\<lambda>addr psm. (0, Some (if psm = PSM_HID_CONTROL then 0x40 else 0x41))),
      st_sdp_query = (\<lambda>addr uuid. if busy \<and> addr = zero_addr then 1 else 0), st_can_send = True,
      st_local_addr = [0xa, 0xb, 0xc, 0xd, 0xe, 0xf]\<rparr>"

section \<open>A table with one device\<close>

text \<open>
  The scenarios start from the booted firmware and are about slot 0. Such a state is written out:
  the device, the timers, the platform and the calls, and the Bluetooth statics around them.
\<close>

definition one_device ::
    "uni_hid_device \<Rightarrow> (nat \<times> device_timer \<Rightarrow> u32 option) \<Rightarrow> arduino \<Rightarrow> hid_call list \<Rightarrow> arduino_world" where
  "one_device d T p cs =
     booted\<lparr>hw_devices := [d, init_device, init_device, init_device], hw_timers := T, hw_platform := p, hw_calls := cs\<rparr>"

definition bt_one ::
    "arduino_world \<Rightarrow> nat option \<Rightarrow> nat option \<Rightarrow> bytes \<Rightarrow> bt_call list \<Rightarrow> arduino bt_world" where
  "bt_one w query timer buf calls =
     \<lparr>bw_hid = w, bw_sdp_device = query, bw_sdp_timer = timer, bw_sdp_attribute_value = buf,
      bw_allow_incoming = True, bw_calls = calls\<rparr>"

lemma bt_one_simps [bt_simps]:
  "bw_hid (bt_one w q t buf cs) = w" "bw_sdp_device (bt_one w q t buf cs) = q" "bw_sdp_timer (bt_one w q t buf cs) = t"
  "bw_sdp_attribute_value (bt_one w q t buf cs) = buf" "bw_calls (bt_one w q t buf cs) = cs"
  "bw_allow_incoming (bt_one w q t buf cs)"
  "(bt_one w q t buf cs)\<lparr>bw_hid := w'\<rparr> = bt_one w' q t buf cs"
  "(bt_one w q t buf cs)\<lparr>bw_sdp_device := q', bw_sdp_timer := t'\<rparr> = bt_one w q' t' buf cs"
  "(bt_one w q t buf cs)\<lparr>bw_sdp_timer := t'\<rparr> = bt_one w q t' buf cs"
  "(bt_one w q t buf cs)\<lparr>bw_sdp_attribute_value := buf'\<rparr> = bt_one w q t buf' cs"
  "on_hid f (bt_one w q t buf cs) = bt_one (f w) q t buf cs"
  "on_hidR g (bt_one w q t buf cs) = mapR (\<lambda>w'. bt_one w' q t buf cs) (g w)"
  "bt_call c (bt_one w q t buf cs) = bt_one w q t buf (cs @ [c])"
  "bdev (bt_one w q t buf cs) i = dev w i"
  "set_state i s (bt_one w q t buf cs) = bt_one (upd_conn i (uni_bt_conn_set_state s) w) q t buf cs"
  by (simp_all add: bt_one_def on_hid_def on_hidR_def bt_call_def bdev_def set_state_def)

lemma bt_start_one: "bt_start w = bt_one w None None (replicate MAX_ATTRIBUTE_VALUE_SIZE 0) []"
  by (simp add: bt_start_def bt_one_def)

lemma one_device_simps [bt_simps]:
  "dev (one_device d T p cs) 0 = d"
  "upd_dev 0 f (one_device d T p cs) = one_device (f d) T p cs"
  "upd_conn 0 g (one_device d T p cs) = one_device (d\<lparr>hd_conn := g (hd_conn d)\<rparr>) T p cs"
  "call c (one_device d T p cs) = one_device d T p (cs @ [c])"
  "run_loop_remove_timer k (one_device d T p cs) = one_device d (T(k := None)) p cs"
  "run_loop_add_timer k ms (one_device d T p cs) =
     (if T k \<noteq> None then Inl Assertion_failed else Inr (one_device d (T(k := Some ms)) p cs))"
  "hw_timers (one_device d T p cs) = T" "hw_platform (one_device d T p cs) = p"
  "length (hw_devices (one_device d T p cs)) = 4"
  "upd_platform h (one_device d T p cs) = one_device d T (h p) cs"
  by (simp_all add: one_device_def dev_def upd_dev_def upd_conn_def call_def run_loop_remove_timer_def
      run_loop_add_timer_def upd_platform_def)

lemma init_device_conn [bt_simps]:
  "bc_btaddr (hd_conn init_device) = zero_addr" "bc_handle (hd_conn init_device) = UNI_BT_CONN_HANDLE_INVALID"
  "bc_control_cid (hd_conn init_device) = 0" "bc_interrupt_cid (hd_conn init_device) = 0"
  "\<not> uni_hid_device_is_virtual_device init_device"
  by (simp_all add: init_device_def uni_bt_conn_init_def zero_conn_def uni_hid_device_is_virtual_device_def zero_device_def)

lemma one_device_others:
  "dev (one_device d T p cs) (Suc 0) = init_device" "dev (one_device d T p cs) 2 = init_device"
  "dev (one_device d T p cs) 3 = init_device"
  by (simp_all add: one_device_def dev_def)

lemma one_device_lookup [bt_simps]:
  "addr \<noteq> zero_addr \<Longrightarrow> uni_hid_device_get_instance_for_address addr (one_device d T p cs)
     = (if \<not> uni_hid_device_is_virtual_device d \<and> addr = bc_btaddr (hd_conn d) then Some 0 else None)"
  "uni_hid_device_get_instance_for_connection_handle handle (one_device d T p cs)
     = (if handle \<noteq> UNI_BT_CONN_HANDLE_INVALID \<and> bc_handle (hd_conn d) = handle then Some 0 else None)"
  by (simp_all add: uni_hid_device_get_instance_for_address_def uni_hid_device_get_instance_for_connection_handle_def
      slots_eq one_device_simps(1) one_device_others init_device_conn)

text \<open>A device is created in slot 0 when it is free and has no timer.\<close>

definition fresh_device :: "bytes \<Rightarrow> uni_hid_device" where
  "fresh_device addr = zero_device\<lparr>hd_conn := zero_conn\<lparr>bc_btaddr := addr\<rparr>\<rparr>"

lemma create_in_slot_0 [bt_simps]:
  assumes "bc_btaddr (hd_conn d) = zero_addr" and "\<forall>k. T (0, k) = None"
  shows "uni_hid_device_create addr (one_device d T p cs)
    = Inr (Some 0, one_device (fresh_device addr) (T((0, Connection_timer) := Some HID_DEVICE_CONNECTION_TIMEOUT_MS)) p cs)"
  using assms
  by (simp add: uni_hid_device_create_def slots_eq is_free_def one_device_simps overwrite_slot_eq
      start_connection_timeout_def fresh_device_def) (simp add: zero_device_def)

definition boot_seats :: arduino where
  "boot_seats = hw_platform booted"

definition bt_booted :: "arduino bt_world" where
  "bt_booted = bt_start booted"

lemma bt_booted_one:
  "bt_booted = bt_one (one_device init_device (\<lambda>_. None) boot_seats []) None None (replicate MAX_ATTRIBUTE_VALUE_SIZE 0) []"
proof -
  have "booted = one_device init_device (\<lambda>_. None) (hw_platform booted) []"
    by (simp add: one_device_def booted_def powered_on_def)
  then show ?thesis by (simp add: bt_booted_def bt_start_one boot_seats_def)
qed

text \<open>A device that is not connected to the platform leaves an empty slot.\<close>

lemma close_channels_one:
  "\<exists>c cs'. close_channels gap 0 (one_device d T p cs) = one_device (d\<lparr>hd_conn := c\<rparr>) T p cs'
     \<and> bc_connected c = bc_connected (hd_conn d)"
proof (cases "uni_hid_device_is_virtual_device d")
  case True
  then show ?thesis
    by (intro exI [of _ "hd_conn d"] exI [of _ cs]) (simp add: close_channels_def bt_simps)
next
  case False
  show ?thesis
  proof (cases "gap (bc_handle (hd_conn d))")
    case GAP_CONNECTION_LE
    then show ?thesis
      by (intro exI [of _ "hd_conn d"])
        (auto simp: close_channels_def bt_simps uni_bt_le_disconnect_def hog_disconnect_def Let_def split: option.splits)
  next
    case GAP_CONNECTION_ACL
    with False show ?thesis
      by (intro exI [of _ "(hd_conn d)\<lparr>bc_handle := UNI_BT_CONN_HANDLE_INVALID\<rparr>"]
          exI [of _ "cs @ [Gap_disconnect (bc_handle (hd_conn d))]"])
        (simp add: close_channels_def bt_simps uni_bt_bredr_disconnect_def Let_def)
  next
    case GAP_CONNECTION_INVALID
    then show ?thesis
      by (intro exI [of _ "hd_conn d"]) (auto simp: close_channels_def bt_simps)
  next
    case GAP_CONNECTION_SCO
    then show ?thesis
      by (intro exI [of _ "hd_conn d"]) (auto simp: close_channels_def bt_simps)
  qed
qed

lemma remove_unconnected:
  assumes "hd_child d = None" and "\<not> bc_connected (hd_conn d)"
    and "\<forall>k. k \<noteq> Connection_timer \<and> k \<noteq> Inquiry_timer \<longrightarrow> T (0, k) = None"
  shows "\<exists>cs'. disconnect_and_delete plat gap 0 (one_device d T p cs)
    = Inr (one_device init_device (T((0, Connection_timer) := None, (0, Inquiry_timer) := None)) p cs')"
proof -
  obtain c cs' where c: "close_channels gap 0 (one_device d T p cs) = one_device (d\<lparr>hd_conn := c\<rparr>) T p cs'"
    "\<not> bc_connected c"
    using close_channels_one [of gap d T p cs] assms(2) by metis
  let ?T = "T((0, Connection_timer) := None, (0, Inquiry_timer) := None)"
  have "disconnect_one plat gap 0 (one_device d T p cs)
      = one_device (d\<lparr>hd_conn := uni_bt_conn_disconnect c\<rparr>) ?T p cs'"
    using assms(2) by (simp add: disconnect_one_def bt_simps c(1) Let_def)
  moreover have "?T((0, Connection_timer) := None) = ?T" by (simp add: fun_eq_iff)
  ultimately show ?thesis
    using assms(1,3)
    by (intro exI [of _ cs']) (simp add: disconnect_and_delete_def uni_hid_device_disconnect_def
        uni_hid_device_delete_def uni_hid_device_init_def overwrite_slot_eq bt_simps)
qed

lemma fresh_device_fields [bt_simps]:
  "hd_conn (fresh_device addr) = zero_conn\<lparr>bc_btaddr := addr\<rparr>" "hd_flags (fresh_device addr) = 0"
  "hd_parent (fresh_device addr) = None" "hd_child (fresh_device addr) = None"
  "hd_sdp_query_type (fresh_device addr) = SDP_QUERY_AFTER_CONNECT" "hd_cod (fresh_device addr) = 0"
  by (simp_all add: fresh_device_def zero_device_def)

text \<open>What the setters leave alone, and when a device has a name.\<close>

lemma has_flag_set_flag:
  "f AND g = 0 \<Longrightarrow> has_flag g (set_flag f d) = has_flag g d" "f \<noteq> 0 \<Longrightarrow> has_flag f (set_flag f d)"
proof -
  assume "f AND g = 0"
  then show "has_flag g (set_flag f d) = has_flag g d"
    using word_disjoint_OR_AND [of g f "hd_flags d"] by (simp add: has_flag_def set_flag_def ac_simps)
next
  assume "f \<noteq> 0"
  moreover have "(hd_flags d OR f) AND f = f" by (simp add: bit_eq_iff bit_simps)
  ultimately show "has_flag f (set_flag f d)" by (simp add: has_flag_def set_flag_def)
qed

lemma has_name_set_flag [bt_simps]:
  "uni_hid_device_has_name (set_flag FLAGS_HAS_COD d) = uni_hid_device_has_name d"
  "uni_hid_device_has_name (set_flag FLAGS_HAS_NAME d)"
  by (simp_all add: uni_hid_device_has_name_def has_flag_set_flag FLAGS_HAS_COD_def FLAGS_HAS_NAME_def BIT_def)

lemma has_name_fields [bt_simps]:
  "uni_hid_device_has_name (d\<lparr>hd_conn := c\<rparr>) = uni_hid_device_has_name d"
  "uni_hid_device_has_name (d\<lparr>hd_cod := cod\<rparr>) = uni_hid_device_has_name d"
  "uni_hid_device_has_name (d\<lparr>hd_name := n\<rparr>) = uni_hid_device_has_name d"
  "uni_hid_device_has_name (d\<lparr>hd_platform_data := pd\<rparr>) = uni_hid_device_has_name d"
  "uni_hid_device_has_name (d\<lparr>hd_sdp_query_type := ty\<rparr>) = uni_hid_device_has_name d"
  "uni_hid_device_has_name (d\<lparr>hd_cod := cod, hd_flags := f\<rparr>) = (f AND FLAGS_HAS_NAME \<noteq> 0)"
  "\<not> uni_hid_device_has_name (fresh_device addr)"
  by (simp_all add: uni_hid_device_has_name_def has_flag_def fresh_device_def zero_device_def)

lemma setters [bt_simps]:
  "hd_conn (set_flag f d) = hd_conn d" "hd_parent (set_flag f d) = hd_parent d" "hd_child (set_flag f d) = hd_child d"
  "hd_sdp_query_type (set_flag f d) = hd_sdp_query_type d" "hd_name (set_flag f d) = hd_name d"
  "hd_report_parser (set_flag f d) = hd_report_parser d"
  by (simp_all add: set_flag_def)

text \<open>The state machine, for the device in slot 0.\<close>

definition name_request :: "uni_bt_conn \<Rightarrow> bt_call" where
  "name_request c =
     (if bc_clock_offset c AND UNI_BT_CLOCK_OFFSET_VALID \<noteq> 0
      then Remote_name_request (bc_btaddr c) (bc_page_scan_repetition_mode c) (bc_clock_offset c)
      else Remote_name_request (bc_btaddr c) 2 0)"

lemma fsm_asks_for_name:
  assumes "\<not> uni_hid_device_has_name d"
    and "bc_state (hd_conn d) \<in> {UNI_BT_CONN_STATE_DEVICE_DISCOVERED, UNI_BT_CONN_STATE_L2CAP_INTERRUPT_CONNECTED}"
  shows "uni_bt_bredr_process_fsm env st 0 (bt_one (one_device d T p cs) q t buf calls)
    = (if T (0, Inquiry_timer) \<noteq> None then Inl Assertion_failed
       else Inr (bt_one (one_device (d\<lparr>hd_conn := (hd_conn d)\<lparr>bc_state := UNI_BT_CONN_STATE_REMOTE_NAME_INQUIRED\<rparr>\<rparr>)
                          (T((0, Inquiry_timer) := Some INQUIRY_REMOTE_NAME_TIMEOUT_MS)) p cs)
                  q t buf (calls @ [name_request (hd_conn d)])))"
proof -
  have "uni_bt_bredr_process_fsm env st 0 (bt_one (one_device d T p cs) q t buf calls)
      = request_name 0 (bt_one (one_device d T p cs) q t buf calls)"
    using assms by (auto simp: uni_bt_bredr_process_fsm_def numeral_2_eq_2 fsm_body_def bt_simps)
  then show ?thesis
    by (simp add: request_name_def bt_simps name_request_def Let_def uni_bt_conn_set_state_def)
qed

section \<open>A device without a name\<close>

lemma gamepad_let_in:
  "uni_hid_device_on_device_discovered (be_allowed open_env) (be_on_device_discovered open_env) addr
     (ucast gamepad_cod) 200 = UNI_ERROR_SUCCESS"
  by (simp add: open_env_def arduino_env_def gamepad_cod_def uni_hid_device_on_device_discovered_def
      uni_hid_device_is_cod_supported_def cod_defs)

lemma gamepad_cod_nonzero: "gamepad_cod \<noteq> 0"
  by (simp add: gamepad_cod_def)

lemma set_gamepad_cod [bt_simps]:
  "uni_hid_device_set_cod gamepad_cod d = set_flag FLAGS_HAS_COD (d\<lparr>hd_cod := gamepad_cod\<rparr>)"
  by (simp add: uni_hid_device_set_cod_def gamepad_cod_nonzero)

text \<open>A device whose name has been requested and that is not yet connected.\<close>

definition nameless :: "bytes \<Rightarrow> uni_hid_device \<Rightarrow> (nat \<times> device_timer \<Rightarrow> u32 option) \<Rightarrow> bool" where
  "nameless addr d T \<longleftrightarrow> bc_btaddr (hd_conn d) = addr \<and> \<not> uni_hid_device_is_virtual_device d
     \<and> \<not> uni_hid_device_has_name d \<and> bc_state (hd_conn d) \<noteq> UNI_BT_CONN_STATE_DEVICE_READY
     \<and> T (0, Inquiry_timer) \<noteq> None"

lemma nameless_after_request:
  assumes "\<not> uni_hid_device_has_name d" and "bc_state (hd_conn d) = UNI_BT_CONN_STATE_DEVICE_DISCOVERED"
    and "bc_btaddr (hd_conn d) = addr" and "\<not> uni_hid_device_is_virtual_device d" and "T (0, Inquiry_timer) = None"
  shows "\<exists>d' T' calls'. uni_bt_bredr_process_fsm env st 0 (bt_one (one_device d T p cs) q t buf calls)
    = Inr (bt_one (one_device d' T' p cs) q t buf calls') \<and> nameless addr d' T'"
proof -
  let ?d = "d\<lparr>hd_conn := (hd_conn d)\<lparr>bc_state := UNI_BT_CONN_STATE_REMOTE_NAME_INQUIRED\<rparr>\<rparr>"
  have "nameless addr ?d (T((0, Inquiry_timer) := Some INQUIRY_REMOTE_NAME_TIMEOUT_MS))"
    using assms by (simp add: nameless_def bt_simps uni_hid_device_is_virtual_device_def)
  with fsm_asks_for_name [OF assms(1), of env st T p cs q t buf calls] assms(2,5) show ?thesis by auto
qed

text \<open>A device that the inquiry has found, as the table holds it.\<close>

definition found_device :: "bytes \<Rightarrow> u8 \<Rightarrow> u16 \<Rightarrow> uni_hid_device" where
  "found_device addr page_scan clock_offset =
     (set_flag FLAGS_HAS_COD (fresh_device addr
        \<lparr>hd_conn := uni_bt_conn_set_state UNI_BT_CONN_STATE_DEVICE_DISCOVERED (zero_conn\<lparr>bc_btaddr := addr\<rparr>),
         hd_cod := gamepad_cod\<rparr>))
      \<lparr>hd_conn := uni_bt_conn_set_state UNI_BT_CONN_STATE_DEVICE_DISCOVERED (zero_conn\<lparr>bc_btaddr := addr\<rparr>)
         \<lparr>bc_page_scan_repetition_mode := page_scan, bc_clock_offset := clock_offset OR UNI_BT_CLOCK_OFFSET_VALID,
          bc_rssi := 200\<rparr>\<rparr>"

lemma found_device_fields:
  "hd_conn (found_device addr page_scan clock_offset) = zero_conn\<lparr>bc_btaddr := addr,
     bc_state := UNI_BT_CONN_STATE_DEVICE_DISCOVERED, bc_page_scan_repetition_mode := page_scan,
     bc_clock_offset := clock_offset OR UNI_BT_CLOCK_OFFSET_VALID, bc_rssi := 200\<rparr>"
  "\<not> uni_hid_device_has_name (found_device addr page_scan clock_offset)"
  "hd_parent (found_device addr page_scan clock_offset) = None"
  "hd_child (found_device addr page_scan clock_offset) = None"
  "hd_cod (found_device addr page_scan clock_offset) = gamepad_cod"
  "hd_vendor_id (found_device addr page_scan clock_offset) = 0"
  "hd_product_id (found_device addr page_scan clock_offset) = 0"
  "hd_flags (found_device addr page_scan clock_offset) = FLAGS_HAS_COD"
  "hd_name (found_device addr page_scan clock_offset) = replicate HID_MAX_NAME_LEN 0"
  "hd_sdp_query_type (found_device addr page_scan clock_offset) = SDP_QUERY_AFTER_CONNECT"
  by (simp_all add: found_device_def bt_simps uni_bt_conn_set_state_def)
    (simp_all add: set_flag_def fresh_device_def zero_device_def)

definition found_timers :: "(nat \<times> device_timer \<Rightarrow> u32 option) \<Rightarrow> nat \<times> device_timer \<Rightarrow> u32 option" where
  "found_timers T = T((0, Connection_timer) := Some HID_DEVICE_CONNECTION_TIMEOUT_MS)"

lemma device_found:
  assumes "addr \<noteq> zero_addr" and "bc_btaddr (hd_conn d) = zero_addr" and "\<forall>k. T (0, k) = None"
    and "length name \<le> HID_MAX_NAME_LEN"
  shows "bt_step open_env (st, Inquiry_result addr page_scan clock_offset gamepad_cod (Some 200) (Some name))
      (bt_one (one_device d T p cs) q t buf calls)
    = uni_bt_bredr_process_fsm open_env st 0 (bt_one (one_device
        (if name = [] then found_device addr page_scan clock_offset
         else (uni_hid_device_set_name name (found_device addr page_scan clock_offset))
           \<lparr>hd_conn := uni_bt_conn_set_state UNI_BT_CONN_STATE_REMOTE_NAME_FETCHED
              (hd_conn (found_device addr page_scan clock_offset))\<rparr>)
        (found_timers T) p cs) q t buf calls)"
    (is "?named")
    "bt_step open_env (st, Inquiry_result addr page_scan clock_offset gamepad_cod (Some 200) None)
      (bt_one (one_device d T p cs) q t buf calls)
    = uni_bt_bredr_process_fsm open_env st 0
        (bt_one (one_device (found_device addr page_scan clock_offset) (found_timers T) p cs) q t buf calls)"
    (is "?unnamed")
proof -
  have d: "addr \<noteq> bc_btaddr (hd_conn d)" using assms(1,2) by simp
  show ?unnamed
    using assms d
    by (simp add: bt_step_def on_gap_inquiry_result_def gamepad_let_in bt_simps HID_MAX_NAME_LEN_def Let_def
        found_device_def found_timers_def)
  show ?named
    using assms d
    by (simp add: bt_step_def on_gap_inquiry_result_def gamepad_let_in bt_simps Let_def found_device_def found_timers_def
        uni_hid_device_set_name_def)
qed

lemma nameless_found:
  assumes "addr \<noteq> zero_addr" and "bc_btaddr (hd_conn d) = zero_addr" and "\<forall>k. T (0, k) = None"
  shows "\<exists>d' T' calls'. bt_step open_env (st, Inquiry_result addr page_scan clock_offset gamepad_cod (Some 200) None)
      (bt_one (one_device d T p cs) q t buf calls)
     = Inr (bt_one (one_device d' T' p cs) q t buf calls')
    \<and> nameless addr d' T'"
proof -
  have "found_timers T (0, Inquiry_timer) = None" using assms(3) by (simp add: found_timers_def)
  then show ?thesis
    unfolding device_found(2) [OF assms, of "[]", simplified]
    by (intro nameless_after_request) (simp_all add: found_device_fields uni_hid_device_is_virtual_device_def)
qed

lemma nameless_has_name:
  "nameless addr (d\<lparr>hd_conn := c\<rparr>) T \<longleftrightarrow> bc_btaddr c = addr \<and> \<not> uni_hid_device_is_virtual_device d
     \<and> \<not> uni_hid_device_has_name d \<and> bc_state c \<noteq> UNI_BT_CONN_STATE_DEVICE_READY \<and> T (0, Inquiry_timer) \<noteq> None"
  by (simp add: nameless_def bt_simps uni_hid_device_is_virtual_device_def)

lemma nameless_lookup:
  assumes "nameless addr d T" and "addr \<noteq> zero_addr"
  shows "uni_hid_device_get_instance_for_address addr (one_device d T p cs) = Some 0"
    "bc_state (hd_conn d) \<noteq> UNI_BT_CONN_STATE_DEVICE_READY" "bc_btaddr (hd_conn d) = addr"
    "\<not> uni_hid_device_is_virtual_device d" "\<not> uni_hid_device_has_name d" "\<exists>y. T (0, Inquiry_timer) = Some y"
  using assms by (auto simp: nameless_def bt_simps)

lemma nameless_request:
  assumes "nameless addr d T" and "addr \<noteq> zero_addr"
  shows "\<exists>d'. bt_step env (st, Connection_request addr gamepad_cod) (bt_one (one_device d T p cs) q t buf calls)
      = Inr (bt_one (one_device d' T p cs) q t buf calls) \<and> nameless addr d' T \<and> bc_incoming (hd_conn d')"
  using nameless_lookup [OF assms]
  by (simp add: bt_step_def on_hci_connection_request_def bt_simps uni_hid_device_set_incoming_def)
    (intro exI conjI, rule refl, simp_all add: nameless_has_name bt_simps uni_hid_device_is_virtual_device_def)

lemma nameless_complete:
  assumes "nameless addr d T" and "addr \<noteq> zero_addr" and "bc_incoming (hd_conn d)"
  shows "\<exists>d'. bt_step env (st, Connection_complete addr 0 handle) (bt_one (one_device d T p cs) q t buf calls)
      = Inr (bt_one (one_device d' T p cs) q t buf calls) \<and> nameless addr d' T \<and> bc_incoming (hd_conn d')"
  using nameless_lookup [OF assms(1,2)] assms(3)
  by (simp add: bt_step_def on_hci_connection_complete_def bt_simps uni_hid_device_set_connection_handle_def)
    (intro exI conjI, rule refl, simp_all add: nameless_has_name bt_simps)

lemma nameless_channels:
  assumes "nameless addr d T" and "addr \<noteq> zero_addr" and "bc_incoming (hd_conn d)" and "be_allowed env addr"
  shows "\<exists>d' calls'. bt_step env (st, Incoming_channel channel PSM_HID_CONTROL handle addr)
        (bt_one (one_device d T p cs) q t buf calls)
      = Inr (bt_one (one_device d' T p cs) q t buf calls') \<and> nameless addr d' T \<and> bc_incoming (hd_conn d')"
    "\<exists>d' calls'. bt_step env (st, Incoming_channel channel PSM_HID_INTERRUPT handle addr)
        (bt_one (one_device d T p cs) q t buf calls)
      = Inr (bt_one (one_device d' T p cs) q t buf calls') \<and> nameless addr d' T \<and> bc_incoming (hd_conn d')"
  using nameless_lookup [OF assms(1,2)] assms(3,4)
  by (simp_all add: bt_step_def on_l2cap_incoming_connection_def bt_simps uni_hid_device_set_connection_handle_def
      uni_hid_device_set_incoming_def PSM_HID_CONTROL_def PSM_HID_INTERRUPT_def Let_def)
    ((intro exI conjI, rule refl, simp_all add: nameless_has_name bt_simps)+)

lemma nameless_control_open:
  assumes "nameless addr d T" and "addr \<noteq> zero_addr" and "bc_incoming (hd_conn d)"
  shows "\<exists>d'. bt_step env (st, Channel_opened addr 0 PSM_HID_CONTROL channel) (bt_one (one_device d T p cs) q t buf calls)
      = Inr (bt_one (one_device d' T p cs) q t buf calls) \<and> nameless addr d' T \<and> bc_incoming (hd_conn d')"
  using nameless_lookup [OF assms(1,2)] assms(3)
  by (simp add: bt_step_def on_l2cap_channel_opened_def bt_simps uni_bt_bredr_process_fsm_def numeral_2_eq_2 fsm_body_def
      uni_bt_conn_set_state_def Let_def)
    (intro exI conjI, rule refl, simp_all add: nameless_has_name bt_simps)

lemma nameless_interrupt_open:
  assumes "nameless addr d T" and "addr \<noteq> zero_addr" and "be_plat env = arduino_platform"
  shows "bt_step env (st, Channel_opened addr 0 PSM_HID_INTERRUPT channel) (bt_one (one_device d T p cs) q t buf calls)
    = Inl Assertion_failed"
proof -
  let ?c = "uni_bt_conn_set_connected True ((hd_conn d)\<lparr>bc_interrupt_cid := channel,
      bc_state := UNI_BT_CONN_STATE_L2CAP_INTERRUPT_CONNECTED\<rparr>)"
  let ?d = "set_controller_idx UNI_ARDUINO_GAMEPAD_INVALID (d\<lparr>hd_conn := ?c\<rparr>)"
  have "bt_step env (st, Channel_opened addr 0 PSM_HID_INTERRUPT channel) (bt_one (one_device d T p cs) q t buf calls)
      = uni_bt_bredr_process_fsm env st 0 (bt_one (one_device ?d T p (cs @ [Service_on_connected 0])) q t buf calls)"
    using nameless_lookup [OF assms(1,2)]
    by (simp add: bt_step_def on_l2cap_channel_opened_def bt_simps uni_hid_device_connect_def
        uni_hid_device_on_connected_def assms(3) arduino_platform_def arduino_on_device_connected_def
        uni_bt_conn_set_state_def PSM_HID_CONTROL_def PSM_HID_INTERRUPT_def)
  moreover have "\<not> uni_hid_device_has_name ?d" "bc_state (hd_conn ?d) = UNI_BT_CONN_STATE_L2CAP_INTERRUPT_CONNECTED"
    using nameless_lookup(5) [OF assms(1,2)]
    by (simp_all add: set_controller_idx_def bt_simps uni_bt_conn_set_connected_def)
  ultimately show ?thesis
    using fsm_asks_for_name [of ?d env st T p "cs @ [Service_on_connected 0]" q t buf calls] nameless_lookup(6) [OF assms(1,2)]
    by auto
qed

section \<open>Orders of events that go wrong\<close>

text \<open>
  A controller without a name is found by the inquiry, and connects by itself before it has
  answered the request for its name.
\<close>

definition page_while_inquired :: "bytes \<Rightarrow> bt_event list" where
  "page_while_inquired addr =
     [Inquiry_result addr 1 0 gamepad_cod (Some 200) None,
      Connection_request addr gamepad_cod, Connection_complete addr 0 0x80,
      Incoming_channel 0x40 PSM_HID_CONTROL 0x80 addr, Channel_opened addr 0 PSM_HID_CONTROL 0x40,
      Incoming_channel 0x41 PSM_HID_INTERRUPT 0x80 addr]"

text \<open>C7: a controller that connects by itself while its name is being requested brings the run loop
  down, whatever the stack answers: the events up to its second channel are handled, and when
  that channel opens the state machine asks for the name again and registers the timer of the
  first request a second time.\<close>
theorem name_requested_twice:
  assumes "addr \<noteq> zero_addr"
  shows "\<exists>b. bt_run open_env (map (\<lambda>ev. (st, ev)) (page_while_inquired addr)) bt_booted = Inr b
    \<and> bt_step open_env (st, Channel_opened addr 0 PSM_HID_INTERRUPT 0x41) b = Inl Assertion_failed"
proof -
  have allowed: "be_allowed open_env addr" "be_plat open_env = arduino_platform"
    by (simp_all add: open_env_def arduino_env_def)
  obtain d1 T calls1 where 1: "bt_step open_env (st, Inquiry_result addr 1 0 gamepad_cod (Some 200) None) bt_booted
      = Inr (bt_one (one_device d1 T boot_seats []) None None (replicate MAX_ATTRIBUTE_VALUE_SIZE 0) calls1)"
    "nameless addr d1 T"
    using nameless_found [OF assms, of init_device "\<lambda>_. None" st 1 0 boot_seats "[]" None None
        "replicate MAX_ATTRIBUTE_VALUE_SIZE 0" "[]"]
    by (auto simp: bt_booted_one init_device_conn)
  let ?b = "\<lambda>d calls. bt_one (one_device d T boot_seats []) None None (replicate MAX_ATTRIBUTE_VALUE_SIZE 0) calls"
  obtain d2 where 2: "bt_step open_env (st, Connection_request addr gamepad_cod) (?b d1 calls1) = Inr (?b d2 calls1)"
    "nameless addr d2 T" "bc_incoming (hd_conn d2)"
    using nameless_request [OF 1(2) assms] by blast
  obtain d3 where 3: "bt_step open_env (st, Connection_complete addr 0 0x80) (?b d2 calls1) = Inr (?b d3 calls1)"
    "nameless addr d3 T" "bc_incoming (hd_conn d3)"
    using nameless_complete [OF 2(2) assms 2(3)] by blast
  obtain d4 calls4 where 4: "bt_step open_env (st, Incoming_channel 0x40 PSM_HID_CONTROL 0x80 addr) (?b d3 calls1)
      = Inr (?b d4 calls4)" "nameless addr d4 T" "bc_incoming (hd_conn d4)"
    using nameless_channels(1) [OF 3(2) assms 3(3) allowed(1)] by blast
  obtain d5 where 5: "bt_step open_env (st, Channel_opened addr 0 PSM_HID_CONTROL 0x40) (?b d4 calls4)
      = Inr (?b d5 calls4)" "nameless addr d5 T" "bc_incoming (hd_conn d5)"
    using nameless_control_open [OF 4(2) assms 4(3)] by blast
  obtain d6 calls6 where 6: "bt_step open_env (st, Incoming_channel 0x41 PSM_HID_INTERRUPT 0x80 addr) (?b d5 calls4)
      = Inr (?b d6 calls6)" "nameless addr d6 T"
    using nameless_channels(2) [OF 5(2) assms 5(3) allowed(1)] by blast
  have "bt_run open_env (map (\<lambda>ev. (st, ev)) (page_while_inquired addr)) bt_booted = Inr (?b d6 calls6)"
    by (simp add: bt_run_def page_while_inquired_def 1 2 3 4 5 6)
  with nameless_interrupt_open [OF 6(2) assms allowed(2)] show ?thesis by blast
qed

theorem name_requested_twice_witness:
  "\<exists>b. bt_run open_env (map (\<lambda>ev. (granting False, ev)) (page_while_inquired first_address)) bt_booted = Inr b
     \<and> bt_step open_env (granting False, Channel_opened first_address 0 PSM_HID_INTERRUPT 0x41) b = Inl Assertion_failed"
  by (rule name_requested_twice) simp

section \<open>SDP queries that outlive their device\<close>

lemma c_string_padded: "0 \<notin> set s \<Longrightarrow> c_string (s @ 0 # rest) = s"
  by (auto simp: c_string_def takeWhile_append takeWhile_eq_all_conv [THEN iffD2])

lemma c_string_self: "0 \<notin> set s \<Longrightarrow> c_string s = s"
  by (auto simp: c_string_def intro: takeWhile_eq_all_conv [THEN iffD2])

lemma name_stored:
  assumes "length s < HID_MAX_NAME_LEN" and "0 \<notin> set s"
  shows "c_string (hd_name (uni_hid_device_set_name s d)) = s"
proof -
  have "replicate k (0 :: u8) @ [0] = 0 # replicate k 0" for k
    by (simp add: replicate_append_same)
  with assms show ?thesis
    by (simp add: uni_hid_device_set_name_def set_flag_def strncpy_def Let_def c_string_self c_string_padded)
qed

text \<open>A DualShock 4 or a DualSense: found with its name, it is queried before it is connected.\<close>

definition queried_device :: "bytes \<Rightarrow> uni_hid_device" where
  "queried_device addr =
     (let d = uni_hid_device_set_name (ascii ''Wireless Controller'') (found_device addr 1 0)
      in d\<lparr>hd_sdp_query_type := SDP_QUERY_BEFORE_CONNECT,
           hd_conn := (hd_conn d)\<lparr>bc_state := UNI_BT_CONN_STATE_SDP_VENDOR_REQUESTED\<rparr>\<rparr>)"

definition wireless_controller_found :: "bytes \<Rightarrow> bt_event" where
  "wireless_controller_found addr = Inquiry_result addr 1 0 gamepad_cod (Some 200) (Some (ascii ''Wireless Controller''))"

lemma wireless_controller_name:
  "length (ascii ''Wireless Controller'') < HID_MAX_NAME_LEN" "0 \<notin> set (ascii ''Wireless Controller'')"
  "ascii ''Wireless Controller'' \<noteq> []"
  by (simp_all add: ascii_def HID_MAX_NAME_LEN_def)

lemma wireless_controller_queried:
  assumes "addr \<noteq> zero_addr" and "bc_btaddr (hd_conn d) = zero_addr" and "\<forall>k. T (0, k) = None"
    and "st_sdp_query st addr BLUETOOTH_SERVICE_CLASS_PNP_INFORMATION = 0"
  shows "bt_step open_env (st, wireless_controller_found addr) (bt_one (one_device d T p cs) None None buf calls)
    = Inr (bt_one (one_device (queried_device addr) (found_timers T) p cs) (Some 0) (Some 0) buf
             (calls @ [Sdp_query addr BLUETOOTH_SERVICE_CLASS_PNP_INFORMATION]))"
proof -
  let ?n = "uni_hid_device_set_name (ascii ''Wireless Controller'') (found_device addr 1 0)"
  let ?d = "?n\<lparr>hd_conn := uni_bt_conn_set_state UNI_BT_CONN_STATE_REMOTE_NAME_FETCHED (hd_conn (found_device addr 1 0))\<rparr>"
  have "strcmp_eq ''Wireless Controller'' (hd_name ?d)"
    using name_stored [OF wireless_controller_name(1,2), of "found_device addr 1 0"] by (simp add: strcmp_eq_def)
  moreover have "hd_conn ?n = hd_conn (found_device addr 1 0)"
    by (simp add: uni_hid_device_set_name_def set_flag_def)
  ultimately show ?thesis
    unfolding wireless_controller_found_def
    using wireless_controller_name assms(4)
    by (simp add: device_found(1) [OF assms(1-3)] uni_bt_bredr_process_fsm_def numeral_2_eq_2 fsm_body_def
        name_fetched_def bt_simps uni_bt_conn_set_state_def uni_bt_sdp_query_start_def uni_bt_sdp_query_start_vid_pid_def
        queried_device_def found_device_fields Let_def)
qed

text \<open>
  A device without ids is in the list of known controllers, as an Xbox 360 controller: it is not
  classified by its class or its name.
\<close>

definition typed :: "uni_hid_device \<Rightarrow> uni_hid_device" where
  "typed d = set_flag FLAGS_HAS_CONTROLLER_TYPE
     (d\<lparr>hd_controller_subtype := CONTROLLER_SUBTYPE_NONE,
        hd_report_parser := no_parser\<lparr>rv_init_report := Some Generic, rv_parse_usage := Some Generic\<rparr>,
        hd_controller_type := CONTROLLER_TYPE_XBox360Controller\<rparr>)"

lemma no_ids_xbox360: "uni_guess_controller_type 0 0 = CONTROLLER_TYPE_XBox360Controller"
proof -
  have "find_controller cs (MAKE_CONTROLLER_ID 0 0) = None"
    if "cs = controllers_32_180 \<or> cs = controllers_181_330" for cs
    using that unfolding controllers_32_180_def controllers_181_330_def
    by (auto simp: find_controller_skip simp del: find_controller.simps(2))
  moreover have "find_controller controllers_331_480 (MAKE_CONTROLLER_ID 0 0) = Some (CONTROLLER_TYPE_XBox360Controller, None)"
    unfolding controllers_331_480_def
    by (simp add: find_controller_skip find_controller_hit del: find_controller.simps(2))
  ultimately show ?thesis
    by (simp add: uni_guess_controller_type_def arrControllers_def find_controller_append)
qed

lemma guess_without_ids:
  assumes "hd_vendor_id d = 0" and "hd_product_id d = 0" and "\<not> uni_hid_device_has_controller_type d"
  shows "uni_hid_device_guess_controller_type_from_pid_vid d = Inr (typed d)"
  using assms
  by (simp add: uni_hid_device_guess_controller_type_from_pid_vid_def no_ids_xbox360 unknown_type_def
      report_parser_for_def typed_def)

lemma typed_fields [bt_simps]:
  "hd_conn (typed d) = hd_conn d" "hd_child (typed d) = hd_child d" "hd_parent (typed d) = hd_parent d"
  "hd_controller_type (typed d) = CONTROLLER_TYPE_XBox360Controller"
  by (simp_all add: typed_def set_flag_def)

lemma typed_flags [bt_simps]:
  "uni_hid_device_does_require_hid_descriptor (typed d\<lparr>hd_conn := c\<rparr>)"
  "uni_hid_device_has_controller_type (typed d\<lparr>hd_conn := c\<rparr>)"
  "hd_controller_type (typed d\<lparr>hd_conn := c\<rparr>) = CONTROLLER_TYPE_XBox360Controller"
  using has_flag_set_flag(2) [of FLAGS_HAS_CONTROLLER_TYPE]
  by (simp_all add: typed_def uni_hid_device_does_require_hid_descriptor_def set_flag_def
      uni_hid_device_has_controller_type_def has_flag_def FLAGS_HAS_CONTROLLER_TYPE_def BIT_def)

text \<open>A device whose SDP answers hold no ids (which the fallback by class and name is written
  for) gets the controller type Xbox 360 and the generic driver, be it a mouse, a keyboard or a
  clone of an Xbox controller: the list of known controllers has an entry for the ids zero.\<close>
theorem no_fallback_without_ids:
  assumes "hd_vendor_id d = 0" and "hd_product_id d = 0" and "\<not> uni_hid_device_has_controller_type d"
  shows "\<exists>d'. uni_hid_device_guess_controller_type_from_pid_vid d = Inr d'
    \<and> hd_controller_type d' = CONTROLLER_TYPE_XBox360Controller
    \<and> hd_report_parser d' = no_parser\<lparr>rv_init_report := Some Generic, rv_parse_usage := Some Generic\<rparr>"
  using guess_without_ids [OF assms] by (simp add: typed_def set_flag_def)

text \<open>A mouse, as it is after its class is known.\<close>

definition nameless_mouse :: uni_hid_device where
  "nameless_mouse = uni_hid_device_set_cod 0x2580 zero_device"

theorem no_fallback_without_ids_witness:
  "uni_hid_device_is_mouse nameless_mouse
   \<and> (\<exists>d'. uni_hid_device_guess_controller_type_from_pid_vid nameless_mouse = Inr d'
        \<and> hd_controller_type d' = CONTROLLER_TYPE_XBox360Controller
        \<and> hd_report_parser d' = no_parser\<lparr>rv_init_report := Some Generic, rv_parse_usage := Some Generic\<rparr>)"
  by (intro conjI no_fallback_without_ids)
    (simp_all add: nameless_mouse_def uni_hid_device_set_cod_def set_flag_def zero_device_def
      uni_hid_device_is_mouse_def cod_defs uni_hid_device_has_controller_type_def has_flag_def
      FLAGS_HAS_CONTROLLER_TYPE_def FLAGS_HAS_COD_def BIT_def)

lemma untyped_answer:
  assumes "hd_vendor_id d = 0" and "hd_product_id d = 0" and "\<not> uni_hid_device_has_controller_type d"
  shows "bt_step env (st, Pid_query Query_complete) (bt_one (one_device d T p cs) (Some 0) t buf calls)
    = (let d' = (typed d)\<lparr>hd_conn := (hd_conn d)\<lparr>bc_state := UNI_BT_CONN_STATE_SDP_HID_DESCRIPTOR_REQUESTED\<rparr>\<rparr>;
           addr = bc_btaddr (hd_conn d);
           calls' = calls @ [Sdp_query addr BLUETOOTH_SERVICE_CLASS_HUMAN_INTERFACE_DEVICE_SERVICE]
       in if st_sdp_query st addr BLUETOOTH_SERVICE_CLASS_HUMAN_INTERFACE_DEVICE_SERVICE \<noteq> 0
          then disconnect_device env st 0 (bt_one (one_device d' T p cs) (Some 0) None buf calls')
          else Inr (bt_one (one_device d' T p cs) (Some 0) t buf calls'))"
proof -
  have "uni_hid_device_does_require_hid_descriptor (typed d)"
    by (simp add: typed_def set_flag_def uni_hid_device_does_require_hid_descriptor_def)
  then show ?thesis
    using guess_without_ids [OF assms]
    by (simp add: bt_step_def uni_handle_sdp_pid_query_result_def guess_type_def bt_simps uni_bt_bredr_process_fsm_def
        numeral_2_eq_2 fsm_body_def uni_bt_conn_set_state_def uni_bt_sdp_query_start_hid_descriptor_def Let_def)
qed

text \<open>A device that has not connected leaves a free slot without timers, whoever removes it.\<close>

lemma unconnected_removed:
  assumes "hd_child d = None" and "\<not> bc_connected (hd_conn d)"
    and "\<forall>k. k \<noteq> Connection_timer \<and> k \<noteq> Inquiry_timer \<longrightarrow> T (0, k) = None"
  shows "\<exists>T' cs'. disconnect_device env st 0 (bt_one (one_device d T p cs) q t buf calls)
    = Inr (bt_one (one_device init_device T' p cs') q t buf calls) \<and> (\<forall>k. T' (0, k) = None)"
proof -
  from remove_unconnected [of d T, OF assms, of "be_plat env" "st_gap st" p cs]
  obtain cs' where cs': "disconnect_and_delete (be_plat env) (st_gap st) 0 (one_device d T p cs)
      = Inr (one_device init_device (T((0, Connection_timer) := None, (0, Inquiry_timer) := None)) p cs')" by blast
  show ?thesis
    using assms(3)
    by (intro exI [of _ "T((0, Connection_timer) := None, (0, Inquiry_timer) := None)"] exI [of _ cs'])
      (auto simp: disconnect_device_def bt_simps cs')
qed

lemma found_timers_free:
  "\<forall>k. T (0, k) = None \<Longrightarrow> \<forall>k. k \<noteq> Connection_timer \<and> k \<noteq> Inquiry_timer \<longrightarrow> found_timers T (0, k) = None"
  by (simp add: found_timers_def)

lemma queried_device_fields [bt_simps]:
  "hd_child (queried_device addr) = None" "\<not> bc_connected (hd_conn (queried_device addr))"
  "bc_btaddr (hd_conn (queried_device addr)) = addr" "hd_vendor_id (queried_device addr) = 0"
  "hd_product_id (queried_device addr) = 0" "\<not> uni_hid_device_has_controller_type (queried_device addr)"
  by (simp_all add: queried_device_def uni_hid_device_set_name_def set_flag_def found_device_fields Let_def zero_conn_def
      uni_hid_device_has_controller_type_def has_flag_def)
    (simp add: FLAGS_HAS_CONTROLLER_TYPE_def FLAGS_HAS_COD_def FLAGS_HAS_NAME_def BIT_def)

text \<open>A device found without a name, while the answer to another device's query is out.\<close>

definition inquired_device :: "bytes \<Rightarrow> uni_hid_device" where
  "inquired_device addr =
     (found_device addr 1 0)\<lparr>hd_conn := (hd_conn (found_device addr 1 0))\<lparr>bc_state := UNI_BT_CONN_STATE_REMOTE_NAME_INQUIRED\<rparr>\<rparr>"

lemma inquired_device_fields [bt_simps]:
  "bc_btaddr (hd_conn (inquired_device addr)) = addr" "hd_vendor_id (inquired_device addr) = 0"
  "hd_product_id (inquired_device addr) = 0" "\<not> uni_hid_device_has_controller_type (inquired_device addr)"
  by (simp_all add: inquired_device_def found_device_fields uni_hid_device_has_controller_type_def has_flag_def)
    (simp add: FLAGS_HAS_CONTROLLER_TYPE_def FLAGS_HAS_COD_def BIT_def)

lemma nameless_inquired:
  assumes "addr \<noteq> zero_addr" and "bc_btaddr (hd_conn d) = zero_addr" and "\<forall>k. T (0, k) = None"
  shows "\<exists>T' call. bt_step open_env (st, Inquiry_result addr 1 0 gamepad_cod (Some 200) None)
      (bt_one (one_device d T p cs) q t buf calls)
    = Inr (bt_one (one_device (inquired_device addr) T' p cs) q t buf (calls @ [call]))"
proof -
  have "found_timers T (0, Inquiry_timer) = None" using assms(3) by (simp add: found_timers_def)
  with fsm_asks_for_name [of "found_device addr 1 0"] show ?thesis
    unfolding device_found(2) [OF assms, of "[]", simplified]
    by (auto simp: found_device_fields inquired_device_def)
qed

lemma type_kept:
  assumes "uni_hid_device_has_controller_type d"
  shows "uni_hid_device_guess_controller_type_from_pid_vid (set_ids vid pid d) = Inr (set_ids vid pid d)"
proof -
  have "FLAGS_HAS_VENDOR_ID AND FLAGS_HAS_CONTROLLER_TYPE = 0" "FLAGS_HAS_PRODUCT_ID AND FLAGS_HAS_CONTROLLER_TYPE = 0"
    by (simp_all add: FLAGS_HAS_VENDOR_ID_def FLAGS_HAS_PRODUCT_ID_def FLAGS_HAS_CONTROLLER_TYPE_def BIT_def)
  moreover have "has_flag f (d\<lparr>hd_product_id := x\<rparr>) = has_flag f d" "has_flag f (d\<lparr>hd_vendor_id := x\<rparr>) = has_flag f d"
    for f and d :: uni_hid_device and x by (simp_all add: has_flag_def)
  ultimately have "uni_hid_device_has_controller_type (set_ids vid pid d)"
    using assms by (simp add: uni_hid_device_has_controller_type_def set_ids_def uni_hid_device_set_vendor_id_def
        uni_hid_device_set_product_id_def has_flag_set_flag)
  then show ?thesis by (simp add: uni_hid_device_guess_controller_type_from_pid_vid_def)
qed

text \<open>C9: an answer that comes after its device is gone is taken for the next device of the slot.
  A controller is queried and disconnected by command, and the next controller is found and asked
  for its name: when the answer for the first arrives, the second is classified without ids,
  which no ids that it sends later will change, and is asked for its descriptor.\<close>
theorem late_answer_types_next_device:
  assumes "gone \<noteq> zero_addr" and "addr \<noteq> zero_addr" and "\<forall>a uuid. st_sdp_query st a uuid = 0"
  shows "\<exists>b. bt_run open_env
      [(st, wireless_controller_found gone), (st, Disconnect_command 0),
       (st, Inquiry_result addr 1 0 gamepad_cod (Some 200) None), (st, Pid_query Query_complete)] bt_booted = Inr b
    \<and> bc_btaddr (hd_conn (bdev b 0)) = addr
    \<and> bc_state (hd_conn (bdev b 0)) = UNI_BT_CONN_STATE_SDP_HID_DESCRIPTOR_REQUESTED
    \<and> hd_controller_type (bdev b 0) = CONTROLLER_TYPE_XBox360Controller
    \<and> (\<forall>vid pid. uni_hid_device_guess_controller_type_from_pid_vid (set_ids vid pid (bdev b 0))
          = Inr (set_ids vid pid (bdev b 0)))"
proof -
  let ?buf = "replicate MAX_ATTRIBUTE_VALUE_SIZE 0"
  let ?b = "\<lambda>d T cs calls. bt_one (one_device d T boot_seats cs) (Some 0) (Some 0) ?buf calls"
  have 1: "bt_step open_env (st, wireless_controller_found gone) bt_booted
      = Inr (?b (queried_device gone) (found_timers (\<lambda>_. None)) [] [Sdp_query gone BLUETOOTH_SERVICE_CLASS_PNP_INFORMATION])"
    using assms(1,3) by (simp add: bt_booted_one wireless_controller_queried bt_simps)
  obtain T2 cs2 where 2: "bt_step open_env (st, Disconnect_command 0)
      (?b (queried_device gone) (found_timers (\<lambda>_. None)) [] [Sdp_query gone BLUETOOTH_SERVICE_CLASS_PNP_INFORMATION])
      = Inr (?b init_device T2 cs2 [Sdp_query gone BLUETOOTH_SERVICE_CLASS_PNP_INFORMATION])" "\<forall>k. T2 (0, k) = None"
    using unconnected_removed [of "queried_device gone" "found_timers (\<lambda>_. None)" open_env st boot_seats "[]" "Some 0" "Some 0"
        ?buf "[Sdp_query gone BLUETOOTH_SERVICE_CLASS_PNP_INFORMATION]"]
    by (auto simp: bt_step_def uni_hid_device_get_instance_for_idx_def CONFIG_BLUEPAD32_MAX_DEVICES_def bt_simps
        found_timers_free)
  obtain T3 call where 3: "bt_step open_env (st, Inquiry_result addr 1 0 gamepad_cod (Some 200) None)
      (?b init_device T2 cs2 [Sdp_query gone BLUETOOTH_SERVICE_CLASS_PNP_INFORMATION])
      = Inr (?b (inquired_device addr) T3 cs2 [Sdp_query gone BLUETOOTH_SERVICE_CLASS_PNP_INFORMATION, call])"
    using nameless_inquired [OF assms(2) _ 2(2), of init_device st boot_seats cs2 "Some 0" "Some 0" ?buf
        "[Sdp_query gone BLUETOOTH_SERVICE_CLASS_PNP_INFORMATION]"]
    by (auto simp: bt_simps)
  let ?d = "(typed (inquired_device addr))\<lparr>hd_conn :=
      (hd_conn (inquired_device addr))\<lparr>bc_state := UNI_BT_CONN_STATE_SDP_HID_DESCRIPTOR_REQUESTED\<rparr>\<rparr>"
  have "bt_run open_env
      [(st, wireless_controller_found gone), (st, Disconnect_command 0),
       (st, Inquiry_result addr 1 0 gamepad_cod (Some 200) None), (st, Pid_query Query_complete)] bt_booted
      = Inr (?b ?d T3 cs2 [Sdp_query gone BLUETOOTH_SERVICE_CLASS_PNP_INFORMATION, call,
               Sdp_query addr BLUETOOTH_SERVICE_CLASS_HUMAN_INTERFACE_DEVICE_SERVICE])"
    using assms(3) by (simp add: bt_run_def 1 2(1) 3 untyped_answer bt_simps Let_def)
  then show ?thesis
    using inquired_device_fields by (simp add: bt_simps type_kept)
qed

lemma nonzero_addresses: "x \<noteq> 0 \<Longrightarrow> x # xs \<noteq> zero_addr"
  by (simp add: zero_addr_def numeral_eq_Suc)

theorem late_answer_types_next_device_witness:
  "\<exists>b. bt_run open_env
      [(granting False, wireless_controller_found first_address), (granting False, Disconnect_command 0),
       (granting False, Inquiry_result [2, 0, 0, 0, 0, 2] 1 0 gamepad_cod (Some 200) None),
       (granting False, Pid_query Query_complete)] bt_booted = Inr b
    \<and> bc_btaddr (hd_conn (bdev b 0)) = [2, 0, 0, 0, 0, 2]
    \<and> bc_state (hd_conn (bdev b 0)) = UNI_BT_CONN_STATE_SDP_HID_DESCRIPTOR_REQUESTED
    \<and> hd_controller_type (bdev b 0) = CONTROLLER_TYPE_XBox360Controller
    \<and> (\<forall>vid pid. uni_hid_device_guess_controller_type_from_pid_vid (set_ids vid pid (bdev b 0))
          = Inr (set_ids vid pid (bdev b 0)))"
  by (rule late_answer_types_next_device) (simp_all add: granting_def nonzero_addresses)

text \<open>The lock of the queries, taken without a timer that would give it back, over an empty table.\<close>

definition locked_out :: "arduino bt_world \<Rightarrow> bool" where
  "locked_out b \<longleftrightarrow> (\<exists>T cs buf calls. b = bt_one (one_device init_device T boot_seats cs) (Some 0) None buf calls
     \<and> (\<forall>k. T (0, k) = None))"

lemma removed_locked_out:
  assumes "hd_child d = None" and "\<not> bc_connected (hd_conn d)"
    and "\<forall>k. k \<noteq> Connection_timer \<and> k \<noteq> Inquiry_timer \<longrightarrow> T (0, k) = None"
  shows "\<exists>b'. disconnect_device env st 0 (bt_one (one_device d T boot_seats cs) (Some 0) None buf calls) = Inr b'
    \<and> locked_out b'"
proof -
  obtain T' cs' where removed: "disconnect_device env st 0 (bt_one (one_device d T boot_seats cs) (Some 0) None buf calls)
      = Inr (bt_one (one_device init_device T' boot_seats cs') (Some 0) None buf calls)" "\<forall>k. T' (0, k) = None"
    using unconnected_removed [of d T env st boot_seats cs "Some 0" None buf calls, OF assms] by blast
  have "locked_out (bt_one (one_device init_device T' boot_seats cs') (Some 0) None buf calls)"
    unfolding locked_out_def using removed(2) by blast
  with removed(1) show ?thesis by blast
qed

lemma locked_out_removes:
  assumes "locked_out b" and "addr \<noteq> zero_addr"
  shows "\<exists>b'. bt_step open_env (st, wireless_controller_found addr) b = Inr b' \<and> locked_out b'"
proof -
  obtain T cs buf calls where b: "b = bt_one (one_device init_device T boot_seats cs) (Some 0) None buf calls"
    "\<forall>k. T (0, k) = None" using assms(1) by (auto simp: locked_out_def)
  let ?n = "uni_hid_device_set_name (ascii ''Wireless Controller'') (found_device addr 1 0)"
  let ?d = "?n\<lparr>hd_conn := uni_bt_conn_set_state UNI_BT_CONN_STATE_REMOTE_NAME_FETCHED (hd_conn (found_device addr 1 0))\<rparr>"
  have name: "strcmp_eq ''Wireless Controller'' (hd_name ?d)"
    using name_stored [OF wireless_controller_name(1,2), of "found_device addr 1 0"] by (simp add: strcmp_eq_def)
  have conn: "hd_conn ?n = hd_conn (found_device addr 1 0)" "hd_child ?n = None"
    by (simp_all add: uni_hid_device_set_name_def set_flag_def found_device_fields)
  have "\<not> bc_connected (hd_conn (found_device addr 1 0))" by (simp add: found_device_fields zero_conn_def)
  then have fields: "hd_child (?d\<lparr>hd_sdp_query_type := SDP_QUERY_BEFORE_CONNECT\<rparr>) = None"
    "\<not> bc_connected (hd_conn (?d\<lparr>hd_sdp_query_type := SDP_QUERY_BEFORE_CONNECT\<rparr>))"
    by (simp_all add: conn uni_bt_conn_set_state_def)
  have "bt_step open_env (st, wireless_controller_found addr) b
      = disconnect_device open_env st 0 (bt_one (one_device (?d\<lparr>hd_sdp_query_type := SDP_QUERY_BEFORE_CONNECT\<rparr>)
          (found_timers T) boot_seats cs) (Some 0) None buf calls)"
    unfolding wireless_controller_found_def b(1)
    using wireless_controller_name name conn
    by (simp add: device_found(1) [OF assms(2) _ b(2)] uni_bt_bredr_process_fsm_def numeral_2_eq_2 fsm_body_def
        name_fetched_def bt_simps uni_bt_conn_set_state_def uni_bt_sdp_query_start_def found_device_fields)
  then show ?thesis using removed_locked_out [OF fields found_timers_free [OF b(2)]] by simp
qed

lemma locked_out_forever:
  "\<lbrakk>locked_out b; \<forall>a\<in>set addrs. a \<noteq> zero_addr\<rbrakk> \<Longrightarrow>
     \<exists>b'. bt_run open_env (map (\<lambda>a. (st, wireless_controller_found a)) addrs) b = Inr b' \<and> locked_out b'"
proof (induction addrs arbitrary: b)
  case Nil
  then show ?case by (simp add: bt_run_def)
next
  case (Cons a addrs)
  obtain b1 where "bt_step open_env (st, wireless_controller_found a) b = Inr b1" "locked_out b1"
    using locked_out_removes Cons.prems by (meson list.set_intros(1))
  with Cons show ?case by (simp add: bt_run_def)
qed

text \<open>C8: when the stack refuses the query for the descriptor of a controller, the lock of the queries
  is lost: its timer is stopped, the lock stays taken, the timeout does nothing, and every later
  controller of the kind that is queried first is removed as soon as it is found.\<close>
theorem refused_query_locks_out:
  assumes "addr \<noteq> zero_addr" and "\<forall>a\<in>set others. a \<noteq> zero_addr"
    and "st_sdp_query st addr BLUETOOTH_SERVICE_CLASS_PNP_INFORMATION = 0"
    and "st_sdp_query st addr BLUETOOTH_SERVICE_CLASS_HUMAN_INTERFACE_DEVICE_SERVICE \<noteq> 0"
  shows "\<exists>b. bt_run open_env ((st, wireless_controller_found addr) # (st, Pid_query Query_complete)
             # map (\<lambda>a. (st, wireless_controller_found a)) others) bt_booted = Inr b
    \<and> bdev b 0 = init_device \<and> bw_sdp_device b = Some 0 \<and> sdp_query_timeout b = b"
proof -
  let ?buf = "replicate MAX_ATTRIBUTE_VALUE_SIZE 0"
  let ?T = "found_timers (\<lambda>_. None)"
  let ?d = "(typed (queried_device addr))\<lparr>hd_conn :=
      (hd_conn (queried_device addr))\<lparr>bc_state := UNI_BT_CONN_STATE_SDP_HID_DESCRIPTOR_REQUESTED\<rparr>\<rparr>"
  let ?calls = "[Sdp_query addr BLUETOOTH_SERVICE_CLASS_PNP_INFORMATION,
      Sdp_query addr BLUETOOTH_SERVICE_CLASS_HUMAN_INTERFACE_DEVICE_SERVICE]"
  have 1: "bt_step open_env (st, wireless_controller_found addr) bt_booted
      = Inr (bt_one (one_device (queried_device addr) ?T boot_seats []) (Some 0) (Some 0) ?buf
               [Sdp_query addr BLUETOOTH_SERVICE_CLASS_PNP_INFORMATION])"
    using assms(1,3) by (simp add: bt_booted_one wireless_controller_queried bt_simps)
  have fields: "hd_child ?d = None" "\<not> bc_connected (hd_conn ?d)"
    using queried_device_fields by (simp_all add: typed_def set_flag_def)
  have "bt_step open_env (st, Pid_query Query_complete)
        (bt_one (one_device (queried_device addr) ?T boot_seats []) (Some 0) (Some 0) ?buf
           [Sdp_query addr BLUETOOTH_SERVICE_CLASS_PNP_INFORMATION])
      = disconnect_device open_env st 0 (bt_one (one_device ?d ?T boot_seats []) (Some 0) None ?buf ?calls)"
    using assms(4) by (simp add: untyped_answer bt_simps Let_def)
  with removed_locked_out [OF fields found_timers_free, of "\<lambda>_. None" open_env st "[]" ?buf ?calls]
  obtain b1 where 2: "bt_step open_env (st, Pid_query Query_complete)
        (bt_one (one_device (queried_device addr) ?T boot_seats []) (Some 0) (Some 0) ?buf
           [Sdp_query addr BLUETOOTH_SERVICE_CLASS_PNP_INFORMATION]) = Inr b1" "locked_out b1"
    by auto
  obtain b where 3: "bt_run open_env (map (\<lambda>a. (st, wireless_controller_found a)) others) b1 = Inr b" "locked_out b"
    using locked_out_forever [OF 2(2) assms(2)] by blast
  have "bt_run open_env ((st, wireless_controller_found addr) # (st, Pid_query Query_complete)
      # map (\<lambda>a. (st, wireless_controller_found a)) others) bt_booted = Inr b"
    using 3(1) by (simp add: bt_run_def 1 2(1))
  moreover have "bdev b 0 = init_device \<and> bw_sdp_device b = Some 0 \<and> sdp_query_timeout b = b"
    using 3(2) by (auto simp: locked_out_def bt_simps sdp_query_timeout_def)
  ultimately show ?thesis by blast
qed

definition refusing :: stack_answers where
  "refusing = (granting False)\<lparr>st_sdp_query := (\<lambda>addr uuid.
     if uuid = BLUETOOTH_SERVICE_CLASS_HUMAN_INTERFACE_DEVICE_SERVICE then 0x56 else 0)\<rparr>"

theorem refused_query_locks_out_witness:
  "\<exists>b. bt_run open_env ((refusing, wireless_controller_found first_address) # (refusing, Pid_query Query_complete)
           # map (\<lambda>a. (refusing, wireless_controller_found a)) [[2, 0, 0, 0, 0, 2], [3, 0, 0, 0, 0, 3]]) bt_booted = Inr b
    \<and> bdev b 0 = init_device \<and> bw_sdp_device b = Some 0 \<and> sdp_query_timeout b = b"
  by (rule refused_query_locks_out)
    (simp_all add: refusing_def granting_def nonzero_addresses BLUETOOTH_SERVICE_CLASS_PNP_INFORMATION_def BLUETOOTH_SERVICE_CLASS_HUMAN_INTERFACE_DEVICE_SERVICE_def)

end
