(* ===== verification/Bt_Path.thy ===== *)
theory Bt_Path
  imports Bt_Behaviour
begin


text \<open>
  The way of a controller from the inquiry to its seat in the application, over the connection
  machine of \<open>Bt_Connection\<close> and the seats of \<open>Arduino_Platform\<close>.
\<close>

text \<open>A controller that is known by its name needs no SDP query.\<close>

definition pro_controller :: "uni_hid_device \<Rightarrow> uni_hid_device" where
  "pro_controller d = set_flag FLAGS_HAS_CONTROLLER_TYPE
     ((set_ids NINTENDO_VID 0x2009 d)\<lparr>hd_controller_subtype := CONTROLLER_SUBTYPE_NONE,
        hd_report_parser := switch_parser, hd_controller_type := CONTROLLER_TYPE_SwitchProController\<rparr>)"

lemma nintendo_vid: "NINTENDO_VID \<noteq> 0"
  by (simp add: NINTENDO_VID_def)

lemma set_ids_fields [bt_simps]:
  "hd_conn (set_ids vid pid d) = hd_conn d" "hd_parent (set_ids vid pid d) = hd_parent d"
  "hd_child (set_ids vid pid d) = hd_child d" "hd_name (set_ids vid pid d) = hd_name d"
  "vid \<noteq> 0 \<Longrightarrow> hd_vendor_id (set_ids vid pid d) = vid" "hd_product_id (set_ids vid pid d) = pid"
  "vid \<noteq> 0 \<Longrightarrow> hd_flags (set_ids vid pid d) = (hd_flags d OR FLAGS_HAS_VENDOR_ID) OR FLAGS_HAS_PRODUCT_ID"
  by (simp_all add: set_ids_def uni_hid_device_set_vendor_id_def uni_hid_device_set_product_id_def set_flag_def)

lemma pro_controller_fields [bt_simps]:
  "hd_conn (pro_controller d) = hd_conn d" "hd_parent (pro_controller d) = hd_parent d"
  "hd_child (pro_controller d) = hd_child d" "hd_report_parser (pro_controller d) = switch_parser"
  "hd_flags (pro_controller d) = ((hd_flags d OR FLAGS_HAS_VENDOR_ID) OR FLAGS_HAS_PRODUCT_ID) OR FLAGS_HAS_CONTROLLER_TYPE"
  by (simp_all add: pro_controller_def set_flag_def set_ids_fields nintendo_vid)

lemma flags_disjoint:
  "FLAGS_HAS_CONTROLLER_TYPE AND FLAGS_HAS_VENDOR_ID = 0" "FLAGS_HAS_CONTROLLER_TYPE AND FLAGS_HAS_PRODUCT_ID = 0"
  "FLAGS_HAS_CONTROLLER_TYPE AND FLAGS_HAS_NAME = 0" "FLAGS_HAS_CONTROLLER_TYPE AND FLAGS_HAS_COD = 0"
  by (simp_all add: FLAGS_HAS_VENDOR_ID_def FLAGS_HAS_PRODUCT_ID_def FLAGS_HAS_CONTROLLER_TYPE_def BIT_def
      FLAGS_HAS_NAME_def FLAGS_HAS_COD_def)

lemma pro_name:
  "length (ascii ''Pro Controller'') < HID_MAX_NAME_LEN" "0 \<notin> set (ascii ''Pro Controller'')"
  "ascii ''Pro Controller'' \<noteq> []"
  by (simp_all add: ascii_def HID_MAX_NAME_LEN_def)

lemma pro_guessed:
  assumes "c_string (hd_name d) = ascii ''Pro Controller''" and "\<not> uni_hid_device_has_controller_type d"
  shows "uni_hid_device_guess_controller_type_from_name 0 (hd_name d) (bt_one (one_device d T p cs) q t buf calls)
    = Inr (True, bt_one (one_device (pro_controller d) T p cs) q t buf calls)"
proof -
  have "\<not> uni_hid_device_has_controller_type (set_ids NINTENDO_VID 0x2009 d)"
    using assms(2) flags_disjoint
    by (simp add: uni_hid_device_has_controller_type_def has_flag_def set_ids_fields nintendo_vid bit.conj_disj_distrib ac_simps)
  moreover have "c_string (ascii ''PLAYSTATION(R)3'') = ascii ''PLAYSTATION(R)3''"
    by (rule c_string_self) (simp add: ascii_def)
  ultimately show ?thesis
    using assms(1) switch_pro_type
    by (simp add: uni_hid_device_guess_controller_type_from_name_def uni_hid_parser_ds3_does_name_match_def Let_def
        uni_hid_parser_switch_does_name_match_def switch_names_def strcmp_eq_def strncmp_eq_def ascii_def
        guess_type_def bt_simps uni_hid_device_guess_controller_type_from_pid_vid_def unknown_type_def NINTENDO_VID_def
        report_parser_for_def pro_controller_def)
qed

definition known_pad :: "bytes \<Rightarrow> uni_bt_conn_state \<Rightarrow> uni_hid_device \<Rightarrow> bool" where
  "known_pad addr s d \<longleftrightarrow> bc_btaddr (hd_conn d) = addr \<and> \<not> bc_incoming (hd_conn d) \<and> bc_state (hd_conn d) = s
     \<and> uni_hid_device_has_name d \<and> hd_sdp_query_type d = SDP_QUERY_NOT_NEEDED \<and> hd_report_parser d = switch_parser
     \<and> hd_parent d = None \<and> hd_child d = None"

lemma known_padD:
  assumes "known_pad addr s d"
  shows "bc_btaddr (hd_conn d) = addr" "\<not> bc_incoming (hd_conn d)" "bc_state (hd_conn d) = s"
    "uni_hid_device_has_name d" "hd_sdp_query_type d = SDP_QUERY_NOT_NEEDED" "hd_report_parser d = switch_parser"
    "hd_parent d = None" "hd_child d = None" "\<not> uni_hid_device_is_virtual_device d"
  using assms by (simp_all add: known_pad_def uni_hid_device_is_virtual_device_def)

definition opens :: "stack_answers \<Rightarrow> bool" where
  "opens st \<longleftrightarrow> (\<forall>addr psm. fst (st_l2cap_create st addr psm) = 0)"

lemma pad_name_fetched:
  assumes "c_string (hd_name d) = ascii ''Pro Controller''" and "\<not> uni_hid_device_has_controller_type d"
    and "bc_btaddr (hd_conn d) = addr" and "\<not> bc_incoming (hd_conn d)" and "hd_parent d = None" and "hd_child d = None"
    and "uni_hid_device_has_name d" and "opens st"
  shows "\<exists>d' calls'. name_fetched env st 0 (bt_one (one_device d T p cs) q t buf calls)
    = Inr (bt_one (one_device d' T p cs) q t buf calls')
    \<and> known_pad addr UNI_BT_CONN_STATE_L2CAP_CONTROL_CONNECTION_REQUESTED d'"
proof -
  obtain cid where cid: "st_l2cap_create st addr PSM_HID_CONTROL = (0, cid)"
    using assms(8) by (metis opens_def prod.collapse)
  have other: "\<not> strcmp_eq ''Wireless Controller'' (hd_name d)"
    using assms(1) by (simp add: strcmp_eq_def ascii_def)
  have "uni_hid_device_has_name (pro_controller d)"
    using assms(7) by (simp add: uni_hid_device_has_name_def has_flag_def bt_simps bit.conj_disj_distrib2
        FLAGS_HAS_NAME_def FLAGS_HAS_VENDOR_ID_def FLAGS_HAS_PRODUCT_ID_def FLAGS_HAS_CONTROLLER_TYPE_def BIT_def)
  then show ?thesis
    using assms(3-6) pro_guessed [OF assms(1,2)] other cid
    by (cases cid) (auto simp: name_fetched_def bt_simps l2cap_create_control_connection_def uni_bt_conn_set_state_def
        known_pad_def Let_def)
qed

lemma pad_found:
  assumes "addr \<noteq> zero_addr" and "bc_btaddr (hd_conn d) = zero_addr" and "\<forall>k. T (0, k) = None" and "opens st"
  shows "\<exists>d' calls'. bt_step open_env (st, Inquiry_result addr 1 0 gamepad_cod (Some 200) (Some (ascii ''Pro Controller'')))
      (bt_one (one_device d T p cs) q t buf calls)
    = Inr (bt_one (one_device d' (found_timers T) p cs) q t buf calls')
    \<and> known_pad addr UNI_BT_CONN_STATE_L2CAP_CONTROL_CONNECTION_REQUESTED d'"
proof -
  let ?n = "uni_hid_device_set_name (ascii ''Pro Controller'') (found_device addr 1 0)"
  let ?d = "?n\<lparr>hd_conn := uni_bt_conn_set_state UNI_BT_CONN_STATE_REMOTE_NAME_FETCHED (hd_conn (found_device addr 1 0))\<rparr>"
  have name: "c_string (hd_name ?d) = ascii ''Pro Controller''"
    using name_stored [OF pro_name(1,2), of "found_device addr 1 0"] by simp
  then have other: "\<not> strcmp_eq ''Wireless Controller'' (hd_name ?d)" by (simp add: strcmp_eq_def ascii_def)
  have untyped: "\<not> uni_hid_device_has_controller_type ?d"
    using flags_disjoint
    by (simp add: uni_hid_device_has_controller_type_def has_flag_def uni_hid_device_set_name_def set_flag_def
        found_device_fields bit.conj_disj_distrib ac_simps)
  have fields: "hd_conn ?n = hd_conn (found_device addr 1 0)" "hd_parent ?n = None" "hd_child ?n = None"
    "hd_flags ?n AND FLAGS_HAS_NAME \<noteq> 0"
    by (simp_all add: uni_hid_device_set_name_def set_flag_def found_device_fields)
      (simp_all add: FLAGS_HAS_COD_def FLAGS_HAS_NAME_def BIT_def)
  have named: "bc_btaddr (hd_conn ?d) = addr" "\<not> bc_incoming (hd_conn ?d)" "hd_parent ?d = None" "hd_child ?d = None"
    "uni_hid_device_has_name ?d"
    using fields by (simp_all add: found_device_fields uni_bt_conn_set_state_def zero_conn_def
        uni_hid_device_has_name_def has_flag_def)
  have "bt_step open_env (st, Inquiry_result addr 1 0 gamepad_cod (Some 200) (Some (ascii ''Pro Controller'')))
      (bt_one (one_device d T p cs) q t buf calls)
      = name_fetched open_env st 0 (bt_one (one_device ?d (found_timers T) p cs) q t buf calls)"
    using pro_name
    by (simp add: device_found(1) [OF assms(1-3)] uni_bt_bredr_process_fsm_def numeral_2_eq_2 fsm_body_def
        bt_simps uni_bt_conn_set_state_def)
  with pad_name_fetched [OF name untyped named assms(4)] show ?thesis by simp
qed


lemma pad_lookup:
  assumes "known_pad addr s d" and "addr \<noteq> zero_addr"
  shows "uni_hid_device_get_instance_for_address addr (one_device d T p cs) = Some 0"
  using known_padD [OF assms(1)] assms(2) by (simp add: bt_simps)

lemma pad_complete:
  assumes "known_pad addr s d" and "addr \<noteq> zero_addr"
  shows "\<exists>d'. bt_step env (st, Connection_complete addr 0 handle) (bt_one (one_device d T p cs) q t buf calls)
      = Inr (bt_one (one_device d' T p cs) q t buf calls) \<and> known_pad addr s d' \<and> bc_handle (hd_conn d') = handle"
  using pad_lookup [OF assms] known_padD [OF assms(1)]
  by (simp add: bt_step_def on_hci_connection_complete_def bt_simps uni_hid_device_set_connection_handle_def)
    (intro exI conjI, rule refl, simp_all add: known_pad_def bt_simps)

lemma pad_control_opened:
  assumes "known_pad addr s d" and "addr \<noteq> zero_addr" and "opens st"
  shows "\<exists>d' calls'. bt_step env (st, Channel_opened addr 0 PSM_HID_CONTROL cid) (bt_one (one_device d T p cs) q t buf calls)
      = Inr (bt_one (one_device d' T p cs) q t buf calls')
      \<and> known_pad addr UNI_BT_CONN_STATE_L2CAP_INTERRUPT_CONNECTION_REQUESTED d'"
proof -
  obtain icid where icid: "st_l2cap_create st addr PSM_HID_INTERRUPT = (0, icid)"
    using assms(3) by (metis opens_def prod.collapse)
  show ?thesis
    using pad_lookup [OF assms(1,2)] known_padD [OF assms(1)] icid
    by (cases icid) (auto simp: bt_step_def on_l2cap_channel_opened_def bt_simps uni_bt_bredr_process_fsm_def
        numeral_2_eq_2 fsm_body_def uni_bt_conn_set_state_def l2cap_create_interrupt_connection_def known_pad_def Let_def)
qed


lemma pad_to_setup:
  assumes "known_pad addr UNI_BT_CONN_STATE_L2CAP_INTERRUPT_CONNECTED d"
  shows "uni_bt_bredr_process_fsm env st 0 (bt_one (one_device d T p cs) q t buf calls)
    = Inr (bt_one (one_device (d\<lparr>hd_conn := (hd_conn d)\<lparr>bc_state := UNI_BT_CONN_STATE_DEVICE_PENDING_READY\<rparr>\<rparr>)
             T p (cs @ [Driver_setup Switch 0])) q t buf calls)"
  using known_padD [OF assms]
  by (simp add: uni_bt_bredr_process_fsm_def numeral_2_eq_2 fsm_body_def bt_simps set_ready_def
      uni_hid_device_set_ready_def uni_bt_conn_set_state_def switch_parser_def)

lemma pad_interrupt_opened:
  assumes "known_pad addr s d" and "addr \<noteq> zero_addr" and "be_plat env = arduino_platform"
  shows "\<exists>d'. bt_step env (st, Channel_opened addr 0 PSM_HID_INTERRUPT cid) (bt_one (one_device d T p cs) q t buf calls)
      = Inr (bt_one (one_device d' T p (cs @ [Service_on_connected 0, Driver_setup Switch 0])) q t buf calls)
      \<and> known_pad addr UNI_BT_CONN_STATE_DEVICE_PENDING_READY d' \<and> bc_connected (hd_conn d')
      \<and> controller_idx d' = UNI_ARDUINO_GAMEPAD_INVALID"
proof -
  let ?c = "uni_bt_conn_set_connected True ((hd_conn d)\<lparr>bc_interrupt_cid := cid,
      bc_state := UNI_BT_CONN_STATE_L2CAP_INTERRUPT_CONNECTED\<rparr>)"
  let ?d = "set_controller_idx UNI_ARDUINO_GAMEPAD_INVALID (d\<lparr>hd_conn := ?c\<rparr>)"
  have step: "bt_step env (st, Channel_opened addr 0 PSM_HID_INTERRUPT cid) (bt_one (one_device d T p cs) q t buf calls)
      = uni_bt_bredr_process_fsm env st 0 (bt_one (one_device ?d T p (cs @ [Service_on_connected 0])) q t buf calls)"
    using pad_lookup [OF assms(1,2)] known_padD [OF assms(1)]
    by (simp add: bt_step_def on_l2cap_channel_opened_def bt_simps uni_hid_device_connect_def
        uni_hid_device_on_connected_def assms(3) arduino_platform_def arduino_on_device_connected_def
        uni_bt_conn_set_state_def PSM_HID_CONTROL_def PSM_HID_INTERRUPT_def)
  have idx: "controller_idx ?d = UNI_ARDUINO_GAMEPAD_INVALID"
    by (simp add: UNI_ARDUINO_GAMEPAD_INVALID_def)
  have known: "known_pad addr UNI_BT_CONN_STATE_L2CAP_INTERRUPT_CONNECTED ?d" "bc_connected (hd_conn ?d)"
    using known_padD [OF assms(1)]
    by (simp_all add: known_pad_def set_controller_idx_def bt_simps uni_bt_conn_set_connected_def)
  let ?e = "?d\<lparr>hd_conn := (hd_conn ?d)\<lparr>bc_state := UNI_BT_CONN_STATE_DEVICE_PENDING_READY\<rparr>\<rparr>"
  have "known_pad addr UNI_BT_CONN_STATE_DEVICE_PENDING_READY ?e" "bc_connected (hd_conn ?e)"
    "controller_idx ?e = UNI_ARDUINO_GAMEPAD_INVALID"
    using known idx by (simp_all add: known_pad_def bt_simps)
  then show ?thesis using step pad_to_setup [OF known(1)] by auto
qed

text \<open>The first seat of the booted application.\<close>

lemma first_free_seat:
  "List.find (\<lambda>k. ac_idx (ar_controllers boot_seats ! k) = UNI_ARDUINO_GAMEPAD_INVALID) slots = Some 0"
  "ar_used_controllers boot_seats = 0"
  by (simp_all add: boot_seats_def booted_def powered_on_def arduino_init_def slots_eq CONFIG_BLUEPAD32_MAX_DEVICES_def
      numeral_eq_Suc free_seat_def)

definition seated :: "uni_hid_device \<Rightarrow> arduino" where
  "seated d = upd_seat 0 (\<lambda>c. c\<lparr>ac_idx := 0, ac_properties := device_properties d\<rparr>) (boot_seats\<lparr>ar_used_controllers := 1\<rparr>)"

lemma pad_ready:
  assumes "known_pad addr UNI_BT_CONN_STATE_DEVICE_PENDING_READY d" and "addr \<noteq> zero_addr"
    and "controller_idx d = UNI_ARDUINO_GAMEPAD_INVALID" and "be_plat env = arduino_platform"
  shows "bt_step env (st, Driver_ready 0) (bt_one (one_device d T boot_seats cs) q t buf calls)
    = Inr (bt_one (one_device (set_controller_idx 0 d\<lparr>hd_conn := (hd_conn d)\<lparr>bc_state := UNI_BT_CONN_STATE_DEVICE_READY\<rparr>\<rparr>)
             (T((0, Connection_timer) := None)) (seated d)
             (cs @ [Driver_set_player_leds Switch 0 1, Service_on_ready 0])) q t buf calls)"
proof -
  have "assign_seat 0 (one_device d (T((0, Connection_timer) := None)) boot_seats cs)
      = one_device (set_controller_idx 0 d) (T((0, Connection_timer) := None)) (seated d) cs"
    by (simp add: assign_seat_def bt_simps first_free_seat seated_def)
  then show ?thesis
    using known_padD [OF assms(1)] assms(2,3)
    by (simp add: bt_step_def bt_simps on_slot_def is_free_def CONFIG_BLUEPAD32_MAX_DEVICES_def
        uni_hid_device_set_ready_complete_def assms(4) arduino_platform_def arduino_on_device_ready_def first_free_seat
        switch_parser_def uni_bt_conn_set_state_def Let_def)
qed

lemma one_device_calls: "hw_calls (one_device d T p cs) = cs"
  by (simp add: one_device_def)

lemma seated_properties:
  "arduino_get_controller_properties 0 (seated d) = (UNI_ARDUINO_ERROR_SUCCESS, Some (device_properties d))"
  "ar_used_controllers (seated d) = 1"
  by (simp_all add: arduino_get_controller_properties_def valid_seat_def seated_def upd_seat_def boot_seats_def booted_def
      powered_on_def arduino_init_def CONFIG_BLUEPAD32_MAX_DEVICES_def UNI_ARDUINO_GAMEPAD_INVALID_def numeral_eq_Suc)

definition pro_controller_joins :: "bytes \<Rightarrow> u16 \<Rightarrow> u16 \<Rightarrow> u16 \<Rightarrow> bt_event list" where
  "pro_controller_joins addr handle control interrupt =
     [Inquiry_result addr 1 0 gamepad_cod (Some 200) (Some (ascii ''Pro Controller'')),
      Connection_complete addr 0 handle,
      Channel_opened addr 0 PSM_HID_CONTROL control, Channel_opened addr 0 PSM_HID_INTERRUPT interrupt,
      Driver_ready 0]"

text \<open>C1: a controller that the inquiry finds with a known name gets to a seat: whatever its address, the
  connection handle and the channels that the stack assigns, its two channels are asked for and
  opened, its driver is set up, and then it is ready, in the first seat, with the lights of the
  first player, its connection timer is stopped, and the application reads its properties.\<close>
theorem named_controller_gets_seat:
  assumes "addr \<noteq> zero_addr" and "opens st"
  shows "\<exists>b. bt_run open_env (map (\<lambda>ev. (st, ev)) (pro_controller_joins addr handle control interrupt)) bt_booted = Inr b
    \<and> bc_state (hd_conn (bdev b 0)) = UNI_BT_CONN_STATE_DEVICE_READY
    \<and> bc_btaddr (hd_conn (bdev b 0)) = addr
    \<and> controller_idx (bdev b 0) = 0
    \<and> hw_timers (bw_hid b) (0, Connection_timer) = None
    \<and> hw_calls (bw_hid b) = [Service_on_connected 0, Driver_setup Switch 0, Driver_set_player_leds Switch 0 1, Service_on_ready 0]
    \<and> ar_used_controllers (hw_platform (bw_hid b)) = 1
    \<and> (\<exists>props. arduino_get_controller_properties 0 (hw_platform (bw_hid b)) = (UNI_ARDUINO_ERROR_SUCCESS, Some props)
         \<and> apr_btaddr props = addr)"
proof -
  let ?T = "found_timers (\<lambda>_. None)"
  let ?b = "\<lambda>d cs calls. bt_one (one_device d ?T boot_seats cs) None None (replicate MAX_ATTRIBUTE_VALUE_SIZE 0) calls"
  have plat: "be_plat open_env = arduino_platform" by (simp add: open_env_def arduino_env_def)
  obtain d1 calls1 where 1: "bt_step open_env
      (st, Inquiry_result addr 1 0 gamepad_cod (Some 200) (Some (ascii ''Pro Controller''))) bt_booted = Inr (?b d1 [] calls1)"
    "known_pad addr UNI_BT_CONN_STATE_L2CAP_CONTROL_CONNECTION_REQUESTED d1"
    using pad_found [OF assms(1) _ _ assms(2), of init_device "\<lambda>_. None" boot_seats "[]" None None
        "replicate MAX_ATTRIBUTE_VALUE_SIZE 0" "[]"] by (auto simp: bt_booted_one init_device_conn)
  obtain d2 where 2: "bt_step open_env (st, Connection_complete addr 0 handle) (?b d1 [] calls1) = Inr (?b d2 [] calls1)"
    "known_pad addr UNI_BT_CONN_STATE_L2CAP_CONTROL_CONNECTION_REQUESTED d2"
    using pad_complete [OF 1(2) assms(1)] by blast
  obtain d3 calls3 where 3: "bt_step open_env (st, Channel_opened addr 0 PSM_HID_CONTROL control) (?b d2 [] calls1)
      = Inr (?b d3 [] calls3)" "known_pad addr UNI_BT_CONN_STATE_L2CAP_INTERRUPT_CONNECTION_REQUESTED d3"
    using pad_control_opened [OF 2(2) assms] by blast
  obtain d4 where 4: "bt_step open_env (st, Channel_opened addr 0 PSM_HID_INTERRUPT interrupt) (?b d3 [] calls3)
      = Inr (?b d4 [Service_on_connected 0, Driver_setup Switch 0] calls3)"
    "known_pad addr UNI_BT_CONN_STATE_DEVICE_PENDING_READY d4" "controller_idx d4 = UNI_ARDUINO_GAMEPAD_INVALID"
    using pad_interrupt_opened [OF 3(2) assms(1) plat, of st interrupt ?T boot_seats "[]" None None
        "replicate MAX_ATTRIBUTE_VALUE_SIZE 0" calls3] by auto
  have "bt_run open_env (map (\<lambda>ev. (st, ev)) (pro_controller_joins addr handle control interrupt)) bt_booted
      = Inr (bt_one (one_device (set_controller_idx 0 d4\<lparr>hd_conn := (hd_conn d4)\<lparr>bc_state := UNI_BT_CONN_STATE_DEVICE_READY\<rparr>\<rparr>)
          (?T((0, Connection_timer) := None)) (seated d4)
          [Service_on_connected 0, Driver_setup Switch 0, Driver_set_player_leds Switch 0 1, Service_on_ready 0])
          None None (replicate MAX_ATTRIBUTE_VALUE_SIZE 0) calls3)"
    using pad_ready [OF 4(2) assms(1) 4(3) plat] by (simp add: bt_run_def pro_controller_joins_def 1(1) 2(1) 3(1) 4(1))
  then show ?thesis
    using known_padD(1) [OF 4(2)] by (simp add: bt_simps seated_properties device_properties_def one_device_calls Let_def)
qed

theorem named_controller_gets_seat_witness:
  "\<exists>b. bt_run open_env (map (\<lambda>ev. (granting False, ev)) (pro_controller_joins first_address 0x80 0x40 0x41)) bt_booted = Inr b
    \<and> bc_state (hd_conn (bdev b 0)) = UNI_BT_CONN_STATE_DEVICE_READY
    \<and> bc_btaddr (hd_conn (bdev b 0)) = first_address
    \<and> controller_idx (bdev b 0) = 0
    \<and> hw_timers (bw_hid b) (0, Connection_timer) = None
    \<and> hw_calls (bw_hid b) = [Service_on_connected 0, Driver_setup Switch 0, Driver_set_player_leds Switch 0 1, Service_on_ready 0]
    \<and> ar_used_controllers (hw_platform (bw_hid b)) = 1
    \<and> (\<exists>props. arduino_get_controller_properties 0 (hw_platform (bw_hid b)) = (UNI_ARDUINO_ERROR_SUCCESS, Some props)
         \<and> apr_btaddr props = first_address)"
  by (rule named_controller_gets_seat) (simp_all add: opens_def granting_def)


text \<open>The bound of the recursion of the state machine, at the booted firmware.\<close>

theorem fsm_recursion_bounded_witness:
  "fsm_body open_env (granting False) (fsm_body open_env (granting False) (\<lambda>_ _. Inl Unbounded_recursion)) 0 bt_booted
   = uni_bt_bredr_process_fsm open_env (granting False) 0 bt_booted"
  using fsm_recursion_bounded [of 0 bt_booted] by (simp add: bt_booted_one bt_simps)

end
