(* ===== verification/Keyboard.thy ===== *)
theory Keyboard
  imports Usage_Parsers Hid_Lifecycle
begin

text \<open>
  The keyboard driver, \<^verbatim>\<open>parser/uni_hid_parser_keyboard.c\<close>: the keys of a report go one after
  the other into the ten places of \<^verbatim>\<open>uni_keyboard_t\<close>, modifiers into a bit mask, and the
  media keys of some remotes become ordinary keys. One remote, the JX-05, pretends to be a touch
  screen, and its strokes are recognised by where they begin.
\<close>

section \<open>The driver\<close>

record keyboard_jx_05 =
  jx_x :: int
  jx_y :: int
  jx_ready_to_process :: bool
  jx_last_report :: bool
  jx_is_down_or_button :: bool

record keyboard_instance =
  kb_pressed_key_index :: nat
  kb_using_jx_05 :: bool
  kb_jx_05 :: keyboard_jx_05

record keyboard_device =
  kd_vendor_id :: u16
  kd_product_id :: u16
  kd_controller :: uni_controller
  kd_ins :: keyboard_instance

type_synonym kbd_op = "keyboard_device \<Rightarrow> keyboard_device cres"

definition JX_05_VID :: u16 where "JX_05_VID = 0x05ac"
definition JX_05_PID :: u16 where "JX_05_PID = 0x022c"

definition zero_jx_05 :: keyboard_jx_05 where
  "zero_jx_05 = \<lparr>jx_x = 0, jx_y = 0, jx_ready_to_process = False, jx_last_report = False,
     jx_is_down_or_button = False\<rparr>"

definition on_jx :: "(keyboard_jx_05 \<Rightarrow> keyboard_jx_05) \<Rightarrow> keyboard_device \<Rightarrow> keyboard_device" where
  "on_jx f d = d\<lparr>kd_ins := (kd_ins d)\<lparr>kb_jx_05 := f (kb_jx_05 (kd_ins d))\<rparr>\<rparr>"

definition on_keyboard :: "(uni_keyboard \<Rightarrow> uni_keyboard) \<Rightarrow> keyboard_device \<Rightarrow> keyboard_device" where
  "on_keyboard f d =
     d\<lparr>kd_controller := (kd_controller d)\<lparr>ctl_keyboard := f (ctl_keyboard (kd_controller d))\<rparr>\<rparr>"

definition set_key_index :: "nat \<Rightarrow> keyboard_device \<Rightarrow> keyboard_device" where
  "set_key_index idx d = d\<lparr>kd_ins := (kd_ins d)\<lparr>kb_pressed_key_index := idx\<rparr>\<rparr>"

text \<open>\<^verbatim>\<open>uni_hid_parser_keyboard_setup\<close>; the device is completed by
  \<^verbatim>\<open>uni_hid_device_set_ready_complete\<close> first, which does not look at the driver.\<close>

definition uni_hid_parser_keyboard_setup :: "keyboard_device \<Rightarrow> keyboard_device" where
  "uni_hid_parser_keyboard_setup d =
     (let using = kd_vendor_id d = JX_05_VID \<and> kd_product_id d = JX_05_PID
      in d\<lparr>kd_ins := \<lparr>kb_pressed_key_index = 0, kb_using_jx_05 = using,
             kb_jx_05 = zero_jx_05\<lparr>jx_ready_to_process := using\<rparr>\<rparr>\<rparr>)"

definition uni_hid_parser_keyboard_init_report :: "keyboard_device \<Rightarrow> keyboard_device" where
  "uni_hid_parser_keyboard_init_report d =
     (set_key_index 0 d)\<lparr>kd_controller := zero_controller\<lparr>ctl_klass := UNI_CONTROLLER_CLASS_KEYBOARD\<rparr>\<rparr>"

definition uni_hid_parser_keyboard_parse_input_report :: "bytes \<Rightarrow> nat \<Rightarrow> kbd_op" where
  "uni_hid_parser_keyboard_parse_input_report report len d = Inr d"

text \<open>\<^verbatim>\<open>d->controller.keyboard.pressed_keys[idx] = usage\<close>: the array has ten elements.\<close>

definition put_key :: "nat \<Rightarrow> u16 \<Rightarrow> kbd_op" where
  "put_key idx usage d =
     (if UNI_KEYBOARD_PRESSED_KEYS_MAX \<le> idx then Inl Out_of_bounds
      else Inr (on_keyboard (\<lambda>kb. kb\<lparr>kb_pressed_keys := (kb_pressed_keys kb)[idx := ucast usage]\<rparr>) d))"

definition push_key :: "u16 \<Rightarrow> kbd_op" where
  "push_key usage d =
     (let idx = kb_pressed_key_index (kd_ins d) in mapR (set_key_index (idx + 1)) (put_key idx usage d))"

abbreviation (input) HID_USAGE_KB_SPACEBAR :: u16 where "HID_USAGE_KB_SPACEBAR \<equiv> 0x2c"
abbreviation (input) HID_USAGE_KB_PAUSE :: u16 where "HID_USAGE_KB_PAUSE \<equiv> 0x48"
abbreviation (input) HID_USAGE_KB_HOME :: u16 where "HID_USAGE_KB_HOME \<equiv> 0x4a"
abbreviation (input) HID_USAGE_KB_PAGE_UP :: u16 where "HID_USAGE_KB_PAGE_UP \<equiv> 0x4b"
abbreviation (input) HID_USAGE_KB_PAGE_DOWN :: u16 where "HID_USAGE_KB_PAGE_DOWN \<equiv> 0x4e"
abbreviation (input) HID_USAGE_KB_VOLUME_UP :: u16 where "HID_USAGE_KB_VOLUME_UP \<equiv> 0x80"
abbreviation (input) HID_USAGE_KB_VOLUME_DOWN :: u16 where "HID_USAGE_KB_VOLUME_DOWN \<equiv> 0x81"
abbreviation (input) HID_USAGE_KB_LEFT_CONTROL :: u16 where "HID_USAGE_KB_LEFT_CONTROL \<equiv> 0xe0"
abbreviation (input) HID_USAGE_KB_RIGHT_GUI :: u16 where "HID_USAGE_KB_RIGHT_GUI \<equiv> 0xe7"
abbreviation (input) HID_USAGE_PAGE_DIGITIZER :: u16 where "HID_USAGE_PAGE_DIGITIZER \<equiv> 0x0d"
abbreviation (input) HID_USAGE_TIP_SWITCH :: u16 where "HID_USAGE_TIP_SWITCH \<equiv> 0x42"
abbreviation (input) HID_USAGE_CONTACT_COUNT :: u16 where "HID_USAGE_CONTACT_COUNT \<equiv> 0x54"
abbreviation (input) HID_USAGE_POWER :: u16 where "HID_USAGE_POWER \<equiv> 0x30"
abbreviation (input) HID_USAGE_SCAN_NEXT_TRACK :: u16 where "HID_USAGE_SCAN_NEXT_TRACK \<equiv> 0xb5"
abbreviation (input) HID_USAGE_SCAN_PREVIOUS_TRACK :: u16 where "HID_USAGE_SCAN_PREVIOUS_TRACK \<equiv> 0xb6"
abbreviation (input) HID_USAGE_AC_SCROLL_UP :: u16 where "HID_USAGE_AC_SCROLL_UP \<equiv> 0x0233"
abbreviation (input) HID_USAGE_AC_SCROLL_DOWN :: u16 where "HID_USAGE_AC_SCROLL_DOWN \<equiv> 0x0234"

section \<open>The JX-05 remote\<close>

definition jx_set_axis :: "(int \<Rightarrow> keyboard_jx_05 \<Rightarrow> keyboard_jx_05) \<Rightarrow> hid_globals \<Rightarrow> int \<Rightarrow> kbd_op" where
  "jx_set_axis f g v d = mapR (\<lambda>x. on_jx (f x) d) (uni_hid_parser_process_axis g (u32_of_i32 v))"

definition jx_tip_switch :: "int \<Rightarrow> kbd_op" where
  "jx_tip_switch v d =
     Inr (on_jx (\<lambda>j. j\<lparr>jx_ready_to_process := jx_ready_to_process j \<or> (v \<noteq> 0 \<and> jx_last_report j),
                       jx_last_report := (v = 0)\<rparr>) d)"

text \<open>
  The end of a report: the local \<^verbatim>\<open>idx\<close> is \<open>i0\<close>, then \<open>i1\<close> after a key of the first part, and is
  written back only with the second part.
\<close>

definition jx_contact_count :: kbd_op where
  "jx_contact_count d =
     (let j = kb_jx_05 (kd_ins d); x = jx_x j; y = jx_y j; i0 = kb_pressed_key_index (kd_ins d)
      in bindR
           (if jx_is_down_or_button j then
              mapR (\<lambda>d1. (i0 + 1, d1))
                (put_key i0 (if x = -260 \<and> y = 145 then HID_USAGE_KB_SPACEBAR else HID_USAGE_KB_DOWN_ARROW)
                   (on_jx (\<lambda>j. j\<lparr>jx_is_down_or_button := False\<rparr>) d))
            else Inr (i0, d))
           (\<lambda>(i1, d1).
              let finish = (\<lambda>i d. on_jx (\<lambda>j. j\<lparr>jx_ready_to_process := False\<rparr>) (set_key_index i d));
                  key = (\<lambda>k. mapR (finish (i1 + 1)) (put_key i1 k d1))
              in if \<not> jx_ready_to_process j then Inr d1
                 else if x = -260 \<and> y = -222 then key HID_USAGE_KB_UP_ARROW
                 else if x = -260 \<and> y = 145 then
                   Inr (finish i1 (on_jx (\<lambda>j. j\<lparr>jx_is_down_or_button := True\<rparr>) d1))
                 else if x = -387 \<and> y = 251 then key HID_USAGE_KB_LEFT_ARROW
                 else if x = -48 \<and> y = 251 then key HID_USAGE_KB_RIGHT_ARROW
                 else Inr d1))"

definition jx_05_parse_usage :: "hid_globals \<Rightarrow> u16 \<Rightarrow> u16 \<Rightarrow> int \<Rightarrow> kbd_op" where
  "jx_05_parse_usage g usage_page usage v =
     switch usage_page
       [([HID_USAGE_PAGE_GENERIC_DESKTOP],
         switch usage
           [([HID_USAGE_AXIS_X], jx_set_axis (\<lambda>x j. j\<lparr>jx_x := x\<rparr>) g v),
            ([HID_USAGE_AXIS_Y], jx_set_axis (\<lambda>y j. j\<lparr>jx_y := y\<rparr>) g v)]
           Inr),
        ([HID_USAGE_PAGE_DIGITIZER],
         switch usage
           [([HID_USAGE_TIP_SWITCH], jx_tip_switch v),
            ([HID_USAGE_CONTACT_COUNT], jx_contact_count)]
           Inr)]
       Inr"

section \<open>Keys\<close>

definition keyboard_page_usage :: "u16 \<Rightarrow> int \<Rightarrow> kbd_op" where
  "keyboard_page_usage usage v d =
     (if v = 0 then Inr d
      else if usage < HID_USAGE_KB_LEFT_CONTROL then
        (if UNI_KEYBOARD_PRESSED_KEYS_MAX \<le> kb_pressed_key_index (kd_ins d) then Inr d
         else push_key usage d)
      else if usage \<le> HID_USAGE_KB_RIGHT_GUI then
        Inr (on_keyboard (\<lambda>kb. kb\<lparr>kb_modifiers :=
               kb_modifiers kb OR BIT (unat (usage - HID_USAGE_KB_LEFT_CONTROL))\<rparr>) d)
      else Inr d)"

definition consumer_page_usage :: "u16 \<Rightarrow> int \<Rightarrow> kbd_op" where
  "consumer_page_usage usage v =
     (if v = 0 then Inr
      else switch usage
        [([0], Inr),
         ([HID_USAGE_POWER], push_key HID_USAGE_KB_POWER),
         ([HID_USAGE_VOLUME_UP], push_key HID_USAGE_KB_VOLUME_UP),
         ([HID_USAGE_VOLUME_DOWN], push_key HID_USAGE_KB_VOLUME_DOWN),
         ([HID_USAGE_AC_HOME], push_key HID_USAGE_KB_HOME),
         ([HID_USAGE_AC_SCROLL_UP], push_key HID_USAGE_KB_PAGE_UP),
         ([HID_USAGE_AC_SCROLL_DOWN], push_key HID_USAGE_KB_PAGE_DOWN),
         ([HID_USAGE_SCAN_NEXT_TRACK], push_key HID_USAGE_KB_RIGHT_ARROW),
         ([HID_USAGE_SCAN_PREVIOUS_TRACK], push_key HID_USAGE_KB_LEFT_ARROW),
         ([HID_USAGE_PLAY_PAUSE], push_key HID_USAGE_KB_PAUSE)]
        Inr)"

definition uni_hid_parser_keyboard_parse_usage :: "keyboard_device usage_fn" where
  "uni_hid_parser_keyboard_parse_usage g usage_page usage v d =
     bindR (if kb_using_jx_05 (kd_ins d) then jx_05_parse_usage g usage_page usage v d else Inr d)
       (switch usage_page
          [([HID_USAGE_PAGE_KEYBOARD_KEYPAD], keyboard_page_usage usage v),
           ([HID_USAGE_PAGE_CONSUMER], consumer_page_usage usage v)]
          Inr)"

definition keyboard_parser :: "keyboard_device report_parser" where
  "keyboard_parser =
     \<lparr>rp_init_report = Some uni_hid_parser_keyboard_init_report,
      rp_parse_input_report = Some uni_hid_parser_keyboard_parse_input_report,
      rp_parse_usage = Some uni_hid_parser_keyboard_parse_usage\<rparr>"

text \<open>
  \<^verbatim>\<open>uni_hid_parser_keyboard_set_leds\<close>: the write requests it makes, each the report id and the
  data. The connection type is what the stack answers for the handle of the device.
\<close>

definition uni_hid_parser_keyboard_set_leds ::
    "gap_connection_type \<Rightarrow> u16 option \<Rightarrow> u8 \<Rightarrow> (u16 \<times> u8 \<times> bytes) list" where
  "uni_hid_parser_keyboard_set_leds conn_type hids_cid led_bitmask =
     (case hids_cid of
        None \<Rightarrow> []
      | Some cid \<Rightarrow> if conn_type = GAP_CONNECTION_LE then [(cid, 1, [led_bitmask])] else [])"


section \<open>What a report says\<close>

text \<open>The key a field adds to the list, and the modifiers it holds down.\<close>

definition media_keys :: "(u16 \<times> u8) list" where
  "media_keys = [(0x30, 0x66), (0xe9, 0x80), (0xea, 0x81), (0x0223, 0x4a), (0x0233, 0x4b),
     (0x0234, 0x4e), (0xb5, 0x4f), (0xb6, 0x50), (0xcd, 0x48)]"

definition media_key :: "field \<Rightarrow> u8 option" where
  "media_key f = (case f of (g, pg, us, v) \<Rightarrow>
     if v \<noteq> 0 \<and> pg = HID_USAGE_PAGE_CONSUMER then map_of media_keys us else None)"

definition keypad_key :: "field \<Rightarrow> u8 option" where
  "keypad_key f = (case f of (g, pg, us, v) \<Rightarrow>
     if v \<noteq> 0 \<and> pg = HID_USAGE_PAGE_KEYBOARD_KEYPAD \<and> us < 0xe0 then Some (ucast us) else None)"

definition field_key :: "field \<Rightarrow> u8 option" where
  "field_key f = (case keypad_key f of None \<Rightarrow> media_key f | Some k \<Rightarrow> Some k)"

definition keys_of :: "field list \<Rightarrow> bytes" where
  "keys_of fs = List.map_filter field_key fs"

definition modifier_of :: "field \<Rightarrow> nat option" where
  "modifier_of f = (case f of (g, pg, us, v) \<Rightarrow>
     if v \<noteq> 0 \<and> pg = HID_USAGE_PAGE_KEYBOARD_KEYPAD \<and> 0xe0 \<le> us \<and> us \<le> 0xe7
     then Some (unat us - 0xe0) else None)"

definition modifiers_of :: "field list \<Rightarrow> u8" where
  "modifiers_of fs = foldr (\<lambda>f m. m OR (case modifier_of f of None \<Rightarrow> 0 | Some i \<Rightarrow> BIT i)) fs 0"

text \<open>A media key that comes when ten keys are already there.\<close>

definition overruns :: "bytes \<Rightarrow> field list \<Rightarrow> bool" where
  "overruns ks fs \<longleftrightarrow>
     (\<exists>i < length fs. media_key (fs ! i) \<noteq> None \<and>
        UNI_KEYBOARD_PRESSED_KEYS_MAX \<le> length (ks @ keys_of (take i fs)))"

text \<open>The keyboard that holds the first ten keys of a list.\<close>

definition keyboard_holding :: "bytes \<Rightarrow> u8 \<Rightarrow> keyboard_device \<Rightarrow> keyboard_device" where
  "keyboard_holding ks m d =
     (set_key_index (min UNI_KEYBOARD_PRESSED_KEYS_MAX (length ks)) d)\<lparr>kd_controller :=
        zero_controller\<lparr>ctl_klass := UNI_CONTROLLER_CLASS_KEYBOARD,
          ctl_keyboard := \<lparr>kb_modifiers = m,
            kb_pressed_keys = take UNI_KEYBOARD_PRESSED_KEYS_MAX (ks @ replicate UNI_KEYBOARD_PRESSED_KEYS_MAX 0)\<rparr>\<rparr>\<rparr>"

lemma keys_of_simps [simp]:
  "keys_of [] = []"
  "keys_of (f # fs) = (case field_key f of None \<Rightarrow> keys_of fs | Some k \<Rightarrow> k # keys_of fs)"
  by (simp_all add: keys_of_def map_filter_simps cong: option.case_cong)

lemma modifiers_of_simps [simp]:
  "modifiers_of [] = 0"
  "modifiers_of (f # fs) = modifiers_of fs OR (case modifier_of f of None \<Rightarrow> 0 | Some i \<Rightarrow> BIT i)"
  by (simp_all add: modifiers_of_def)

lemma overruns_simps [simp]:
  "overruns ks [] = False"
  "overruns ks (f # fs) \<longleftrightarrow>
     media_key f \<noteq> None \<and> UNI_KEYBOARD_PRESSED_KEYS_MAX \<le> length ks
     \<or> overruns (ks @ keys_of [f]) fs"
proof -
  have *: "(\<exists>i < length (f # fs). P i) \<longleftrightarrow> P 0 \<or> (\<exists>i < length fs. P (Suc i))" for P
    by (metis One_nat_def length_Cons less_Suc_eq_0_disj zero_less_Suc Suc_less_eq)
  show "overruns ks [] = False" by (simp add: overruns_def)
  show "overruns ks (f # fs) \<longleftrightarrow>
     media_key f \<noteq> None \<and> UNI_KEYBOARD_PRESSED_KEYS_MAX \<le> length ks \<or> overruns (ks @ keys_of [f]) fs"
    unfolding overruns_def * by (simp split: option.split)
qed

lemma take_pad_snoc:
  assumes "length xs < n"
  shows "(take n (xs @ replicate n x))[length xs := k] = take n ((xs @ [k]) @ replicate n x)"
  using assms by (intro nth_equalityI) (auto simp: nth_list_update nth_append)

lemma push_key_holding:
  "push_key us (keyboard_holding ks m d) =
     (if UNI_KEYBOARD_PRESSED_KEYS_MAX \<le> length ks then Inl Out_of_bounds
      else Inr (keyboard_holding (ks @ [ucast us]) m d))"
proof (cases "UNI_KEYBOARD_PRESSED_KEYS_MAX \<le> length ks")
  case True
  then show ?thesis by (simp add: push_key_def put_key_def keyboard_holding_def set_key_index_def)
next
  case False
  then have len: "length ks < UNI_KEYBOARD_PRESSED_KEYS_MAX" by simp
  then have "min UNI_KEYBOARD_PRESSED_KEYS_MAX (length ks) = length ks"
    "min UNI_KEYBOARD_PRESSED_KEYS_MAX (Suc (length ks)) = Suc (length ks)" by simp_all
  with False take_pad_snoc [OF len, of 0 "ucast us"] show ?thesis
    by (simp add: push_key_def put_key_def keyboard_holding_def set_key_index_def on_keyboard_def Let_def)
qed

lemma holding_full:
  "UNI_KEYBOARD_PRESSED_KEYS_MAX \<le> length ks \<Longrightarrow> keyboard_holding (ks @ ks') m d = keyboard_holding ks m d"
  by (simp add: keyboard_holding_def min_def)

lemma holding_index [simp]:
  "UNI_KEYBOARD_PRESSED_KEYS_MAX \<le> kb_pressed_key_index (kd_ins (keyboard_holding ks m d))
     \<longleftrightarrow> UNI_KEYBOARD_PRESSED_KEYS_MAX \<le> length ks"
  "kb_using_jx_05 (kd_ins (keyboard_holding ks m d)) = kb_using_jx_05 (kd_ins d)"
  by (simp_all add: keyboard_holding_def set_key_index_def)

lemma init_report_holding:
  "uni_hid_parser_keyboard_init_report d = keyboard_holding [] 0 d"
  by (simp add: uni_hid_parser_keyboard_init_report_def keyboard_holding_def zero_controller_def
      set_key_index_def)

lemma holding_modifiers:
  "on_keyboard (\<lambda>kb. kb\<lparr>kb_modifiers := kb_modifiers kb OR b\<rparr>) (keyboard_holding ks m d)
    = keyboard_holding ks (m OR b) d"
  by (simp add: on_keyboard_def keyboard_holding_def)

lemma consumer_page_holding:
  "consumer_page_usage us v (keyboard_holding ks m d) =
     (case (if v \<noteq> 0 then map_of media_keys us else None) of
        None \<Rightarrow> Inr (keyboard_holding ks m d)
      | Some k \<Rightarrow> if UNI_KEYBOARD_PRESSED_KEYS_MAX \<le> length ks then Inl Out_of_bounds
                  else Inr (keyboard_holding (ks @ [k]) m d))"
  by (cases "v = 0") (simp_all add: switch.simps consumer_page_usage_def media_keys_def push_key_holding)

lemma keyboard_page_holding:
  "keyboard_page_usage us v (keyboard_holding ks m d) =
     Inr (keyboard_holding
       (if v \<noteq> 0 \<and> us < 0xe0 then ks @ [ucast us] else ks)
       (if v \<noteq> 0 \<and> 0xe0 \<le> us \<and> us \<le> 0xe7 then m OR BIT (unat us - 0xe0) else m) d)"
proof -
  have "unat (us - 0xe0) = unat us - 0xe0" if "\<not> us < 0xe0"
    using that by (simp add: unat_sub not_less)
  then show ?thesis
    by (auto simp: keyboard_page_usage_def push_key_holding holding_modifiers holding_full not_less)
qed

lemma parse_usage_holding:
  assumes "\<not> kb_using_jx_05 (kd_ins d)" and f: "f = (g, pg, us, v)"
  shows "uni_hid_parser_keyboard_parse_usage g pg us v (keyboard_holding ks m d) =
     (if media_key f \<noteq> None \<and> UNI_KEYBOARD_PRESSED_KEYS_MAX \<le> length ks then Inl Out_of_bounds
      else Inr (keyboard_holding (ks @ keys_of [f])
             (m OR (case modifier_of f of None \<Rightarrow> 0 | Some i \<Rightarrow> BIT i)) d))"
  using assms(1)
  by (auto simp: f switch.simps uni_hid_parser_keyboard_parse_usage_def consumer_page_holding keyboard_page_holding
      field_key_def keypad_key_def media_key_def modifier_of_def not_less split: option.split)

lemma fold_holding:
  assumes "\<not> kb_using_jx_05 (kd_ins d)"
  shows "fold_fields uni_hid_parser_keyboard_parse_usage fs (keyboard_holding ks m d) =
     (if overruns ks fs then Inl Out_of_bounds
      else Inr (keyboard_holding (ks @ keys_of fs) (m OR modifiers_of fs) d))"
proof (induction fs arbitrary: ks m)
  case Nil
  then show ?case by simp
next
  case (Cons f fs)
  obtain g pg us v where f: "f = (g, pg, us, v)" by (cases f) auto
  have app: "keys_of (f # fs) = keys_of [f] @ keys_of fs" by (simp split: option.split)
  have "fold_fields uni_hid_parser_keyboard_parse_usage (f # fs) (keyboard_holding ks m d) =
      bindR (uni_hid_parser_keyboard_parse_usage g pg us v (keyboard_holding ks m d))
        (fold_fields uni_hid_parser_keyboard_parse_usage fs)" by (simp add: f)
  then show ?case
    unfolding parse_usage_holding [OF assms f] app overruns_simps(2) modifiers_of_simps(2)
    by (simp add: Cons.IH ac_simps del: keys_of_simps overruns_simps(2))
qed

lemma bit_modifiers_of: "bit (modifiers_of fs) i \<longleftrightarrow> i < 8 \<and> (\<exists>f \<in> set fs. modifier_of f = Some i)"
  by (induction fs) (auto simp: bit_or_iff bit_BIT split: option.splits)

section \<open>Properties\<close>

text \<open>A report of a keyboard is its first ten keys in the order of the fields, the rest of the
  ten places zero, with exactly the modifiers that are held down, and nothing of the reports
  before. Keys of the keypad page beyond the tenth are dropped; a media key beyond the tenth
  is written behind the array, and that is the only way a report can fail.\<close>

theorem keyboard_report_keys:
  assumes "report_fields ds report n = Some (Inr fs)" and "\<not> kb_using_jx_05 (kd_ins d)"
  shows "\<exists>r. uni_hid_parse_input_report keyboard_parser ds report n d = Some r
    \<and> (overruns [] fs \<longleftrightarrow> r = Inl Out_of_bounds)
    \<and> (\<not> overruns [] fs \<longrightarrow> (\<exists>d' m. r = Inr d'
        \<and> kd_controller d' = zero_controller\<lparr>ctl_klass := UNI_CONTROLLER_CLASS_KEYBOARD,
            ctl_keyboard := \<lparr>kb_modifiers = m, kb_pressed_keys = take 10 (keys_of fs @ replicate 10 0)\<rparr>\<rparr>
        \<and> (\<forall>i. bit m i \<longleftrightarrow> (\<exists>f \<in> set fs. modifier_of f = Some i))))"
proof -
  have small: "modifier_of f = Some i \<Longrightarrow> i < 8" for f i
    by (cases f) (auto simp: modifier_of_def word_le_nat_alt split: if_splits)
  have "uni_hid_parse_input_report keyboard_parser ds report n d =
      Some (if overruns [] fs then Inl Out_of_bounds
            else Inr (keyboard_holding (keys_of fs) (modifiers_of fs) d))"
    using report_fields_fold [OF assms(1), of uni_hid_parser_keyboard_parse_usage "keyboard_holding [] 0 d"]
      fold_holding [OF assms(2), of fs "[]" 0]
    by (simp add: uni_hid_parse_input_report_def keyboard_parser_def
        uni_hid_parser_keyboard_parse_input_report_def init_report_holding)
  moreover have "\<forall>i. bit (modifiers_of fs) i \<longleftrightarrow> (\<exists>f \<in> set fs. modifier_of f = Some i)"
    using small bit_modifiers_of by blast
  moreover have "kd_controller (keyboard_holding ks m d) =
      zero_controller\<lparr>ctl_klass := UNI_CONTROLLER_CLASS_KEYBOARD,
        ctl_keyboard := \<lparr>kb_modifiers = m, kb_pressed_keys = take 10 (ks @ replicate 10 0)\<rparr>\<rparr>" for ks m
    by (simp add: keyboard_holding_def UNI_KEYBOARD_PRESSED_KEYS_MAX_def)
  ultimately show ?thesis by (cases "overruns [] fs") (auto simp del: take_append)
qed

text \<open>A boot keyboard that holds the left shift and two keys; the four free places of its array
  say 0, which is a key like any other to the driver. Two media keys follow.\<close>

definition keyboard_descriptor :: bytes where
  "keyboard_descriptor =
     [0x05, 0x07, 0x19, 0xe0, 0x29, 0xe7, 0x15, 0x00, 0x25, 0x01, 0x75, 0x01, 0x95, 0x08, 0x81, 0x02,
      0x19, 0x00, 0x29, 0x65, 0x25, 0x65, 0x75, 0x08, 0x95, 0x06, 0x81, 0x00,
      0x05, 0x0c, 0x25, 0x01, 0x75, 0x01, 0x95, 0x08, 0x09, 0xe9, 0x09, 0xea, 0x09, 0xcd, 0x09, 0xb5,
      0x09, 0xb6, 0x09, 0x30, 0x0a, 0x23, 0x02, 0x0a, 0x33, 0x02, 0x81, 0x02]"

definition example_keyboard :: keyboard_device where
  "example_keyboard = uni_hid_parser_keyboard_setup
     \<lparr>kd_vendor_id = 0x046d, kd_product_id = 0xb33b, kd_controller = zero_controller,
      kd_ins = \<lparr>kb_pressed_key_index = 0, kb_using_jx_05 = False, kb_jx_05 = zero_jx_05\<rparr>\<rparr>"

lemma example_fields:
  "map_option (mapR (\<lambda>fs. (keys_of fs, modifiers_of fs, overruns [] fs)))
     (report_fields keyboard_descriptor [0x02, 0x04, 0x05, 0, 0, 0, 0, 0x05] 8)
   = Some (Inr ([4, 5, 0, 0, 0, 0, 0x80, 0x48], 2, False))"
  "map_option (mapR (overruns []))
     (report_fields keyboard_descriptor [0x02, 0x04, 0x05, 0, 0, 0, 0, 0xff] 8)
   = Some (Inr True)"
  by code_simp+

theorem keyboard_report_keys_witness:
  "(\<exists>d'. uni_hid_parse_input_report keyboard_parser keyboard_descriptor
      [0x02, 0x04, 0x05, 0, 0, 0, 0, 0x05] 8 example_keyboard = Some (Inr d')
    \<and> kb_pressed_keys (ctl_keyboard (kd_controller d')) = [4, 5, 0, 0, 0, 0, 0x80, 0x48, 0, 0])
   \<and> uni_hid_parse_input_report keyboard_parser keyboard_descriptor
      [0x02, 0x04, 0x05, 0, 0, 0, 0, 0xff] 8 example_keyboard = Some (Inl Out_of_bounds)"
proof -
  have no_jx: "\<not> kb_using_jx_05 (kd_ins example_keyboard)" by code_simp
  obtain fs where fs: "report_fields keyboard_descriptor [0x02, 0x04, 0x05, 0, 0, 0, 0, 0x05] 8 = Some (Inr fs)"
    "keys_of fs = [4, 5, 0, 0, 0, 0, 0x80, 0x48]" "\<not> overruns [] fs"
    using example_fields(1) by (auto simp: mapR_Inr_iff)
  obtain gs where gs: "report_fields keyboard_descriptor [0x02, 0x04, 0x05, 0, 0, 0, 0, 0xff] 8 = Some (Inr gs)"
    "overruns [] gs"
    using example_fields(2) by (auto simp: mapR_Inr_iff)
  have "\<exists>d'. uni_hid_parse_input_report keyboard_parser keyboard_descriptor
      [0x02, 0x04, 0x05, 0, 0, 0, 0, 0x05] 8 example_keyboard = Some (Inr d')
    \<and> kb_pressed_keys (ctl_keyboard (kd_controller d')) = [4, 5, 0, 0, 0, 0, 0x80, 0x48, 0, 0]"
    using keyboard_report_keys [OF fs(1) no_jx] fs(2,3) by (auto simp: numeral_eq_Suc)
  moreover have "uni_hid_parse_input_report keyboard_parser keyboard_descriptor
      [0x02, 0x04, 0x05, 0, 0, 0, 0, 0xff] 8 example_keyboard = Some (Inl Out_of_bounds)"
    using keyboard_report_keys [OF gs(1) no_jx] gs(2) by auto
  ultimately show ?thesis by blast
qed

end
