(* ===== verification/Mouse.thy ===== *)
theory Mouse
  imports Usage_Parsers Hid_Device
begin

text \<open>
  The mouse driver, \<^verbatim>\<open>parser/uni_hid_parser_mouse.c\<close>: movements are scaled by a factor that a
  table holds for the few known mice, and clamped to what the quadrature encoder can take.

  A \<^verbatim>\<open>float\<close> is a pair of a mantissa \<open>m\<close> and an exponent \<open>k\<close> with the value \<open>m / 2 ^ k\<close>. The
  numbers here lie between 1/5 and 2 ^ 31, far from the ends of the exponent range, so that
  rounding to 24 significant bits is all that single precision does.
\<close>

section \<open>Single precision\<close>

type_synonym float32 = "int \<times> nat"

fun bit_length :: "nat \<Rightarrow> nat" where
  "bit_length n = (if n = 0 then 0 else Suc (bit_length (n div 2)))"

declare bit_length.simps [simp del]

text \<open>The quotient of a division by \<open>2 ^ s\<close>, rounded to the nearest, ties to even.\<close>

definition half_even :: "nat \<Rightarrow> nat \<Rightarrow> nat" where
  "half_even n s =
     (let q = n div 2 ^ s; r = n mod 2 ^ s
      in if 2 * r < 2 ^ s \<or> 2 * r = 2 ^ s \<and> even q then q else q + 1)"

definition round24_nat :: "nat \<Rightarrow> nat" where
  "round24_nat n = (let s = bit_length n - 24 in half_even n s * 2 ^ s)"

definition round24 :: "int \<Rightarrow> int" where
  "round24 m = sgn m * int (round24_nat (nat \<bar>m\<bar>))"

definition f32_of_int :: "int \<Rightarrow> float32" where
  "f32_of_int v = (round24 v, 0)"

definition f32_times :: "float32 \<Rightarrow> float32 \<Rightarrow> float32" where
  "f32_times a b = (round24 (fst a * fst b), snd a + snd b)"

definition f32_less :: "float32 \<Rightarrow> float32 \<Rightarrow> bool" where
  "f32_less a b \<longleftrightarrow> fst a * 2 ^ snd b < fst b * 2 ^ snd a"

text \<open>\<^verbatim>\<open>roundf\<close>: to the nearest integer, halves away from zero.\<close>

definition roundf :: "float32 \<Rightarrow> int" where
  "roundf a = sgn (fst a) * ((2 * \<bar>fst a\<bar> + 2 ^ snd a) div 2 ^ (snd a + 1))"

section \<open>The driver\<close>

record mouse_device =
  md_vendor_id :: u16
  md_product_id :: u16
  md_name :: bytes
  md_scale :: float32
  md_controller :: uni_controller

record mouse_resolution =
  mr_vid :: u16
  mr_pid :: u16
  mr_name :: "bytes option"
  mr_scale :: float32

text \<open>The decimal constants of the table as the nearest \<^verbatim>\<open>float\<close>.\<close>

definition F0_2 :: float32 where "F0_2 = (13421773, 26)"
definition F0_3334 :: float32 where "F0_3334 = (1398381, 22)"
definition F0_47 :: float32 where "F0_47 = (15770583, 25)"
definition F0_5 :: float32 where "F0_5 = (1, 1)"
definition F0_6667 :: float32 where "F0_6667 = (5592685, 23)"
definition F0_75 :: float32 where "F0_75 = (3, 2)"

text \<open>An entry of the table; strings are the bytes before the terminating zero.\<close>

definition resolution :: "u16 \<Rightarrow> u16 \<Rightarrow> bytes option \<Rightarrow> float32 \<Rightarrow> mouse_resolution" where
  "resolution v p n s = \<lparr>mr_vid = v, mr_pid = p, mr_name = n, mr_scale = s\<rparr>"

definition resolutions :: "mouse_resolution list" where
  "resolutions =
     [resolution 0x05ac 0x030d None F0_2,
      resolution 0x05ac 0x0269 None F0_2,
      resolution 0x004c 0x0269 None F0_2,
      resolution 0x05ac 0x030e None F0_47,
      resolution 0x0a5c 0x4503 (Some (ascii ''BM30X mouse'')) F0_3334,
      resolution 0x0a5c 0x4503 (Some (ascii ''Adesso Bluetooth 3.0 Mouse'')) F0_5,
      resolution 0x0a5c 0x0001 (Some (ascii ''BORND Bluetooth Mouse'')) F0_6667,
      resolution 0x046d 0xb016 (Some (ascii ''Bluetooth Mouse M336/M337/M535'')) F0_3334,
      resolution 0x046d 0xb007 (Some (ascii ''Logitech MX Revolution Mouse'')) F0_3334,
      resolution 0xae24 0x8618 (Some (ascii ''BT3.0 Mouse'')) F0_2,
      resolution 0xae24 0x8618 (Some (ascii ''BM20X-3.0'')) F0_2,
      resolution 0x03f0 0x084c (Some (ascii ''HP Bluetooth Mouse Z5000'')) F0_5,
      resolution 0x046d 0xb016 (Some (ascii ''ID0078A'')) F0_3334,
      resolution 0x248a 0x8266 None F0_75]"

primrec find_scale :: "mouse_device \<Rightarrow> mouse_resolution list \<Rightarrow> float32" where
  "find_scale d [] = (1, 0)"
| "find_scale d (r # rs) =
     (if mr_vid r = md_vendor_id d \<and> mr_pid r = md_product_id d
         \<and> (case mr_name r of None \<Rightarrow> True | Some name \<Rightarrow> name = md_name d)
      then mr_scale r else find_scale d rs)"

text \<open>\<^verbatim>\<open>uni_hid_parser_mouse_setup\<close>; the device is then completed by
  \<^verbatim>\<open>uni_hid_device_set_ready_complete\<close>.\<close>

definition uni_hid_parser_mouse_setup :: "mouse_device \<Rightarrow> mouse_device" where
  "uni_hid_parser_mouse_setup d = d\<lparr>md_scale := find_scale d resolutions\<rparr>"

definition process_mouse_delta :: "float32 \<Rightarrow> int \<Rightarrow> int" where
  "process_mouse_delta scale v =
     (if v = 0 then 0
      else let ret = f32_times (f32_of_int v) scale;
               ret1 = (if f32_less ret (-127, 0) then (-127, 0) else ret);
               ret2 = (if f32_less (127, 0) ret1 then (127, 0) else ret1);
               ret_i = roundf ret2
           in if ret_i = 0 then (if v < 0 then -1 else 1) else ret_i)"

definition uni_hid_parser_mouse_parse_input_report :: "bytes \<Rightarrow> nat \<Rightarrow> mouse_device \<Rightarrow> mouse_device cres" where
  "uni_hid_parser_mouse_parse_input_report report len d = Inr d"

definition uni_hid_parser_mouse_init_report :: "mouse_device \<Rightarrow> mouse_device" where
  "uni_hid_parser_mouse_init_report d =
     d\<lparr>md_controller := zero_controller\<lparr>ctl_klass := UNI_CONTROLLER_CLASS_MOUSE\<rparr>\<rparr>"

definition on_mouse :: "(uni_mouse \<Rightarrow> uni_mouse) \<Rightarrow> mouse_device \<Rightarrow> mouse_device cres" where
  "on_mouse f d =
     Inr (d\<lparr>md_controller := (md_controller d)\<lparr>ctl_mouse := f (ctl_mouse (md_controller d))\<rparr>\<rparr>)"

definition press_mouse :: "nat \<Rightarrow> int \<Rightarrow> mouse_device \<Rightarrow> mouse_device cres" where
  "press_mouse n v = (if v \<noteq> 0 then on_mouse (\<lambda>ms. ms\<lparr>ms_buttons := ms_buttons ms OR BIT n\<rparr>) else Inr)"

abbreviation (input) HID_USAGE_WHEEL :: u16 where "HID_USAGE_WHEEL \<equiv> 0x38"

definition uni_hid_parser_mouse_parse_usage :: "mouse_device usage_fn" where
  "uni_hid_parser_mouse_parse_usage g usage_page usage v d =
     switch usage_page
       [([HID_USAGE_PAGE_GENERIC_DESKTOP],
         switch usage
           [([HID_USAGE_AXIS_X], on_mouse (\<lambda>ms. ms\<lparr>ms_delta_x := process_mouse_delta (md_scale d) v\<rparr>)),
            ([HID_USAGE_AXIS_Y], on_mouse (\<lambda>ms. ms\<lparr>ms_delta_y := process_mouse_delta (md_scale d) v\<rparr>)),
            ([HID_USAGE_WHEEL], on_mouse (\<lambda>ms. ms\<lparr>ms_scroll_wheel := sint (word_of_int v :: 8 word)\<rparr>))]
           Inr),
        ([HID_USAGE_PAGE_BUTTON],
         switch usage
           [([0x01], press_mouse 0 v), ([0x02], press_mouse 1 v), ([0x03], press_mouse 2 v),
            ([0x04], press_mouse 3 v), ([0x05], press_mouse 4 v), ([0x06], press_mouse 5 v),
            ([0x07], press_mouse 6 v), ([0x08], press_mouse 7 v)]
           Inr),
        ([HID_USAGE_PAGE_GENERIC_DEVICE_CONTROLS],
         switch usage
           [([HID_USAGE_BATTERY_STRENGTH],
             \<lambda>d. Inr (d\<lparr>md_controller := (md_controller d)\<lparr>ctl_battery := word_of_int v\<rparr>\<rparr>))]
           Inr)]
       Inr d"

definition mouse_parser :: "mouse_device report_parser" where
  "mouse_parser =
     \<lparr>rp_init_report = Some uni_hid_parser_mouse_init_report,
      rp_parse_input_report = Some uni_hid_parser_mouse_parse_input_report,
      rp_parse_usage = Some uni_hid_parser_mouse_parse_usage\<rparr>"

section \<open>Rounding is monotone\<close>

lemma bit_length_bounds: "n < 2 ^ bit_length n" "0 < n \<Longrightarrow> 2 ^ (bit_length n - 1) \<le> n"
proof -
  have "n < 2 ^ bit_length n \<and> (0 < n \<longrightarrow> 2 ^ (bit_length n - 1) \<le> n)"
  proof (induction n rule: bit_length.induct)
    case (1 n)
    show ?case
    proof (cases "n = 0")
      case False
      with 1 have IH: "n div 2 < 2 ^ bit_length (n div 2)"
        "0 < n div 2 \<longrightarrow> 2 ^ (bit_length (n div 2) - 1) \<le> n div 2" by simp_all
      have bl: "bit_length n = Suc (bit_length (n div 2))" using False by (simp add: bit_length.simps)
      have "2 ^ bit_length (n div 2) \<le> n"
      proof (cases "n div 2 = 0")
        case True
        then show ?thesis using False by (simp add: bit_length.simps)
      next
        case False
        then have "(2::nat) ^ bit_length (n div 2) = 2 * 2 ^ (bit_length (n div 2) - 1)"
          by (metis bit_length.simps diff_Suc_1 power_Suc)
        with IH(2) False show ?thesis by linarith
      qed
      with IH(1) show ?thesis unfolding bl by simp
    qed (simp add: bit_length.simps)
  qed
  then show "n < 2 ^ bit_length n" "0 < n \<Longrightarrow> 2 ^ (bit_length n - 1) \<le> n" by simp_all
qed

lemma bit_length_mono: "n \<le> m \<Longrightarrow> bit_length n \<le> bit_length m"
proof (induction n arbitrary: m rule: bit_length.induct)
  case (1 n)
  then show ?case
    by (cases "n = 0") (simp_all add: bit_length.simps [of 0] bit_length.simps [of n] bit_length.simps [of m] div_le_mono)
qed

lemma half_even_mono:
  assumes "n \<le> m"
  shows "half_even n s \<le> half_even m s"
proof (cases "n div 2 ^ s = m div 2 ^ s")
  case True
  have "n mod 2 ^ s \<le> m mod 2 ^ s"
    using assms True mult_div_mod_eq [of "2 ^ s" n] mult_div_mod_eq [of "2 ^ s" m]
    by (metis add_le_cancel_left)
  with True show ?thesis by (auto simp: half_even_def Let_def)
next
  case False
  moreover have "n div 2 ^ s \<le> m div 2 ^ s" using assms by (rule div_le_mono)
  ultimately have "n div 2 ^ s + 1 \<le> m div 2 ^ s" by simp
  then show ?thesis by (auto simp: half_even_def Let_def)
qed

lemma half_even_exact: "half_even (2 ^ s * k) s = k"
  by (simp add: half_even_def Let_def)

lemma round24_nat_mono:
  assumes "n \<le> m"
  shows "round24_nat n \<le> round24_nat m"
proof (cases "bit_length n = bit_length m")
  case True
  then show ?thesis using half_even_mono [OF assms] by (simp add: round24_nat_def Let_def)
next
  case False
  let ?a = "bit_length n" and ?b = "bit_length m"
  have lt: "?a < ?b" using False bit_length_mono [OF assms] by simp
  then have m: "0 < m" by (cases "m = 0") (simp_all add: bit_length.simps [of 0])
  have pow: "(2::nat) ^ a = 2 ^ (a - 24) * 2 ^ (a - (a - 24))" for a
    by (simp flip: power_add)
  have pow': "(2::nat) ^ (b - 1) = 2 ^ (b - 24) * 2 ^ (b - 1 - (b - 24))" if "0 < b" for b
    using that by (simp flip: power_add)
  have "half_even n (?a - 24) \<le> half_even (2 ^ ?a) (?a - 24)"
    using bit_length_bounds(1) [of n] by (intro half_even_mono) simp
  also have "\<dots> = 2 ^ (?a - (?a - 24))" by (metis pow half_even_exact)
  finally have "round24_nat n \<le> 2 ^ ?a"
    using pow [of ?a] by (simp add: round24_nat_def Let_def mult.commute)
  also have "\<dots> \<le> 2 ^ (?b - 1)" using lt by (intro power_increasing) auto
  also have "\<dots> \<le> round24_nat m"
  proof -
    have "2 ^ (?b - 1 - (?b - 24)) = half_even (2 ^ (?b - 1)) (?b - 24)"
      using lt by (subst pow') (simp_all add: half_even_exact)
    also have "\<dots> \<le> half_even m (?b - 24)" using bit_length_bounds(2) [OF m] by (rule half_even_mono)
    finally show ?thesis using pow' [of ?b] lt by (simp add: round24_nat_def Let_def mult.commute)
  qed
  finally show ?thesis .
qed

lemma round24_nat_small: "n < 2 ^ 24 \<Longrightarrow> round24_nat n = n"
proof -
  assume n: "n < 2 ^ 24"
  have "bit_length n \<le> 24"
  proof (rule ccontr)
    assume "\<not> bit_length n \<le> 24"
    then have "(2::nat) ^ 24 \<le> 2 ^ (bit_length n - 1)" by (intro power_increasing) auto
    also have "\<dots> \<le> n" using \<open>\<not> bit_length n \<le> 24\<close>
      by (intro bit_length_bounds(2)) (cases "n = 0", simp_all add: bit_length.simps [of 0])
    finally show False using n by simp
  qed
  then show ?thesis by (simp add: round24_nat_def half_even_def Let_def)
qed

section \<open>Movements\<close>

text \<open>The size of the movement for a scale of \<open>m / 2 ^ k\<close>.\<close>

definition delta_size :: "nat \<Rightarrow> nat \<Rightarrow> nat \<Rightarrow> nat" where
  "delta_size m k n =
     (let p = round24_nat (round24_nat n * m)
      in if 127 * 2 ^ k < p then 127 else max 1 ((2 * p + 2 ^ k) div 2 ^ (k + 1)))"

lemma round24_nat_0 [simp]: "round24_nat 0 = 0"
  by (simp add: round24_nat_small)

lemma round24_signed: "s = 1 \<or> s = -1 \<Longrightarrow> round24 (s * int n) = s * int (round24_nat n)"
  by (auto simp: round24_def abs_mult sgn_mult)

lemma delta_size_range: "1 \<le> delta_size m k n" "delta_size m k n \<le> 127"
proof -
  have "(2 * p + 2 ^ k) div 2 ^ (k + 1) \<le> 127" if "p \<le> 127 * 2 ^ k" for p :: nat
  proof -
    have "(0::nat) < 2 ^ k" by simp
    then have "2 * p + 2 ^ k < 256 * 2 ^ k" using that by linarith
    then have "2 * p + 2 ^ k < 128 * 2 ^ (k + 1)" by simp
    then have "(2 * p + 2 ^ k) div 2 ^ (k + 1) < 128" by (rule less_mult_imp_div_less)
    then show ?thesis by simp
  qed
  then show "1 \<le> delta_size m k n" "delta_size m k n \<le> 127" by (simp_all add: delta_size_def Let_def)
qed

lemma delta_size_mono:
  assumes "n \<le> n'"
  shows "delta_size m k n \<le> delta_size m k n'"
proof -
  let ?p = "\<lambda>n. round24_nat (round24_nat n * m)"
  have p: "?p n \<le> ?p n'" using assms by (intro round24_nat_mono mult_le_mono) simp_all
  then have "(2 * ?p n + 2 ^ k) div 2 ^ (k + 1) \<le> (2 * ?p n' + 2 ^ k) div 2 ^ (k + 1)"
    by (intro div_le_mono) simp
  with p delta_size_range(2) [of m k n] show ?thesis
    by (auto simp: delta_size_def Let_def)
qed

lemma delta_size_unscaled: "0 < n \<Longrightarrow> delta_size 1 0 n = min 127 n"
  using round24_nat_mono [of 128 n] round24_nat_mono [of "round24_nat 128" "round24_nat n"]
  by (cases "n < 128") (simp_all add: delta_size_def round24_nat_small)

text \<open>The second half of the conversion, for a signed product.\<close>

definition clamp_delta :: "bool \<Rightarrow> float32 \<Rightarrow> int" where
  "clamp_delta neg ret =
     (let ret1 = (if f32_less ret (-127, 0) then (-127, 0) else ret);
          ret2 = (if f32_less (127, 0) ret1 then (127, 0) else ret1);
          ret_i = roundf ret2
      in if ret_i = 0 then (if neg then -1 else 1) else ret_i)"

lemma clamp_delta_signed:
  fixes p :: int and k :: nat
  assumes p: "0 \<le> p"
  defines "q \<equiv> (if 127 * 2 ^ k < p then 127 else max 1 ((2 * p + 2 ^ k) div 2 ^ (k + 1)))"
  shows "clamp_delta False (p, k) = q" and "clamp_delta True (- p, k) = - q"
proof -
  have k: "(0::int) < 2 ^ k" by simp
  have roundp: "roundf (p, k) = (2 * p + 2 ^ k) div 2 ^ (k + 1)" "roundf (- p, k) = - ((2 * p + 2 ^ k) div 2 ^ (k + 1))"
    using p by (cases "p = 0"; simp add: roundf_def sgn_if)+
  have q0: "0 \<le> (2 * p + 2 ^ k) div 2 ^ (k + 1)" using p by (simp add: pos_imp_zdiv_nonneg_iff)
  have r127: "roundf (127, 0) = 127" "roundf (-127, 0) = -127" by (simp_all add: roundf_def)
  have less: "f32_less (p, k) (-127, 0) = False" "f32_less (127, 0) (- p, k) = False"
    "f32_less (127, 0) (p, k) = (127 * 2 ^ k < p)" "f32_less (- p, k) (-127, 0) = (127 * 2 ^ k < p)"
    "f32_less (127, 0) (-127, 0) = False"
    using p k by (auto simp: f32_less_def not_less intro: order_trans [of _ 0])
  show "clamp_delta False (p, k) = q"
    using q0 by (simp add: clamp_delta_def less r127 roundp q_def max_def del: power_Suc)
  show "clamp_delta True (- p, k) = - q"
    using q0 by (simp add: clamp_delta_def less r127 roundp q_def max_def del: power_Suc)
qed

lemma process_mouse_delta_size:
  assumes "v \<noteq> 0"
  shows "process_mouse_delta (int m, k) v = sgn v * int (delta_size m k (nat \<bar>v\<bar>))"
proof -
  let ?p = "round24_nat (round24_nat (nat \<bar>v\<bar>) * m)"
  have s: "sgn v = 1 \<or> sgn v = -1" using assms by (simp add: sgn_if)
  have v: "v = sgn v * int (nat \<bar>v\<bar>)" by (simp add: sgn_mult_abs)
  have "round24 (sgn v * int (round24_nat (nat \<bar>v\<bar>)) * int m) = sgn v * int ?p"
    using round24_signed [OF s, of "round24_nat (nat \<bar>v\<bar>) * m"] by (simp add: mult.assoc)
  then have ret: "f32_times (f32_of_int v) (int m, k) = (sgn v * int ?p, k)"
    using round24_signed [OF s, of "nat \<bar>v\<bar>"] v by (simp add: f32_times_def f32_of_int_def)
  have big: "127 * 2 ^ k < ?p \<longleftrightarrow> 127 * 2 ^ k < int ?p"
    by (metis of_nat_less_iff of_nat_mult of_nat_numeral of_nat_power)
  have quot: "int (max 1 ((2 * p + 2 ^ k) div 2 ^ (k + 1))) = max 1 ((2 * int p + 2 ^ k) div 2 ^ (k + 1))"
    for p :: nat
    by (simp only: of_nat_max zdiv_int of_nat_add of_nat_mult of_nat_power of_nat_numeral of_nat_1)
  have D: "int (delta_size m k (nat \<bar>v\<bar>)) =
      (if 127 * 2 ^ k < int ?p then 127 else max 1 ((2 * int ?p + 2 ^ k) div 2 ^ (k + 1)))"
    unfolding delta_size_def Let_def big by (simp only: quot if_distrib [of int] of_nat_numeral)
  have "process_mouse_delta (int m, k) v = clamp_delta (v < 0) (sgn v * int ?p, k)"
    unfolding process_mouse_delta_def clamp_delta_def ret using assms by simp
  also have "\<dots> = sgn v * int (delta_size m k (nat \<bar>v\<bar>))"
    using s clamp_delta_signed [of "int ?p" k] assms unfolding D
    by (cases "v < 0") (simp_all del: power_Suc)
  finally show ?thesis .
qed

lemma process_mouse_delta_0 [simp]: "process_mouse_delta scale 0 = 0"
  by (simp add: process_mouse_delta_def)

lemma mouse_delta_mono:
  assumes "v \<le> w"
  shows "process_mouse_delta (int m, k) v \<le> process_mouse_delta (int m, k) w"
proof -
  have pos: "process_mouse_delta (int m, k) u = int (delta_size m k (nat u))" if "0 < u" for u
    using process_mouse_delta_size [of u m k] that by simp
  have neg: "process_mouse_delta (int m, k) u = - int (delta_size m k (nat (- u)))" if "u < 0" for u
    using process_mouse_delta_size [of u m k] that by simp
  consider "0 < v" | "w < 0" | "v \<le> 0" "0 \<le> w" using assms by linarith
  then show ?thesis
  proof cases
    case 1
    then show ?thesis using assms delta_size_mono [of "nat v" "nat w" m k] by (simp add: pos)
  next
    case 2
    then show ?thesis using assms delta_size_mono [of "nat (- w)" "nat (- v)" m k] by (simp add: neg)
  next
    case 3
    have "process_mouse_delta (int m, k) v \<le> 0" using 3(1) neg [of v] by (cases "v = 0") simp_all
    moreover have "0 \<le> process_mouse_delta (int m, k) w" using 3(2) pos [of w] by (cases "w = 0") simp_all
    ultimately show ?thesis by simp
  qed
qed

lemma find_scale_table:
  assumes "list_all (\<lambda>r. 0 < fst (mr_scale r)) rs"
  shows "\<exists>m. fst (find_scale d rs) = int m"
proof -
  have "0 < fst (find_scale d rs)" using assms by (induction rs) auto
  then have "fst (find_scale d rs) = int (nat (fst (find_scale d rs)))" by simp
  then show ?thesis by blast
qed

text \<open>A mouse without an entry in the table.\<close>

definition unlisted :: "mouse_device \<Rightarrow> bool" where
  "unlisted d \<longleftrightarrow> list_all (\<lambda>r. \<not> (mr_vid r = md_vendor_id d \<and> mr_pid r = md_product_id d)) resolutions"

lemma unlisted_scale: "unlisted d \<Longrightarrow> find_scale d resolutions = (1, 0)"
proof -
  have "list_all (\<lambda>r. \<not> (mr_vid r = md_vendor_id d \<and> mr_pid r = md_product_id d)) rs
    \<Longrightarrow> find_scale d rs = (1, 0)" for rs by (induction rs) auto
  then show "unlisted d \<Longrightarrow> find_scale d resolutions = (1, 0)" by (simp add: unlisted_def)
qed

text \<open>Whatever mouse it is, a movement is reported with its direction, bounded by 127, never as
  none, symmetrically, and a larger movement never as a smaller one; a mouse without an entry in
  the table moves as its report says, up to that bound.\<close>

theorem mouse_movements:
  assumes "scale = md_scale (uni_hid_parser_mouse_setup d)" and "v \<le> w"
  shows "\<bar>process_mouse_delta scale v\<bar> \<le> 127
    \<and> sgn (process_mouse_delta scale v) = sgn v
    \<and> process_mouse_delta scale (- v) = - process_mouse_delta scale v
    \<and> process_mouse_delta scale v \<le> process_mouse_delta scale w
    \<and> (unlisted d \<longrightarrow> process_mouse_delta scale v = max (-127) (min 127 v))"
proof -
  have "list_all (\<lambda>r. 0 < fst (mr_scale r)) resolutions"
    by (simp add: resolutions_def resolution_def F0_2_def F0_3334_def F0_47_def F0_5_def F0_6667_def F0_75_def)
  then obtain m k where mk: "scale = (int m, k)"
    using find_scale_table assms(1) by (metis prod.collapse uni_hid_parser_mouse_setup_def
        mouse_device.simps(4) mouse_device.surjective mouse_device.update_convs(4))
  have one: "process_mouse_delta (1, 0) v = sgn v * min 127 \<bar>v\<bar>"
    using process_mouse_delta_size [of v 1 0] delta_size_unscaled [of "nat \<bar>v\<bar>"] by (cases "v = 0") auto
  have "unlisted d \<Longrightarrow> process_mouse_delta scale v = max (-127) (min 127 v)"
    using one assms(1) unlisted_scale [of d]
    by (simp add: uni_hid_parser_mouse_setup_def sgn_if max_def min_def)
  moreover have "process_mouse_delta scale v \<le> process_mouse_delta scale w"
    unfolding mk by (rule mouse_delta_mono [OF assms(2)])
  ultimately show ?thesis
    using process_mouse_delta_size [of v m k] process_mouse_delta_size [of "- v" m k]
      delta_size_range [of m k "nat \<bar>v\<bar>"]
    by (cases "v = 0") (auto simp: mk abs_mult sgn_mult)
qed

definition magic_mouse :: mouse_device where
  "magic_mouse = \<lparr>md_vendor_id = 0x05ac, md_product_id = 0x030d, md_name = [], md_scale = (0, 0),
     md_controller = zero_controller\<rparr>"

lemma magic_scale: "md_scale (uni_hid_parser_mouse_setup magic_mouse) = (13421773, 26)"
  by (simp add: uni_hid_parser_mouse_setup_def magic_mouse_def resolutions_def resolution_def F0_2_def)

theorem mouse_movements_witness:
  "process_mouse_delta (md_scale (uni_hid_parser_mouse_setup magic_mouse)) 2
     \<le> process_mouse_delta (md_scale (uni_hid_parser_mouse_setup magic_mouse)) 700
   \<and> process_mouse_delta (md_scale (uni_hid_parser_mouse_setup magic_mouse)) 2 = 1
   \<and> process_mouse_delta (md_scale (uni_hid_parser_mouse_setup magic_mouse)) 700 = 127"
proof -
  have "process_mouse_delta (md_scale (uni_hid_parser_mouse_setup magic_mouse)) 2 = 1
   \<and> process_mouse_delta (md_scale (uni_hid_parser_mouse_setup magic_mouse)) 700 = 127"
    by (simp add: magic_scale process_mouse_delta_def f32_times_def f32_of_int_def f32_less_def roundf_def
        round24_def round24_nat_def half_even_def bit_length.simps Let_def)
  then show ?thesis using mouse_movements [OF refl, of 2 700 magic_mouse] by simp
qed

end
