(* ===== verification/Spec2Isabelle.thy ===== *)
theory Spec2Isabelle
  imports Circular_Buffer Crc32 Hid_Layout Rumble Device_Limits Ds3 Ds4 Ds5 Switch_Setup Bt_Allowlist Bt_Path
    Keyboard Mouse
begin

text \<open>
  A model of the controller firmware of the K-2SO head: Bluepad32
  (\<^verbatim>\<open>components/bluepad32\<close>, \<^verbatim>\<open>components/bluepad32_arduino\<close>) with the parts of BTstack that decode
  what a controller sends. The firmware finds game controllers over Bluetooth, connects them,
  asks what they are, decodes their reports into a common gamepad, and hands that to the
  application, which sits on another core and reads one of four seats.

  \<^bold>\<open>Conventions.\<close> A \<^verbatim>\<open>uintN_t\<close> is a word of that width and wraps; an \<^verbatim>\<open>int32_t\<close> is an \<open>int\<close> with
  checked operations, because its overflow is undefined. What C leaves undefined, a read behind an
  array, a failed \<^verbatim>\<open>btstack_assert\<close> and a call that never returns are values of \<open>c_error\<close>, and an
  operation that can meet one, or the use of a null pointer, has the result type \<open>'a cres\<close>. A loop that might not end is a
  \<open>partial_function (option)\<close>. Structs are records, enumerations are datatypes, and a pointer to a
  device is its slot number. Handlers and timers are steps on an explicit state: \<open>run_steps\<close> feeds
  a component any sequence of them. Logging is left out, except where what is logged can lie outside its array. Timers
  that the run loop holds are part of the state, and registering one twice or clearing one that is
  registered is an error.

  \<^bold>\<open>Reports.\<close> \<open>Hid_Descriptor\<close> and \<open>Hid_Report\<close> are \<^verbatim>\<open>btstack_hid_parser.c\<close>: items, usages, and
  fields, which the device chooses freely. \<open>Hid_Values\<close> is the conversion of values
  (\<^verbatim>\<open>parser/uni_hid_parser.c\<close>), \<open>Hid_Input\<close> the loop over the fields of a report, \<open>Usage_Parsers\<close>
  the drivers that work field by field (Android, 8BitDo, generic, Nimbus, OUYA, Smart TV, Xbox),
  and \<open>Hid_Layout\<close> states for which descriptors they deliver calibrated values.
  \<open>Gamepad\<close> is the common gamepad and its mappings (\<^verbatim>\<open>controller/uni_gamepad.c\<close>).
  The properties here: parsing returns on all inputs, the gamepad is well formed or the descriptor
  does not describe the report, fields are read exactly, conversions are bounded and monotone.
  \<open>Keyboard\<close> and \<open>Mouse\<close> are two more drivers of this kind: the keys that a report leaves, and
  movements in single precision.

  \<^bold>\<open>Drivers.\<close> \<open>Rumble\<close> is the force feedback of the Xbox and Stadia drivers, with the contexts of
  their timers; \<open>Playstation\<close>, \<open>Ds3\<close>,
  \<open>Ds4\<close> and \<open>Ds5\<close> are the PlayStation drivers: setup, feature reports, calibration, input and output
  reports, lights, motors, adaptive triggers. Each driver is an event machine, and the properties
  list the events and states in which it can fail, over all orders of requests, reports and timers,
  exhibit runs that do, and say what the last report to the controller holds. \<open>Switch_Rumble\<close>, \<open>Switch_Sticks\<close> and \<open>Switch\<close> are the driver of the
  Nintendo Switch controllers (\<^verbatim>\<open>parser/uni_hid_parser_switch.c\<close>): the tables of its rumble, the
  calibration of sticks and sensors, the setup dialogue and the reports; \<open>Switch_Safe\<close> says when it
  can fail, \<open>Switch_Setup\<close> refines the dialogue to a script of seven commands. \<open>Crc32\<close> is the checksum
  of the PlayStation reports (\<^verbatim>\<open>uni_utils.c\<close>). The contracts
  \<open>safe_machine\<close> and \<open>fallible_machine\<close> of the prelude, and \<open>rumble_driver\<close>, carry the inductions.

  \<^bold>\<open>Devices.\<close> \<open>Controller_Type\<close> is the list of known controllers, \<open>Hid_Device\<close> and
  \<open>Hid_Lifecycle\<close> are \<^verbatim>\<open>uni_hid_device.c\<close>: the table of four slots, the choice of a driver,
  creation, connection, readiness, disconnection, virtual children, the special buttons.
  \<open>Circular_Buffer\<close> is the queue of outgoing reports of a device (\<^verbatim>\<open>uni_circular_buffer.c\<close>), with
  the contract \<open>bounded_fifo\<close>. \<open>Arduino_Platform\<close> is \<^verbatim>\<open>arduino_platform.c\<close>: seats, the request
  queue and the calls of the application. The contract \<open>hid_platform\<close> is what the table asks of a
  platform, and the invariant of the table is proved once inside it. The timers of a slot are those of
  the device and those that its driver keeps in \<^verbatim>\<open>parser_data\<close>; what a driver does with its own is, for
  the table, any order of registrations and removals. \<open>hid_failure\<close> lists what stops the table.
  \<open>Device_Behaviour\<close> and \<open>Device_Limits\<close> hold what the composition does for its user, and the
  reachable states in which it breaks its own rules.

  \<^bold>\<open>Connections.\<close> \<open>Sdp_Elements\<close> reads the answers to SDP queries (\<^verbatim>\<open>sdp_util.c\<close>),
  \<open>Bt_Connection\<close> is the state machine of classic Bluetooth with every handler, the queries and
  their lock (\<^verbatim>\<open>bt/uni_bt_bredr.c\<close>, \<^verbatim>\<open>bt/uni_bt_sdp.c\<close>, \<^verbatim>\<open>bt/uni_bt.c\<close>), over the device table.
  What BTstack answers comes with the event, and calls to it are recorded. \<open>Bt_Behaviour\<close> holds
  orders of events that go wrong, \<open>Bt_Path\<close> the way of a controller from the inquiry to its seat.
  \<open>Property\<close> is the table of settings over the storage of the ESP-IDF, a parameter with its
  documented promise \<open>nvs_works\<close>, and \<open>Bt_Allowlist\<close> the list of addresses that may connect, which
  refines a bounded set that survives restarts.

  \<^bold>\<open>Bounds and fuel.\<close> \<open>CONFIG_BLUEPAD32_MAX_DEVICES\<close> is 4. The chains of virtual children have
  the fuel 5, one more than there are slots, and \<open>disconnect_always_returns\<close> shows that it is never
  used up; the state machine of a connection calls itself through the end of a query with the fuel
  2, and \<open>fsm_recursion_bounded\<close> shows that a third call is never made, whatever stood in its
  place, so that the equation of the code holds. The scenarios of
  \<open>Bt_Behaviour\<close> and \<open>Bt_Path\<close> start from the booted firmware and are about slot 0.

  \<^bold>\<open>Not modelled.\<close> The low energy handlers, the GATT service and the setup of the stack
  (\<^verbatim>\<open>uni_bt_le.c\<close>, \<^verbatim>\<open>uni_bt_service.c\<close>, \<^verbatim>\<open>uni_bt_setup.c\<close>): sequences of calls into BTstack. The
  drivers of the Wii, PS Move and Steam controllers with their own setup dialogues, the dump of the
  flash memory of a Switch controller, which is not compiled in, and the iCade and Atari
  parsers. Interleavings of the two cores inside one call. The boards with joystick ports, which this firmware does not build. The
  console. The rest of BTstack and the vendored libraries. The application of the head, C++ under
  \<^verbatim>\<open>main/\<close>, which drives servos, LEDs and sound through libraries.
\<close>

end
